(* ===== verification/Flagr_Prelude.thy ===== *)
theory Flagr_Prelude
  imports Main "HOL-Library.Word" "HOL-Library.AList" "HOL-Library.Sublist"
    "HOL-Library.Multiset"
begin

text \<open>
  Shared vocabulary of the development: Go's machine integers as words, run-time panics and
  Go errors as sums, decimal printing as done by \<^verbatim>\<open>fmt\<close>, the first-occurrence
  deduplication of a slice, Go maps as association lists with distinct keys, and the generic
  lemmas that the component theories use.
\<close>

section \<open>Lemma collections\<close>

named_theorems flagr_simps \<open>unfolding equations of the small model operations\<close>
named_theorems flagr_split \<open>case distinctions of the small model operations\<close>

section \<open>Machine integers\<close>

text \<open>
  Flagr runs on 64-bit targets: \<^verbatim>\<open>uint\<close> and \<^verbatim>\<open>int\<close> have 64 bits. A signed value
  is a word read with \<^const>\<open>sint\<close> and compared with \<^const>\<open>word_sle\<close>; the Go conversions
  \<^verbatim>\<open>uint(x)\<close>, \<^verbatim>\<open>int(x)\<close> and \<^verbatim>\<open>int64(x)\<close> between 64-bit types keep the bits.
\<close>

type_synonym u8 = "8 word"
type_synonym u32 = "32 word"
type_synonym u64 = "64 word"
type_synonym i64 = "64 word"

definition int64_of_uint :: "u64 \<Rightarrow> i64" where
  "int64_of_uint x = x"

definition uint_of_int64 :: "i64 \<Rightarrow> u64" where
  "uint_of_int64 x = x"

lemma uint_of_int64_inverse [simp]: "uint_of_int64 (int64_of_uint x) = x"
  by (simp add: int64_of_uint_def uint_of_int64_def)

lemma int64_of_uint_inverse [simp]: "int64_of_uint (uint_of_int64 x) = x"
  by (simp add: int64_of_uint_def uint_of_int64_def)

lemma int64_of_uint_eq_iff [simp]: "int64_of_uint x = int64_of_uint y \<longleftrightarrow> x = y"
  by (simp add: int64_of_uint_def)

lemma int64_of_uint_0 [simp]: "int64_of_uint x = 0 \<longleftrightarrow> x = 0"
  by (simp add: int64_of_uint_def)

text \<open>Small values: below \<open>2 ^ 63\<close> the signed reading is the unsigned one.\<close>

lemma sint_eq_unat_small:
  fixes x :: u64
  assumes "unat x < 2 ^ 63"
  shows "sint x = int (unat x)"
proof -
  have "int (unat x) < int (2 ^ 63)"
    using assms by (simp only: of_nat_less_iff)
  then have lt: "uint x < 2 ^ 63" by simp
  have "sint x = signed_take_bit 63 (uint x)"
    by (simp add: sint_uint)
  also have "\<dots> = uint x"
    using lt by (intro signed_take_bit_int_eq_self) (auto intro: order_trans [OF _ uint_ge_0])
  finally show ?thesis by simp
qed

lemma unat_uint_of_int64 [simp]: "unat (uint_of_int64 x) = unat x"
  by (simp add: uint_of_int64_def)

section \<open>Panics, errors and early exits\<close>

text \<open>
  A Go function may panic: the panic is a value of the left summand. A Go error result
  \<^verbatim>\<open>(value, error)\<close> is a sum as well, with the error's text on the left. One bind serves
  both: it leaves at the first failure, as an early return or a panic does.
\<close>

datatype go_panic = NilDeref | IndexOutOfRange | PanicValue string

type_synonym 'a go = "go_panic + 'a"
type_synonym error = string
type_synonym 'a err = "error + 'a"

definition sum_bind :: "'e + 'a \<Rightarrow> ('a \<Rightarrow> 'e + 'b) \<Rightarrow> 'e + 'b" where
  "sum_bind m f = (case m of Inl e \<Rightarrow> Inl e | Inr x \<Rightarrow> f x)"

lemma sum_bind_Inl [simp]: "sum_bind (Inl e) f = Inl e"
  by (simp add: sum_bind_def)

lemma sum_bind_Inr [simp]: "sum_bind (Inr x) f = f x"
  by (simp add: sum_bind_def)

lemma sum_bind_eq_Inr_iff: "sum_bind m f = Inr y \<longleftrightarrow> (\<exists>x. m = Inr x \<and> f x = Inr y)"
  by (cases m) auto

lemma sum_bind_eq_Inl_iff:
  "sum_bind m f = Inl e \<longleftrightarrow> m = Inl e \<or> (\<exists>x. m = Inr x \<and> f x = Inl e)"
  by (cases m) auto

lemma sum_bind_split:
  "P (sum_bind m f) \<longleftrightarrow> (\<forall>e. m = Inl e \<longrightarrow> P (Inl e)) \<and> (\<forall>x. m = Inr x \<longrightarrow> P (f x))"
  by (cases m) auto

text \<open>Wrapping the text of an error leaves the successful results alone.\<close>

lemma wrap_err_Inr_iff [simp]:
  "(case m of Inl e \<Rightarrow> Inl (g e) | Inr x \<Rightarrow> Inr x) = Inr y \<longleftrightarrow> m = Inr y"
  by (cases m) auto

text \<open>A Go loop over a slice that stops at the first failing element.\<close>

fun sum_mapM :: "('a \<Rightarrow> 'e + 'b) \<Rightarrow> 'a list \<Rightarrow> 'e + 'b list" where
  "sum_mapM f [] = Inr []"
| "sum_mapM f (x # xs) = sum_bind (f x) (\<lambda>y. sum_bind (sum_mapM f xs) (\<lambda>ys. Inr (y # ys)))"

lemma sum_mapM_Inr_iff: "sum_mapM f xs = Inr ys \<longleftrightarrow> list_all2 (\<lambda>x y. f x = Inr y) xs ys"
  by (induction xs arbitrary: ys)
    (auto simp: sum_bind_eq_Inr_iff list_all2_Cons1)

lemma sum_mapM_all_Inr: "(\<And>x. x \<in> set xs \<Longrightarrow> f x = Inr (g x)) \<Longrightarrow> sum_mapM f xs = Inr (map g xs)"
  by (induction xs) auto

lemma sum_mapM_length: "sum_mapM f xs = Inr ys \<Longrightarrow> length ys = length xs"
  by (simp add: sum_mapM_Inr_iff list_all2_lengthD)

lemma map_eq_list_all2:
  "list_all2 R xs ys \<Longrightarrow> (\<And>x y. R x y \<Longrightarrow> g y = g x) \<Longrightarrow> map g ys = map g xs"
  by (induction rule: list_all2_induct) auto

lemma list_all2_in_left: "list_all2 R xs ys \<Longrightarrow> x \<in> set xs \<Longrightarrow> \<exists>y \<in> set ys. R x y"
  by (metis in_set_conv_nth list_all2_conv_all_nth)

lemma list_all2_in_right: "list_all2 R xs ys \<Longrightarrow> y \<in> set ys \<Longrightarrow> \<exists>x \<in> set xs. R x y"
  by (metis in_set_conv_nth list_all2_conv_all_nth)

section \<open>Decimal printing\<close>

text \<open>What \<^verbatim>\<open>fmt\<close> prints for \<^verbatim>\<open>%d\<close> and \<^verbatim>\<open>%v\<close> of an integer.\<close>

fun dec :: "nat \<Rightarrow> string" where
  "dec n = (if n < 10 then [char_of (48 + n)] else dec (n div 10) @ [char_of (48 + n mod 10)])"

declare dec.simps [simp del]

definition dec_uint :: "u64 \<Rightarrow> string" where
  "dec_uint x = dec (unat x)"

definition dec_int :: "i64 \<Rightarrow> string" where
  "dec_int x = (if sint x < 0 then CHR ''-'' # dec (nat (- sint x)) else dec (nat (sint x)))"

definition undec :: "string \<Rightarrow> nat" where
  "undec = foldl (\<lambda>a c. 10 * a + (of_char c - 48)) 0"

lemma undec_dec: "undec (dec n) = n"
proof (induction n rule: dec.induct)
  case (1 n)
  show ?case
  proof (cases "n < 10")
    case True
    then show ?thesis by (subst dec.simps) (simp add: undec_def)
  next
    case False
    then have "undec (dec (n div 10)) = n div 10" using "1.IH" by simp
    moreover have "48 + n mod 10 < 256" by simp
    ultimately show ?thesis using False
      by (subst dec.simps) (simp add: undec_def)
  qed
qed

lemma dec_inject [simp]: "dec m = dec n \<longleftrightarrow> m = n"
  by (metis undec_dec)

lemma dec_uint_inject [simp]: "dec_uint x = dec_uint y \<longleftrightarrow> x = y"
  by (simp add: dec_uint_def word_unat_eq_iff)

lemma dec_nonempty [simp]: "dec n \<noteq> []"
  by (subst dec.simps) simp

lemma dec_uint_digits:
  "dec_uint 0 = ''0''" "dec_uint 1 = ''1''" "dec_uint 7 = ''7''" "dec_uint 8 = ''8''"
  by (simp_all add: dec_uint_def dec.simps char_of_def bit_Suc_0_iff)

lemma dec_uint_eq_zero_iff: "dec_uint x = ''0'' \<longleftrightarrow> x = 0"
  unfolding dec_uint_digits(1) [symmetric] by (rule dec_uint_inject)

lemma dec_uint_nonempty [simp]: "dec_uint x \<noteq> []"
  by (simp add: dec_uint_def)

definition is_digit :: "char \<Rightarrow> bool" where
  "is_digit c \<longleftrightarrow> 48 \<le> (of_char c :: nat) \<and> (of_char c :: nat) \<le> 57"

lemma dec_digits: "c \<in> set (dec n) \<Longrightarrow> is_digit c"
proof (induction n rule: dec.induct)
  case (1 n)
  have small: "(48 + n mod 10) mod 256 = 48 + n mod 10" by simp
  show ?case
  proof (cases "n < 10")
    case True
    with "1.prems" show ?thesis by (subst (asm) dec.simps) (auto simp: is_digit_def)
  next
    case False
    with "1.prems" have "c \<in> set (dec (n div 10)) \<or> c = char_of (48 + n mod 10)"
      by (subst (asm) dec.simps) auto
    then show ?thesis
      using "1.IH" False small by (auto simp: is_digit_def)
  qed
qed

section \<open>Go maps as association lists\<close>

text \<open>
  A Go map is an association list with distinct keys: a store is \<^const>\<open>AList.update\<close>, a
  lookup \<^const>\<open>map_of\<close>, a deletion \<^const>\<open>AList.delete\<close>. The order of the list stands for the
  unspecified order in which \<^verbatim>\<open>range\<close> visits a map.
\<close>

definition copy_map :: "('k \<times> 'v) list \<Rightarrow> ('k \<times> 'v) list \<Rightarrow> ('k \<times> 'v) list" where
  "copy_map dst src = fold (\<lambda>(k, v) m. AList.update k v m) src dst"

lemma map_of_copy_map:
  assumes "distinct (map fst src)"
  shows "map_of (copy_map dst src) = map_of dst ++ map_of src"
  using assms unfolding copy_map_def
proof (induction src arbitrary: dst)
  case Nil
  then show ?case by simp
next
  case (Cons p src)
  obtain k v where p: "p = (k, v)" by (cases p)
  from Cons p have "map_of (fold (\<lambda>(k, v) m. AList.update k v m) (p # src) dst)
      = map_of (AList.update k v dst) ++ map_of src" by simp
  also have "\<dots> = map_of dst ++ map_of (p # src)"
  proof -
    have "map_of src k = None"
      using Cons.prems p by (simp add: map_of_eq_None_iff)
    then show ?thesis
      by (auto simp: p fun_eq_iff update_conv' map_add_def split: option.splits)
  qed
  finally show ?case .
qed

lemma distinct_copy_map: "distinct (map fst dst) \<Longrightarrow> distinct (map fst (copy_map dst src))"
  unfolding copy_map_def
  by (induction src arbitrary: dst) (auto simp: distinct_update split: prod.splits)

end
