(* ===== verification/Flagr_Lib.thy ===== *)
theory Flagr_Lib
  imports Flagr_Prelude
begin

text \<open>
  The third-party code Flagr calls, as parameters: the conversions of
  \<^verbatim>\<open>github.com/spf13/cast\<close> and the parser and evaluator of
  \<^verbatim>\<open>github.com/zhouzhuojie/conditions\<close>. Neither is part of the repository, so each is a
  record of functions that the model takes as an argument; the locale \<open>cast_laws\<close> states what
  the documentation of \<^verbatim>\<open>cast\<close> promises about the conversions Flagr relies on, and
  \<open>go_cast\<close> is a concrete instance that satisfies it.
\<close>

section \<open>Values of the Go type any\<close>

text \<open>
  The dynamic values that reach Flagr: decoded JSON (numbers keep their text, as
  \<^verbatim>\<open>json.Number\<close> does) and the typed arguments that the handlers pass to \<^verbatim>\<open>cast\<close>.
\<close>

datatype goval =
    VNil
  | VBool bool
  | VNumber string
  | VString string
  | VSlice "goval list"
  | VMap "(string \<times> goval) list"
  | VUint u64
  | VInt64 i64
  | VPtrString "string option"
  | VPtrInt64 "i64 option"

section \<open>The conversions of cast\<close>

record cast_lib =
  cast_ToString :: "goval \<Rightarrow> string"
  cast_ToUint :: "goval \<Rightarrow> u64"

locale cast_laws =
  fixes C :: cast_lib
  assumes ToString_string: "cast_ToString C (VString s) = s"
    and ToString_uint: "cast_ToString C (VUint n) = dec_uint n"
    and ToString_int64: "cast_ToString C (VInt64 m) = dec_int m"
    and ToString_ptr: "cast_ToString C (VPtrString p) = (case p of None \<Rightarrow> [] | Some s \<Rightarrow> s)"
    and ToUint_uint: "cast_ToUint C (VUint n) = n"
    and ToUint_int64: "cast_ToUint C (VInt64 m) = (if sint m < 0 then 0 else m)"
    and ToUint_ptr: "cast_ToUint C (VPtrInt64 q) =
      (case q of None \<Rightarrow> 0 | Some m \<Rightarrow> if sint m < 0 then 0 else m)"
begin

lemmas cast_simps =
  ToString_string ToString_uint ToString_int64 ToString_ptr ToUint_uint ToUint_int64 ToUint_ptr

lemma ToUint_small: "unat m < 2 ^ 63 \<Longrightarrow> cast_ToUint C (VInt64 m) = m"
  by (simp add: ToUint_int64 sint_eq_unat_small)

lemma ToUint_zero [simp]: "cast_ToUint C (VInt64 0) = 0"
  by (simp add: ToUint_int64)

end

definition go_cast :: cast_lib where
  "go_cast = \<lparr>
     cast_ToString = (\<lambda>v. case v of VString s \<Rightarrow> s | VUint n \<Rightarrow> dec_uint n | VInt64 m \<Rightarrow> dec_int m
       | VPtrString (Some s) \<Rightarrow> s | VNumber s \<Rightarrow> s
       | VBool b \<Rightarrow> (if b then ''true'' else ''false'') | _ \<Rightarrow> []),
     cast_ToUint = (\<lambda>v. case v of VUint n \<Rightarrow> n | VInt64 m \<Rightarrow> (if sint m < 0 then 0 else m)
       | VPtrInt64 (Some m) \<Rightarrow> (if sint m < 0 then 0 else m) | VBool b \<Rightarrow> (if b then 1 else 0)
       | _ \<Rightarrow> 0)\<rparr>"

interpretation go_cast: cast_laws go_cast
  by unfold_locales (auto simp: go_cast_def split: option.splits)

section \<open>The constraint language of conditions\<close>

text \<open>
  \<^verbatim>\<open>conditions.NewParser(r).Parse()\<close>, \<^verbatim>\<open>conditions.Evaluate(expr, m)\<close> and the
  expression's \<^verbatim>\<open>String()\<close>, over an abstract type of expressions; \<^const>\<open>None\<close> is the nil
  expression. The dump of an unexpected entity context is \<^verbatim>\<open>go-spew\<close>'s.
\<close>

record 'e cond_lib =
  cond_Parse :: "string \<Rightarrow> 'e err"
  cond_Evaluate :: "'e option \<Rightarrow> (string \<times> goval) list \<Rightarrow> bool err"
  cond_String :: "'e option \<Rightarrow> string"
  spew_Sdump :: "goval \<Rightarrow> string"

text \<open>
  A concrete instance for examples: an expression is its text, and the one form it understands is
  the equality of a property with a quoted string, as \<^verbatim>\<open>({state} == "CA")\<close>.
\<close>

definition text_cond :: "string cond_lib" where
  "text_cond = \<lparr>
     cond_Parse = (\<lambda>s. if s = [] then Inl ''empty expression'' else Inr s),
     cond_Evaluate = (\<lambda>e m. case e of
        None \<Rightarrow> Inl ''Provided expression is nil''
      | Some t \<Rightarrow> Inr (list_ex (\<lambda>(k, v). case v of
            VString s \<Rightarrow> t = ''({'' @ k @ ''} == '' @ [CHR 0x22] @ s @ [CHR 0x22] @ '')''
          | _ \<Rightarrow> False) m)),
     cond_String = (\<lambda>e. case e of None \<Rightarrow> [] | Some t \<Rightarrow> t),
     spew_Sdump = (\<lambda>_. [])\<rparr>"

lemma text_cond_sel:
  "cond_Parse text_cond s = (if s = [] then Inl ''empty expression'' else Inr s)"
  by (simp add: text_cond_def)

end
