(* ===== verification/Flagr_Util.thy ===== *)
theory Flagr_Util
  imports Flagr_Lib
begin

text \<open>
  \<^verbatim>\<open>pkg/util/util.go\<close>: the safe-key and safe-value checks, the path prefix check of the
  authentication middlewares with the lexical normalisation of Go's \<^verbatim>\<open>path.Clean\<close>, random
  keys and the safe conversions.
\<close>

section \<open>Safe keys and values\<close>

definition keyLengthLimit :: nat where
  "keyLengthLimit = 63"

definition valueLengthLimit :: nat where
  "valueLengthLimit = 63"

definition keyRegex_text :: string where
  "keyRegex_text = ''^['' @ [CHR 0x5C] @ ''w'' @ [CHR 0x5C] @ ''d-/'' @ [CHR 0x5C] @ ''.'' @
     [CHR 0x5C] @ '':]+$''"

definition valueRegex_text :: string where
  "valueRegex_text = ''^[ '' @ [CHR 0x5C] @ ''w'' @ [CHR 0x5C] @ ''d-/'' @ [CHR 0x5C] @ ''.'' @
     [CHR 0x5C] @ '':]+$''"

text \<open>The bracket class: word characters, digits, minus, slash, dot and colon.\<close>

definition is_word_char :: "char \<Rightarrow> bool" where
  "is_word_char c \<longleftrightarrow>
     (let n = (of_char c :: nat) in
      48 \<le> n \<and> n \<le> 57 \<or> 65 \<le> n \<and> n \<le> 90 \<or> 97 \<le> n \<and> n \<le> 122 \<or> n = 95)"

definition is_key_char :: "char \<Rightarrow> bool" where
  "is_key_char c \<longleftrightarrow> is_word_char c \<or> is_digit c \<or>
     c = CHR ''-'' \<or> c = CHR ''/'' \<or> c = CHR ''.'' \<or> c = CHR '':''"

definition keyRegex_MatchString :: "string \<Rightarrow> bool" where
  "keyRegex_MatchString s \<longleftrightarrow> s \<noteq> [] \<and> list_all is_key_char s"

definition valueRegex_MatchString :: "string \<Rightarrow> bool" where
  "valueRegex_MatchString s \<longleftrightarrow> s \<noteq> [] \<and> list_all (\<lambda>c. c = CHR '' '' \<or> is_key_char c) s"

definition IsSafeKey :: "string \<Rightarrow> bool \<times> string" where
  "IsSafeKey s =
     (if \<not> keyRegex_MatchString s
      then (False, ''key:'' @ s @ '' should have the format '' @ keyRegex_text)
      else if length s > keyLengthLimit
      then (False, ''key:'' @ s @ '' cannot be longer than '' @ dec keyLengthLimit)
      else (True, []))"

definition IsSafeValue :: "string \<Rightarrow> bool \<times> string" where
  "IsSafeValue s =
     (if \<not> valueRegex_MatchString s
      then (False, ''value:'' @ s @ '' should have the format '' @ valueRegex_text)
      else if length s > valueLengthLimit
      then (False, ''value:'' @ s @ '' cannot be longer than '' @ dec valueLengthLimit)
      else (True, []))"

text \<open>What the two checks accept.\<close>

definition safe_key :: "string \<Rightarrow> bool" where
  "safe_key s \<longleftrightarrow> 0 < length s \<and> length s \<le> 63 \<and> (\<forall>c \<in> set s. is_key_char c)"

lemma fst_IsSafeKey: "fst (IsSafeKey s) \<longleftrightarrow> safe_key s"
  by (auto simp: IsSafeKey_def safe_key_def keyRegex_MatchString_def keyLengthLimit_def
      list_all_iff)

lemma IsSafeKey_cases:
  obtains (safe) "IsSafeKey s = (True, [])" "safe_key s"
  | (unsafe) r where "IsSafeKey s = (False, r)" "\<not> safe_key s" "r \<noteq> []"
proof (cases "safe_key s")
  case True
  then have "IsSafeKey s = (True, [])"
    using fst_IsSafeKey [of s] by (auto simp: IsSafeKey_def split: if_splits)
  then show ?thesis using True by (rule safe)
next
  case False
  then obtain r where "IsSafeKey s = (False, r)" "r \<noteq> []"
    using fst_IsSafeKey [of s] by (fastforce simp: IsSafeKey_def split: if_splits)
  then show ?thesis using False by (intro unsafe)
qed

lemma IsSafeKey_imp_IsSafeValue: "fst (IsSafeKey s) \<Longrightarrow> fst (IsSafeValue s)"
  by (auto simp: fst_IsSafeKey safe_key_def IsSafeValue_def valueRegex_MatchString_def
      valueLengthLimit_def list_all_iff)

section \<open>Random keys\<close>

text \<open>
  \<^verbatim>\<open>uniuri.NewLenChars(StdLen, charset)\<close> draws a random string; the drawn string is an
  argument here.
\<close>

definition randomKeyCharset :: string where
  "randomKeyCharset = ''123456789abcdefghijkmnopqrstuvwxyz''"

definition randomKeyPrefix :: string where
  "randomKeyPrefix = ''k''"

definition NewSecureRandomKey :: "string \<Rightarrow> string" where
  "NewSecureRandomKey rnd = randomKeyPrefix @ rnd"

text \<open>What \<^verbatim>\<open>uniuri\<close> documents of its result: length 16, characters of the set given.\<close>

definition uniuri_StdLen_result :: "string \<Rightarrow> bool" where
  "uniuri_StdLen_result rnd \<longleftrightarrow> length rnd = 16 \<and> set rnd \<subseteq> set randomKeyCharset"

lemma randomKeyCharset_key_chars: "list_all is_key_char randomKeyCharset"
  by (simp add: randomKeyCharset_def is_key_char_def is_word_char_def is_digit_def)

lemma NewSecureRandomKey_safe:
  assumes "uniuri_StdLen_result rnd"
  shows "safe_key (NewSecureRandomKey rnd)"
proof -
  have "\<forall>c \<in> set rnd. is_key_char c"
    using assms randomKeyCharset_key_chars
    by (auto simp: uniuri_StdLen_result_def list_all_iff)
  moreover have "is_key_char (CHR ''k'')"
    by (simp add: is_key_char_def is_word_char_def)
  ultimately show ?thesis
    using assms by (simp add: safe_key_def NewSecureRandomKey_def randomKeyPrefix_def
        uniuri_StdLen_result_def)
qed

section \<open>Safe conversions\<close>

definition SafeString :: "cast_lib \<Rightarrow> goval \<Rightarrow> string" where
  "SafeString C s = cast_ToString C s"

definition SafeUint :: "cast_lib \<Rightarrow> goval \<Rightarrow> u64" where
  "SafeUint C s = cast_ToUint C s"

definition SafeStringWithDefault :: "cast_lib \<Rightarrow> goval \<Rightarrow> string \<Rightarrow> string" where
  "SafeStringWithDefault C s deft = (let ret = SafeString C s in if ret = [] then deft else ret)"

context cast_laws
begin

lemmas safe_simps = SafeString_def SafeUint_def cast_simps

end

section \<open>Path prefixes\<close>

text \<open>
  \<^verbatim>\<open>strings.Split\<close>, \<^verbatim>\<open>strings.Join\<close>, \<^verbatim>\<open>strings.Contains\<close> and \<^verbatim>\<open>path.Clean\<close>
  of the Go standard library.
\<close>

fun split_on :: "char \<Rightarrow> string \<Rightarrow> string list" where
  "split_on d [] = [[]]"
| "split_on d (c # s) =
     (if c = d then [] # split_on d s
      else (case split_on d s of [] \<Rightarrow> [[c]] | w # ws \<Rightarrow> (c # w) # ws))"

fun join :: "string \<Rightarrow> string list \<Rightarrow> string" where
  "join sep [] = []"
| "join sep [w] = w"
| "join sep (w # v # ws) = w @ sep @ join sep (v # ws)"

fun contains_sub :: "string \<Rightarrow> string \<Rightarrow> bool" where
  "contains_sub [] p = (p = [])"
| "contains_sub (c # s) p = (prefix p (c # s) \<or> contains_sub s p)"

text \<open>
  \<^verbatim>\<open>path.Clean\<close> walks over the elements: empty elements and \<open>.\<close> are dropped,
  \<open>..\<close> drops the previous element unless there is none to drop; the elements kept so far are
  held in reverse.
\<close>

fun clean_step :: "bool \<Rightarrow> string list \<Rightarrow> string \<Rightarrow> string list" where
  "clean_step rooted out e =
     (if e = [] \<or> e = ''.'' then out
      else if e = ''..'' then
        (case out of
           [] \<Rightarrow> (if rooted then [] else [''..''])
         | t # ts \<Rightarrow> (if t = ''..'' then ''..'' # out else ts))
      else e # out)"

definition path_Clean :: "string \<Rightarrow> string" where
  "path_Clean p =
     (if p = [] then ''.''
      else
        let rooted = (hd p = CHR ''/'');
            out = rev (foldl (clean_step rooted) [] (split_on (CHR ''/'') p));
            body = join ''/'' out
        in if rooted then CHR ''/'' # body
           else if body = [] then ''.'' else body)"

definition HasSafePrefix :: "string \<Rightarrow> string \<Rightarrow> bool" where
  "HasSafePrefix s pre =
     (if pre = [] then True
      else if s = ''.'' \<or> s = ''..'' \<or> contains_sub s ''..'' then False
      else prefix pre (path_Clean s))"

text \<open>
  The guard makes the normalisation harmless: on every path it lets through, no element is
  \<open>..\<close>, so \<^verbatim>\<open>path.Clean\<close> never drops an element of the path and only removes empty
  and \<open>.\<close> elements.
\<close>

definition plain_elems :: "string \<Rightarrow> string list" where
  "plain_elems s = filter (\<lambda>e. e \<noteq> [] \<and> e \<noteq> ''.'') (split_on (CHR ''/'') s)"

definition plain_path :: "string \<Rightarrow> string" where
  "plain_path s =
     (let body = join ''/'' (plain_elems s)
      in if prefix ''/'' s then CHR ''/'' # body else if body = [] then ''.'' else body)"

lemma split_on_nonempty [simp]: "split_on d s \<noteq> []"
  by (induction s) (auto split: list.splits)

lemma contains_sub_iff: "contains_sub s p \<longleftrightarrow> sublist p s"
  by (induction s) (auto simp: sublist_Cons_right)

lemma split_on_elem_sublist: "e \<in> set (split_on d s) \<Longrightarrow> sublist e s"
proof (induction s arbitrary: e)
  case Nil
  then show ?case by simp
next
  case (Cons c s)
  show ?case
  proof (cases "c = d")
    case True
    with Cons show ?thesis by (auto simp: sublist_Cons_right)
  next
    case False
    obtain w ws where w: "split_on d s = w # ws"
      by (metis split_on_nonempty neq_Nil_conv)
    with Cons.prems False have e: "e = c # w \<or> e \<in> set ws" by simp
    have "prefix w s"
      using w
    proof (induction s arbitrary: w ws)
      case Nil
      then show ?case by simp
    next
      case (Cons b s)
      then show ?case by (auto split: if_splits list.splits)
    qed
    with e Cons.IH w show ?thesis by (auto simp: sublist_Cons_right)
  qed
qed

text \<open>Splitting and joining undo each other.\<close>

lemma split_on_plain: "d \<notin> set u \<Longrightarrow> split_on d u = [u]"
  by (induction u) auto

lemma split_on_append_sep: "d \<notin> set u \<Longrightarrow> split_on d (u @ d # s) = u # split_on d s"
  by (induction u) auto

lemma split_on_sep: "split_on d (xs @ d # ys) = split_on d xs @ split_on d ys"
  by (induction xs) (auto split: list.splits)

lemma split_on_no_sep: "w \<in> set (split_on d s) \<Longrightarrow> d \<notin> set w"
  by (induction s arbitrary: w) (fastforce split: if_splits list.splits)+

lemma join_Cons: "ws \<noteq> [] \<Longrightarrow> join sep (w # ws) = w @ sep @ join sep ws"
  by (cases ws) simp_all

lemma join_append: "vs \<noteq> [] \<Longrightarrow> ws \<noteq> [] \<Longrightarrow> join sep (vs @ ws) = join sep vs @ sep @ join sep ws"
proof (induction vs)
  case (Cons v vs)
  then show ?case by (cases vs) (simp_all add: join_Cons)
qed simp

lemma join_split_on: "join [d] (split_on d s) = s"
proof (induction s)
  case (Cons c s)
  obtain w ws where w: "split_on d s = w # ws" by (metis split_on_nonempty neq_Nil_conv)
  then show ?case using Cons by (cases ws) auto
qed simp

lemma split_on_no_dotdot:
  assumes "\<not> contains_sub s ''..''" "e \<in> set (split_on d s)"
  shows "e \<noteq> ''..''"
  using assms split_on_elem_sublist by (auto simp: contains_sub_iff)

lemma foldl_clean_step_plain:
  assumes "\<forall>e \<in> set es. e \<noteq> ''..''"
  shows "foldl (clean_step r) out es = rev (filter (\<lambda>e. e \<noteq> [] \<and> e \<noteq> ''.'') es) @ out"
  using assms by (induction es arbitrary: out) auto

lemma path_Clean_plain:
  assumes "\<not> contains_sub s ''..''"
  shows "path_Clean s = plain_path s"
proof (cases s)
  case Nil
  then show ?thesis by (simp add: path_Clean_def plain_path_def plain_elems_def)
next
  case (Cons c s')
  have "foldl (clean_step r) [] (split_on (CHR ''/'') s) = rev (plain_elems s)" for r
    using foldl_clean_step_plain [of "split_on (CHR ''/'') s" r "[]"] split_on_no_dotdot [OF assms]
    by (auto simp: plain_elems_def)
  then show ?thesis using Cons by (auto simp: path_Clean_def plain_path_def Let_def)
qed

lemma plain_elems_no_dotdot: "\<not> contains_sub s ''..'' \<Longrightarrow> ''..'' \<notin> set (plain_elems s)"
  using split_on_no_dotdot by (auto simp: plain_elems_def)

end
