(* ===== verification/Flagr_Entity.thy ===== *)
theory Flagr_Entity
  imports Flagr_Util
begin

text \<open>
  \<^verbatim>\<open>pkg/entity\<close>: the stored objects (flag, segment, constraint, distribution, variant,
  tag, snapshot, entity type), the creation of flag keys, the validation of variants and the
  translation of constraints into expressions of the constraint language. A Go pointer that may
  be nil is an option; \<open>gorm.Model\<close> is the embedded record \<open>gorm_model\<close>; the relation from a
  tag back to its flags is not stored.
\<close>

section \<open>Stored objects\<close>

record gorm_model =
  Model_ID :: u64
  CreatedAt :: int
  UpdatedAt :: int
  DeletedAt :: "int option"

definition zero_model :: gorm_model where
  "zero_model = \<lparr>Model_ID = 0, CreatedAt = 0, UpdatedAt = 0, DeletedAt = None\<rparr>"

text \<open>\<^verbatim>\<open>Attachment map[string]any\<close>; \<^const>\<open>None\<close> is the nil map.\<close>

type_synonym attachment = "(string \<times> goval) list option"

record variant =
  Variant_Model :: gorm_model
  Variant_FlagID :: u64
  Variant_Key :: string
  Variant_Attachment :: attachment

record constraint =
  Constraint_Model :: gorm_model
  Constraint_SegmentID :: u64
  Constraint_Property :: string
  Constraint_Operator :: string
  Constraint_Value :: string

record distribution =
  Distribution_Model :: gorm_model
  Distribution_SegmentID :: u64
  Distribution_VariantID :: u64
  Distribution_VariantKey :: string
  Distribution_Percent :: u64
  Distribution_Bitmap :: string

record distribution_array =
  VariantIDs :: "u64 list"
  PercentsAccumulated :: "i64 list"

record 'e segment_evaluation =
  ConditionsExpr :: "'e option"
  DistributionArray :: distribution_array

record 'e segment =
  Segment_Model :: gorm_model
  Segment_FlagID :: u64
  Segment_Description :: string
  Segment_Rank :: u64
  Segment_RolloutPercent :: u64
  Segment_Constraints :: "constraint list"
  Segment_Distributions :: "distribution list"
  SegmentEvaluation :: "'e segment_evaluation"

record tag =
  Tag_Model :: gorm_model
  Tag_Value :: string

text \<open>\<^verbatim>\<open>FlagEvaluation.VariantsMap map[uint]*Variant\<close>.\<close>

record flag_evaluation =
  VariantsMap :: "(u64 \<times> variant) list"

record 'e flag =
  Flag_Model :: gorm_model
  Flag_Key :: string
  Flag_Description :: string
  Flag_CreatedBy :: string
  Flag_UpdatedBy :: string
  Flag_Enabled :: bool
  Flag_Segments :: "'e segment list"
  Flag_Variants :: "variant list"
  Flag_Tags :: "tag list"
  Flag_SnapshotID :: u64
  Flag_Notes :: string
  Flag_DataRecordsEnabled :: bool
  Flag_EntityType :: string
  FlagEvaluation :: flag_evaluation

record flag_entity_type =
  FlagEntityType_Model :: gorm_model
  FlagEntityType_Key :: string

abbreviation variant_ID :: "variant \<Rightarrow> u64" where
  "variant_ID v \<equiv> Model_ID (Variant_Model v)"

abbreviation constraint_ID :: "constraint \<Rightarrow> u64" where
  "constraint_ID c \<equiv> Model_ID (Constraint_Model c)"

abbreviation distribution_ID :: "distribution \<Rightarrow> u64" where
  "distribution_ID d \<equiv> Model_ID (Distribution_Model d)"

abbreviation segment_ID :: "'e segment \<Rightarrow> u64" where
  "segment_ID s \<equiv> Model_ID (Segment_Model s)"

abbreviation flag_ID :: "'e flag \<Rightarrow> u64" where
  "flag_ID f \<equiv> Model_ID (Flag_Model f)"

text \<open>Zero values of the structs, as a composite literal without fields makes them.\<close>

definition empty_distribution_array :: distribution_array where
  "empty_distribution_array = \<lparr>VariantIDs = [], PercentsAccumulated = []\<rparr>"

definition zero_segment_evaluation :: "'e segment_evaluation" where
  "zero_segment_evaluation = \<lparr>ConditionsExpr = None, DistributionArray = empty_distribution_array\<rparr>"

definition zero_segment :: "'e segment" where
  "zero_segment = \<lparr>Segment_Model = zero_model, Segment_FlagID = 0, Segment_Description = [],
     Segment_Rank = 0, Segment_RolloutPercent = 0, Segment_Constraints = [],
     Segment_Distributions = [], SegmentEvaluation = zero_segment_evaluation\<rparr>"

definition SegmentDefaultRank :: u64 where
  "SegmentDefaultRank = 999"

definition zero_flag :: "'e flag" where
  "zero_flag = \<lparr>Flag_Model = zero_model, Flag_Key = [], Flag_Description = [],
     Flag_CreatedBy = [], Flag_UpdatedBy = [], Flag_Enabled = False, Flag_Segments = [],
     Flag_Variants = [], Flag_Tags = [], Flag_SnapshotID = 0, Flag_Notes = [],
     Flag_DataRecordsEnabled = False, Flag_EntityType = [],
     FlagEvaluation = \<lparr>VariantsMap = []\<rparr>\<rparr>"

definition zero_variant :: variant where
  "zero_variant = \<lparr>Variant_Model = zero_model, Variant_FlagID = 0, Variant_Key = [],
     Variant_Attachment = None\<rparr>"

definition zero_constraint :: constraint where
  "zero_constraint = \<lparr>Constraint_Model = zero_model, Constraint_SegmentID = 0,
     Constraint_Property = [], Constraint_Operator = [], Constraint_Value = []\<rparr>"

definition zero_distribution :: distribution where
  "zero_distribution = \<lparr>Distribution_Model = zero_model, Distribution_SegmentID = 0,
     Distribution_VariantID = 0, Distribution_VariantKey = [], Distribution_Percent = 0,
     Distribution_Bitmap = []\<rparr>"

section \<open>Flag keys and variants\<close>

definition CreateFlagKey :: "string \<Rightarrow> string \<Rightarrow> string err" where
  "CreateFlagKey rnd key =
     (if key = [] then Inr (NewSecureRandomKey rnd)
      else case IsSafeKey key of (ok, reason) \<Rightarrow>
        if \<not> ok then Inl (''cannot create flag due to invalid key. reason: '' @ reason)
        else Inr key)"

definition Variant_Validate :: "variant \<Rightarrow> unit err" where
  "Variant_Validate v =
     (case IsSafeKey (Variant_Key v) of (ok, msg) \<Rightarrow> if \<not> ok then Inl msg else Inr ())"

definition Attachment_Get :: "attachment \<Rightarrow> string \<Rightarrow> goval" where
  "Attachment_Get a key =
     (case a of None \<Rightarrow> VNil | Some m \<Rightarrow> (case map_of m key of None \<Rightarrow> VNil | Some v \<Rightarrow> v))"

definition Attachment_GetString :: "cast_lib \<Rightarrow> attachment \<Rightarrow> string \<Rightarrow> string" where
  "Attachment_GetString C a key = cast_ToString C (Attachment_Get a key)"

lemma CreateFlagKey_Inr_safe:
  assumes "uniuri_StdLen_result rnd" "CreateFlagKey rnd key = Inr k"
  shows "safe_key k"
  using assms NewSecureRandomKey_safe [of rnd] fst_IsSafeKey [of key]
  by (auto simp: CreateFlagKey_def split: if_splits prod.splits)

lemma CreateFlagKey_given: "key \<noteq> [] \<Longrightarrow> CreateFlagKey rnd key = Inr k \<longleftrightarrow> safe_key key \<and> k = key"
  using fst_IsSafeKey [of key] by (auto simp: CreateFlagKey_def split: prod.splits)

lemma Variant_Validate_iff: "Variant_Validate v = Inr () \<longleftrightarrow> safe_key (Variant_Key v)"
  using fst_IsSafeKey [of "Variant_Key v"] by (auto simp: Variant_Validate_def split: prod.splits)

section \<open>Constraints\<close>

definition OperatorToExprMap :: "(string \<times> string) list" where
  "OperatorToExprMap =
     [(''EQ'', ''==''), (''NEQ'', ''!=''), (''LT'', ''<''), (''LTE'', ''<=''), (''GT'', ''>''),
      (''GTE'', ''>=''), (''EREG'', ''=~''), (''NEREG'', ''!~''), (''IN'', ''IN''),
      (''NOTIN'', ''NOT IN''), (''CONTAINS'', ''CONTAINS''), (''NOTCONTAINS'', ''NOT CONTAINS'')]"

definition Constraint_toExprStr :: "constraint \<Rightarrow> string err" where
  "Constraint_toExprStr c =
     (if Constraint_Property c = [] \<or> Constraint_Operator c = [] \<or> Constraint_Value c = []
      then Inl (''empty Property/Operator/Value: '' @ Constraint_Property c @ ''/'' @
        Constraint_Operator c @ ''/'' @ Constraint_Value c)
      else case map_of OperatorToExprMap (Constraint_Operator c) of
        None \<Rightarrow> Inl (''not supported operator: '' @ Constraint_Operator c)
      | Some o' \<Rightarrow>
          Inr (''({'' @ Constraint_Property c @ ''} '' @ o' @ '' '' @ Constraint_Value c @ '')''))"

definition Constraint_ToExpr :: "'e cond_lib \<Rightarrow> constraint \<Rightarrow> 'e err" where
  "Constraint_ToExpr L c =
     sum_bind (Constraint_toExprStr c) (\<lambda>s.
       case cond_Parse L s of
         Inl e \<Rightarrow> Inl (e @ ''. Note: if it's string or array of string, warp it with quotes '' @
           [CHR 0x22] @ ''...'' @ [CHR 0x22])
       | Inr expr \<Rightarrow> Inr expr)"

definition Constraint_Validate :: "'e cond_lib \<Rightarrow> constraint \<Rightarrow> unit err" where
  "Constraint_Validate L c = sum_bind (Constraint_ToExpr L c) (\<lambda>_. Inr ())"

definition ConstraintArray_ToExpr :: "'e cond_lib \<Rightarrow> constraint list \<Rightarrow> 'e err" where
  "ConstraintArray_ToExpr L cs =
     sum_bind (sum_mapM Constraint_toExprStr cs) (\<lambda>strs.
       let exprStr = join '' AND '' strs in
       case cond_Parse L exprStr of
         Inl e \<Rightarrow> Inl (e @ ''. Note: if it's string or array of string, wrap it with quotes '' @
           [CHR 0x22] @ ''...'' @ [CHR 0x22])
       | Inr expr \<Rightarrow> Inr expr)"

lemma Constraint_toExprStr_Inr_iff:
  "Constraint_toExprStr c = Inr s \<longleftrightarrow>
     Constraint_Property c \<noteq> [] \<and> Constraint_Value c \<noteq> [] \<and>
     (\<exists>o'. map_of OperatorToExprMap (Constraint_Operator c) = Some o' \<and>
        s = ''({'' @ Constraint_Property c @ ''} '' @ o' @ '' '' @ Constraint_Value c @ '')'')"
proof -
  have "map_of OperatorToExprMap [] = None"
    by (simp add: OperatorToExprMap_def)
  then show ?thesis
    by (auto simp: Constraint_toExprStr_def split: option.splits)
qed

lemma Constraint_Validate_iff:
  "Constraint_Validate L c = Inr () \<longleftrightarrow> (\<exists>e. Constraint_ToExpr L c = Inr e)"
  by (auto simp: Constraint_Validate_def sum_bind_eq_Inr_iff)

lemma Constraint_ToExpr_Inr_iff:
  "Constraint_ToExpr L c = Inr e \<longleftrightarrow>
     (\<exists>s. Constraint_toExprStr c = Inr s \<and> cond_Parse L s = Inr e)"
  by (auto simp: Constraint_ToExpr_def sum_bind_eq_Inr_iff)

text \<open>An array of one constraint is parsed from the same text as the constraint itself.\<close>

lemma ConstraintArray_ToExpr_single:
  "ConstraintArray_ToExpr L [c] = Inr e \<longleftrightarrow> Constraint_ToExpr L c = Inr e"
  by (auto simp: ConstraintArray_ToExpr_def Constraint_ToExpr_Inr_iff sum_bind_eq_Inr_iff)

text \<open>The text of a conjunction exists exactly when every constraint's text does.\<close>

lemma ConstraintArray_ToExpr_Inr_iff:
  "ConstraintArray_ToExpr L cs = Inr e \<longleftrightarrow>
     (\<exists>strs. list_all2 (\<lambda>c s. Constraint_toExprStr c = Inr s) cs strs \<and>
        cond_Parse L (join '' AND '' strs) = Inr e)"
  by (auto simp: ConstraintArray_ToExpr_def sum_bind_eq_Inr_iff sum_mapM_Inr_iff)

end
