(* ===== verification/Flagr_Models.thy ===== *)
theory Flagr_Models
  imports Flagr_Entity
begin

text \<open>
  \<^verbatim>\<open>swagger_gen/models\<close>: the request and response bodies of the management API and
  the validation that runs before a handler sees a request. A pointer is an option, so a missing
  field and a null list entry are \<^const>\<open>None\<close>. The checks of
  \<^verbatim>\<open>go-openapi/validate\<close> are modelled by what they reject; the text of their
  messages is not.
\<close>

section \<open>Field checks\<close>

datatype field_error =
    FieldRequired string
  | FieldBelow string
  | FieldAbove string
  | FieldTooShort string
  | FieldTooFew string
  | FieldNotInEnum string
  | FieldReadOnly string
  | FieldNested string nat "field_error list"

definition check_all :: "field_error option list \<Rightarrow> field_error list" where
  "check_all es = List.map_filter id es"

fun check_first :: "field_error option list \<Rightarrow> field_error option" where
  "check_first [] = None"
| "check_first (e # es) = (case e of None \<Rightarrow> check_first es | Some x \<Rightarrow> Some x)"

definition validate_MinimumInt :: "string \<Rightarrow> i64 \<Rightarrow> int \<Rightarrow> field_error option" where
  "validate_MinimumInt path data mn = (if sint data < mn then Some (FieldBelow path) else None)"

definition validate_MaximumInt :: "string \<Rightarrow> i64 \<Rightarrow> int \<Rightarrow> field_error option" where
  "validate_MaximumInt path data mx = (if mx < sint data then Some (FieldAbove path) else None)"

definition validate_MinLength :: "string \<Rightarrow> string \<Rightarrow> nat \<Rightarrow> field_error option" where
  "validate_MinLength path data n = (if length data < n then Some (FieldTooShort path) else None)"

text \<open>The generated checks of a required string, a required percentage and a read-only id.\<close>

definition required_string :: "string \<Rightarrow> string option \<Rightarrow> field_error option" where
  "required_string path m =
     (case m of None \<Rightarrow> Some (FieldRequired path) | Some s \<Rightarrow> validate_MinLength path s 1)"

definition required_percent :: "string \<Rightarrow> i64 option \<Rightarrow> field_error option" where
  "required_percent path m =
     (case m of
        None \<Rightarrow> Some (FieldRequired path)
      | Some n \<Rightarrow> check_first [validate_MinimumInt path n 0, validate_MaximumInt path n 100])"

definition required_min :: "string \<Rightarrow> i64 option \<Rightarrow> int \<Rightarrow> field_error option" where
  "required_min path m mn =
     (case m of None \<Rightarrow> Some (FieldRequired path) | Some n \<Rightarrow> validate_MinimumInt path n mn)"

definition optional_id :: "i64 \<Rightarrow> field_error option" where
  "optional_id n = (if n = 0 then None else validate_MinimumInt ''id'' n 1)"

text \<open>The loop over a list of pointers: null entries are skipped, the first bad entry is reported.\<close>

fun validate_entries :: "('a \<Rightarrow> field_error list) \<Rightarrow> string \<Rightarrow> nat \<Rightarrow> 'a option list \<Rightarrow> field_error option" where
  "validate_entries V name i [] = None"
| "validate_entries V name i (x # xs) =
     (case x of
        None \<Rightarrow> validate_entries V name (Suc i) xs
      | Some m \<Rightarrow> (case V m of
          [] \<Rightarrow> validate_entries V name (Suc i) xs
        | es \<Rightarrow> Some (FieldNested name i es)))"

section \<open>Bodies\<close>

record m_distribution =
  MD_ID :: i64
  MD_Percent :: "i64 option"
  MD_VariantID :: "i64 option"
  MD_VariantKey :: "string option"

record m_constraint =
  MC_ID :: i64
  MC_Operator :: "string option"
  MC_Property :: "string option"
  MC_Value :: "string option"

record m_segment =
  MS_Constraints :: "m_constraint option list option"
  MS_Description :: "string option"
  MS_Distributions :: "m_distribution option list option"
  MS_ID :: i64
  MS_Rank :: "i64 option"
  MS_RolloutPercent :: "i64 option"

record m_tag =
  MT_ID :: i64
  MT_Value :: "string option"

record m_variant =
  MV_Attachment :: goval
  MV_ID :: i64
  MV_Key :: "string option"

record m_flag =
  MF_CreatedBy :: string
  MF_DataRecordsEnabled :: "bool option"
  MF_Description :: "string option"
  MF_Enabled :: "bool option"
  MF_EntityType :: string
  MF_ID :: i64
  MF_Key :: string
  MF_Notes :: string
  MF_Segments :: "m_segment option list option"
  MF_Tags :: "m_tag option list option"
  MF_UpdatedAt :: int
  MF_UpdatedBy :: string
  MF_Variants :: "m_variant option list option"

record create_flag_request =
  CFR_Description :: "string option"
  CFR_Key :: string
  CFR_Template :: string

record put_flag_request =
  PFR_DataRecordsEnabled :: "bool option"
  PFR_Description :: "string option"
  PFR_Enabled :: "bool option"
  PFR_EntityType :: "string option"
  PFR_Key :: "string option"
  PFR_Notes :: "string option"

record set_flag_enabled_request =
  SFR_Enabled :: "bool option"

record create_segment_request =
  SR_Description :: "string option"
  SR_RolloutPercent :: "i64 option"

type_synonym put_segment_request = create_segment_request

record put_segment_reorder_request =
  PSR_SegmentIDs :: "i64 list option"

record create_constraint_request =
  CCR_Operator :: "string option"
  CCR_Property :: "string option"
  CCR_Value :: "string option"

record put_distributions_request =
  PDR_Distributions :: "m_distribution option list option"

record create_variant_request =
  VR_Attachment :: goval
  VR_Key :: "string option"

type_synonym put_variant_request = create_variant_request

record create_tag_request =
  CTR_Value :: "string option"

section \<open>Validation\<close>

definition m_distribution_Validate :: "m_distribution \<Rightarrow> field_error list" where
  "m_distribution_Validate m = check_all
     [optional_id (MD_ID m), required_percent ''percent'' (MD_Percent m),
      required_min ''variantID'' (MD_VariantID m) 1, required_string ''variantKey'' (MD_VariantKey m)]"

definition constraint_operators :: "string list" where
  "constraint_operators = [''EQ'', ''NEQ'', ''LT'', ''LTE'', ''GT'', ''GTE'', ''EREG'', ''NEREG'',
     ''IN'', ''NOTIN'', ''CONTAINS'', ''NOTCONTAINS'']"

definition m_constraint_Validate :: "m_constraint \<Rightarrow> field_error list" where
  "m_constraint_Validate m = check_all
     [optional_id (MC_ID m),
      (case MC_Operator m of
         None \<Rightarrow> Some (FieldRequired ''operator'')
       | Some s \<Rightarrow> check_first [validate_MinLength ''operator'' s 1,
           (if s \<in> set constraint_operators then None else Some (FieldNotInEnum ''operator''))]),
      required_string ''property'' (MC_Property m), required_string ''value'' (MC_Value m)]"

definition m_segment_Validate :: "m_segment \<Rightarrow> field_error list" where
  "m_segment_Validate m = check_all
     [(case MS_Constraints m of None \<Rightarrow> None
       | Some cs \<Rightarrow> validate_entries m_constraint_Validate ''constraints'' 0 cs),
      required_string ''description'' (MS_Description m),
      (case MS_Distributions m of None \<Rightarrow> None
       | Some ds \<Rightarrow> validate_entries m_distribution_Validate ''distributions'' 0 ds),
      optional_id (MS_ID m), required_min ''rank'' (MS_Rank m) 0,
      required_percent ''rolloutPercent'' (MS_RolloutPercent m)]"

definition m_tag_Validate :: "m_tag \<Rightarrow> field_error list" where
  "m_tag_Validate m = check_all [optional_id (MT_ID m), required_string ''value'' (MT_Value m)]"

definition m_variant_Validate :: "m_variant \<Rightarrow> field_error list" where
  "m_variant_Validate m = check_all [optional_id (MV_ID m), required_string ''key'' (MV_Key m)]"

definition CreateFlagRequest_Validate :: "create_flag_request \<Rightarrow> field_error list" where
  "CreateFlagRequest_Validate m = check_all [required_string ''description'' (CFR_Description m)]"

definition PutFlagRequest_Validate :: "put_flag_request \<Rightarrow> field_error list" where
  "PutFlagRequest_Validate m = check_all
     [(case PFR_Description m of None \<Rightarrow> None | Some s \<Rightarrow> validate_MinLength ''description'' s 1)]"

definition SetFlagEnabledRequest_Validate :: "set_flag_enabled_request \<Rightarrow> field_error list" where
  "SetFlagEnabledRequest_Validate m = check_all
     [(if SFR_Enabled m = None then Some (FieldRequired ''enabled'') else None)]"

definition CreateSegmentRequest_Validate :: "create_segment_request \<Rightarrow> field_error list" where
  "CreateSegmentRequest_Validate m = check_all
     [required_string ''description'' (SR_Description m),
      required_percent ''rolloutPercent'' (SR_RolloutPercent m)]"

definition PutSegmentRequest_Validate :: "put_segment_request \<Rightarrow> field_error list" where
  "PutSegmentRequest_Validate m = check_all
     [required_string ''description'' (SR_Description m),
      required_percent ''rolloutPercent'' (SR_RolloutPercent m)]"

fun validate_ids :: "nat \<Rightarrow> i64 list \<Rightarrow> field_error option" where
  "validate_ids i [] = None"
| "validate_ids i (n # ns) =
     (case validate_MinimumInt (''segmentIDs.'' @ dec i) n 1 of
        Some e \<Rightarrow> Some e | None \<Rightarrow> validate_ids (Suc i) ns)"

definition PutSegmentReorderRequest_Validate :: "put_segment_reorder_request \<Rightarrow> field_error list" where
  "PutSegmentReorderRequest_Validate m = check_all
     [(case PSR_SegmentIDs m of
         None \<Rightarrow> Some (FieldRequired ''segmentIDs'')
       | Some ids \<Rightarrow> if length ids < 1 then Some (FieldTooFew ''segmentIDs'') else validate_ids 0 ids)]"

definition CreateConstraintRequest_Validate :: "create_constraint_request \<Rightarrow> field_error list" where
  "CreateConstraintRequest_Validate m = check_all
     [required_string ''operator'' (CCR_Operator m), required_string ''property'' (CCR_Property m),
      required_string ''value'' (CCR_Value m)]"

definition PutDistributionsRequest_Validate :: "put_distributions_request \<Rightarrow> field_error list" where
  "PutDistributionsRequest_Validate m = check_all
     [(case PDR_Distributions m of
         None \<Rightarrow> Some (FieldRequired ''distributions'')
       | Some ds \<Rightarrow> validate_entries m_distribution_Validate ''distributions'' 0 ds)]"

definition CreateVariantRequest_Validate :: "create_variant_request \<Rightarrow> field_error list" where
  "CreateVariantRequest_Validate m = check_all [required_string ''key'' (VR_Key m)]"

definition PutVariantRequest_Validate :: "put_variant_request \<Rightarrow> field_error list" where
  "PutVariantRequest_Validate m = check_all [required_string ''key'' (VR_Key m)]"

definition CreateTagRequest_Validate :: "create_tag_request \<Rightarrow> field_error list" where
  "CreateTagRequest_Validate m = check_all [required_string ''value'' (CTR_Value m)]"

text \<open>The bodies of the two evaluation endpoints, as they are decoded: a null list is not an empty one.\<close>

record m_eval_context =
  MEC_EnableDebug :: bool
  MEC_EntityContext :: goval
  MEC_EntityID :: string
  MEC_EntityType :: string
  MEC_FlagID :: i64
  MEC_FlagKey :: string
  MEC_FlagTags :: "string list option"
  MEC_FlagTagsOperator :: "string option"

record m_evaluation_entity =
  MEE_EntityContext :: goval
  MEE_EntityID :: string
  MEE_EntityType :: string

record m_evaluation_batch_request =
  MBR_EnableDebug :: bool
  MBR_Entities :: "m_evaluation_entity option list option"
  MBR_FlagIDs :: "i64 list option"
  MBR_FlagKeys :: "string list option"
  MBR_FlagTags :: "string list option"
  MBR_FlagTagsOperator :: "string option"

definition validate_FlagTagsOperatorEnum :: "string option \<Rightarrow> field_error option" where
  "validate_FlagTagsOperatorEnum m =
     (case m of
        None \<Rightarrow> None
      | Some s \<Rightarrow> if s \<in> set [''ANY'', ''ALL''] then None else Some (FieldNotInEnum ''flagTagsOperator''))"

definition EvalContext_Validate :: "m_eval_context \<Rightarrow> field_error list" where
  "EvalContext_Validate m = check_all
     [(if MEC_FlagID m = 0 then None else validate_MinimumInt ''flagID'' (MEC_FlagID m) 1),
      validate_FlagTagsOperatorEnum (MEC_FlagTagsOperator m)]"

definition EvaluationEntity_Validate :: "m_evaluation_entity \<Rightarrow> field_error list" where
  "EvaluationEntity_Validate m = []"

definition validate_MinItems :: "string \<Rightarrow> 'a list \<Rightarrow> nat \<Rightarrow> field_error option" where
  "validate_MinItems path xs n = (if length xs < n then Some (FieldTooFew path) else None)"

fun validate_items :: "('a \<Rightarrow> string \<Rightarrow> field_error option) \<Rightarrow> string \<Rightarrow> nat \<Rightarrow> 'a list \<Rightarrow> field_error option" where
  "validate_items V name i [] = None"
| "validate_items V name i (x # xs) =
     (case V x (name @ ''.'' @ dec i) of Some e \<Rightarrow> Some e | None \<Rightarrow> validate_items V name (Suc i) xs)"

definition optional_items :: "('a \<Rightarrow> string \<Rightarrow> field_error option) \<Rightarrow> string \<Rightarrow> 'a list option \<Rightarrow> field_error option" where
  "optional_items V name m =
     (case m of None \<Rightarrow> None | Some xs \<Rightarrow> check_first [validate_MinItems name xs 1, validate_items V name 0 xs])"

definition EvaluationBatchRequest_Validate :: "m_evaluation_batch_request \<Rightarrow> field_error list" where
  "EvaluationBatchRequest_Validate m = check_all
     [(case MBR_Entities m of
         None \<Rightarrow> Some (FieldRequired ''entities'')
       | Some es \<Rightarrow> check_first [validate_MinItems ''entities'' es 1,
           validate_entries EvaluationEntity_Validate ''entities'' 0 es]),
      optional_items (\<lambda>n path. validate_MinimumInt path n 1) ''flagIDs'' (MBR_FlagIDs m),
      optional_items (\<lambda>s path. validate_MinLength path s 1) ''flagKeys'' (MBR_FlagKeys m),
      optional_items (\<lambda>s path. validate_MinLength path s 1) ''flagTags'' (MBR_FlagTags m),
      validate_FlagTagsOperatorEnum (MBR_FlagTagsOperator m)]"

text \<open>The flag of a response; the format of its time stamp is checked by the registry of formats.\<close>

definition optional_entries :: "('a \<Rightarrow> field_error list) \<Rightarrow> string \<Rightarrow> 'a option list option \<Rightarrow> field_error option" where
  "optional_entries V name m = (case m of None \<Rightarrow> None | Some xs \<Rightarrow> validate_entries V name 0 xs)"

definition m_flag_validateDataRecordsEnabled :: "m_flag \<Rightarrow> field_error option" where
  "m_flag_validateDataRecordsEnabled m = (if MF_DataRecordsEnabled m = None then Some (FieldRequired ''dataRecordsEnabled'') else None)"

definition m_flag_validateDescription :: "m_flag \<Rightarrow> field_error option" where
  "m_flag_validateDescription m = (required_string ''description'' (MF_Description m))"

definition m_flag_validateEnabled :: "m_flag \<Rightarrow> field_error option" where
  "m_flag_validateEnabled m = (if MF_Enabled m = None then Some (FieldRequired ''enabled'') else None)"

definition m_flag_validateID :: "m_flag \<Rightarrow> field_error option" where
  "m_flag_validateID m = (optional_id (MF_ID m))"

definition m_flag_validateKey :: "m_flag \<Rightarrow> field_error option" where
  "m_flag_validateKey m = (if MF_Key m = [] then None else validate_MinLength ''key'' (MF_Key m) 1)"

definition m_flag_validateSegments :: "m_flag \<Rightarrow> field_error option" where
  "m_flag_validateSegments m = (optional_entries m_segment_Validate ''segments'' (MF_Segments m))"

definition m_flag_validateTags :: "m_flag \<Rightarrow> field_error option" where
  "m_flag_validateTags m = (optional_entries m_tag_Validate ''tags'' (MF_Tags m))"

definition m_flag_validateUpdatedAt :: "(int \<Rightarrow> bool) \<Rightarrow> m_flag \<Rightarrow> field_error option" where
  "m_flag_validateUpdatedAt is_date_time m = (if MF_UpdatedAt m = 0 \<or> is_date_time (MF_UpdatedAt m) then None else Some (FieldNotInEnum ''updatedAt''))"

definition m_flag_validateVariants :: "m_flag \<Rightarrow> field_error option" where
  "m_flag_validateVariants m = (optional_entries m_variant_Validate ''variants'' (MF_Variants m))"

definition m_flag_Validate :: "(int \<Rightarrow> bool) \<Rightarrow> m_flag \<Rightarrow> field_error list" where
  "m_flag_Validate is_date_time m = check_all
     [m_flag_validateDataRecordsEnabled m,
      m_flag_validateDescription m,
      m_flag_validateEnabled m,
      m_flag_validateID m,
      m_flag_validateKey m,
      m_flag_validateSegments m,
      m_flag_validateTags m,
      m_flag_validateUpdatedAt is_date_time m,
      m_flag_validateVariants m]"

section \<open>Context validation\<close>

text \<open>
  What is validated for the direction of the message: a read-only field must be absent from a
  request, that is zero after decoding.
\<close>

definition validate_ReadOnly :: "bool \<Rightarrow> string \<Rightarrow> i64 \<Rightarrow> field_error option" where
  "validate_ReadOnly is_request path n = (if is_request \<and> n \<noteq> 0 then Some (FieldReadOnly path) else None)"

definition m_distribution_ContextValidate :: "bool \<Rightarrow> m_distribution \<Rightarrow> field_error list" where
  "m_distribution_ContextValidate rq m = check_all [validate_ReadOnly rq ''id'' (MD_ID m)]"

definition m_constraint_ContextValidate :: "bool \<Rightarrow> m_constraint \<Rightarrow> field_error list" where
  "m_constraint_ContextValidate rq m = check_all [validate_ReadOnly rq ''id'' (MC_ID m)]"

definition m_segment_ContextValidate :: "bool \<Rightarrow> m_segment \<Rightarrow> field_error list" where
  "m_segment_ContextValidate rq m = check_all
     [optional_entries (m_constraint_ContextValidate rq) ''constraints'' (MS_Constraints m),
      optional_entries (m_distribution_ContextValidate rq) ''distributions'' (MS_Distributions m),
      validate_ReadOnly rq ''id'' (MS_ID m)]"

definition m_tag_ContextValidate :: "bool \<Rightarrow> m_tag \<Rightarrow> field_error list" where
  "m_tag_ContextValidate rq m = check_all [validate_ReadOnly rq ''id'' (MT_ID m)]"

definition m_variant_ContextValidate :: "bool \<Rightarrow> m_variant \<Rightarrow> field_error list" where
  "m_variant_ContextValidate rq m = check_all [validate_ReadOnly rq ''id'' (MV_ID m)]"

definition m_flag_ContextValidate :: "bool \<Rightarrow> m_flag \<Rightarrow> field_error list" where
  "m_flag_ContextValidate rq m = check_all
     [validate_ReadOnly rq ''id'' (MF_ID m),
      optional_entries (m_segment_ContextValidate rq) ''segments'' (MF_Segments m),
      optional_entries (m_tag_ContextValidate rq) ''tags'' (MF_Tags m),
      optional_entries (m_variant_ContextValidate rq) ''variants'' (MF_Variants m)]"

definition PutDistributionsRequest_ContextValidate :: "bool \<Rightarrow> put_distributions_request \<Rightarrow> field_error list" where
  "PutDistributionsRequest_ContextValidate rq m = check_all
     [optional_entries (m_distribution_ContextValidate rq) ''distributions'' (PDR_Distributions m)]"

definition EvaluationBatchRequest_ContextValidate :: "m_evaluation_batch_request \<Rightarrow> field_error list" where
  "EvaluationBatchRequest_ContextValidate m = check_all
     [optional_entries (\<lambda>_. []) ''entities'' (MBR_Entities m)]"

section \<open>What validation guarantees\<close>

lemma check_all_Nil [simp]: "check_all es = [] \<longleftrightarrow> (\<forall>e \<in> set es. e = None)"
  by (induction es) (auto simp: check_all_def List.map_filter_def)

lemma required_percent_None:
  "required_percent path m = None \<longleftrightarrow> (\<exists>n. m = Some n \<and> 0 \<le> sint n \<and> sint n \<le> 100)"
  by (auto simp: required_percent_def validate_MinimumInt_def validate_MaximumInt_def split: option.splits)

lemma required_string_None: "required_string path m = None \<longleftrightarrow> (\<exists>s. m = Some s \<and> s \<noteq> [])"
  by (auto simp: required_string_def validate_MinLength_def split: option.splits)

lemma required_min_None: "required_min path m mn = None \<longleftrightarrow> (\<exists>n. m = Some n \<and> mn \<le> sint n)"
  by (auto simp: required_min_def validate_MinimumInt_def split: option.splits)

lemma validate_entries_None:
  "validate_entries V name i xs = None \<longleftrightarrow> (\<forall>m. Some m \<in> set xs \<longrightarrow> V m = [])"
  by (induction xs arbitrary: i) (auto split: option.splits list.splits)

definition valid_distribution :: "m_distribution \<Rightarrow> bool" where
  "valid_distribution m \<longleftrightarrow>
     (\<exists>p v k. MD_Percent m = Some p \<and> 0 \<le> sint p \<and> sint p \<le> 100 \<and>
       MD_VariantID m = Some v \<and> 1 \<le> sint v \<and> MD_VariantKey m = Some k \<and> k \<noteq> [])"

lemma m_distribution_valid: "m_distribution_Validate m = [] \<Longrightarrow> valid_distribution m"
  by (auto simp: m_distribution_Validate_def required_percent_None required_min_None required_string_None
      valid_distribution_def)

lemma PutDistributions_valid:
  "PutDistributionsRequest_Validate m = [] \<longleftrightarrow>
    (\<exists>ds. PDR_Distributions m = Some ds \<and> (\<forall>d. Some d \<in> set ds \<longrightarrow> m_distribution_Validate d = []))"
  by (auto simp: PutDistributionsRequest_Validate_def validate_entries_None split: option.splits)

lemma SegmentRequest_valid:
  "CreateSegmentRequest_Validate m = [] \<Longrightarrow> \<exists>n. SR_RolloutPercent m = Some n \<and> 0 \<le> sint n \<and> sint n \<le> 100"
  "PutSegmentRequest_Validate m = [] \<Longrightarrow> \<exists>n. SR_RolloutPercent m = Some n \<and> 0 \<le> sint n \<and> sint n \<le> 100"
  by (auto simp: CreateSegmentRequest_Validate_def PutSegmentRequest_Validate_def required_percent_None)

end
