(* ===== verification/Flagr_Mapper.thy ===== *)
theory Flagr_Mapper
  imports Flagr_Models
begin

text \<open>
  \<^verbatim>\<open>pkg/mapper/entity_restapi\<close>: the translation of stored objects into response bodies
  (\<^verbatim>\<open>e2r\<close>) and of request bodies into stored objects (\<^verbatim>\<open>r2e\<close>). The JSON
  decoding of a snapshot's flag is a parameter.
\<close>

section \<open>From entities to responses\<close>

definition MapConstraint :: "constraint \<Rightarrow> m_constraint" where
  "MapConstraint e = \<lparr>MC_ID = int64_of_uint (constraint_ID e), MC_Operator = Some (Constraint_Operator e),
     MC_Property = Some (Constraint_Property e), MC_Value = Some (Constraint_Value e)\<rparr>"

definition MapConstraints :: "constraint list \<Rightarrow> m_constraint option list" where
  "MapConstraints e = map (\<lambda>c. Some (MapConstraint c)) e"

definition MapDistribution :: "distribution \<Rightarrow> m_distribution" where
  "MapDistribution e = \<lparr>MD_ID = int64_of_uint (distribution_ID e),
     MD_Percent = Some (int64_of_uint (Distribution_Percent e)),
     MD_VariantID = Some (int64_of_uint (Distribution_VariantID e)),
     MD_VariantKey = Some (Distribution_VariantKey e)\<rparr>"

definition MapDistributions :: "distribution list \<Rightarrow> m_distribution option list" where
  "MapDistributions e = map (\<lambda>d. Some (MapDistribution d)) e"

definition MapSegment :: "'e segment \<Rightarrow> m_segment" where
  "MapSegment e = \<lparr>MS_Constraints = Some (MapConstraints (Segment_Constraints e)),
     MS_Description = Some (Segment_Description e),
     MS_Distributions = Some (MapDistributions (Segment_Distributions e)),
     MS_ID = int64_of_uint (segment_ID e), MS_Rank = Some (int64_of_uint (Segment_Rank e)),
     MS_RolloutPercent = Some (int64_of_uint (Segment_RolloutPercent e))\<rparr>"

definition MapSegments :: "'e segment list \<Rightarrow> m_segment option list" where
  "MapSegments e = map (\<lambda>s. Some (MapSegment s)) e"

definition MapTag :: "tag \<Rightarrow> m_tag" where
  "MapTag e = \<lparr>MT_ID = int64_of_uint (Model_ID (Tag_Model e)), MT_Value = Some (Tag_Value e)\<rparr>"

definition MapTags :: "tag list \<Rightarrow> m_tag option list" where
  "MapTags e = map (\<lambda>t. Some (MapTag t)) e"

text \<open>The attachment goes into an interface field, so it is a map value even when it is nil.\<close>

definition attachment_value :: "attachment \<Rightarrow> goval" where
  "attachment_value a = (case a of None \<Rightarrow> VMap [] | Some m \<Rightarrow> VMap m)"

definition MapVariant :: "variant \<Rightarrow> m_variant" where
  "MapVariant e = \<lparr>MV_Attachment = attachment_value (Variant_Attachment e),
     MV_ID = int64_of_uint (variant_ID e), MV_Key = Some (Variant_Key e)\<rparr>"

definition MapVariants :: "variant list \<Rightarrow> m_variant option list" where
  "MapVariants e = map (\<lambda>v. Some (MapVariant v)) e"

definition MapFlag :: "'e flag \<Rightarrow> m_flag" where
  "MapFlag e = \<lparr>MF_CreatedBy = Flag_CreatedBy e,
     MF_DataRecordsEnabled = Some (Flag_DataRecordsEnabled e),
     MF_Description = Some (Flag_Description e), MF_Enabled = Some (Flag_Enabled e),
     MF_EntityType = Flag_EntityType e, MF_ID = int64_of_uint (flag_ID e), MF_Key = Flag_Key e,
     MF_Notes = Flag_Notes e, MF_Segments = Some (MapSegments (Flag_Segments e)),
     MF_Tags = Some (MapTags (Flag_Tags e)), MF_UpdatedAt = UpdatedAt (Flag_Model e),
     MF_UpdatedBy = Flag_UpdatedBy e, MF_Variants = Some (MapVariants (Flag_Variants e))\<rparr>"

definition MapFlags :: "'e flag list \<Rightarrow> m_flag option list" where
  "MapFlags e = map (\<lambda>f. Some (MapFlag f)) e"

record flag_snapshot =
  FlagSnapshot_Model :: gorm_model
  FlagSnapshot_FlagID :: u64
  FlagSnapshot_UpdatedBy :: string
  FlagSnapshot_Flag :: string

record m_flag_snapshot =
  MFS_Flag :: "m_flag option"
  MFS_ID :: i64
  MFS_UpdatedBy :: string
  MFS_UpdatedAt :: int

definition MapFlagSnapshot :: "(string \<Rightarrow> 'e flag err) \<Rightarrow> flag_snapshot \<Rightarrow> m_flag_snapshot err" where
  "MapFlagSnapshot unmarshal e =
     sum_bind (unmarshal (FlagSnapshot_Flag e)) (\<lambda>ef.
       Inr \<lparr>MFS_Flag = Some (MapFlag ef), MFS_ID = int64_of_uint (Model_ID (FlagSnapshot_Model e)),
            MFS_UpdatedBy = FlagSnapshot_UpdatedBy e, MFS_UpdatedAt = UpdatedAt (FlagSnapshot_Model e)\<rparr>)"

definition MapFlagSnapshots ::
  "(string \<Rightarrow> 'e flag err) \<Rightarrow> flag_snapshot list \<Rightarrow> m_flag_snapshot option list err" where
  "MapFlagSnapshots unmarshal e =
     sum_mapM (\<lambda>fs. sum_bind (MapFlagSnapshot unmarshal fs) (\<lambda>r. Inr (Some r))) e"

section \<open>From requests to entities\<close>

text \<open>A null entry, a missing variant id and a missing percentage are dereferenced.\<close>

definition r2e_MapDistribution :: "cast_lib \<Rightarrow> m_distribution option \<Rightarrow> u64 \<Rightarrow> distribution go" where
  "r2e_MapDistribution C r segmentID =
     (case r of
        None \<Rightarrow> Inl NilDeref
      | Some m \<Rightarrow>
          (case (MD_VariantID m, MD_Percent m) of
             (Some v, Some p) \<Rightarrow>
               Inr (zero_distribution\<lparr>Distribution_SegmentID := segmentID,
                 Distribution_VariantID := uint_of_int64 v,
                 Distribution_VariantKey := SafeString C (VPtrString (MD_VariantKey m)),
                 Distribution_Percent := uint_of_int64 p\<rparr>)
           | _ \<Rightarrow> Inl NilDeref))"

definition r2e_MapDistributions ::
  "cast_lib \<Rightarrow> m_distribution option list \<Rightarrow> u64 \<Rightarrow> distribution list go" where
  "r2e_MapDistributions C r segmentID = sum_mapM (\<lambda>d. r2e_MapDistribution C d segmentID) r"

definition r2e_MapAttachment :: "(goval \<Rightarrow> string) \<Rightarrow> goval \<Rightarrow> attachment err" where
  "r2e_MapAttachment Sdump a =
     (case a of
        VNil \<Rightarrow> Inr (Some [])
      | VMap m \<Rightarrow> Inr (Some m)
      | _ \<Rightarrow> Inl (''make sure JSON is properly formatted into key/value pairs. Invalid attachment format '' @
          Sdump a))"

section \<open>Lemmas\<close>

lemma r2e_MapDistribution_Inr:
  assumes "MD_VariantID m = Some v" "MD_Percent m = Some p"
  shows "r2e_MapDistribution C (Some m) s = Inr (zero_distribution\<lparr>Distribution_SegmentID := s,
    Distribution_VariantID := uint_of_int64 v,
    Distribution_VariantKey := SafeString C (VPtrString (MD_VariantKey m)),
    Distribution_Percent := uint_of_int64 p\<rparr>)"
  using assms by (simp add: r2e_MapDistribution_def)

context cast_laws
begin

text \<open>A stored distribution that goes out and comes back in for its segment keeps what is its own:
  the variant, the key and the percentage, but not its row id.\<close>

lemma distribution_round_trip:
  "r2e_MapDistribution C (Some (MapDistribution d)) (Distribution_SegmentID d) =
    Inr (d\<lparr>Distribution_Model := zero_model, Distribution_Bitmap := []\<rparr>)"
  by (simp add: r2e_MapDistribution_def MapDistribution_def zero_distribution_def safe_simps
      int64_of_uint_def uint_of_int64_def)

lemma distributions_round_trip:
  assumes "\<forall>d \<in> set ds. Distribution_SegmentID d = s"
  shows "r2e_MapDistributions C (MapDistributions ds) s =
    Inr (map (\<lambda>d. d\<lparr>Distribution_Model := zero_model, Distribution_Bitmap := []\<rparr>) ds)"
  using assms
proof (induction ds)
  case Nil
  then show ?case by (simp add: r2e_MapDistributions_def MapDistributions_def)
next
  case (Cons d ds)
  then show ?case
    using distribution_round_trip [of d] by (simp add: r2e_MapDistributions_def MapDistributions_def)
qed

end

lemma attachment_round_trip:
  "r2e_MapAttachment Sdump (attachment_value a) = Inr (Some (case a of None \<Rightarrow> [] | Some m \<Rightarrow> m))"
  by (simp add: r2e_MapAttachment_def attachment_value_def split: option.splits)

end
