(* ===== verification/Flagr_DB.thy ===== *)
theory Flagr_DB
  imports Flagr_Mapper "HOL-Library.List_Lexorder"
begin

text \<open>
  The database as Flagr uses it through \<^verbatim>\<open>GORM\<close>, which is not part of the repository: a
  record of operations over an abstract database state, the laws the handlers rely on as the
  locale \<open>gorm_laws\<close>, and an in-memory instance that satisfies them. The queries that Flagr
  itself states (the preloads of a flag and a segment) are definitions over that record.
\<close>

section \<open>Rows\<close>

datatype table_kind =
  TFlag | TSegment | TConstraint | TDistribution | TVariant | TTag | TSnapshot | TEntityType

datatype 'e row =
    RFlag "'e flag"
  | RSegment "'e segment"
  | RConstraint constraint
  | RDistribution distribution
  | RVariant variant
  | RTag tag
  | RSnapshot flag_snapshot
  | REntityType flag_entity_type

fun row_kind :: "'e row \<Rightarrow> table_kind" where
  "row_kind (RFlag _) = TFlag"
| "row_kind (RSegment _) = TSegment"
| "row_kind (RConstraint _) = TConstraint"
| "row_kind (RDistribution _) = TDistribution"
| "row_kind (RVariant _) = TVariant"
| "row_kind (RTag _) = TTag"
| "row_kind (RSnapshot _) = TSnapshot"
| "row_kind (REntityType _) = TEntityType"

fun row_model :: "'e row \<Rightarrow> gorm_model" where
  "row_model (RFlag f) = Flag_Model f"
| "row_model (RSegment s) = Segment_Model s"
| "row_model (RConstraint c) = Constraint_Model c"
| "row_model (RDistribution d) = Distribution_Model d"
| "row_model (RVariant v) = Variant_Model v"
| "row_model (RTag t) = Tag_Model t"
| "row_model (RSnapshot s) = FlagSnapshot_Model s"
| "row_model (REntityType t) = FlagEntityType_Model t"

fun with_model :: "'e row \<Rightarrow> gorm_model \<Rightarrow> 'e row" where
  "with_model (RFlag f) m = RFlag (f\<lparr>Flag_Model := m\<rparr>)"
| "with_model (RSegment s) m = RSegment (s\<lparr>Segment_Model := m\<rparr>)"
| "with_model (RConstraint c) m = RConstraint (c\<lparr>Constraint_Model := m\<rparr>)"
| "with_model (RDistribution d) m = RDistribution (d\<lparr>Distribution_Model := m\<rparr>)"
| "with_model (RVariant v) m = RVariant (v\<lparr>Variant_Model := m\<rparr>)"
| "with_model (RTag t) m = RTag (t\<lparr>Tag_Model := m\<rparr>)"
| "with_model (RSnapshot s) m = RSnapshot (s\<lparr>FlagSnapshot_Model := m\<rparr>)"
| "with_model (REntityType t) m = REntityType (t\<lparr>FlagEntityType_Model := m\<rparr>)"

text \<open>What a row stores of an object: its columns, not its associations nor the evaluation fields.\<close>

fun row_columns :: "'e row \<Rightarrow> 'e row" where
  "row_columns (RFlag f) = RFlag (f\<lparr>Flag_Segments := [], Flag_Variants := [], Flag_Tags := [],
     FlagEvaluation := \<lparr>VariantsMap = []\<rparr>\<rparr>)"
| "row_columns (RSegment s) = RSegment (s\<lparr>Segment_Constraints := [], Segment_Distributions := [],
     SegmentEvaluation := zero_segment_evaluation\<rparr>)"
| "row_columns r = r"

abbreviation row_ID :: "'e row \<Rightarrow> u64" where
  "row_ID r \<equiv> Model_ID (row_model r)"

definition live :: "'e row \<Rightarrow> bool" where
  "live r \<longleftrightarrow> DeletedAt (row_model r) = None"

definition touch :: "int \<Rightarrow> 'e row \<Rightarrow> 'e row" where
  "touch t r = with_model r (row_model r\<lparr>UpdatedAt := t\<rparr>)"

definition soft_delete :: "int \<Rightarrow> 'e row \<Rightarrow> 'e row" where
  "soft_delete t r = with_model r (row_model r\<lparr>DeletedAt := Some t\<rparr>)"

lemma row_model_simps [simp]:
  "row_model (with_model r m) = m" "row_kind (with_model r m) = row_kind r"
  "row_kind (row_columns r) = row_kind r" "row_model (row_columns r) = row_model r"
  "row_kind (touch t r) = row_kind r" "row_kind (soft_delete t r) = row_kind r"
  "live (touch t r) = live r" "\<not> live (soft_delete t r)" "live (row_columns r) = live r"
  by (cases r; simp add: touch_def soft_delete_def live_def)+

section \<open>The operations\<close>

text \<open>A statement runs on the connection pool or inside an open transaction.\<close>

datatype db_handle = RootDB | TxDB nat

definition ErrRecordNotFound :: error where
  "ErrRecordNotFound = ''record not found''"

record ('e, 'db) gorm =
  gorm_First :: "db_handle \<Rightarrow> table_kind \<Rightarrow> bool \<Rightarrow> u64 \<Rightarrow> 'db \<Rightarrow> 'e row err"
  gorm_Find :: "db_handle \<Rightarrow> table_kind \<Rightarrow> ('e row \<Rightarrow> bool) \<Rightarrow> ('e row \<Rightarrow> int list) \<Rightarrow> 'db \<Rightarrow> 'e row list err"
  gorm_Create :: "db_handle \<Rightarrow> 'e row \<Rightarrow> 'db \<Rightarrow> 'e row err \<times> 'db"
  gorm_Save :: "db_handle \<Rightarrow> bool \<Rightarrow> 'e row \<Rightarrow> 'db \<Rightarrow> 'e row err \<times> 'db"
  gorm_Delete :: "db_handle \<Rightarrow> table_kind \<Rightarrow> ('e row \<Rightarrow> bool) \<Rightarrow> 'db \<Rightarrow> error option \<times> 'db"
  gorm_Updates :: "db_handle \<Rightarrow> table_kind \<Rightarrow> ('e row \<Rightarrow> bool) \<Rightarrow> ('e row \<Rightarrow> 'e row) \<Rightarrow> 'db \<Rightarrow> error option \<times> 'db"
  gorm_Begin :: "'db \<Rightarrow> nat \<times> 'db"
  gorm_Commit :: "nat \<Rightarrow> 'db \<Rightarrow> error option \<times> 'db"
  gorm_Rollback :: "nat \<Rightarrow> 'db \<Rightarrow> 'db"
  gorm_Tags_Find :: "db_handle \<Rightarrow> u64 \<Rightarrow> 'db \<Rightarrow> tag list err"
  gorm_Tags_Append :: "u64 \<Rightarrow> tag \<Rightarrow> 'db \<Rightarrow> tag err \<times> 'db"
  gorm_Tags_Delete :: "u64 \<Rightarrow> u64 \<Rightarrow> 'db \<Rightarrow> error option \<times> 'db"

text \<open>Reading rows of one type.\<close>

fun as_flag :: "'e row \<Rightarrow> 'e flag option" where
  "as_flag (RFlag f) = Some f" | "as_flag _ = None"

fun as_segment :: "'e row \<Rightarrow> 'e segment option" where
  "as_segment (RSegment s) = Some s" | "as_segment _ = None"

fun as_constraint :: "'e row \<Rightarrow> constraint option" where
  "as_constraint (RConstraint c) = Some c" | "as_constraint _ = None"

fun as_distribution :: "'e row \<Rightarrow> distribution option" where
  "as_distribution (RDistribution d) = Some d" | "as_distribution _ = None"

fun as_variant :: "'e row \<Rightarrow> variant option" where
  "as_variant (RVariant v) = Some v" | "as_variant _ = None"

fun as_tag :: "'e row \<Rightarrow> tag option" where
  "as_tag (RTag t) = Some t" | "as_tag _ = None"

fun as_snapshot :: "'e row \<Rightarrow> flag_snapshot option" where
  "as_snapshot (RSnapshot s) = Some s" | "as_snapshot _ = None"

fun as_entity_type :: "'e row \<Rightarrow> flag_entity_type option" where
  "as_entity_type (REntityType t) = Some t" | "as_entity_type _ = None"

definition typed :: "('r \<Rightarrow> 'a option) \<Rightarrow> 'r err \<Rightarrow> 'a err" where
  "typed as x = sum_bind x (\<lambda>r. case as r of None \<Rightarrow> Inl ''unexpected row'' | Some a \<Rightarrow> Inr a)"

definition typed_list :: "('r \<Rightarrow> 'a option) \<Rightarrow> 'r list err \<Rightarrow> 'a list err" where
  "typed_list as x = sum_bind x (\<lambda>rs. Inr (List.map_filter as rs))"

lemma typed_Inr_iff: "typed as x = Inr a \<longleftrightarrow> (\<exists>r. x = Inr r \<and> as r = Some a)"
  by (auto simp: typed_def sum_bind_eq_Inr_iff split: option.splits)

lemma typed_list_Inr_iff: "typed_list as x = Inr as' \<longleftrightarrow> (\<exists>rs. x = Inr rs \<and> as' = List.map_filter as rs)"
  by (auto simp: typed_list_def sum_bind_eq_Inr_iff)

text \<open>Going on after a write that may fail, and after one that only reports an error.\<close>

definition db_try :: "'a err \<times> 'db \<Rightarrow> (error \<Rightarrow> 'db \<Rightarrow> 'r) \<Rightarrow> ('a \<Rightarrow> 'db \<Rightarrow> 'r) \<Rightarrow> 'r" where
  "db_try x onErr k = (case x of (Inl e, db) \<Rightarrow> onErr e db | (Inr a, db) \<Rightarrow> k a db)"

definition db_exec :: "error option \<times> 'db \<Rightarrow> (error \<Rightarrow> 'db \<Rightarrow> 'r) \<Rightarrow> ('db \<Rightarrow> 'r) \<Rightarrow> 'r" where
  "db_exec x onErr k = (case x of (Some e, db) \<Rightarrow> onErr e db | (None, db) \<Rightarrow> k db)"

section \<open>The preloads\<close>

text \<open>
  \<^verbatim>\<open>PreloadConstraintsDistribution\<close>, \<^verbatim>\<open>PreloadSegmentsVariantsTags\<close> and
  \<^verbatim>\<open>PreloadFlagTags\<close> run one query per association, in the order the code gives.
\<close>

definition by_columns :: "('a \<Rightarrow> int list) \<Rightarrow> ('e row \<Rightarrow> 'a option) \<Rightarrow> 'e row \<Rightarrow> int list" where
  "by_columns key as r = (case as r of None \<Rightarrow> [] | Some a \<Rightarrow> key a)"

definition row_where :: "('e row \<Rightarrow> 'a option) \<Rightarrow> ('a \<Rightarrow> bool) \<Rightarrow> 'e row \<Rightarrow> bool" where
  "row_where as P r = (case as r of None \<Rightarrow> False | Some a \<Rightarrow> P a)"

definition PreloadConstraintsDistribution ::
  "('e, 'db) gorm \<Rightarrow> db_handle \<Rightarrow> 'db \<Rightarrow> 'e segment \<Rightarrow> 'e segment err" where
  "PreloadConstraintsDistribution G h db s =
     sum_bind (typed_list as_distribution (gorm_Find G h TDistribution
         (row_where as_distribution (\<lambda>d. Distribution_SegmentID d = segment_ID s))
         (by_columns (\<lambda>d. [uint (Distribution_VariantID d)]) as_distribution) db)) (\<lambda>ds.
     sum_bind (typed_list as_constraint (gorm_Find G h TConstraint
         (row_where as_constraint (\<lambda>c. Constraint_SegmentID c = segment_ID s))
         (by_columns (\<lambda>c. [CreatedAt (Constraint_Model c)]) as_constraint) db)) (\<lambda>cs.
     Inr (s\<lparr>Segment_Distributions := ds, Segment_Constraints := cs\<rparr>)))"

definition PreloadFlagTags :: "('e, 'db) gorm \<Rightarrow> db_handle \<Rightarrow> 'db \<Rightarrow> 'e flag \<Rightarrow> 'e flag err" where
  "PreloadFlagTags G h db f =
     sum_bind (gorm_Tags_Find G h (flag_ID f) db) (\<lambda>ts. Inr (f\<lparr>Flag_Tags := ts\<rparr>))"

definition PreloadSegmentsVariantsTags ::
  "('e, 'db) gorm \<Rightarrow> db_handle \<Rightarrow> 'db \<Rightarrow> 'e flag \<Rightarrow> 'e flag err" where
  "PreloadSegmentsVariantsTags G h db f =
     sum_bind (typed_list as_segment (gorm_Find G h TSegment
         (row_where as_segment (\<lambda>s. Segment_FlagID s = flag_ID f))
         (by_columns (\<lambda>s. [uint (Segment_Rank s), uint (segment_ID s)]) as_segment) db)) (\<lambda>ss.
     sum_bind (sum_mapM (PreloadConstraintsDistribution G h db) ss) (\<lambda>ss'.
     sum_bind (typed_list as_variant (gorm_Find G h TVariant
         (row_where as_variant (\<lambda>v. Variant_FlagID v = flag_ID f))
         (by_columns (\<lambda>v. [uint (variant_ID v)]) as_variant) db)) (\<lambda>vs.
     PreloadFlagTags G h db (f\<lparr>Flag_Segments := ss', Flag_Variants := vs\<rparr>))))"

definition First_Flag :: "('e, 'db) gorm \<Rightarrow> db_handle \<Rightarrow> u64 \<Rightarrow> 'db \<Rightarrow> 'e flag err" where
  "First_Flag G h flagID db = typed as_flag (gorm_First G h TFlag False flagID db)"

definition First_Flag_preloaded :: "('e, 'db) gorm \<Rightarrow> db_handle \<Rightarrow> u64 \<Rightarrow> 'db \<Rightarrow> 'e flag err" where
  "First_Flag_preloaded G h flagID db =
     sum_bind (First_Flag G h flagID db) (PreloadSegmentsVariantsTags G h db)"

text \<open>\<^verbatim>\<open>f.Preload(db)\<close> where the caller drops the error: the object stays as it was.\<close>

definition Flag_Preload :: "('e, 'db) gorm \<Rightarrow> db_handle \<Rightarrow> 'db \<Rightarrow> 'e flag \<Rightarrow> 'e flag" where
  "Flag_Preload G h db f =
     (case First_Flag_preloaded G h (flag_ID f) db of Inl _ \<Rightarrow> f | Inr f' \<Rightarrow> f')"

definition dbFetcher_fetch :: "('e, 'db) gorm \<Rightarrow> 'db \<Rightarrow> 'e flag list err" where
  "dbFetcher_fetch G db =
     sum_bind (typed_list as_flag (gorm_Find G RootDB TFlag (\<lambda>_. True) (\<lambda>_. []) db))
       (sum_mapM (PreloadSegmentsVariantsTags G RootDB db))"

section \<open>The laws\<close>

text \<open>
  What the documentation of GORM promises, stated over two observations of a database state: the
  rows (deleted ones included) that a handle sees in each table, and the transactions that are
  open. A statement changes only what its own handle sees; a statement that reports an error
  changes nothing; queries are scoped to rows that are not deleted.
\<close>

locale gorm_laws =
  fixes G :: "('e, 'db) gorm"
    and rows :: "'db \<Rightarrow> db_handle \<Rightarrow> table_kind \<Rightarrow> 'e row list"
    and open_txs :: "'db \<Rightarrow> nat set"
  assumes row_kinds: "r \<in> set (rows db h k) \<Longrightarrow> row_kind r = k"
    and First_ok: "gorm_First G h k unscoped i db = Inr r \<Longrightarrow>
      \<exists>x \<in> set (rows db h k). r = row_columns x \<and> row_ID x = i \<and> (unscoped \<or> live x)"
    and Find_ok: "gorm_Find G h k P ord db = Inr rs \<Longrightarrow>
      mset rs = mset (filter (\<lambda>r. live r \<and> P r) (rows db h k))"
    and Find_sorted: "gorm_Find G h k P ord db = Inr rs \<Longrightarrow> sorted (map ord rs)"
    and Create_ok: "gorm_Create G h r db = (Inr r', db') \<Longrightarrow>
      (\<exists>m. r' = with_model r m \<and> Model_ID m \<noteq> 0 \<and> DeletedAt m = None \<and>
        (\<forall>x \<in> set (rows db h (row_kind r)). row_ID x \<noteq> Model_ID m)) \<and>
      rows db' h = (rows db h)(row_kind r := rows db h (row_kind r) @ [row_columns r'])"
    and Save_ok: "gorm_Save G h unscoped r db = (Inr r', db') \<Longrightarrow>
      (\<exists>x \<in> set (rows db h (row_kind r)). row_ID x = row_ID r \<and> (unscoped \<or> live x)) \<Longrightarrow>
      (\<exists>t. r' = touch t r) \<and>
      rows db' h = (rows db h)(row_kind r :=
        map (\<lambda>x. if row_ID x = row_ID r then row_columns r' else x) (rows db h (row_kind r)))"
    and Delete_ok: "gorm_Delete G h k P db = (None, db') \<Longrightarrow>
      \<exists>t. rows db' h = (rows db h)(k :=
        map (\<lambda>x. if live x \<and> P x then soft_delete t x else x) (rows db h k))"
    and Updates_ok: "gorm_Updates G h k P u db = (None, db') \<Longrightarrow> \<forall>x. row_kind (u x) = row_kind x \<Longrightarrow>
      \<exists>t. rows db' h = (rows db h)(k := map (\<lambda>x. if live x \<and> P x then touch t (u x) else x) (rows db h k))"
    and write_frame: "h' \<noteq> h \<Longrightarrow> gorm_Create G h r db = (res, db') \<Longrightarrow> rows db' h' = rows db h'"
      "h' \<noteq> h \<Longrightarrow> gorm_Save G h unscoped r db = (res, db') \<Longrightarrow> rows db' h' = rows db h'"
      "h' \<noteq> h \<Longrightarrow> gorm_Delete G h k P db = (er, db') \<Longrightarrow> rows db' h' = rows db h'"
      "h' \<noteq> h \<Longrightarrow> gorm_Updates G h k P u db = (er, db') \<Longrightarrow> rows db' h' = rows db h'"
    and write_error: "gorm_Create G h r db = (Inl e, db') \<Longrightarrow> rows db' h = rows db h"
      "gorm_Save G h unscoped r db = (Inl e, db') \<Longrightarrow> rows db' h = rows db h"
      "gorm_Delete G h k P db = (Some e, db') \<Longrightarrow> rows db' h = rows db h"
      "gorm_Updates G h k P u db = (Some e, db') \<Longrightarrow> rows db' h = rows db h"
    and write_open: "gorm_Create G h r db = (res, db') \<Longrightarrow> open_txs db' = open_txs db"
      "gorm_Save G h unscoped r db = (res, db') \<Longrightarrow> open_txs db' = open_txs db"
      "gorm_Delete G h k P db = (er, db') \<Longrightarrow> open_txs db' = open_txs db"
      "gorm_Updates G h k P u db = (er, db') \<Longrightarrow> open_txs db' = open_txs db"
    and Begin_ok: "gorm_Begin G db = (tx, db') \<Longrightarrow>
      tx \<notin> open_txs db \<and> open_txs db' = insert tx (open_txs db) \<and>
      rows db' (TxDB tx) = rows db RootDB \<and> (\<forall>h. h \<noteq> TxDB tx \<longrightarrow> rows db' h = rows db h)"
    and Commit_ok: "gorm_Commit G tx db = (None, db') \<Longrightarrow> tx \<in> open_txs db \<Longrightarrow>
      open_txs db' = open_txs db - {tx} \<and> rows db' RootDB = rows db (TxDB tx)"
    and Commit_error: "gorm_Commit G tx db = (Some e, db') \<Longrightarrow>
      open_txs db' = open_txs db \<and> rows db' RootDB = rows db RootDB"
    and Rollback_ok: "open_txs (gorm_Rollback G tx db) = open_txs db - {tx} \<and>
      rows (gorm_Rollback G tx db) RootDB = rows db RootDB"
    and Tags_Append_ok: "gorm_Tags_Append G i t db = (tres, db') \<Longrightarrow>
      (\<forall>k. k \<noteq> TTag \<and> k \<noteq> TFlag \<longrightarrow> rows db' RootDB k = rows db RootDB k) \<and> open_txs db' = open_txs db"
    and Tags_Delete_ok: "gorm_Tags_Delete G i j db = (er, db') \<Longrightarrow>
      (\<forall>k. k \<noteq> TFlag \<longrightarrow> rows db' RootDB k = rows db RootDB k) \<and> open_txs db' = open_txs db"

section \<open>An in-memory database\<close>

text \<open>
  A concrete instance: the committed tables, the tables as each open transaction sees them, the
  join table of flags and tags, a counter for ids and transactions, and a set of statements that
  fail. Times are not kept: every write happens at time 0.
\<close>

datatype statement = SFirst table_kind | SFind table_kind | SCreate table_kind | SSave table_kind |
  SDelete table_kind | SUpdates table_kind | SCommit

record 'e mem_db =
  mem_committed :: "table_kind \<Rightarrow> 'e row list"
  mem_txs :: "(nat \<times> (table_kind \<Rightarrow> 'e row list)) list"
  mem_flag_tags :: "(u64 \<times> u64) list"
  mem_faults :: "statement list"

definition mem_rows :: "'e mem_db \<Rightarrow> db_handle \<Rightarrow> table_kind \<Rightarrow> 'e row list" where
  "mem_rows db h k = filter (\<lambda>r. row_kind r = k)
     (case h of RootDB \<Rightarrow> mem_committed db k
      | TxDB i \<Rightarrow> (case map_of (mem_txs db) i of None \<Rightarrow> [] | Some t \<Rightarrow> t k))"

definition mem_open :: "'e mem_db \<Rightarrow> nat set" where
  "mem_open db = fst ` set (mem_txs db)"

definition mem_put :: "db_handle \<Rightarrow> table_kind \<Rightarrow> 'e row list \<Rightarrow> 'e mem_db \<Rightarrow> 'e mem_db" where
  "mem_put h k rs db =
     (case h of
        RootDB \<Rightarrow> db\<lparr>mem_committed := (mem_committed db)(k := rs)\<rparr>
      | TxDB i \<Rightarrow> db\<lparr>mem_txs := map (\<lambda>(j, t). (j, if j = i then t(k := rs) else t)) (mem_txs db)\<rparr>)"

definition mem_known :: "db_handle \<Rightarrow> 'e mem_db \<Rightarrow> bool" where
  "mem_known h db \<longleftrightarrow> (case h of RootDB \<Rightarrow> True | TxDB i \<Rightarrow> i \<in> fst ` set (mem_txs db))"

definition mem_ok :: "statement \<Rightarrow> db_handle \<Rightarrow> 'e mem_db \<Rightarrow> bool" where
  "mem_ok st h db \<longleftrightarrow> st \<notin> set (mem_faults db) \<and> mem_known h db"

definition mem_fresh_id :: "'e row list \<Rightarrow> u64" where
  "mem_fresh_id rs = (if rs = [] then 1 else Max (row_ID ` set rs) + 1)"

definition mem_First :: "db_handle \<Rightarrow> table_kind \<Rightarrow> bool \<Rightarrow> u64 \<Rightarrow> 'e mem_db \<Rightarrow> 'e row err" where
  "mem_First h k unscoped i db =
     (if \<not> mem_ok (SFirst k) h db then Inl ''connection lost''
      else (case List.find (\<lambda>r. row_ID r = i \<and> (unscoped \<or> live r)) (mem_rows db h k) of
        None \<Rightarrow> Inl ErrRecordNotFound | Some r \<Rightarrow> Inr (row_columns r)))"

definition mem_Find ::
  "db_handle \<Rightarrow> table_kind \<Rightarrow> ('e row \<Rightarrow> bool) \<Rightarrow> ('e row \<Rightarrow> int list) \<Rightarrow> 'e mem_db \<Rightarrow> 'e row list err" where
  "mem_Find h k P ord db =
     (if \<not> mem_ok (SFind k) h db then Inl ''connection lost''
      else Inr (sort_key ord (filter (\<lambda>r. live r \<and> P r) (mem_rows db h k))))"

definition mem_Create :: "db_handle \<Rightarrow> 'e row \<Rightarrow> 'e mem_db \<Rightarrow> 'e row err \<times> 'e mem_db" where
  "mem_Create h r db =
     (let k = row_kind r; rs = mem_rows db h k; i = mem_fresh_id rs;
          r' = with_model r \<lparr>Model_ID = i, CreatedAt = 0, UpdatedAt = 0, DeletedAt = None\<rparr>
      in if \<not> mem_ok (SCreate k) h db \<or> i = 0 \<or> i \<in> row_ID ` set rs then (Inl ''cannot insert'', db)
         else (Inr r', mem_put h k (rs @ [row_columns r']) db))"

definition mem_Save :: "db_handle \<Rightarrow> bool \<Rightarrow> 'e row \<Rightarrow> 'e mem_db \<Rightarrow> 'e row err \<times> 'e mem_db" where
  "mem_Save h unscoped r db =
     (let k = row_kind r; r' = touch 0 r
      in if \<not> mem_ok (SSave k) h db then (Inl ''cannot save'', db)
         else (Inr r', mem_put h k
           (map (\<lambda>x. if row_ID x = row_ID r then row_columns r' else x) (mem_rows db h k)) db))"

definition mem_Delete ::
  "db_handle \<Rightarrow> table_kind \<Rightarrow> ('e row \<Rightarrow> bool) \<Rightarrow> 'e mem_db \<Rightarrow> error option \<times> 'e mem_db" where
  "mem_Delete h k P db =
     (if \<not> mem_ok (SDelete k) h db then (Some ''cannot delete'', db)
      else (None, mem_put h k
        (map (\<lambda>x. if live x \<and> P x then soft_delete 0 x else x) (mem_rows db h k)) db))"

definition mem_Updates ::
  "db_handle \<Rightarrow> table_kind \<Rightarrow> ('e row \<Rightarrow> bool) \<Rightarrow> ('e row \<Rightarrow> 'e row) \<Rightarrow> 'e mem_db \<Rightarrow>
    error option \<times> 'e mem_db" where
  "mem_Updates h k P u db =
     (if \<not> mem_ok (SUpdates k) h db then (Some ''cannot update'', db)
      else (None, mem_put h k
        (map (\<lambda>x. if live x \<and> P x then touch 0 (u x) else x) (mem_rows db h k)) db))"

definition mem_Begin :: "'e mem_db \<Rightarrow> nat \<times> 'e mem_db" where
  "mem_Begin db =
     (let i = Suc (sum_list (map fst (mem_txs db)))
      in (i, db\<lparr>mem_txs := (i, mem_committed db) # mem_txs db\<rparr>))"

definition mem_close :: "nat \<Rightarrow> 'e mem_db \<Rightarrow> 'e mem_db" where
  "mem_close i db = db\<lparr>mem_txs := filter (\<lambda>(j, _). j \<noteq> i) (mem_txs db)\<rparr>"

definition mem_Commit :: "nat \<Rightarrow> 'e mem_db \<Rightarrow> error option \<times> 'e mem_db" where
  "mem_Commit i db =
     (if SCommit \<in> set (mem_faults db) then (Some ''cannot commit'', db)
      else (case map_of (mem_txs db) i of
        None \<Rightarrow> (None, db) | Some t \<Rightarrow> (None, mem_close i (db\<lparr>mem_committed := t\<rparr>))))"

definition mem_Tags_Find :: "db_handle \<Rightarrow> u64 \<Rightarrow> 'e mem_db \<Rightarrow> tag list err" where
  "mem_Tags_Find h i db =
     Inr (List.map_filter as_tag
       (filter (\<lambda>r. (i, row_ID r) \<in> set (mem_flag_tags db)) (mem_rows db h TTag)))"

definition mem_Tags_Append :: "u64 \<Rightarrow> tag \<Rightarrow> 'e mem_db \<Rightarrow> tag err \<times> 'e mem_db" where
  "mem_Tags_Append i t db =
     (let rs = mem_rows db RootDB TTag; m = Tag_Model t;
          t' = (if Model_ID m = 0 then t\<lparr>Tag_Model := m\<lparr>Model_ID := mem_fresh_id rs\<rparr>\<rparr> else t);
          db' = (if Model_ID m = 0 then mem_put RootDB TTag (rs @ [RTag t']) db else db)
      in (Inr t', db'\<lparr>mem_flag_tags := (i, Model_ID (Tag_Model t')) # mem_flag_tags db'\<rparr>))"

definition mem_Tags_Delete :: "u64 \<Rightarrow> u64 \<Rightarrow> 'e mem_db \<Rightarrow> error option \<times> 'e mem_db" where
  "mem_Tags_Delete i j db = (None, db\<lparr>mem_flag_tags := filter (\<lambda>p. p \<noteq> (i, j)) (mem_flag_tags db)\<rparr>)"

definition mem_gorm :: "('e, 'e mem_db) gorm" where
  "mem_gorm = \<lparr>gorm_First = mem_First, gorm_Find = mem_Find, gorm_Create = mem_Create,
     gorm_Save = mem_Save, gorm_Delete = mem_Delete, gorm_Updates = mem_Updates,
     gorm_Begin = mem_Begin, gorm_Commit = mem_Commit, gorm_Rollback = mem_close,
     gorm_Tags_Find = mem_Tags_Find, gorm_Tags_Append = mem_Tags_Append,
     gorm_Tags_Delete = mem_Tags_Delete\<rparr>"

lemma mem_gorm_sel [simp]:
  "gorm_First mem_gorm = mem_First" "gorm_Find mem_gorm = mem_Find" "gorm_Create mem_gorm = mem_Create"
  "gorm_Save mem_gorm = mem_Save" "gorm_Delete mem_gorm = mem_Delete" "gorm_Updates mem_gorm = mem_Updates"
  "gorm_Begin mem_gorm = mem_Begin" "gorm_Commit mem_gorm = mem_Commit"
  "gorm_Rollback mem_gorm = mem_close" "gorm_Tags_Find mem_gorm = mem_Tags_Find"
  "gorm_Tags_Append mem_gorm = mem_Tags_Append" "gorm_Tags_Delete mem_gorm = mem_Tags_Delete"
  by (simp_all add: mem_gorm_def)

lemma mem_rows_put:
  assumes "mem_known h db"
  shows "mem_rows (mem_put h k rs db) h = (mem_rows db h)(k := filter (\<lambda>r. row_kind r = k) rs)"
proof (cases h)
  case RootDB
  then show ?thesis by (auto simp: mem_rows_def mem_put_def fun_eq_iff)
next
  case (TxDB i)
  have "map_of (map (\<lambda>(j, t). (j, if j = i then t(k := rs) else t)) xs) i =
    map_option (\<lambda>t. t(k := rs)) (map_of xs i)" for xs :: "(nat \<times> (table_kind \<Rightarrow> 'a row list)) list"
    by (induction xs) auto
  moreover have "map_of (mem_txs db) i \<noteq> None"
    using assms TxDB by (simp add: mem_known_def map_of_eq_None_iff)
  ultimately show ?thesis
    using TxDB by (auto simp: mem_rows_def mem_put_def fun_eq_iff)
qed

lemma map_of_update_other:
  "i' \<noteq> i \<Longrightarrow> map_of (map (\<lambda>(j, t). (j, if j = i then g t else t)) xs) i' = map_of xs i'"
  by (induction xs) auto

lemma mem_rows_put_other:
  assumes "h' \<noteq> h"
  shows "mem_rows (mem_put h k rs db) h' = mem_rows db h'"
proof (rule ext)
  fix k'
  show "mem_rows (mem_put h k rs db) h' k' = mem_rows db h' k'"
    using assms by (cases h; cases h') (simp_all add: mem_rows_def mem_put_def map_of_update_other)
qed

lemma mem_open_put [simp]: "mem_open (mem_put h k rs db) = mem_open db"
  by (simp add: mem_open_def mem_put_def case_prod_beta image_image split: db_handle.splits)

lemma mem_rows_kind: "r \<in> set (mem_rows db h k) \<Longrightarrow> row_kind r = k"
  by (simp add: mem_rows_def)

lemma filter_kind_mem_rows [simp]: "filter (\<lambda>r. row_kind r = k) (mem_rows db h k) = mem_rows db h k"
  by (simp add: mem_rows_def)

lemma filter_kind_map:
  assumes "\<And>x. x \<in> set xs \<Longrightarrow> row_kind (f x) = k"
  shows "filter (\<lambda>r. row_kind r = k) (map f xs) = map f xs"
  using assms by (induction xs) auto

lemma mem_put_map:
  assumes "mem_known h db" "\<And>x. row_kind x = k \<Longrightarrow> row_kind (f x) = k"
  shows "mem_rows (mem_put h k (map f (mem_rows db h k)) db) h =
    (mem_rows db h)(k := map f (mem_rows db h k))"
  using assms by (simp add: mem_rows_put filter_kind_map mem_rows_kind)

lemma mem_Create_cases:
  assumes "mem_Create h r db = (res, db')"
  shows "(\<exists>e. res = Inl e \<and> db' = db) \<or>
    (mem_known h db \<and> (\<exists>m. res = Inr (with_model r m) \<and> Model_ID m \<noteq> 0 \<and> DeletedAt m = None \<and>
      (\<forall>x \<in> set (mem_rows db h (row_kind r)). row_ID x \<noteq> Model_ID m) \<and>
      db' = mem_put h (row_kind r) (mem_rows db h (row_kind r) @ [row_columns (with_model r m)]) db))"
proof -
  let ?rs = "mem_rows db h (row_kind r)"
  let ?m = "\<lparr>Model_ID = mem_fresh_id ?rs, CreatedAt = 0, UpdatedAt = 0, DeletedAt = None\<rparr>"
  show ?thesis
  proof (cases "mem_ok (SCreate (row_kind r)) h db \<and> mem_fresh_id ?rs \<noteq> 0 \<and> mem_fresh_id ?rs \<notin> row_ID ` set ?rs")
    case True
    then have "res = Inr (with_model r ?m)" "db' = mem_put h (row_kind r) (?rs @ [row_columns (with_model r ?m)]) db"
      using assms by (auto simp: mem_Create_def Let_def)
    moreover have "mem_known h db" using True by (simp add: mem_ok_def)
    moreover have "\<forall>x \<in> set ?rs. row_ID x \<noteq> Model_ID ?m" "Model_ID ?m \<noteq> 0" using True by force+
    ultimately show ?thesis by (metis gorm_model.select_convs(4))
  next
    case False
    then show ?thesis using assms by (auto simp: mem_Create_def Let_def)
  qed
qed

lemma mem_Save_cases:
  "mem_Save h unscoped r db = (res, db') \<Longrightarrow> (\<exists>e. res = Inl e \<and> db' = db) \<or>
    (mem_known h db \<and> res = Inr (touch 0 r) \<and>
      db' = mem_put h (row_kind r) (map (\<lambda>x. if row_ID x = row_ID r then row_columns (touch 0 r) else x)
        (mem_rows db h (row_kind r))) db)"
  by (auto simp: mem_Save_def Let_def mem_ok_def split: if_splits)

lemma mem_Delete_cases:
  "mem_Delete h k P db = (er, db') \<Longrightarrow> (\<exists>e. er = Some e \<and> db' = db) \<or>
    (mem_known h db \<and> er = None \<and>
      db' = mem_put h k (map (\<lambda>x. if live x \<and> P x then soft_delete 0 x else x) (mem_rows db h k)) db)"
  by (auto simp: mem_Delete_def mem_ok_def split: if_splits)

lemma mem_Updates_cases:
  "mem_Updates h k P u db = (er, db') \<Longrightarrow> (\<exists>e. er = Some e \<and> db' = db) \<or>
    (mem_known h db \<and> er = None \<and>
      db' = mem_put h k (map (\<lambda>x. if live x \<and> P x then touch 0 (u x) else x) (mem_rows db h k)) db)"
  by (auto simp: mem_Updates_def mem_ok_def split: if_splits)

lemmas mem_cases = mem_Create_cases mem_Save_cases mem_Delete_cases mem_Updates_cases

lemma mem_write_frame:
  "h' \<noteq> h \<Longrightarrow> mem_Create h r db = (res, db') \<Longrightarrow> mem_rows db' h' = mem_rows db h'"
  "h' \<noteq> h \<Longrightarrow> mem_Save h unscoped r db = (res, db') \<Longrightarrow> mem_rows db' h' = mem_rows db h'"
  "h' \<noteq> h \<Longrightarrow> mem_Delete h k P db = (er, db') \<Longrightarrow> mem_rows db' h' = mem_rows db h'"
  "h' \<noteq> h \<Longrightarrow> mem_Updates h k P u db = (er, db') \<Longrightarrow> mem_rows db' h' = mem_rows db h'"
  by (drule mem_cases, auto simp: mem_rows_put_other)+

lemma mem_write_error:
  "mem_Create h r db = (Inl e, db') \<Longrightarrow> mem_rows db' h = mem_rows db h"
  "mem_Save h unscoped r db = (Inl e, db') \<Longrightarrow> mem_rows db' h = mem_rows db h"
  "mem_Delete h k P db = (Some e, db') \<Longrightarrow> mem_rows db' h = mem_rows db h"
  "mem_Updates h k P u db = (Some e, db') \<Longrightarrow> mem_rows db' h = mem_rows db h"
  by (drule mem_cases, auto)+

lemma mem_write_open:
  "mem_Create h r db = (res, db') \<Longrightarrow> mem_open db' = mem_open db"
  "mem_Save h unscoped r db = (res, db') \<Longrightarrow> mem_open db' = mem_open db"
  "mem_Delete h k P db = (er, db') \<Longrightarrow> mem_open db' = mem_open db"
  "mem_Updates h k P u db = (er, db') \<Longrightarrow> mem_open db' = mem_open db"
  by (drule mem_cases, auto)+

lemma mem_Create_ok:
  "mem_Create h r db = (Inr r', db') \<Longrightarrow>
    (\<exists>m. r' = with_model r m \<and> Model_ID m \<noteq> 0 \<and> DeletedAt m = None \<and>
      (\<forall>x \<in> set (mem_rows db h (row_kind r)). row_ID x \<noteq> Model_ID m)) \<and>
    mem_rows db' h = (mem_rows db h)(row_kind r := mem_rows db h (row_kind r) @ [row_columns r'])"
  by (drule mem_cases) (auto simp: mem_rows_put)

lemma mem_Save_ok:
  "mem_Save h unscoped r db = (Inr r', db') \<Longrightarrow>
    (\<exists>x \<in> set (mem_rows db h (row_kind r)). row_ID x = row_ID r \<and> (unscoped \<or> live x)) \<Longrightarrow> (\<exists>t. r' = touch t r) \<and>
    mem_rows db' h = (mem_rows db h)(row_kind r :=
      map (\<lambda>x. if row_ID x = row_ID r then row_columns r' else x) (mem_rows db h (row_kind r)))"
  using mem_put_map [of h db "row_kind r" "\<lambda>x. if row_ID x = row_ID r then row_columns (touch 0 r) else x"]
  by (auto dest!: mem_Save_cases)

lemma mem_Delete_ok:
  "mem_Delete h k P db = (None, db') \<Longrightarrow>
    \<exists>t. mem_rows db' h = (mem_rows db h)(k :=
      map (\<lambda>x. if live x \<and> P x then soft_delete t x else x) (mem_rows db h k))"
  using mem_put_map [of h db k "\<lambda>x. if live x \<and> P x then soft_delete 0 x else x"]
  by (auto dest!: mem_Delete_cases)

lemma mem_Updates_ok:
  "mem_Updates h k P u db = (None, db') \<Longrightarrow> \<forall>x. row_kind (u x) = row_kind x \<Longrightarrow>
    \<exists>t. mem_rows db' h = (mem_rows db h)(k := map (\<lambda>x. if live x \<and> P x then touch t (u x) else x) (mem_rows db h k))"
  using mem_put_map [of h db k "\<lambda>x. if live x \<and> P x then touch 0 (u x) else x"]
  by (auto dest!: mem_Updates_cases)

lemma mem_First_ok:
  "mem_First h k unscoped i db = Inr r \<Longrightarrow>
    \<exists>x \<in> set (mem_rows db h k). r = row_columns x \<and> row_ID x = i \<and> (unscoped \<or> live x)"
  by (force simp: mem_First_def find_Some_iff split: if_splits option.splits)

lemma mem_Find_ok:
  "mem_Find h k P ord db = Inr rs \<Longrightarrow> mset rs = mset (filter (\<lambda>r. live r \<and> P r) (mem_rows db h k))"
  by (auto simp: mem_Find_def split: if_splits)

lemma mem_Find_sorted: "mem_Find h k P ord db = Inr rs \<Longrightarrow> sorted (map ord rs)"
  by (auto simp: mem_Find_def split: if_splits)

lemma mem_Begin_ok:
  "mem_Begin db = (tx, db') \<Longrightarrow>
    tx \<notin> mem_open db \<and> mem_open db' = insert tx (mem_open db) \<and>
    mem_rows db' (TxDB tx) = mem_rows db RootDB \<and> (\<forall>h. h \<noteq> TxDB tx \<longrightarrow> mem_rows db' h = mem_rows db h)"
proof -
  assume "mem_Begin db = (tx, db')"
  then have tx: "tx = Suc (sum_list (map fst (mem_txs db)))"
    and db': "db' = db\<lparr>mem_txs := (tx, mem_committed db) # mem_txs db\<rparr>"
    by (auto simp: mem_Begin_def Let_def)
  have "tx \<notin> mem_open db"
    using member_le_sum_list [of tx "map fst (mem_txs db)"] tx by (auto simp: mem_open_def)
  moreover have "mem_rows db' h = mem_rows db h" if "h \<noteq> TxDB tx" for h
    using that by (cases h) (auto simp: mem_rows_def db' fun_eq_iff)
  moreover have "mem_rows db' (TxDB tx) = mem_rows db RootDB" by (simp add: mem_rows_def db' fun_eq_iff)
  ultimately show ?thesis by (simp add: mem_open_def db')
qed

lemma mem_close_ok:
  "mem_open (mem_close tx db) = mem_open db - {tx} \<and> mem_rows (mem_close tx db) RootDB = mem_rows db RootDB"
  by (force simp: mem_open_def mem_close_def mem_rows_def fun_eq_iff)

lemma mem_Commit_ok:
  "mem_Commit tx db = (None, db') \<Longrightarrow> tx \<in> mem_open db \<Longrightarrow>
    mem_open db' = mem_open db - {tx} \<and> mem_rows db' RootDB = mem_rows db (TxDB tx)"
proof -
  assume c: "mem_Commit tx db = (None, db')" and o: "tx \<in> mem_open db"
  then obtain t where t: "map_of (mem_txs db) tx = Some t"
    by (cases "map_of (mem_txs db) tx") (auto simp: mem_open_def map_of_eq_None_iff)
  then have db': "db' = mem_close tx (db\<lparr>mem_committed := t\<rparr>)"
    using c by (auto simp: mem_Commit_def split: if_splits)
  show ?thesis
    using t mem_close_ok [of tx "db\<lparr>mem_committed := t\<rparr>"]
    by (simp add: db' mem_open_def) (simp add: mem_rows_def fun_eq_iff)
qed

lemma mem_Commit_error:
  "mem_Commit tx db = (Some e, db') \<Longrightarrow>
    mem_open db' = mem_open db \<and> mem_rows db' RootDB = mem_rows db RootDB"
  by (auto simp: mem_Commit_def split: if_splits option.splits)

lemma mem_flag_tags_rows [simp]:
  "mem_rows (db\<lparr>mem_flag_tags := x\<rparr>) = mem_rows db" "mem_open (db\<lparr>mem_flag_tags := x\<rparr>) = mem_open db"
  by (simp_all add: mem_rows_def mem_open_def fun_eq_iff split: db_handle.split)

lemma mem_Tags_ok:
  "mem_Tags_Append i t db = (tres, db') \<Longrightarrow>
    (\<forall>k. k \<noteq> TTag \<and> k \<noteq> TFlag \<longrightarrow> mem_rows db' RootDB k = mem_rows db RootDB k) \<and> mem_open db' = mem_open db"
  "mem_Tags_Delete i j db = (er, db') \<Longrightarrow>
    (\<forall>k. k \<noteq> TFlag \<longrightarrow> mem_rows db' RootDB k = mem_rows db RootDB k) \<and> mem_open db' = mem_open db"
  by (auto simp: mem_Tags_Append_def mem_Tags_Delete_def Let_def mem_rows_put mem_known_def split: if_splits)

lemmas mem_laws = mem_rows_kind mem_First_ok mem_Find_ok mem_Find_sorted mem_Create_ok mem_Save_ok mem_Delete_ok
  mem_Updates_ok mem_write_frame mem_write_error mem_write_open mem_Begin_ok mem_Commit_ok
  mem_Commit_error mem_close_ok mem_Tags_ok

interpretation mem: gorm_laws mem_gorm mem_rows mem_open
  apply unfold_locales
  apply (unfold mem_gorm_sel)
  apply (fact mem_laws)+
  done

end
