(* ===== verification/Flagr_Rollout.thy ===== *)
theory Flagr_Rollout
  imports Flagr_Entity
begin

unbundle bit_operations_syntax

text \<open>
  \<^verbatim>\<open>pkg/entity/distribution.go\<close> and the preparation of a segment's distributions in
  \<^verbatim>\<open>pkg/entity/segment.go\<close>: the CRC32 bucket of an entity, the binary search for the
  distribution of a bucket, and the rollout decision, first as the code computes them on 64-bit
  words, then related to the arithmetic on natural numbers that the documentation describes.
\<close>

section \<open>Buckets\<close>

definition TotalBucketNum :: u64 where
  "TotalBucketNum = 1000"

definition PercentMultiplier :: u64 where
  "PercentMultiplier = TotalBucketNum div 100"

lemma PercentMultiplier_eq: "PercentMultiplier = 10"
  by (simp add: PercentMultiplier_def TotalBucketNum_def)

text \<open>\<^verbatim>\<open>crc32.ChecksumIEEE\<close> of the Go standard library: the table entry of a byte is eight
  steps of the reflected polynomial.\<close>

definition crc_step :: "u32 \<Rightarrow> u32" where
  "crc_step c = (if c AND 1 = 1 then drop_bit 1 c XOR 0xEDB88320 else drop_bit 1 c)"

definition crc_table :: "u8 \<Rightarrow> u32" where
  "crc_table b =
     crc_step (crc_step (crc_step (crc_step (crc_step (crc_step (crc_step (crc_step (ucast b))))))))"

fun crc_update :: "u32 \<Rightarrow> string \<Rightarrow> u32" where
  "crc_update c [] = c"
| "crc_update c (v # vs) = crc_update (crc_table (ucast c XOR of_char v) XOR drop_bit 8 c) vs"

definition ChecksumIEEE :: "string \<Rightarrow> u32" where
  "ChecksumIEEE s = NOT (crc_update 0xFFFFFFFF s)"

definition crc32Num :: "string \<Rightarrow> string \<Rightarrow> u64" where
  "crc32Num entityID salt = ucast (ChecksumIEEE (salt @ entityID)) mod TotalBucketNum"

lemma crc32Num_bound: "unat (crc32Num entityID salt) < 1000"
  by (simp add: crc32Num_def TotalBucketNum_def unat_mod_distrib)

text \<open>\<^verbatim>\<open>sort.SearchInts\<close> of the Go standard library.\<close>

function search_loop :: "(nat \<Rightarrow> bool) \<Rightarrow> nat \<Rightarrow> nat \<Rightarrow> nat" where
  "search_loop p i j =
     (if i < j then
        let h = (i + j) div 2
        in if \<not> p h then search_loop p (h + 1) j else search_loop p i h
      else i)"
  by pat_completeness auto
termination
  by (relation "measure (\<lambda>(p, i, j). j - i)") auto

declare search_loop.simps [simp del]

definition SearchInts :: "i64 list \<Rightarrow> i64 \<Rightarrow> nat" where
  "SearchInts a x = search_loop (\<lambda>h. x \<le>s a ! h) 0 (length a)"

section \<open>The rollout\<close>

definition bucketByNum :: "distribution_array \<Rightarrow> u64 \<Rightarrow> (u64 \<times> nat) go" where
  "bucketByNum d bucketNum =
     (let index = SearchInts (PercentsAccumulated d) (bucketNum + 1)
      in if index < length (VariantIDs d) then Inr (VariantIDs d ! index, index)
         else Inl IndexOutOfRange)"

definition DistributionArray_rollout :: "distribution_array \<Rightarrow> u64 \<Rightarrow> u64 \<Rightarrow> nat \<Rightarrow> bool go" where
  "DistributionArray_rollout d bucketNum rolloutPercent index =
     (if rolloutPercent = 0 then Inr False
      else if rolloutPercent = 100 then Inr True
      else if length (PercentsAccumulated d) \<le> index then Inl IndexOutOfRange
      else
        let mx = PercentsAccumulated d ! index;
            mn = (if index \<noteq> 0 then PercentsAccumulated d ! (index - 1) else 0);
            r = (if 0 <s mx - mn - 1 then mx - mn - 1 else 0)
        in Inr (100 * (bucketNum - mn) \<le> r * rolloutPercent))"

text \<open>The debug line, printed with \<^verbatim>\<open>%+v\<close>.\<close>

definition fmt_slice :: "string list \<Rightarrow> string" where
  "fmt_slice ws = ''['' @ join '' '' ws @ '']''"

definition DistributionDebugLog :: "u64 \<Rightarrow> distribution_array \<Rightarrow> u64 \<Rightarrow> u64 \<Rightarrow> string" where
  "DistributionDebugLog num d vID rolloutPercent =
     ''{BucketNum:'' @ dec_uint num @
     '' DistributionArray:{VariantIDs:'' @ fmt_slice (map dec_uint (VariantIDs d)) @
     '' PercentsAccumulated:'' @ fmt_slice (map dec_int (PercentsAccumulated d)) @
     ''} VariantID:'' @ dec_uint vID @ '' RolloutPercent:'' @ dec_uint rolloutPercent @ ''}''"

definition Rollout ::
  "distribution_array \<Rightarrow> string \<Rightarrow> string \<Rightarrow> u64 \<Rightarrow> (u64 option \<times> string) go" where
  "Rollout d entityID salt rolloutPercent =
     (if entityID = [] then Inr (None, ''rollout no. empty entityID'')
      else if rolloutPercent = 0 then Inr (None, ''rollout no. 0% rolloutPercent'')
      else if VariantIDs d = [] \<or> PercentsAccumulated d = [] then
        Inr (None, ''rollout no. there's no distribution set'')
      else
        let num = crc32Num entityID salt in
        sum_bind (bucketByNum d num) (\<lambda>(vID, index).
          let log = DistributionDebugLog num d vID rolloutPercent in
          sum_bind (DistributionArray_rollout d num rolloutPercent index) (\<lambda>yes.
            if yes then Inr (Some vID, ''rollout yes. '' @ log)
            else Inr (None, ''rollout no. '' @ log))))"

section \<open>Preparing a segment\<close>

text \<open>
  The loop over the distributions writes the two arrays at position \<open>i\<close>; the arrays are made
  with the final length first.
\<close>

fun prepare_loop :: "nat \<Rightarrow> distribution list \<Rightarrow> distribution_array \<Rightarrow> distribution_array" where
  "prepare_loop i [] da = da"
| "prepare_loop i (d # ds) da =
     prepare_loop (Suc i) ds
       (da\<lparr>VariantIDs := (VariantIDs da)[i := Distribution_VariantID d],
           PercentsAccumulated := (PercentsAccumulated da)[i :=
             (if i = 0 then Distribution_Percent d * PercentMultiplier
              else PercentsAccumulated da ! (i - 1) + Distribution_Percent d * PercentMultiplier)]\<rparr>)"

definition prepare_distributions :: "distribution list \<Rightarrow> distribution_array" where
  "prepare_distributions ds =
     prepare_loop 0 ds
       \<lparr>VariantIDs = replicate (length ds) 0, PercentsAccumulated = replicate (length ds) 0\<rparr>"

definition Segment_PrepareEvaluation :: "'e cond_lib \<Rightarrow> 'e segment \<Rightarrow> 'e segment err" where
  "Segment_PrepareEvaluation L s =
     sum_bind
       (if Segment_Constraints s \<noteq> []
        then sum_bind (ConstraintArray_ToExpr L (Segment_Constraints s)) (\<lambda>expr. Inr (Some expr))
        else Inr None)
       (\<lambda>expr. Inr (s\<lparr>SegmentEvaluation :=
          \<lparr>ConditionsExpr = expr,
           DistributionArray = prepare_distributions (Segment_Distributions s)\<rparr>\<rparr>))"

definition Flag_PrepareEvaluation :: "'e cond_lib \<Rightarrow> 'e flag \<Rightarrow> 'e flag err" where
  "Flag_PrepareEvaluation L f =
     sum_bind (sum_mapM (Segment_PrepareEvaluation L) (Flag_Segments f)) (\<lambda>ss.
       Inr (f\<lparr>Flag_Segments := ss,
              FlagEvaluation := \<lparr>VariantsMap =
                fold (\<lambda>v m. AList.update (variant_ID v) v m) (Flag_Variants f) []\<rparr>\<rparr>))"

section \<open>The arithmetic on natural numbers\<close>

text \<open>
  The percentages of a segment's distributions, the accumulated bucket bounds, and the index
  of the distribution that owns a bucket.
\<close>

definition percents :: "distribution list \<Rightarrow> nat list" where
  "percents ds = map (\<lambda>d. unat (Distribution_Percent d)) ds"

definition lower_bound :: "nat list \<Rightarrow> nat \<Rightarrow> nat" where
  "lower_bound ps i = 10 * sum_list (take i ps)"

definition accumulated :: "nat list \<Rightarrow> nat list" where
  "accumulated ps = map (\<lambda>i. lower_bound ps (Suc i)) [0..<length ps]"

definition owner :: "nat list \<Rightarrow> nat \<Rightarrow> nat" where
  "owner ps n = length (takeWhile (\<lambda>b. b \<le> n) (accumulated ps))"

lemma length_percents [simp]: "length (percents ds) = length ds"
  by (simp add: percents_def)

lemma percents_nth: "i < length ds \<Longrightarrow> percents ds ! i = unat (Distribution_Percent (ds ! i))"
  by (simp add: percents_def)

lemma length_accumulated [simp]: "length (accumulated ps) = length ps"
  by (simp add: accumulated_def)

lemma accumulated_nth [simp]: "i < length ps \<Longrightarrow> accumulated ps ! i = lower_bound ps (Suc i)"
  by (simp add: accumulated_def)

lemma lower_bound_0 [simp]: "lower_bound ps 0 = 0"
  by (simp add: lower_bound_def)

lemma lower_bound_Suc: "i < length ps \<Longrightarrow> lower_bound ps (Suc i) = lower_bound ps i + 10 * ps ! i"
  by (simp add: lower_bound_def take_Suc_conv_app_nth)

lemma lower_bound_length: "lower_bound ps (length ps) = 10 * sum_list ps"
  by (simp add: lower_bound_def)

lemma lower_bound_mono: "i \<le> j \<Longrightarrow> lower_bound ps i \<le> lower_bound ps j"
proof (induction j)
  case 0
  then show ?case by simp
next
  case (Suc j)
  have "lower_bound ps j \<le> lower_bound ps (Suc j)"
    by (cases "j < length ps") (auto simp: lower_bound_Suc, simp add: lower_bound_def)
  with Suc show ?case by (cases "i = Suc j") auto
qed

lemma lower_bound_le: "lower_bound ps i \<le> 10 * sum_list ps"
  using lower_bound_mono [of i "max i (length ps)" ps]
  by (simp add: lower_bound_def max_def split: if_splits)

lemma owner_le: "owner ps n \<le> length ps"
  using length_takeWhile_le [of _ "accumulated ps"] by (simp add: owner_def)

lemma owner_below: "h < owner ps n \<Longrightarrow> lower_bound ps (Suc h) \<le> n"
proof -
  assume h: "h < owner ps n"
  then have "accumulated ps ! h \<le> n"
    unfolding owner_def by (metis nth_mem set_takeWhileD takeWhile_nth)
  moreover have "h < length ps" using h owner_le [of ps n] by simp
  ultimately show ?thesis by simp
qed

lemma owner_at: "owner ps n < length ps \<Longrightarrow> n < lower_bound ps (Suc (owner ps n))"
  using nth_length_takeWhile [of "\<lambda>b. b \<le> n" "accumulated ps"]
  by (simp add: owner_def)

lemma owner_iff:
  assumes "i < length ps"
  shows "owner ps n = i \<longleftrightarrow> lower_bound ps i \<le> n \<and> n < lower_bound ps (Suc i)"
proof
  assume o: "owner ps n = i"
  then have "n < lower_bound ps (Suc i)" using assms owner_at [of ps n] by simp
  moreover have "lower_bound ps i \<le> n"
    using o owner_below [of "i - 1" ps n] by (cases i) auto
  ultimately show "lower_bound ps i \<le> n \<and> n < lower_bound ps (Suc i)" by simp
next
  assume b: "lower_bound ps i \<le> n \<and> n < lower_bound ps (Suc i)"
  have "\<not> i < owner ps n" using b owner_below [of i ps n] by auto
  moreover have "\<not> owner ps n < i"
  proof
    assume lt: "owner ps n < i"
    then have "n < lower_bound ps (Suc (owner ps n))" using assms owner_at by simp
    also have "\<dots> \<le> lower_bound ps i" using lt by (intro lower_bound_mono) simp
    finally show False using b by simp
  qed
  ultimately show "owner ps n = i" by simp
qed

lemma owner_lt_iff: "owner ps n < length ps \<longleftrightarrow> n < 10 * sum_list ps"
proof
  assume "owner ps n < length ps"
  then have "n < lower_bound ps (Suc (owner ps n))" by (rule owner_at)
  then show "n < 10 * sum_list ps" using lower_bound_le by (rule less_le_trans)
next
  assume n: "n < 10 * sum_list ps"
  show "owner ps n < length ps"
  proof (rule ccontr)
    assume "\<not> ?thesis"
    then have o: "owner ps n = length ps" using owner_le [of ps n] by simp
    show False
    proof (cases "length ps")
      case 0
      then show ?thesis using n by simp
    next
      case (Suc k)
      then have "lower_bound ps (length ps) \<le> n" using owner_below [of k ps n] o by simp
      then show ?thesis using n by (simp add: lower_bound_length)
    qed
  qed
qed

lemma owner_positive: "owner ps n < length ps \<Longrightarrow> 0 < ps ! owner ps n"
  using owner_iff [of "owner ps n" ps n] lower_bound_Suc [of "owner ps n" ps] by auto

text \<open>The buckets of a distribution form an interval of ten times its percentage.\<close>

lemma buckets_of_owner:
  assumes "i < length ps"
  shows "{n. owner ps n = i} = {lower_bound ps i ..< lower_bound ps i + 10 * ps ! i}"
  by (auto simp: owner_iff [OF assms] lower_bound_Suc [OF assms])

section \<open>The prepared arrays\<close>

fun accumulate :: "u64 \<Rightarrow> distribution list \<Rightarrow> i64 list" where
  "accumulate a [] = []"
| "accumulate a (d # ds) =
     (let b = a + Distribution_Percent d * PercentMultiplier in b # accumulate b ds)"

lemma prepare_loop_eq:
  assumes "length us = n" "length ws = n"
  shows "prepare_loop n ds
     \<lparr>VariantIDs = us @ replicate (length ds) 0, PercentsAccumulated = ws @ replicate (length ds) 0\<rparr>
   = \<lparr>VariantIDs = us @ map Distribution_VariantID ds,
      PercentsAccumulated = ws @ accumulate (if ws = [] then 0 else last ws) ds\<rparr>"
  using assms
proof (induction ds arbitrary: n us ws)
  case Nil
  then show ?case by simp
next
  case (Cons d ds)
  let ?b = "(if ws = [] then 0 else last ws) + Distribution_Percent d * PercentMultiplier"
  have prev: "n \<noteq> 0 \<Longrightarrow> (ws @ replicate (length (d # ds)) 0) ! (n - 1) = last ws"
    using Cons.prems by (cases "ws = []") (auto simp: nth_append last_conv_nth)
  have "prepare_loop n (d # ds)
     \<lparr>VariantIDs = us @ replicate (length (d # ds)) 0,
      PercentsAccumulated = ws @ replicate (length (d # ds)) 0\<rparr>
    = prepare_loop (Suc n) ds
     \<lparr>VariantIDs = (us @ [Distribution_VariantID d]) @ replicate (length ds) 0,
      PercentsAccumulated = (ws @ [?b]) @ replicate (length ds) 0\<rparr>"
    using Cons.prems prev by (auto simp: list_update_append)
  also have "\<dots> = \<lparr>VariantIDs = (us @ [Distribution_VariantID d]) @ map Distribution_VariantID ds,
      PercentsAccumulated = (ws @ [?b]) @ accumulate ?b ds\<rparr>"
    using Cons.IH [of "us @ [Distribution_VariantID d]" "Suc n" "ws @ [?b]"] Cons.prems by simp
  finally show ?case by (simp add: Let_def)
qed

lemma prepare_distributions_eq:
  "prepare_distributions ds =
     \<lparr>VariantIDs = map Distribution_VariantID ds, PercentsAccumulated = accumulate 0 ds\<rparr>"
  using prepare_loop_eq [of "[]" 0 "[]" ds] by (simp add: prepare_distributions_def)

lemma length_accumulate [simp]: "length (accumulate a ds) = length ds"
  by (induction ds arbitrary: a) (auto simp: Let_def)

lemma unat_accumulate:
  assumes "unat a + 10 * sum_list (percents ds) < 2 ^ 63" "i < length ds"
  shows "unat (accumulate a ds ! i) = unat a + lower_bound (percents ds) (Suc i)"
  using assms
proof (induction ds arbitrary: a i)
  case Nil
  then show ?case by simp
next
  case (Cons d ds)
  let ?p = "unat (Distribution_Percent d)"
  have lt: "unat a + 10 * ?p + 10 * sum_list (percents ds) < 2 ^ 63"
    using Cons.prems(1) by (simp add: percents_def algebra_simps)
  have m: "unat (Distribution_Percent d * PercentMultiplier) = 10 * ?p"
    using lt by (subst unat_mult_lem [THEN iffD1]) (auto simp: PercentMultiplier_eq)
  have b: "unat (a + Distribution_Percent d * PercentMultiplier) = unat a + 10 * ?p"
    using lt m by (subst unat_add_lem [THEN iffD1]) auto
  have lb: "lower_bound (percents (d # ds)) (Suc k) = 10 * ?p + lower_bound (percents ds) k" for k
    by (simp add: lower_bound_def percents_def)
  show ?case
  proof (cases i)
    case 0
    then show ?thesis using b lb [of 0] by (simp add: Let_def)
  next
    case (Suc k)
    then show ?thesis
      using Cons.IH [of "a + Distribution_Percent d * PercentMultiplier" k] Cons.prems(2) b lt lb [of "Suc k"]
      by (simp add: Let_def)
  qed
qed

section \<open>The binary search\<close>

lemma search_loop_least:
  assumes "i \<le> j" "j \<le> n"
    and "\<And>h k. h \<le> k \<Longrightarrow> k < n \<Longrightarrow> p h \<Longrightarrow> p k"
    and "\<forall>h < i. \<not> p h" "\<forall>h. j \<le> h \<and> h < n \<longrightarrow> p h"
  shows "search_loop p i j \<le> n \<and> (\<forall>h < search_loop p i j. \<not> p h) \<and>
    (search_loop p i j < n \<longrightarrow> p (search_loop p i j))"
  using assms
proof (induction p i j rule: search_loop.induct)
  case (1 p i j)
  show ?case
  proof (cases "i < j")
    case False
    then have "search_loop p i j = i" by (subst search_loop.simps) simp
    moreover have "i = j" using False "1.prems"(1) by simp
    ultimately show ?thesis using "1.prems"(2,4,5) by auto
  next
    case True
    let ?h = "(i + j) div 2"
    have h: "i \<le> ?h" "?h < j" "?h < n" using True "1.prems"(2) by auto
    show ?thesis
    proof (cases "p ?h")
      case True
      then have above: "\<forall>k. ?h \<le> k \<and> k < n \<longrightarrow> p k"
        by (auto intro: "1.prems"(3) [of ?h])
      have "search_loop p i j = search_loop p i ?h"
        by (subst search_loop.simps) (simp add: True \<open>i < j\<close> Let_def)
      then show ?thesis
        using "1.IH"(2) [OF \<open>i < j\<close> refl _ _ _ "1.prems"(3)] True h "1.prems"(4) above by simp
    next
      case False
      have below: "\<forall>k < ?h + 1. \<not> p k"
      proof (intro allI impI notI)
        fix k assume "k < ?h + 1" "p k"
        then show False using "1.prems"(3) [of k ?h] h False by simp
      qed
      have "search_loop p i j = search_loop p (?h + 1) j"
        by (subst search_loop.simps) (simp add: False \<open>i < j\<close> Let_def)
      then show ?thesis
        using "1.IH"(1) [OF \<open>i < j\<close> refl _ _ _ "1.prems"(3)] False h "1.prems"(2,5) below by simp
    qed
  qed
qed

text \<open>On a sorted slice the binary search is the linear one.\<close>

lemma SearchInts_linear:
  assumes "sorted (map sint a)"
  shows "SearchInts a x = length (takeWhile (\<lambda>v. \<not> x \<le>s v) a)"
proof -
  let ?r = "SearchInts a x" and ?t = "length (takeWhile (\<lambda>v. \<not> x \<le>s v) a)"
  have mono: "x \<le>s a ! k" if "h \<le> k" "k < length a" "x \<le>s a ! h" for h k
    using that assms sorted_nth_mono [of "map sint a" h k] by (simp add: word_sle_eq)
  have r: "?r \<le> length a \<and> (\<forall>h < ?r. \<not> x \<le>s a ! h) \<and> (?r < length a \<longrightarrow> x \<le>s a ! ?r)"
    unfolding SearchInts_def by (rule search_loop_least) (use mono in auto)
  have t: "?t \<le> length a" "?t < length a \<longrightarrow> x \<le>s a ! ?t"
    using length_takeWhile_le [of _ a] nth_length_takeWhile [of "\<lambda>v. \<not> x \<le>s v" a] by auto
  have t': "\<not> x \<le>s a ! h" if "h < ?t" for h
    using that by (metis nth_mem set_takeWhileD takeWhile_nth)
  show ?thesis
  proof (rule linorder_cases [of ?r ?t])
    assume "?r < ?t"
    with t' t(1) r show ?thesis by auto
  next
    assume "?t < ?r"
    with t(2) r show ?thesis by auto
  qed
qed

section \<open>What the code computes on prepared arrays\<close>

text \<open>
  The machine arithmetic is exact as long as the percentages add up to less than \<open>2 ^ 32\<close>; the
  ones the API stores add up to 100.
\<close>

definition small_percents :: "distribution list \<Rightarrow> bool" where
  "small_percents ds \<longleftrightarrow> sum_list (percents ds) < 2 ^ 32"

lemma map_unat_accumulate:
  assumes "small_percents ds"
  shows "map unat (accumulate 0 ds) = accumulated (percents ds)"
  using assms unat_accumulate [of 0 ds]
  by (intro nth_equalityI) (auto simp: small_percents_def)

lemma unat_accumulate_nth:
  assumes "small_percents ds" "i < length ds"
  shows "unat (accumulate 0 ds ! i) = lower_bound (percents ds) (Suc i)"
  using assms unat_accumulate [of 0 ds i] by (simp add: small_percents_def)

lemma lower_bound_small: "small_percents ds \<Longrightarrow> lower_bound (percents ds) i < 10 * 2 ^ 32"
  using lower_bound_le [of "percents ds" i] by (simp add: small_percents_def)

lemma sorted_accumulate:
  assumes "small_percents ds"
  shows "sorted (map sint (accumulate 0 ds))"
proof -
  have "sint (accumulate 0 ds ! i) = int (lower_bound (percents ds) (Suc i))"
    if "i < length ds" for i
    using unat_accumulate_nth [OF assms that] lower_bound_small [OF assms, of "Suc i"]
    by (subst sint_eq_unat_small) auto
  then show ?thesis
    by (auto simp: sorted_iff_nth_mono intro!: lower_bound_mono)
qed

lemma SearchInts_owner:
  assumes "small_percents ds" "unat num < 1000"
  shows "SearchInts (accumulate 0 ds) (num + 1) = owner (percents ds) (unat num)"
proof -
  have n1: "unat (num + 1) = unat num + 1"
    using assms(2) by (subst unat_add_lem [THEN iffD1]) auto
  have "(\<not> num + 1 \<le>s v) = (unat v \<le> unat num)" if "v \<in> set (accumulate 0 ds)" for v
  proof -
    have "unat v \<in> set (accumulated (percents ds))"
      using that map_unat_accumulate [OF assms(1)] by (metis image_eqI set_map)
    then have "unat v < 10 * 2 ^ 32"
      using lower_bound_small [OF assms(1)] by (auto simp: accumulated_def)
    then have "sint v = int (unat v)" by (intro sint_eq_unat_small) simp
    moreover have "sint (num + 1) = int (unat num + 1)"
      using n1 assms(2) by (subst sint_eq_unat_small) auto
    ultimately show ?thesis by (simp only: word_sle_eq of_nat_le_iff) auto
  qed
  then have "takeWhile (\<lambda>v. \<not> num + 1 \<le>s v) (accumulate 0 ds)
      = takeWhile (\<lambda>v. unat v \<le> unat num) (accumulate 0 ds)"
    by (intro takeWhile_cong) auto
  then show ?thesis
    using SearchInts_linear [OF sorted_accumulate [OF assms(1)], of "num + 1"]
    by (simp add: owner_def takeWhile_map comp_def flip: map_unat_accumulate [OF assms(1)])
qed

lemma bucketByNum_prepared:
  assumes "small_percents ds" "unat num < 1000"
  shows "bucketByNum (prepare_distributions ds) num =
    (let i = owner (percents ds) (unat num)
     in if i < length ds then Inr (Distribution_VariantID (ds ! i), i) else Inl IndexOutOfRange)"
  by (simp add: bucketByNum_def prepare_distributions_eq SearchInts_owner [OF assms] Let_def)

text \<open>
  The rollout decision for the \<open>k\<close>-th bucket of a distribution of \<open>p\<close> percent.
\<close>

definition rolled_in :: "nat \<Rightarrow> nat \<Rightarrow> nat \<Rightarrow> bool" where
  "rolled_in p k rp \<longleftrightarrow> 0 < rp \<and> 100 * k \<le> (10 * p - 1) * rp"

lemma rollout_prepared:
  assumes ds: "small_percents ds" and rp: "unat rp \<le> 100" and num: "unat num < 1000"
    and i: "i = owner (percents ds) (unat num)" "i < length ds"
  shows "DistributionArray_rollout (prepare_distributions ds) num rp i =
    Inr (rolled_in (percents ds ! i) (unat num - lower_bound (percents ds) i) (unat rp))"
proof -
  let ?ps = "percents ds" and ?A = "accumulate 0 ds"
  let ?mx = "?A ! i"
  define mn where "mn = (if i \<noteq> 0 then ?A ! (i - 1) else 0)"
  define p where "p = ?ps ! i"
  have own: "lower_bound ?ps i \<le> unat num" "unat num < lower_bound ?ps i + 10 * p" "0 < p"
    using owner_iff [of i ?ps "unat num"] lower_bound_Suc [of i ?ps] i by (auto simp: p_def)
  have mx: "unat ?mx = lower_bound ?ps i + 10 * p"
    using unat_accumulate_nth [OF ds i(2)] lower_bound_Suc [of i ?ps] i(2) by (simp add: p_def)
  have mn_eq: "unat mn = lower_bound ?ps i"
    using unat_accumulate_nth [OF ds, of "i - 1"] i(2) by (cases i) (auto simp: mn_def)
  have small: "lower_bound ?ps i + 10 * p < 10 * 2 ^ 32"
    using lower_bound_small [OF ds, of "Suc i"] lower_bound_Suc [of i ?ps] i(2) by (simp add: p_def)
  have "mn \<le> ?mx" using mn_eq mx by (simp add: word_le_nat_alt)
  then have d: "unat (?mx - mn) = 10 * p" using mn_eq mx by (simp add: unat_sub)
  moreover have "1 \<le> ?mx - mn" using d own(3) by (simp add: word_le_nat_alt)
  ultimately have r: "unat (?mx - mn - 1) = 10 * p - 1" by (simp add: unat_sub)
  have rpos: "0 <s ?mx - mn - 1"
    using r own(3) small by (simp add: word_sless_alt sint_eq_unat_small)
  have "mn \<le> num" using mn_eq own(1) by (simp add: word_le_nat_alt)
  then have k: "unat (num - mn) = unat num - lower_bound ?ps i" using mn_eq by (simp add: unat_sub)
  have l: "unat (100 * (num - mn)) = 100 * (unat num - lower_bound ?ps i)"
    using k num by (subst unat_mult_lem [THEN iffD1]) auto
  have "(10 * p - 1) * unat rp \<le> (10 * 2 ^ 32) * 100"
    using small rp by (intro mult_le_mono) auto
  then have m: "unat ((?mx - mn - 1) * rp) = (10 * p - 1) * unat rp"
    using r by (subst unat_mult_lem [THEN iffD1]) auto
  have main: "100 * (num - mn) \<le> (?mx - mn - 1) * rp \<longleftrightarrow>
      100 * (unat num - lower_bound ?ps i) \<le> (10 * p - 1) * unat rp"
    using l m by (simp add: word_le_nat_alt)
  have full: "100 * (unat num - lower_bound ?ps i) \<le> (10 * p - 1) * 100"
    using own by simp
  show ?thesis
  proof (cases "rp = 0 \<or> rp = 100")
    case True
    then show ?thesis
      using full by (auto simp: DistributionArray_rollout_def rolled_in_def p_def)
  next
    case False
    then have "0 < unat rp" by (simp add: unat_gt_0)
    have "DistributionArray_rollout (prepare_distributions ds) num rp i =
        Inr (100 * (num - mn) \<le> (if 0 <s ?mx - mn - 1 then ?mx - mn - 1 else 0) * rp)"
      using False i(2)
      by (simp add: DistributionArray_rollout_def prepare_distributions_eq Let_def mn_def)
    also have "\<dots> = Inr (rolled_in p (unat num - lower_bound ?ps i) (unat rp))"
      using rpos main \<open>0 < unat rp\<close> by (simp only: rolled_in_def if_True simp_thms)
    finally show ?thesis by (simp only: p_def)
  qed
qed

lemma prepared_nonempty:
  "VariantIDs (prepare_distributions ds) = [] \<longleftrightarrow> ds = []"
  "PercentsAccumulated (prepare_distributions ds) = [] \<longleftrightarrow> ds = []"
  by (simp_all add: prepare_distributions_eq flip: length_0_conv)

lemma Rollout_prepared:
  assumes "small_percents ds" "unat rp \<le> 100" "0 < rp" "entityID \<noteq> []" "ds \<noteq> []"
  shows "Rollout (prepare_distributions ds) entityID salt rp =
    (let num = crc32Num entityID salt; i = owner (percents ds) (unat num) in
     if i < length ds then
       let v = Distribution_VariantID (ds ! i);
           log = DistributionDebugLog num (prepare_distributions ds) v rp in
       if rolled_in (percents ds ! i) (unat num - lower_bound (percents ds) i) (unat rp)
       then Inr (Some v, ''rollout yes. '' @ log) else Inr (None, ''rollout no. '' @ log)
     else Inl IndexOutOfRange)"
proof -
  have rp: "rp \<noteq> 0" using assms(3) by auto
  show ?thesis
    using assms(1,2,4,5) rp
    by (simp add: Rollout_def prepared_nonempty bucketByNum_prepared crc32Num_bound
        rollout_prepared Let_def)
qed

lemma rolled_in_mono: "rolled_in p k rp \<Longrightarrow> rp \<le> rp' \<Longrightarrow> rolled_in p k rp'"
  unfolding rolled_in_def by (meson le_trans less_le_trans mult_le_mono2)

lemma rolled_in_full: "k < 10 * p \<Longrightarrow> rolled_in p k 100"
  by (simp add: rolled_in_def)

text \<open>How many of the \<open>10 * p\<close> buckets of a distribution are rolled in.\<close>

lemma rolled_in_count:
  assumes "0 < p" "0 < rp" "rp \<le> 100"
  shows "{k. k < 10 * p \<and> rolled_in p k rp} = {..< (10 * p - 1) * rp div 100 + 1}"
proof -
  have b: "(10 * p - 1) * rp \<le> (10 * p - 1) * 100"
    using assms(3) by (intro mult_le_mono2)
  have eq: "k < 10 * p \<and> rolled_in p k rp \<longleftrightarrow> k \<le> (10 * p - 1) * rp div 100" for k
  proof
    assume "k < 10 * p \<and> rolled_in p k rp"
    then show "k \<le> (10 * p - 1) * rp div 100"
      by (simp add: rolled_in_def less_eq_div_iff_mult_less_eq mult.commute)
  next
    assume "k \<le> (10 * p - 1) * rp div 100"
    then have k: "100 * k \<le> (10 * p - 1) * rp"
      by (simp add: less_eq_div_iff_mult_less_eq mult.commute)
    with b have "k \<le> 10 * p - 1" by linarith
    then have "k < 10 * p" using assms(1) by linarith
    with k assms(2) show "k < 10 * p \<and> rolled_in p k rp" by (simp only: rolled_in_def simp_thms)
  qed
  show ?thesis
    by (intro set_eqI)
      (simp only: mem_Collect_eq lessThan_iff eq less_Suc_eq_le flip: Suc_eq_plus1)
qed

lemma card_shifted: "card ((\<lambda>k. k + l) ` {..< N}) = N" for l N :: nat
  by (simp add: card_image inj_on_def)

lemma image_shifted: "(\<lambda>k. k + l) ` {k. P k} = {n. l \<le> n \<and> P (n - l)}" for l :: nat
proof (intro set_eqI iffI)
  fix n assume "n \<in> {n. l \<le> n \<and> P (n - l)}"
  then show "n \<in> (\<lambda>k. k + l) ` {k. P k}" by (intro image_eqI [of _ _ "n - l"]) auto
qed auto

lemma share_aux:
  fixes a b q rp :: nat
  assumes "a + rp = 10 * b" "100 * q \<le> a" "a < 100 * q + 100" "0 < rp" "rp \<le> 100"
  shows "\<bar>10 * int (q + 1) - int b\<bar> < 10"
proof -
  have "b < 10 * q + 20" using assms by linarith
  moreover have "10 * q < b" using assms by linarith
  ultimately show ?thesis by (simp add: abs_less_iff)
qed

lemma share_bound:
  assumes "0 < p" "0 < rp" "rp \<le> 100"
  shows "\<bar>10 * int ((10 * p - 1) * rp div 100 + 1) - int (p * rp)\<bar> < 10"
proof -
  let ?a = "(10 * p - 1) * rp"
  have "?a + rp = 10 * (p * rp)"
    using assms(1) by (cases p) (auto simp: algebra_simps)
  moreover have "100 * (?a div 100) \<le> ?a" "?a < 100 * (?a div 100) + 100"
    using dividend_less_times_div [of 100 ?a]
    by (simp_all only: times_div_less_eq_dividend add.commute)
  ultimately show ?thesis using assms(2,3) by (rule share_aux)
qed

lemma rollout_buckets:
  assumes "sum_list (percents ds) = 100" "i < length ds"
  shows "{n. n < 1000 \<and> (\<exists>v. bucketByNum (prepare_distributions ds) (of_nat n) = Inr (v, i))} =
    {lower_bound (percents ds) i ..< lower_bound (percents ds) i + 10 * percents ds ! i}"
proof -
  have sm: "small_percents ds" using assms(1) by (simp add: small_percents_def)
  have u: "unat (of_nat n :: u64) = n" if "n < 1000" for n
    using that by (simp add: unat_of_nat)
  have "(\<exists>v. bucketByNum (prepare_distributions ds) (of_nat n) = Inr (v, i)) \<longleftrightarrow>
      owner (percents ds) n = i" if "n < 1000" for n
    using that assms(2) bucketByNum_prepared [OF sm, of "of_nat n"] u [OF that]
    by (auto simp: Let_def)
  moreover have "n < 1000" if "owner (percents ds) n = i" for n
    using that owner_lt_iff [of "percents ds" n] assms by simp
  ultimately have "{n. n < 1000 \<and> (\<exists>v. bucketByNum (prepare_distributions ds) (of_nat n) = Inr (v, i))}
      = {n. owner (percents ds) n = i}" by blast
  then show ?thesis
    using buckets_of_owner [of i "percents ds"] assms(2) by simp
qed

lemma Rollout_Some_configured:
  assumes "small_percents ds" "unat rp \<le> 100"
    and "Rollout (prepare_distributions ds) entityID salt rp = Inr (Some v, m)"
  shows "\<exists>d \<in> set ds. Distribution_VariantID d = v \<and> Distribution_Percent d \<noteq> 0"
proof -
  let ?i = "owner (percents ds) (unat (crc32Num entityID salt))"
  have ne: "entityID \<noteq> []" "rp \<noteq> 0" "ds \<noteq> []"
    using assms(3) by (auto simp: Rollout_def prepared_nonempty split: if_splits)
  then have "0 < rp" by (simp add: word_gt_0)
  from Rollout_prepared [OF assms(1,2) this ne(1,3)] assms(3)
  have i: "?i < length ds" and v: "v = Distribution_VariantID (ds ! ?i)"
    by (auto simp: Let_def split: if_splits)
  have "Distribution_Percent (ds ! ?i) \<noteq> 0"
    using owner_positive [of "percents ds" "unat (crc32Num entityID salt)"] i
    by (auto simp: percents_nth)
  with i v show ?thesis by auto
qed

text \<open>Distributions as the handlers leave them: none yet, or percentages that add up to 100; or to 200, when a flag
  from the template got a segment for which distributions had been put before it existed.\<close>

definition sound_distributions :: "distribution list \<Rightarrow> bool" where
  "sound_distributions ds \<longleftrightarrow> ds = [] \<or> sum_list (percents ds) \<in> {100, 200}"

lemma sound_distributions_small: "sound_distributions ds \<Longrightarrow> small_percents ds"
  by (auto simp: sound_distributions_def small_percents_def percents_def)

lemma Rollout_sound:
  assumes "sound_distributions ds" "unat rp \<le> 100"
  shows "\<exists>v m. Rollout (prepare_distributions ds) entityID salt rp = Inr (v, m)"
proof (cases "entityID = [] \<or> rp = 0 \<or> ds = []")
  case True
  then show ?thesis by (auto simp: Rollout_def prepared_nonempty)
next
  case False
  then have "0 < rp" "entityID \<noteq> []" "ds \<noteq> []" by (auto simp: word_gt_0)
  moreover have "owner (percents ds) (unat (crc32Num entityID salt)) < length ds"
    using owner_lt_iff [of "percents ds" "unat (crc32Num entityID salt)"] crc32Num_bound [of entityID salt]
      assms(1) False by (auto simp: sound_distributions_def)
  ultimately show ?thesis
    using Rollout_prepared [OF sound_distributions_small [OF assms(1)] assms(2)] by (simp add: Let_def)
qed

section \<open>Properties\<close>

text \<open>C5: for distributions that add up to 100 percent, a rollout percentage of at most 100 and a
  non-empty entity id, the rollout never indexes out of range: the entity's CRC32 bucket
  belongs to exactly one distribution, and the entity gets that distribution's variant exactly
  when its position inside the distribution's buckets is within the rollout percentage.\<close>

theorem Rollout_total:
  assumes "sum_list (percents ds) = 100" "unat rp \<le> 100" "entityID \<noteq> []"
  shows "\<exists>!i. i < length ds \<and>
    lower_bound (percents ds) i \<le> unat (crc32Num entityID salt) \<and>
    unat (crc32Num entityID salt) < lower_bound (percents ds) (Suc i) \<and>
    (\<exists>msg. Rollout (prepare_distributions ds) entityID salt rp =
      Inr (if rolled_in (percents ds ! i)
                (unat (crc32Num entityID salt) - lower_bound (percents ds) i) (unat rp)
           then Some (Distribution_VariantID (ds ! i)) else None, msg))"
proof -
  let ?n = "unat (crc32Num entityID salt)" and ?ps = "percents ds"
  let ?i = "owner ?ps ?n"
  have sm: "small_percents ds" using assms(1) by (simp add: small_percents_def)
  have i: "?i < length ds"
    using owner_lt_iff [of ?ps ?n] crc32Num_bound [of entityID salt] assms(1) by simp
  have own: "i < length ds \<Longrightarrow> lower_bound ?ps i \<le> ?n \<and> ?n < lower_bound ?ps (Suc i) \<longleftrightarrow> ?i = i" for i
    using owner_iff [of i ?ps ?n] by simp
  have "\<exists>msg. Rollout (prepare_distributions ds) entityID salt rp =
      Inr (if rolled_in (?ps ! ?i) (?n - lower_bound ?ps ?i) (unat rp)
           then Some (Distribution_VariantID (ds ! ?i)) else None, msg)"
  proof (cases "rp = 0")
    case True
    then show ?thesis using assms(3) by (simp add: Rollout_def rolled_in_def)
  next
    case False
    then have "0 < rp" by (simp add: word_gt_0)
    moreover have "ds \<noteq> []" using i by auto
    ultimately show ?thesis using Rollout_prepared [OF sm assms(2) _ assms(3)] i by (simp add: Let_def)
  qed
  with i own show ?thesis by (intro ex1I [of _ ?i]) auto
qed

definition dist_of :: "u64 \<Rightarrow> u64 \<Rightarrow> distribution" where
  "dist_of vid pct = zero_distribution\<lparr>Distribution_VariantID := vid, Distribution_Percent := pct\<rparr>"

lemma dist_of_sel [simp]:
  "Distribution_VariantID (dist_of v p) = v" "Distribution_Percent (dist_of v p) = p"
  by (simp_all add: dist_of_def)

lemma percents_dist_of:
  "percents [] = []"
  "percents (dist_of v p # ds) = unat p # percents ds"
  by (simp_all add: percents_def dist_of_def)

lemma crc_1a: "crc32Num ''a'' ''1'' = 627"
  by (simp add: crc32Num_def ChecksumIEEE_def crc_table_def crc_step_def TotalBucketNum_def)

lemma rollout_example:
  "Rollout (prepare_distributions [dist_of 7 100, dist_of 8 0]) ''a'' ''1'' 63 =
    Inr (Some 7, ''rollout yes. '' @ DistributionDebugLog 627
      (prepare_distributions [dist_of 7 100, dist_of 8 0]) 7 63)"
proof -
  have "owner (percents [dist_of 7 100, dist_of 8 0]) 627 = 0"
    by (subst owner_iff) (simp_all add: percents_dist_of lower_bound_def)
  then show ?thesis
    by (subst Rollout_prepared)
      (simp_all add: percents_dist_of small_percents_def crc_1a rolled_in_def Let_def)
qed

theorem Rollout_total_witness:
  "\<exists>!i. i < length [dist_of 300 50, dist_of 301 50] \<and>
    lower_bound (percents [dist_of 300 50, dist_of 301 50]) i \<le> unat (crc32Num ''a'' ''1'') \<and>
    unat (crc32Num ''a'' ''1'') < lower_bound (percents [dist_of 300 50, dist_of 301 50]) (Suc i) \<and>
    (\<exists>msg. Rollout (prepare_distributions [dist_of 300 50, dist_of 301 50]) ''a'' ''1'' 20 =
      Inr (if rolled_in (percents [dist_of 300 50, dist_of 301 50] ! i)
                (unat (crc32Num ''a'' ''1'') -
                 lower_bound (percents [dist_of 300 50, dist_of 301 50]) i) (unat (20 :: u64))
           then Some (Distribution_VariantID ([dist_of 300 50, dist_of 301 50] ! i)) else None, msg))"
  by (rule Rollout_total) (simp_all add: percents_dist_of)

text \<open>C23: the traffic split is exact. Among the 1000 buckets, the ones that the binary search gives to
  a distribution are ten times its percentage in number, whatever its position in the list.\<close>

theorem bucket_share:
  assumes "sum_list (percents ds) = 100" "i < length ds"
  shows "card {n. n < 1000 \<and> (\<exists>v. bucketByNum (prepare_distributions ds) (of_nat n) = Inr (v, i))} =
    10 * unat (Distribution_Percent (ds ! i))"
  using rollout_buckets [OF assms] assms(2) by (simp add: percents_nth)

theorem bucket_share_witness:
  "card {n. n < 1000 \<and> (\<exists>v. bucketByNum (prepare_distributions [dist_of 1 30, dist_of 2 70]) (of_nat n) =
     Inr (v, 1))} = 700"
  using bucket_share [of "[dist_of 1 30, dist_of 2 70]" 1]
  by (simp add: percents_dist_of)

text \<open>C24: the rollout percentage is honoured to within one bucket. Of the buckets of a distribution
  of p percent, the number that a rollout percentage rp lets through differs from the exact
  share 10 * p * rp / 100 by less than one bucket; it is exact whenever that share is a whole
  number, as the documentation's example of 10 percent of 50 percent has it.\<close>

theorem rollout_share:
  assumes "sum_list (percents ds) = 100" "i < length ds" "0 < unat rp" "unat rp \<le> 100"
    and "0 < unat (Distribution_Percent (ds ! i))"
  shows "\<bar>10 * int (card {n. n < 1000 \<and>
      (\<exists>v. bucketByNum (prepare_distributions ds) (of_nat n) = Inr (v, i)) \<and>
      DistributionArray_rollout (prepare_distributions ds) (of_nat n) rp i = Inr True})
    - int (unat (Distribution_Percent (ds ! i)) * unat rp)\<bar> < 10"
proof -
  let ?D = "prepare_distributions ds" and ?ps = "percents ds"
  define p l where "p = ?ps ! i" and "l = lower_bound ?ps i"
  have sm: "small_percents ds" using assms(1) by (simp add: small_percents_def)
  have p: "p = unat (Distribution_Percent (ds ! i))" "0 < p"
    using assms(2,5) by (simp_all add: p_def percents_nth)
  have in_i: "n < 1000 \<and> (\<exists>v. bucketByNum ?D (of_nat n) = Inr (v, i)) \<longleftrightarrow> l \<le> n \<and> n < l + 10 * p" for n
    using rollout_buckets [OF assms(1,2)] by (auto simp: set_eq_iff p_def l_def)
  have dec: "DistributionArray_rollout ?D (of_nat n) rp i = Inr (rolled_in p (n - l) (unat rp))"
    if "l \<le> n \<and> n < l + 10 * p" for n
  proof -
    have n: "n < 1000" using that in_i by blast
    have un: "unat (of_nat n :: u64) = n" using n by (simp add: unat_of_nat)
    have "n \<in> {m. owner ?ps m = i}"
      using that buckets_of_owner [of i ?ps] assms(2)
      by (simp only: length_percents atLeastLessThan_iff p_def l_def)
    then have "i = owner ?ps (unat (of_nat n :: u64))" by (simp only: un mem_Collect_eq)
    then show ?thesis
      using rollout_prepared [OF sm assms(4), of "of_nat n" i] n assms(2)
      by (simp only: un p_def l_def)
  qed
  have "n < 1000 \<and> (\<exists>v. bucketByNum ?D (of_nat n) = Inr (v, i)) \<and>
      DistributionArray_rollout ?D (of_nat n) rp i = Inr True \<longleftrightarrow>
      l \<le> n \<and> n - l < 10 * p \<and> rolled_in p (n - l) (unat rp)" for n
    using in_i [of n] dec [of n] p(2) by auto
  then have "{n. n < 1000 \<and> (\<exists>v. bucketByNum ?D (of_nat n) = Inr (v, i)) \<and>
      DistributionArray_rollout ?D (of_nat n) rp i = Inr True}
      = (\<lambda>k. k + l) ` {k. k < 10 * p \<and> rolled_in p k (unat rp)}"
    by (simp only: image_shifted)
  then have "card {n. n < 1000 \<and> (\<exists>v. bucketByNum ?D (of_nat n) = Inr (v, i)) \<and>
      DistributionArray_rollout ?D (of_nat n) rp i = Inr True} = (10 * p - 1) * unat rp div 100 + 1"
    by (simp only: rolled_in_count [OF p(2) assms(3,4)] card_shifted)
  then show ?thesis
    using share_bound [OF p(2) assms(3,4)] by (simp only: p(1))
qed

theorem rollout_share_witness:
  "\<bar>10 * int (card {n. n < 1000 \<and>
      (\<exists>v. bucketByNum (prepare_distributions [dist_of 1 50, dist_of 2 50]) (of_nat n) = Inr (v, 0)) \<and>
      DistributionArray_rollout (prepare_distributions [dist_of 1 50, dist_of 2 50]) (of_nat n) 10 0 =
        Inr True})
    - int (unat (Distribution_Percent ([dist_of 1 50, dist_of 2 50] ! 0)) * unat (10 :: u64))\<bar> < 10"
  by (rule rollout_share) (simp_all add: percents_dist_of)

text \<open>C25: raising the rollout percentage is sticky. An entity that a rollout percentage already
  lets through keeps its variant when the percentage is raised.\<close>

theorem rollout_sticky:
  assumes "small_percents ds" "rp \<le> rp'" "unat rp' \<le> 100"
    and "Rollout (prepare_distributions ds) entityID salt rp = Inr (Some v, m)"
  shows "\<exists>m'. Rollout (prepare_distributions ds) entityID salt rp' = Inr (Some v, m')"
proof -
  have ne: "entityID \<noteq> []" "rp \<noteq> 0" "ds \<noteq> []"
    using assms(4) by (auto simp: Rollout_def prepared_nonempty split: if_splits)
  then have pos: "0 < rp" "0 < rp'"
    using assms(2) by (auto simp: word_gt_0 intro: less_le_trans)
  have le: "unat rp \<le> unat rp'" using assms(2) by (simp add: word_le_nat_alt)
  then have "unat rp \<le> 100" using assms(3) by simp
  from Rollout_prepared [OF assms(1) this pos(1) ne(1,3)] assms(4)
  have "owner (percents ds) (unat (crc32Num entityID salt)) < length ds"
    and "rolled_in (percents ds ! owner (percents ds) (unat (crc32Num entityID salt)))
      (unat (crc32Num entityID salt) -
       lower_bound (percents ds) (owner (percents ds) (unat (crc32Num entityID salt)))) (unat rp)"
    and "v = Distribution_VariantID (ds ! owner (percents ds) (unat (crc32Num entityID salt)))"
    by (auto simp: Let_def split: if_splits)
  with rolled_in_mono [OF _ le] show ?thesis
    using Rollout_prepared [OF assms(1,3) pos(2) ne(1,3)] by (simp add: Let_def)
qed

theorem rollout_sticky_witness:
  "\<exists>m'. Rollout (prepare_distributions [dist_of 7 100, dist_of 8 0]) ''a'' ''1'' 100 = Inr (Some 7, m')"
  by (rule rollout_sticky [OF _ _ _ rollout_example]) (simp_all add: percents_dist_of small_percents_def)

text \<open>Only configured variants are served. Whatever the entity, salt and rollout percentage, a
  variant that comes out of the rollout belongs to one of the segment's distributions, and to one
  with a non-zero percentage.\<close>

theorem rollout_configured:
  assumes "small_percents ds" "unat rp \<le> 100"
    and "Rollout (prepare_distributions ds) entityID salt rp = Inr (Some v, m)"
  shows "\<exists>d \<in> set ds. Distribution_VariantID d = v \<and> Distribution_Percent d \<noteq> 0"
  by (rule Rollout_Some_configured [OF assms])

theorem rollout_configured_witness:
  "\<exists>d \<in> set [dist_of 7 100, dist_of 8 0]. Distribution_VariantID d = 7 \<and> Distribution_Percent d \<noteq> 0"
  by (rule rollout_configured [OF _ _ rollout_example])
    (simp_all add: percents_dist_of small_percents_def rollout_example)

text \<open>C26: the range check the code leaves out. With distributions that do not add up to 100 percent, as
  a JSON source of flags may hold, the rollout panics for exactly the entities whose bucket lies at
  or above ten times the sum.\<close>

theorem rollout_panics_iff:
  assumes "small_percents ds" "unat rp \<le> 100" "0 < rp" "entityID \<noteq> []" "ds \<noteq> []"
  shows "Rollout (prepare_distributions ds) entityID salt rp = Inl IndexOutOfRange \<longleftrightarrow>
    10 * sum_list (percents ds) \<le> unat (crc32Num entityID salt)"
  using Rollout_prepared [OF assms, of salt] owner_lt_iff [of "percents ds" "unat (crc32Num entityID salt)"]
  by (auto simp: Let_def)

theorem rollout_panics_iff_witness:
  "Rollout (prepare_distributions [dist_of 7 0]) ''a'' ''1'' 50 = Inl IndexOutOfRange"
  using rollout_panics_iff [of "[dist_of 7 0]" 50 "''a''" "''1''"]
  by (simp add: percents_dist_of small_percents_def)

text \<open>The binary search of the standard library that picks the distribution is the linear search for
  the first accumulated bound that is not below the wanted one, on every sorted slice.\<close>

theorem SearchInts_is_linear:
  assumes "sorted (map sint a)"
  shows "SearchInts a x = length (takeWhile (\<lambda>v. \<not> x \<le>s v) a)"
  by (rule SearchInts_linear [OF assms])

theorem SearchInts_is_linear_witness: "SearchInts [300, 500, 500, 1000] 501 = 3"
  by (subst SearchInts_is_linear) (simp_all add: word_sle_eq)

end
