(* ===== verification/Flagr_Crud.thy ===== *)
theory Flagr_Crud
  imports Flagr_DB Flagr_Rollout
begin

text \<open>
  The management API: \<^verbatim>\<open>pkg/handler/crud.go\<close>,
  \<^verbatim>\<open>pkg/handler/crud_flag_creation.go\<close>, \<^verbatim>\<open>pkg/handler/validate.go\<close>,
  \<^verbatim>\<open>pkg/handler/error.go\<close> and \<^verbatim>\<open>pkg/entity/flag_snapshot.go\<close>. A handler takes the
  database state and gives a reply: the response or panic, the database state after it, and the
  statsd counters it bumped.
\<close>

section \<open>Replies and errors\<close>

datatype 'p response = RespDefault nat string | RespOK 'p

record ('p, 'db) reply =
  outcome :: "'p response go"
  db_after :: 'db
  counters :: "(string \<times> string list) list"

record ('e, 'db) crud_env =
  ce_gorm :: "('e, 'db) gorm"
  ce_cast :: cast_lib
  ce_cond :: "'e cond_lib"
  ce_subject :: "string go"
  ce_Marshal :: "'e flag \<Rightarrow> string err"
  ce_StatsdClient :: bool
  ce_random :: string

definition reject :: "nat \<Rightarrow> string \<Rightarrow> 'db \<Rightarrow> ('p, 'db) reply" where
  "reject code msg db = \<lparr>outcome = Inr (RespDefault code msg), db_after = db, counters = []\<rparr>"

definition panicked :: "go_panic \<Rightarrow> 'db \<Rightarrow> ('p, 'db) reply" where
  "panicked p db = \<lparr>outcome = Inl p, db_after = db, counters = []\<rparr>"

definition accept :: "'p \<Rightarrow> 'db \<Rightarrow> ('p, 'db) reply" where
  "accept payload db = \<lparr>outcome = Inr (RespOK payload), db_after = db, counters = []\<rparr>"

record handler_error =
  Error_StatusCode :: nat
  Error_Message :: string

definition Error_Error :: "handler_error \<Rightarrow> string" where
  "Error_Error e = ''status_code: '' @ dec (Error_StatusCode e) @ ''. '' @ Error_Message e"

definition NewError :: "nat \<Rightarrow> string \<Rightarrow> handler_error" where
  "NewError statusCode msg = \<lparr>Error_StatusCode = statusCode, Error_Message = msg\<rparr>"

section \<open>Snapshots\<close>

definition logFlagSnapshotUpdate ::
  "('e, 'db) crud_env \<Rightarrow> u64 \<Rightarrow> string \<Rightarrow> (string \<times> string list) list" where
  "logFlagSnapshotUpdate env flagID updatedBy =
     (if \<not> ce_StatsdClient env then []
      else [(''flag.snapshot.updated'',
        [''FlagID:'' @ dec_uint flagID,
         ''UpdatedBy:'' @ SafeStringWithDefault (ce_cast env) (VString updatedBy) ''null''])])"

text \<open>The two early returns leave the transaction open.\<close>

definition SaveFlagSnapshot ::
  "('e, 'db) crud_env \<Rightarrow> u64 \<Rightarrow> string \<Rightarrow> 'db \<Rightarrow> 'db \<times> (string \<times> string list) list" where
  "SaveFlagSnapshot env flagID updatedBy db =
     (let G = ce_gorm env; (tx, db1) = gorm_Begin G db; h = TxDB tx in
      case First_Flag G h flagID db1 of
        Inl _ \<Rightarrow> (db1, [])
      | Inr f0 \<Rightarrow>
          let f = Flag_Preload G h db1 f0 in
          case ce_Marshal env f of
            Inl _ \<Rightarrow> (db1, [])
          | Inr b \<Rightarrow>
              db_try (gorm_Create G h (RSnapshot \<lparr>FlagSnapshot_Model = zero_model,
                  FlagSnapshot_FlagID = flag_ID f, FlagSnapshot_UpdatedBy = updatedBy,
                  FlagSnapshot_Flag = b\<rparr>) db1)
                (\<lambda>_ db2. (gorm_Rollback G tx db2, []))
                (\<lambda>fs db2.
                  db_try (gorm_Save G h False
                      (RFlag (f\<lparr>Flag_UpdatedBy := updatedBy, Flag_SnapshotID := row_ID fs\<rparr>)) db2)
                    (\<lambda>_ db3. (gorm_Rollback G tx db3, []))
                    (\<lambda>_ db3. (db_exec (gorm_Commit G tx db3) (\<lambda>_ db4. gorm_Rollback G tx db4) (\<lambda>db4. db4),
                             logFlagSnapshotUpdate env flagID updatedBy))))"

text \<open>The end of most handlers: the subject of the request, a snapshot, the response.\<close>

definition accept_snapshot :: "('e, 'db) crud_env \<Rightarrow> u64 \<Rightarrow> 'p \<Rightarrow> 'db \<Rightarrow> ('p, 'db) reply" where
  "accept_snapshot env flagID payload db =
     (case ce_subject env of
        Inl p \<Rightarrow> panicked p db
      | Inr subject \<Rightarrow>
          (case SaveFlagSnapshot env flagID subject db of
             (db', cs) \<Rightarrow> \<lparr>outcome = Inr (RespOK payload), db_after = db', counters = cs\<rparr>))"

section \<open>Flags\<close>

text \<open>A write whose result is the updated object.\<close>

definition saved :: "('r \<Rightarrow> 'a option) \<Rightarrow> 'r err \<times> 'db \<Rightarrow> 'a err \<times> 'db" where
  "saved as x = (case x of (r, db) \<Rightarrow> (typed as r, db))"

definition struct_where :: "u64 \<Rightarrow> u64 \<Rightarrow> bool" where
  "struct_where wanted actual \<longleftrightarrow> wanted = 0 \<or> actual = wanted"

definition CreateFlagEntityType :: "('e, 'db) gorm \<Rightarrow> string \<Rightarrow> 'db \<Rightarrow> error option \<times> 'db" where
  "CreateFlagEntityType G key db =
     (let (ok, reason) = IsSafeKey key in
      if \<not> ok \<and> key \<noteq> [] then (Some (''invalid DataRecordsEntityType. reason: '' @ reason), db)
      else
        case gorm_Find G RootDB TEntityType
            (row_where as_entity_type (\<lambda>t. key = [] \<or> FlagEntityType_Key t = key))
            (by_columns (\<lambda>t. [uint (Model_ID (FlagEntityType_Model t))]) as_entity_type) db of
          Inl e \<Rightarrow> (Some e, db)
        | Inr (_ # _) \<Rightarrow> (None, db)
        | Inr [] \<Rightarrow>
            (case gorm_Create G RootDB (REntityType \<lparr>FlagEntityType_Model = zero_model,
                FlagEntityType_Key = key\<rparr>) db of
               (Inl e, db') \<Rightarrow> (Some e, db') | (Inr _, db') \<Rightarrow> (None, db')))"

definition LoadSimpleBooleanFlagTemplate ::
  "('e, 'db) gorm \<Rightarrow> db_handle \<Rightarrow> 'e flag \<Rightarrow> 'db \<Rightarrow> 'e flag err \<times> 'db" where
  "LoadSimpleBooleanFlagTemplate G tx f db =
     db_try (saved as_segment (gorm_Create G tx (RSegment (zero_segment\<lparr>Segment_FlagID := flag_ID f,
         Segment_RolloutPercent := 100, Segment_Rank := SegmentDefaultRank\<rparr>)) db))
       (\<lambda>e db1. (Inl e, db1)) (\<lambda>s db1.
     db_try (saved as_variant (gorm_Create G tx (RVariant (zero_variant\<lparr>Variant_FlagID := flag_ID f,
         Variant_Key := ''on''\<rparr>)) db1))
       (\<lambda>e db2. (Inl e, db2)) (\<lambda>v db2.
     db_try (saved as_distribution (gorm_Create G tx (RDistribution (zero_distribution\<lparr>
         Distribution_SegmentID := segment_ID s, Distribution_VariantID := variant_ID v,
         Distribution_VariantKey := Variant_Key v, Distribution_Percent := 100\<rparr>)) db2))
       (\<lambda>e db3. (Inl e, db3)) (\<lambda>d db3.
     (Inr (f\<lparr>Flag_Variants := Flag_Variants f @ [v],
       Flag_Segments := Flag_Segments f @
         [s\<lparr>Segment_Distributions := Segment_Distributions s @ [d]\<rparr>]\<rparr>), db3))))"

text \<open>The template is read through the body without a nil check, after the transaction was begun.\<close>

definition CreateFlag ::
  "('e, 'db) crud_env \<Rightarrow> create_flag_request option \<Rightarrow> 'db \<Rightarrow> (m_flag, 'db) reply" where
  "CreateFlag env body db =
     (let G = ce_gorm env; C = ce_cast env;
          create = (\<lambda>f0.
            let (tx, db1) = gorm_Begin G db; h = TxDB tx in
            db_try (saved as_flag (gorm_Create G h (RFlag f0) db1))
              (\<lambda>e db2. reject 500 (''cannot create flag. '' @ e) (gorm_Rollback G tx db2)) (\<lambda>f db2.
            let commit = (\<lambda>f db3.
              db_exec (gorm_Commit G tx db3)
                (\<lambda>e db4. reject 500 e (gorm_Rollback G tx db4))
                (\<lambda>db4. accept_snapshot env (flag_ID f) (MapFlag f) db4))
            in case body of
                 None \<Rightarrow> panicked NilDeref db2
               | Some b \<Rightarrow>
                   if CFR_Template b = ''simple_boolean_flag'' then
                     db_try (LoadSimpleBooleanFlagTemplate G h f db2)
                       (\<lambda>e db3. reject 500 (''cannot create flag. '' @ e) (gorm_Rollback G tx db3)) commit
                   else if CFR_Template b \<noteq> [] then
                     reject 400 (''unknown value for template: '' @ CFR_Template b) db2
                   else commit f db2))
      in case body of
           None \<Rightarrow> create zero_flag
         | Some b \<Rightarrow>
             (case ce_subject env of
                Inl p \<Rightarrow> panicked p db
              | Inr subject \<Rightarrow>
                  case CreateFlagKey (ce_random env) (CFR_Key b) of
                    Inl e \<Rightarrow> reject 400 (''cannot create flag. '' @ e) db
                  | Inr key \<Rightarrow> create (zero_flag\<lparr>
                      Flag_Description := SafeString C (VPtrString (CFR_Description b)),
                      Flag_CreatedBy := subject, Flag_Key := key\<rparr>)))"

definition GetFlag :: "('e, 'db) crud_env \<Rightarrow> i64 \<Rightarrow> 'db \<Rightarrow> (m_flag, 'db) reply" where
  "GetFlag env flagID db =
     (case First_Flag_preloaded (ce_gorm env) RootDB (uint_of_int64 flagID) db of
        Inl e \<Rightarrow>
          if e = ErrRecordNotFound
          then reject 404 (''unable to find flag '' @ dec_int flagID @ '' in the database'') db
          else reject 500 (''an unknown error occurred while looking up flag '' @ dec_int flagID @ '': '' @ e) db
      | Inr f \<Rightarrow> accept (MapFlag f) db)"

text \<open>The fields of the update: first those that cannot fail and the key, then, after the entity type was
  created, the rest.\<close>

definition put_flag_key :: "string \<Rightarrow> put_flag_request \<Rightarrow> 'e flag \<Rightarrow> 'e flag err" where
  "put_flag_key rnd body f0 =
     (let f1 = (case PFR_Description body of None \<Rightarrow> f0 | Some s \<Rightarrow> f0\<lparr>Flag_Description := s\<rparr>);
          f2 = (case PFR_DataRecordsEnabled body of None \<Rightarrow> f1 | Some b \<Rightarrow> f1\<lparr>Flag_DataRecordsEnabled := b\<rparr>)
      in case PFR_Key body of
           None \<Rightarrow> Inr f2
         | Some k \<Rightarrow> sum_bind (CreateFlagKey rnd k) (\<lambda>key. Inr (f2\<lparr>Flag_Key := key\<rparr>)))"

definition put_flag_rest :: "put_flag_request \<Rightarrow> 'e flag \<Rightarrow> 'e flag" where
  "put_flag_rest body f3 =
     (let f4 = (case PFR_EntityType body of None \<Rightarrow> f3 | Some t \<Rightarrow> f3\<lparr>Flag_EntityType := t\<rparr>)
      in case PFR_Notes body of None \<Rightarrow> f4 | Some n \<Rightarrow> f4\<lparr>Flag_Notes := n\<rparr>)"

definition put_flag_entity_type :: "('e, 'db) gorm \<Rightarrow> put_flag_request \<Rightarrow> 'db \<Rightarrow> error option \<times> 'db" where
  "put_flag_entity_type G body db =
     (case PFR_EntityType body of None \<Rightarrow> (None, db) | Some t \<Rightarrow> CreateFlagEntityType G t db)"

definition PutFlag :: "('e, 'db) crud_env \<Rightarrow> i64 \<Rightarrow> put_flag_request \<Rightarrow> 'db \<Rightarrow> (m_flag, 'db) reply" where
  "PutFlag env flagID body db =
     (let G = ce_gorm env; i = uint_of_int64 flagID in
      case First_Flag G RootDB i db of
        Inl e \<Rightarrow> reject 404 e db
      | Inr f0 \<Rightarrow>
          (case put_flag_key (ce_random env) body f0 of
             Inl e \<Rightarrow> reject 400 e db
           | Inr f3 \<Rightarrow>
               db_exec (put_flag_entity_type G body db) (\<lambda>e db1. reject 400 e db1) (\<lambda>db1.
               db_try (gorm_Save G RootDB False (RFlag (put_flag_rest body f3)) db1) (\<lambda>e db2. reject 500 e db2) (\<lambda>_ db2.
               case First_Flag_preloaded G RootDB i db2 of
                 Inl e \<Rightarrow> reject 500 e db2
               | Inr f \<Rightarrow> accept_snapshot env (SafeUint (ce_cast env) (VInt64 flagID)) (MapFlag f) db2))))"

definition SetFlagEnabledState ::
  "('e, 'db) crud_env \<Rightarrow> i64 \<Rightarrow> set_flag_enabled_request \<Rightarrow> 'db \<Rightarrow> (m_flag, 'db) reply" where
  "SetFlagEnabledState env flagID body db =
     (let G = ce_gorm env in
      case First_Flag G RootDB (uint_of_int64 flagID) db of
        Inl e \<Rightarrow> reject 404 e db
      | Inr f \<Rightarrow>
          (case SFR_Enabled body of
             None \<Rightarrow> panicked NilDeref db
           | Some b \<Rightarrow>
               db_try (saved as_flag (gorm_Save G RootDB False (RFlag (f\<lparr>Flag_Enabled := b\<rparr>)) db))
                 (\<lambda>e db1. reject 500 e db1)
                 (\<lambda>f' db1. accept_snapshot env (SafeUint (ce_cast env) (VInt64 flagID)) (MapFlag f') db1)))"

definition RestoreFlag :: "('e, 'db) crud_env \<Rightarrow> i64 \<Rightarrow> 'db \<Rightarrow> (m_flag, 'db) reply" where
  "RestoreFlag env flagID db =
     (let G = ce_gorm env in
      case sum_bind (typed as_flag (gorm_First G RootDB TFlag True (uint_of_int64 flagID) db))
          (PreloadFlagTags G RootDB db) of
        Inl e \<Rightarrow> reject 404 e db
      | Inr f \<Rightarrow>
          db_try (saved as_flag (gorm_Save G RootDB True
              (RFlag (f\<lparr>Flag_Model := (Flag_Model f)\<lparr>DeletedAt := None\<rparr>\<rparr>)) db))
            (\<lambda>e db1. reject 500 e db1)
            (\<lambda>f' db1. accept_snapshot env (SafeUint (ce_cast env) (VInt64 flagID)) (MapFlag f') db1))"

definition DeleteFlag :: "('e, 'db) crud_env \<Rightarrow> i64 \<Rightarrow> 'db \<Rightarrow> (unit, 'db) reply" where
  "DeleteFlag env flagID db =
     db_exec (gorm_Delete (ce_gorm env) RootDB TFlag (\<lambda>r. row_ID r = uint_of_int64 flagID) db)
       (\<lambda>e db1. reject 500 e db1) (\<lambda>db1. accept () db1)"

section \<open>Tags\<close>

definition CreateTag :: "('e, 'db) crud_env \<Rightarrow> i64 \<Rightarrow> create_tag_request \<Rightarrow> 'db \<Rightarrow> (m_tag, 'db) reply" where
  "CreateTag env flagID body db =
     (let G = ce_gorm env; value = SafeString (ce_cast env) (VPtrString (CTR_Value body));
          (ok, reason) = IsSafeValue value
      in if \<not> ok then reject 400 reason db
         else
           let t0 = \<lparr>Tag_Model = zero_model, Tag_Value = value\<rparr>;
               t = (case typed_list as_tag (gorm_Find G RootDB TTag
                       (row_where as_tag (\<lambda>t. Tag_Value t = value)) (by_columns (\<lambda>_. []) as_tag) db) of
                      Inr (t # _) \<Rightarrow> t | _ \<Rightarrow> t0)
           in db_try (gorm_Tags_Append G (uint_of_int64 flagID) t db) (\<lambda>e db1. reject 500 e db1)
                (\<lambda>t' db1. accept_snapshot env (SafeUint (ce_cast env) (VInt64 flagID)) (MapTag t') db1))"

definition DeleteTag :: "('e, 'db) crud_env \<Rightarrow> i64 \<Rightarrow> i64 \<Rightarrow> 'db \<Rightarrow> (unit, 'db) reply" where
  "DeleteTag env flagID tagID db =
     db_exec (gorm_Tags_Delete (ce_gorm env) (uint_of_int64 flagID) (uint_of_int64 tagID) db)
       (\<lambda>e db1. reject 500 e db1)
       (\<lambda>db1. accept_snapshot env (SafeUint (ce_cast env) (VInt64 flagID)) () db1)"

definition FindTags :: "('e, 'db) crud_env \<Rightarrow> i64 \<Rightarrow> 'db \<Rightarrow> (m_tag option list, 'db) reply" where
  "FindTags env flagID db =
     (case gorm_Tags_Find (ce_gorm env) RootDB (uint_of_int64 flagID) db of
        Inl e \<Rightarrow> reject 500 e db | Inr ts \<Rightarrow> accept (MapTags ts) db)"

section \<open>Segments\<close>

definition CreateSegment :: "('e, 'db) crud_env \<Rightarrow> i64 \<Rightarrow> create_segment_request \<Rightarrow> 'db \<Rightarrow> (m_segment, 'db) reply" where
  "CreateSegment env flagID body db =
     (case SR_RolloutPercent body of
        None \<Rightarrow> panicked NilDeref db
      | Some p \<Rightarrow>
          db_try (saved as_segment (gorm_Create (ce_gorm env) RootDB (RSegment (zero_segment\<lparr>
              Segment_FlagID := uint_of_int64 flagID, Segment_RolloutPercent := uint_of_int64 p,
              Segment_Description := SafeString (ce_cast env) (VPtrString (SR_Description body)),
              Segment_Rank := SegmentDefaultRank\<rparr>)) db))
            (\<lambda>e db1. reject 500 e db1)
            (\<lambda>s db1. accept_snapshot env (SafeUint (ce_cast env) (VInt64 flagID)) (MapSegment s) db1))"

definition FindSegments :: "('e, 'db) crud_env \<Rightarrow> i64 \<Rightarrow> 'db \<Rightarrow> (m_segment option list, 'db) reply" where
  "FindSegments env flagID db =
     (let G = ce_gorm env in
      case sum_bind (typed_list as_segment (gorm_Find G RootDB TSegment
             (row_where as_segment (\<lambda>s. struct_where (uint_of_int64 flagID) (Segment_FlagID s)))
             (by_columns (\<lambda>s. [uint (Segment_Rank s), uint (segment_ID s)]) as_segment) db))
           (sum_mapM (PreloadConstraintsDistribution G RootDB db)) of
        Inl e \<Rightarrow> reject 500 e db
      | Inr ss \<Rightarrow> accept (MapSegments ss) db)"

definition PutSegment ::
  "('e, 'db) crud_env \<Rightarrow> i64 \<Rightarrow> i64 \<Rightarrow> put_segment_request \<Rightarrow> 'db \<Rightarrow> (m_segment, 'db) reply" where
  "PutSegment env flagID segmentID body db =
     (let G = ce_gorm env; C = ce_cast env in
      case sum_bind (typed as_segment (gorm_First G RootDB TSegment False (uint_of_int64 segmentID) db))
          (PreloadConstraintsDistribution G RootDB db) of
        Inl e \<Rightarrow> reject 500 e db
      | Inr s \<Rightarrow>
          db_try (saved as_segment (gorm_Save G RootDB False (RSegment (s\<lparr>
              Segment_RolloutPercent := SafeUint C (VPtrInt64 (SR_RolloutPercent body)),
              Segment_Description := SafeString C (VPtrString (SR_Description body))\<rparr>)) db))
            (\<lambda>e db1. reject 500 e db1)
            (\<lambda>s' db1. accept_snapshot env (SafeUint C (VInt64 flagID)) (MapSegment s') db1))"

text \<open>The loop of the reordering; the error carries the status code.\<close>

fun reorder_loop ::
  "('e, 'db) gorm \<Rightarrow> db_handle \<Rightarrow> nat \<Rightarrow> i64 list \<Rightarrow> 'db \<Rightarrow> (nat \<times> error) option \<times> 'db" where
  "reorder_loop G tx i [] db = (None, db)"
| "reorder_loop G tx i (segmentID # ids) db =
     (case typed as_segment (gorm_First G tx TSegment False (uint_of_int64 segmentID) db) of
        Inl e \<Rightarrow> (Some (404, e), db)
      | Inr s \<Rightarrow>
          db_try (gorm_Save G tx False (RSegment (s\<lparr>Segment_Rank := of_nat i\<rparr>)) db)
            (\<lambda>e db1. (Some (500, e), db1))
            (\<lambda>_ db1. reorder_loop G tx (Suc i) ids db1))"

definition PutSegmentsReorder ::
  "('e, 'db) crud_env \<Rightarrow> i64 \<Rightarrow> put_segment_reorder_request \<Rightarrow> 'db \<Rightarrow> (unit, 'db) reply" where
  "PutSegmentsReorder env flagID body db =
     (let G = ce_gorm env; (tx, db1) = gorm_Begin G db;
          ids = (case PSR_SegmentIDs body of None \<Rightarrow> [] | Some ids \<Rightarrow> ids)
      in case reorder_loop G (TxDB tx) 0 ids db1 of
           (Some (code, e), db2) \<Rightarrow> reject code e (gorm_Rollback G tx db2)
         | (None, db2) \<Rightarrow>
             db_exec (gorm_Commit G tx db2) (\<lambda>e db3. reject 500 e (gorm_Rollback G tx db3))
               (\<lambda>db3. accept_snapshot env (SafeUint (ce_cast env) (VInt64 flagID)) () db3))"

definition DeleteSegment :: "('e, 'db) crud_env \<Rightarrow> i64 \<Rightarrow> i64 \<Rightarrow> 'db \<Rightarrow> (unit, 'db) reply" where
  "DeleteSegment env flagID segmentID db =
     db_exec (gorm_Delete (ce_gorm env) RootDB TSegment
         (\<lambda>r. row_ID r = SafeUint (ce_cast env) (VInt64 segmentID)) db)
       (\<lambda>e db1. reject 500 e db1)
       (\<lambda>db1. accept_snapshot env (SafeUint (ce_cast env) (VInt64 flagID)) () db1)"

section \<open>Constraints\<close>

definition constraint_with_body :: "cast_lib \<Rightarrow> create_constraint_request option \<Rightarrow> constraint \<Rightarrow> constraint" where
  "constraint_with_body C body c =
     (case body of None \<Rightarrow> c
      | Some b \<Rightarrow> c\<lparr>Constraint_Property := SafeString C (VPtrString (CCR_Property b)),
          Constraint_Operator := SafeString C (VPtrString (CCR_Operator b)),
          Constraint_Value := SafeString C (VPtrString (CCR_Value b))\<rparr>)"

definition CreateConstraint ::
  "('e, 'db) crud_env \<Rightarrow> i64 \<Rightarrow> i64 \<Rightarrow> create_constraint_request option \<Rightarrow> 'db \<Rightarrow> (m_constraint, 'db) reply" where
  "CreateConstraint env flagID segmentID body db =
     (let cons = constraint_with_body (ce_cast env) body
            (zero_constraint\<lparr>Constraint_SegmentID := uint_of_int64 segmentID\<rparr>)
      in case Constraint_Validate (ce_cond env) cons of
           Inl e \<Rightarrow> reject 400 e db
         | Inr _ \<Rightarrow>
             db_try (saved as_constraint (gorm_Create (ce_gorm env) RootDB (RConstraint cons) db))
               (\<lambda>e db1. reject 500 e db1)
               (\<lambda>c db1. accept_snapshot env (SafeUint (ce_cast env) (VInt64 flagID)) (MapConstraint c) db1))"

definition FindConstraints :: "('e, 'db) crud_env \<Rightarrow> i64 \<Rightarrow> 'db \<Rightarrow> (m_constraint option list, 'db) reply" where
  "FindConstraints env segmentID db =
     (case typed_list as_constraint (gorm_Find (ce_gorm env) RootDB TConstraint
         (row_where as_constraint (\<lambda>c. struct_where (uint_of_int64 segmentID) (Constraint_SegmentID c)))
         (by_columns (\<lambda>c. [CreatedAt (Constraint_Model c)]) as_constraint) db) of
        Inl e \<Rightarrow> reject 500 e db | Inr cs \<Rightarrow> accept (MapConstraints cs) db)"

definition PutConstraint ::
  "('e, 'db) crud_env \<Rightarrow> i64 \<Rightarrow> i64 \<Rightarrow> create_constraint_request option \<Rightarrow> 'db \<Rightarrow> (m_constraint, 'db) reply" where
  "PutConstraint env flagID constraintID body db =
     (let G = ce_gorm env in
      case typed as_constraint (gorm_First G RootDB TConstraint False (uint_of_int64 constraintID) db) of
        Inl e \<Rightarrow> reject 404 e db
      | Inr c0 \<Rightarrow>
          let cons = constraint_with_body (ce_cast env) body c0
          in case Constraint_Validate (ce_cond env) cons of
               Inl e \<Rightarrow> reject 400 e db
             | Inr _ \<Rightarrow>
                 db_try (saved as_constraint (gorm_Save G RootDB False (RConstraint cons) db))
                   (\<lambda>e db1. reject 500 e db1)
                   (\<lambda>c db1. accept_snapshot env (SafeUint (ce_cast env) (VInt64 flagID)) (MapConstraint c) db1))"

definition DeleteConstraint :: "('e, 'db) crud_env \<Rightarrow> i64 \<Rightarrow> i64 \<Rightarrow> 'db \<Rightarrow> (unit, 'db) reply" where
  "DeleteConstraint env flagID constraintID db =
     db_exec (gorm_Delete (ce_gorm env) RootDB TConstraint (\<lambda>r. row_ID r = uint_of_int64 constraintID) db)
       (\<lambda>e db1. reject 500 e db1)
       (\<lambda>db1. accept_snapshot env (SafeUint (ce_cast env) (VInt64 flagID)) () db1)"

section \<open>Distributions\<close>

text \<open>The sum of the percentages; a null entry is dereferenced, a missing percentage is an error.\<close>

fun percent_sum :: "m_distribution option list \<Rightarrow> i64 \<Rightarrow> (handler_error + i64) go" where
  "percent_sum [] acc = Inr (Inr acc)"
| "percent_sum (None # ds) acc = Inl NilDeref"
| "percent_sum (Some d # ds) acc =
     (case MD_Percent d of
        None \<Rightarrow> Inr (Inl (NewError 400 (''the percent of distribution '' @ dec_int (MD_ID d) @ '' is empty'')))
      | Some p \<Rightarrow> percent_sum ds (acc + p))"

fun check_variants ::
  "cast_lib \<Rightarrow> (u64 \<times> string) list \<Rightarrow> u64 list \<Rightarrow> m_distribution option list \<Rightarrow> handler_error option go" where
  "check_variants C vMap vIDs [] = Inr None"
| "check_variants C vMap vIDs (None # ds) = Inl NilDeref"
| "check_variants C vMap vIDs (Some v # ds) =
     (let vID = SafeUint C (VPtrInt64 (MD_VariantID v)) in
      case map_of vMap vID of
        None \<Rightarrow> Inr (Some (NewError 400 (''error finding variantID '' @ dec_uint vID @
          '' under this flag. expecting '' @ fmt_slice (map dec_uint vIDs))))
      | Some k \<Rightarrow>
          if k \<noteq> SafeString C (VPtrString (MD_VariantKey v)) then
            Inr (Some (NewError 400 (''error matching variantID '' @ dec_uint vID @ '' with variantKey '' @
              SafeString C (VPtrString (MD_VariantKey v)) @ ''. expecting '' @ k)))
          else check_variants C vMap vIDs ds)"

definition body_distributions :: "put_distributions_request \<Rightarrow> m_distribution option list" where
  "body_distributions body = (case PDR_Distributions body of None \<Rightarrow> [] | Some ds \<Rightarrow> ds)"

definition validatePutDistributions ::
  "('e, 'db) crud_env \<Rightarrow> i64 \<Rightarrow> put_distributions_request \<Rightarrow> 'db \<Rightarrow> handler_error option go" where
  "validatePutDistributions env flagID body db =
     (let G = ce_gorm env; ds = body_distributions body in
      sum_bind (percent_sum ds 0) (\<lambda>r. case r of
        Inl e \<Rightarrow> Inr (Some e)
      | Inr acc \<Rightarrow>
          if acc \<noteq> 100 then
            Inr (Some (NewError 400 (''the sum of distributions' percent '' @ dec_int acc @ '' is not 100'')))
          else
            (case First_Flag G RootDB (uint_of_int64 flagID) db of
               Inl e \<Rightarrow> Inr (Some (NewError 400 (''error finding flagID '' @ dec_int flagID @ ''. reason '' @ e)))
             | Inr f0 \<Rightarrow>
                 let f = Flag_Preload G RootDB db f0;
                     vMap = fold (\<lambda>v m. AList.update (variant_ID v) (Variant_Key v) m) (Flag_Variants f) [];
                     vIDs = map variant_ID (Flag_Variants f)
                 in check_variants (ce_cast env) vMap vIDs ds)))"

fun create_all :: "('e, 'db) gorm \<Rightarrow> db_handle \<Rightarrow> 'e row list \<Rightarrow> 'db \<Rightarrow> error option \<times> 'db" where
  "create_all G tx [] db = (None, db)"
| "create_all G tx (r # rs) db =
     (case gorm_Create G tx r db of
        (Inl e, db') \<Rightarrow> (Some e, db') | (Inr _, db') \<Rightarrow> create_all G tx rs db')"

definition PutDistributions ::
  "('e, 'db) crud_env \<Rightarrow> i64 \<Rightarrow> i64 \<Rightarrow> put_distributions_request \<Rightarrow> 'db \<Rightarrow>
    (m_distribution option list, 'db) reply" where
  "PutDistributions env flagID segmentID body db =
     (case validatePutDistributions env flagID body db of
        Inl p \<Rightarrow> panicked p db
      | Inr (Some e) \<Rightarrow> reject (Error_StatusCode e) (Error_Error e) db
      | Inr None \<Rightarrow>
          let G = ce_gorm env; segmentID' = uint_of_int64 segmentID;
              (tx, db1) = gorm_Begin G db; h = TxDB tx
          in db_exec (gorm_Delete G h TDistribution
                 (row_where as_distribution (\<lambda>d. Distribution_SegmentID d = segmentID')) db1)
               (\<lambda>e db2. reject 500 e (gorm_Rollback G tx db2))
               (\<lambda>db2.
                 case r2e_MapDistributions (ce_cast env) (body_distributions body) segmentID' of
                   Inl p \<Rightarrow> panicked p db2
                 | Inr ds \<Rightarrow>
                     db_exec (create_all G h (map RDistribution ds) db2)
                       (\<lambda>e1 db3. reject 500 e1 (gorm_Rollback G tx db3))
                       (\<lambda>db3. db_exec (gorm_Commit G tx db3)
                         (\<lambda>e db4. reject 500 e (gorm_Rollback G tx db4))
                         (\<lambda>db4. accept_snapshot env (SafeUint (ce_cast env) (VInt64 flagID))
                           (MapDistributions ds) db4))))"

definition FindDistributions ::
  "('e, 'db) crud_env \<Rightarrow> i64 \<Rightarrow> 'db \<Rightarrow> (m_distribution option list, 'db) reply" where
  "FindDistributions env segmentID db =
     (case typed_list as_distribution (gorm_Find (ce_gorm env) RootDB TDistribution
         (row_where as_distribution (\<lambda>d. struct_where (uint_of_int64 segmentID) (Distribution_SegmentID d)))
         (by_columns (\<lambda>d. [uint (Distribution_VariantID d)]) as_distribution) db) of
        Inl e \<Rightarrow> reject 500 e db | Inr ds \<Rightarrow> accept (MapDistributions ds) db)"

section \<open>Variants\<close>

definition CreateVariant ::
  "('e, 'db) crud_env \<Rightarrow> i64 \<Rightarrow> create_variant_request \<Rightarrow> 'db \<Rightarrow> (m_variant, 'db) reply" where
  "CreateVariant env flagID body db =
     (case r2e_MapAttachment (spew_Sdump (ce_cond env)) (VR_Attachment body) of
        Inl e \<Rightarrow> reject 400 e db
      | Inr a \<Rightarrow>
          let v = zero_variant\<lparr>Variant_FlagID := uint_of_int64 flagID,
                Variant_Key := SafeString (ce_cast env) (VPtrString (VR_Key body)), Variant_Attachment := a\<rparr>
          in case Variant_Validate v of
               Inl e \<Rightarrow> reject 400 e db
             | Inr _ \<Rightarrow>
                 db_try (saved as_variant (gorm_Create (ce_gorm env) RootDB (RVariant v) db))
                   (\<lambda>e db1. reject 500 e db1)
                   (\<lambda>v' db1. accept_snapshot env (SafeUint (ce_cast env) (VInt64 flagID)) (MapVariant v') db1))"

definition FindVariants :: "('e, 'db) crud_env \<Rightarrow> i64 \<Rightarrow> 'db \<Rightarrow> (m_variant option list, 'db) reply" where
  "FindVariants env flagID db =
     (case typed_list as_variant (gorm_Find (ce_gorm env) RootDB TVariant
         (row_where as_variant (\<lambda>v. struct_where (uint_of_int64 flagID) (Variant_FlagID v)))
         (by_columns (\<lambda>v. [uint (variant_ID v)]) as_variant) db) of
        Inl e \<Rightarrow> reject 500 e db | Inr vs \<Rightarrow> accept (MapVariants vs) db)"

text \<open>An update of the zero values is no update, and a condition on a zero id is no condition.\<close>

fun set_variant_key :: "string \<Rightarrow> 'e row \<Rightarrow> 'e row" where
  "set_variant_key k (RDistribution d) = RDistribution (if k = [] then d else d\<lparr>Distribution_VariantKey := k\<rparr>)"
| "set_variant_key k r = r"

definition validatePutVariantForDistributions ::
  "('e, 'db) gorm \<Rightarrow> variant \<Rightarrow> 'db \<Rightarrow> handler_error option \<times> 'db" where
  "validatePutVariantForDistributions G v db =
     db_exec (gorm_Updates G RootDB TDistribution
         (row_where as_distribution (\<lambda>d. struct_where (variant_ID v) (Distribution_VariantID d)))
         (set_variant_key (Variant_Key v)) db)
       (\<lambda>e db1. (Some (NewError 500 (''error updating distribution to sync with variantID '' @
          dec_uint (variant_ID v) @ '' with variantKey '' @ Variant_Key v @ ''. reason: '' @ e)), db1))
       (\<lambda>db1. (None, db1))"

definition PutVariant ::
  "('e, 'db) crud_env \<Rightarrow> i64 \<Rightarrow> i64 \<Rightarrow> put_variant_request \<Rightarrow> 'db \<Rightarrow> (m_variant, 'db) reply" where
  "PutVariant env flagID variantID body db =
     (let G = ce_gorm env in
      case typed as_variant (gorm_First G RootDB TVariant False (uint_of_int64 variantID) db) of
        Inl e \<Rightarrow> reject 404 e db
      | Inr v0 \<Rightarrow>
          let v1 = v0\<lparr>Variant_Key := SafeString (ce_cast env) (VPtrString (VR_Key body))\<rparr>;
              attached = (if VR_Attachment body \<noteq> VNil
                then sum_bind (r2e_MapAttachment (spew_Sdump (ce_cond env)) (VR_Attachment body))
                  (\<lambda>a. Inr (v1\<lparr>Variant_Attachment := a\<rparr>))
                else Inr v1)
          in case attached of
               Inl e \<Rightarrow> reject 400 e db
             | Inr v2 \<Rightarrow>
                 (case Variant_Validate v2 of
                    Inl e \<Rightarrow> reject 400 e db
                  | Inr _ \<Rightarrow>
                      db_try (saved as_variant (gorm_Save G RootDB False (RVariant v2) db))
                        (\<lambda>e db1. reject 500 e db1)
                        (\<lambda>v db1. case validatePutVariantForDistributions G v db1 of
                           (Some e, db2) \<Rightarrow> reject (Error_StatusCode e) (Error_Error e) db2
                         | (None, db2) \<Rightarrow>
                             accept_snapshot env (SafeUint (ce_cast env) (VInt64 flagID)) (MapVariant v) db2)))"

text \<open>
  The distributions of the variant, segment by segment: one with a percentage refuses the deletion,
  the others are deleted as they are met.
\<close>

fun delete_zero_distributions ::
  "('e, 'db) gorm \<Rightarrow> u64 \<Rightarrow> i64 \<Rightarrow> distribution list \<Rightarrow> 'db \<Rightarrow> handler_error option \<times> 'db" where
  "delete_zero_distributions G vID variantID [] db = (None, db)"
| "delete_zero_distributions G vID variantID (d # ds) db =
     (if Distribution_VariantID d = vID then
        if Distribution_Percent d \<noteq> 0 then
          (Some (NewError 400 (''error deleting variant '' @ dec_int variantID @ ''. distribution '' @
             dec_uint (distribution_ID d) @ '' still has non-zero distribution '' @
             dec_uint (Distribution_Percent d))), db)
        else
          db_exec (gorm_Delete G RootDB TDistribution (\<lambda>r. row_ID r = distribution_ID d) db)
            (\<lambda>e db1. (Some (NewError 500 (''error deleting distribution '' @ dec_uint (distribution_ID d) @
               ''. reason: '' @ e)), db1))
            (\<lambda>db1. delete_zero_distributions G vID variantID ds db1)
      else delete_zero_distributions G vID variantID ds db)"

definition validateDeleteVariant ::
  "('e, 'db) crud_env \<Rightarrow> i64 \<Rightarrow> i64 \<Rightarrow> 'db \<Rightarrow> handler_error option \<times> 'db" where
  "validateDeleteVariant env flagID variantID db =
     (let G = ce_gorm env in
      case First_Flag G RootDB (uint_of_int64 flagID) db of
        Inl e \<Rightarrow> (Some (NewError 404 (''error finding flagID '' @ dec_int flagID @ ''. reason '' @ e)), db)
      | Inr f0 \<Rightarrow>
          let f = Flag_Preload G RootDB db f0
          in delete_zero_distributions G (SafeUint (ce_cast env) (VInt64 variantID)) variantID
               (concat (map Segment_Distributions (Flag_Segments f))) db)"

definition DeleteVariant :: "('e, 'db) crud_env \<Rightarrow> i64 \<Rightarrow> i64 \<Rightarrow> 'db \<Rightarrow> (unit, 'db) reply" where
  "DeleteVariant env flagID variantID db =
     (case validateDeleteVariant env flagID variantID db of
        (Some e, db1) \<Rightarrow> reject (Error_StatusCode e) (Error_Error e) db1
      | (None, db1) \<Rightarrow>
          db_exec (gorm_Delete (ce_gorm env) RootDB TVariant (\<lambda>r. row_ID r = uint_of_int64 variantID) db1)
            (\<lambda>e db2. reject 500 e db2)
            (\<lambda>db2. accept_snapshot env (SafeUint (ce_cast env) (VInt64 flagID)) () db2))"

end
