(* ===== verification/Flagr_Consistency.thy ===== *)
theory Flagr_Consistency
  imports Flagr_Crud
begin

text \<open>
  The consistency of the stored configuration: the live distributions of each segment are empty or
  add up to 100 percent, or to 200 for a segment that came to exist after distributions were put on its id; on an id
  that was never stored there are none, or 100 percent that wait for it; and no live segment has a rollout
  percentage above 100. The strict form, without 200 and without waiting distributions, is what holds as long as
  distributions are only put on stored segments. What the single statements of the database do
  to it, and the handlers that leave the two tables concerned alone.
\<close>

section \<open>What is consistent\<close>

text \<open>The two tables the evaluation depends on.\<close>

definition core :: "(table_kind \<Rightarrow> 'e row list) \<Rightarrow> 'e row list \<times> 'e row list" where
  "core T = (T TDistribution, T TSegment)"

definition dists_of :: "'e row list \<Rightarrow> u64 \<Rightarrow> distribution list" where
  "dists_of rs s = filter (\<lambda>d. Distribution_SegmentID d = s) (List.map_filter as_distribution (filter live rs))"

definition live_segments :: "'e row list \<Rightarrow> 'e segment list" where
  "live_segments rs = List.map_filter as_segment (filter live rs)"

definition full :: "bool \<Rightarrow> distribution list \<Rightarrow> bool" where
  "full strict ds \<longleftrightarrow> ds = [] \<or> sum_list (percents ds) = 100 \<or> \<not> strict \<and> sum_list (percents ds) = 200"

definition waiting :: "bool \<Rightarrow> distribution list \<Rightarrow> bool" where
  "waiting strict ds \<longleftrightarrow> ds = [] \<or> \<not> strict \<and> sum_list (percents ds) = 100"

definition consistent :: "bool \<Rightarrow> 'e row list \<times> 'e row list \<Rightarrow> bool" where
  "consistent strict c \<longleftrightarrow> (case c of (drs, srs) \<Rightarrow>
     (\<forall>r \<in> set drs. row_kind r = TDistribution) \<and> distinct (map row_ID drs) \<and>
     (\<forall>s. full strict (dists_of drs s)) \<and>
     (\<forall>s. s \<notin> row_ID ` set srs \<longrightarrow> waiting strict (dists_of drs s)) \<and>
     (\<forall>s \<in> set (live_segments srs). unat (Segment_RolloutPercent s) \<le> 100))"

lemma full_sound: "full strict ds \<Longrightarrow> sound_distributions ds"
  by (auto simp: full_def sound_distributions_def)

section \<open>Lists of distributions\<close>

declare map_filter_simps [simp]

lemma map_filter_append [simp]:
  "List.map_filter f (xs @ ys) = List.map_filter f xs @ List.map_filter f ys"
  by (simp add: List.map_filter_def)

lemma set_map_filter: "y \<in> set (List.map_filter f xs) \<longleftrightarrow> (\<exists>x \<in> set xs. f x = Some y)"
  by (induction xs) (auto split: option.splits)

lemma mset_map_filter: "mset xs = mset ys \<Longrightarrow> mset (List.map_filter f xs) = mset (List.map_filter f ys)"
  by (simp add: List.map_filter_def mset_filter)

lemma dists_of_simps [simp]:
  "dists_of [] s = []"
  "dists_of (rs @ rs') s = dists_of rs s @ dists_of rs' s"
  by (simp_all add: dists_of_def)

lemma dists_of_Cons:
  "dists_of (r # rs) s = (if live r then
     (case as_distribution r of None \<Rightarrow> dists_of rs s
      | Some d \<Rightarrow> if Distribution_SegmentID d = s then d # dists_of rs s else dists_of rs s)
     else dists_of rs s)"
  by (simp add: dists_of_def split: option.splits)

lemma percents_simps [simp]: "percents [] = []" "percents (d # ds) = unat (Distribution_Percent d) # percents ds"
  "percents (ds @ ds') = percents ds @ percents ds'"
  by (simp_all add: percents_def)

lemma percents_mset: "mset ds = mset ds' \<Longrightarrow> sum_list (percents ds) = sum_list (percents ds')"
  unfolding percents_def by (metis mset_map sum_mset_sum_list)

lemma sound_distributions_mset: "mset ds = mset ds' \<Longrightarrow> sound_distributions ds = sound_distributions ds'"
  using percents_mset [of ds ds'] by (auto simp: sound_distributions_def)

text \<open>Deleting rows: whole segments, or distributions of zero percent.\<close>

definition delete_rows :: "int \<Rightarrow> ('e row \<Rightarrow> bool) \<Rightarrow> 'e row list \<Rightarrow> 'e row list" where
  "delete_rows t P rs = map (\<lambda>x. if live x \<and> P x then soft_delete t x else x) rs"

lemma dists_of_delete_segment:
  "dists_of (delete_rows t (row_where as_distribution (\<lambda>d. Distribution_SegmentID d = s)) rs) s' =
    (if s' = s then [] else dists_of rs s')"
  by (induction rs) (auto simp: delete_rows_def dists_of_Cons row_where_def split: option.splits)

lemma dists_of_delete_zero:
  assumes "\<forall>x \<in> set rs. \<forall>d. live x \<and> P x \<and> as_distribution x = Some d \<longrightarrow> Distribution_Percent d = 0"
  shows "sum_list (percents (dists_of (delete_rows t P rs) s)) = sum_list (percents (dists_of rs s))"
    "dists_of rs s = [] \<Longrightarrow> dists_of (delete_rows t P rs) s = []"
  using assms by (induction rs) (auto simp: delete_rows_def dists_of_Cons split: option.splits if_splits)

lemma soft_delete_ID [simp]: "row_ID (soft_delete t x) = row_ID x" "row_ID (touch t x) = row_ID x"
  by (simp_all add: soft_delete_def touch_def)

lemma delete_rows_ids [simp]: "map row_ID (delete_rows t P rs) = map row_ID rs"
  by (simp add: delete_rows_def)

lemma delete_rows_kinds:
  "\<forall>r \<in> set rs. row_kind r = k \<Longrightarrow> \<forall>r \<in> set (delete_rows t P rs). row_kind r = k"
  by (auto simp: delete_rows_def)

lemma live_segments_delete: "set (live_segments (delete_rows t P rs)) \<subseteq> set (live_segments rs)"
  by (auto simp: live_segments_def delete_rows_def set_map_filter split: if_splits)

section \<open>What single statements do to the core\<close>

context gorm_laws
begin

lemma frame_Create:
  assumes "gorm_Create G h r db = (res, db')" "k \<noteq> row_kind r"
  shows "rows db' h k = rows db h k"
  using assms Create_ok [of h r db _ db'] write_error(1) [of h r db _ db'] by (cases res) auto

lemma frame_Save:
  assumes "gorm_Save G h unscoped r db = (res, db')" "k \<noteq> row_kind r"
    and "\<exists>x \<in> set (rows db h (row_kind r)). row_ID x = row_ID r \<and> (unscoped \<or> live x)"
  shows "rows db' h k = rows db h k"
  using assms Save_ok [of h unscoped r db _ db'] write_error(2) [of h unscoped r db _ db'] by (cases res) auto

lemma frame_Delete:
  assumes "gorm_Delete G h k' P db = (er, db')" "k \<noteq> k'"
  shows "rows db' h k = rows db h k"
  using assms Delete_ok [of h k' P db db'] write_error(3) [of h k' P db _ db'] by (cases er) auto

lemma core_Create:
  assumes "gorm_Create G h r db = (res, db')" "row_kind r \<notin> {TDistribution, TSegment}"
  shows "core (rows db' h) = core (rows db h)"
  using frame_Create [OF assms(1)] assms(2) by (auto simp: core_def)

lemma core_Save:
  assumes "gorm_Save G h unscoped r db = (res, db')" "row_kind r \<notin> {TDistribution, TSegment}"
    and "\<exists>x \<in> set (rows db h (row_kind r)). row_ID x = row_ID r \<and> (unscoped \<or> live x)"
  shows "core (rows db' h) = core (rows db h)"
  using frame_Save [OF assms(1) _ assms(3)] assms(2) by (auto simp: core_def)

lemma core_Delete:
  assumes "gorm_Delete G h k P db = (er, db')" "k \<notin> {TDistribution, TSegment}"
  shows "core (rows db' h) = core (rows db h)"
  using frame_Delete [OF assms(1)] assms(2) by (auto simp: core_def)

lemma First_typed:
  assumes "typed as (gorm_First G h k unscoped i db) = Inr a"
  shows "\<exists>x \<in> set (rows db h k). as (row_columns x) = Some a \<and> row_ID x = i \<and> (unscoped \<or> live x)"
  using assms First_ok by (fastforce simp: typed_Inr_iff)

lemma as_columns:
  "as_flag (row_columns x) = Some f \<Longrightarrow> flag_ID f = row_ID x \<and> Flag_Segments f = []"
  "as_segment (row_columns x) = Some s \<Longrightarrow> segment_ID s = row_ID x"
  "as_constraint (row_columns x) = Some c \<Longrightarrow> constraint_ID c = row_ID x"
  "as_variant (row_columns x) = Some v \<Longrightarrow> variant_ID v = row_ID x"
  by (cases x; auto)+

text \<open>Inside a transaction the committed rows stay, and what the transaction sees is tracked.\<close>

lemma tx_Create:
  assumes "gorm_Create G (TxDB tx) r db = (res, db')"
  shows "rows db' RootDB = rows db RootDB" "open_txs db' = open_txs db"
  using write_frame(1) [OF _ assms] write_open(1) [OF assms] by simp_all

lemma tx_Save:
  assumes "gorm_Save G (TxDB tx) unscoped r db = (res, db')"
  shows "rows db' RootDB = rows db RootDB" "open_txs db' = open_txs db"
  using write_frame(2) [OF _ assms] write_open(2) [OF assms] by simp_all

lemma tx_Delete:
  assumes "gorm_Delete G (TxDB tx) k P db = (er, db')"
  shows "rows db' RootDB = rows db RootDB" "open_txs db' = open_txs db"
  using write_frame(3) [OF _ assms] write_open(3) [OF assms] by simp_all

lemma PreloadSegmentsVariantsTags_ID:
  "PreloadSegmentsVariantsTags G h db f = Inr f' \<Longrightarrow> Flag_Model f' = Flag_Model f"
  by (auto simp: PreloadSegmentsVariantsTags_def PreloadFlagTags_def sum_bind_eq_Inr_iff)

lemma Flag_Preload_ID [simp]: "flag_ID (Flag_Preload G h db f) = flag_ID f"
proof (cases "First_Flag_preloaded G h (flag_ID f) db")
  case (Inr f')
  then obtain f0 where f0: "First_Flag G h (flag_ID f) db = Inr f0" "PreloadSegmentsVariantsTags G h db f0 = Inr f'"
    by (auto simp: First_Flag_preloaded_def sum_bind_eq_Inr_iff)
  have "flag_ID f0 = flag_ID f"
    using First_typed [OF f0(1) [unfolded First_Flag_def]] by (auto dest!: as_columns)
  then show ?thesis using Inr PreloadSegmentsVariantsTags_ID [OF f0(2)] by (simp add: Flag_Preload_def)
qed (simp add: Flag_Preload_def)

lemma First_Flag_row:
  assumes "First_Flag G h i db = Inr f"
  shows "\<exists>x \<in> set (rows db h TFlag). row_ID x = flag_ID f \<and> live x" "flag_ID f = i"
proof -
  from First_typed [OF assms [unfolded First_Flag_def]]
  show "\<exists>x \<in> set (rows db h TFlag). row_ID x = flag_ID f \<and> live x" "flag_ID f = i"
    by (auto dest!: as_columns)
qed

text \<open>What a snapshot does when the flag was found and marshalled, statement by statement.\<close>

lemma SaveFlagSnapshot_steps:
  assumes "ce_gorm env = G" "gorm_Begin G db = (tx, db1)" "First_Flag G (TxDB tx) i db1 = Inr f0"
    and "f = Flag_Preload G (TxDB tx) db1 f0" "ce_Marshal env f = Inr b"
    and "db' = fst (SaveFlagSnapshot env i u db)"
  shows "open_txs db' = open_txs db \<and> (rows db' RootDB = rows db RootDB \<or>
    (\<exists>m t. rows db' RootDB = (rows db RootDB)
      (TSnapshot := rows db RootDB TSnapshot @ [RSnapshot \<lparr>FlagSnapshot_Model = m, FlagSnapshot_FlagID = flag_ID f,
         FlagSnapshot_UpdatedBy = u, FlagSnapshot_Flag = b\<rparr>],
       TFlag := map (\<lambda>x. if row_ID x = flag_ID f
         then row_columns (touch t (RFlag (f\<lparr>Flag_UpdatedBy := u, Flag_SnapshotID := Model_ID m\<rparr>))) else x)
         (rows db RootDB TFlag))))"
proof -
  note B = Begin_ok [OF assms(2)]
  let ?snap = "RSnapshot \<lparr>FlagSnapshot_Model = zero_model, FlagSnapshot_FlagID = flag_ID f,
    FlagSnapshot_UpdatedBy = u, FlagSnapshot_Flag = b\<rparr>"
  obtain r2 db2 where c: "gorm_Create G (TxDB tx) ?snap db1 = (r2, db2)" by (cases "gorm_Create G (TxDB tx) ?snap db1")
  note c1 = tx_Create [OF c]
  show ?thesis
  proof (cases r2)
    case (Inl e)
    then show ?thesis using assms c c1 B Rollback_ok by (simp add: SaveFlagSnapshot_def Let_def db_try_def)
  next
    case r2: (Inr fs)
    from Create_ok [OF c [unfolded r2]] obtain m where fs: "fs = with_model ?snap m"
      "rows db2 (TxDB tx) = (rows db1 (TxDB tx))(TSnapshot := rows db1 (TxDB tx) TSnapshot @ [row_columns fs])" by auto
    let ?f = "RFlag (f\<lparr>Flag_UpdatedBy := u, Flag_SnapshotID := Model_ID m\<rparr>)"
    obtain r3 db3 where s: "gorm_Save G (TxDB tx) False ?f db2 = (r3, db3)" by (cases "gorm_Save G (TxDB tx) False ?f db2")
    note s1 = tx_Save [OF s]
    show ?thesis
    proof (cases r3)
      case (Inl e)
      then show ?thesis using assms c c1 s s1 r2 fs B Rollback_ok
        by (simp add: SaveFlagSnapshot_def Let_def db_try_def)
    next
      case r3: (Inr x3)
      have "\<exists>x \<in> set (rows db2 (TxDB tx) TFlag). row_ID x = row_ID ?f \<and> (False \<or> live x)"
        using First_Flag_row [OF assms(3)] by (simp add: fs(2) assms(4))
      from Save_ok [OF s [unfolded r3]] this obtain t where x3: "x3 = touch t ?f"
        "rows db3 (TxDB tx) = (rows db2 (TxDB tx))(TFlag :=
          map (\<lambda>x. if row_ID x = flag_ID f then row_columns x3 else x) (rows db2 (TxDB tx) TFlag))" by auto
      obtain er db4 where C: "gorm_Commit G tx db3 = (er, db4)" by (cases "gorm_Commit G tx db3")
      have tx: "tx \<in> open_txs db3" using B c1 s1 by simp
      show ?thesis
      proof (cases er)
        case None
        have "db' = db4" using assms c s r2 fs(1) r3 C None
          by (simp add: SaveFlagSnapshot_def Let_def db_try_def db_exec_def)
        moreover have "open_txs db4 = open_txs db" "rows db4 RootDB = rows db3 (TxDB tx)"
          using Commit_ok [OF C [unfolded None] tx] B c1 s1 by auto
        ultimately show ?thesis using x3 fs B by (auto simp: fun_upd_twist)
      next
        case (Some e)
        have "db' = gorm_Rollback G tx db4" using assms c s r2 fs(1) r3 C Some
          by (simp add: SaveFlagSnapshot_def Let_def db_try_def db_exec_def)
        then show ?thesis using Commit_error [OF C [unfolded Some]] Rollback_ok [of tx db4] B c1 s1 by auto
      qed
    qed
  qed
qed

lemma SaveFlagSnapshot_early:
  assumes "ce_gorm env = G" "gorm_Begin G db = (tx, db1)"
    and "\<forall>f0. First_Flag G (TxDB tx) i db1 = Inr f0 \<longrightarrow> (\<exists>e. ce_Marshal env (Flag_Preload G (TxDB tx) db1 f0) = Inl e)"
  shows "fst (SaveFlagSnapshot env i u db) = db1"
  using assms by (auto simp: SaveFlagSnapshot_def Let_def split: sum.split)

lemma SaveFlagSnapshot_rows:
  assumes "ce_gorm env = G" "k \<noteq> TFlag" "k \<noteq> TSnapshot"
  shows "rows (fst (SaveFlagSnapshot env i u db)) RootDB k = rows db RootDB k"
proof -
  obtain tx db1 where B: "gorm_Begin G db = (tx, db1)" by (cases "gorm_Begin G db")
  show ?thesis
  proof (cases "\<exists>f0 b. First_Flag G (TxDB tx) i db1 = Inr f0 \<and> ce_Marshal env (Flag_Preload G (TxDB tx) db1 f0) = Inr b")
    case True
    then obtain f0 b where f: "First_Flag G (TxDB tx) i db1 = Inr f0"
      "ce_Marshal env (Flag_Preload G (TxDB tx) db1 f0) = Inr b" by blast
    show ?thesis using SaveFlagSnapshot_steps [OF assms(1) B f(1) refl f(2) refl, of u] assms(2,3)
      by (elim conjE disjE exE) simp_all
  next
    case False
    then have "\<forall>f0. First_Flag G (TxDB tx) i db1 = Inr f0 \<longrightarrow>
        (\<exists>e. ce_Marshal env (Flag_Preload G (TxDB tx) db1 f0) = Inl e)" by (metis sumE)
    from SaveFlagSnapshot_early [OF assms(1) B this] show ?thesis using Begin_ok [OF B] by simp
  qed
qed

lemma accept_snapshot_rows:
  assumes "ce_gorm env = G" "k \<noteq> TFlag" "k \<noteq> TSnapshot"
  shows "rows (db_after (accept_snapshot env i p db)) RootDB k = rows db RootDB k"
  using SaveFlagSnapshot_rows [OF assms]
  by (simp add: accept_snapshot_def panicked_def case_prod_beta split: sum.splits)

lemma core_accept_snapshot:
  assumes "ce_gorm env = G"
  shows "core (rows (db_after (accept_snapshot env i p db)) RootDB) = core (rows db RootDB)"
  by (simp add: core_def accept_snapshot_rows [OF assms])

end

section \<open>Handlers that leave tables alone\<close>

definition keeps ::
  "table_kind set \<Rightarrow> ('db \<Rightarrow> db_handle \<Rightarrow> table_kind \<Rightarrow> 'e row list) \<Rightarrow> 'db \<Rightarrow> ('p, 'db) reply \<Rightarrow> bool" where
  "keeps T rows db r \<longleftrightarrow> (\<forall>k \<in> T. rows (db_after r) RootDB k = rows db RootDB k)"

lemma keeps_core: "keeps {TDistribution, TSegment} rows db r \<Longrightarrow> core (rows (db_after r) RootDB) = core (rows db RootDB)"
  by (simp add: keeps_def core_def)

lemma db_after_simps [simp]:
  "db_after (reject c m db) = db" "db_after (panicked p db) = db" "db_after (accept x db) = db"
  by (simp_all add: reject_def panicked_def accept_def)

lemma keeps_simps [simp]:
  "keeps T rows db (reject c m db)" "keeps T rows db (panicked p db)" "keeps T rows db (accept x db)"
  by (simp_all add: keeps_def)

context gorm_laws
begin

lemma keeps_snapshot:
  assumes "ce_gorm env = G" "TFlag \<notin> T" "TSnapshot \<notin> T"
  shows "keeps T rows db (accept_snapshot env i p db)"
proof -
  have "k \<noteq> TFlag" "k \<noteq> TSnapshot" if "k \<in> T" for k using assms(2,3) that by blast+
  then show ?thesis by (simp add: keeps_def accept_snapshot_rows [OF assms(1)])
qed

lemma keeps_trans:
  "\<forall>k \<in> T. rows db1 RootDB k = rows db RootDB k \<Longrightarrow> keeps T rows db1 r \<Longrightarrow> keeps T rows db r"
  by (simp add: keeps_def)

lemma keeps_Create:
  assumes "row_kind r \<notin> T"
    and "\<And>e db1. keeps T rows db1 (F e db1)" "\<And>a db1. keeps T rows db1 (K a db1)"
  shows "keeps T rows db (db_try (saved as (gorm_Create G RootDB r db)) F K)"
proof -
  obtain res db1 where c: "gorm_Create G RootDB r db = (res, db1)" by (cases "gorm_Create G RootDB r db")
  have f: "\<forall>k \<in> T. rows db1 RootDB k = rows db RootDB k"
    by (intro ballI frame_Create [OF c]) (use assms(1) in blast)
  note k = keeps_trans [OF f]
  show ?thesis
    using k [OF assms(2)] k [OF assms(3)] by (simp add: db_try_def saved_def c split: sum.split)
qed

lemma keeps_Save:
  assumes "row_kind r \<notin> T"
    and "\<exists>x \<in> set (rows db RootDB (row_kind r)). row_ID x = row_ID r \<and> (unscoped \<or> live x)"
    and "\<And>e db1. keeps T rows db1 (F e db1)" "\<And>a db1. keeps T rows db1 (K a db1)"
  shows "keeps T rows db (db_try (saved as (gorm_Save G RootDB unscoped r db)) F K)"
proof -
  obtain res db1 where c: "gorm_Save G RootDB unscoped r db = (res, db1)"
    by (cases "gorm_Save G RootDB unscoped r db")
  have f: "\<forall>k \<in> T. rows db1 RootDB k = rows db RootDB k"
    by (intro ballI frame_Save [OF c _ assms(2)]) (use assms(1) in blast)
  note k = keeps_trans [OF f]
  show ?thesis
    using k [OF assms(3)] k [OF assms(4)] by (simp add: db_try_def saved_def c split: sum.split)
qed

lemma saved_Some: "saved Some x = x"
  by (cases x) (auto simp: saved_def typed_def split: sum_bind_split)

lemmas keeps_Save_plain = keeps_Save [where as = Some, unfolded saved_Some]

lemma keeps_Delete:
  assumes "k \<notin> T"
    and "\<And>e db1. keeps T rows db1 (F e db1)" "\<And>db1. keeps T rows db1 (K db1)"
  shows "keeps T rows db (db_exec (gorm_Delete G RootDB k P db) F K)"
proof -
  obtain er db1 where c: "gorm_Delete G RootDB k P db = (er, db1)" by (cases "gorm_Delete G RootDB k P db")
  have f: "\<forall>k \<in> T. rows db1 RootDB k = rows db RootDB k"
    by (intro ballI frame_Delete [OF c]) (use assms(1) in blast)
  note k = keeps_trans [OF f]
  show ?thesis using k [OF assms(2)] k [OF assms(3)] by (simp add: db_exec_def c split: option.split)
qed

lemma keeps_CreateVariant:
  assumes "ce_gorm env = G" "TVariant \<notin> T" "TFlag \<notin> T" "TSnapshot \<notin> T"
  shows "keeps T rows db (CreateVariant env flagID body db)"
  by (auto simp: CreateVariant_def Let_def assms split: sum.split
      intro!: keeps_Create keeps_snapshot [OF assms(1)])

lemma keeps_CreateConstraint:
  assumes "ce_gorm env = G" "TConstraint \<notin> T" "TFlag \<notin> T" "TSnapshot \<notin> T"
  shows "keeps T rows db (CreateConstraint env flagID segmentID body db)"
  by (auto simp: CreateConstraint_def Let_def assms split: sum.split
      intro!: keeps_Create keeps_snapshot [OF assms(1)])

lemma keeps_DeleteConstraint:
  assumes "ce_gorm env = G" "TConstraint \<notin> T" "TFlag \<notin> T" "TSnapshot \<notin> T"
  shows "keeps T rows db (DeleteConstraint env flagID constraintID db)"
  by (auto simp: DeleteConstraint_def assms intro!: keeps_Delete keeps_snapshot [OF assms(1)])

lemma keeps_DeleteFlag:
  assumes "ce_gorm env = G" "TFlag \<notin> T" "TSnapshot \<notin> T"
  shows "keeps T rows db (DeleteFlag env flagID db)"
  by (auto simp: DeleteFlag_def assms intro!: keeps_Delete)

lemma keeps_PutConstraint:
  assumes "ce_gorm env = G" "TConstraint \<notin> T" "TFlag \<notin> T" "TSnapshot \<notin> T"
  shows "keeps T rows db (PutConstraint env flagID constraintID body db)"
proof (cases "typed as_constraint (gorm_First G RootDB TConstraint False (uint_of_int64 constraintID) db)")
  case (Inr c0)
  from First_typed [OF Inr]
  have "\<exists>x \<in> set (rows db RootDB TConstraint). row_ID x = constraint_ID c0 \<and> live x"
    by (auto dest!: as_columns)
  then have ex: "\<exists>x \<in> set (rows db RootDB TConstraint).
      row_ID x = constraint_ID (constraint_with_body (ce_cast env) body c0) \<and> live x"
    by (simp add: constraint_with_body_def split: option.split)
  show ?thesis
    using ex by (auto simp: PutConstraint_def Let_def Inr assms split: sum.split
        intro!: keeps_Save keeps_snapshot [OF assms(1)])
qed (simp add: PutConstraint_def assms)

lemma flag_row:
  assumes "typed as_flag (gorm_First G h TFlag unscoped i db) = Inr f"
  shows "\<exists>x \<in> set (rows db h TFlag). row_ID x = flag_ID f \<and> (unscoped \<or> live x)"
  using First_typed [OF assms] by (auto dest!: as_columns)

lemma keeps_SetFlagEnabledState:
  assumes "ce_gorm env = G" "TFlag \<notin> T" "TSnapshot \<notin> T"
  shows "keeps T rows db (SetFlagEnabledState env flagID body db)"
proof (cases "First_Flag G RootDB (uint_of_int64 flagID) db")
  case (Inr f)
  then show ?thesis
    using flag_row [OF Inr [unfolded First_Flag_def]]
    by (auto simp: SetFlagEnabledState_def assms split: option.split
        intro!: keeps_Save keeps_snapshot [OF assms(1)])
qed (simp add: SetFlagEnabledState_def assms)

lemma keeps_RestoreFlag:
  assumes "ce_gorm env = G" "TFlag \<notin> T" "TSnapshot \<notin> T"
  shows "keeps T rows db (RestoreFlag env flagID db)"
proof (cases "sum_bind (typed as_flag (gorm_First G RootDB TFlag True (uint_of_int64 flagID) db))
    (PreloadFlagTags G RootDB db)")
  case (Inr f)
  then obtain f0 where f0: "typed as_flag (gorm_First G RootDB TFlag True (uint_of_int64 flagID) db) = Inr f0"
    "Flag_Model f = Flag_Model f0"
    by (auto simp: sum_bind_eq_Inr_iff PreloadFlagTags_def)
  have "\<exists>x \<in> set (rows db RootDB TFlag). row_ID x = flag_ID f" using flag_row [OF f0(1)] f0(2) by auto
  then show ?thesis
    by (auto simp: RestoreFlag_def assms Inr intro!: keeps_Save keeps_snapshot [OF assms(1)])
qed (simp add: RestoreFlag_def assms)

lemma keeps_DeleteTag:
  assumes "ce_gorm env = G" "TFlag \<notin> T" "TSnapshot \<notin> T"
  shows "keeps T rows db (DeleteTag env flagID tagID db)"
proof -
  obtain er db1 where d: "gorm_Tags_Delete G (uint_of_int64 flagID) (uint_of_int64 tagID) db = (er, db1)"
    by (cases "gorm_Tags_Delete G (uint_of_int64 flagID) (uint_of_int64 tagID) db")
  have "\<forall>k \<in> T. rows db1 RootDB k = rows db RootDB k" using Tags_Delete_ok [OF d] assms(2) by metis
  note k = keeps_trans [OF this]
  show ?thesis
    by (cases er) (auto simp: DeleteTag_def assms d db_exec_def intro!: k keeps_snapshot [OF assms(1)])
qed

lemma keeps_CreateTag:
  assumes "ce_gorm env = G" "TTag \<notin> T" "TFlag \<notin> T" "TSnapshot \<notin> T"
  shows "keeps T rows db (CreateTag env flagID body db)"
proof -
  have "\<forall>k \<in> T. rows db1 RootDB k = rows db RootDB k"
    if "gorm_Tags_Append G i t db = (res, db1)" for i t res db1
    using Tags_Append_ok [OF that] assms(2,3) by metis
  note k = keeps_trans [OF this]
  show ?thesis
    by (auto simp: CreateTag_def assms db_try_def Let_def split: prod.split sum.split
        intro: k keeps_snapshot [OF assms(1,3,4)])
qed

lemma CreateFlagEntityType_rows:
  assumes "CreateFlagEntityType G key db = (et, db1)" "k \<noteq> TEntityType"
  shows "rows db1 RootDB k = rows db RootDB k"
proof -
  have "rows db2 RootDB k = rows db RootDB k"
    if c: "gorm_Create G RootDB (REntityType t) db = (res, db2)" for t res db2
  proof (cases res)
    case (Inl e)
    then show ?thesis using write_error(1) c by simp
  next
    case (Inr r)
    then show ?thesis using Create_ok [OF c [unfolded Inr]] assms(2) by simp
  qed
  then show ?thesis
    using assms(1) by (auto simp: CreateFlagEntityType_def split: if_splits prod.splits sum.splits list.splits)
qed

lemma put_flag_ID:
  "put_flag_key rnd body f0 = Inr f3 \<Longrightarrow> flag_ID (put_flag_rest body f3) = flag_ID f0"
  by (auto simp: put_flag_key_def put_flag_rest_def Let_def sum_bind_eq_Inr_iff split: option.splits)

lemma put_flag_entity_type_rows:
  "put_flag_entity_type G body db = (et, db1) \<Longrightarrow> k \<noteq> TEntityType \<Longrightarrow> rows db1 RootDB k = rows db RootDB k"
  using CreateFlagEntityType_rows by (auto simp: put_flag_entity_type_def split: option.splits)

lemma keeps_PutFlag:
  assumes "ce_gorm env = G" "TEntityType \<notin> T" "TFlag \<notin> T" "TSnapshot \<notin> T"
  shows "keeps T rows db (PutFlag env flagID body db)"
proof (cases "First_Flag G RootDB (uint_of_int64 flagID) db")
  case (Inr f0)
  note row = flag_row [OF Inr [unfolded First_Flag_def]]
  show ?thesis
  proof (cases "put_flag_key (ce_random env) body f0")
    case Inr3: (Inr f3)
    obtain et db1 where et: "put_flag_entity_type G body db = (et, db1)"
      by (cases "put_flag_entity_type G body db")
    have "\<forall>k \<in> T. rows db1 RootDB k = rows db RootDB k"
      using put_flag_entity_type_rows [OF et] assms(2) by metis
    note k = keeps_trans [OF this]
    have "\<exists>x \<in> set (rows db1 RootDB TFlag). row_ID x = flag_ID (put_flag_rest body f3) \<and> live x"
      using row put_flag_ID [OF Inr3] put_flag_entity_type_rows [OF et] by simp
    then show ?thesis
      by (auto simp: PutFlag_def assms Inr Inr3 et db_exec_def split: option.split sum.split
          intro!: k keeps_Save_plain keeps_snapshot [OF assms(1)])
  qed (simp add: PutFlag_def assms Inr)
qed (simp add: PutFlag_def assms)

end

end
