(* ===== verification/Flagr_Reach.thy ===== *)
theory Flagr_Reach
  imports Flagr_Consistency Flagr_Rollout
begin

text \<open>
  The handlers that write segments or distributions keep the stored configuration consistent, and
  so does every sequence of requests: the step relation of the management API, the states it can
  reach, and the invariant.
\<close>

section \<open>Percentages\<close>

lemma unat_of_percent:
  assumes "0 \<le> sint p"
  shows "unat (uint_of_int64 p) = nat (sint p)"
proof -
  have "sint p < 2 ^ 63" using sint_lt [of p] by simp
  then have "uint p = sint p" unfolding uint_sint using assms by (intro take_bit_int_eq_self) auto
  then show ?thesis by (simp add: uint_of_int64_def unat_eq_nat_uint)
qed

text \<open>The sum of validated percentages does not wrap, and it is the sum of the stored ones.\<close>

fun entry_percent :: "m_distribution option \<Rightarrow> nat" where
  "entry_percent (Some d) = (case MD_Percent d of Some p \<Rightarrow> unat p | None \<Rightarrow> 0)"
| "entry_percent None = 0"

lemma percent_sum_entries:
  assumes "percent_sum ds acc = Inr (Inr x)"
  shows "x = acc + of_nat (sum_list (map entry_percent ds))" "\<forall>d \<in> set ds. \<exists>m p. d = Some m \<and> MD_Percent m = Some p"
  using assms by (induction ds acc rule: percent_sum.induct) (auto split: option.splits)

lemma entries_bound:
  assumes "\<forall>m. Some m \<in> set ds \<longrightarrow> valid_distribution m"
  shows "sum_list (map entry_percent ds) \<le> 100 * length ds"
  using assms
proof (induction ds)
  case (Cons d ds)
  have "entry_percent d \<le> 100"
  proof (cases d)
    case (Some m)
    then obtain p where p: "MD_Percent m = Some p" "0 \<le> sint p" "sint p \<le> 100"
      using Cons.prems by (auto simp: valid_distribution_def)
    then have "unat p \<le> 100" using unat_of_percent [of p] by simp
    then show ?thesis using Some p by simp
  qed simp
  then show ?case using Cons by simp
qed simp

lemma mapped_percents:
  assumes "r2e_MapDistributions C ds s = Inr es"
  shows "percents es = map entry_percent ds" "\<forall>e \<in> set es. Distribution_SegmentID e = s"
  using assms
proof (induction ds arbitrary: es)
  case Nil
  { case 1 then show ?case by (simp add: r2e_MapDistributions_def) }
  { case 2 then show ?case by (simp add: r2e_MapDistributions_def) }
next
  case (Cons d ds)
  have step: "\<exists>e es'. r2e_MapDistribution C d s = Inr e \<and> r2e_MapDistributions C ds s = Inr es' \<and> xs = e # es'"
    if "r2e_MapDistributions C (d # ds) s = Inr xs" for xs
    using that by (auto simp: r2e_MapDistributions_def sum_bind_eq_Inr_iff)
  have one: "unat (Distribution_Percent e) = entry_percent d" "Distribution_SegmentID e = s"
    if "r2e_MapDistribution C d s = Inr e" for e
    using that by (auto simp: r2e_MapDistribution_def split: option.splits)
  { case 1 then show ?case using step Cons.IH(1) one(1) by fastforce }
  { case 2 then show ?case using step Cons.IH(2) one(2) by fastforce }
qed

lemma mapped_sound:
  assumes "percent_sum ds 0 = Inr (Inr 100)" "\<forall>m. Some m \<in> set ds \<longrightarrow> valid_distribution m"
    and "length ds < 2 ^ 45" "r2e_MapDistributions C ds s = Inr es"
  shows "sum_list (percents es) = 100"
proof -
  have "sum_list (map entry_percent ds) \<le> 100 * length ds" by (rule entries_bound [OF assms(2)])
  also have "\<dots> < 2 ^ 64" using assms(3) by simp
  finally have lt: "sum_list (map entry_percent ds) < 2 ^ 64" .
  have "of_nat (sum_list (map entry_percent ds)) = (100 :: u64)" using percent_sum_entries(1) [OF assms(1)] by simp
  moreover have "unat (of_nat (sum_list (map entry_percent ds)) :: u64) = sum_list (map entry_percent ds)"
    using lt by (simp add: unat_of_nat take_bit_nat_eq_self)
  ultimately have "sum_list (map entry_percent ds) = unat (100 :: u64)" by simp
  then show ?thesis using mapped_percents(1) [OF assms(4)] by simp
qed

section \<open>Writes to the core\<close>

lemma dists_of_create:
  assumes "r = RDistribution d" "DeletedAt m = None"
  shows "dists_of (rs @ [row_columns (with_model r m)]) s =
    dists_of rs s @ (if Distribution_SegmentID d = s then [d\<lparr>Distribution_Model := m\<rparr>] else [])"
  using assms by (simp add: dists_of_Cons live_def)

lemma dists_of_updates:
  assumes "\<forall>d. \<exists>k. u (RDistribution d) = RDistribution (d\<lparr>Distribution_VariantKey := k\<rparr>)"
    and "\<forall>r \<in> set rs. row_kind r = TDistribution"
  shows "percents (dists_of (map (\<lambda>x. if live x \<and> P x then touch t (u x) else x) rs) s) = percents (dists_of rs s)"
  using assms(2)
proof (induction rs)
  case (Cons r rs)
  obtain d where d: "r = RDistribution d" using Cons.prems by (cases r) auto
  obtain k where "u r = RDistribution (d\<lparr>Distribution_VariantKey := k\<rparr>)" using assms(1) d by auto
  then show ?case using Cons d by (auto simp: dists_of_Cons touch_def live_def)
qed simp

lemma set_variant_key_row [simp]:
  "row_kind (set_variant_key k x) = row_kind x" "row_model (set_variant_key k x) = row_model x"
  by (cases x; simp)+

lemma set_variant_key_some:
  "\<exists>k'. set_variant_key k (RDistribution d) = RDistribution (d\<lparr>Distribution_VariantKey := k'\<rparr>)"
  by (cases "k = []") (auto intro: exI [of _ "Distribution_VariantKey d"])

lemma consistentI:
  assumes "\<forall>r \<in> set drs. row_kind r = TDistribution" "distinct (map row_ID drs)"
    "\<And>s. full strict (dists_of drs s)" "\<And>s. s \<notin> row_ID ` set srs \<Longrightarrow> waiting strict (dists_of drs s)"
    "\<And>s. s \<in> set (live_segments srs) \<Longrightarrow> unat (Segment_RolloutPercent s) \<le> 100"
  shows "consistent strict (drs, srs)"
  using assms by (auto simp: consistent_def)

lemma consistentD:
  assumes "consistent strict (drs, srs)"
  shows "\<forall>r \<in> set drs. row_kind r = TDistribution" "distinct (map row_ID drs)"
    "full strict (dists_of drs s)" "s \<notin> row_ID ` set srs \<Longrightarrow> waiting strict (dists_of drs s)"
    "sg \<in> set (live_segments srs) \<Longrightarrow> unat (Segment_RolloutPercent sg) \<le> 100"
  using assms by (auto simp: consistent_def)

lemma full_moved:
  assumes "full strict ds" "sum_list (percents ds') = sum_list (percents ds)" "ds = [] \<Longrightarrow> ds' = []"
  shows "full strict ds'"
  using assms by (cases "ds = []") (auto simp: full_def)

lemma waiting_moved:
  assumes "waiting strict ds" "sum_list (percents ds') = sum_list (percents ds)" "ds = [] \<Longrightarrow> ds' = []"
  shows "waiting strict ds'"
  using assms by (cases "ds = []") (auto simp: waiting_def)

lemma consistent_segments:
  assumes "consistent strict (drs, srs)" "row_ID ` set srs \<subseteq> row_ID ` set srs'"
    "\<And>s. s \<in> set (live_segments srs') \<Longrightarrow> unat (Segment_RolloutPercent s) \<le> 100"
  shows "consistent strict (drs, srs')"
  using assms by (simp add: consistent_def) blast

lemma consistent_distributions:
  assumes "consistent strict (drs, srs)" "\<forall>r \<in> set drs'. row_kind r = TDistribution" "distinct (map row_ID drs')"
    "\<And>s. sum_list (percents (dists_of drs' s)) = sum_list (percents (dists_of drs s))"
    "\<And>s. dists_of drs s = [] \<Longrightarrow> dists_of drs' s = []"
  shows "consistent strict (drs', srs)"
  using assms(2,3) consistentD(5) [OF assms(1)]
  by (intro consistentI full_moved [OF consistentD(3) [OF assms(1)] assms(4,5)]
    waiting_moved [OF consistentD(4) [OF assms(1)] assms(4,5)]) simp_all

context gorm_laws
begin

lemma Delete_rows:
  "gorm_Delete G h k P db = (None, db') \<Longrightarrow> \<exists>t. rows db' h = (rows db h)(k := delete_rows t P (rows db h k))"
  unfolding delete_rows_def by (rule Delete_ok)

lemma core_at: "core (rows db h) = (rows db h TDistribution, rows db h TSegment)"
  by (simp add: core_def)

lemma Create_segment_consistent:
  assumes "gorm_Create G h (RSegment s) db = (res, db')" "unat (Segment_RolloutPercent s) \<le> 100"
    and c: "consistent strict (core (rows db h))"
  shows "consistent strict (core (rows db' h))"
proof (cases res)
  case (Inl e)
  then show ?thesis using write_error(1) assms by simp
next
  case (Inr r')
  from Create_ok [OF assms(1) [unfolded Inr]]
  obtain m where r': "r' = with_model (RSegment s) m"
    and db': "rows db' h = (rows db h)(TSegment := rows db h TSegment @ [row_columns r'])" by auto
  have "consistent strict (rows db h TDistribution, rows db h TSegment @ [row_columns r'])"
    by (rule consistent_segments [OF c [unfolded core_at]])
      (use assms(2) consistentD(5) [OF c [unfolded core_at]] in \<open>auto simp: live_segments_def r' split: if_splits\<close>)
  then show ?thesis by (simp add: core_def db')
qed

lemma Save_segment_consistent:
  assumes "gorm_Save G h unscoped (RSegment s) db = (res, db')" "unat (Segment_RolloutPercent s) \<le> 100"
    and "\<exists>x \<in> set (rows db h TSegment). row_ID x = segment_ID s \<and> (unscoped \<or> live x)"
    and c: "consistent strict (core (rows db h))"
  shows "consistent strict (core (rows db' h))"
proof (cases res)
  case (Inl e)
  then show ?thesis using write_error(2) assms by simp
next
  case (Inr r')
  let ?srs = "map (\<lambda>x. if row_ID x = segment_ID s then row_columns r' else x) (rows db h TSegment)"
  from Save_ok [OF assms(1) [unfolded Inr]] assms(3)
  obtain t where r': "r' = touch t (RSegment s)" and db': "rows db' h = (rows db h)(TSegment := ?srs)" by auto
  have ids: "map row_ID ?srs = map row_ID (rows db h TSegment)" by (simp add: r')
  have "consistent strict (rows db h TDistribution, ?srs)"
  proof (rule consistent_segments [OF c [unfolded core_at]])
    show "row_ID ` set (rows db h TSegment) \<subseteq> row_ID ` set ?srs"
      by (simp only: set_map [symmetric] ids order_refl)
    fix sg
    assume "sg \<in> set (live_segments ?srs)"
    then obtain x where "x \<in> set ?srs" "live x" "as_segment x = Some sg" by (auto simp: live_segments_def set_map_filter)
    then have "x = row_columns r' \<or> x \<in> set (rows db h TSegment)" by auto
    then show "unat (Segment_RolloutPercent sg) \<le> 100"
    proof
      assume "x = row_columns r'"
      then show ?thesis using \<open>as_segment x = Some sg\<close> assms(2) by (auto simp: r' touch_def)
    next
      assume "x \<in> set (rows db h TSegment)"
      then have "sg \<in> set (live_segments (rows db h TSegment))"
        using \<open>live x\<close> \<open>as_segment x = Some sg\<close> by (auto simp: live_segments_def set_map_filter)
      then show ?thesis by (rule consistentD(5) [OF c [unfolded core_at]])
    qed
  qed
  then show ?thesis by (simp add: core_def db')
qed

lemma Delete_segment_consistent:
  assumes "gorm_Delete G h TSegment P db = (er, db')" and c: "consistent strict (core (rows db h))"
  shows "consistent strict (core (rows db' h))"
proof (cases er)
  case (Some e)
  then show ?thesis using write_error(3) assms by simp
next
  case None
  from Delete_rows [OF assms(1) [unfolded None]]
  obtain t where db': "rows db' h = (rows db h)(TSegment := delete_rows t P (rows db h TSegment))"
    by blast
  have "row_ID ` set (rows db h TSegment) \<subseteq> row_ID ` set (delete_rows t P (rows db h TSegment))"
    by (simp only: set_map [symmetric] delete_rows_ids order_refl)
  then have "consistent strict (rows db h TDistribution, delete_rows t P (rows db h TSegment))"
    by (rule consistent_segments [OF c [unfolded core_at]])
      (use consistentD(5) [OF c [unfolded core_at]] live_segments_delete in blast)
  then show ?thesis by (simp add: core_def db')
qed

lemma Delete_zero_consistent:
  assumes "gorm_Delete G h TDistribution P db = (er, db')"
    and "\<forall>x \<in> set (rows db h TDistribution). \<forall>d. live x \<and> P x \<and> as_distribution x = Some d \<longrightarrow> Distribution_Percent d = 0"
    and c: "consistent strict (core (rows db h))"
  shows "consistent strict (core (rows db' h))"
proof (cases er)
  case (Some e)
  then show ?thesis using write_error(3) assms by simp
next
  case None
  from Delete_rows [OF assms(1) [unfolded None]]
  obtain t where db': "rows db' h = (rows db h)(TDistribution := delete_rows t P (rows db h TDistribution))"
    by blast
  have "consistent strict (delete_rows t P (rows db h TDistribution), rows db h TSegment)"
    using dists_of_delete_zero [OF assms(2)] delete_rows_kinds consistentD(1,2) [OF c [unfolded core_at]]
    by (intro consistent_distributions [OF c [unfolded core_at]]) simp_all
  then show ?thesis by (simp add: core_def db')
qed

lemma Updates_key_consistent:
  assumes "gorm_Updates G h TDistribution P (set_variant_key k) db = (er, db')" and c: "consistent strict (core (rows db h))"
  shows "consistent strict (core (rows db' h))"
proof (cases er)
  case (Some e)
  then show ?thesis using write_error(4) assms by simp
next
  case None
  from Updates_ok [OF assms(1) [unfolded None]]
  obtain t where db': "rows db' h = (rows db h)(TDistribution :=
      map (\<lambda>x. if live x \<and> P x then touch t (set_variant_key k x) else x) (rows db h TDistribution))"
    (is "_ = (rows db h)(_ := ?drs)") by auto
  have ids: "map row_ID ?drs = map row_ID (rows db h TDistribution)" by auto
  have p: "percents (dists_of ?drs s) = percents (dists_of (rows db h TDistribution) s)" for s
    using dists_of_updates [OF _ consistentD(1) [OF c [unfolded core_at]]] set_variant_key_some by blast
  have "consistent strict (?drs, rows db h TSegment)"
  proof (rule consistent_distributions [OF c [unfolded core_at]])
    show "distinct (map row_ID ?drs)" using consistentD(2) [OF c [unfolded core_at]] by (simp only: ids)
    show "\<forall>r \<in> set ?drs. row_kind r = TDistribution" using consistentD(1) [OF c [unfolded core_at]] by auto
    show "dists_of ?drs s = []" if "dists_of (rows db h TDistribution) s = []" for s
      using p [of s] that by (simp add: percents_def)
  qed (simp add: p)
  then show ?thesis by (simp add: core_def db')
qed

end

section \<open>Segments\<close>

definition keeps_consistent :: "bool \<Rightarrow> ('db \<Rightarrow> db_handle \<Rightarrow> table_kind \<Rightarrow> 'e row list) \<Rightarrow> 'db \<Rightarrow> ('p, 'db) reply \<Rightarrow> bool" where
  "keeps_consistent strict rows db r \<longleftrightarrow>
     (consistent strict (core (rows db RootDB)) \<longrightarrow> consistent strict (core (rows (db_after r) RootDB)))"

lemma keeps_core_consistent: "keeps {TDistribution, TSegment} rows db r \<Longrightarrow> keeps_consistent strict rows db r"
  using keeps_core [of rows db r] by (simp add: keeps_consistent_def)

lemma keeps_consistent_simps [simp]:
  "keeps_consistent strict rows db (reject c m db)" "keeps_consistent strict rows db (panicked p db)"
  "keeps_consistent strict rows db (accept x db)"
  by (simp_all add: keeps_core_consistent)

context gorm_laws
begin

lemma then_snapshot:
  assumes "ce_gorm env = G" "consistent strict (core (rows db1 RootDB))"
  shows "consistent strict (core (rows (db_after (accept_snapshot env i p db1)) RootDB))"
  by (simp add: core_accept_snapshot [OF assms(1)] assms(2))

lemma consistent_CreateSegment:
  assumes "ce_gorm env = G" "CreateSegmentRequest_Validate body = []"
  shows "keeps_consistent strict rows db (CreateSegment env flagID body db)"
proof -
  obtain p where p: "SR_RolloutPercent body = Some p" "0 \<le> sint p" "sint p \<le> 100"
    using SegmentRequest_valid(1) [OF assms(2)] by auto
  let ?s = "zero_segment\<lparr>Segment_FlagID := uint_of_int64 flagID, Segment_RolloutPercent := uint_of_int64 p,
    Segment_Description := SafeString (ce_cast env) (VPtrString (SR_Description body)), Segment_Rank := SegmentDefaultRank\<rparr>"
  obtain res db1 where c: "gorm_Create G RootDB (RSegment ?s) db = (res, db1)"
    by (cases "gorm_Create G RootDB (RSegment ?s) db")
  have "unat (Segment_RolloutPercent ?s) \<le> 100" using unat_of_percent [OF p(2)] p(3) by simp
  note k = Create_segment_consistent [where strict = strict, OF c this]
  show ?thesis
    using k then_snapshot [where strict = strict, OF assms(1)]
    by (auto simp: keeps_consistent_def CreateSegment_def p assms(1) db_try_def saved_def c split: sum.split)
qed

lemma consistent_PutSegment:
  assumes "ce_gorm env = G" "cast_laws (ce_cast env)" "PutSegmentRequest_Validate body = []"
  shows "keeps_consistent strict rows db (PutSegment env flagID segmentID body db)"
proof -
  obtain p where p: "SR_RolloutPercent body = Some p" "0 \<le> sint p" "sint p \<le> 100"
    using SegmentRequest_valid(2) [OF assms(3)] by auto
  have cast: "SafeUint (ce_cast env) (VPtrInt64 (SR_RolloutPercent body)) = uint_of_int64 p"
    using p by (simp add: cast_laws.safe_simps [OF assms(2)] uint_of_int64_def)
  show ?thesis
  proof (cases "sum_bind (typed as_segment (gorm_First G RootDB TSegment False (uint_of_int64 segmentID) db))
      (PreloadConstraintsDistribution G RootDB db)")
    case (Inl e)
    then show ?thesis by (simp add: PutSegment_def assms(1) Let_def)
  next
    case (Inr s)
    then obtain s0 where s0: "typed as_segment (gorm_First G RootDB TSegment False (uint_of_int64 segmentID) db) = Inr s0"
      "Segment_Model s = Segment_Model s0"
      by (auto simp: sum_bind_eq_Inr_iff PreloadConstraintsDistribution_def)
    let ?s = "s\<lparr>Segment_RolloutPercent := uint_of_int64 p,
      Segment_Description := SafeString (ce_cast env) (VPtrString (SR_Description body))\<rparr>"
    have row: "\<exists>x \<in> set (rows db RootDB TSegment). row_ID x = segment_ID ?s \<and> (False \<or> live x)"
      using First_typed [OF s0(1)] s0(2) by (auto dest!: as_columns)
    have "unat (Segment_RolloutPercent ?s) \<le> 100" using unat_of_percent [OF p(2)] p(3) by simp
    moreover obtain res db1 where c: "gorm_Save G RootDB False (RSegment ?s) db = (res, db1)"
      by (cases "gorm_Save G RootDB False (RSegment ?s) db")
    ultimately have "consistent strict (core (rows db RootDB)) \<Longrightarrow> consistent strict (core (rows db1 RootDB))"
      using Save_segment_consistent [OF c _ row] by simp
    then show ?thesis
      using then_snapshot [where strict = strict, OF assms(1)]
      by (auto simp: keeps_consistent_def PutSegment_def assms(1) Let_def Inr db_try_def saved_def cast c split: sum.split)
  qed
qed

lemma consistent_DeleteSegment:
  assumes "ce_gorm env = G"
  shows "keeps_consistent strict rows db (DeleteSegment env flagID segmentID db)"
proof -
  obtain er db1 where c: "gorm_Delete G RootDB TSegment
      (\<lambda>r. row_ID r = SafeUint (ce_cast env) (VInt64 segmentID)) db = (er, db1)"
    by (cases "gorm_Delete G RootDB TSegment (\<lambda>r. row_ID r = SafeUint (ce_cast env) (VInt64 segmentID)) db")
  show ?thesis
    using Delete_segment_consistent [where strict = strict, OF c] then_snapshot [where strict = strict, OF assms]
    by (auto simp: keeps_consistent_def DeleteSegment_def assms db_exec_def c split: option.split)
qed

lemma reorder_loop_consistent:
  assumes "reorder_loop G (TxDB tx) i ids db = (er, db')" "consistent strict (core (rows db (TxDB tx)))"
  shows "consistent strict (core (rows db' (TxDB tx))) \<and> rows db' RootDB = rows db RootDB \<and> open_txs db' = open_txs db"
  using assms
proof (induction ids arbitrary: i db)
  case (Cons n ids)
  show ?case
  proof (cases "typed as_segment (gorm_First G (TxDB tx) TSegment False (uint_of_int64 n) db)")
    case (Inl e)
    then show ?thesis using Cons.prems by simp
  next
    case (Inr s)
    let ?s = "s\<lparr>Segment_Rank := of_nat i\<rparr>"
    obtain res db1 where c: "gorm_Save G (TxDB tx) False (RSegment ?s) db = (res, db1)"
      by (cases "gorm_Save G (TxDB tx) False (RSegment ?s) db")
    obtain x where x: "x \<in> set (rows db (TxDB tx) TSegment)" "as_segment (row_columns x) = Some s" "live x"
      using First_typed [OF Inr] by auto
    then have row: "\<exists>x \<in> set (rows db (TxDB tx) TSegment). row_ID x = segment_ID ?s \<and> (False \<or> live x)"
      by (auto dest!: as_columns)
    obtain s1 where "as_segment x = Some s1" "Segment_RolloutPercent s1 = Segment_RolloutPercent s"
      using x(2) by (cases x) auto
    then have "unat (Segment_RolloutPercent ?s) \<le> 100"
      using consistentD(5) [OF Cons.prems(2) [unfolded core_at], of s1] x
      by (auto simp: live_segments_def set_map_filter)
    note k = Save_segment_consistent [OF c this row Cons.prems(2)] tx_Save [OF c]
    show ?thesis
    proof (cases res)
      case (Inl e)
      then show ?thesis using Cons.prems k c Inr by (auto simp: db_try_def)
    next
      case r: (Inr r)
      then have "reorder_loop G (TxDB tx) (Suc i) ids db1 = (er, db')"
        using Cons.prems(1) c Inr by (simp add: db_try_def)
      from Cons.IH [OF this k(1)] k show ?thesis by simp
    qed
  qed
qed simp

text \<open>The end of a transaction.\<close>

lemma commit_consistent:
  assumes "gorm_Commit G tx db = (er, db')" "tx \<in> open_txs db"
    and "consistent strict (core (rows db (TxDB tx)))" "consistent strict (core (rows db RootDB))"
  shows "consistent strict (core (rows db' RootDB))"
  using assms Commit_ok [of tx db db'] Commit_error [of tx db _ db'] by (cases er) auto

lemma rollback_consistent:
  "consistent strict (core (rows db RootDB)) \<Longrightarrow> consistent strict (core (rows (gorm_Rollback G tx db) RootDB))"
  by (simp add: Rollback_ok)

lemma consistent_PutSegmentsReorder:
  assumes "ce_gorm env = G"
  shows "keeps_consistent strict rows db (PutSegmentsReorder env flagID body db)"
proof -
  obtain tx db1 where B: "gorm_Begin G db = (tx, db1)" by (cases "gorm_Begin G db")
  note b = Begin_ok [OF B]
  let ?ids = "case PSR_SegmentIDs body of None \<Rightarrow> [] | Some ids \<Rightarrow> ids"
  obtain er db2 where L: "reorder_loop G (TxDB tx) 0 ?ids db1 = (er, db2)"
    by (cases "reorder_loop G (TxDB tx) 0 ?ids db1")
  obtain cr db3 where C: "gorm_Commit G tx db2 = (cr, db3)" by (cases "gorm_Commit G tx db2")
  show ?thesis
    unfolding keeps_consistent_def
  proof
    assume c: "consistent strict (core (rows db RootDB))"
    then have l: "consistent strict (core (rows db2 (TxDB tx)))" "rows db2 RootDB = rows db RootDB" "tx \<in> open_txs db2"
      using reorder_loop_consistent [OF L] b by auto
    then have c3: "consistent strict (core (rows db3 RootDB))" using commit_consistent [OF C] c by simp
    show "consistent strict (core (rows (db_after (PutSegmentsReorder env flagID body db)) RootDB))"
      using l(2) c c3 then_snapshot [OF assms c3] rollback_consistent
      by (auto simp: PutSegmentsReorder_def assms Let_def B L C db_exec_def split: option.split)
  qed
qed

end

section \<open>Flags from the template\<close>

text \<open>A segment that is new gets a distribution of 100 percent, besides those that may have waited for it.\<close>

lemma add_full:
  assumes "consistent strict (drs, srs)" "waiting strict (dists_of drs i)" "i \<in> row_ID ` set srs"
    and "\<forall>r \<in> set drs'. row_kind r = TDistribution" "distinct (map row_ID drs')"
    and p: "\<And>s. percents (dists_of drs' s) = percents (dists_of drs s) @ (if i = s then [100] else [])"
  shows "consistent strict (drs', srs)"
proof (rule consistentI [OF assms(4,5)])
  fix s
  show "full strict (dists_of drs' s)"
  proof (cases "i = s")
    case True
    then show ?thesis using p [of s] assms(2) by (auto simp: full_def waiting_def)
  next
    case False
    then show ?thesis using p [of s] consistentD(3) [OF assms(1), of s] by (auto simp: full_def percents_def)
  qed
  show "waiting strict (dists_of drs' s)" if "s \<notin> row_ID ` set srs"
    using that p [of s] consistentD(4) [OF assms(1) that] assms(3) by (auto simp: waiting_def percents_def split: if_splits)
qed (rule consistentD(5) [OF assms(1)])

context gorm_laws
begin

lemma Create_distribution:
  assumes "gorm_Create G h (RDistribution d) db = (Inr r', db')"
    and "\<forall>r \<in> set (rows db h TDistribution). row_kind r = TDistribution"
    and "distinct (map row_ID (rows db h TDistribution))"
  shows "rows db' h TSegment = rows db h TSegment"
    and "\<forall>r \<in> set (rows db' h TDistribution). row_kind r = TDistribution"
    and "distinct (map row_ID (rows db' h TDistribution))"
    and "percents (dists_of (rows db' h TDistribution) s) = percents (dists_of (rows db h TDistribution) s) @
      (if Distribution_SegmentID d = s then [unat (Distribution_Percent d)] else [])"
  using assms Create_ok [OF assms(1)] by (auto simp: dists_of_Cons live_def)

lemma create_all_distributions:
  assumes "create_all G h (map RDistribution ds) db = (None, db')"
    and "\<forall>r \<in> set (rows db h TDistribution). row_kind r = TDistribution"
    and "distinct (map row_ID (rows db h TDistribution))"
  shows "rows db' h TSegment = rows db h TSegment \<and>
    (\<forall>r \<in> set (rows db' h TDistribution). row_kind r = TDistribution) \<and>
    distinct (map row_ID (rows db' h TDistribution)) \<and>
    (\<forall>s. percents (dists_of (rows db' h TDistribution) s) = percents (dists_of (rows db h TDistribution) s) @
      percents (filter (\<lambda>d. Distribution_SegmentID d = s) ds))"
  using assms
proof (induction ds arbitrary: db)
  case (Cons d ds)
  then obtain r1 db1 where c: "gorm_Create G h (RDistribution d) db = (Inr r1, db1)"
    and rest: "create_all G h (map RDistribution ds) db1 = (None, db')"
    by (auto split: prod.splits sum.splits)
  note k = Create_distribution [OF c Cons.prems(2,3)]
  from Cons.IH [OF rest k(2,3)] k(1,4) show ?case by simp
qed simp

lemma create_all_tx:
  assumes "create_all G (TxDB tx) rs db = (er, db')"
  shows "rows db' RootDB = rows db RootDB \<and> open_txs db' = open_txs db"
  using assms
proof (induction rs arbitrary: db)
  case (Cons r rs)
  obtain res db1 where c: "gorm_Create G (TxDB tx) r db = (res, db1)" by (cases "gorm_Create G (TxDB tx) r db")
  show ?case using Cons.prems Cons.IH [of db1] tx_Create [OF c] c by (auto split: sum.splits)
qed simp

lemma db_try_saved:
  "as r = Some a \<Longrightarrow> db_try (saved as (Inr r, db)) F K = K a db"
  "db_try (saved as (Inl e, db)) F K = F e db"
  by (simp_all add: db_try_def saved_def typed_def)

lemma zero_segment_distributions: "Segment_Distributions zero_segment = []"
  by (simp add: zero_segment_def)

lemma template_consistent:
  assumes "LoadSimpleBooleanFlagTemplate G (TxDB tx) f db = (res, db')" "consistent strict (core (rows db (TxDB tx)))"
  shows "rows db' RootDB = rows db RootDB \<and> open_txs db' = open_txs db \<and>
    (\<forall>f'. res = Inr f' \<longrightarrow> consistent strict (core (rows db' (TxDB tx))) \<and> flag_ID f' = flag_ID f)"
proof -
  let ?h = "TxDB tx"
  let ?s = "zero_segment\<lparr>Segment_FlagID := flag_ID f, Segment_RolloutPercent := 100, Segment_Rank := SegmentDefaultRank\<rparr>"
  let ?v = "zero_variant\<lparr>Variant_FlagID := flag_ID f, Variant_Key := ''on''\<rparr>"
  obtain r1 db1 where c1: "gorm_Create G ?h (RSegment ?s) db = (r1, db1)" by (cases "gorm_Create G ?h (RSegment ?s) db")
  have k1: "consistent strict (core (rows db1 ?h))" by (rule Create_segment_consistent [OF c1 _ assms(2)]) simp
  show ?thesis
  proof (cases r1)
    case (Inl e)
    then show ?thesis using assms(1) c1 tx_Create [OF c1]
      by (auto simp: LoadSimpleBooleanFlagTemplate_def db_try_saved)
  next
    case r1: (Inr x1)
    from Create_ok [OF c1 [unfolded r1]] obtain m where m: "x1 = RSegment (?s\<lparr>Segment_Model := m\<rparr>)"
      "\<forall>x \<in> set (rows db ?h TSegment). row_ID x \<noteq> Model_ID m"
      "rows db1 ?h = (rows db ?h)(TSegment := rows db ?h TSegment @ [row_columns x1])" by auto
    have new: "waiting strict (dists_of (rows db1 ?h TDistribution) (Model_ID m))"
      using consistentD(4) [OF assms(2) [unfolded core_at], of "Model_ID m"] m(2,3) by force
    obtain r2 db2 where c2: "gorm_Create G ?h (RVariant ?v) db1 = (r2, db2)"
      by (cases "gorm_Create G ?h (RVariant ?v) db1")
    have k2: "core (rows db2 ?h) = core (rows db1 ?h)" by (rule core_Create [OF c2]) simp
    show ?thesis
    proof (cases r2)
      case (Inl e)
      then show ?thesis using assms(1) c1 c2 r1 m(1) tx_Create [OF c1] tx_Create [OF c2]
        by (auto simp: LoadSimpleBooleanFlagTemplate_def db_try_saved)
    next
      case r2: (Inr x2)
      from Create_ok [OF c2 [unfolded r2]] obtain m2 where m2: "x2 = RVariant (?v\<lparr>Variant_Model := m2\<rparr>)" by auto
      let ?d = "zero_distribution\<lparr>Distribution_SegmentID := Model_ID m, Distribution_VariantID := Model_ID m2,
        Distribution_VariantKey := ''on'', Distribution_Percent := 100\<rparr>"
      obtain r3 db3 where c3: "gorm_Create G ?h (RDistribution ?d) db2 = (r3, db3)"
        by (cases "gorm_Create G ?h (RDistribution ?d) db2")
      have run: "LoadSimpleBooleanFlagTemplate G ?h f db = db_try (saved as_distribution (r3, db3))
          (\<lambda>e db3. (Inl e, db3)) (\<lambda>d db3. (Inr (f\<lparr>Flag_Variants := Flag_Variants f @ [?v\<lparr>Variant_Model := m2\<rparr>],
               Flag_Segments := Flag_Segments f @ [?s\<lparr>Segment_Model := m,
                 Segment_Distributions := [d]\<rparr>]\<rparr>), db3))"
        by (simp add: LoadSimpleBooleanFlagTemplate_def db_try_saved zero_segment_distributions c1 r1 m(1) c2 r2 m2 c3)
      note frame = tx_Create [OF c1] tx_Create [OF c2] tx_Create [OF c3]
      show ?thesis
      proof (cases r3)
        case (Inl e)
        then show ?thesis using assms(1) run frame by (auto simp: db_try_saved)
      next
        case r3: (Inr x3)
        have k2': "consistent strict (rows db2 ?h TDistribution, rows db2 ?h TSegment)"
          using k1 k2 by (simp add: core_at)
        note k3 = Create_distribution [OF c3 [unfolded r3] consistentD(1,2) [OF k2']]
        have old: "rows db2 ?h TSegment = rows db1 ?h TSegment" "waiting strict (dists_of (rows db2 ?h TDistribution) (Model_ID m))"
          using k2 new by (simp_all add: core_def)
        have "consistent strict (rows db3 ?h TDistribution, rows db2 ?h TSegment)"
          by (rule add_full [OF k2' old(2) _ k3(2,3)]) (use k3(4) old(1) m(1,3) in auto)
        then have "consistent strict (rows db3 ?h TDistribution, rows db3 ?h TSegment)" using k3(1) by simp
        then show ?thesis using assms(1) run frame r3
          by (auto simp: core_at db_try_def saved_def typed_def sum_bind_def split: sum.splits option.splits)
      qed
    qed
  qed
qed

lemma commit_flag_consistent:
  assumes "ce_gorm env = G" "consistent strict (core (rows db (TxDB tx)))" "consistent strict (core (rows db RootDB))"
    and "tx \<in> open_txs db"
  shows "consistent strict (core (rows (db_after (db_exec (gorm_Commit G tx db)
    (\<lambda>e db4. reject 500 e (gorm_Rollback G tx db4)) (\<lambda>db4. accept_snapshot env i payload db4))) RootDB))"
proof -
  obtain er db4 where C: "gorm_Commit G tx db = (er, db4)" by (cases "gorm_Commit G tx db")
  have c4: "consistent strict (core (rows db4 RootDB))" by (rule commit_consistent [OF C assms(4,2,3)])
  show ?thesis
    by (simp add: db_exec_def C then_snapshot [OF assms(1) c4] rollback_consistent [OF c4] split: option.split)
qed

lemma consistent_CreateFlag:
  assumes "ce_gorm env = G"
  shows "keeps_consistent strict rows db (CreateFlag env body db)"
proof -
  obtain tx db1 where B: "gorm_Begin G db = (tx, db1)" by (cases "gorm_Begin G db")
  note b = Begin_ok [OF B]
  have "consistent strict (core (rows (db_after (CreateFlag env body db)) RootDB))" if c: "consistent strict (core (rows db RootDB))"
  proof -
    have flag: "rows db2 RootDB = rows db RootDB \<and> tx \<in> open_txs db2 \<and> consistent strict (core (rows db2 (TxDB tx)))"
      if "gorm_Create G (TxDB tx) (RFlag f0) db1 = (res, db2)" for f0 res db2
      using tx_Create [OF that] core_Create [OF that] b c by simp
    have tmpl: "rows db3 RootDB = rows db RootDB \<and> tx \<in> open_txs db3 \<and>
        (\<forall>f'. res' = Inr f' \<longrightarrow> consistent strict (core (rows db3 (TxDB tx))))"
      if "gorm_Create G (TxDB tx) (RFlag f0) db1 = (res, db2)"
        "LoadSimpleBooleanFlagTemplate G (TxDB tx) f db2 = (res', db3)" for f0 res db2 f res' db3
      using template_consistent [where strict = strict, OF that(2)] flag [OF that(1)] by simp
    have commit: "consistent strict (core (rows (db_after (db_exec (gorm_Commit G tx db3)
        (\<lambda>e db4. reject 500 e (gorm_Rollback G tx db4)) (\<lambda>db4. accept_snapshot env i payload db4))) RootDB))"
      if "rows db3 RootDB = rows db RootDB \<and> tx \<in> open_txs db3 \<and> consistent strict (core (rows db3 (TxDB tx)))"
      for db3 i and payload :: m_flag
      using that c by (intro commit_flag_consistent [OF assms]) auto
    have body: "consistent strict (core (rows (db_after (case body of None \<Rightarrow> panicked NilDeref db2
        | Some b \<Rightarrow>
            if CFR_Template b = ''simple_boolean_flag'' then
              db_try (LoadSimpleBooleanFlagTemplate G (TxDB tx) f db2)
                (\<lambda>e db3. reject 500 (''cannot create flag. '' @ e) (gorm_Rollback G tx db3))
                (\<lambda>f db3. db_exec (gorm_Commit G tx db3) (\<lambda>e db4. reject 500 e (gorm_Rollback G tx db4))
                  (\<lambda>db4. accept_snapshot env (flag_ID f) (MapFlag f) db4))
            else if CFR_Template b \<noteq> [] then reject 400 (''unknown value for template: '' @ CFR_Template b) db2
            else db_exec (gorm_Commit G tx db2) (\<lambda>e db4. reject 500 e (gorm_Rollback G tx db4))
                  (\<lambda>db4. accept_snapshot env (flag_ID f) (MapFlag f) db4))) RootDB))"
      if cr: "gorm_Create G (TxDB tx) (RFlag f0) db1 = (res, db2)" for f0 res db2 f
    proof (cases "LoadSimpleBooleanFlagTemplate G (TxDB tx) f db2")
      case (Pair res' db3)
      then show ?thesis
        using flag [OF cr] tmpl [OF cr Pair] commit c rollback_consistent [of strict db3 tx]
        by (cases res'; cases body) (auto simp: db_try_def)
    qed
    have create: "consistent strict (core (rows (db_after (db_try (saved as_flag (gorm_Create G (TxDB tx) (RFlag f0) db1))
        (\<lambda>e db2. reject 500 (''cannot create flag. '' @ e) (gorm_Rollback G tx db2)) K)) RootDB))"
      if "\<And>res db2 f. gorm_Create G (TxDB tx) (RFlag f0) db1 = (res, db2) \<Longrightarrow>
        consistent strict (core (rows (db_after (K f db2)) RootDB))" for f0 and K :: "'e flag \<Rightarrow> 'db \<Rightarrow> (m_flag, 'db) reply"
    proof (cases "gorm_Create G (TxDB tx) (RFlag f0) db1")
      case (Pair res db2)
      then show ?thesis using that [OF Pair] flag [OF Pair] c rollback_consistent [of strict db2 tx]
        by (auto simp: db_try_def saved_def split: sum.split)
    qed
    show ?thesis
      unfolding CreateFlag_def Let_def assms B prod.case
      using create [OF body] c by (auto split: option.split sum.split)
  qed
  then show ?thesis by (simp add: keeps_consistent_def)
qed

end

section \<open>Distributions\<close>

lemma validatePutDistributions_sum:
  assumes "validatePutDistributions env flagID body db = Inr None"
  shows "percent_sum (body_distributions body) 0 = Inr (Inr 100)"
proof (cases "percent_sum (body_distributions body) 0")
  case (Inl p)
  then show ?thesis using assms by (simp add: validatePutDistributions_def Let_def)
next
  case (Inr r)
  then show ?thesis using assms
    by (cases r; simp add: validatePutDistributions_def Let_def split: if_splits)
qed

lemma body_valid:
  assumes "PutDistributionsRequest_Validate body = []"
  shows "\<forall>m. Some m \<in> set (body_distributions body) \<longrightarrow> valid_distribution m"
  using assms m_distribution_valid by (auto simp: PutDistributions_valid body_distributions_def)

lemma replace_distributions:
  assumes "consistent strict (drs, srs)" "strict \<longrightarrow> i \<in> row_ID ` set srs" "sum_list (percents es) = 100"
    and "\<forall>e \<in> set es. Distribution_SegmentID e = i"
    and "\<forall>r \<in> set drs'. row_kind r = TDistribution" "distinct (map row_ID drs')"
    and p: "\<And>s. percents (dists_of drs' s) = percents (if s = i then [] else dists_of drs s) @
      percents (filter (\<lambda>d. Distribution_SegmentID d = s) es)"
  shows "consistent strict (drs', srs)"
proof -
  have at: "percents (dists_of drs' s) = (if s = i then percents es else percents (dists_of drs s))" for s
  proof (cases "s = i")
    case True
    then have "filter (\<lambda>d. Distribution_SegmentID d = s) es = es" using assms(4) by simp
    then show ?thesis using p [of s] True by simp
  next
    case False
    then have "filter (\<lambda>d. Distribution_SegmentID d = s) es = []" using assms(4) by (auto simp: filter_empty_conv)
    then show ?thesis using p [of s] False by simp
  qed
  have empty: "dists_of drs' s = [] \<longleftrightarrow> percents (dists_of drs' s) = []" "dists_of drs s = [] \<longleftrightarrow> percents (dists_of drs s) = []" for s
    by (simp_all add: percents_def)
  show ?thesis
  proof (rule consistentI [OF assms(5,6)])
    show "full strict (dists_of drs' s)" for s
      using at [of s] assms(3) consistentD(3) [OF assms(1), of s] by (auto simp: full_def empty)
    show "waiting strict (dists_of drs' s)" if s: "s \<notin> row_ID ` set srs" for s
      using at [of s] assms(2,3) consistentD(4) [OF assms(1) s] s by (auto simp: waiting_def empty split: if_splits)
  qed (rule consistentD(5) [OF assms(1)])
qed

context gorm_laws
begin

text \<open>What the transaction of \<^verbatim>\<open>PutDistributions\<close> sees before it commits.\<close>

lemma replaced_in_tx:
  assumes D: "gorm_Delete G h TDistribution (row_where as_distribution (\<lambda>d. Distribution_SegmentID d = i)) db1 = (None, db2)"
    and A: "create_all G h (map RDistribution es) db2 = (None, db3)"
    and c: "consistent strict (core (rows db1 h))"
  shows "rows db3 h TSegment = rows db1 h TSegment"
    "\<forall>r \<in> set (rows db3 h TDistribution). row_kind r = TDistribution"
    "distinct (map row_ID (rows db3 h TDistribution))"
    "percents (dists_of (rows db3 h TDistribution) s) =
      percents (if s = i then [] else dists_of (rows db1 h TDistribution) s) @
      percents (filter (\<lambda>d. Distribution_SegmentID d = s) es)"
proof -
  obtain t where d: "rows db2 h = (rows db1 h)(TDistribution :=
      delete_rows t (row_where as_distribution (\<lambda>d. Distribution_SegmentID d = i)) (rows db1 h TDistribution))"
    using Delete_rows [OF D] by blast
  have k: "\<forall>r \<in> set (rows db2 h TDistribution). row_kind r = TDistribution"
    "distinct (map row_ID (rows db2 h TDistribution))"
    using delete_rows_kinds consistentD(1,2) [OF c [unfolded core_at]] by (simp_all add: d)
  note a = create_all_distributions [OF A k]
  show "rows db3 h TSegment = rows db1 h TSegment"
    "\<forall>r \<in> set (rows db3 h TDistribution). row_kind r = TDistribution"
    "distinct (map row_ID (rows db3 h TDistribution))"
    using a d by simp_all
  have "dists_of (rows db2 h TDistribution) s = (if s = i then [] else dists_of (rows db1 h TDistribution) s)"
    by (simp add: d dists_of_delete_segment)
  then show "percents (dists_of (rows db3 h TDistribution) s) =
      percents (if s = i then [] else dists_of (rows db1 h TDistribution) s) @
      percents (filter (\<lambda>d. Distribution_SegmentID d = s) es)"
    using a by simp
qed

lemma consistent_PutDistributions:
  assumes "ce_gorm env = G" "PutDistributionsRequest_Validate body = []"
    and "length (body_distributions body) < 2 ^ 45"
    and "strict \<longrightarrow> uint_of_int64 segmentID \<in> row_ID ` set (rows db RootDB TSegment)"
  shows "keeps_consistent strict rows db (PutDistributions env flagID segmentID body db)"
proof (cases "validatePutDistributions env flagID body db = Inr None")
  case True
  let ?i = "uint_of_int64 segmentID"
  let ?P = "row_where as_distribution (\<lambda>d. Distribution_SegmentID d = ?i)"
  obtain tx db1 where B: "gorm_Begin G db = (tx, db1)" by (cases "gorm_Begin G db")
  note b = Begin_ok [OF B]
  obtain er db2 where D: "gorm_Delete G (TxDB tx) TDistribution ?P db1 = (er, db2)"
    by (cases "gorm_Delete G (TxDB tx) TDistribution ?P db1")
  note d = tx_Delete [OF D]
  have "consistent strict (core (rows (db_after (PutDistributions env flagID segmentID body db)) RootDB))"
    if c: "consistent strict (core (rows db RootDB))"
  proof (cases er)
    case (Some e)
    then show ?thesis using rollback_consistent [of strict db2 tx] c b d
      by (simp add: PutDistributions_def True assms(1) Let_def B D db_exec_def)
  next
    case er: None
    show ?thesis
    proof (cases "r2e_MapDistributions (ce_cast env) (body_distributions body) ?i")
      case (Inl p)
      then show ?thesis using c b d er by (simp add: PutDistributions_def True assms(1) Let_def B D db_exec_def)
    next
      case (Inr es)
      obtain cr db3 where A: "create_all G (TxDB tx) (map RDistribution es) db2 = (cr, db3)"
        by (cases "create_all G (TxDB tx) (map RDistribution es) db2")
      note a = create_all_tx [OF A]
      show ?thesis
      proof (cases cr)
        case (Some e)
        then show ?thesis using rollback_consistent [of strict db3 tx] c b d a er Inr
          by (simp add: PutDistributions_def True assms(1) Let_def B D A db_exec_def)
      next
        case cr: None
        have c1: "consistent strict (core (rows db1 (TxDB tx)))" using b c by simp
        note r = replaced_in_tx [OF D [unfolded er] A [unfolded cr] c1]
        have "sum_list (percents es) = 100"
          by (rule mapped_sound [OF validatePutDistributions_sum [OF True] body_valid [OF assms(2)] assms(3) Inr])
        with r(4) have "consistent strict (rows db3 (TxDB tx) TDistribution, rows db1 (TxDB tx) TSegment)"
          using replace_distributions [OF c1 [unfolded core_at] _ _ mapped_percents(2) [OF Inr] r(2,3)] assms(4) b
          by simp
        then have "consistent strict (core (rows db3 (TxDB tx)))" using r(1) by (simp add: core_at)
        then show ?thesis
          using commit_flag_consistent [OF assms(1), of strict db3 tx] c b d a er cr Inr
          by (simp add: PutDistributions_def True assms(1) Let_def B D A db_exec_def)
      qed
    qed
  qed
  then show ?thesis by (simp add: keeps_consistent_def)
next
  case False
  then show ?thesis by (auto simp: PutDistributions_def split: sum.split option.split)
qed

end

section \<open>Variants\<close>

text \<open>The distributions of a preloaded flag are live rows.\<close>

context gorm_laws
begin

lemma Preload_distributions:
  assumes "PreloadConstraintsDistribution G h db s = Inr s'" "d \<in> set (Segment_Distributions s')"
  shows "RDistribution d \<in> set (rows db h TDistribution)"
proof -
  obtain rs where rs: "gorm_Find G h TDistribution (row_where as_distribution (\<lambda>d. Distribution_SegmentID d = segment_ID s))
      (by_columns (\<lambda>d. [uint (Distribution_VariantID d)]) as_distribution) db = Inr rs"
    "Segment_Distributions s' = List.map_filter as_distribution rs"
    using assms(1) by (auto simp: PreloadConstraintsDistribution_def sum_bind_eq_Inr_iff typed_list_Inr_iff)
  then obtain x where x: "x \<in> set rs" "as_distribution x = Some d" using assms(2) by (auto simp: set_map_filter)
  then have "x \<in> set (rows db h TDistribution)"
    using mset_eq_setD [OF Find_ok [OF rs(1)]] by auto
  moreover have "x = RDistribution d" using x(2) by (cases x) auto
  ultimately show ?thesis by simp
qed

lemma Flag_Preload_distributions:
  assumes "Flag_Segments f0 = []" "s \<in> set (Flag_Segments (Flag_Preload G h db f0))" "d \<in> set (Segment_Distributions s)"
  shows "RDistribution d \<in> set (rows db h TDistribution)"
proof (cases "First_Flag_preloaded G h (flag_ID f0) db")
  case (Inl e)
  then show ?thesis using assms by (simp add: Flag_Preload_def)
next
  case (Inr f)
  then obtain ss ss' where "sum_mapM (PreloadConstraintsDistribution G h db) ss = Inr ss'" "Flag_Segments f = ss'"
    by (auto simp: First_Flag_preloaded_def PreloadSegmentsVariantsTags_def PreloadFlagTags_def sum_bind_eq_Inr_iff)
  then obtain s0 where "PreloadConstraintsDistribution G h db s0 = Inr s"
    using assms(2) Inr list_all2_in_right [of _ ss ss' s] by (auto simp: sum_mapM_Inr_iff Flag_Preload_def)
  then show ?thesis using Preload_distributions assms(3) by blast
qed

lemma delete_zero_consistent:
  assumes "delete_zero_distributions G vID n ds db = (er, db')" "consistent strict (core (rows db RootDB))"
    and "\<forall>d \<in> set ds. \<forall>x \<in> set (rows db RootDB TDistribution). live x \<and> row_ID x = distribution_ID d \<longrightarrow> x = RDistribution d"
  shows "consistent strict (core (rows db' RootDB))"
  using assms
proof (induction ds arbitrary: db)
  case (Cons d ds)
  show ?case
  proof (cases "Distribution_VariantID d = vID \<and> Distribution_Percent d = 0")
    case False
    then show ?thesis using Cons by (auto split: if_splits)
  next
    case True
    let ?P = "\<lambda>r. row_ID r = distribution_ID d"
    obtain de db1 where D: "gorm_Delete G RootDB TDistribution ?P db = (de, db1)"
      by (cases "gorm_Delete G RootDB TDistribution ?P db")
    have c1: "consistent strict (core (rows db1 RootDB))"
      by (rule Delete_zero_consistent [OF D _ Cons.prems(2)]) (use Cons.prems(3) True in auto)
    show ?thesis
    proof (cases de)
      case (Some e)
      then show ?thesis using Cons.prems(1) c1 True D by (auto simp: db_exec_def)
    next
      case None
      obtain t where t: "rows db1 RootDB TDistribution = delete_rows t ?P (rows db RootDB TDistribution)"
        using Delete_rows [OF D [unfolded None]] by (metis fun_upd_same)
      have "x \<in> set (rows db RootDB TDistribution)" if "x \<in> set (rows db1 RootDB TDistribution)" "live x" for x
        using that by (auto simp: t delete_rows_def split: if_splits)
      then have "\<forall>d \<in> set ds. \<forall>x \<in> set (rows db1 RootDB TDistribution).
          live x \<and> row_ID x = distribution_ID d \<longrightarrow> x = RDistribution d"
        using Cons.prems(3) by simp
      moreover have "delete_zero_distributions G vID n ds db1 = (er, db')"
        using Cons.prems(1) True D None by (simp add: db_exec_def)
      ultimately show ?thesis using Cons.IH c1 by blast
    qed
  qed
qed simp

lemma validateDeleteVariant_consistent:
  assumes "ce_gorm env = G" "validateDeleteVariant env flagID variantID db = (er, db')"
    and c: "consistent strict (core (rows db RootDB))"
  shows "consistent strict (core (rows db' RootDB))"
proof (cases "First_Flag G RootDB (uint_of_int64 flagID) db")
  case (Inl e)
  then show ?thesis using assms by (simp add: validateDeleteVariant_def)
next
  case (Inr f0)
  then have f0: "Flag_Segments f0 = []"
    using First_typed [OF Inr [unfolded First_Flag_def]] by (auto dest!: as_columns)
  let ?ds = "concat (map Segment_Distributions (Flag_Segments (Flag_Preload G RootDB db f0)))"
  have "x = RDistribution d"
    if "d \<in> set ?ds" "x \<in> set (rows db RootDB TDistribution)" "row_ID x = distribution_ID d" for d x
  proof -
    have "RDistribution d \<in> set (rows db RootDB TDistribution)"
      using that(1) Flag_Preload_distributions [OF f0] by auto
    then show ?thesis
      using that(2,3) consistentD(2) [OF c [unfolded core_at]]
      by (auto simp: distinct_map dest!: inj_onD [of row_ID _ x "RDistribution d"])
  qed
  then show ?thesis
    using assms(1,2) Inr by (auto simp: validateDeleteVariant_def Let_def intro!: delete_zero_consistent [OF _ c])
qed

lemma consistent_DeleteVariant:
  assumes "ce_gorm env = G"
  shows "keeps_consistent strict rows db (DeleteVariant env flagID variantID db)"
proof -
  obtain er db1 where V: "validateDeleteVariant env flagID variantID db = (er, db1)"
    by (cases "validateDeleteVariant env flagID variantID db")
  note v = validateDeleteVariant_consistent [where strict = strict, OF assms V]
  obtain de db2 where D: "gorm_Delete G RootDB TVariant (\<lambda>r. row_ID r = uint_of_int64 variantID) db1 = (de, db2)"
    by (cases "gorm_Delete G RootDB TVariant (\<lambda>r. row_ID r = uint_of_int64 variantID) db1")
  have "core (rows db2 RootDB) = core (rows db1 RootDB)" by (rule core_Delete [OF D]) simp
  then show ?thesis
    using v by (auto simp: keeps_consistent_def DeleteVariant_def V D assms db_exec_def split: option.split
        intro!: then_snapshot [where strict = strict, OF assms])
qed

lemma consistent_PutVariant:
  assumes "ce_gorm env = G"
  shows "keeps_consistent strict rows db (PutVariant env flagID variantID body db)"
proof (cases "typed as_variant (gorm_First G RootDB TVariant False (uint_of_int64 variantID) db)")
  case (Inl e)
  then show ?thesis by (simp add: PutVariant_def assms)
next
  case (Inr v0)
  have row: "\<exists>x \<in> set (rows db RootDB TVariant). row_ID x = variant_ID v0 \<and> live x"
    using First_typed [OF Inr] by (auto dest!: as_columns)
  have save: "consistent strict (core (rows (db_after (db_try (saved as_variant (gorm_Save G RootDB False (RVariant v2) db))
      (\<lambda>e db1. reject 500 e db1)
      (\<lambda>v db1. case validatePutVariantForDistributions G v db1 of
         (Some e, db2) \<Rightarrow> reject (Error_StatusCode e) (Error_Error e) db2
       | (None, db2) \<Rightarrow> accept_snapshot env i (MapVariant v) db2))) RootDB))"
    if c: "consistent strict (core (rows db RootDB))" and v2: "variant_ID v2 = variant_ID v0" for v2 i
  proof -
    obtain res db1 where S: "gorm_Save G RootDB False (RVariant v2) db = (res, db1)"
      by (cases "gorm_Save G RootDB False (RVariant v2) db")
    have "core (rows db1 RootDB) = core (rows db RootDB)" by (rule core_Save [OF S]) (use row v2 in auto)
    with c have c1: "consistent strict (core (rows db1 RootDB))" by simp
    have "consistent strict (core (rows db2 RootDB))" if "validatePutVariantForDistributions G v db1 = (er, db2)" for v er db2
      using that Updates_key_consistent [OF _ c1]
      by (auto simp: validatePutVariantForDistributions_def db_exec_def split: prod.splits option.splits)
    then show ?thesis
      using c1 by (auto simp: db_try_def saved_def S split: sum.split prod.split option.split
          intro!: then_snapshot [where strict = strict, OF assms])
  qed
  then show ?thesis
    by (auto simp: keeps_consistent_def PutVariant_def Let_def assms Inr sum_bind_def split: sum.split)
qed

end

end
