(* ===== verification/Flagr_Config.thy ===== *)
theory Flagr_Config
  imports Flagr_Util
begin

text \<open>
  \<^verbatim>\<open>pkg/config/env.go\<close> and \<^verbatim>\<open>pkg/config/config.go\<close>: the configuration, one record per
  group of settings with the field names of the Go struct, its defaults, and the part of the
  start-up that derives settings from settings. Durations are integers of nanoseconds; the parsing
  of environment variables is a library's.
\<close>

section \<open>The configuration\<close>

abbreviation second :: int where
  "second \<equiv> 1000000000"

abbreviation millisecond :: int where
  "millisecond \<equiv> 1000000"

record server_config =
  Host :: string
  Port :: int
  LogrusLevel :: string
  LogrusFormat :: string
  PProfEnabled :: bool
  MiddlewareVerboseLoggerEnabled :: bool
  MiddlewareVerboseLoggerExcludeURLs :: "string list"
  MiddlewareGzipEnabled :: bool
  RateLimiterPerFlagPerSecondConsoleLogging :: int

record eval_config =
  EvalDebugEnabled :: bool
  EvalLoggingEnabled :: bool
  EvalCacheRefreshTimeout :: int
  EvalCacheRefreshInterval :: int
  EvalOnlyMode :: bool
  EvalBatchSize :: int

record db_config =
  DBDriver :: string
  DBConnectionStr :: string
  DBConnectionDebug :: bool
  DBConnectionRetryAttempts :: nat
  DBConnectionRetryDelay :: int

record cors_config =
  CORSEnabled :: bool
  CORSAllowCredentials :: bool
  CORSAllowedHeaders :: "string list"
  CORSAllowedMethods :: "string list"
  CORSAllowedOrigins :: "string list"
  CORSExposedHeaders :: "string list"
  CORSMaxAge :: int

record monitor_config =
  SentryEnabled :: bool
  SentryDSN :: string
  SentryEnvironment :: string
  NewRelicEnabled :: bool
  NewRelicDistributedTracingEnabled :: bool
  NewRelicAppName :: string
  NewRelicKey :: string
  StatsdEnabled :: bool
  StatsdHost :: string
  StatsdPort :: string
  StatsdPrefix :: string
  StatsdAPMEnabled :: bool
  StatsdAPMPort :: string
  StatsdAPMServiceName :: string
  PrometheusEnabled :: bool
  PrometheusPath :: string
  PrometheusIncludeLatencyHistogram :: bool

record recorder_config =
  RecorderEnabled :: bool
  RecorderType :: string
  RecorderFrameOutputMode :: string

record kafka_config =
  RecorderKafkaVersion :: string
  RecorderKafkaBrokers :: string
  RecorderKafkaCompressionCodec :: int
  RecorderKafkaCertFile :: string
  RecorderKafkaKeyFile :: string
  RecorderKafkaCAFile :: string
  RecorderKafkaVerifySSL :: bool
  RecorderKafkaSimpleSSL :: bool
  RecorderKafkaSASLUsername :: string
  RecorderKafkaSASLPassword :: string
  RecorderKafkaVerbose :: bool
  RecorderKafkaTopic :: string
  RecorderKafkaPartitionKeyEnabled :: bool
  RecorderKafkaRetryMax :: int
  RecorderKafkaMaxOpenReqs :: int
  RecorderKafkaRequiredAcks :: int
  RecorderKafkaIdempotent :: bool
  RecorderKafkaFlushFrequency :: int
  RecorderKafkaEncrypted :: bool
  RecorderKafkaEncryptionKey :: string

record kinesis_config =
  RecorderKinesisStreamName :: string
  RecorderKinesisBacklogCount :: int
  RecorderKinesisMaxConnections :: int
  RecorderKinesisFlushInterval :: int
  RecorderKinesisBatchCount :: int
  RecorderKinesisBatchSize :: int
  RecorderKinesisAggregateBatchCount :: int
  RecorderKinesisAggregateBatchSize :: int
  RecorderKinesisVerbose :: bool

record pubsub_config =
  RecorderPubsubProjectID :: string
  RecorderPubsubTopicName :: string
  RecorderPubsubKeyFile :: string
  RecorderPubsubVerbose :: bool
  RecorderPubsubVerboseCancelTimeout :: int

record jwt_config =
  JWTAuthEnabled :: bool
  JWTAuthDebug :: bool
  JWTAuthPrefixWhitelistPaths :: "string list"
  JWTAuthExactWhitelistPaths :: "string list"
  JWTAuthCookieTokenName :: string
  JWTAuthSecret :: string
  JWTAuthNoTokenStatusCode :: int
  JWTAuthNoTokenRedirectURL :: string
  JWTAuthUserProperty :: string
  JWTAuthUserClaim :: string
  JWTAuthSigningMethod :: string

record user_config =
  HeaderAuthEnabled :: bool
  HeaderAuthUserField :: string
  CookieAuthEnabled :: bool
  CookieAuthUserField :: string

record basic_config =
  CookieAuthUserFieldJWTClaim :: string
  BasicAuthEnabled :: bool
  BasicAuthUsername :: string
  BasicAuthPassword :: string
  BasicAuthPrefixWhitelistPaths :: "string list"

record web_config =
  BasicAuthExactWhitelistPaths :: "string list"
  WebPrefix :: string

record config =
  the_server :: server_config
  the_eval :: eval_config
  the_db :: db_config
  the_cors :: cors_config
  the_monitor :: monitor_config
  the_recorder :: recorder_config
  the_kafka :: kafka_config
  the_kinesis :: kinesis_config
  the_pubsub :: pubsub_config
  the_jwt :: jwt_config
  the_user :: user_config
  the_basic :: basic_config
  the_web :: web_config

section \<open>The defaults\<close>

definition default_server_config :: server_config where
  "default_server_config =
     \<lparr>Host = ''localhost'',
      Port = 18000,
      LogrusLevel = ''info'',
      LogrusFormat = ''text'',
      PProfEnabled = True,
      MiddlewareVerboseLoggerEnabled = True,
      MiddlewareVerboseLoggerExcludeURLs = [],
      MiddlewareGzipEnabled = True,
      RateLimiterPerFlagPerSecondConsoleLogging = 100\<rparr>"

definition default_eval_config :: eval_config where
  "default_eval_config =
     \<lparr>EvalDebugEnabled = True,
      EvalLoggingEnabled = True,
      EvalCacheRefreshTimeout = 59 * second,
      EvalCacheRefreshInterval = 3 * second,
      EvalOnlyMode = False,
      EvalBatchSize = 0\<rparr>"

definition default_db_config :: db_config where
  "default_db_config =
     \<lparr>DBDriver = ''sqlite3'',
      DBConnectionStr = ''flagr.sqlite'',
      DBConnectionDebug = True,
      DBConnectionRetryAttempts = 9,
      DBConnectionRetryDelay = 100 * millisecond\<rparr>"

definition default_cors_config :: cors_config where
  "default_cors_config =
     \<lparr>CORSEnabled = True,
      CORSAllowCredentials = True,
      CORSAllowedHeaders = [''Origin'', ''Accept'', ''Content-Type'', ''X-Requested-With'', ''Authorization'', ''Time_Zone''],
      CORSAllowedMethods = [''GET'', ''POST'', ''PUT'', ''DELETE'', ''PATCH''],
      CORSAllowedOrigins = [''*''],
      CORSExposedHeaders = [''WWW-Authenticate''],
      CORSMaxAge = 600\<rparr>"

definition default_monitor_config :: monitor_config where
  "default_monitor_config =
     \<lparr>SentryEnabled = False,
      SentryDSN = [],
      SentryEnvironment = [],
      NewRelicEnabled = False,
      NewRelicDistributedTracingEnabled = False,
      NewRelicAppName = ''flagr'',
      NewRelicKey = [],
      StatsdEnabled = False,
      StatsdHost = ''127.0.0.1'',
      StatsdPort = ''8125'',
      StatsdPrefix = ''flagr.'',
      StatsdAPMEnabled = False,
      StatsdAPMPort = ''8126'',
      StatsdAPMServiceName = ''flagr'',
      PrometheusEnabled = False,
      PrometheusPath = ''/metrics'',
      PrometheusIncludeLatencyHistogram = False\<rparr>"

definition default_recorder_config :: recorder_config where
  "default_recorder_config =
     \<lparr>RecorderEnabled = False,
      RecorderType = ''kafka'',
      RecorderFrameOutputMode = ''payload_string''\<rparr>"

definition default_kafka_config :: kafka_config where
  "default_kafka_config =
     \<lparr>RecorderKafkaVersion = ''0.8.2.0'',
      RecorderKafkaBrokers = '':9092'',
      RecorderKafkaCompressionCodec = 0,
      RecorderKafkaCertFile = [],
      RecorderKafkaKeyFile = [],
      RecorderKafkaCAFile = [],
      RecorderKafkaVerifySSL = False,
      RecorderKafkaSimpleSSL = False,
      RecorderKafkaSASLUsername = [],
      RecorderKafkaSASLPassword = [],
      RecorderKafkaVerbose = True,
      RecorderKafkaTopic = ''flagr-records'',
      RecorderKafkaPartitionKeyEnabled = True,
      RecorderKafkaRetryMax = 5,
      RecorderKafkaMaxOpenReqs = 5,
      RecorderKafkaRequiredAcks = 1,
      RecorderKafkaIdempotent = False,
      RecorderKafkaFlushFrequency = 500 * millisecond,
      RecorderKafkaEncrypted = False,
      RecorderKafkaEncryptionKey = []\<rparr>"

definition default_kinesis_config :: kinesis_config where
  "default_kinesis_config =
     \<lparr>RecorderKinesisStreamName = ''flagr-records'',
      RecorderKinesisBacklogCount = 500,
      RecorderKinesisMaxConnections = 24,
      RecorderKinesisFlushInterval = 5 * second,
      RecorderKinesisBatchCount = 500,
      RecorderKinesisBatchSize = 0,
      RecorderKinesisAggregateBatchCount = 4294967295,
      RecorderKinesisAggregateBatchSize = 51200,
      RecorderKinesisVerbose = False\<rparr>"

definition default_pubsub_config :: pubsub_config where
  "default_pubsub_config =
     \<lparr>RecorderPubsubProjectID = [],
      RecorderPubsubTopicName = ''flagr-records'',
      RecorderPubsubKeyFile = [],
      RecorderPubsubVerbose = False,
      RecorderPubsubVerboseCancelTimeout = 5 * second\<rparr>"

definition default_jwt_config :: jwt_config where
  "default_jwt_config =
     \<lparr>JWTAuthEnabled = False,
      JWTAuthDebug = False,
      JWTAuthPrefixWhitelistPaths = [''/api/v1/health'', ''/api/v1/evaluation'', ''/static''],
      JWTAuthExactWhitelistPaths = [[], ''/''],
      JWTAuthCookieTokenName = ''access_token'',
      JWTAuthSecret = [],
      JWTAuthNoTokenStatusCode = 307,
      JWTAuthNoTokenRedirectURL = [],
      JWTAuthUserProperty = ''flagr_user'',
      JWTAuthUserClaim = ''sub'',
      JWTAuthSigningMethod = ''HS256''\<rparr>"

definition default_user_config :: user_config where
  "default_user_config =
     \<lparr>HeaderAuthEnabled = False,
      HeaderAuthUserField = ''X-Email'',
      CookieAuthEnabled = False,
      CookieAuthUserField = ''CF_Authorization''\<rparr>"

definition default_basic_config :: basic_config where
  "default_basic_config =
     \<lparr>CookieAuthUserFieldJWTClaim = ''email'',
      BasicAuthEnabled = False,
      BasicAuthUsername = [],
      BasicAuthPassword = [],
      BasicAuthPrefixWhitelistPaths = [''/api/v1/health'', ''/api/v1/flags'', ''/api/v1/evaluation'']\<rparr>"

definition default_web_config :: web_config where
  "default_web_config =
     \<lparr>BasicAuthExactWhitelistPaths = [],
      WebPrefix = []\<rparr>"

definition default_config :: config where
  "default_config =
     \<lparr>the_server = default_server_config,
      the_eval = default_eval_config,
      the_db = default_db_config,
      the_cors = default_cors_config,
      the_monitor = default_monitor_config,
      the_recorder = default_recorder_config,
      the_kafka = default_kafka_config,
      the_kinesis = default_kinesis_config,
      the_pubsub = default_pubsub_config,
      the_jwt = default_jwt_config,
      the_user = default_user_config,
      the_basic = default_basic_config,
      the_web = default_web_config\<rparr>"

section \<open>Derived settings\<close>

definition EvalOnlyModeDBDrivers :: "string list" where
  "EvalOnlyModeDBDrivers = [''json_file'', ''json_http'']"

definition setupEvalOnlyMode :: "config \<Rightarrow> config" where
  "setupEvalOnlyMode cfg =
     (if DBDriver (the_db cfg) \<in> set EvalOnlyModeDBDrivers
      then cfg\<lparr>the_eval := (the_eval cfg)\<lparr>EvalOnlyMode := True\<rparr>\<rparr> else cfg)"

text \<open>The metrics that exist after start-up; a vector that is not created is nil.\<close>

record prometheusMetrics =
  ScrapePath :: string
  EvalCounter :: bool
  RequestCounter :: bool
  RequestHistogram :: bool

definition no_metrics :: prometheusMetrics where
  "no_metrics = \<lparr>ScrapePath = [], EvalCounter = False, RequestCounter = False,
     RequestHistogram = False\<rparr>"

definition setupPrometheus :: "config \<Rightarrow> prometheusMetrics" where
  "setupPrometheus cfg =
     (if PrometheusEnabled (the_monitor cfg)
      then \<lparr>ScrapePath = PrometheusPath (the_monitor cfg), EvalCounter = True, RequestCounter = True,
            RequestHistogram = PrometheusIncludeLatencyHistogram (the_monitor cfg)\<rparr>
      else no_metrics)"

lemma setupEvalOnlyMode_sel [simp]:
  "the_db (setupEvalOnlyMode cfg) = the_db cfg"
  "EvalBatchSize (the_eval (setupEvalOnlyMode cfg)) = EvalBatchSize (the_eval cfg)"
  by (simp_all add: setupEvalOnlyMode_def)

lemma setupEvalOnlyMode_iff:
  "EvalOnlyMode (the_eval (setupEvalOnlyMode cfg)) \<longleftrightarrow>
    EvalOnlyMode (the_eval cfg) \<or> DBDriver (the_db cfg) \<in> {''json_file'', ''json_http''}"
  by (auto simp: setupEvalOnlyMode_def EvalOnlyModeDBDrivers_def)

lemma setupEvalOnlyMode_idem: "setupEvalOnlyMode (setupEvalOnlyMode cfg) = setupEvalOnlyMode cfg"
  by (simp add: setupEvalOnlyMode_def)

end
