(* ===== verification/Flagr_Cache.thy ===== *)
theory Flagr_Cache
  imports Flagr_Rollout Flagr_Config
begin

text \<open>
  \<^verbatim>\<open>pkg/handler/eval_cache.go\<close> and \<^verbatim>\<open>pkg/handler/eval_cache_fetcher.go\<close>: the
  in-memory evaluation cache, how it is built from the fetched flags, the lookups by id, key and
  tags, and the reload. The three maps of the container are association lists whose order stands
  for the unspecified iteration order of Go maps; no property depends on it.
\<close>

section \<open>The container and its construction\<close>

record 'e cacheContainer =
  idCache :: "(string \<times> 'e flag) list"
  keyCache :: "(string \<times> 'e flag) list"
  tagCache :: "(string \<times> (u64 \<times> 'e flag) list) list"

definition empty_container :: "'e cacheContainer" where
  "empty_container = \<lparr>idCache = [], keyCache = [], tagCache = []\<rparr>"

definition add_tag ::
  "'e flag \<Rightarrow> tag \<Rightarrow> (string \<times> (u64 \<times> 'e flag) list) list \<Rightarrow> (string \<times> (u64 \<times> 'e flag) list) list" where
  "add_tag f s tc =
     (let tc' = (case map_of tc (Tag_Value s) of
                   None \<Rightarrow> AList.update (Tag_Value s) [] tc | Some _ \<Rightarrow> tc);
          m = (case map_of tc' (Tag_Value s) of None \<Rightarrow> [] | Some m \<Rightarrow> m)
      in AList.update (Tag_Value s) (AList.update (flag_ID f) f m) tc')"

definition add_flag :: "cast_lib \<Rightarrow> 'e flag \<Rightarrow> 'e cacheContainer \<Rightarrow> 'e cacheContainer" where
  "add_flag C f c =
     \<lparr>idCache = (if flag_ID f \<noteq> 0
        then AList.update (SafeString C (VUint (flag_ID f))) f (idCache c) else idCache c),
      keyCache = (if Flag_Key f \<noteq> [] then AList.update (Flag_Key f) f (keyCache c) else keyCache c),
      tagCache = fold (add_tag f) (Flag_Tags f) (tagCache c)\<rparr>"

fun fetchAllFlags_loop ::
  "cast_lib \<Rightarrow> 'e cond_lib \<Rightarrow> 'e flag list \<Rightarrow> 'e cacheContainer \<Rightarrow> 'e cacheContainer err" where
  "fetchAllFlags_loop C L [] c = Inr c"
| "fetchAllFlags_loop C L (f # fs) c =
     sum_bind (Flag_PrepareEvaluation L f) (\<lambda>f'. fetchAllFlags_loop C L fs (add_flag C f' c))"

definition EvalCache_fetchAllFlags ::
  "cast_lib \<Rightarrow> 'e cond_lib \<Rightarrow> 'e flag list err \<Rightarrow> 'e cacheContainer err" where
  "EvalCache_fetchAllFlags C L fetched =
     sum_bind fetched (\<lambda>fs. fetchAllFlags_loop C L fs empty_container)"

section \<open>Lookups\<close>

definition GetByFlagKeyOrID :: "cast_lib \<Rightarrow> 'e cacheContainer \<Rightarrow> goval \<Rightarrow> 'e flag option" where
  "GetByFlagKeyOrID C c keyOrID =
     (let s = SafeString C keyOrID in
      case map_of (idCache c) s of
        Some f \<Rightarrow> Some f
      | None \<Rightarrow> map_of (keyCache c) s)"

definition getByTagsANY :: "'e cacheContainer \<Rightarrow> string list \<Rightarrow> (u64 \<times> 'e flag) list" where
  "getByTagsANY c tags =
     fold (\<lambda>t results. case map_of (tagCache c) t of
        Some fSet \<Rightarrow> copy_map results fSet | None \<Rightarrow> results) tags []"

fun getByTagsALL_loop ::
  "'e cacheContainer \<Rightarrow> nat \<Rightarrow> string list \<Rightarrow> (u64 \<times> 'e flag) list \<Rightarrow> (u64 \<times> 'e flag) list" where
  "getByTagsALL_loop c i [] results = results"
| "getByTagsALL_loop c i (t # ts) results =
     (case map_of (tagCache c) t of
        None \<Rightarrow> []
      | Some fSet \<Rightarrow>
          if i = 0 then getByTagsALL_loop c (Suc i) ts (copy_map results fSet)
          else
            let results' = filter (\<lambda>(fID, _). map_of fSet fID \<noteq> None) results
            in if results' = [] then results' else getByTagsALL_loop c (Suc i) ts results')"

definition getByTagsALL :: "'e cacheContainer \<Rightarrow> string list \<Rightarrow> (u64 \<times> 'e flag) list" where
  "getByTagsALL c tags = getByTagsALL_loop c 0 tags []"

definition GetByTags :: "'e cacheContainer \<Rightarrow> string list \<Rightarrow> string option \<Rightarrow> 'e flag list" where
  "GetByTags c tags operator =
     (let results = (if operator = None \<or> operator = Some ''ANY'' then getByTagsANY c tags else []);
          results' = (if operator = Some ''ALL'' then getByTagsALL c tags else results)
      in map snd results')"

definition EvalCache_export :: "'e cacheContainer \<Rightarrow> 'e flag list" where
  "EvalCache_export c = map snd (idCache c)"

section \<open>What the container holds\<close>

definition tag_values :: "'e flag \<Rightarrow> string set" where
  "tag_values f = Tag_Value ` set (Flag_Tags f)"

lemma fetchAllFlags_loop_eq:
  "fetchAllFlags_loop C L fs c =
     sum_bind (sum_mapM (Flag_PrepareEvaluation L) fs) (\<lambda>fs'. Inr (fold (add_flag C) fs' c))"
proof (induction fs arbitrary: c)
  case Nil
  then show ?case by simp
next
  case (Cons f fs)
  show ?case
  proof (cases "Flag_PrepareEvaluation L f")
    case (Inr f')
    then show ?thesis
      using Cons.IH by (cases "sum_mapM (Flag_PrepareEvaluation L) fs") auto
  qed simp
qed

definition container_of :: "cast_lib \<Rightarrow> 'e flag list \<Rightarrow> 'e cacheContainer" where
  "container_of C fs = fold (add_flag C) fs empty_container"

lemma EvalCache_fetchAllFlags_Inr_iff:
  "EvalCache_fetchAllFlags C L fetched = Inr c \<longleftrightarrow>
    (\<exists>fs fs'. fetched = Inr fs \<and>
      list_all2 (\<lambda>f f'. Flag_PrepareEvaluation L f = Inr f') fs fs' \<and> c = container_of C fs')"
  by (auto simp: EvalCache_fetchAllFlags_def fetchAllFlags_loop_eq sum_bind_eq_Inr_iff
      sum_mapM_Inr_iff container_of_def)

lemma EvalCache_fetchAllFlags_InrD:
  assumes "EvalCache_fetchAllFlags C L (Inr fs) = Inr c"
  shows "\<exists>fs'. list_all2 (\<lambda>f f'. Flag_PrepareEvaluation L f = Inr f') fs fs' \<and> c = container_of C fs'"
  using assms unfolding EvalCache_fetchAllFlags_Inr_iff by (metis sum.inject(2))

lemma Flag_PrepareEvaluation_frame:
  assumes "Flag_PrepareEvaluation L f = Inr f'"
  shows "Flag_Model f' = Flag_Model f" "Flag_Key f' = Flag_Key f" "Flag_Tags f' = Flag_Tags f"
    "Flag_Enabled f' = Flag_Enabled f" "Flag_Variants f' = Flag_Variants f"
    "Flag_EntityType f' = Flag_EntityType f" "Flag_SnapshotID f' = Flag_SnapshotID f"
    "Flag_DataRecordsEnabled f' = Flag_DataRecordsEnabled f"
  using assms by (auto simp: Flag_PrepareEvaluation_def sum_bind_eq_Inr_iff)

lemma container_of_snoc: "container_of C (fs @ [f]) = add_flag C f (container_of C fs)"
  by (simp add: container_of_def)

lemma idCache_add_flag:
  "map_of (idCache (add_flag C f c)) = (if flag_ID f \<noteq> 0
    then (map_of (idCache c))(SafeString C (VUint (flag_ID f)) \<mapsto> f) else map_of (idCache c))"
  by (simp add: add_flag_def update_conv')

lemma keyCache_add_flag:
  "map_of (keyCache (add_flag C f c)) = (if Flag_Key f \<noteq> []
    then (map_of (keyCache c))(Flag_Key f \<mapsto> f) else map_of (keyCache c))"
  by (simp add: add_flag_def update_conv')

context cast_laws
begin

lemma idCache_container_of:
  assumes "distinct (map flag_ID fs)"
  shows "map_of (idCache (container_of C fs)) s = Some f \<longleftrightarrow>
    f \<in> set fs \<and> flag_ID f \<noteq> 0 \<and> s = dec_uint (flag_ID f)"
  using assms
proof (induction fs rule: rev_induct)
  case Nil
  then show ?case by (simp add: container_of_def empty_container_def)
next
  case (snoc g fs)
  then show ?case
    by (auto simp: container_of_snoc idCache_add_flag safe_simps rev_image_eqI)
qed

lemma keyCache_container_of:
  assumes "distinct (map Flag_Key fs)"
  shows "map_of (keyCache (container_of C fs)) s = Some f \<longleftrightarrow>
    f \<in> set fs \<and> Flag_Key f \<noteq> [] \<and> s = Flag_Key f"
  using assms
proof (induction fs rule: rev_induct)
  case Nil
  then show ?case by (simp add: container_of_def empty_container_def)
next
  case (snoc g fs)
  then show ?case
    by (auto simp: container_of_snoc keyCache_add_flag rev_image_eqI)
qed

text \<open>Both maps at once: an id shadows a key with the same decimal text.\<close>

lemma GetByFlagKeyOrID_container_of:
  assumes "distinct (map flag_ID fs)" "distinct (map Flag_Key fs)"
  shows "GetByFlagKeyOrID C (container_of C fs) v = Some f \<longleftrightarrow>
    f \<in> set fs \<and>
    (flag_ID f \<noteq> 0 \<and> SafeString C v = dec_uint (flag_ID f) \<or>
     Flag_Key f \<noteq> [] \<and> SafeString C v = Flag_Key f \<and>
       (\<forall>g \<in> set fs. flag_ID g \<noteq> 0 \<longrightarrow> SafeString C v \<noteq> dec_uint (flag_ID g)))"
proof (cases "map_of (idCache (container_of C fs)) (SafeString C v)")
  case None
  then have "\<forall>g \<in> set fs. flag_ID g \<noteq> 0 \<longrightarrow> SafeString C v \<noteq> dec_uint (flag_ID g)"
    using idCache_container_of [OF assms(1)] by (metis option.distinct(1))
  then show ?thesis
    using None keyCache_container_of [OF assms(2)] by (auto simp: GetByFlagKeyOrID_def)
next
  case (Some g)
  then have g: "g \<in> set fs" "flag_ID g \<noteq> 0" "SafeString C v = dec_uint (flag_ID g)"
    using idCache_container_of [OF assms(1)] by blast+
  have eq: "f = g" if "f \<in> set fs" "flag_ID f = flag_ID g"
    using that g(1) assms(1) by (metis distinct_map inj_on_eq_iff)
  have "GetByFlagKeyOrID C (container_of C fs) v = Some f \<longleftrightarrow> f = g"
    using Some by (auto simp: GetByFlagKeyOrID_def)
  then show ?thesis using g eq by (metis dec_uint_inject)
qed

end

section \<open>Looking flags up by tags\<close>

text \<open>A map by id that holds exactly the flags of a list with some property.\<close>

definition flags_by_id :: "'e flag list \<Rightarrow> ('e flag \<Rightarrow> bool) \<Rightarrow> (u64 \<times> 'e flag) list \<Rightarrow> bool" where
  "flags_by_id fs P m \<longleftrightarrow> distinct (map fst m) \<and>
     (\<forall>i f. map_of m i = Some f \<longleftrightarrow> f \<in> set fs \<and> flag_ID f = i \<and> P f)"

lemma flags_by_id_map_of:
  "flags_by_id fs P m \<Longrightarrow> map_of m i = Some f \<longleftrightarrow> f \<in> set fs \<and> flag_ID f = i \<and> P f"
  by (simp add: flags_by_id_def)

lemma flags_by_id_None:
  "flags_by_id fs P m \<Longrightarrow> map_of m i = None \<longleftrightarrow> (\<forall>f \<in> set fs. flag_ID f = i \<longrightarrow> \<not> P f)"
  using flags_by_id_map_of [of fs P m i] by (cases "map_of m i") auto

lemma flags_by_id_mem:
  "flags_by_id fs P m \<Longrightarrow> (i, f) \<in> set m \<longleftrightarrow> f \<in> set fs \<and> flag_ID f = i \<and> P f"
  unfolding flags_by_id_def by (metis map_of_eq_Some_iff)

lemma flags_by_id_values:
  assumes "flags_by_id fs P m"
  shows "set (map snd m) = {f \<in> set fs. P f}" "distinct (map flag_ID (map snd m))"
proof -
  show "set (map snd m) = {f \<in> set fs. P f}"
    using flags_by_id_mem [OF assms] by force
  have "map flag_ID (map snd m) = map fst m"
    using flags_by_id_mem [OF assms] by auto
  then show "distinct (map flag_ID (map snd m))" using assms by (metis flags_by_id_def)
qed

lemma flags_by_id_empty: "flags_by_id fs P [] \<longleftrightarrow> (\<forall>f \<in> set fs. \<not> P f)"
  by (auto simp: flags_by_id_def)

lemma flags_by_id_snoc:
  assumes "flags_by_id fs P m" "flag_ID g \<notin> flag_ID ` set fs"
  shows "flags_by_id (fs @ [g]) P (if P g then AList.update (flag_ID g) g m else m)"
  using assms
  by (auto simp: flags_by_id_def update_conv' distinct_update simp del: map_of_eq_Some_iff)
    (metis rev_image_eqI)

lemma flags_by_id_copy:
  assumes "flags_by_id fs P m" "flags_by_id fs Q m'" "distinct (map flag_ID fs)"
  shows "flags_by_id fs (\<lambda>f. P f \<or> Q f) (copy_map m m')"
  unfolding flags_by_id_def
proof (intro conjI allI)
  show "distinct (map fst (copy_map m m'))"
    using assms(1) by (simp add: distinct_copy_map flags_by_id_def)
  fix i f
  have inj: "f = g" if "f \<in> set fs" "g \<in> set fs" "flag_ID f = flag_ID g" for f g
    using that assms(3) by (metis distinct_map inj_on_eq_iff)
  have c: "map_of (copy_map m m') i = (map_of m ++ map_of m') i"
    using assms(2) by (simp add: map_of_copy_map flags_by_id_def)
  show "map_of (copy_map m m') i = Some f \<longleftrightarrow> f \<in> set fs \<and> flag_ID f = i \<and> (P f \<or> Q f)"
  proof (cases "map_of m' i")
    case None
    then show ?thesis
      using c flags_by_id_map_of [OF assms(1), of i f] flags_by_id_None [OF assms(2), of i]
      by (auto simp: map_add_def)
  next
    case (Some g)
    then show ?thesis
      using c flags_by_id_map_of [OF assms(2), of i g] inj [of f g] by (auto simp: map_add_def)
  qed
qed

lemma flags_by_id_filter:
  assumes "flags_by_id fs P m" "flags_by_id fs Q m'" "distinct (map flag_ID fs)"
  shows "flags_by_id fs (\<lambda>f. P f \<and> Q f) (filter (\<lambda>(i, _). map_of m' i \<noteq> None) m)"
proof -
  let ?m = "filter (\<lambda>(i, _). map_of m' i \<noteq> None) m"
  have d: "distinct (map fst ?m)" using assms(1) by (simp add: flags_by_id_def distinct_map_filter)
  have q: "Q f" if "f \<in> set fs" "map_of m' (flag_ID f) \<noteq> None" for f
    using that flags_by_id_None [OF assms(2), of "flag_ID f"] assms(3)
    by (metis distinct_map inj_on_eq_iff)
  have "map_of ?m i = Some f \<longleftrightarrow> f \<in> set fs \<and> flag_ID f = i \<and> P f \<and> Q f" for i f
    using flags_by_id_mem [OF assms(1), of i f] flags_by_id_map_of [OF assms(2), of i f] q [of f] d
    by (auto simp: map_of_eq_Some_iff)
  with d show ?thesis by (simp add: flags_by_id_def)
qed

text \<open>The tag map: under each tag, the flags that carry it, by id.\<close>

definition tag_entry :: "(string \<times> (u64 \<times> 'e flag) list) list \<Rightarrow> string \<Rightarrow> (u64 \<times> 'e flag) list" where
  "tag_entry tc t = (case map_of tc t of None \<Rightarrow> [] | Some m \<Rightarrow> m)"

lemma update_twice: "AList.update k v (AList.update k v m) = AList.update k v m"
  by (induction m) auto

lemma tag_entry_add_tag:
  "tag_entry (add_tag f s tc) t =
    (if t = Tag_Value s then AList.update (flag_ID f) f (tag_entry tc t) else tag_entry tc t)"
  by (auto simp: add_tag_def tag_entry_def update_conv' Let_def split: option.splits)

lemma tag_entry_fold:
  "tag_entry (fold (add_tag f) ss tc) t =
    (if t \<in> Tag_Value ` set ss then AList.update (flag_ID f) f (tag_entry tc t) else tag_entry tc t)"
  by (induction ss arbitrary: tc) (auto simp: tag_entry_add_tag update_twice)

lemma tag_entry_container_of:
  assumes "distinct (map flag_ID fs)"
  shows "flags_by_id fs (\<lambda>f. t \<in> tag_values f) (tag_entry (tagCache (container_of C fs)) t)"
  using assms
proof (induction fs rule: rev_induct)
  case Nil
  then show ?case
    by (simp add: container_of_def empty_container_def tag_entry_def flags_by_id_empty)
next
  case (snoc g fs)
  then show ?case
    using flags_by_id_snoc [of fs "\<lambda>f. t \<in> tag_values f" _ g]
    by (simp add: container_of_snoc add_flag_def tag_entry_fold tag_values_def)
qed

definition tag_index :: "'e flag list \<Rightarrow> 'e cacheContainer \<Rightarrow> bool" where
  "tag_index fs c \<longleftrightarrow> distinct (map flag_ID fs) \<and>
     (\<forall>t. flags_by_id fs (\<lambda>f. t \<in> tag_values f) (tag_entry (tagCache c) t))"

lemma tag_index_container_of: "distinct (map flag_ID fs) \<Longrightarrow> tag_index fs (container_of C fs)"
  by (simp add: tag_index_def tag_entry_container_of)

lemma getByTagsANY_correct:
  assumes "tag_index fs c"
  shows "flags_by_id fs (\<lambda>f. \<exists>t \<in> set ts. t \<in> tag_values f) (getByTagsANY c ts)"
proof -
  let ?step = "\<lambda>t results. case map_of (tagCache c) t of
    Some fSet \<Rightarrow> copy_map results fSet | None \<Rightarrow> results"
  have step: "?step t m = copy_map m (tag_entry (tagCache c) t)" for t m
    by (auto simp: tag_entry_def copy_map_def split: option.splits)
  have "flags_by_id fs (\<lambda>f. P f \<or> (\<exists>t \<in> set ts. t \<in> tag_values f)) (fold ?step ts m)"
    if "flags_by_id fs P m" for P m
    using that
  proof (induction ts arbitrary: P m)
    case Nil
    then show ?case by simp
  next
    case (Cons t ts)
    have "flags_by_id fs (\<lambda>f. P f \<or> t \<in> tag_values f) (?step t m)"
      unfolding step using assms by (intro flags_by_id_copy [OF Cons.prems]) (auto simp: tag_index_def)
    from Cons.IH [OF this] show ?case by (simp only: fold_Cons comp_def list.set bex_simps disj_assoc)
  qed
  from this [of "\<lambda>_. False" "[]"] show ?thesis
    by (simp add: getByTagsANY_def flags_by_id_empty)
qed

lemma getByTagsALL_loop_correct:
  assumes "tag_index fs c" "flags_by_id fs P m" "i \<noteq> 0"
  shows "flags_by_id fs (\<lambda>f. P f \<and> (\<forall>t \<in> set ts. t \<in> tag_values f)) (getByTagsALL_loop c i ts m)"
  using assms(2,3)
proof (induction ts arbitrary: i P m)
  case Nil
  then show ?case by simp
next
  case (Cons t ts)
  have idx: "flags_by_id fs (\<lambda>f. t \<in> tag_values f) (tag_entry (tagCache c) t)"
    "distinct (map flag_ID fs)"
    using assms(1) by (auto simp: tag_index_def)
  show ?case
  proof (cases "map_of (tagCache c) t")
    case None
    then have "\<forall>f \<in> set fs. t \<notin> tag_values f"
      using idx(1) by (simp add: tag_entry_def flags_by_id_empty)
    with None show ?thesis by (auto simp: flags_by_id_empty)
  next
    case (Some fSet)
    let ?m = "filter (\<lambda>(fID, _). map_of fSet fID \<noteq> None) m"
    have m: "flags_by_id fs (\<lambda>f. P f \<and> t \<in> tag_values f) ?m"
      using Some flags_by_id_filter [OF Cons.prems(1) idx] by (simp add: tag_entry_def)
    show ?thesis
    proof (cases "?m = []")
      case True
      then have "\<forall>f \<in> set fs. \<not> (P f \<and> t \<in> tag_values f)"
        using m by (simp add: flags_by_id_empty)
      with True Some Cons.prems(2) show ?thesis by (auto simp: flags_by_id_empty Let_def)
    next
      case False
      then have "getByTagsALL_loop c i (t # ts) m = getByTagsALL_loop c (Suc i) ts ?m"
        using Some Cons.prems(2) by (simp add: Let_def)
      then show ?thesis
        using Cons.IH [OF m, of "Suc i"] by (simp add: conj_assoc)
    qed
  qed
qed

lemma getByTagsALL_correct:
  assumes "tag_index fs c"
  shows "flags_by_id fs (\<lambda>f. ts \<noteq> [] \<and> (\<forall>t \<in> set ts. t \<in> tag_values f)) (getByTagsALL c ts)"
proof (cases ts)
  case Nil
  then show ?thesis by (simp add: getByTagsALL_def flags_by_id_empty)
next
  case (Cons t us)
  have idx: "flags_by_id fs (\<lambda>f. t \<in> tag_values f) (tag_entry (tagCache c) t)"
    "distinct (map flag_ID fs)"
    using assms by (auto simp: tag_index_def)
  show ?thesis
  proof (cases "map_of (tagCache c) t")
    case None
    then have "\<forall>f \<in> set fs. t \<notin> tag_values f"
      using idx(1) by (simp add: tag_entry_def flags_by_id_empty)
    with None Cons show ?thesis by (auto simp: getByTagsALL_def flags_by_id_empty)
  next
    case (Some fSet)
    have "flags_by_id fs (\<lambda>f. False \<or> t \<in> tag_values f) (copy_map [] fSet)"
      using idx Some by (intro flags_by_id_copy) (auto simp: tag_entry_def flags_by_id_empty)
    then show ?thesis
      using getByTagsALL_loop_correct [OF assms, of "\<lambda>f. t \<in> tag_values f" "copy_map [] fSet" "Suc 0" us]
        Cons Some by (simp add: getByTagsALL_def)
  qed
qed

section \<open>Fetching the flags\<close>

text \<open>
  The outside world of a fetch: reading a file, an HTTP GET, decoding the JSON of
  \<open>EvalCacheJSON\<close>, and the database query with its preloads.
\<close>

record 'e flag_source =
  os_ReadFile :: "string \<Rightarrow> string err"
  http_Get :: "string \<Rightarrow> string err"
  json_Unmarshal_Flags :: "string \<Rightarrow> 'e flag list err"
  db_Find_Flags :: "'e flag list err"

datatype evalCacheFetcher = DbFetcher | JsonFileFetcher string | JsonHTTPFetcher string

definition newFetcher :: "config \<Rightarrow> evalCacheFetcher err" where
  "newFetcher cfg =
     (if \<not> EvalOnlyMode (the_eval cfg) then Inr DbFetcher
      else if DBDriver (the_db cfg) = ''json_file''
        then Inr (JsonFileFetcher (DBConnectionStr (the_db cfg)))
      else if DBDriver (the_db cfg) = ''json_http''
        then Inr (JsonHTTPFetcher (DBConnectionStr (the_db cfg)))
      else Inl (''failed to create evaluation cache fetcher. DBDriver:'' @ DBDriver (the_db cfg) @
        '' is not supported''))"

fun fetch :: "'e flag_source \<Rightarrow> evalCacheFetcher \<Rightarrow> 'e flag list err" where
  "fetch w (JsonFileFetcher filePath) = sum_bind (os_ReadFile w filePath) (json_Unmarshal_Flags w)"
| "fetch w (JsonHTTPFetcher url) = sum_bind (http_Get w url) (json_Unmarshal_Flags w)"
| "fetch w DbFetcher = db_Find_Flags w"

definition fetchAllFlags :: "config \<Rightarrow> 'e flag_source \<Rightarrow> 'e flag list err" where
  "fetchAllFlags cfg w = sum_bind (newFetcher cfg) (fetch w)"

lemma newFetcher_after_setup:
  "newFetcher (setupEvalOnlyMode cfg) = Inr DbFetcher \<longleftrightarrow>
    \<not> EvalOnlyMode (the_eval (setupEvalOnlyMode cfg))"
  by (auto simp: newFetcher_def split: if_splits)

section \<open>Reloading\<close>

text \<open>
  The cache and the reloads that were given up after the timeout but still run: the goroutine of
  such a reload cannot be stopped and installs its container when it is done.
\<close>

record 'e EvalCache =
  cache :: "'e cacheContainer"
  late :: "'e cacheContainer list"

definition new_EvalCache :: "'e EvalCache" where
  "new_EvalCache = \<lparr>cache = empty_container, late = []\<rparr>"

definition reloadMapCache ::
  "cast_lib \<Rightarrow> 'e cond_lib \<Rightarrow> 'e flag list err \<Rightarrow> bool \<Rightarrow> 'e EvalCache \<Rightarrow> error option \<times> 'e EvalCache" where
  "reloadMapCache C L fetched timedOut ec =
     (case EvalCache_fetchAllFlags C L fetched of
        Inl e \<Rightarrow> (Some (if timedOut then ''timeout'' else e), ec)
      | Inr c \<Rightarrow> if timedOut then (Some ''timeout'', ec\<lparr>late := late ec @ [c]\<rparr>)
                else (None, ec\<lparr>cache := c\<rparr>))"

definition EvalCache_Start ::
  "cast_lib \<Rightarrow> 'e cond_lib \<Rightarrow> 'e flag list err \<Rightarrow> bool \<Rightarrow> 'e EvalCache \<Rightarrow> 'e EvalCache go" where
  "EvalCache_Start C L fetched timedOut ec =
     (case reloadMapCache C L fetched timedOut ec of
        (Some e, _) \<Rightarrow> Inl (PanicValue e) | (None, ec') \<Rightarrow> Inr ec')"

definition late_install :: "nat \<Rightarrow> 'e EvalCache \<Rightarrow> 'e EvalCache" where
  "late_install i ec =
     (if i < length (late ec)
      then ec\<lparr>cache := late ec ! i, late := take i (late ec) @ drop (Suc i) (late ec)\<rparr> else ec)"

text \<open>
  The life of the cache when every fetch that succeeds delivers flags with a property \<open>Q\<close>: the
  start, the ticks of the poller and the installations of late reloads, in any order.
\<close>

inductive cache_reachable ::
  "cast_lib \<Rightarrow> 'e cond_lib \<Rightarrow> ('e flag list \<Rightarrow> bool) \<Rightarrow> 'e EvalCache \<Rightarrow> bool"
  for C :: cast_lib and L :: "'e cond_lib" and Q :: "'e flag list \<Rightarrow> bool" where
  start: "\<forall>fs. fetched = Inr fs \<longrightarrow> Q fs \<Longrightarrow> EvalCache_Start C L fetched t new_EvalCache = Inr ec \<Longrightarrow>
    cache_reachable C L Q ec"
| tick: "cache_reachable C L Q ec \<Longrightarrow> \<forall>fs. fetched = Inr fs \<longrightarrow> Q fs \<Longrightarrow>
    reloadMapCache C L fetched t ec = (e, ec') \<Longrightarrow> cache_reachable C L Q ec'"
| late: "cache_reachable C L Q ec \<Longrightarrow> cache_reachable C L Q (late_install i ec)"

definition prepared_from :: "'e cond_lib \<Rightarrow> 'e flag list \<Rightarrow> 'e flag list \<Rightarrow> bool" where
  "prepared_from L fs fs' \<longleftrightarrow> list_all2 (\<lambda>f f'. Flag_PrepareEvaluation L f = Inr f') fs fs'"

definition snapshot_of ::
  "cast_lib \<Rightarrow> 'e cond_lib \<Rightarrow> ('e flag list \<Rightarrow> bool) \<Rightarrow> 'e cacheContainer \<Rightarrow> bool" where
  "snapshot_of C L Q c \<longleftrightarrow> (\<exists>fs fs'. Q fs \<and> prepared_from L fs fs' \<and> c = container_of C fs')"

lemma fetch_snapshot:
  assumes "EvalCache_fetchAllFlags C L fetched = Inr c" "\<forall>fs. fetched = Inr fs \<longrightarrow> Q fs"
  shows "snapshot_of C L Q c"
  using assms by (auto simp: EvalCache_fetchAllFlags_Inr_iff snapshot_of_def prepared_from_def)

lemma late_install_late: "set (late (late_install i ec)) \<subseteq> set (late ec)"
  by (auto simp: late_install_def dest: in_set_takeD in_set_dropD)

lemma reachable_snapshots:
  "cache_reachable C L Q ec \<Longrightarrow>
    snapshot_of C L Q (cache ec) \<and> (\<forall>c \<in> set (late ec). snapshot_of C L Q c)"
proof (induction rule: cache_reachable.induct)
  case (start fetched t ec)
  then show ?case
    by (auto simp: EvalCache_Start_def reloadMapCache_def new_EvalCache_def fetch_snapshot
        split: sum.splits if_splits option.splits)
next
  case (tick ec fetched t e ec')
  then show ?case
    by (auto simp: reloadMapCache_def fetch_snapshot split: sum.splits if_splits)
next
  case (late ec i)
  have "snapshot_of C L Q (cache (late_install i ec))"
    using late.IH by (simp add: late_install_def)
  then show ?case using late.IH late_install_late [of i ec] by blast
qed

lemma prepared_ids:
  assumes "list_all2 (\<lambda>f f'. Flag_PrepareEvaluation L f = Inr f') fs fs'"
  shows "map flag_ID fs' = map flag_ID fs" "map Flag_Key fs' = map Flag_Key fs"
    "map tag_values fs' = map tag_values fs"
proof -
  have "flag_ID f' = flag_ID f" "Flag_Key f' = Flag_Key f" "tag_values f' = tag_values f"
    if "Flag_PrepareEvaluation L f = Inr f'" for f f'
    using Flag_PrepareEvaluation_frame(1,2,3) [OF that] by (simp_all add: tag_values_def)
  note eqs = this
  show "map flag_ID fs' = map flag_ID fs"
    by (rule map_eq_list_all2 [OF assms]) (erule eqs(1))
  show "map Flag_Key fs' = map Flag_Key fs"
    by (rule map_eq_list_all2 [OF assms]) (erule eqs(2))
  show "map tag_values fs' = map tag_values fs"
    by (rule map_eq_list_all2 [OF assms]) (erule eqs(3))
qed

lemma prepared_ids_back:
  assumes "list_all2 (\<lambda>f f'. Flag_PrepareEvaluation L f = Inr f') fs fs'" "f' \<in> set fs'"
  shows "\<exists>f \<in> set fs. flag_ID f = flag_ID f'"
proof -
  have "flag_ID f' \<in> set (map flag_ID fs')" using assms(2) by simp
  then show ?thesis unfolding prepared_ids(1) [OF assms(1)] by force
qed

section \<open>Fixtures\<close>

definition model_id :: "u64 \<Rightarrow> gorm_model" where
  "model_id i = zero_model\<lparr>Model_ID := i\<rparr>"

definition GenFixtureSegment :: "'e cond_lib \<Rightarrow> 'e segment" where
  "GenFixtureSegment L =
     (let s = zero_segment\<lparr>
        Segment_Model := model_id 200, Segment_FlagID := 100, Segment_Rank := 0,
        Segment_RolloutPercent := 100,
        Segment_Constraints := [\<lparr>Constraint_Model = model_id 500, Constraint_SegmentID = 200,
          Constraint_Property = ''dl_state'', Constraint_Operator = ''EQ'',
          Constraint_Value = [CHR 0x22] @ ''CA'' @ [CHR 0x22]\<rparr>],
        Segment_Distributions :=
          [zero_distribution\<lparr>Distribution_Model := model_id 400, Distribution_SegmentID := 200,
             Distribution_VariantID := 300, Distribution_VariantKey := ''control'',
             Distribution_Percent := 50\<rparr>,
           zero_distribution\<lparr>Distribution_Model := model_id 401, Distribution_SegmentID := 200,
             Distribution_VariantID := 301, Distribution_VariantKey := ''treatment'',
             Distribution_Percent := 50\<rparr>]\<rparr>
      in case Segment_PrepareEvaluation L s of Inl _ \<Rightarrow> s | Inr s' \<Rightarrow> s')"

definition GenFixtureFlag :: "'e cond_lib \<Rightarrow> 'e flag" where
  "GenFixtureFlag L =
     (let f = zero_flag\<lparr>
        Flag_Model := model_id 100, Flag_Key := ''flag_key_100'', Flag_Description := [],
        Flag_Enabled := True, Flag_Segments := [GenFixtureSegment L],
        Flag_Variants :=
          [zero_variant\<lparr>Variant_Model := model_id 300, Variant_FlagID := 100,
             Variant_Key := ''control''\<rparr>,
           zero_variant\<lparr>Variant_Model := model_id 301, Variant_FlagID := 100,
             Variant_Key := ''treatment'',
             Variant_Attachment := Some [(''value'', VString ''321'')]\<rparr>],
        Flag_Tags := [\<lparr>Tag_Model = zero_model, Tag_Value = ''tag1''\<rparr>,
                      \<lparr>Tag_Model = zero_model, Tag_Value = ''tag2''\<rparr>]\<rparr>
      in case Flag_PrepareEvaluation L f of Inl _ \<Rightarrow> f | Inr f' \<Rightarrow> f')"

definition GenFixtureEvalCache :: "cast_lib \<Rightarrow> 'e cond_lib \<Rightarrow> 'e cacheContainer" where
  "GenFixtureEvalCache C L =
     (let f = GenFixtureFlag L;
          tagCache' = fold (\<lambda>t m. AList.update (Tag_Value t) [(flag_ID f, f)] m) (Flag_Tags f) []
      in \<lparr>idCache = [(SafeString C (VUint (flag_ID f)), f)], keyCache = [(Flag_Key f, f)],
          tagCache = tagCache'\<rparr>)"

lemma GenFixtureFlag_sel:
  "flag_ID (GenFixtureFlag L) = 100" "Flag_Key (GenFixtureFlag L) = ''flag_key_100''"
  "Flag_Tags (GenFixtureFlag L) = [\<lparr>Tag_Model = zero_model, Tag_Value = ''tag1''\<rparr>,
     \<lparr>Tag_Model = zero_model, Tag_Value = ''tag2''\<rparr>]"
  by (auto simp: GenFixtureFlag_def Let_def model_id_def Flag_PrepareEvaluation_frame
      split: sum.splits dest: Flag_PrepareEvaluation_frame)

text \<open>A flag with an id and a key and nothing else, and caches of two such flags.\<close>

definition bare_flag :: "u64 \<Rightarrow> string \<Rightarrow> 'e flag" where
  "bare_flag i k = zero_flag\<lparr>Flag_Model := model_id i, Flag_Key := k\<rparr>"

lemma bare_flag_sel [simp]:
  "flag_ID (bare_flag i k) = i" "Flag_Key (bare_flag i k) = k" "Flag_Tags (bare_flag i k) = []"
  "Flag_PrepareEvaluation L (bare_flag i k) = Inr (bare_flag i k)"
  by (simp_all add: bare_flag_def model_id_def zero_flag_def Flag_PrepareEvaluation_def)

lemma fetch_bare_flags:
  "EvalCache_fetchAllFlags C L (Inr [bare_flag i k, bare_flag j l]) =
    Inr (container_of C [bare_flag i k, bare_flag j l])"
  by (simp add: EvalCache_fetchAllFlags_def container_of_def)

section \<open>Properties\<close>

text \<open>A loaded flag is found by its id. When the flags that were fetched have distinct ids, the
  cache answers a lookup by the id of one of them with that flag, prepared for evaluation; keys
  that look like numbers cannot get in the way.\<close>

theorem cache_lookup_by_id:
  assumes "cast_laws C" "EvalCache_fetchAllFlags C L (Inr fs) = Inr c"
    and "distinct (map flag_ID fs)" "f \<in> set fs" "flag_ID f \<noteq> 0"
  shows "\<exists>f'. Flag_PrepareEvaluation L f = Inr f' \<and>
    GetByFlagKeyOrID C c (VUint (flag_ID f)) = Some f'"
proof -
  obtain fs' where
    prep: "list_all2 (\<lambda>f f'. Flag_PrepareEvaluation L f = Inr f') fs fs'" and c: "c = container_of C fs'"
    using EvalCache_fetchAllFlags_InrD [OF assms(2)] by blast
  obtain f' where f': "f' \<in> set fs'" "Flag_PrepareEvaluation L f = Inr f'"
    using list_all2_in_left [OF prep assms(4)] by blast
  have "distinct (map flag_ID fs')"
    using assms(3) prepared_ids [OF prep] by simp
  note idc = cast_laws.idCache_container_of [OF assms(1) this]
  have id: "flag_ID f' = flag_ID f"
    using Flag_PrepareEvaluation_frame(1) [OF f'(2)] by (rule arg_cong)
  have "map_of (idCache c) (dec_uint (flag_ID f)) = Some f'"
    unfolding c idc using f'(1) assms(5) by (simp only: id simp_thms)
  then have "GetByFlagKeyOrID C c (VUint (flag_ID f)) = Some f'"
    by (simp only: GetByFlagKeyOrID_def cast_laws.safe_simps [OF assms(1)] Let_def option.case)
  with f'(2) show ?thesis by blast
qed

theorem cache_lookup_by_id_witness:
  "\<exists>f'. Flag_PrepareEvaluation text_cond (bare_flag 7 ''a'') = Inr f' \<and>
    GetByFlagKeyOrID go_cast (container_of go_cast [bare_flag 7 ''a'', bare_flag 8 ''7'']) (VUint 7) = Some f'"
proof -
  let ?a = "bare_flag 7 ''a''" and ?b = "bare_flag 8 ''7''"
  have 1: "distinct (map flag_ID [?a, ?b])" "?a \<in> set [?a, ?b]" "flag_ID ?a \<noteq> 0" by simp_all
  show ?thesis
    using cache_lookup_by_id [OF go_cast.cast_laws_axioms fetch_bare_flags 1] by (simp only: bare_flag_sel)
qed

text \<open>What a lookup by key finds. Flag ids and flag keys share one namespace: the lookup returns
  the flag whose id prints as the key if there is one, and only otherwise the flag with that
  key.\<close>

theorem cache_lookup_by_key:
  assumes "cast_laws C" "EvalCache_fetchAllFlags C L (Inr fs) = Inr c"
    and "distinct (map flag_ID fs)" "distinct (map Flag_Key fs)"
    and "f \<in> set fs" "Flag_Key f \<noteq> []"
  shows "\<exists>g g'. g \<in> set fs \<and> Flag_PrepareEvaluation L g = Inr g' \<and>
    GetByFlagKeyOrID C c (VString (Flag_Key f)) = Some g' \<and>
    (if \<exists>h \<in> set fs. flag_ID h \<noteq> 0 \<and> dec_uint (flag_ID h) = Flag_Key f
     then flag_ID g \<noteq> 0 \<and> dec_uint (flag_ID g) = Flag_Key f else g = f)"
proof -
  obtain fs' where
    prep: "list_all2 (\<lambda>f f'. Flag_PrepareEvaluation L f = Inr f') fs fs'" and c: "c = container_of C fs'"
    using EvalCache_fetchAllFlags_InrD [OF assms(2)] by blast
  have prepd: "\<exists>h' \<in> set fs'. Flag_PrepareEvaluation L h = Inr h'" if "h \<in> set fs" for h
    using list_all2_in_left [OF prep that] .
  note fr = Flag_PrepareEvaluation_frame(1,2)
  have d: "distinct (map flag_ID fs')" "distinct (map Flag_Key fs')"
    using assms(3,4) prepared_ids [OF prep] by simp_all
  note look = cast_laws.GetByFlagKeyOrID_container_of [OF assms(1) d]
  have s: "SafeString C (VString k) = k" for k
    by (simp add: cast_laws.safe_simps [OF assms(1)])
  show ?thesis
  proof (cases "\<exists>h \<in> set fs. flag_ID h \<noteq> 0 \<and> dec_uint (flag_ID h) = Flag_Key f")
    case True
    then obtain h h' where h: "h \<in> set fs" "flag_ID h \<noteq> 0" "dec_uint (flag_ID h) = Flag_Key f"
      "h' \<in> set fs'" "Flag_PrepareEvaluation L h = Inr h'"
      using prepd by blast
    then have "GetByFlagKeyOrID C c (VString (Flag_Key f)) = Some h'"
      using look [of "VString (Flag_Key f)" h'] fr [OF h(5)] by (simp add: c s)
    with h True show ?thesis by auto
  next
    case False
    obtain f' where f': "f' \<in> set fs'" "Flag_PrepareEvaluation L f = Inr f'"
      using prepd [OF assms(5)] by blast
    have "\<forall>g \<in> set fs'. flag_ID g \<noteq> 0 \<longrightarrow> Flag_Key f \<noteq> dec_uint (flag_ID g)"
      using False prepared_ids_back [OF prep] by metis
    then have "GetByFlagKeyOrID C c (VString (Flag_Key f)) = Some f'"
      using look [of "VString (Flag_Key f)" f'] fr [OF f'(2)] f'(1) assms(6) by (simp add: c s)
    with f' assms(5) False show ?thesis by auto
  qed
qed

theorem cache_lookup_by_key_witness:
  "\<exists>g g'. g \<in> set [bare_flag 7 ''a'', bare_flag 8 ''7''] \<and> Flag_PrepareEvaluation text_cond g = Inr g' \<and>
    GetByFlagKeyOrID go_cast (container_of go_cast [bare_flag 7 ''a'', bare_flag 8 ''7'']) (VString ''7'') = Some g' \<and>
    (if \<exists>h \<in> set [bare_flag 7 ''a'', bare_flag 8 ''7'' :: string flag].
          flag_ID h \<noteq> 0 \<and> dec_uint (flag_ID h) = ''7''
     then flag_ID g \<noteq> 0 \<and> dec_uint (flag_ID g) = ''7'' else g = bare_flag 8 ''7'')"
proof -
  let ?a = "bare_flag 7 ''a''" and ?b = "bare_flag 8 ''7''"
  have 1: "distinct (map flag_ID [?a, ?b])" "distinct (map Flag_Key [?a, ?b])"
    "?b \<in> set [?a, ?b]" "Flag_Key ?b \<noteq> []" by simp_all
  show ?thesis
    using cache_lookup_by_key [OF go_cast.cast_laws_axioms fetch_bare_flags 1]
    unfolding bare_flag_sel .
qed

definition tags_match :: "string option \<Rightarrow> string list \<Rightarrow> 'e flag \<Rightarrow> bool" where
  "tags_match operator ts f \<longleftrightarrow>
     (if operator = None \<or> operator = Some ''ANY'' then \<exists>t \<in> set ts. t \<in> tag_values f
      else operator = Some ''ALL'' \<and> ts \<noteq> [] \<and> (\<forall>t \<in> set ts. t \<in> tag_values f))"

lemma GetByTags_flags_by_id:
  assumes "tag_index fs c"
  shows "set (GetByTags c ts operator) = {f \<in> set fs. tags_match operator ts f}"
    "distinct (map flag_ID (GetByTags c ts operator))"
  using flags_by_id_values [OF getByTagsANY_correct [OF assms, of ts]]
    flags_by_id_values [OF getByTagsALL_correct [OF assms, of ts]]
  by (auto simp: GetByTags_def tags_match_def Let_def)

lemma image_filter_pair: "g ` {x \<in> A. P x} = {i. (i, True) \<in> (\<lambda>x. (g x, P x)) ` A}"
  by force

text \<open>C27: a lookup by tags answers each flag that matches exactly once: with the operator ANY (or
  none) the flags that carry one of the tags, with ALL those that carry all of them (none when no
  tag is given), with any other operator none; each one prepared for evaluation.\<close>

theorem GetByTags_correct:
  assumes "EvalCache_fetchAllFlags C L (Inr fs) = Inr c" "distinct (map flag_ID fs)"
  shows "\<exists>fs'. prepared_from L fs fs' \<and>
    set (GetByTags c ts operator) = {f' \<in> set fs'. tags_match operator ts f'} \<and>
    flag_ID ` set (GetByTags c ts operator) = flag_ID ` {f \<in> set fs. tags_match operator ts f} \<and>
    distinct (map flag_ID (GetByTags c ts operator))"
proof -
  obtain fs' where
    prep: "list_all2 (\<lambda>f f'. Flag_PrepareEvaluation L f = Inr f') fs fs'" and c: "c = container_of C fs'"
    using EvalCache_fetchAllFlags_InrD [OF assms(1)] by blast
  have "distinct (map flag_ID fs')" using assms(2) prepared_ids(1) [OF prep] by simp
  from GetByTags_flags_by_id [OF tag_index_container_of [OF this]]
  have tags: "set (GetByTags c ts operator) = {f' \<in> set fs'. tags_match operator ts f'}"
    "distinct (map flag_ID (GetByTags c ts operator))" unfolding c .
  have "map (\<lambda>f. (flag_ID f, tags_match operator ts f)) fs' =
    map (\<lambda>f. (flag_ID f, tags_match operator ts f)) fs"
  proof (rule map_eq_list_all2 [OF prep])
    fix f f' assume "Flag_PrepareEvaluation L f = Inr f'"
    note fr = Flag_PrepareEvaluation_frame(1,3) [OF this]
    show "(flag_ID f', tags_match operator ts f') = (flag_ID f, tags_match operator ts f)"
      by (simp only: fr tags_match_def tag_values_def)
  qed
  then have im: "(\<lambda>f. (flag_ID f, tags_match operator ts f)) ` set fs' =
    (\<lambda>f. (flag_ID f, tags_match operator ts f)) ` set fs"
    unfolding set_map [symmetric] by (rule arg_cong)
  have "flag_ID ` {f \<in> set fs'. tags_match operator ts f} = flag_ID ` {f \<in> set fs. tags_match operator ts f}"
    unfolding image_filter_pair im ..
  with tags prep show ?thesis by (auto simp: prepared_from_def)
qed

definition tagged_flag :: "u64 \<Rightarrow> string list \<Rightarrow> 'e flag" where
  "tagged_flag i ts = zero_flag\<lparr>Flag_Model := model_id i,
     Flag_Tags := map (\<lambda>t. \<lparr>Tag_Model = zero_model, Tag_Value = t\<rparr>) ts\<rparr>"

lemma tagged_flag_sel [simp]:
  "flag_ID (tagged_flag i ts) = i" "Flag_Key (tagged_flag i ts) = []"
  "Flag_Tags (tagged_flag i ts) = map (\<lambda>t. \<lparr>Tag_Model = zero_model, Tag_Value = t\<rparr>) ts"
  "Flag_PrepareEvaluation L (tagged_flag i ts) = Inr (tagged_flag i ts)"
  by (simp_all add: tagged_flag_def model_id_def zero_flag_def Flag_PrepareEvaluation_def)

lemma tag_values_tagged_flag [simp]: "tag_values (tagged_flag i ts) = set ts"
  by (simp add: tag_values_def image_image)

theorem GetByTags_correct_witness:
  "flag_ID ` set (GetByTags (container_of go_cast [tagged_flag 1 [''a'', ''b''], tagged_flag 2 [''a''] :: string flag])
    [''b'', ''a''] (Some ''ALL'')) = {1}"
proof -
  let ?fs = "[tagged_flag 1 [''a'', ''b''], tagged_flag 2 [''a''] :: string flag]"
  have 1: "EvalCache_fetchAllFlags go_cast text_cond (Inr ?fs) = Inr (container_of go_cast ?fs)"
    by (simp add: EvalCache_fetchAllFlags_def container_of_def)
  have 2: "distinct (map flag_ID ?fs)" by simp
  have 3: "{f \<in> set ?fs. tags_match (Some ''ALL'') [''b'', ''a''] f} = {tagged_flag 1 [''a'', ''b'']}"
    by (auto simp: tags_match_def)
  have "flag_ID ` set (GetByTags (container_of go_cast ?fs) [''b'', ''a''] (Some ''ALL'')) =
    flag_ID ` {f \<in> set ?fs. tags_match (Some ''ALL'') [''b'', ''a''] f}"
    by (rule exE [OF GetByTags_correct [OF 1 2]]) (elim conjE)
  then show ?thesis unfolding 3 by (simp only: image_insert image_empty tagged_flag_sel)
qed

lemma container_of_values:
  "idCache (container_of C fs) = ids \<Longrightarrow> map_of ids s = Some f \<Longrightarrow> f \<in> set fs"
  "keyCache (container_of C fs) = keys \<Longrightarrow> map_of keys s = Some f \<Longrightarrow> f \<in> set fs"
proof -
  have "map_of (idCache (container_of C fs)) s = Some f \<Longrightarrow> f \<in> set fs"
    by (induction fs rule: rev_induct)
      (auto simp: container_of_snoc idCache_add_flag container_of_def empty_container_def split: if_splits)
  then show "idCache (container_of C fs) = ids \<Longrightarrow> map_of ids s = Some f \<Longrightarrow> f \<in> set fs" by blast
  have "map_of (keyCache (container_of C fs)) s = Some f \<Longrightarrow> f \<in> set fs"
    by (induction fs rule: rev_induct)
      (auto simp: container_of_snoc keyCache_add_flag container_of_def empty_container_def split: if_splits)
  then show "keyCache (container_of C fs) = keys \<Longrightarrow> map_of keys s = Some f \<Longrightarrow> f \<in> set fs" by blast
qed

lemma GetByFlagKeyOrID_values: "GetByFlagKeyOrID C (container_of C fs) v = Some f \<Longrightarrow> f \<in> set fs"
  using container_of_values [OF refl] by (force simp: GetByFlagKeyOrID_def Let_def split: option.splits)

lemma update_values: "snd ` set (AList.update k v m) \<subseteq> insert v (snd ` set m)"
  by (induction m) auto

lemma copy_map_values: "snd ` set (copy_map dst src) \<subseteq> snd ` set dst \<union> snd ` set src"
  unfolding copy_map_def
proof (induction src arbitrary: dst)
  case (Cons p src)
  show ?case using Cons.IH [of "AList.update (fst p) (snd p) dst"] update_values [of "fst p" "snd p" dst]
    by (simp add: case_prod_beta) blast
qed simp

lemma tag_entry_values: "snd ` set (tag_entry (tagCache (container_of C fs)) t) \<subseteq> set fs"
proof (induction fs rule: rev_induct)
  case Nil
  then show ?case by (simp add: container_of_def empty_container_def tag_entry_def)
next
  case (snoc f fs)
  then show ?case
    using update_values [of "flag_ID f" f "tag_entry (tagCache (container_of C fs)) t"]
    by (simp add: container_of_snoc add_flag_def tag_entry_fold) blast
qed

lemma getByTagsANY_values: "snd ` set (getByTagsANY (container_of C fs) ts) \<subseteq> set fs"
proof -
  let ?c = "container_of C fs"
  have "snd ` set (fold (\<lambda>t results. case map_of (tagCache ?c) t of
      Some fSet \<Rightarrow> copy_map results fSet | None \<Rightarrow> results) ts m) \<subseteq> set fs"
    if "snd ` set m \<subseteq> set fs" for m
    using that
  proof (induction ts arbitrary: m)
    case (Cons t ts)
    show ?case
    proof (cases "map_of (tagCache ?c) t")
      case (Some fSet)
      then have "snd ` set fSet \<subseteq> set fs" using tag_entry_values [of C fs t] by (simp add: tag_entry_def)
      then have "snd ` set (copy_map m fSet) \<subseteq> set fs" using copy_map_values [of m fSet] Cons.prems by blast
      from Cons.IH [OF this] Some show ?thesis by simp
    qed (use Cons in simp)
  qed simp
  from this [of "[]"] show ?thesis by (simp add: getByTagsANY_def)
qed

lemma getByTagsALL_values: "snd ` set (getByTagsALL (container_of C fs) ts) \<subseteq> set fs"
proof -
  let ?c = "container_of C fs"
  have "snd ` set (getByTagsALL_loop ?c i ts m) \<subseteq> set fs" if "snd ` set m \<subseteq> set fs" for i m
    using that
  proof (induction ts arbitrary: i m)
    case (Cons t ts)
    show ?case
    proof (cases "map_of (tagCache ?c) t")
      case (Some fSet)
      then have "snd ` set fSet \<subseteq> set fs" using tag_entry_values [of C fs t] by (simp add: tag_entry_def)
      then have "snd ` set (copy_map m fSet) \<subseteq> set fs" using copy_map_values [of m fSet] Cons.prems by blast
      moreover have "snd ` set (filter P m) \<subseteq> set fs" for P using Cons.prems by auto
      ultimately show ?thesis using Cons.IH Some by (simp add: Let_def)
    qed simp
  qed simp
  from this [of "[]"] show ?thesis by (simp add: getByTagsALL_def)
qed

lemma GetByTags_values: "set (GetByTags (container_of C fs) ts operator) \<subseteq> set fs"
  using getByTagsANY_values [of C fs ts] getByTagsALL_values [of C fs ts]
  by (auto simp: GetByTags_def Let_def)

text \<open>C28: whatever the cache answers, to a lookup by key or id and to a query by tags, was fetched from the source
  together, in one fetch, and prepared for evaluation; and a reload that reports an error leaves the flags it answers
  with as they were.\<close>

theorem cache_answers_fetched_flags:
  assumes "cache_reachable C L Q ec"
  shows "(\<exists>fs. Q fs \<and>
      (\<forall>v f'. GetByFlagKeyOrID C (cache ec) v = Some f' \<longrightarrow> (\<exists>f \<in> set fs. Flag_PrepareEvaluation L f = Inr f')) \<and>
      (\<forall>ts operator. \<forall>f' \<in> set (GetByTags (cache ec) ts operator). \<exists>f \<in> set fs. Flag_PrepareEvaluation L f = Inr f')) \<and>
    (\<forall>fetched timedOut e ec'. reloadMapCache C L fetched timedOut ec = (Some e, ec') \<longrightarrow> cache ec' = cache ec)"
proof (intro conjI allI impI)
  obtain fs fs' where q: "Q fs" "prepared_from L fs fs'" "cache ec = container_of C fs'"
    using reachable_snapshots [OF assms] by (auto simp: snapshot_of_def)
  have from_fs: "\<exists>f \<in> set fs. Flag_PrepareEvaluation L f = Inr f'" if "f' \<in> set fs'" for f'
    using that list_all2_in_right [OF q(2) [unfolded prepared_from_def]] by blast
  show "\<exists>fs. Q fs \<and>
      (\<forall>v f'. GetByFlagKeyOrID C (cache ec) v = Some f' \<longrightarrow> (\<exists>f \<in> set fs. Flag_PrepareEvaluation L f = Inr f')) \<and>
      (\<forall>ts operator. \<forall>f' \<in> set (GetByTags (cache ec) ts operator). \<exists>f \<in> set fs. Flag_PrepareEvaluation L f = Inr f')"
    using q(1) from_fs GetByFlagKeyOrID_values GetByTags_values unfolding q(3) by (intro exI [of _ fs]) blast
  show "cache ec' = cache ec" if "reloadMapCache C L fetched timedOut ec = (Some e, ec')" for fetched timedOut e ec'
    using that by (auto simp: reloadMapCache_def split: sum.splits if_splits)
qed

theorem cache_answers_fetched_flags_witness:
  "\<exists>fs. fs = [bare_flag 7 ''a'', bare_flag 8 ''7''] \<and>
    (\<exists>f \<in> set fs. Flag_PrepareEvaluation text_cond f = Inr (bare_flag 7 ''a''))"
proof -
  let ?fs = "[bare_flag 7 ''a'', bare_flag 8 ''7''] :: string flag list"
  let ?ec = "\<lparr>cache = container_of go_cast ?fs, late = []\<rparr>"
  have r: "cache_reachable go_cast text_cond (\<lambda>fs. fs = ?fs) ?ec"
    by (rule cache_reachable.start [of "Inr ?fs" _ _ _ False])
      (simp_all add: EvalCache_Start_def reloadMapCache_def fetch_bare_flags new_EvalCache_def)
  have "GetByFlagKeyOrID go_cast (cache ?ec) (VUint 7) = Some (bare_flag 7 ''a'')"
    by (simp add: GetByFlagKeyOrID_def container_of_def add_flag_def empty_container_def
        go_cast.safe_simps)
  then show ?thesis using cache_answers_fetched_flags [OF r] by blast
qed

text \<open>A reload that timed out is not over: its goroutine installs what it fetched whenever it
  is done, and then replaces the newer flags that a later reload already installed.\<close>

theorem late_reload_overwrites_newer:
  assumes "EvalCache_fetchAllFlags C L (Inr old) = Inr c_old" "EvalCache_fetchAllFlags C L (Inr new) = Inr c_new"
    and "late ec = []"
  shows "\<exists>ec1 ec2. reloadMapCache C L (Inr old) True ec = (Some ''timeout'', ec1) \<and> cache ec1 = cache ec \<and>
    reloadMapCache C L (Inr new) False ec1 = (None, ec2) \<and> cache ec2 = c_new \<and>
    cache (late_install 0 ec2) = c_old"
  using assms by (simp add: reloadMapCache_def late_install_def)

theorem late_reload_overwrites_newer_witness:
  "\<exists>ec1 ec2. reloadMapCache go_cast text_cond (Inr [tagged_flag 1 []]) True new_EvalCache = (Some ''timeout'', ec1) \<and>
    cache ec1 = cache new_EvalCache \<and>
    reloadMapCache go_cast text_cond (Inr [tagged_flag 2 []]) False ec1 = (None, ec2) \<and>
    cache ec2 = container_of go_cast [tagged_flag 2 []] \<and>
    cache (late_install 0 ec2) = container_of go_cast [tagged_flag 1 []]"
  by (rule late_reload_overwrites_newer)
    (simp_all add: EvalCache_fetchAllFlags_def container_of_def new_EvalCache_def)

end
