(* ===== verification/Flagr_Eval.thy ===== *)
theory Flagr_Eval
  imports Flagr_Cache "HOL-Library.List_Lexorder" "HOL-Library.Char_ord"
begin

text \<open>
  \<^verbatim>\<open>pkg/handler/eval.go\<close>: the evaluation of a flag for an entity, single and batch, with
  what it logs and records. The environment record holds what the evaluation reads and does not
  change (configuration, the cache as one request sees it, the conversions and the constraint
  language, and the streams of random numbers, times and rate limiter answers); the state record
  counts how far each stream was read and collects the observable effects.
\<close>

section \<open>Requests and results\<close>

record eval_context =
  EC_EnableDebug :: bool
  EC_EntityContext :: goval
  EC_EntityID :: string
  EC_EntityType :: string
  EC_FlagID :: i64
  EC_FlagKey :: string
  EC_FlagTags :: "string list"
  EC_FlagTagsOperator :: "string option"

record segment_debug_log =
  SDL_Msg :: string
  SDL_SegmentID :: i64

text \<open>The nil slice of segment logs, which prints as \<^verbatim>\<open>null\<close>, is \<^const>\<open>None\<close>.\<close>

record eval_debug_log =
  EDL_Msg :: string
  EDL_SegmentDebugLogs :: "segment_debug_log list option"

text \<open>The attachment of a result is an interface value: nil, or a (possibly nil) attachment map.\<close>

record eval_result =
  ER_EvalContext :: eval_context
  ER_EvalDebugLog :: eval_debug_log
  ER_FlagID :: i64
  ER_FlagKey :: string
  ER_FlagSnapshotID :: i64
  ER_FlagTags :: "string list"
  ER_SegmentID :: i64
  ER_Timestamp :: string
  ER_VariantAttachment :: "attachment option"
  ER_VariantID :: i64
  ER_VariantKey :: string

record evaluation_entity =
  EE_EntityContext :: goval
  EE_EntityID :: string
  EE_EntityType :: string

record evaluation_batch_request =
  EBR_EnableDebug :: bool
  EBR_Entities :: "evaluation_entity option list"
  EBR_FlagIDs :: "i64 list"
  EBR_FlagKeys :: "string list"
  EBR_FlagTags :: "string list"
  EBR_FlagTagsOperator :: "string option"

section \<open>Environment, state and effects\<close>

datatype eval_event =
    ConsoleLog eval_result
  | StatsdIncr string "string list"
  | EvalCounterInc "string list"
  | AsyncRecord eval_result

record 'e eval_env =
  env_Config :: config
  env_cast :: cast_lib
  env_cond :: "'e cond_lib"
  env_cache :: "'e cacheContainer"
  env_StatsdClient :: bool
  env_Prometheus :: prometheusMetrics
  env_Int31 :: "nat \<Rightarrow> nat"
  env_TimeNow :: "nat \<Rightarrow> string"
  env_Limit :: "u64 \<Rightarrow> nat \<Rightarrow> bool"

record eval_state =
  rand_calls :: nat
  time_calls :: nat
  limit_calls :: nat
  events :: "eval_event list"

definition initial_eval_state :: eval_state where
  "initial_eval_state = \<lparr>rand_calls = 0, time_calls = 0, limit_calls = 0, events = []\<rparr>"

definition emit :: "eval_event \<Rightarrow> eval_state \<Rightarrow> eval_state" where
  "emit e st = st\<lparr>events := events st @ [e]\<rparr>"

section \<open>Printing\<close>

text \<open>
  \<^verbatim>\<open>%+v\<close> of a decoded JSON value: maps print with their keys in order. The typed arguments
  of \<^verbatim>\<open>cast\<close> are not decoded values; they print as what they hold.
\<close>

fun fmt_v :: "goval \<Rightarrow> string" where
  "fmt_v VNil = ''<nil>''"
| "fmt_v (VBool b) = (if b then ''true'' else ''false'')"
| "fmt_v (VNumber s) = s"
| "fmt_v (VString s) = s"
| "fmt_v (VSlice vs) = ''['' @ join '' '' (map fmt_v vs) @ '']''"
| "fmt_v (VMap m) = ''map['' @
     join '' '' (map (\<lambda>(k, s). k @ '':'' @ s) (sort_key fst (map (\<lambda>(k, v). (k, fmt_v v)) m))) @ '']''"
| "fmt_v (VUint n) = dec_uint n"
| "fmt_v (VInt64 n) = dec_int n"
| "fmt_v (VPtrString p) = (case p of None \<Rightarrow> ''<nil>'' | Some s \<Rightarrow> s)"
| "fmt_v (VPtrInt64 p) = (case p of None \<Rightarrow> ''<nil>'' | Some n \<Rightarrow> dec_int n)"

definition debugConstraintMsg ::
  "'e cond_lib \<Rightarrow> bool \<Rightarrow> 'e option \<Rightarrow> (string \<times> goval) list \<Rightarrow> string" where
  "debugConstraintMsg L enableDebug expr m =
     (if \<not> enableDebug then []
      else ''constraint not match. constraint: '' @ cond_String L expr @ '', entity_context: '' @
        fmt_v (VMap m) @ ''.'')"

section \<open>One segment\<close>

text \<open>The variant if the entity is rolled in, the log, and whether to go on with the next segment.\<close>

definition evalSegment ::
  "'e cond_lib \<Rightarrow> u64 \<Rightarrow> eval_context \<Rightarrow> 'e segment \<Rightarrow> (u64 option \<times> segment_debug_log \<times> bool) go" where
  "evalSegment L flagID evalContext segment =
     (let log = (\<lambda>msg. \<lparr>SDL_Msg = msg, SDL_SegmentID = int64_of_uint (segment_ID segment)\<rparr>);
          rollout =
            sum_bind (Rollout (DistributionArray (SegmentEvaluation segment))
                (EC_EntityID evalContext) (dec_uint flagID) (Segment_RolloutPercent segment))
              (\<lambda>(vID, debugMsg). Inr (vID, log (''matched all constraints. '' @ debugMsg), False))
      in if Segment_Constraints segment \<noteq> [] then
           (case EC_EntityContext evalContext of
              VMap m \<Rightarrow>
                (let expr = ConditionsExpr (SegmentEvaluation segment) in
                 case cond_Evaluate L expr m of
                   Inl err \<Rightarrow> Inr (None, log err, True)
                 | Inr match \<Rightarrow>
                     if \<not> match
                     then Inr (None, log (debugConstraintMsg L (EC_EnableDebug evalContext) expr m), True)
                     else rollout)
            | _ \<Rightarrow>
                Inr (None, log (''constraints are present in the segment_id '' @
                  dec_uint (segment_ID segment) @ '', but got invalid entity_context: '' @
                  spew_Sdump L (EC_EntityContext evalContext) @ ''.''), True))
         else rollout)"

section \<open>One flag\<close>

definition BlankResult ::
  "'e eval_env \<Rightarrow> 'e flag option \<Rightarrow> eval_context \<Rightarrow> string \<Rightarrow> eval_state \<Rightarrow> eval_result \<times> eval_state" where
  "BlankResult env f evalContext msg st =
     (\<lparr>ER_EvalContext = evalContext,
       ER_EvalDebugLog = \<lparr>EDL_Msg = msg, EDL_SegmentDebugLogs = None\<rparr>,
       ER_FlagID = int64_of_uint (case f of None \<Rightarrow> 0 | Some f \<Rightarrow> flag_ID f),
       ER_FlagKey = (case f of None \<Rightarrow> [] | Some f \<Rightarrow> Flag_Key f),
       ER_FlagSnapshotID = int64_of_uint (case f of None \<Rightarrow> 0 | Some f \<Rightarrow> Flag_SnapshotID f),
       ER_FlagTags = (case f of None \<Rightarrow> [] | Some f \<Rightarrow> map Tag_Value (Flag_Tags f)),
       ER_SegmentID = 0,
       ER_Timestamp = env_TimeNow env (time_calls st),
       ER_VariantAttachment = None, ER_VariantID = 0, ER_VariantKey = []\<rparr>,
      st\<lparr>time_calls := Suc (time_calls st)\<rparr>)"

definition rateLimitPerFlagConsoleLogging ::
  "'e eval_env \<Rightarrow> eval_result \<Rightarrow> eval_state \<Rightarrow> eval_state" where
  "rateLimitPerFlagConsoleLogging env r st =
     (let flagID = SafeUint (env_cast env) (VInt64 (ER_FlagID r));
          st' = st\<lparr>limit_calls := Suc (limit_calls st)\<rparr>
      in if \<not> env_Limit env flagID (limit_calls st) then emit (ConsoleLog r) st' else st')"

definition logEvalResultToDatadog :: "'e eval_env \<Rightarrow> eval_result \<Rightarrow> eval_state \<Rightarrow> eval_state" where
  "logEvalResultToDatadog env r st =
     (let C = env_cast env in
      if \<not> env_StatsdClient env then st
      else emit (StatsdIncr ''evaluation''
        [''FlagID:'' @ dec_uint (SafeUint C (VInt64 (ER_FlagID r))),
         ''VariantID:'' @ dec_uint (SafeUint C (VInt64 (ER_VariantID r))),
         ''VariantKey:'' @ SafeStringWithDefault C (VString (ER_VariantKey r)) ''null'']) st)"

definition logEvalResultToPrometheus :: "'e eval_env \<Rightarrow> eval_result \<Rightarrow> eval_state \<Rightarrow> eval_state" where
  "logEvalResultToPrometheus env r st =
     (let C = env_cast env in
      if \<not> EvalCounter (env_Prometheus env) then st
      else emit (EvalCounterInc
        [SafeStringWithDefault C (VString (EC_EntityType (ER_EvalContext r))) ''null'',
         SafeStringWithDefault C (VInt64 (ER_FlagID r)) ''null'',
         SafeStringWithDefault C (VString (ER_FlagKey r)) ''null'',
         SafeStringWithDefault C (VInt64 (ER_VariantID r)) ''null'',
         SafeStringWithDefault C (VString (ER_VariantKey r)) ''null'']) st)"

definition logEvalResult :: "'e eval_env \<Rightarrow> eval_result \<Rightarrow> bool \<Rightarrow> eval_state \<Rightarrow> eval_state" where
  "logEvalResult env r dataRecordsEnabled st =
     (let cfg = env_Config env;
          st1 = (if EvalLoggingEnabled (the_eval cfg)
                 then rateLimitPerFlagConsoleLogging env r st else st);
          st2 = logEvalResultToDatadog env r st1;
          st3 = logEvalResultToPrometheus env r st2
      in if \<not> RecorderEnabled (the_recorder cfg) \<or> \<not> dataRecordsEnabled then st3
         else emit (AsyncRecord r) st3)"

text \<open>
  The loop over the segments carries the variant so far, the id of the segment looked at last,
  and the logs.
\<close>

fun eval_segments ::
  "'e cond_lib \<Rightarrow> bool \<Rightarrow> u64 \<Rightarrow> eval_context \<Rightarrow> 'e segment list \<Rightarrow>
    i64 \<times> i64 \<times> segment_debug_log list \<Rightarrow> (i64 \<times> i64 \<times> segment_debug_log list) go" where
  "eval_segments L debug flagID evalContext [] (vID, sID, logs) = Inr (vID, sID, logs)"
| "eval_segments L debug flagID evalContext (segment # segments) (vID, sID, logs) =
     sum_bind (evalSegment L flagID evalContext segment) (\<lambda>(variantID, log, evalNextSegment).
       let sID' = int64_of_uint (segment_ID segment);
           logs' = (if debug \<and> EC_EnableDebug evalContext then logs @ [log] else logs);
           vID' = (case variantID of None \<Rightarrow> vID | Some v \<Rightarrow> int64_of_uint v)
       in if \<not> evalNextSegment then Inr (vID', sID', logs')
          else eval_segments L debug flagID evalContext segments (vID', sID', logs'))"

text \<open>The id an entity is evaluated under: its own, or a random one when it has none.\<close>

definition effective_entityID :: "'e eval_env \<Rightarrow> eval_context \<Rightarrow> eval_state \<Rightarrow> string" where
  "effective_entityID env evalContext st =
     (if EC_EntityID evalContext = []
      then ''randomly_generated_'' @ dec (env_Int31 env (rand_calls st)) else EC_EntityID evalContext)"

definition effective_context :: "'e eval_env \<Rightarrow> 'e flag \<Rightarrow> eval_context \<Rightarrow> eval_state \<Rightarrow> eval_context" where
  "effective_context env f evalContext st =
     (let ec1 = evalContext\<lparr>EC_EntityID := effective_entityID env evalContext st\<rparr>
      in if Flag_EntityType f \<noteq> [] then ec1\<lparr>EC_EntityType := Flag_EntityType f\<rparr> else ec1)"

definition draw_entityID :: "eval_context \<Rightarrow> eval_state \<Rightarrow> eval_state" where
  "draw_entityID evalContext st =
     (if EC_EntityID evalContext = [] then st\<lparr>rand_calls := Suc (rand_calls st)\<rparr> else st)"

text \<open>The result made from what the loop over the segments found, logged and recorded.\<close>

definition result_of ::
  "'e eval_env \<Rightarrow> 'e flag \<Rightarrow> eval_context \<Rightarrow> i64 \<times> i64 \<times> segment_debug_log list \<Rightarrow> eval_state \<Rightarrow>
    eval_result \<times> eval_state" where
  "result_of env f evalContext = (\<lambda>(vID, sID, logs) st.
     let (r0, st2) = BlankResult env (Some f) evalContext [] st;
         r1 = r0\<lparr>ER_EvalDebugLog := (ER_EvalDebugLog r0)\<lparr>EDL_SegmentDebugLogs := Some logs\<rparr>,
                 ER_SegmentID := sID, ER_VariantID := vID\<rparr>;
         r2 = (case map_of (VariantsMap (FlagEvaluation f)) (SafeUint (env_cast env) (VInt64 vID)) of
                 None \<Rightarrow> r1
               | Some v \<Rightarrow> r1\<lparr>ER_VariantAttachment := Some (Variant_Attachment v),
                              ER_VariantKey := Variant_Key v\<rparr>)
     in (r2, logEvalResult env r2 (Flag_DataRecordsEnabled f) st2))"

definition EvalFlagWithContext ::
  "'e eval_env \<Rightarrow> 'e flag option \<Rightarrow> eval_context \<Rightarrow> eval_state \<Rightarrow> (eval_result \<times> eval_state) go" where
  "EvalFlagWithContext env flag evalContext st =
     (let C = env_cast env;
          flagID = SafeUint C (VInt64 (EC_FlagID evalContext));
          flagKey = SafeString C (VString (EC_FlagKey evalContext))
      in case flag of
           None \<Rightarrow>
             (let emptyFlag = zero_flag\<lparr>Flag_Model := zero_model\<lparr>Model_ID := flagID\<rparr>, Flag_Key := flagKey\<rparr>
              in Inr (BlankResult env (Some emptyFlag) evalContext
                   (''flagID '' @ dec_uint flagID @ '' not found or deleted'') st))
         | Some f \<Rightarrow>
             if \<not> Flag_Enabled f then
               Inr (BlankResult env (Some f) evalContext
                 (''flagID '' @ dec_uint (flag_ID f) @ '' is not enabled'') st)
             else if Flag_Segments f = [] then
               Inr (BlankResult env (Some f) evalContext
                 (''flagID '' @ dec_uint (flag_ID f) @ '' has no segments'') st)
             else
               let evalContext' = effective_context env f evalContext st;
                   st1 = draw_entityID evalContext st
               in sum_bind (eval_segments (env_cond env) (EvalDebugEnabled (the_eval (env_Config env)))
                    (flag_ID f) evalContext' (Flag_Segments f) (0, 0, []))
                  (\<lambda>out. Inr (result_of env f evalContext' out st1)))"

definition LookupFlag :: "'e eval_env \<Rightarrow> eval_context \<Rightarrow> 'e flag option" where
  "LookupFlag env evalContext =
     (let C = env_cast env;
          flagID = SafeUint C (VInt64 (EC_FlagID evalContext));
          flagKey = SafeString C (VString (EC_FlagKey evalContext))
      in case GetByFlagKeyOrID C (env_cache env) (VUint flagID) of
           None \<Rightarrow> GetByFlagKeyOrID C (env_cache env) (VString flagKey)
         | Some f \<Rightarrow> Some f)"

definition EvalFlag ::
  "'e eval_env \<Rightarrow> eval_context \<Rightarrow> eval_state \<Rightarrow> (eval_result \<times> eval_state) go" where
  "EvalFlag env evalContext st = EvalFlagWithContext env (LookupFlag env evalContext) evalContext st"

text \<open>Running a list of evaluations one after the other, as the loops that append results do.\<close>

fun eval_each ::
  "('a \<Rightarrow> eval_state \<Rightarrow> (eval_result \<times> eval_state) go) \<Rightarrow> 'a list \<Rightarrow> eval_state \<Rightarrow>
    (eval_result list \<times> eval_state) go" where
  "eval_each ev [] st = Inr ([], st)"
| "eval_each ev (x # xs) st =
     sum_bind (ev x st) (\<lambda>(r, st1). sum_bind (eval_each ev xs st1) (\<lambda>(rs, st2). Inr (r # rs, st2)))"

definition EvalFlagsByTags ::
  "'e eval_env \<Rightarrow> eval_context \<Rightarrow> eval_state \<Rightarrow> (eval_result list \<times> eval_state) go" where
  "EvalFlagsByTags env evalContext st =
     eval_each (\<lambda>f. EvalFlagWithContext env (Some f) evalContext)
       (GetByTags (env_cache env) (EC_FlagTags evalContext) (EC_FlagTagsOperator evalContext)) st"

section \<open>The two endpoints\<close>

datatype evaluation_response =
    PostEvaluationDefault nat string
  | PostEvaluationOK eval_result

datatype evaluation_batch_response =
    PostEvaluationBatchDefault nat string
  | PostEvaluationBatchOK "eval_result list"

definition PostEvaluation ::
  "'e eval_env \<Rightarrow> eval_context option \<Rightarrow> eval_state \<Rightarrow> (evaluation_response \<times> eval_state) go" where
  "PostEvaluation env body st =
     (case body of
        None \<Rightarrow> Inr (PostEvaluationDefault 400 ''empty body'', st)
      | Some evalContext \<Rightarrow>
          sum_bind (EvalFlag env evalContext st) (\<lambda>(evalResult, st').
            Inr (PostEvaluationOK evalResult, st')))"

text \<open>The loop that removes duplicates: \<open>seen\<close> is the set of what was met, \<open>unique\<close> the output.\<close>

fun dedup_loop :: "'a list \<Rightarrow> 'a list \<Rightarrow> 'a list \<Rightarrow> 'a list" where
  "dedup_loop seen unique [] = unique"
| "dedup_loop seen unique (k # ks) =
     (if k \<notin> set seen then dedup_loop (k # seen) (unique @ [k]) ks
      else dedup_loop seen unique ks)"

definition dedup :: "'a list \<Rightarrow> 'a list" where
  "dedup ks = (if length ks > 1 then dedup_loop [] [] ks else ks)"

definition batch_total :: "evaluation_batch_request \<Rightarrow> int" where
  "batch_total body =
     (let flagsPerEntity = length (dedup (EBR_FlagIDs body)) + length (dedup (EBR_FlagKeys body));
          flagsPerEntity' = (if EBR_FlagTags body \<noteq> [] then flagsPerEntity + 1 else flagsPerEntity)
      in int (length (EBR_Entities body) * flagsPerEntity'))"

text \<open>The context of one evaluation of the batch: the entity's part and the debug switch.\<close>

definition batch_context :: "evaluation_batch_request \<Rightarrow> evaluation_entity \<Rightarrow> eval_context" where
  "batch_context body entity =
     \<lparr>EC_EnableDebug = EBR_EnableDebug body, EC_EntityContext = EE_EntityContext entity,
      EC_EntityID = EE_EntityID entity, EC_EntityType = EE_EntityType entity,
      EC_FlagID = 0, EC_FlagKey = [], EC_FlagTags = [], EC_FlagTagsOperator = None\<rparr>"

text \<open>
  The body of the loop over the entities. A nil entity is dereferenced by the first evaluation
  that is made for it, and by none if there is nothing to evaluate.
\<close>

definition eval_entity ::
  "'e eval_env \<Rightarrow> evaluation_batch_request \<Rightarrow> evaluation_entity option \<Rightarrow> eval_state \<Rightarrow>
    (eval_result list \<times> eval_state) go" where
  "eval_entity env body entity st =
     (let flagIDs = dedup (EBR_FlagIDs body); flagKeys = dedup (EBR_FlagKeys body) in
      case entity of
        None \<Rightarrow> (if EBR_FlagTags body \<noteq> [] \<or> flagIDs \<noteq> [] \<or> flagKeys \<noteq> []
                 then Inl NilDeref else Inr ([], st))
      | Some e \<Rightarrow>
          let ctx = batch_context body e in
          sum_bind
            (if EBR_FlagTags body \<noteq> []
             then EvalFlagsByTags env (ctx\<lparr>EC_FlagTags := EBR_FlagTags body,
                    EC_FlagTagsOperator := EBR_FlagTagsOperator body\<rparr>) st
             else Inr ([], st)) (\<lambda>(rs1, st1).
          sum_bind (eval_each (\<lambda>flagID. EvalFlag env (ctx\<lparr>EC_FlagID := flagID\<rparr>)) flagIDs st1)
            (\<lambda>(rs2, st2).
          sum_bind (eval_each (\<lambda>flagKey. EvalFlag env (ctx\<lparr>EC_FlagKey := flagKey\<rparr>)) flagKeys st2)
            (\<lambda>(rs3, st3).
          Inr (rs1 @ rs2 @ rs3, st3)))))"

fun eval_entities ::
  "'e eval_env \<Rightarrow> evaluation_batch_request \<Rightarrow> evaluation_entity option list \<Rightarrow> eval_result list \<Rightarrow>
    eval_state \<Rightarrow> (eval_result list \<times> eval_state) go" where
  "eval_entities env body [] results st = Inr (results, st)"
| "eval_entities env body (e # es) results st =
     sum_bind (eval_entity env body e st) (\<lambda>(rs, st'). eval_entities env body es (results @ rs) st')"

definition PostEvaluationBatch ::
  "'e eval_env \<Rightarrow> evaluation_batch_request option \<Rightarrow> eval_state \<Rightarrow>
    (evaluation_batch_response \<times> eval_state) go" where
  "PostEvaluationBatch env params_Body st =
     (case params_Body of
        None \<Rightarrow> Inl NilDeref
      | Some body \<Rightarrow>
          let maxBatchSize = EvalBatchSize (the_eval (env_Config env)) in
          if maxBatchSize > 0 \<and> batch_total body > maxBatchSize then
            Inr (PostEvaluationBatchDefault 400 (''batch evaluation size '' @ dec (nat (batch_total body)) @
              '' exceeds maximum allowed size of '' @ dec (nat maxBatchSize)), st)
          else
            sum_bind (eval_entities env body (EBR_Entities body) [] st) (\<lambda>(results, st').
              Inr (PostEvaluationBatchOK results, st')))"

section \<open>The loops\<close>

lemma dedup_loop_spec:
  assumes "set seen = set unique" "distinct unique"
  shows "distinct (dedup_loop seen unique ks) \<and> set (dedup_loop seen unique ks) = set unique \<union> set ks \<and>
    (\<exists>ys. dedup_loop seen unique ks = unique @ ys \<and> subseq ys ks)"
  using assms
proof (induction ks arbitrary: seen unique)
  case Nil
  then show ?case by auto
next
  case (Cons k ks)
  show ?case
  proof (cases "k \<in> set seen")
    case True
    with Cons.IH [OF Cons.prems] Cons.prems show ?thesis by auto
  next
    case False
    then have "set (k # seen) = set (unique @ [k])" "distinct (unique @ [k])"
      using Cons.prems by auto
    from Cons.IH [OF this] False show ?thesis by fastforce
  qed
qed

lemma dedup_spec: "distinct (dedup ks)" "set (dedup ks) = set ks" "subseq (dedup ks) ks"
proof -
  have "distinct (dedup ks) \<and> set (dedup ks) = set ks \<and> subseq (dedup ks) ks"
  proof (cases "length ks > 1")
    case True
    then show ?thesis using dedup_loop_spec [of "[]" "[]" ks] by (auto simp: dedup_def)
  next
    case False
    then have "ks = [] \<or> (\<exists>k. ks = [k])" by (cases ks) auto
    then show ?thesis by (auto simp: dedup_def)
  qed
  then show "distinct (dedup ks)" "set (dedup ks) = set ks" "subseq (dedup ks) ks" by auto
qed

lemma eval_each_length: "eval_each ev xs st = Inr (rs, st') \<Longrightarrow> length rs = length xs"
  by (induction xs arbitrary: st rs) (auto simp: sum_bind_eq_Inr_iff)

section \<open>What an evaluation is meant to answer\<close>

text \<open>
  The reference: the first segment, in order, whose constraints hold of the entity's context
  decides, by its rollout alone; the answer names its variant (0 for none) and the segment, or the
  last segment when no segment matches.
\<close>

definition segment_matches :: "'e cond_lib \<Rightarrow> goval \<Rightarrow> 'e segment \<Rightarrow> bool" where
  "segment_matches L entityContext s \<longleftrightarrow>
     Segment_Constraints s = [] \<or>
     (case entityContext of
        VMap m \<Rightarrow> cond_Evaluate L (ConditionsExpr (SegmentEvaluation s)) m = Inr True | _ \<Rightarrow> False)"

definition segment_rollout :: "u64 \<Rightarrow> string \<Rightarrow> 'e segment \<Rightarrow> (u64 option \<times> string) go" where
  "segment_rollout flagID entityID s =
     Rollout (DistributionArray (SegmentEvaluation s)) entityID (dec_uint flagID) (Segment_RolloutPercent s)"

definition variant_answer :: "u64 option \<Rightarrow> i64" where
  "variant_answer v = (case v of None \<Rightarrow> 0 | Some i \<Rightarrow> int64_of_uint i)"

definition flag_decision :: "'e cond_lib \<Rightarrow> 'e flag \<Rightarrow> string \<Rightarrow> goval \<Rightarrow> (i64 \<times> i64) go" where
  "flag_decision L f entityID entityContext =
     (case List.find (segment_matches L entityContext) (Flag_Segments f) of
        None \<Rightarrow> Inr (0, int64_of_uint (segment_ID (last (Flag_Segments f))))
      | Some s \<Rightarrow> sum_bind (segment_rollout (flag_ID f) entityID s) (\<lambda>(v, _).
          Inr (variant_answer v, int64_of_uint (segment_ID s))))"

text \<open>The answer with the variant's key and attachment, looked up by the variant id.\<close>

definition flag_answer ::
  "cast_lib \<Rightarrow> 'e cond_lib \<Rightarrow> 'e flag \<Rightarrow> string \<Rightarrow> goval \<Rightarrow>
    (i64 \<times> i64 \<times> string \<times> attachment option) go" where
  "flag_answer C L f entityID entityContext =
     sum_bind (flag_decision L f entityID entityContext) (\<lambda>(vID, sID).
       case map_of (VariantsMap (FlagEvaluation f)) (SafeUint C (VInt64 vID)) of
         None \<Rightarrow> Inr (vID, sID, [], None)
       | Some v \<Rightarrow> Inr (vID, sID, Variant_Key v, Some (Variant_Attachment v)))"

definition answer :: "eval_result \<Rightarrow> i64 \<times> i64 \<times> string \<times> attachment option" where
  "answer r = (ER_VariantID r, ER_SegmentID r, ER_VariantKey r, ER_VariantAttachment r)"

lemma evalSegment_match:
  assumes "segment_matches L (EC_EntityContext ctx) s"
  shows "evalSegment L flagID ctx s =
    sum_bind (segment_rollout flagID (EC_EntityID ctx) s) (\<lambda>(vID, msg).
      Inr (vID, \<lparr>SDL_Msg = ''matched all constraints. '' @ msg,
                 SDL_SegmentID = int64_of_uint (segment_ID s)\<rparr>, False))"
  using assms
  by (auto simp: evalSegment_def segment_matches_def segment_rollout_def Let_def split: goval.splits)

lemma evalSegment_no_match:
  assumes "\<not> segment_matches L (EC_EntityContext ctx) s"
  shows "\<exists>msg. evalSegment L flagID ctx s =
    Inr (None, \<lparr>SDL_Msg = msg, SDL_SegmentID = int64_of_uint (segment_ID s)\<rparr>, True)"
  using assms
  by (auto simp: evalSegment_def segment_matches_def Let_def split: goval.splits sum.splits)

definition logged :: "bool \<Rightarrow> eval_context \<Rightarrow> segment_debug_log \<Rightarrow> segment_debug_log list" where
  "logged debug ctx log = (if debug \<and> EC_EnableDebug ctx then [log] else [])"

lemma eval_segments_find:
  "case List.find (segment_matches L (EC_EntityContext ctx)) ss of
     None \<Rightarrow> \<exists>logs'. eval_segments L debug flagID ctx ss (v, sID, logs) =
       Inr (v, if ss = [] then sID else int64_of_uint (segment_ID (last ss)), logs')
   | Some s \<Rightarrow> (case segment_rollout flagID (EC_EntityID ctx) s of
       Inl p \<Rightarrow> eval_segments L debug flagID ctx ss (v, sID, logs) = Inl p
     | Inr (w, _) \<Rightarrow> \<exists>logs'. eval_segments L debug flagID ctx ss (v, sID, logs) =
         Inr (if w = None then v else variant_answer w, int64_of_uint (segment_ID s), logs'))"
proof (induction ss arbitrary: sID logs)
  case Nil
  then show ?case by simp
next
  case (Cons s ss)
  show ?case
  proof (cases "segment_matches L (EC_EntityContext ctx) s")
    case True
    then show ?thesis
      by (auto simp: evalSegment_match variant_answer_def Let_def split: sum.splits prod.splits option.splits)
  next
    case False
    then obtain msg where "evalSegment L flagID ctx s =
      Inr (None, \<lparr>SDL_Msg = msg, SDL_SegmentID = int64_of_uint (segment_ID s)\<rparr>, True)"
      using evalSegment_no_match by blast
    then have step: "\<exists>logs1. eval_segments L debug flagID ctx (s # ss) (v, sID, logs) =
      eval_segments L debug flagID ctx ss (v, int64_of_uint (segment_ID s), logs1)"
      by (simp add: Let_def split del: if_split) (rule exI, rule refl)
    then obtain logs1 where eq: "eval_segments L debug flagID ctx (s # ss) (v, sID, logs) =
      eval_segments L debug flagID ctx ss (v, int64_of_uint (segment_ID s), logs1)" by blast
    show ?thesis
      unfolding eq using False Cons.IH [of "int64_of_uint (segment_ID s)" logs1]
      by (cases "ss = []") (auto split: option.splits)
  qed
qed

lemma eval_segments_decision:
  assumes "Flag_Segments f \<noteq> []"
  shows "case flag_decision L f (EC_EntityID ctx) (EC_EntityContext ctx) of
      Inl p \<Rightarrow> eval_segments L debug (flag_ID f) ctx (Flag_Segments f) (0, 0, []) = Inl p
    | Inr (vID, sID) \<Rightarrow> \<exists>logs. eval_segments L debug (flag_ID f) ctx (Flag_Segments f) (0, 0, []) =
        Inr (vID, sID, logs)"
  using eval_segments_find [of L debug "flag_ID f" ctx "Flag_Segments f" 0 0 "[]"] assms
  by (auto simp: flag_decision_def variant_answer_def split: option.splits sum.splits prod.splits if_splits)

lemma effective_context_sel [simp]:
  "EC_EntityID (effective_context env f ctx st) = effective_entityID env ctx st"
  "EC_EntityContext (effective_context env f ctx st) = EC_EntityContext ctx"
  by (simp_all add: effective_context_def effective_entityID_def Let_def)

lemma EvalFlagWithContext_enabled:
  assumes "Flag_Enabled f" "Flag_Segments f \<noteq> []"
  shows "EvalFlagWithContext env (Some f) ctx st =
    sum_bind (eval_segments (env_cond env) (EvalDebugEnabled (the_eval (env_Config env))) (flag_ID f)
        (effective_context env f ctx st) (Flag_Segments f) (0, 0, []))
      (\<lambda>out. Inr (result_of env f (effective_context env f ctx st) out (draw_entityID ctx st)))"
  using assms by (simp add: EvalFlagWithContext_def Let_def)

lemma result_of_answer:
  "answer (fst (result_of env f ctx (vID, sID, logs) st)) =
    (case map_of (VariantsMap (FlagEvaluation f)) (SafeUint (env_cast env) (VInt64 vID)) of
       None \<Rightarrow> (vID, sID, [], None)
     | Some v \<Rightarrow> (vID, sID, Variant_Key v, Some (Variant_Attachment v)))"
  by (simp add: result_of_def BlankResult_def answer_def Let_def split: option.splits)

lemma EvalFlagWithContext_answer:
  assumes "Flag_Enabled f" "Flag_Segments f \<noteq> []"
  shows "map_sum id (\<lambda>(r, _). answer r) (EvalFlagWithContext env (Some f) ctx st) =
    flag_answer (env_cast env) (env_cond env) f (effective_entityID env ctx st) (EC_EntityContext ctx)"
  using eval_segments_decision [OF assms(2), of "env_cond env" "EvalDebugEnabled (the_eval (env_Config env))"
      "effective_context env f ctx st"]
  by (auto simp: EvalFlagWithContext_enabled [OF assms] flag_answer_def case_prod_beta
      result_of_answer split: sum.splits option.splits)

lemma BlankResult_answer: "answer (fst (BlankResult env f ctx msg st)) = (0, 0, [], None)"
  by (simp add: BlankResult_def answer_def)

section \<open>Flags that were prepared from sound ones\<close>

text \<open>A flag as the handlers maintain it: every segment has no distributions yet or distributions
  that add up to 100 percent, or 200, and a rollout percentage of at most 100.\<close>

definition sound_segment :: "'e segment \<Rightarrow> bool" where
  "sound_segment s \<longleftrightarrow> sound_distributions (Segment_Distributions s) \<and> unat (Segment_RolloutPercent s) \<le> 100"

definition sound_flag :: "'e flag \<Rightarrow> bool" where
  "sound_flag f \<longleftrightarrow> list_all sound_segment (Flag_Segments f)"

lemma Segment_PrepareEvaluation_Inr:
  assumes "Segment_PrepareEvaluation L s = Inr s'"
  shows "Segment_Model s' = Segment_Model s" "Segment_Constraints s' = Segment_Constraints s"
    "Segment_Distributions s' = Segment_Distributions s"
    "Segment_RolloutPercent s' = Segment_RolloutPercent s"
    "DistributionArray (SegmentEvaluation s') = prepare_distributions (Segment_Distributions s)"
  using assms by (auto simp: Segment_PrepareEvaluation_def sum_bind_eq_Inr_iff split: if_splits)

lemma prepared_segment:
  assumes "Flag_PrepareEvaluation L f = Inr f'" "s' \<in> set (Flag_Segments f')"
  shows "\<exists>s \<in> set (Flag_Segments f). Segment_PrepareEvaluation L s = Inr s'"
proof -
  have "list_all2 (\<lambda>s s'. Segment_PrepareEvaluation L s = Inr s') (Flag_Segments f) (Flag_Segments f')"
    using assms(1) by (auto simp: Flag_PrepareEvaluation_def sum_bind_eq_Inr_iff sum_mapM_Inr_iff)
  from list_all2_in_right [OF this assms(2)] show ?thesis .
qed

lemma variant_answer_nonzero: "variant_answer v \<noteq> 0 \<Longrightarrow> \<exists>i. v = Some i \<and> variant_answer v = int64_of_uint i"
  by (auto simp: variant_answer_def split: option.splits)

lemma flag_decision_sound:
  assumes "Flag_PrepareEvaluation L f0 = Inr f" "sound_flag f0"
  shows "\<exists>vID sID. flag_decision L f entityID x = Inr (vID, sID) \<and>
    (vID \<noteq> 0 \<longrightarrow> (\<exists>s \<in> set (Flag_Segments f0). sID = int64_of_uint (segment_ID s) \<and>
      (\<exists>d \<in> set (Segment_Distributions s).
        vID = int64_of_uint (Distribution_VariantID d) \<and> Distribution_Percent d \<noteq> 0)))"
proof (cases "List.find (segment_matches L x) (Flag_Segments f)")
  case None
  then show ?thesis by (simp add: flag_decision_def)
next
  case (Some s')
  then have "s' \<in> set (Flag_Segments f)" by (metis find_Some_iff nth_mem)
  then obtain s where s: "s \<in> set (Flag_Segments f0)" "Segment_PrepareEvaluation L s = Inr s'"
    using prepared_segment [OF assms(1)] by blast
  note prep = Segment_PrepareEvaluation_Inr [OF s(2)]
  have sound: "sound_distributions (Segment_Distributions s)" "unat (Segment_RolloutPercent s) \<le> 100"
    using assms(2) s(1) by (auto simp: sound_flag_def list_all_iff sound_segment_def)
  obtain v m where r: "segment_rollout (flag_ID f) entityID s' = Inr (v, m)"
    using Rollout_sound [OF sound, of entityID "dec_uint (flag_ID f)"] by (auto simp: segment_rollout_def prep)
  have "\<exists>d \<in> set (Segment_Distributions s).
      variant_answer v = int64_of_uint (Distribution_VariantID d) \<and> Distribution_Percent d \<noteq> 0"
    if nz: "variant_answer v \<noteq> 0"
  proof -
    obtain i where i: "v = Some i" "variant_answer v = int64_of_uint i"
      using variant_answer_nonzero [OF nz] by blast
    then show ?thesis
      using Rollout_Some_configured [OF sound_distributions_small [OF sound(1)] sound(2)] r
      by (simp add: segment_rollout_def prep) blast
  qed
  with Some r s(1) prep(1) show ?thesis by (auto simp: flag_decision_def)
qed

lemma EvalFlagWithContext_blank:
  assumes "f = None \<or> (\<exists>g. f = Some g \<and> (\<not> Flag_Enabled g \<or> Flag_Segments g = []))"
  shows "\<exists>g msg. EvalFlagWithContext env f ctx st = Inr (BlankResult env (Some g) ctx msg st) \<and>
    (case f of None \<Rightarrow> flag_ID g = SafeUint (env_cast env) (VInt64 (EC_FlagID ctx)) | Some h \<Rightarrow> g = h)"
proof (cases f)
  case None
  show ?thesis
    unfolding None EvalFlagWithContext_def Let_def option.case
    by (rule exI, rule exI, rule conjI, rule refl) simp
next
  case (Some g)
  show ?thesis
  proof (cases "Flag_Enabled g")
    case True
    with assms Some show ?thesis by (auto simp: EvalFlagWithContext_def Let_def)
  next
    case False
    with Some show ?thesis by (auto simp: EvalFlagWithContext_def Let_def)
  qed
qed

lemma EvalFlagWithContext_total:
  assumes "\<And>g. f = Some g \<Longrightarrow> \<exists>f0. Flag_PrepareEvaluation (env_cond env) f0 = Inr g \<and> sound_flag f0"
  shows "\<exists>r st'. EvalFlagWithContext env f ctx st = Inr (r, st')"
proof (cases "f = None \<or> (\<exists>g. f = Some g \<and> (\<not> Flag_Enabled g \<or> Flag_Segments g = []))")
  case True
  from EvalFlagWithContext_blank [OF this] show ?thesis by (metis surj_pair)
next
  case False
  then obtain g where g: "f = Some g" "Flag_Enabled g" "Flag_Segments g \<noteq> []" by auto
  obtain f0 where "Flag_PrepareEvaluation (env_cond env) f0 = Inr g" "sound_flag f0"
    using assms [OF g(1)] by blast
  from flag_decision_sound [OF this]
  obtain vID sID where d: "flag_decision (env_cond env) g (effective_entityID env ctx st) (EC_EntityContext ctx) =
    Inr (vID, sID)" by blast
  have "\<exists>a. flag_answer (env_cast env) (env_cond env) g (effective_entityID env ctx st) (EC_EntityContext ctx) = Inr a"
    using d by (auto simp: flag_answer_def split: option.splits)
  with EvalFlagWithContext_answer [OF g(2,3), of env ctx st] show ?thesis
    unfolding g(1) by (cases "EvalFlagWithContext env (Some g) ctx st") auto
qed

section \<open>What is logged and recorded\<close>

lemma BlankResult_state: "snd (BlankResult env f ctx msg st) = st\<lparr>time_calls := Suc (time_calls st)\<rparr>"
  by (simp add: BlankResult_def)

lemma logEvalResult_events:
  "\<exists>console. events (logEvalResult env r dataRecordsEnabled st) =
     events st @ console @
     (if env_StatsdClient env then [StatsdIncr ''evaluation''
        [''FlagID:'' @ dec_uint (SafeUint (env_cast env) (VInt64 (ER_FlagID r))),
         ''VariantID:'' @ dec_uint (SafeUint (env_cast env) (VInt64 (ER_VariantID r))),
         ''VariantKey:'' @ SafeStringWithDefault (env_cast env) (VString (ER_VariantKey r)) ''null'']] else []) @
     (if EvalCounter (env_Prometheus env) then [EvalCounterInc
        [SafeStringWithDefault (env_cast env) (VString (EC_EntityType (ER_EvalContext r))) ''null'',
         SafeStringWithDefault (env_cast env) (VInt64 (ER_FlagID r)) ''null'',
         SafeStringWithDefault (env_cast env) (VString (ER_FlagKey r)) ''null'',
         SafeStringWithDefault (env_cast env) (VInt64 (ER_VariantID r)) ''null'',
         SafeStringWithDefault (env_cast env) (VString (ER_VariantKey r)) ''null'']] else []) @
     (if RecorderEnabled (the_recorder (env_Config env)) \<and> dataRecordsEnabled then [AsyncRecord r] else []) \<and>
     console = (if EvalLoggingEnabled (the_eval (env_Config env)) \<and>
       \<not> env_Limit env (SafeUint (env_cast env) (VInt64 (ER_FlagID r))) (limit_calls st)
       then [ConsoleLog r] else [])"
  by (simp add: logEvalResult_def logEvalResultToDatadog_def logEvalResultToPrometheus_def
      rateLimitPerFlagConsoleLogging_def emit_def Let_def)

lemma BlankResult_sel:
  "ER_FlagID (fst (BlankResult env (Some g) ctx msg st)) = int64_of_uint (flag_ID g)"
  "ER_FlagKey (fst (BlankResult env (Some g) ctx msg st)) = Flag_Key g"
  "ER_FlagSnapshotID (fst (BlankResult env (Some g) ctx msg st)) = int64_of_uint (Flag_SnapshotID g)"
  by (simp_all add: BlankResult_def)

lemma result_of_sel:
  "ER_FlagID (fst (result_of env g ctx out st)) = int64_of_uint (flag_ID g)"
  "ER_FlagKey (fst (result_of env g ctx out st)) = Flag_Key g"
  "ER_FlagSnapshotID (fst (result_of env g ctx out st)) = int64_of_uint (Flag_SnapshotID g)"
  by (simp_all add: result_of_def BlankResult_def Let_def case_prod_beta split: option.splits)

lemma result_of_events:
  "\<exists>st2. events st2 = events st \<and> limit_calls st2 = limit_calls st \<and>
    snd (result_of env g ctx out st) =
      logEvalResult env (fst (result_of env g ctx out st)) (Flag_DataRecordsEnabled g) st2"
  by (rule exI [of _ "st\<lparr>time_calls := Suc (time_calls st)\<rparr>"])
    (simp add: result_of_def BlankResult_def Let_def case_prod_beta)

lemma EvalFlagWithContext_events:
  assumes "Flag_Enabled f" "Flag_Segments f \<noteq> []"
    and "EvalFlagWithContext env (Some f) ctx st = Inr (r, st')"
  shows "\<exists>statsd prom. events st' = events st @
      (if EvalLoggingEnabled (the_eval (env_Config env)) \<and>
          \<not> env_Limit env (SafeUint (env_cast env) (VInt64 (int64_of_uint (flag_ID f)))) (limit_calls st)
       then [ConsoleLog r] else []) @
      (if env_StatsdClient env then [StatsdIncr ''evaluation'' statsd] else []) @
      (if EvalCounter (env_Prometheus env) then [EvalCounterInc prom] else []) @
      (if RecorderEnabled (the_recorder (env_Config env)) \<and> Flag_DataRecordsEnabled f
       then [AsyncRecord r] else [])"
proof -
  obtain out where out: "result_of env f (effective_context env f ctx st) out (draw_entityID ctx st) = (r, st')"
    using assms(3) unfolding EvalFlagWithContext_enabled [OF assms(1,2)] by (auto simp: sum_bind_eq_Inr_iff)
  have draw: "events (draw_entityID ctx st) = events st" "limit_calls (draw_entityID ctx st) = limit_calls st"
    by (simp_all add: draw_entityID_def)
  obtain st2 where st2: "events st2 = events st" "limit_calls st2 = limit_calls st"
    "st' = logEvalResult env r (Flag_DataRecordsEnabled f) st2"
    using result_of_events [of "draw_entityID ctx st" env f "effective_context env f ctx st" out]
    by (simp add: out draw) blast
  have "ER_FlagID r = int64_of_uint (flag_ID f)"
    using result_of_sel(1) [of env f "effective_context env f ctx st" out "draw_entityID ctx st"]
    by (simp add: out)
  then show ?thesis
    using logEvalResult_events [of env r "Flag_DataRecordsEnabled f" st2] unfolding st2 by auto
qed

section \<open>Examples for the witnesses\<close>

definition demo_env :: "string cacheContainer \<Rightarrow> config \<Rightarrow> string eval_env" where
  "demo_env c cfg = \<lparr>env_Config = cfg, env_cast = go_cast, env_cond = text_cond, env_cache = c,
     env_StatsdClient = False, env_Prometheus = no_metrics, env_Int31 = (\<lambda>n. 1000 + n),
     env_TimeNow = (\<lambda>_. ''2024-01-01T00:00:00Z''), env_Limit = (\<lambda>_ _. False)\<rparr>"

definition demo_flag0 :: "string flag" where
  "demo_flag0 = zero_flag\<lparr>Flag_Model := model_id 1, Flag_Key := ''demo'', Flag_Enabled := True,
     Flag_Segments := [zero_segment\<lparr>Segment_Model := model_id 5, Segment_RolloutPercent := 100,
       Segment_Distributions := [dist_of 7 100]\<rparr>],
     Flag_Variants := [zero_variant\<lparr>Variant_Model := model_id 7, Variant_Key := ''on''\<rparr>]\<rparr>"

definition demo_flag :: "string flag" where
  "demo_flag = (case Flag_PrepareEvaluation text_cond demo_flag0 of Inl _ \<Rightarrow> demo_flag0 | Inr f \<Rightarrow> f)"

definition demo_context :: eval_context where
  "demo_context = \<lparr>EC_EnableDebug = True, EC_EntityContext = VNil, EC_EntityID = ''a'', EC_EntityType = [],
     EC_FlagID = 1, EC_FlagKey = [], EC_FlagTags = [], EC_FlagTagsOperator = None\<rparr>"

lemma demo_prepared: "Flag_PrepareEvaluation text_cond demo_flag0 = Inr demo_flag"
  by (simp add: demo_flag_def demo_flag0_def Flag_PrepareEvaluation_def Segment_PrepareEvaluation_def
      zero_segment_def zero_flag_def)

lemma demo_flag0_sound: "sound_flag demo_flag0"
  by (simp add: demo_flag0_def sound_flag_def sound_segment_def sound_distributions_def percents_dist_of
      zero_flag_def zero_segment_def)

lemma demo_flag_sel: "Flag_Enabled demo_flag" "Flag_Segments demo_flag \<noteq> []"
  by (simp_all add: demo_flag_def demo_flag0_def Flag_PrepareEvaluation_def Segment_PrepareEvaluation_def
      zero_segment_def zero_flag_def)

lemma demo_env_sel [simp]:
  "env_cond (demo_env c cfg) = text_cond" "env_cast (demo_env c cfg) = go_cast"
  "env_cache (demo_env c cfg) = c" "env_Config (demo_env c cfg) = cfg"
  by (simp_all add: demo_env_def)

section \<open>Properties\<close>

text \<open>C21: an evaluation answers what the reference says. For an enabled flag with segments, whatever the
  configuration, debug switches, cache and state, the variant, segment, variant key and attachment
  of the result are those of the first segment in order whose constraints hold, decided by its
  rollout under the entity's own or drawn id, and the evaluation panics exactly when that rollout
  does.\<close>

theorem EvalFlag_first_match:
  assumes "Flag_Enabled f" "Flag_Segments f \<noteq> []"
  shows "map_sum id (\<lambda>(r, _). answer r) (EvalFlagWithContext env (Some f) ctx st) =
    flag_answer (env_cast env) (env_cond env) f (effective_entityID env ctx st) (EC_EntityContext ctx)"
  by (rule EvalFlagWithContext_answer [OF assms])

theorem EvalFlag_first_match_witness:
  "map_sum id (\<lambda>(r, _). answer r)
    (EvalFlagWithContext (demo_env empty_container default_config) (Some demo_flag) demo_context initial_eval_state) =
    flag_answer go_cast text_cond demo_flag
      (effective_entityID (demo_env empty_container default_config) demo_context initial_eval_state) VNil"
  using EvalFlag_first_match [OF demo_flag_sel, of "demo_env empty_container default_config" demo_context initial_eval_state]
  by (simp add: demo_context_def)

text \<open>A sound flag is evaluated without a panic, and only as configured: for a flag prepared from one
  whose distributions are empty or add up to 100 percent, or 200, every evaluation returns a result, and a
  variant in it comes from an enabled flag and is one that the answering segment distributes with a
  non-zero percentage.\<close>

theorem EvalFlag_total:
  assumes "Flag_PrepareEvaluation (env_cond env) f0 = Inr f" "sound_flag f0"
  shows "\<exists>r st'. EvalFlagWithContext env (Some f) ctx st = Inr (r, st') \<and>
    (ER_VariantID r \<noteq> 0 \<longrightarrow> Flag_Enabled f0 \<and>
      (\<exists>s \<in> set (Flag_Segments f0). ER_SegmentID r = int64_of_uint (segment_ID s) \<and>
        (\<exists>d \<in> set (Segment_Distributions s).
          ER_VariantID r = int64_of_uint (Distribution_VariantID d) \<and> Distribution_Percent d \<noteq> 0)))"
proof (cases "\<not> Flag_Enabled f \<or> Flag_Segments f = []")
  case True
  then obtain g msg where "EvalFlagWithContext env (Some f) ctx st = Inr (BlankResult env (Some g) ctx msg st)"
    using EvalFlagWithContext_blank [of "Some f" env ctx st] by auto
  then show ?thesis
    using BlankResult_answer [of env "Some g" ctx msg st]
    by (cases "BlankResult env (Some g) ctx msg st") (auto simp: answer_def)
next
  case False
  then have en: "Flag_Enabled f" "Flag_Segments f \<noteq> []" by auto
  then have "Flag_Enabled f0" using Flag_PrepareEvaluation_frame(4) [OF assms(1)] by simp
  moreover obtain r st' where r: "EvalFlagWithContext env (Some f) ctx st = Inr (r, st')"
    using EvalFlagWithContext_total [of "Some f" env] assms by (metis option.inject)
  moreover have "flag_decision (env_cond env) f (effective_entityID env ctx st) (EC_EntityContext ctx) =
    Inr (ER_VariantID r, ER_SegmentID r)"
    using EvalFlagWithContext_answer [OF en, of env ctx st] r
    by (auto simp: flag_answer_def answer_def sum_bind_eq_Inr_iff dest!: sym [of "Inr _"] split: option.splits)
  ultimately show ?thesis
    using flag_decision_sound [OF assms, of "effective_entityID env ctx st" "EC_EntityContext ctx"] by auto
qed

theorem EvalFlag_total_witness:
  "\<exists>r st'. EvalFlagWithContext (demo_env empty_container default_config) (Some demo_flag)
      demo_context initial_eval_state = Inr (r, st')"
  using EvalFlag_total [of "demo_env empty_container default_config" demo_flag0 demo_flag] demo_prepared
    demo_flag0_sound by (metis demo_env_sel(1))

text \<open>C22: an entity with an id is answered the same way every time: under the same flag and entity context
  neither the random numbers, the clock, the debug switches, the entity type, the rest of the
  configuration nor earlier evaluations change the variant, segment, key or attachment.\<close>

theorem EvalFlag_deterministic:
  assumes "EC_EntityID ctx \<noteq> []" "EC_EntityID ctx' = EC_EntityID ctx"
    and "EC_EntityContext ctx' = EC_EntityContext ctx"
    and "env_cast env' = env_cast env" "env_cond env' = env_cond env"
  shows "map_sum id (\<lambda>(r, _). answer r) (EvalFlagWithContext env' f ctx' st') =
    map_sum id (\<lambda>(r, _). answer r) (EvalFlagWithContext env f ctx st)"
proof (cases "f = None \<or> (\<exists>g. f = Some g \<and> (\<not> Flag_Enabled g \<or> Flag_Segments g = []))")
  case True
  have "map_sum id (\<lambda>(r, _). answer r) (EvalFlagWithContext env f ctx st) = Inr (0, 0, [], None)"
    for env :: "'a eval_env" and ctx st
  proof -
    obtain g msg where "EvalFlagWithContext env f ctx st = Inr (BlankResult env (Some g) ctx msg st)"
      using EvalFlagWithContext_blank [OF True, of env ctx st] by blast
    then show ?thesis using BlankResult_answer [of env "Some g" ctx msg st] by (simp add: case_prod_beta)
  qed
  then show ?thesis by simp
next
  case False
  then obtain g where g: "f = Some g" "Flag_Enabled g" "Flag_Segments g \<noteq> []" by auto
  have "effective_entityID env' ctx' st' = effective_entityID env ctx st"
    using assms(1,2) by (simp add: effective_entityID_def)
  then show ?thesis
    unfolding g(1) by (simp only: EvalFlagWithContext_answer [OF g(2,3)] assms(3-5))
qed

theorem EvalFlag_deterministic_witness:
  "map_sum id (\<lambda>(r, _). answer r) (EvalFlagWithContext (demo_env empty_container default_config) (Some demo_flag)
      (demo_context\<lparr>EC_EnableDebug := False\<rparr>) (initial_eval_state\<lparr>rand_calls := 9\<rparr>)) =
   map_sum id (\<lambda>(r, _). answer r) (EvalFlagWithContext (demo_env empty_container default_config) (Some demo_flag)
      demo_context initial_eval_state)"
  by (rule EvalFlag_deterministic) (simp_all add: demo_context_def)

text \<open>A missing flag, a disabled flag and a flag without segments give a blank result: no variant, no
  segment, no attachment, the flag's (or the requested) id, and nothing is logged, counted or
  recorded and no random number is drawn.\<close>

theorem EvalFlag_blank:
  assumes "f = None \<or> (\<exists>g. f = Some g \<and> (\<not> Flag_Enabled g \<or> Flag_Segments g = []))"
  shows "\<exists>r st'. EvalFlagWithContext env f ctx st = Inr (r, st') \<and> answer r = (0, 0, [], None) \<and>
    ER_FlagID r = int64_of_uint (case f of
      None \<Rightarrow> SafeUint (env_cast env) (VInt64 (EC_FlagID ctx)) | Some g \<Rightarrow> flag_ID g) \<and>
    events st' = events st \<and> rand_calls st' = rand_calls st"
proof -
  obtain g msg where g: "EvalFlagWithContext env f ctx st = Inr (BlankResult env (Some g) ctx msg st)"
    "case f of None \<Rightarrow> flag_ID g = SafeUint (env_cast env) (VInt64 (EC_FlagID ctx)) | Some h \<Rightarrow> g = h"
    using EvalFlagWithContext_blank [OF assms, of env ctx st] by blast
  obtain r st' where b: "BlankResult env (Some g) ctx msg st = (r, st')" by (metis surj_pair)
  have "answer r = (0, 0, [], None)" "ER_FlagID r = int64_of_uint (flag_ID g)"
    "st' = st\<lparr>time_calls := Suc (time_calls st)\<rparr>"
    using BlankResult_answer [of env "Some g" ctx msg st] BlankResult_sel(1) [of env g ctx msg st]
      BlankResult_state [of env "Some g" ctx msg st] by (simp_all add: b)
  with g show ?thesis by (auto simp: b split: option.splits)
qed

theorem EvalFlag_blank_witness:
  "\<exists>r st'. EvalFlagWithContext (demo_env empty_container default_config) None demo_context initial_eval_state =
      Inr (r, st') \<and> answer r = (0, 0, [], None) \<and>
    ER_FlagID r = int64_of_uint (case None :: string flag option of
      None \<Rightarrow> SafeUint (env_cast (demo_env empty_container default_config)) (VInt64 (EC_FlagID demo_context))
    | Some g \<Rightarrow> flag_ID g) \<and>
    events st' = events initial_eval_state \<and> rand_calls st' = rand_calls initial_eval_state"
  by (rule EvalFlag_blank) simp

text \<open>What an evaluation of an enabled flag reports. It appends, in this order, the console line
  (unless the flag's rate limiter holds it back), the statsd counter, the Prometheus counter and
  the data record, each exactly once when it is configured, the record only if the flag asks
  for data records, and all of them about the returned result.\<close>

theorem EvalFlag_events:
  assumes "Flag_Enabled f" "Flag_Segments f \<noteq> []"
    and "EvalFlagWithContext env (Some f) ctx st = Inr (r, st')"
  shows "\<exists>statsd prom. events st' = events st @
      (if EvalLoggingEnabled (the_eval (env_Config env)) \<and>
          \<not> env_Limit env (SafeUint (env_cast env) (VInt64 (int64_of_uint (flag_ID f)))) (limit_calls st)
       then [ConsoleLog r] else []) @
      (if env_StatsdClient env then [StatsdIncr ''evaluation'' statsd] else []) @
      (if EvalCounter (env_Prometheus env) then [EvalCounterInc prom] else []) @
      (if RecorderEnabled (the_recorder (env_Config env)) \<and> Flag_DataRecordsEnabled f
       then [AsyncRecord r] else [])"
  by (rule EvalFlagWithContext_events [OF assms])

theorem EvalFlag_events_witness:
  "\<exists>r st' statsd prom.
    EvalFlagWithContext (demo_env empty_container default_config) (Some demo_flag) demo_context initial_eval_state =
      Inr (r, st') \<and>
    events st' = events initial_eval_state @
      (if EvalLoggingEnabled (the_eval (env_Config (demo_env empty_container default_config))) \<and>
          \<not> env_Limit (demo_env empty_container default_config)
              (SafeUint (env_cast (demo_env empty_container default_config)) (VInt64 (int64_of_uint (flag_ID demo_flag))))
              (limit_calls initial_eval_state)
       then [ConsoleLog r] else []) @
      (if env_StatsdClient (demo_env empty_container default_config) then [StatsdIncr ''evaluation'' statsd] else []) @
      (if EvalCounter (env_Prometheus (demo_env empty_container default_config)) then [EvalCounterInc prom] else []) @
      (if RecorderEnabled (the_recorder (env_Config (demo_env empty_container default_config))) \<and>
          Flag_DataRecordsEnabled demo_flag
       then [AsyncRecord r] else [])"
proof -
  have "\<exists>f0. Flag_PrepareEvaluation (env_cond (demo_env empty_container default_config)) f0 = Inr demo_flag \<and>
    sound_flag f0" using demo_prepared demo_flag0_sound by auto
  then obtain r st' where r: "EvalFlagWithContext (demo_env empty_container default_config) (Some demo_flag)
      demo_context initial_eval_state = Inr (r, st')"
    using EvalFlagWithContext_total [of "Some demo_flag" "demo_env empty_container default_config"
        demo_context initial_eval_state] by auto
  from EvalFlag_events [OF demo_flag_sel r] r show ?thesis by blast
qed


lemma LookupFlag_by_id:
  assumes "cast_laws (env_cast env)" "env_cache env = container_of (env_cast env) fs"
    and "distinct (map flag_ID fs)" "distinct (map Flag_Key fs)" "f \<in> set fs"
    and "0 <s EC_FlagID ctx" "flag_ID f = EC_FlagID ctx"
  shows "LookupFlag env ctx = Some f"
proof -
  have id: "SafeUint (env_cast env) (VInt64 (EC_FlagID ctx)) = flag_ID f"
    using assms(6,7) cast_laws.safe_simps [OF assms(1)] by (simp add: word_sless_alt)
  have "flag_ID f \<noteq> 0" using assms(6,7) by auto
  then have "GetByFlagKeyOrID (env_cast env) (env_cache env) (VUint (flag_ID f)) = Some f"
    using cast_laws.GetByFlagKeyOrID_container_of [OF assms(1,3,4), of "VUint (flag_ID f)" f] assms(5)
    by (simp add: assms(2) cast_laws.safe_simps [OF assms(1)])
  then show ?thesis by (simp add: LookupFlag_def id)
qed

lemma LookupFlag_no_id:
  assumes "cast_laws (env_cast env)" "EC_FlagID ctx = 0"
  shows "LookupFlag env ctx =
    (case GetByFlagKeyOrID (env_cast env) (env_cache env) (VString ''0'') of
       Some f \<Rightarrow> Some f
     | None \<Rightarrow> GetByFlagKeyOrID (env_cast env) (env_cache env) (VString (EC_FlagKey ctx)))"
proof -
  have "GetByFlagKeyOrID (env_cast env) c (VUint 0) = GetByFlagKeyOrID (env_cast env) c (VString ''0'')" for c :: "'a cacheContainer"
    by (simp add: GetByFlagKeyOrID_def cast_laws.safe_simps [OF assms(1)] dec_uint_digits)
  then show ?thesis
    by (simp add: LookupFlag_def assms(2) cast_laws.safe_simps [OF assms(1)] Let_def split: option.split)
qed

text \<open>How a request finds its flag. With a cache of flags with distinct ids and keys, a request with a
  positive flag id of a cached flag is answered with that flag, whatever key it also names; a
  request by key alone is answered with the flag of that key, provided no flag is keyed by the
  digit zero and no flag id prints as the key.\<close>

theorem LookupFlag_finds:
  assumes "cast_laws (env_cast env)" "env_cache env = container_of (env_cast env) fs"
    and "distinct (map flag_ID fs)" "distinct (map Flag_Key fs)" "f \<in> set fs"
    and "0 <s EC_FlagID ctx \<and> flag_ID f = EC_FlagID ctx \<or>
      EC_FlagID ctx = 0 \<and> Flag_Key f = EC_FlagKey ctx \<and> Flag_Key f \<noteq> [] \<and>
      (\<forall>g \<in> set fs. Flag_Key g \<noteq> ''0'' \<and> (flag_ID g \<noteq> 0 \<longrightarrow> dec_uint (flag_ID g) \<noteq> EC_FlagKey ctx))"
  shows "LookupFlag env ctx = Some f"
  using assms(6)
proof
  assume "0 <s EC_FlagID ctx \<and> flag_ID f = EC_FlagID ctx"
  then show ?thesis using LookupFlag_by_id [OF assms(1-5)] by blast
next
  assume k: "EC_FlagID ctx = 0 \<and> Flag_Key f = EC_FlagKey ctx \<and> Flag_Key f \<noteq> [] \<and>
      (\<forall>g \<in> set fs. Flag_Key g \<noteq> ''0'' \<and> (flag_ID g \<noteq> 0 \<longrightarrow> dec_uint (flag_ID g) \<noteq> EC_FlagKey ctx))"
  note look = cast_laws.GetByFlagKeyOrID_container_of [OF assms(1,3,4)]
    cast_laws.safe_simps [OF assms(1)]
  have "GetByFlagKeyOrID (env_cast env) (env_cache env) (VString ''0'') \<noteq> Some g" for g
    using look(1) [of "VString ''0''" g] k unfolding assms(2) look(2-) by (metis dec_uint_eq_zero_iff)
  moreover have "GetByFlagKeyOrID (env_cast env) (env_cache env) (VString (EC_FlagKey ctx)) = Some f"
    using look(1) [of "VString (EC_FlagKey ctx)" f] k assms(5) by (auto simp: assms(2) look(2-))
  ultimately show ?thesis
    using k by (simp add: LookupFlag_no_id [OF assms(1)] split: option.splits)
qed

theorem LookupFlag_finds_witness:
  "LookupFlag (demo_env (container_of go_cast [bare_flag 7 ''a'', bare_flag 8 ''b'']) default_config)
    (demo_context\<lparr>EC_FlagID := 0, EC_FlagKey := ''b''\<rparr>) = Some (bare_flag 8 ''b'')"
  by (intro LookupFlag_finds [where fs = "[bare_flag 7 ''a'', bare_flag 8 ''b'']"])
    (simp_all add: go_cast.cast_laws_axioms dec_uint_digits)

text \<open>A flag whose key is the digit zero takes over every request by key. Such a key passes the key
  check, and a request without a flag id first looks up the id 0, whose text is that key.\<close>

theorem LookupFlag_zero_key:
  assumes "cast_laws (env_cast env)" "env_cache env = container_of (env_cast env) fs"
    and "distinct (map flag_ID fs)" "distinct (map Flag_Key fs)" "z \<in> set fs" "Flag_Key z = ''0''"
    and "EC_FlagID ctx = 0"
  shows "fst (IsSafeKey ''0'') \<and> LookupFlag env ctx = Some z"
proof
  show "fst (IsSafeKey ''0'')" by (simp add: IsSafeKey_def keyRegex_MatchString_def is_key_char_def
        is_word_char_def is_digit_def keyLengthLimit_def)
  note look = cast_laws.GetByFlagKeyOrID_container_of [OF assms(1,3,4)]
    cast_laws.safe_simps [OF assms(1)]
  have "GetByFlagKeyOrID (env_cast env) (env_cache env) (VString ''0'') = Some z"
    using look(1) [of "VString ''0''" z] assms(5,6) dec_uint_eq_zero_iff unfolding assms(2) look(2-)
    by (metis list.distinct(1))
  then show "LookupFlag env ctx = Some z" by (simp add: LookupFlag_no_id [OF assms(1,7)])
qed

theorem LookupFlag_zero_key_witness:
  "LookupFlag (demo_env (container_of go_cast [bare_flag 7 ''0'', bare_flag 8 ''b'']) default_config)
    (demo_context\<lparr>EC_FlagID := 0, EC_FlagKey := ''b''\<rparr>) = Some (bare_flag 7 ''0'')"
  using LookupFlag_zero_key [of "demo_env (container_of go_cast [bare_flag 7 ''0'', bare_flag 8 ''b'']) default_config"
      "[bare_flag 7 ''0'', bare_flag 8 ''b'']" "bare_flag 7 ''0''" "demo_context\<lparr>EC_FlagID := 0, EC_FlagKey := ''b''\<rparr>"]
  by (simp add: go_cast.cast_laws_axioms)

end
