(* ===== verification/Flagr_Requests.thy ===== *)
theory Flagr_Requests
  imports Flagr_Eval
begin

text \<open>
  What the two evaluation endpoints of \<^verbatim>\<open>pkg/handler/eval.go\<close> promise together with the
  cache: no panic while the sources of the flags are sound, the deduplication of a batch, and how
  far the batch limit bounds the work.
\<close>

section \<open>Every loop over evaluations that return returns\<close>

lemma eval_each_total:
  assumes "\<And>x st. x \<in> set xs \<Longrightarrow> \<exists>r st'. ev x st = Inr (r, st')"
  shows "\<exists>rs st'. eval_each ev xs st = Inr (rs, st')"
  using assms
proof (induction xs arbitrary: st)
  case (Cons x xs)
  obtain r st1 where 1: "ev x st = Inr (r, st1)" using Cons.prems [of x st] by auto
  obtain rs st2 where "eval_each ev xs st1 = Inr (rs, st2)" using Cons by fastforce
  with 1 show ?case by simp
qed simp

lemma eval_each_append_events:
  "eval_each ev (xs @ ys) st =
    sum_bind (eval_each ev xs st) (\<lambda>(rs, st1).
      sum_bind (eval_each ev ys st1) (\<lambda>(rs', st2). Inr (rs @ rs', st2)))"
  by (induction xs arbitrary: st) (auto simp: split_beta split: sum_bind_split)

definition sound_cache :: "'e cond_lib \<Rightarrow> cast_lib \<Rightarrow> 'e cacheContainer \<Rightarrow> bool" where
  "sound_cache L C c \<longleftrightarrow> (\<exists>fs. c = container_of C fs \<and>
     (\<forall>f \<in> set fs. \<exists>f0. Flag_PrepareEvaluation L f0 = Inr f \<and> sound_flag f0))"

lemma sound_cache_reachable:
  assumes "cache_reachable C L (\<lambda>fs. \<forall>f \<in> set fs. sound_flag f) ec"
  shows "sound_cache L C (cache ec)"
proof -
  obtain fs fs' where q: "\<forall>f \<in> set fs. sound_flag f" "prepared_from L fs fs'" "cache ec = container_of C fs'"
    using reachable_snapshots [OF assms] by (auto simp: snapshot_of_def)
  have "\<exists>f \<in> set fs. Flag_PrepareEvaluation L f = Inr f'" if "f' \<in> set fs'" for f'
    using list_all2_in_right [OF q(2) [unfolded prepared_from_def] that] .
  with q(1,3) show ?thesis unfolding sound_cache_def by blast
qed

lemma EvalFlag_sound:
  assumes "sound_cache (env_cond env) (env_cast env) (env_cache env)"
  shows "\<exists>r st'. EvalFlag env ctx st = Inr (r, st')"
  unfolding EvalFlag_def
proof (rule EvalFlagWithContext_total)
  fix g assume "LookupFlag env ctx = Some g"
  then obtain v where "GetByFlagKeyOrID (env_cast env) (env_cache env) v = Some g"
    by (auto simp: LookupFlag_def Let_def split: option.splits)
  with assms show "\<exists>f0. Flag_PrepareEvaluation (env_cond env) f0 = Inr g \<and> sound_flag f0"
    unfolding sound_cache_def using GetByFlagKeyOrID_values by metis
qed

lemma EvalFlagsByTags_sound:
  assumes "sound_cache (env_cond env) (env_cast env) (env_cache env)"
  shows "\<exists>rs st'. EvalFlagsByTags env ctx st = Inr (rs, st')"
  unfolding EvalFlagsByTags_def
proof (rule eval_each_total, rule EvalFlagWithContext_total)
  fix g h st
  assume "g \<in> set (GetByTags (env_cache env) (EC_FlagTags ctx) (EC_FlagTagsOperator ctx))" "Some g = Some h"
  with assms show "\<exists>f0. Flag_PrepareEvaluation (env_cond env) f0 = Inr h \<and> sound_flag f0"
    unfolding sound_cache_def using GetByTags_values by (metis option.inject subset_iff)
qed

lemma eval_entity_sound:
  assumes "sound_cache (env_cond env) (env_cast env) (env_cache env)"
  shows "\<exists>rs st'. eval_entity env body (Some e) st = Inr (rs, st')"
proof -
  let ?ctx = "batch_context body e"
  obtain rs1 st1 where 1: "(if EBR_FlagTags body \<noteq> []
      then EvalFlagsByTags env (?ctx\<lparr>EC_FlagTags := EBR_FlagTags body,
             EC_FlagTagsOperator := EBR_FlagTagsOperator body\<rparr>) st
      else Inr ([], st)) = Inr (rs1, st1)"
    using EvalFlagsByTags_sound [OF assms] by fastforce
  obtain rs2 st2 where 2: "eval_each (\<lambda>flagID. EvalFlag env (?ctx\<lparr>EC_FlagID := flagID\<rparr>))
      (dedup (EBR_FlagIDs body)) st1 = Inr (rs2, st2)"
    using eval_each_total [of _ "\<lambda>flagID. EvalFlag env (?ctx\<lparr>EC_FlagID := flagID\<rparr>)"]
      EvalFlag_sound [OF assms] by metis
  obtain rs3 st3 where 3: "eval_each (\<lambda>flagKey. EvalFlag env (?ctx\<lparr>EC_FlagKey := flagKey\<rparr>))
      (dedup (EBR_FlagKeys body)) st2 = Inr (rs3, st3)"
    using eval_each_total [of _ "\<lambda>flagKey. EvalFlag env (?ctx\<lparr>EC_FlagKey := flagKey\<rparr>)"]
      EvalFlag_sound [OF assms] by metis
  show ?thesis using 1 2 3 by (simp add: eval_entity_def Let_def)
qed

lemma eval_entities_sound:
  assumes "sound_cache (env_cond env) (env_cast env) (env_cache env)" "None \<notin> set es"
  shows "\<exists>rs st'. eval_entities env body es results st = Inr (rs, st')"
  using assms(2)
proof (induction es arbitrary: results st)
  case (Cons e es)
  then obtain e' where e: "e = Some e'" by (cases e) auto
  obtain rs st1 where "eval_entity env body e st = Inr (rs, st1)"
    using eval_entity_sound [OF assms(1)] e by blast
  with Cons show ?case by simp
qed simp

lemma PostEvaluation_sound:
  assumes "sound_cache (env_cond env) (env_cast env) (env_cache env)"
  shows "\<exists>resp st'. PostEvaluation env body st = Inr (resp, st')"
proof (cases body)
  case (Some ctx)
  obtain r st' where "EvalFlag env ctx st = Inr (r, st')" using EvalFlag_sound [OF assms] by blast
  with Some show ?thesis by (simp add: PostEvaluation_def)
qed (simp add: PostEvaluation_def)

lemma PostEvaluationBatch_sound:
  assumes "sound_cache (env_cond env) (env_cast env) (env_cache env)" "None \<notin> set (EBR_Entities req)"
  shows "\<exists>resp st'. PostEvaluationBatch env (Some req) st = Inr (resp, st')"
proof -
  obtain rs st' where "eval_entities env req (EBR_Entities req) [] st = Inr (rs, st')"
    using eval_entities_sound [OF assms] by blast
  then show ?thesis by (simp add: PostEvaluationBatch_def Let_def)
qed

section \<open>Counting\<close>

lemma eval_entity_length:
  assumes "EBR_FlagTags body = []" "eval_entity env body e st = Inr (rs, st')"
  shows "length rs = length (dedup (EBR_FlagIDs body)) + length (dedup (EBR_FlagKeys body))"
  using assms
  by (auto simp: eval_entity_def Let_def sum_bind_eq_Inr_iff dest!: eval_each_length
      split: option.splits if_splits)

lemma eval_entities_length:
  assumes "EBR_FlagTags body = []" "eval_entities env body es results st = Inr (rs, st')"
  shows "length rs = length results +
    length es * (length (dedup (EBR_FlagIDs body)) + length (dedup (EBR_FlagKeys body)))"
  using assms(2)
proof (induction es arbitrary: results st)
  case (Cons e es)
  then obtain rs1 st1 where 1: "eval_entity env body e st = Inr (rs1, st1)"
    and 2: "eval_entities env body es (results @ rs1) st1 = Inr (rs, st')"
    by (auto simp: sum_bind_eq_Inr_iff)
  from Cons.IH [OF 2] eval_entity_length [OF assms(1) 1] show ?case by simp
qed simp

lemma dedup_card: "length (dedup xs) = card (set xs)"
  using distinct_card [OF dedup_spec(1), of xs] by (simp add: dedup_spec)

section \<open>Properties\<close>

text \<open>Serving never panics while the flags are sound. Whatever was fetched, failed, timed out or was
  installed late since the start, as long as every successful fetch delivered sound flags, a single
  evaluation always returns a response, and so does every batch without a null entity.\<close>

theorem evaluation_never_panics:
  assumes "cache_reachable (env_cast env) (env_cond env) (\<lambda>fs. \<forall>f \<in> set fs. sound_flag f) ec"
    and "env_cache env = cache ec"
  shows "(\<exists>resp st'. PostEvaluation env body st = Inr (resp, st')) \<and>
    (None \<notin> set (EBR_Entities req) \<longrightarrow> (\<exists>resp st'. PostEvaluationBatch env (Some req) st = Inr (resp, st')))"
proof -
  have c: "sound_cache (env_cond env) (env_cast env) (env_cache env)"
    using sound_cache_reachable [OF assms(1)] assms(2) by simp
  show ?thesis using PostEvaluation_sound [OF c] PostEvaluationBatch_sound [OF c] by blast
qed

definition demo_cache :: "string EvalCache" where
  "demo_cache = \<lparr>cache = container_of go_cast [demo_flag], late = []\<rparr>"

lemma demo_cache_reachable: "cache_reachable go_cast text_cond (\<lambda>fs. \<forall>f \<in> set fs. sound_flag f) demo_cache"
  by (rule cache_reachable.start [of "Inr [demo_flag0]" _ _ _ False])
    (simp_all add: demo_flag0_sound EvalCache_Start_def reloadMapCache_def EvalCache_fetchAllFlags_def
      demo_prepared container_of_def demo_cache_def new_EvalCache_def)

definition demo_batch :: evaluation_batch_request where
  "demo_batch = \<lparr>EBR_EnableDebug = False,
     EBR_Entities = [Some \<lparr>EE_EntityContext = VNil, EE_EntityID = ''a'', EE_EntityType = []\<rparr>],
     EBR_FlagIDs = [1, 1], EBR_FlagKeys = [], EBR_FlagTags = [], EBR_FlagTagsOperator = None\<rparr>"

theorem evaluation_never_panics_witness:
  "(\<exists>resp st'. PostEvaluation (demo_env (cache demo_cache) default_config) (Some demo_context) initial_eval_state =
      Inr (resp, st')) \<and>
   (\<exists>resp st'. PostEvaluationBatch (demo_env (cache demo_cache) default_config) (Some demo_batch)
      initial_eval_state = Inr (resp, st'))"
  using evaluation_never_panics [of "demo_env (cache demo_cache) default_config" demo_cache
      "Some demo_context" initial_eval_state demo_batch] demo_cache_reachable
  by (simp add: demo_batch_def)

text \<open>The deduplication of the flag ids and keys of a batch keeps the first occurrence of each, in
  order: no duplicates, the same elements, and a subsequence of the request.\<close>

theorem dedup_correct: "distinct (dedup ks) \<and> set (dedup ks) = set ks \<and> subseq (dedup ks) ks"
  by (simp add: dedup_spec)

text \<open>Without tags, an accepted batch has exactly one result per entity and distinct flag id or key,
  and, when a limit is configured, at most that many results.\<close>

theorem batch_results_bounded:
  assumes "PostEvaluationBatch env (Some body) st = Inr (PostEvaluationBatchOK rs, st')"
    and "EBR_FlagTags body = []"
  shows "length rs = length (EBR_Entities body) * (card (set (EBR_FlagIDs body)) + card (set (EBR_FlagKeys body))) \<and>
    (0 < EvalBatchSize (the_eval (env_Config env)) \<longrightarrow>
      int (length rs) \<le> EvalBatchSize (the_eval (env_Config env)))"
proof -
  from assms(1) have ev: "eval_entities env body (EBR_Entities body) [] st = Inr (rs, st')"
    and le: "0 < EvalBatchSize (the_eval (env_Config env)) \<longrightarrow>
      batch_total body \<le> EvalBatchSize (the_eval (env_Config env))"
    by (auto simp: PostEvaluationBatch_def Let_def sum_bind_eq_Inr_iff split: if_splits)
  from eval_entities_length [OF assms(2) ev]
  have "length rs = length (EBR_Entities body) * (card (set (EBR_FlagIDs body)) + card (set (EBR_FlagKeys body)))"
    by (simp add: dedup_card)
  with le show ?thesis by (simp add: batch_total_def Let_def assms(2) dedup_card)
qed

theorem batch_results_bounded_witness:
  "\<exists>rs st'. PostEvaluationBatch (demo_env (cache demo_cache) default_config) (Some demo_batch) initial_eval_state =
      Inr (PostEvaluationBatchOK rs, st') \<and> length rs = 1"
proof -
  let ?env = "demo_env (cache demo_cache) default_config"
  have c: "sound_cache (env_cond ?env) (env_cast ?env) (env_cache ?env)"
    using sound_cache_reachable [OF demo_cache_reachable] by simp
  have "None \<notin> set (EBR_Entities demo_batch)" by (simp add: demo_batch_def)
  from eval_entities_sound [OF c this]
  obtain rs st' where "eval_entities ?env demo_batch (EBR_Entities demo_batch) [] initial_eval_state = Inr (rs, st')"
    by blast
  then have ok: "PostEvaluationBatch ?env (Some demo_batch) initial_eval_state = Inr (PostEvaluationBatchOK rs, st')"
    by (simp add: PostEvaluationBatch_def Let_def default_config_def default_eval_config_def)
  have "EBR_FlagTags demo_batch = []" by (simp add: demo_batch_def)
  from batch_results_bounded [OF ok this] ok show ?thesis by (simp add: demo_batch_def)
qed

text \<open>The batch limit does not bound evaluations by tags. A batch with one entity, tags and neither
  flag ids nor keys counts as one evaluation, so every positive limit accepts it, and it makes as
  many evaluations as there are flags that match the tags.\<close>

theorem batch_tags_unbounded:
  assumes "tag_index fs (env_cache env)" "0 < EvalBatchSize (the_eval (env_Config env))"
    and "EBR_Entities body = [Some e]" "EBR_FlagIDs body = []" "EBR_FlagKeys body = []" "EBR_FlagTags body \<noteq> []"
    and "PostEvaluationBatch env (Some body) st = Inr (resp, st')"
  shows "\<exists>rs. resp = PostEvaluationBatchOK rs \<and>
    length rs = card {f \<in> set fs. tags_match (EBR_FlagTagsOperator body) (EBR_FlagTags body) f}"
proof -
  let ?fs = "GetByTags (env_cache env) (EBR_FlagTags body) (EBR_FlagTagsOperator body)"
  have "batch_total body = 1" using assms(3-6) by (simp add: batch_total_def dedup_def)
  then have "\<not> EvalBatchSize (the_eval (env_Config env)) < batch_total body" using assms(2) by simp
  with assms(7) obtain rs where rs: "resp = PostEvaluationBatchOK rs"
    "eval_entities env body (EBR_Entities body) [] st = Inr (rs, st')"
    by (auto simp: PostEvaluationBatch_def Let_def sum_bind_eq_Inr_iff)
  then have "length rs = length ?fs"
    using assms(3-6) by (auto simp: eval_entity_def EvalFlagsByTags_def dedup_def Let_def sum_bind_eq_Inr_iff
        dest!: eval_each_length)
  also have "\<dots> = card (set ?fs)"
    using GetByTags_flags_by_id(2) [OF assms(1), of "EBR_FlagTags body" "EBR_FlagTagsOperator body"]
    by (simp add: distinct_card distinct_map)
  finally show ?thesis using rs(1) GetByTags_flags_by_id(1) [OF assms(1)] by simp
qed

definition tags_batch :: evaluation_batch_request where
  "tags_batch = demo_batch\<lparr>EBR_FlagIDs := [], EBR_FlagTags := [''a'']\<rparr>"

lemma tagged_flag_sound: "sound_flag (tagged_flag i ts)"
  by (simp add: tagged_flag_def zero_flag_def sound_flag_def)

theorem batch_tags_unbounded_witness:
  "\<exists>rs st'. PostEvaluationBatch (demo_env (container_of go_cast [tagged_flag 1 [''a''], tagged_flag 2 [''a'']])
      (default_config\<lparr>the_eval := default_eval_config\<lparr>EvalBatchSize := 1\<rparr>\<rparr>)) (Some tags_batch) initial_eval_state =
    Inr (PostEvaluationBatchOK rs, st') \<and> length rs = 2"
proof -
  let ?fs = "[tagged_flag 1 [''a''], tagged_flag 2 [''a'']] :: string flag list"
  let ?env = "demo_env (container_of go_cast ?fs) (default_config\<lparr>the_eval := default_eval_config\<lparr>EvalBatchSize := 1\<rparr>\<rparr>)"
  have "\<forall>f \<in> set ?fs. \<exists>f0. Flag_PrepareEvaluation text_cond f0 = Inr f \<and> sound_flag f0"
    using tagged_flag_sound tagged_flag_sel(4) [of text_cond] by (metis empty_iff empty_set set_ConsD)
  then have c: "sound_cache (env_cond ?env) (env_cast ?env) (env_cache ?env)"
    unfolding sound_cache_def demo_env_sel by blast
  have ne: "None \<notin> set (EBR_Entities tags_batch)" by (simp add: tags_batch_def demo_batch_def)
  obtain rs st' where "eval_entities ?env tags_batch (EBR_Entities tags_batch) [] initial_eval_state = Inr (rs, st')"
    using eval_entities_sound [OF c ne] by blast
  then have ok: "PostEvaluationBatch ?env (Some tags_batch) initial_eval_state = Inr (PostEvaluationBatchOK rs, st')"
    by (simp add: PostEvaluationBatch_def Let_def tags_batch_def demo_batch_def batch_total_def dedup_def)
  have i: "tag_index ?fs (env_cache ?env)" by (simp add: tag_index_container_of)
  have sel: "{f \<in> set ?fs. tags_match None [''a''] f} = {tagged_flag 1 [''a''], tagged_flag 2 [''a'']}"
    by (auto simp: tags_match_def)
  have "tagged_flag 1 [''a''] \<noteq> (tagged_flag 2 [''a''] :: string flag)"
    using arg_cong [of "tagged_flag 1 [''a'']" "tagged_flag 2 [''a'']" flag_ID] by auto
  then have "card {f \<in> set ?fs. tags_match None [''a''] f} = 2" unfolding sel by simp
  with batch_tags_unbounded [OF i _ _ _ _ _ ok, of "\<lparr>EE_EntityContext = VNil, EE_EntityID = ''a'', EE_EntityType = []\<rparr>"] ok
  show ?thesis by (simp add: tags_batch_def demo_batch_def)
qed

end
