(* ===== verification/Flagr_Params.thy ===== *)
theory Flagr_Params
  imports Flagr_Models
begin

text \<open>
  \<^verbatim>\<open>swagger_gen/restapi/operations\<close>: how a request is bound to the parameters of its
  operation before the handler runs. Path parameters are converted and bounded, query parameters
  converted when they are not empty, a body is decoded and validated; every error is collected and
  any of them keeps the request from the handler. What the HTTP library delivers is a parameter:
  the raw values of the route and the query, and what came out of decoding the body.
\<close>

section \<open>Raw requests\<close>

record http_request =
  rq_path :: "string \<Rightarrow> string list"
  rq_query :: "string \<Rightarrow> string list"

datatype 'b body_source = NoBody | BodyEOF | BodyMalformed string | Decoded 'b

datatype bind_error =
    BodyRequired
  | BodyParseError string
  | BodyInvalid "field_error list"
  | InvalidType string string string
  | InvalidParam field_error

text \<open>The conversions of \<^verbatim>\<open>go-openapi/swag\<close>, and the decimal one of the standard library under it.\<close>

record swag_lib =
  swag_ConvertInt64 :: "string \<Rightarrow> i64 option"
  swag_ConvertBool :: "string \<Rightarrow> bool option"

definition ParseInt :: "string \<Rightarrow> i64 option" where
  "ParseInt s =
     (let neg = (s \<noteq> [] \<and> hd s = CHR ''-''); signed = (s \<noteq> [] \<and> (hd s = CHR ''-'' \<or> hd s = CHR ''+''));
          ds = (if signed then tl s else s); n = undec ds
      in if ds = [] \<or> \<not> list_all is_digit ds then None
         else if neg then (if n \<le> 2 ^ 63 then Some (of_int (- int n)) else None)
         else (if n < 2 ^ 63 then Some (of_nat n) else None))"

definition go_swag :: swag_lib where
  "go_swag = \<lparr>swag_ConvertInt64 = ParseInt,
     swag_ConvertBool = (\<lambda>s. Some (s \<in> set [''true'', ''1'', ''yes'', ''ok'', ''y'', ''on'', ''selected'',
       ''checked'', ''t'', ''enabled'']))\<rparr>"

section \<open>Binding one parameter\<close>

definition last_raw :: "string list \<Rightarrow> string" where
  "last_raw raws = (if raws = [] then [] else last raws)"

definition bind_path_id :: "swag_lib \<Rightarrow> http_request \<Rightarrow> string \<Rightarrow> bind_error list \<times> i64" where
  "bind_path_id S r name =
     (let raw = last_raw (rq_path r name)
      in case swag_ConvertInt64 S raw of
           None \<Rightarrow> ([InvalidType name ''int64'' raw], 0)
         | Some v \<Rightarrow> (case validate_MinimumInt name v 1 of None \<Rightarrow> ([], v) | Some e \<Rightarrow> ([InvalidParam e], v)))"

definition bind_query :: "(string \<Rightarrow> bind_error list \<times> 'a option) \<Rightarrow> http_request \<Rightarrow> string \<Rightarrow>
    bind_error list \<times> 'a option" where
  "bind_query conv r name = (let raw = last_raw (rq_query r name) in if raw = [] then ([], None) else conv raw)"

definition bind_query_int64 :: "swag_lib \<Rightarrow> http_request \<Rightarrow> string \<Rightarrow> bind_error list \<times> i64 option" where
  "bind_query_int64 S r name = bind_query (\<lambda>raw. case swag_ConvertInt64 S raw of
     None \<Rightarrow> ([InvalidType name ''int64'' raw], None) | Some v \<Rightarrow> ([], Some v)) r name"

definition bind_query_bool :: "swag_lib \<Rightarrow> http_request \<Rightarrow> string \<Rightarrow> bind_error list \<times> bool option" where
  "bind_query_bool S r name = bind_query (\<lambda>raw. case swag_ConvertBool S raw of
     None \<Rightarrow> ([InvalidType name ''bool'' raw], None) | Some v \<Rightarrow> ([], Some v)) r name"

definition bind_query_string :: "http_request \<Rightarrow> string \<Rightarrow> bind_error list \<times> string option" where
  "bind_query_string r name = bind_query (\<lambda>raw. ([], Some raw)) r name"

definition bind_query_enum :: "string list \<Rightarrow> http_request \<Rightarrow> string \<Rightarrow> bind_error list \<times> string option" where
  "bind_query_enum vs r name = bind_query (\<lambda>raw.
     (if raw \<in> set vs then [] else [InvalidParam (FieldNotInEnum name)], Some raw)) r name"

text \<open>
  The body: both validations run, and the body is bound when neither of them finds an error.
\<close>

definition bind_body ::
  "('b \<Rightarrow> field_error list) \<Rightarrow> ('b \<Rightarrow> field_error list) \<Rightarrow> 'b body_source \<Rightarrow> bind_error list \<times> 'b option" where
  "bind_body V CV src =
     (case src of
        NoBody \<Rightarrow> ([BodyRequired], None)
      | BodyEOF \<Rightarrow> ([BodyRequired], None)
      | BodyMalformed msg \<Rightarrow> ([BodyParseError msg], None)
      | Decoded b \<Rightarrow>
          let res = (if V b = [] then [] else [BodyInvalid (V b)]) @ (if CV b = [] then [] else [BodyInvalid (CV b)])
          in (res, if res = [] then Some b else None))"

definition bind_done :: "bind_error list \<Rightarrow> 'p \<Rightarrow> bind_error list + 'p" where
  "bind_done es p = (if es = [] then Inr p else Inl es)"

section \<open>Flags\<close>

record CreateFlagParams =
  CreateFlag_Body :: "create_flag_request option"

definition CreateFlagParams_BindRequest ::
  "create_flag_request body_source \<Rightarrow> bind_error list + CreateFlagParams" where
  "CreateFlagParams_BindRequest src =
     (let (e, body) = bind_body CreateFlagRequest_Validate (\<lambda>_. []) src
      in bind_done e
        \<lparr>CreateFlag_Body = body\<rparr>)"

record GetFlagParams =
  GetFlag_FlagID :: i64

definition GetFlagParams_BindRequest ::
  "swag_lib \<Rightarrow> http_request \<Rightarrow> bind_error list + GetFlagParams" where
  "GetFlagParams_BindRequest S r =
     (let (e_flagID, flagID) = bind_path_id S r ''flagID''
      in bind_done e_flagID
        \<lparr>GetFlag_FlagID = flagID\<rparr>)"

record PutFlagParams =
  PutFlag_Body :: "put_flag_request option"
  PutFlag_FlagID :: i64

definition PutFlagParams_BindRequest ::
  "swag_lib \<Rightarrow> http_request \<Rightarrow> put_flag_request body_source \<Rightarrow> bind_error list + PutFlagParams" where
  "PutFlagParams_BindRequest S r src =
     (let (e, body) = bind_body PutFlagRequest_Validate (\<lambda>_. []) src;
          (e_flagID, flagID) = bind_path_id S r ''flagID''
      in bind_done (e @ e_flagID)
        \<lparr>PutFlag_Body = body, PutFlag_FlagID = flagID\<rparr>)"

record DeleteFlagParams =
  DeleteFlag_FlagID :: i64

definition DeleteFlagParams_BindRequest ::
  "swag_lib \<Rightarrow> http_request \<Rightarrow> bind_error list + DeleteFlagParams" where
  "DeleteFlagParams_BindRequest S r =
     (let (e_flagID, flagID) = bind_path_id S r ''flagID''
      in bind_done e_flagID
        \<lparr>DeleteFlag_FlagID = flagID\<rparr>)"

record RestoreFlagParams =
  RestoreFlag_FlagID :: i64

definition RestoreFlagParams_BindRequest ::
  "swag_lib \<Rightarrow> http_request \<Rightarrow> bind_error list + RestoreFlagParams" where
  "RestoreFlagParams_BindRequest S r =
     (let (e_flagID, flagID) = bind_path_id S r ''flagID''
      in bind_done e_flagID
        \<lparr>RestoreFlag_FlagID = flagID\<rparr>)"

record SetFlagEnabledParams =
  SetFlagEnabled_Body :: "set_flag_enabled_request option"
  SetFlagEnabled_FlagID :: i64

definition SetFlagEnabledParams_BindRequest ::
  "swag_lib \<Rightarrow> http_request \<Rightarrow> set_flag_enabled_request body_source \<Rightarrow> bind_error list + SetFlagEnabledParams" where
  "SetFlagEnabledParams_BindRequest S r src =
     (let (e, body) = bind_body SetFlagEnabledRequest_Validate (\<lambda>_. []) src;
          (e_flagID, flagID) = bind_path_id S r ''flagID''
      in bind_done (e @ e_flagID)
        \<lparr>SetFlagEnabled_Body = body, SetFlagEnabled_FlagID = flagID\<rparr>)"

section \<open>Tags\<close>

record CreateTagParams =
  CreateTag_Body :: "create_tag_request option"
  CreateTag_FlagID :: i64

definition CreateTagParams_BindRequest ::
  "swag_lib \<Rightarrow> http_request \<Rightarrow> create_tag_request body_source \<Rightarrow> bind_error list + CreateTagParams" where
  "CreateTagParams_BindRequest S r src =
     (let (e, body) = bind_body CreateTagRequest_Validate (\<lambda>_. []) src;
          (e_flagID, flagID) = bind_path_id S r ''flagID''
      in bind_done (e @ e_flagID)
        \<lparr>CreateTag_Body = body, CreateTag_FlagID = flagID\<rparr>)"

record DeleteTagParams =
  DeleteTag_FlagID :: i64
  DeleteTag_TagID :: i64

definition DeleteTagParams_BindRequest ::
  "swag_lib \<Rightarrow> http_request \<Rightarrow> bind_error list + DeleteTagParams" where
  "DeleteTagParams_BindRequest S r =
     (let (e_flagID, flagID) = bind_path_id S r ''flagID'';
          (e_tagID, tagID) = bind_path_id S r ''tagID''
      in bind_done (e_flagID @ e_tagID)
        \<lparr>DeleteTag_FlagID = flagID, DeleteTag_TagID = tagID\<rparr>)"

record FindTagsParams =
  FindTags_FlagID :: i64

definition FindTagsParams_BindRequest ::
  "swag_lib \<Rightarrow> http_request \<Rightarrow> bind_error list + FindTagsParams" where
  "FindTagsParams_BindRequest S r =
     (let (e_flagID, flagID) = bind_path_id S r ''flagID''
      in bind_done e_flagID
        \<lparr>FindTags_FlagID = flagID\<rparr>)"

section \<open>Segments\<close>

record CreateSegmentParams =
  CreateSegment_Body :: "create_segment_request option"
  CreateSegment_FlagID :: i64

definition CreateSegmentParams_BindRequest ::
  "swag_lib \<Rightarrow> http_request \<Rightarrow> create_segment_request body_source \<Rightarrow> bind_error list + CreateSegmentParams" where
  "CreateSegmentParams_BindRequest S r src =
     (let (e, body) = bind_body CreateSegmentRequest_Validate (\<lambda>_. []) src;
          (e_flagID, flagID) = bind_path_id S r ''flagID''
      in bind_done (e @ e_flagID)
        \<lparr>CreateSegment_Body = body, CreateSegment_FlagID = flagID\<rparr>)"

record FindSegmentsParams =
  FindSegments_FlagID :: i64

definition FindSegmentsParams_BindRequest ::
  "swag_lib \<Rightarrow> http_request \<Rightarrow> bind_error list + FindSegmentsParams" where
  "FindSegmentsParams_BindRequest S r =
     (let (e_flagID, flagID) = bind_path_id S r ''flagID''
      in bind_done e_flagID
        \<lparr>FindSegments_FlagID = flagID\<rparr>)"

record PutSegmentParams =
  PutSegment_Body :: "put_segment_request option"
  PutSegment_FlagID :: i64
  PutSegment_SegmentID :: i64

definition PutSegmentParams_BindRequest ::
  "swag_lib \<Rightarrow> http_request \<Rightarrow> put_segment_request body_source \<Rightarrow> bind_error list + PutSegmentParams" where
  "PutSegmentParams_BindRequest S r src =
     (let (e, body) = bind_body PutSegmentRequest_Validate (\<lambda>_. []) src;
          (e_flagID, flagID) = bind_path_id S r ''flagID'';
          (e_segmentID, segmentID) = bind_path_id S r ''segmentID''
      in bind_done (e @ e_flagID @ e_segmentID)
        \<lparr>PutSegment_Body = body, PutSegment_FlagID = flagID, PutSegment_SegmentID = segmentID\<rparr>)"

record DeleteSegmentParams =
  DeleteSegment_FlagID :: i64
  DeleteSegment_SegmentID :: i64

definition DeleteSegmentParams_BindRequest ::
  "swag_lib \<Rightarrow> http_request \<Rightarrow> bind_error list + DeleteSegmentParams" where
  "DeleteSegmentParams_BindRequest S r =
     (let (e_flagID, flagID) = bind_path_id S r ''flagID'';
          (e_segmentID, segmentID) = bind_path_id S r ''segmentID''
      in bind_done (e_flagID @ e_segmentID)
        \<lparr>DeleteSegment_FlagID = flagID, DeleteSegment_SegmentID = segmentID\<rparr>)"

record PutSegmentsReorderParams =
  PutSegmentsReorder_Body :: "put_segment_reorder_request option"
  PutSegmentsReorder_FlagID :: i64

definition PutSegmentsReorderParams_BindRequest ::
  "swag_lib \<Rightarrow> http_request \<Rightarrow> put_segment_reorder_request body_source \<Rightarrow> bind_error list + PutSegmentsReorderParams" where
  "PutSegmentsReorderParams_BindRequest S r src =
     (let (e, body) = bind_body PutSegmentReorderRequest_Validate (\<lambda>_. []) src;
          (e_flagID, flagID) = bind_path_id S r ''flagID''
      in bind_done (e @ e_flagID)
        \<lparr>PutSegmentsReorder_Body = body, PutSegmentsReorder_FlagID = flagID\<rparr>)"

section \<open>Constraints\<close>

record CreateConstraintParams =
  CreateConstraint_Body :: "create_constraint_request option"
  CreateConstraint_FlagID :: i64
  CreateConstraint_SegmentID :: i64

definition CreateConstraintParams_BindRequest ::
  "swag_lib \<Rightarrow> http_request \<Rightarrow> create_constraint_request body_source \<Rightarrow> bind_error list + CreateConstraintParams" where
  "CreateConstraintParams_BindRequest S r src =
     (let (e, body) = bind_body CreateConstraintRequest_Validate (\<lambda>_. []) src;
          (e_flagID, flagID) = bind_path_id S r ''flagID'';
          (e_segmentID, segmentID) = bind_path_id S r ''segmentID''
      in bind_done (e @ e_flagID @ e_segmentID)
        \<lparr>CreateConstraint_Body = body, CreateConstraint_FlagID = flagID, CreateConstraint_SegmentID = segmentID\<rparr>)"

record FindConstraintsParams =
  FindConstraints_FlagID :: i64
  FindConstraints_SegmentID :: i64

definition FindConstraintsParams_BindRequest ::
  "swag_lib \<Rightarrow> http_request \<Rightarrow> bind_error list + FindConstraintsParams" where
  "FindConstraintsParams_BindRequest S r =
     (let (e_flagID, flagID) = bind_path_id S r ''flagID'';
          (e_segmentID, segmentID) = bind_path_id S r ''segmentID''
      in bind_done (e_flagID @ e_segmentID)
        \<lparr>FindConstraints_FlagID = flagID, FindConstraints_SegmentID = segmentID\<rparr>)"

record PutConstraintParams =
  PutConstraint_Body :: "create_constraint_request option"
  PutConstraint_ConstraintID :: i64
  PutConstraint_FlagID :: i64
  PutConstraint_SegmentID :: i64

definition PutConstraintParams_BindRequest ::
  "swag_lib \<Rightarrow> http_request \<Rightarrow> create_constraint_request body_source \<Rightarrow> bind_error list + PutConstraintParams" where
  "PutConstraintParams_BindRequest S r src =
     (let (e, body) = bind_body CreateConstraintRequest_Validate (\<lambda>_. []) src;
          (e_constraintID, constraintID) = bind_path_id S r ''constraintID'';
          (e_flagID, flagID) = bind_path_id S r ''flagID'';
          (e_segmentID, segmentID) = bind_path_id S r ''segmentID''
      in bind_done (e @ e_constraintID @ e_flagID @ e_segmentID)
        \<lparr>PutConstraint_Body = body, PutConstraint_ConstraintID = constraintID, PutConstraint_FlagID = flagID, PutConstraint_SegmentID = segmentID\<rparr>)"

record DeleteConstraintParams =
  DeleteConstraint_ConstraintID :: i64
  DeleteConstraint_FlagID :: i64
  DeleteConstraint_SegmentID :: i64

definition DeleteConstraintParams_BindRequest ::
  "swag_lib \<Rightarrow> http_request \<Rightarrow> bind_error list + DeleteConstraintParams" where
  "DeleteConstraintParams_BindRequest S r =
     (let (e_constraintID, constraintID) = bind_path_id S r ''constraintID'';
          (e_flagID, flagID) = bind_path_id S r ''flagID'';
          (e_segmentID, segmentID) = bind_path_id S r ''segmentID''
      in bind_done (e_constraintID @ e_flagID @ e_segmentID)
        \<lparr>DeleteConstraint_ConstraintID = constraintID, DeleteConstraint_FlagID = flagID, DeleteConstraint_SegmentID = segmentID\<rparr>)"

section \<open>Distributions\<close>

record FindDistributionsParams =
  FindDistributions_FlagID :: i64
  FindDistributions_SegmentID :: i64

definition FindDistributionsParams_BindRequest ::
  "swag_lib \<Rightarrow> http_request \<Rightarrow> bind_error list + FindDistributionsParams" where
  "FindDistributionsParams_BindRequest S r =
     (let (e_flagID, flagID) = bind_path_id S r ''flagID'';
          (e_segmentID, segmentID) = bind_path_id S r ''segmentID''
      in bind_done (e_flagID @ e_segmentID)
        \<lparr>FindDistributions_FlagID = flagID, FindDistributions_SegmentID = segmentID\<rparr>)"

record PutDistributionsParams =
  PutDistributions_Body :: "put_distributions_request option"
  PutDistributions_FlagID :: i64
  PutDistributions_SegmentID :: i64

definition PutDistributionsParams_BindRequest ::
  "swag_lib \<Rightarrow> http_request \<Rightarrow> put_distributions_request body_source \<Rightarrow> bind_error list + PutDistributionsParams" where
  "PutDistributionsParams_BindRequest S r src =
     (let (e, body) = bind_body PutDistributionsRequest_Validate (PutDistributionsRequest_ContextValidate True) src;
          (e_flagID, flagID) = bind_path_id S r ''flagID'';
          (e_segmentID, segmentID) = bind_path_id S r ''segmentID''
      in bind_done (e @ e_flagID @ e_segmentID)
        \<lparr>PutDistributions_Body = body, PutDistributions_FlagID = flagID, PutDistributions_SegmentID = segmentID\<rparr>)"

section \<open>Variants\<close>

record CreateVariantParams =
  CreateVariant_Body :: "create_variant_request option"
  CreateVariant_FlagID :: i64

definition CreateVariantParams_BindRequest ::
  "swag_lib \<Rightarrow> http_request \<Rightarrow> create_variant_request body_source \<Rightarrow> bind_error list + CreateVariantParams" where
  "CreateVariantParams_BindRequest S r src =
     (let (e, body) = bind_body CreateVariantRequest_Validate (\<lambda>_. []) src;
          (e_flagID, flagID) = bind_path_id S r ''flagID''
      in bind_done (e @ e_flagID)
        \<lparr>CreateVariant_Body = body, CreateVariant_FlagID = flagID\<rparr>)"

record FindVariantsParams =
  FindVariants_FlagID :: i64

definition FindVariantsParams_BindRequest ::
  "swag_lib \<Rightarrow> http_request \<Rightarrow> bind_error list + FindVariantsParams" where
  "FindVariantsParams_BindRequest S r =
     (let (e_flagID, flagID) = bind_path_id S r ''flagID''
      in bind_done e_flagID
        \<lparr>FindVariants_FlagID = flagID\<rparr>)"

record PutVariantParams =
  PutVariant_Body :: "put_variant_request option"
  PutVariant_FlagID :: i64
  PutVariant_VariantID :: i64

definition PutVariantParams_BindRequest ::
  "swag_lib \<Rightarrow> http_request \<Rightarrow> put_variant_request body_source \<Rightarrow> bind_error list + PutVariantParams" where
  "PutVariantParams_BindRequest S r src =
     (let (e, body) = bind_body PutVariantRequest_Validate (\<lambda>_. []) src;
          (e_flagID, flagID) = bind_path_id S r ''flagID'';
          (e_variantID, variantID) = bind_path_id S r ''variantID''
      in bind_done (e @ e_flagID @ e_variantID)
        \<lparr>PutVariant_Body = body, PutVariant_FlagID = flagID, PutVariant_VariantID = variantID\<rparr>)"

record DeleteVariantParams =
  DeleteVariant_FlagID :: i64
  DeleteVariant_VariantID :: i64

definition DeleteVariantParams_BindRequest ::
  "swag_lib \<Rightarrow> http_request \<Rightarrow> bind_error list + DeleteVariantParams" where
  "DeleteVariantParams_BindRequest S r =
     (let (e_flagID, flagID) = bind_path_id S r ''flagID'';
          (e_variantID, variantID) = bind_path_id S r ''variantID''
      in bind_done (e_flagID @ e_variantID)
        \<lparr>DeleteVariant_FlagID = flagID, DeleteVariant_VariantID = variantID\<rparr>)"

section \<open>Evaluation\<close>

record PostEvaluationParams =
  PostEvaluation_Body :: "m_eval_context option"

definition PostEvaluationParams_BindRequest ::
  "m_eval_context body_source \<Rightarrow> bind_error list + PostEvaluationParams" where
  "PostEvaluationParams_BindRequest src =
     (let (e, body) = bind_body EvalContext_Validate (\<lambda>_. []) src
      in bind_done e
        \<lparr>PostEvaluation_Body = body\<rparr>)"

record PostEvaluationBatchParams =
  PostEvaluationBatch_Body :: "m_evaluation_batch_request option"

definition PostEvaluationBatchParams_BindRequest ::
  "m_evaluation_batch_request body_source \<Rightarrow> bind_error list + PostEvaluationBatchParams" where
  "PostEvaluationBatchParams_BindRequest src =
     (let (e, body) = bind_body EvaluationBatchRequest_Validate EvaluationBatchRequest_ContextValidate src
      in bind_done e
        \<lparr>PostEvaluationBatch_Body = body\<rparr>)"


section \<open>Queries\<close>

record FindFlagsParams =
  FindFlags_Deleted :: "bool option"
  FindFlags_Description :: "string option"
  FindFlags_DescriptionLike :: "string option"
  FindFlags_Enabled :: "bool option"
  FindFlags_Key :: "string option"
  FindFlags_Limit :: "i64 option"
  FindFlags_Offset :: "i64 option"
  FindFlags_Preload :: "bool option"
  FindFlags_Tags :: "string option"

definition FindFlagsParams_bindDeleted :: "swag_lib \<Rightarrow> http_request \<Rightarrow> bind_error list \<times> bool option" where
  "FindFlagsParams_bindDeleted S r = bind_query_bool S r ''deleted''"

definition FindFlagsParams_bindDescription :: "http_request \<Rightarrow> bind_error list \<times> string option" where
  "FindFlagsParams_bindDescription r = bind_query_string r ''description''"

definition FindFlagsParams_bindDescriptionLike :: "http_request \<Rightarrow> bind_error list \<times> string option" where
  "FindFlagsParams_bindDescriptionLike r = bind_query_string r ''description_like''"

definition FindFlagsParams_bindEnabled :: "swag_lib \<Rightarrow> http_request \<Rightarrow> bind_error list \<times> bool option" where
  "FindFlagsParams_bindEnabled S r = bind_query_bool S r ''enabled''"

definition FindFlagsParams_bindKey :: "http_request \<Rightarrow> bind_error list \<times> string option" where
  "FindFlagsParams_bindKey r = bind_query_string r ''key''"

definition FindFlagsParams_bindLimit :: "swag_lib \<Rightarrow> http_request \<Rightarrow> bind_error list \<times> i64 option" where
  "FindFlagsParams_bindLimit S r = bind_query_int64 S r ''limit''"

definition FindFlagsParams_bindOffset :: "swag_lib \<Rightarrow> http_request \<Rightarrow> bind_error list \<times> i64 option" where
  "FindFlagsParams_bindOffset S r = bind_query_int64 S r ''offset''"

definition FindFlagsParams_bindPreload :: "swag_lib \<Rightarrow> http_request \<Rightarrow> bind_error list \<times> bool option" where
  "FindFlagsParams_bindPreload S r = bind_query_bool S r ''preload''"

definition FindFlagsParams_bindTags :: "http_request \<Rightarrow> bind_error list \<times> string option" where
  "FindFlagsParams_bindTags r = bind_query_string r ''tags''"

definition FindFlagsParams_BindRequest :: "swag_lib \<Rightarrow> http_request \<Rightarrow> bind_error list + FindFlagsParams" where
  "FindFlagsParams_BindRequest S r =
     (let (e1, deleted) = FindFlagsParams_bindDeleted S r;
          (e2, description) = FindFlagsParams_bindDescription r;
          (e3, descriptionLike) = FindFlagsParams_bindDescriptionLike r;
          (e4, enabled) = FindFlagsParams_bindEnabled S r;
          (e5, key) = FindFlagsParams_bindKey r;
          (e6, limit) = FindFlagsParams_bindLimit S r;
          (e7, offset) = FindFlagsParams_bindOffset S r;
          (e8, preload) = FindFlagsParams_bindPreload S r;
          (e9, tags) = FindFlagsParams_bindTags r
      in bind_done (e1 @ e2 @ e3 @ e4 @ e5 @ e6 @ e7 @ e8 @ e9)
        \<lparr>FindFlags_Deleted = deleted, FindFlags_Description = description,
         FindFlags_DescriptionLike = descriptionLike, FindFlags_Enabled = enabled, FindFlags_Key = key,
         FindFlags_Limit = limit, FindFlags_Offset = offset, FindFlags_Preload = preload,
         FindFlags_Tags = tags\<rparr>)"

lemmas FindFlags_bind_defs =
  FindFlagsParams_bindDeleted_def FindFlagsParams_bindDescription_def FindFlagsParams_bindDescriptionLike_def
  FindFlagsParams_bindEnabled_def FindFlagsParams_bindKey_def FindFlagsParams_bindLimit_def
  FindFlagsParams_bindOffset_def FindFlagsParams_bindPreload_def FindFlagsParams_bindTags_def

record GetFlagSnapshotsParams =
  GetFlagSnapshots_FlagID :: i64
  GetFlagSnapshots_Limit :: "i64 option"
  GetFlagSnapshots_Offset :: "i64 option"
  GetFlagSnapshots_Sort :: "string option"

definition GetFlagSnapshotsParams_BindRequest ::
  "swag_lib \<Rightarrow> http_request \<Rightarrow> bind_error list + GetFlagSnapshotsParams" where
  "GetFlagSnapshotsParams_BindRequest S r =
     (let (e1, flagID) = bind_path_id S r ''flagID'';
          (e2, limit) = bind_query_int64 S r ''limit'';
          (e3, offset) = bind_query_int64 S r ''offset'';
          (e4, sort_order) = bind_query_enum [''ASC'', ''DESC''] r ''sort''
      in bind_done (e1 @ e2 @ e3 @ e4)
        \<lparr>GetFlagSnapshots_FlagID = flagID, GetFlagSnapshots_Limit = limit,
         GetFlagSnapshots_Offset = offset, GetFlagSnapshots_Sort = sort_order\<rparr>)"

record FindAllTagsParams =
  FindAllTags_Limit :: "i64 option"
  FindAllTags_Offset :: "i64 option"
  FindAllTags_ValueLike :: "string option"

definition FindAllTagsParams_BindRequest :: "swag_lib \<Rightarrow> http_request \<Rightarrow> bind_error list + FindAllTagsParams" where
  "FindAllTagsParams_BindRequest S r =
     (let (e1, limit) = bind_query_int64 S r ''limit'';
          (e2, offset) = bind_query_int64 S r ''offset'';
          (e3, valueLike) = bind_query_string r ''value_like''
      in bind_done (e1 @ e2 @ e3)
        \<lparr>FindAllTags_Limit = limit, FindAllTags_Offset = offset, FindAllTags_ValueLike = valueLike\<rparr>)"

record GetExportSqliteParams =
  GetExportSqlite_ExcludeSnapshots :: "bool option"

definition GetExportSqliteParams_BindRequest ::
  "swag_lib \<Rightarrow> http_request \<Rightarrow> bind_error list + GetExportSqliteParams" where
  "GetExportSqliteParams_BindRequest S r =
     (let (e, excludeSnapshots) = bind_query_bool S r ''exclude_snapshots''
      in bind_done e \<lparr>GetExportSqlite_ExcludeSnapshots = excludeSnapshots\<rparr>)"

section \<open>What binding guarantees\<close>

lemma bind_done_Inr [simp]: "bind_done es p = Inr q \<longleftrightarrow> es = [] \<and> q = p"
  by (auto simp: bind_done_def)

lemma bind_path_id_ok: "bind_path_id S r name = ([], v) \<Longrightarrow> 1 \<le> sint v"
  by (auto simp: bind_path_id_def Let_def validate_MinimumInt_def split: option.splits if_splits)

lemma bind_body_ok: "bind_body V CV src = ([], m) \<Longrightarrow> \<exists>b. m = Some b \<and> src = Decoded b \<and> V b = [] \<and> CV b = []"
  by (auto simp: bind_body_def Let_def split: body_source.splits if_splits)

text \<open>The decimal conversion reads back what is printed for an id.\<close>

lemma ParseInt_dec_int: "ParseInt (dec_int x) = Some x"
proof -
  have digits: "list_all is_digit (dec n)" for n using dec_digits by (auto simp: list_all_iff)
  have hd: "is_digit (hd (dec n))" for n using dec_digits [of "hd (dec n)" n] by simp
  have plain: "hd (dec n) \<noteq> CHR ''-''" "hd (dec n) \<noteq> CHR ''+''" for n
    using hd [of n] by (auto simp: is_digit_def)
  have range: "- (2 ^ 63) \<le> sint x" "sint x < 2 ^ 63" using sint_ge [of x] sint_lt [of x] by simp_all
  show ?thesis
  proof (cases "sint x < 0")
    case True
    then have "int (nat (- sint x)) = - sint x" "nat (- sint x) \<le> 2 ^ 63" using range by auto
    then show ?thesis using True digits by (simp add: ParseInt_def dec_int_def Let_def undec_dec)
  next
    case False
    then have "nat (sint x) < 2 ^ 63" using range by auto
    moreover have "(of_nat (nat (sint x)) :: i64) = x" using False by simp
    ultimately have "(if nat (sint x) < 2 ^ 63 then Some (of_nat (nat (sint x)) :: i64) else None) = Some x"
      by simp
    then show ?thesis using False digits plain
      by (simp only: ParseInt_def dec_int_def Let_def undec_dec dec_nonempty simp_thms if_True if_False)
  qed
qed

end
