(* ===== verification/Flagr_Service.thy ===== *)
theory Flagr_Service
  imports Flagr_Reach Flagr_Requests Flagr_Params
begin

text \<open>
  The running server: the calls of the management API, their binding and dispatch to
  the handlers, the databases a server can reach by them, and the flags that the
  evaluation cache can fetch from them.
\<close>

section \<open>Requests\<close>

text \<open>A call as it arrives, for the operation that the router found: its raw values and its body.\<close>

datatype http_call =
    CreateFlagCall "create_flag_request body_source"
  | PutFlagCall http_request "put_flag_request body_source"
  | SetFlagEnabledCall http_request "set_flag_enabled_request body_source"
  | RestoreFlagCall http_request
  | DeleteFlagCall http_request
  | CreateTagCall http_request "create_tag_request body_source"
  | DeleteTagCall http_request
  | CreateSegmentCall http_request "create_segment_request body_source"
  | PutSegmentCall http_request "put_segment_request body_source"
  | PutSegmentsReorderCall http_request "put_segment_reorder_request body_source"
  | DeleteSegmentCall http_request
  | CreateConstraintCall http_request "create_constraint_request body_source"
  | PutConstraintCall http_request "create_constraint_request body_source"
  | DeleteConstraintCall http_request
  | PutDistributionsCall http_request "put_distributions_request body_source"
  | CreateVariantCall http_request "create_variant_request body_source"
  | PutVariantCall http_request "put_variant_request body_source"
  | DeleteVariantCall http_request

text \<open>A call whose parameters were bound.\<close>

datatype crud_request =
    CreateFlagRq CreateFlagParams
  | PutFlagRq PutFlagParams
  | SetFlagEnabledRq SetFlagEnabledParams
  | RestoreFlagRq RestoreFlagParams
  | DeleteFlagRq DeleteFlagParams
  | CreateTagRq CreateTagParams
  | DeleteTagRq DeleteTagParams
  | CreateSegmentRq CreateSegmentParams
  | PutSegmentRq PutSegmentParams
  | PutSegmentsReorderRq PutSegmentsReorderParams
  | DeleteSegmentRq DeleteSegmentParams
  | CreateConstraintRq CreateConstraintParams
  | PutConstraintRq PutConstraintParams
  | DeleteConstraintRq DeleteConstraintParams
  | PutDistributionsRq PutDistributionsParams
  | CreateVariantRq CreateVariantParams
  | PutVariantRq PutVariantParams
  | DeleteVariantRq DeleteVariantParams

definition bound :: "('p \<Rightarrow> crud_request) \<Rightarrow> bind_error list + 'p \<Rightarrow> bind_error list + crud_request" where
  "bound rq m = sum_bind m (\<lambda>p. Inr (rq p))"

fun bind_call :: "swag_lib \<Rightarrow> http_call \<Rightarrow> bind_error list + crud_request" where
  "bind_call S (CreateFlagCall src) = bound CreateFlagRq (CreateFlagParams_BindRequest src)"
| "bind_call S (PutFlagCall r src) = bound PutFlagRq (PutFlagParams_BindRequest S r src)"
| "bind_call S (SetFlagEnabledCall r src) = bound SetFlagEnabledRq (SetFlagEnabledParams_BindRequest S r src)"
| "bind_call S (RestoreFlagCall r) = bound RestoreFlagRq (RestoreFlagParams_BindRequest S r)"
| "bind_call S (DeleteFlagCall r) = bound DeleteFlagRq (DeleteFlagParams_BindRequest S r)"
| "bind_call S (CreateTagCall r src) = bound CreateTagRq (CreateTagParams_BindRequest S r src)"
| "bind_call S (DeleteTagCall r) = bound DeleteTagRq (DeleteTagParams_BindRequest S r)"
| "bind_call S (CreateSegmentCall r src) = bound CreateSegmentRq (CreateSegmentParams_BindRequest S r src)"
| "bind_call S (PutSegmentCall r src) = bound PutSegmentRq (PutSegmentParams_BindRequest S r src)"
| "bind_call S (PutSegmentsReorderCall r src) = bound PutSegmentsReorderRq (PutSegmentsReorderParams_BindRequest S r src)"
| "bind_call S (DeleteSegmentCall r) = bound DeleteSegmentRq (DeleteSegmentParams_BindRequest S r)"
| "bind_call S (CreateConstraintCall r src) = bound CreateConstraintRq (CreateConstraintParams_BindRequest S r src)"
| "bind_call S (PutConstraintCall r src) = bound PutConstraintRq (PutConstraintParams_BindRequest S r src)"
| "bind_call S (DeleteConstraintCall r) = bound DeleteConstraintRq (DeleteConstraintParams_BindRequest S r)"
| "bind_call S (PutDistributionsCall r src) = bound PutDistributionsRq (PutDistributionsParams_BindRequest S r src)"
| "bind_call S (CreateVariantCall r src) = bound CreateVariantRq (CreateVariantParams_BindRequest S r src)"
| "bind_call S (PutVariantCall r src) = bound PutVariantRq (PutVariantParams_BindRequest S r src)"
| "bind_call S (DeleteVariantCall r) = bound DeleteVariantRq (DeleteVariantParams_BindRequest S r)"

text \<open>The handler of a bound request, with the status of its answer; the body is dereferenced where the handler
  does.\<close>

definition answered :: "('p, 'db) reply \<Rightarrow> nat go \<times> 'db" where
  "answered r = ((case outcome r of
     Inl p \<Rightarrow> Inl p | Inr (RespDefault code _) \<Rightarrow> Inr code | Inr (RespOK _) \<Rightarrow> Inr 200), db_after r)"

definition with_body :: "'b option \<Rightarrow> 'db \<Rightarrow> ('b \<Rightarrow> nat go \<times> 'db) \<Rightarrow> nat go \<times> 'db" where
  "with_body m db f = (case m of None \<Rightarrow> (Inl NilDeref, db) | Some b \<Rightarrow> f b)"

fun serve :: "('e, 'db) crud_env \<Rightarrow> crud_request \<Rightarrow> 'db \<Rightarrow> nat go \<times> 'db" where
  "serve env (CreateFlagRq p) db = answered (CreateFlag env (CreateFlag_Body p) db)"
| "serve env (PutFlagRq p) db = with_body (PutFlag_Body p) db (\<lambda>b. answered (PutFlag env (PutFlag_FlagID p) b db))"
| "serve env (SetFlagEnabledRq p) db = with_body (SetFlagEnabled_Body p) db (\<lambda>b. answered (SetFlagEnabledState env (SetFlagEnabled_FlagID p) b db))"
| "serve env (RestoreFlagRq p) db = answered (RestoreFlag env (RestoreFlag_FlagID p) db)"
| "serve env (DeleteFlagRq p) db = answered (DeleteFlag env (DeleteFlag_FlagID p) db)"
| "serve env (CreateTagRq p) db = with_body (CreateTag_Body p) db (\<lambda>b. answered (CreateTag env (CreateTag_FlagID p) b db))"
| "serve env (DeleteTagRq p) db = answered (DeleteTag env (DeleteTag_FlagID p) (DeleteTag_TagID p) db)"
| "serve env (CreateSegmentRq p) db = with_body (CreateSegment_Body p) db (\<lambda>b. answered (CreateSegment env (CreateSegment_FlagID p) b db))"
| "serve env (PutSegmentRq p) db = with_body (PutSegment_Body p) db (\<lambda>b. answered (PutSegment env (PutSegment_FlagID p) (PutSegment_SegmentID p) b db))"
| "serve env (PutSegmentsReorderRq p) db = with_body (PutSegmentsReorder_Body p) db (\<lambda>b. answered (PutSegmentsReorder env (PutSegmentsReorder_FlagID p) b db))"
| "serve env (DeleteSegmentRq p) db = answered (DeleteSegment env (DeleteSegment_FlagID p) (DeleteSegment_SegmentID p) db)"
| "serve env (CreateConstraintRq p) db = answered (CreateConstraint env (CreateConstraint_FlagID p) (CreateConstraint_SegmentID p) (CreateConstraint_Body p) db)"
| "serve env (PutConstraintRq p) db = answered (PutConstraint env (PutConstraint_FlagID p) (PutConstraint_ConstraintID p) (PutConstraint_Body p) db)"
| "serve env (DeleteConstraintRq p) db = answered (DeleteConstraint env (DeleteConstraint_FlagID p) (DeleteConstraint_ConstraintID p) db)"
| "serve env (PutDistributionsRq p) db = with_body (PutDistributions_Body p) db (\<lambda>b. answered (PutDistributions env (PutDistributions_FlagID p) (PutDistributions_SegmentID p) b db))"
| "serve env (CreateVariantRq p) db = with_body (CreateVariant_Body p) db (\<lambda>b. answered (CreateVariant env (CreateVariant_FlagID p) b db))"
| "serve env (PutVariantRq p) db = with_body (PutVariant_Body p) db (\<lambda>b. answered (PutVariant env (PutVariant_FlagID p) (PutVariant_VariantID p) b db))"
| "serve env (DeleteVariantRq p) db = answered (DeleteVariant env (DeleteVariant_FlagID p) (DeleteVariant_VariantID p) db)"

text \<open>
  A body of distributions is a slice of pointers in the memory of the process: an address space of \<open>2 ^ 48\<close> bytes
  holds fewer than \<open>2 ^ 45\<close> pointers of eight bytes. No handler checks that the segment of new distributions exists,
  so this is not asked of a request; the runs in which it is the case are told apart by \<open>names_stored_segment\<close>.
\<close>

fun fits_memory :: "crud_request \<Rightarrow> bool" where
  "fits_memory (PutDistributionsRq p) =
    (\<forall>b. PutDistributions_Body p = Some b \<longrightarrow> length (body_distributions b) < 2 ^ 45)"
| "fits_memory _ = True"

fun names_stored_segment :: "('db \<Rightarrow> db_handle \<Rightarrow> table_kind \<Rightarrow> 'e row list) \<Rightarrow> 'db \<Rightarrow> crud_request \<Rightarrow> bool" where
  "names_stored_segment rows db (PutDistributionsRq p) =
    (uint_of_int64 (PutDistributions_SegmentID p) \<in> row_ID ` set (rows db RootDB TSegment))"
| "names_stored_segment rows db _ = True"

text \<open>
  The database starts empty. The parser of conditions stays; the subject, the random key and the other parameters may
  differ from request to request; a call that does not bind changes nothing and is no step. A run can be held to
  requests that satisfy \<open>P\<close> in the database they meet; the databases the server reaches are those of any run.
\<close>

inductive crud_run :: "('db \<Rightarrow> crud_request \<Rightarrow> bool) \<Rightarrow>
    ('e, 'db) gorm \<Rightarrow> 'e cond_lib \<Rightarrow> ('db \<Rightarrow> db_handle \<Rightarrow> table_kind \<Rightarrow> 'e row list) \<Rightarrow> 'db \<Rightarrow> bool"
  for P :: "'db \<Rightarrow> crud_request \<Rightarrow> bool" and G :: "('e, 'db) gorm" and L :: "'e cond_lib"
    and rows :: "'db \<Rightarrow> db_handle \<Rightarrow> table_kind \<Rightarrow> 'e row list" where
  empty: "\<forall>k. rows db RootDB k = [] \<Longrightarrow> crud_run P G L rows db"
| request: "crud_run P G L rows db \<Longrightarrow> ce_gorm env = G \<Longrightarrow> ce_cond env = L \<Longrightarrow> cast_laws (ce_cast env) \<Longrightarrow>
    bind_call S call = Inr rq \<Longrightarrow> fits_memory rq \<Longrightarrow> P db rq \<Longrightarrow> crud_run P G L rows (snd (serve env rq db))"

abbreviation crud_reachable ::
  "('e, 'db) gorm \<Rightarrow> 'e cond_lib \<Rightarrow> ('db \<Rightarrow> db_handle \<Rightarrow> table_kind \<Rightarrow> 'e row list) \<Rightarrow> 'db \<Rightarrow> bool" where
  "crud_reachable \<equiv> crud_run (\<lambda>_ _. True)"

section \<open>What bound requests are\<close>

text \<open>A bound request has its body, and the body passed its validation.\<close>

fun body_ok :: "crud_request \<Rightarrow> bool" where
  "body_ok (CreateSegmentRq p) = (\<exists>b. CreateSegment_Body p = Some b \<and> CreateSegmentRequest_Validate b = [])"
| "body_ok (PutSegmentRq p) = (\<exists>b. PutSegment_Body p = Some b \<and> PutSegmentRequest_Validate b = [])"
| "body_ok (PutDistributionsRq p) = (\<exists>b. PutDistributions_Body p = Some b \<and> PutDistributionsRequest_Validate b = [] \<and>
    PutDistributionsRequest_ContextValidate True b = [])"
| "body_ok (SetFlagEnabledRq p) = (\<exists>b. SetFlagEnabled_Body p = Some b \<and> SetFlagEnabledRequest_Validate b = [])"
| "body_ok (CreateFlagRq p) = (CreateFlag_Body p \<noteq> None)"
| "body_ok _ = True"

lemma bound_eq_Inr [simp]: "bound rq m = Inr x \<longleftrightarrow> (\<exists>p. m = Inr p \<and> x = rq p)"
  by (auto simp: bound_def sum_bind_eq_Inr_iff)

lemma bind_call_ok:
  assumes "bind_call S call = Inr rq"
  shows "body_ok rq"
proof (cases call)
  case (CreateFlagCall src)
  then show ?thesis using assms
    by (auto simp: CreateFlagParams_BindRequest_def split: prod.splits dest!: bind_body_ok)
next
  case (SetFlagEnabledCall r src)
  then show ?thesis using assms
    by (auto simp: SetFlagEnabledParams_BindRequest_def split: prod.splits dest!: bind_body_ok)
next
  case (CreateSegmentCall r src)
  then show ?thesis using assms
    by (auto simp: CreateSegmentParams_BindRequest_def split: prod.splits dest!: bind_body_ok)
next
  case (PutSegmentCall r src)
  then show ?thesis using assms
    by (auto simp: PutSegmentParams_BindRequest_def split: prod.splits dest!: bind_body_ok)
next
  case (PutDistributionsCall r src)
  then show ?thesis using assms
    by (auto simp: PutDistributionsParams_BindRequest_def split: prod.splits dest!: bind_body_ok)
qed (use assms in auto)

section \<open>The invariant\<close>

lemma snd_answered [simp]: "snd (answered r) = db_after r"
  by (simp add: answered_def)

lemma sum_mapM_source:
  "sum_mapM f xs = Inr ys \<Longrightarrow> y \<in> set ys \<Longrightarrow> \<exists>x \<in> set xs. f x = Inr y"
  using list_all2_in_right [of "\<lambda>x y. f x = Inr y" xs ys y] by (simp add: sum_mapM_Inr_iff)

context gorm_laws
begin

lemmas consistent_handlers = consistent_CreateFlag consistent_CreateSegment consistent_PutSegment
  consistent_DeleteSegment consistent_PutSegmentsReorder consistent_PutDistributions
  consistent_PutVariant consistent_DeleteVariant

lemmas keeps_handlers = keeps_CreateVariant keeps_CreateConstraint keeps_DeleteConstraint keeps_DeleteFlag
  keeps_PutConstraint keeps_SetFlagEnabledState keeps_RestoreFlag keeps_DeleteTag keeps_CreateTag keeps_PutFlag

lemmas consistent_plain = keeps_handlers [where T = "{TDistribution, TSegment}", simplified, THEN keeps_core_consistent]

lemma serve_consistent:
  assumes "ce_gorm env = G" "cast_laws (ce_cast env)" "body_ok rq" "fits_memory rq"
    and "strict \<longrightarrow> names_stored_segment rows db rq" "consistent strict (core (rows db RootDB))"
  shows "consistent strict (core (rows (snd (serve env rq db)) RootDB))"
  using assms consistent_handlers [where strict = strict, OF assms(1)] consistent_plain [where strict = strict, OF assms(1)]
  by (cases rq) (auto simp: keeps_consistent_def with_body_def split: option.split)

lemma run_consistent:
  assumes "crud_run P G L rows db" "\<And>db rq. strict \<Longrightarrow> P db rq \<Longrightarrow> names_stored_segment rows db rq"
  shows "consistent strict (core (rows db RootDB))"
  using assms(1)
proof (induction rule: crud_run.induct)
  case (empty db)
  then show ?case by (simp add: consistent_def core_def full_def waiting_def live_segments_def)
next
  case (request db env S call rq)
  then show ?case by (intro serve_consistent bind_call_ok impI assms(2)) auto
qed

lemmas reachable_consistent = run_consistent [where strict = False, simplified]

lemmas strict_consistent = run_consistent [where strict = True and P = "names_stored_segment rows", simplified]

section \<open>What the cache fetches\<close>

lemma Find_typed:
  assumes "typed_list as (gorm_Find G h k (row_where as P) ord db) = Inr xs"
  shows "mset xs = mset (filter P (List.map_filter as (filter live (rows db h k))))"
proof -
  obtain rs where rs: "gorm_Find G h k (row_where as P) ord db = Inr rs" "xs = List.map_filter as rs"
    using assms by (auto simp: typed_list_Inr_iff)
  have "List.map_filter as (filter (\<lambda>r. live r \<and> row_where as P r) ys) =
      filter P (List.map_filter as (filter live ys))" for ys
    by (induction ys) (auto simp: row_where_def split: option.splits)
  then show ?thesis using mset_map_filter [OF Find_ok [OF rs(1)], of as] rs(2) by simp
qed

lemma Preload_segment_sound:
  assumes "PreloadConstraintsDistribution G RootDB db s = Inr s'" "consistent strict (core (rows db RootDB))"
    and "unat (Segment_RolloutPercent s) \<le> 100"
  shows "sound_segment s'"
proof -
  obtain ds where ds: "typed_list as_distribution (gorm_Find G RootDB TDistribution
      (row_where as_distribution (\<lambda>d. Distribution_SegmentID d = segment_ID s))
      (by_columns (\<lambda>d. [uint (Distribution_VariantID d)]) as_distribution) db) = Inr ds"
    "Segment_Distributions s' = ds" "Segment_RolloutPercent s' = Segment_RolloutPercent s"
    using assms(1) by (auto simp: PreloadConstraintsDistribution_def sum_bind_eq_Inr_iff)
  have "mset ds = mset (dists_of (rows db RootDB TDistribution) (segment_ID s))"
    unfolding dists_of_def by (rule Find_typed [OF ds(1)])
  from sound_distributions_mset [OF this] show ?thesis
    using ds(2,3) assms(3) full_sound [OF consistentD(3) [OF assms(2) [unfolded core_at]]] by (simp add: sound_segment_def)
qed

lemma Preload_flag_sound:
  assumes "PreloadSegmentsVariantsTags G RootDB db f = Inr f'" "consistent strict (core (rows db RootDB))"
  shows "sound_flag f'"
proof -
  obtain ss ss' where ss: "typed_list as_segment (gorm_Find G RootDB TSegment
      (row_where as_segment (\<lambda>s. Segment_FlagID s = flag_ID f))
      (by_columns (\<lambda>s. [uint (Segment_Rank s), uint (segment_ID s)]) as_segment) db) = Inr ss"
    "sum_mapM (PreloadConstraintsDistribution G RootDB db) ss = Inr ss'" "Flag_Segments f' = ss'"
    using assms(1) by (auto simp: PreloadSegmentsVariantsTags_def PreloadFlagTags_def sum_bind_eq_Inr_iff)
  have "sound_segment s'" if mem: "s' \<in> set ss'" for s'
  proof -
    obtain s where s: "s \<in> set ss" "PreloadConstraintsDistribution G RootDB db s = Inr s'"
      using sum_mapM_source [OF ss(2) mem] by auto
    have "s \<in> set (live_segments (rows db RootDB TSegment))"
      using s(1) mset_eq_setD [OF Find_typed [OF ss(1)]] by (auto simp: live_segments_def)
    then show ?thesis
      by (intro Preload_segment_sound [OF s(2) assms(2)] consistentD(5) [OF assms(2) [unfolded core_at]])
  qed
  then show ?thesis using ss(3) by (simp add: sound_flag_def list_all_iff)
qed

lemma fetched_sound:
  assumes "dbFetcher_fetch G db = Inr fs" "consistent strict (core (rows db RootDB))"
  shows "\<forall>f \<in> set fs. sound_flag f"
proof
  fix f assume "f \<in> set fs"
  moreover obtain gs where "sum_mapM (PreloadSegmentsVariantsTags G RootDB db) gs = Inr fs"
    using assms(1) by (auto simp: dbFetcher_fetch_def sum_bind_eq_Inr_iff)
  ultimately obtain g where "PreloadSegmentsVariantsTags G RootDB db g = Inr f"
    using sum_mapM_source by metis
  then show "sound_flag f" using Preload_flag_sound assms(2) by blast
qed

end

lemma cache_reachable_mono:
  assumes "cache_reachable C L Q ec" "\<And>fs. Q fs \<Longrightarrow> Q' fs"
  shows "cache_reachable C L Q' ec"
  using assms(1)
  by (induction rule: cache_reachable.induct) (auto intro: cache_reachable.intros assms(2))

section \<open>A server on the in-memory database\<close>

definition mem_empty :: "'e mem_db" where
  "mem_empty = \<lparr>mem_committed = (\<lambda>_. []), mem_txs = [], mem_flag_tags = [], mem_faults = []\<rparr>"

definition demo_crud_env :: "(string, string mem_db) crud_env" where
  "demo_crud_env = \<lparr>ce_gorm = mem_gorm, ce_cast = go_cast, ce_cond = text_cond, ce_subject = Inr ''ann'',
     ce_Marshal = (\<lambda>_. Inr ''{}''), ce_StatsdClient = False, ce_random = ''k1''\<rparr>"

definition demo_create :: create_flag_request where
  "demo_create = \<lparr>CFR_Description = Some ''d'', CFR_Key = ''k'', CFR_Template = ''simple_boolean_flag''\<rparr>"

definition demo_db :: "string mem_db" where
  "demo_db = snd (serve demo_crud_env (CreateFlagRq \<lparr>CreateFlag_Body = Some demo_create\<rparr>) mem_empty)"

lemma demo_crud_env_sel [simp]:
  "ce_gorm demo_crud_env = mem_gorm" "ce_cast demo_crud_env = go_cast" "ce_cond demo_crud_env = text_cond"
  by (simp_all add: demo_crud_env_def)

lemma mem_empty_run: "crud_run P mem_gorm text_cond mem_rows mem_empty"
  by (rule crud_run.empty) (simp add: mem_empty_def mem_rows_def)

text \<open>The contents of the demonstration database, so that witnesses need not run the handler again.\<close>

definition demo_rows :: "table_kind \<Rightarrow> string row list" where
  "demo_rows k =
     (let m = \<lparr>Model_ID = 1, CreatedAt = 0, UpdatedAt = 0, DeletedAt = None\<rparr> in
      case k of
        TFlag \<Rightarrow> [RFlag \<lparr>Flag_Model = m, Flag_Key = ''k'', Flag_Description = ''d'', Flag_CreatedBy = ''ann'',
          Flag_UpdatedBy = ''ann'', Flag_Enabled = False, Flag_Segments = [], Flag_Variants = [], Flag_Tags = [],
          Flag_SnapshotID = 1, Flag_Notes = [], Flag_DataRecordsEnabled = False, Flag_EntityType = [],
          FlagEvaluation = \<lparr>VariantsMap = []\<rparr>\<rparr>]
      | TSegment \<Rightarrow> [RSegment \<lparr>Segment_Model = m, Segment_FlagID = 1, Segment_Description = [], Segment_Rank = 999,
          Segment_RolloutPercent = 100, Segment_Constraints = [], Segment_Distributions = [],
          SegmentEvaluation = \<lparr>ConditionsExpr = None,
            DistributionArray = \<lparr>VariantIDs = [], PercentsAccumulated = []\<rparr>\<rparr>\<rparr>]
      | TDistribution \<Rightarrow> [RDistribution \<lparr>Distribution_Model = m, Distribution_SegmentID = 1, Distribution_VariantID = 1,
          Distribution_VariantKey = ''on'', Distribution_Percent = 100, Distribution_Bitmap = []\<rparr>]
      | TVariant \<Rightarrow> [RVariant \<lparr>Variant_Model = m, Variant_FlagID = 1, Variant_Key = ''on'', Variant_Attachment = None\<rparr>]
      | TSnapshot \<Rightarrow> [RSnapshot \<lparr>FlagSnapshot_Model = m, FlagSnapshot_FlagID = 1, FlagSnapshot_UpdatedBy = ''ann'',
          FlagSnapshot_Flag = ''{}''\<rparr>]
      | _ \<Rightarrow> [])"

definition table_kinds :: "table_kind list" where
  "table_kinds = [TFlag, TSegment, TConstraint, TDistribution, TVariant, TTag, TSnapshot, TEntityType]"

lemma table_kinds_all: "k \<in> set table_kinds"
  by (cases k) (simp_all add: table_kinds_def)

text \<open>Two in-memory databases without transactions are equal when their tables are.\<close>

definition mem_same :: "'e mem_db \<Rightarrow> (table_kind \<Rightarrow> 'e row list) \<Rightarrow> (u64 \<times> u64) list \<Rightarrow> bool" where
  "mem_same db rows tags \<longleftrightarrow> map (mem_committed db) table_kinds = map rows table_kinds \<and>
     mem_flag_tags db = tags \<and> mem_faults db = [] \<and> (case mem_txs db of [] \<Rightarrow> True | _ \<Rightarrow> False)"

lemma mem_sameD:
  assumes "mem_same db rows tags"
  shows "db = \<lparr>mem_committed = rows, mem_txs = [], mem_flag_tags = tags, mem_faults = []\<rparr>"
proof -
  have "mem_committed db = rows"
    using assms table_kinds_all by (intro ext) (auto simp: mem_same_def)
  with assms show ?thesis by (cases db) (auto simp: mem_same_def split: list.splits)
qed

lemma demo_db_same: "mem_same demo_db demo_rows []"
  by code_simp

lemma demo_db_value [code]:
  "demo_db = \<lparr>mem_committed = demo_rows, mem_txs = [], mem_flag_tags = [], mem_faults = []\<rparr>"
  by (rule mem_sameD [OF demo_db_same])

lemma demo_db_run:
  assumes "P mem_empty (CreateFlagRq \<lparr>CreateFlag_Body = Some demo_create\<rparr>)"
  shows "crud_run P mem_gorm text_cond mem_rows demo_db"
  unfolding demo_db_def
proof (rule crud_run.request [OF mem_empty_run, where call = "CreateFlagCall (Decoded demo_create)"])
  show "cast_laws (ce_cast demo_crud_env)" by (simp add: go_cast.cast_laws_axioms)
qed (use assms in \<open>simp_all add: CreateFlagParams_BindRequest_def bind_body_def demo_create_def
    CreateFlagRequest_Validate_def required_string_def validate_MinLength_def check_all_def\<close>)

lemma demo_db_reachable: "crud_reachable mem_gorm text_cond mem_rows demo_db"
  by (rule demo_db_run) (rule TrueI)

lemma demo_db_template:
  "map Distribution_Percent (dists_of (mem_rows demo_db RootDB TDistribution) 1) = [100] \<and>
   length (live_segments (mem_rows demo_db RootDB TSegment)) = 1"
  by code_simp

lemma demo_db_prepares:
  "case EvalCache_Start go_cast text_cond (dbFetcher_fetch mem_gorm demo_db) False new_EvalCache of
     Inl _ \<Rightarrow> False | Inr ec \<Rightarrow> length (idCache (cache ec)) = 1"
  by code_simp

section \<open>Properties\<close>

text \<open>C2: in every database that bound requests of the management API lead to, from an empty one and
  through every error path, the live distributions of each segment id are empty or add up to exactly
  100 or 200 percent, those of an id that was never stored are empty or add up to 100, and no live segment has a
  rollout percentage above 100. If every PutDistributions of the run named a stored segment, they are empty or add up
  to exactly 100 percent, and there are none on other ids.\<close>

theorem stored_configuration_consistent:
  assumes "gorm_laws G rows open_txs" "crud_reachable G L rows db"
  shows "(\<forall>s. dists_of (rows db RootDB TDistribution) s = [] \<or>
      sum_list (percents (dists_of (rows db RootDB TDistribution) s)) \<in> {100, 200}) \<and>
    (\<forall>s. s \<notin> row_ID ` set (rows db RootDB TSegment) \<longrightarrow> dists_of (rows db RootDB TDistribution) s = [] \<or>
      sum_list (percents (dists_of (rows db RootDB TDistribution) s)) = 100) \<and>
    (\<forall>s \<in> set (live_segments (rows db RootDB TSegment)). unat (Segment_RolloutPercent s) \<le> 100) \<and>
    (crud_run (names_stored_segment rows) G L rows db \<longrightarrow>
      (\<forall>s. dists_of (rows db RootDB TDistribution) s = [] \<or>
        s \<in> row_ID ` set (rows db RootDB TSegment) \<and>
        sum_list (percents (dists_of (rows db RootDB TDistribution) s)) = 100))"
proof -
  note core = gorm_laws.core_at [OF assms(1)]
  note c = consistentD [OF gorm_laws.reachable_consistent [OF assms, unfolded core]]
  have strict: "consistent True (rows db RootDB TDistribution, rows db RootDB TSegment)"
    if "crud_run (names_stored_segment rows) G L rows db"
    using gorm_laws.strict_consistent [OF assms(1) that] by (simp only: core)
  have "s \<in> row_ID ` set (rows db RootDB TSegment) \<and> sum_list (percents (dists_of (rows db RootDB TDistribution) s)) = 100"
    if "crud_run (names_stored_segment rows) G L rows db" "dists_of (rows db RootDB TDistribution) s \<noteq> []" for s
    using that(2) consistentD(3,4) [OF strict [OF that(1)], of s] by (auto simp: full_def waiting_def)
  then show ?thesis using c(3-5) by (auto simp: full_def waiting_def)
qed

theorem stored_configuration_consistent_witness:
  "dists_of (mem_rows demo_db RootDB TDistribution) 1 \<noteq> [] \<and>
   sum_list (percents (dists_of (mem_rows demo_db RootDB TDistribution) 1)) = 100"
proof -
  have "dists_of (mem_rows demo_db RootDB TDistribution) 1 \<noteq> []" using demo_db_template by auto
  moreover have "crud_run (names_stored_segment mem_rows) mem_gorm text_cond mem_rows demo_db"
    by (rule demo_db_run) simp
  ultimately show ?thesis
    using stored_configuration_consistent [OF mem.gorm_laws_axioms demo_db_reachable] by blast
qed

text \<open>C1: the server does not panic on an evaluation, except on a batch with a null entity, which the property leaves
  out: whatever bound requests the management API served one after another, with bodies that fit into memory and whether
  or not they named segments that exist, and whenever the cache fetched the flags from the database, failed to or
  installed them late, every single evaluation request and every batch without a null entity returns a response.\<close>

theorem server_evaluation_never_panics:
  assumes "gorm_laws G rows open_txs"
    and "cache_reachable (env_cast env) (env_cond env)
      (\<lambda>fs. \<exists>db. crud_reachable G L rows db \<and> dbFetcher_fetch G db = Inr fs) ec"
    and "env_cache env = cache ec"
  shows "(\<exists>resp st'. PostEvaluation env body st = Inr (resp, st')) \<and>
    (None \<notin> set (EBR_Entities req) \<longrightarrow> (\<exists>resp st'. PostEvaluationBatch env (Some req) st = Inr (resp, st')))"
proof -
  have "\<forall>f \<in> set fs. sound_flag f" if "\<exists>db. crud_reachable G L rows db \<and> dbFetcher_fetch G db = Inr fs" for fs
    using that gorm_laws.fetched_sound [OF assms(1)] gorm_laws.reachable_consistent [OF assms(1)] by blast
  from cache_reachable_mono [OF assms(2) this]
  have "cache_reachable (env_cast env) (env_cond env) (\<lambda>fs. \<forall>f \<in> set fs. sound_flag f) ec" .
  from sound_cache_reachable [OF this] have c: "sound_cache (env_cond env) (env_cast env) (env_cache env)"
    by (simp only: assms(3))
  show ?thesis using PostEvaluation_sound [OF c] PostEvaluationBatch_sound [OF c] by blast
qed

theorem server_evaluation_never_panics_witness:
  "\<exists>(ec :: string EvalCache) resp st'. length (idCache (cache ec)) = 1 \<and>
     PostEvaluation (demo_env (cache ec) default_config) (Some demo_context) initial_eval_state = Inr (resp, st')"
proof -
  obtain ec where ec: "EvalCache_Start go_cast text_cond (dbFetcher_fetch mem_gorm demo_db) False new_EvalCache = Inr ec"
    "length (idCache (cache ec)) = 1"
    using demo_db_prepares by (auto split: sum.splits)
  let ?Q = "\<lambda>fs. \<exists>db. crud_reachable mem_gorm text_cond mem_rows db \<and> dbFetcher_fetch mem_gorm db = Inr fs"
  have r: "cache_reachable go_cast text_cond ?Q ec"
    by (rule cache_reachable.start [OF _ ec(1)]) (use demo_db_reachable in blast)
  have "cache_reachable (env_cast (demo_env (cache ec) default_config))
      (env_cond (demo_env (cache ec) default_config)) ?Q ec"
    using r by simp
  from server_evaluation_never_panics [OF mem.gorm_laws_axioms this, of "Some demo_context" initial_eval_state demo_batch]
  have "\<exists>resp st'. PostEvaluation (demo_env (cache ec) default_config) (Some demo_context) initial_eval_state =
      Inr (resp, st')" by simp
  with ec(2) show ?thesis by blast
qed

end
