(* ===== verification/Flagr_Answers.thy ===== *)
theory Flagr_Answers
  imports Flagr_Service
begin

text \<open>
  Which calls of the management API end in a panic: none that was bound, has a subject and no null
  entry among its distributions; and a null entry passes the validation and always does.
\<close>

section \<open>Replies that are responses\<close>

definition answers :: "('p, 'db) reply \<Rightarrow> bool" where
  "answers r \<longleftrightarrow> (\<exists>x. outcome r = Inr x)"

lemma answers_simps [simp]: "answers (reject c m db)" "answers (accept x db)" "\<not> answers (panicked p db)"
  by (simp_all add: answers_def reject_def accept_def panicked_def)

lemma answers_try: "(\<And>e db'. answers (F e db')) \<Longrightarrow> (\<And>a db'. answers (K a db')) \<Longrightarrow> answers (db_try x F K)"
  by (simp add: db_try_def split: prod.split sum.split)

lemma answers_exec: "(\<And>e db'. answers (F e db')) \<Longrightarrow> (\<And>db'. answers (K db')) \<Longrightarrow> answers (db_exec x F K)"
  by (simp add: db_exec_def split: prod.split option.split)

lemma answers_snapshot: "ce_subject env = Inr u \<Longrightarrow> answers (accept_snapshot env i p db)"
  by (simp add: answers_def accept_snapshot_def case_prod_beta)

lemma answered_iff: "(\<exists>c. fst (answered r) = Inr c) \<longleftrightarrow> answers r"
  by (auto simp: answered_def answers_def split: sum.split response.split)

section \<open>Handlers\<close>

lemma answers_handlers:
  assumes u: "ce_subject env = Inr u"
  shows "answers (PutFlag env f pb db)" "answers (RestoreFlag env f db)" "answers (DeleteFlag env f db)"
    "answers (CreateTag env f tb db)" "answers (DeleteTag env f t db)" "answers (PutSegment env f s sb db)"
    "answers (PutSegmentsReorder env f rb db)" "answers (DeleteSegment env f s db)"
    "answers (CreateConstraint env f s cb db)" "answers (PutConstraint env f c cb db)"
    "answers (DeleteConstraint env f c db)" "answers (CreateVariant env f vb db)"
    "answers (PutVariant env f v vb db)" "answers (DeleteVariant env f v db)"
  by (auto simp: PutFlag_def RestoreFlag_def DeleteFlag_def CreateTag_def DeleteTag_def PutSegment_def
      PutSegmentsReorder_def DeleteSegment_def CreateConstraint_def PutConstraint_def DeleteConstraint_def
      CreateVariant_def PutVariant_def DeleteVariant_def Let_def
      split: sum.split prod.split option.split
      intro!: answers_try answers_exec answers_snapshot [OF u])

lemma answers_CreateFlag:
  assumes u: "ce_subject env = Inr u"
  shows "answers (CreateFlag env (Some b) db)"
  by (auto simp: CreateFlag_def u Let_def split: sum.split prod.split
      intro!: answers_try answers_exec answers_snapshot [OF u])

lemma answers_SetFlagEnabled:
  assumes u: "ce_subject env = Inr u" and "SetFlagEnabledRequest_Validate b = []"
  shows "answers (SetFlagEnabledState env f b db)"
  using assms(2) by (auto simp: SetFlagEnabledState_def SetFlagEnabledRequest_Validate_def Let_def
      split: sum.split option.split if_splits intro!: answers_try answers_exec answers_snapshot [OF u])

lemma answers_CreateSegment:
  assumes u: "ce_subject env = Inr u" and "CreateSegmentRequest_Validate b = []"
  shows "answers (CreateSegment env f b db)"
  using SegmentRequest_valid(1) [OF assms(2)]
  by (auto simp: CreateSegment_def intro!: answers_try answers_exec answers_snapshot [OF u])

section \<open>Distributions\<close>

lemma percent_sum_no_panic:
  assumes "None \<notin> set ds"
  shows "\<exists>r. percent_sum ds acc = Inr r"
  using assms
proof (induction ds arbitrary: acc)
  case (Cons d ds)
  then show ?case by (cases d) (auto split: option.split)
qed simp

lemma percent_sum_null:
  assumes "\<forall>m. Some m \<in> set ds \<longrightarrow> valid_distribution m" "None \<in> set ds"
  shows "percent_sum ds acc = Inl NilDeref"
  using assms
proof (induction ds arbitrary: acc)
  case (Cons d ds)
  show ?case
  proof (cases d)
    case (Some m)
    then obtain p where "MD_Percent m = Some p" using Cons.prems(1) by (auto simp: valid_distribution_def)
    then show ?thesis using Cons Some by auto
  qed simp
qed simp

lemma check_variants_no_panic:
  assumes "None \<notin> set ds"
  shows "\<exists>r. check_variants C vm ids ds = Inr r"
  using assms
proof (induction ds)
  case (Cons d ds)
  then show ?case by (cases d) (auto simp: Let_def split: option.split)
qed simp

lemma validatePutDistributions_no_panic:
  assumes "None \<notin> set (body_distributions b)"
  shows "\<exists>r. validatePutDistributions env f b db = Inr r"
proof -
  obtain r where "percent_sum (body_distributions b) 0 = Inr r" using percent_sum_no_panic [OF assms] by blast
  then show ?thesis using check_variants_no_panic [OF assms]
    by (cases r) (auto simp: validatePutDistributions_def Let_def split: sum.split)
qed

lemma r2e_no_panic:
  assumes "None \<notin> set ds" "\<forall>m. Some m \<in> set ds \<longrightarrow> valid_distribution m"
  shows "\<exists>es. r2e_MapDistributions C ds s = Inr es"
  using assms
proof (induction ds)
  case (Cons d ds)
  then obtain es where es: "r2e_MapDistributions C ds s = Inr es" by auto
  obtain m where m: "d = Some m" using Cons.prems(1) by (cases d) auto
  then obtain p v where "MD_Percent m = Some p" "MD_VariantID m = Some v"
    using Cons.prems(2) by (auto simp: valid_distribution_def)
  then show ?case using es m by (simp add: r2e_MapDistributions_def r2e_MapDistribution_def)
qed (simp add: r2e_MapDistributions_def)

lemma answers_PutDistributions:
  assumes u: "ce_subject env = Inr u" and "PutDistributionsRequest_Validate b = []"
    and "None \<notin> set (body_distributions b)"
  shows "answers (PutDistributions env f s b db)"
proof -
  from validatePutDistributions_no_panic [OF assms(3), of env f db]
  obtain r where r: "validatePutDistributions env f b db = Inr r" by blast
  obtain es where es: "r2e_MapDistributions (ce_cast env) (body_distributions b) (uint_of_int64 s) = Inr es"
    using r2e_no_panic [OF assms(3) body_valid [OF assms(2)]] by blast
  show ?thesis
    by (auto simp: PutDistributions_def r es Let_def split: option.split prod.split
        intro!: answers_try answers_exec answers_snapshot [OF u])
qed

section \<open>Every bound request has its body\<close>

fun has_body :: "crud_request \<Rightarrow> bool" where
  "has_body (PutFlagRq p) = (PutFlag_Body p \<noteq> None)"
| "has_body (CreateTagRq p) = (CreateTag_Body p \<noteq> None)"
| "has_body (PutSegmentsReorderRq p) = (PutSegmentsReorder_Body p \<noteq> None)"
| "has_body (CreateVariantRq p) = (CreateVariant_Body p \<noteq> None)"
| "has_body (PutVariantRq p) = (PutVariant_Body p \<noteq> None)"
| "has_body _ = True"

lemma bind_call_body:
  assumes "bind_call S call = Inr rq"
  shows "has_body rq"
  using assms
  by (cases call) (auto simp: PutFlagParams_BindRequest_def CreateTagParams_BindRequest_def
      PutSegmentsReorderParams_BindRequest_def CreateVariantParams_BindRequest_def PutVariantParams_BindRequest_def
      split: prod.splits dest!: bind_body_ok)

section \<open>Properties\<close>

text \<open>A call of the management API whose parameters were bound is answered with a status, whatever the
  database does, if the subject of the request can be read and no entry of its distributions is null:
  the validation in front of the handlers excludes every other nil dereference.\<close>

theorem bound_calls_are_answered:
  assumes "bind_call S call = Inr rq" "ce_subject env = Inr u"
    and "\<forall>p b. rq = PutDistributionsRq p \<and> PutDistributions_Body p = Some b \<longrightarrow> None \<notin> set (body_distributions b)"
  shows "\<exists>code. fst (serve env rq db) = Inr code"
proof -
  note ok = bind_call_ok [OF assms(1)]
  note h = answers_handlers [OF assms(2)] answers_CreateFlag [OF assms(2)] answers_SetFlagEnabled [OF assms(2)]
    answers_CreateSegment [OF assms(2)] answers_PutDistributions [OF assms(2)]
  show ?thesis
    using assms(3) ok bind_call_body [OF assms(1)]
    by (cases rq) (auto simp: with_body_def answered_iff h)
qed

definition demo_http :: http_request where
  "demo_http = \<lparr>rq_path = (\<lambda>name. if name = ''flagID'' then [''1''] else [''7'']), rq_query = (\<lambda>_. [])\<rparr>"

definition demo_segment_body :: create_segment_request where
  "demo_segment_body = \<lparr>SR_Description = Some ''all'', SR_RolloutPercent = Some 50\<rparr>"

lemma demo_ids: "ParseInt ''1'' = Some 1" "ParseInt ''7'' = Some 7"
  using ParseInt_dec_int [of 1] ParseInt_dec_int [of 7] dec_uint_digits(2,3)
  by (simp_all add: dec_int_def dec_uint_def)

lemma demo_path: "rq_path demo_http name = (if name = ''flagID'' then [''1''] else [''7''])"
  by (simp add: demo_http_def)

lemma demo_bound:
  "bind_call go_swag (CreateSegmentCall demo_http (Decoded demo_segment_body)) =
    Inr (CreateSegmentRq \<lparr>CreateSegment_Body = Some demo_segment_body, CreateSegment_FlagID = 1\<rparr>)"
  "bind_call go_swag (PutDistributionsCall demo_http (Decoded \<lparr>PDR_Distributions = Some [None]\<rparr>)) =
    Inr (PutDistributionsRq \<lparr>PutDistributions_Body = Some \<lparr>PDR_Distributions = Some [None]\<rparr>,
      PutDistributions_FlagID = 1, PutDistributions_SegmentID = 7\<rparr>)"
  by (simp_all add: CreateSegmentParams_BindRequest_def PutDistributionsParams_BindRequest_def bind_path_id_def
      bind_body_def demo_path last_raw_def go_swag_def demo_ids validate_MinimumInt_def demo_segment_body_def
      CreateSegmentRequest_Validate_def PutDistributionsRequest_Validate_def
      PutDistributionsRequest_ContextValidate_def optional_entries_def required_string_def
      required_percent_def validate_MinLength_def validate_MaximumInt_def check_all_def bound_def bind_done_def)

theorem bound_calls_are_answered_witness:
  "\<exists>rq code. bind_call go_swag (CreateSegmentCall demo_http (Decoded demo_segment_body)) = Inr rq \<and>
     fst (serve demo_crud_env rq mem_empty) = Inr code"
proof -
  have "ce_subject demo_crud_env = Inr ''ann''" by (simp add: demo_crud_env_def)
  from bound_calls_are_answered [OF demo_bound(1) this, of mem_empty] show ?thesis
    using demo_bound(1) by blast
qed

text \<open>A null entry in the list of new distributions passes the binding of the request, and the handler
  then always panics with a nil dereference, whatever the database holds.\<close>

theorem null_distribution_panics:
  assumes "bind_call S (PutDistributionsCall r (Decoded b)) = Inr rq" "None \<in> set (body_distributions b)"
  shows "fst (serve env rq db) = Inl NilDeref \<and> snd (serve env rq db) = db"
proof -
  from assms(1) obtain p where p: "rq = PutDistributionsRq p" "PutDistributions_Body p = Some b"
    "PutDistributionsRequest_Validate b = []"
    by (auto simp: PutDistributionsParams_BindRequest_def split: prod.splits dest!: bind_body_ok)
  have "percent_sum (body_distributions b) 0 = Inl NilDeref"
    by (rule percent_sum_null [OF body_valid [OF p(3)] assms(2)])
  then have "validatePutDistributions env f b db = Inl NilDeref" for f
    by (simp add: validatePutDistributions_def Let_def)
  then show ?thesis
    using p by (simp add: with_body_def PutDistributions_def answered_def panicked_def)
qed

theorem null_distribution_panics_witness:
  "\<exists>rq. bind_call go_swag (PutDistributionsCall demo_http (Decoded \<lparr>PDR_Distributions = Some [None]\<rparr>)) = Inr rq \<and>
     fst (serve demo_crud_env rq demo_db) = Inl NilDeref"
proof -
  have "None \<in> set (body_distributions \<lparr>PDR_Distributions = Some [None]\<rparr>)" by (simp add: body_distributions_def)
  from null_distribution_panics [OF demo_bound(2) this, of demo_crud_env demo_db] show ?thesis
    using demo_bound(2) by blast
qed

end
