(* ===== verification/Flagr_Transactions.thy ===== *)
theory Flagr_Transactions
  imports Flagr_Answers
begin

text \<open>
  What the handlers that run several statements do as a whole: the snapshot that follows every
  change, the replacement of a segment's distributions, the reordering of segments and the creation
  of a flag. Each either commits everything or leaves the committed rows alone; and the paths on
  which a transaction stays open.
\<close>

section \<open>Properties of snapshots\<close>

text \<open>C9: a snapshot is all or nothing. Either the committed rows stay as they were, or exactly one snapshot
  row is added, with the flag as marshalled inside the transaction and the acting subject, and the
  flag's own row names that snapshot and that subject; no other table and no other flag changes.\<close>

theorem snapshot_all_or_nothing:
  assumes "gorm_laws G rows open_txs" "ce_gorm env = G" "db' = fst (SaveFlagSnapshot env i u db)"
  shows "rows db' RootDB = rows db RootDB \<or>
    (\<exists>tx db1 f0 f b m t. gorm_Begin G db = (tx, db1) \<and> First_Flag G (TxDB tx) i db1 = Inr f0 \<and>
      f = Flag_Preload G (TxDB tx) db1 f0 \<and> ce_Marshal env f = Inr b \<and>
      rows db' RootDB = (rows db RootDB)
      (TSnapshot := rows db RootDB TSnapshot @ [RSnapshot \<lparr>FlagSnapshot_Model = m, FlagSnapshot_FlagID = flag_ID f,
         FlagSnapshot_UpdatedBy = u, FlagSnapshot_Flag = b\<rparr>],
       TFlag := map (\<lambda>x. if row_ID x = flag_ID f
         then row_columns (touch t (RFlag (f\<lparr>Flag_UpdatedBy := u, Flag_SnapshotID := Model_ID m\<rparr>))) else x)
         (rows db RootDB TFlag)))"
proof -
  obtain tx db1 where B: "gorm_Begin G db = (tx, db1)" by (cases "gorm_Begin G db")
  show ?thesis
  proof (cases "\<exists>f0 b. First_Flag G (TxDB tx) i db1 = Inr f0 \<and> ce_Marshal env (Flag_Preload G (TxDB tx) db1 f0) = Inr b")
    case True
    then obtain f0 b where f: "First_Flag G (TxDB tx) i db1 = Inr f0"
      "ce_Marshal env (Flag_Preload G (TxDB tx) db1 f0) = Inr b" by blast
    from gorm_laws.SaveFlagSnapshot_steps [OF assms(1,2) B f(1) refl f(2) assms(3)] show ?thesis
      using B f by blast
  next
    case False
    then have "\<forall>f0. First_Flag G (TxDB tx) i db1 = Inr f0 \<longrightarrow>
        (\<exists>e. ce_Marshal env (Flag_Preload G (TxDB tx) db1 f0) = Inl e)" by (metis sumE)
    from gorm_laws.SaveFlagSnapshot_early [OF assms(1,2) B this] show ?thesis
      using gorm_laws.Begin_ok [OF assms(1) B] assms(3) by simp
  qed
qed

lemma demo_snapshot:
  "length (mem_rows demo_db RootDB TSnapshot) = 1"
  "length (mem_rows (fst (SaveFlagSnapshot demo_crud_env 1 ''bob'' demo_db)) RootDB TSnapshot) = 2"
  by code_simp+

theorem snapshot_all_or_nothing_witness:
  "\<exists>f m b. mem_rows (fst (SaveFlagSnapshot demo_crud_env 1 ''bob'' demo_db)) RootDB TSnapshot =
     mem_rows demo_db RootDB TSnapshot @ [RSnapshot \<lparr>FlagSnapshot_Model = m, FlagSnapshot_FlagID = flag_ID (f :: string flag),
       FlagSnapshot_UpdatedBy = ''bob'', FlagSnapshot_Flag = b\<rparr>] \<and> ce_Marshal demo_crud_env f = Inr b"
  using snapshot_all_or_nothing [OF mem.gorm_laws_axioms demo_crud_env_sel(1) refl, of 1 "''bob''" demo_db]
proof (elim disjE exE conjE)
  assume "mem_rows (fst (SaveFlagSnapshot demo_crud_env 1 ''bob'' demo_db)) RootDB = mem_rows demo_db RootDB"
  then show ?thesis using demo_snapshot by simp
next
  fix f b m t
  assume "ce_Marshal demo_crud_env f = Inr b" and "mem_rows (fst (SaveFlagSnapshot demo_crud_env 1 ''bob'' demo_db)) RootDB =
    (mem_rows demo_db RootDB)
      (TSnapshot := mem_rows demo_db RootDB TSnapshot @ [RSnapshot \<lparr>FlagSnapshot_Model = m, FlagSnapshot_FlagID = flag_ID f,
         FlagSnapshot_UpdatedBy = ''bob'', FlagSnapshot_Flag = b\<rparr>],
       TFlag := map (\<lambda>x. if row_ID x = flag_ID f
         then row_columns (touch t (RFlag (f\<lparr>Flag_UpdatedBy := ''bob'', Flag_SnapshotID := Model_ID m\<rparr>))) else x)
         (mem_rows demo_db RootDB TFlag))"
  then show ?thesis by (intro exI [of _ f] exI [of _ m] exI [of _ b]) simp
qed

text \<open>A snapshot closes its transaction exactly when the flag is found and can be marshalled; on the two
  early returns the transaction that was begun stays open, one more for every request.\<close>

theorem snapshot_transaction:
  assumes "gorm_laws G rows open_txs" "ce_gorm env = G" "gorm_Begin G db = (tx, db1)"
  shows "tx \<notin> open_txs db \<and> open_txs (fst (SaveFlagSnapshot env i u db)) =
    (case First_Flag G (TxDB tx) i db1 of
       Inl _ \<Rightarrow> insert tx (open_txs db)
     | Inr f0 \<Rightarrow> (case ce_Marshal env (Flag_Preload G (TxDB tx) db1 f0) of
         Inl _ \<Rightarrow> insert tx (open_txs db) | Inr _ \<Rightarrow> open_txs db))"
proof -
  note B = gorm_laws.Begin_ok [OF assms(1,3)]
  note steps = gorm_laws.SaveFlagSnapshot_steps [OF assms _ refl _ refl]
  note early = gorm_laws.SaveFlagSnapshot_early [OF assms]
  show ?thesis
  proof (cases "First_Flag G (TxDB tx) i db1")
    case (Inl e)
    then show ?thesis using B early [of i u] by simp
  next
    case (Inr f0)
    then show ?thesis using B early [of i u] steps [OF Inr]
      by (cases "ce_Marshal env (Flag_Preload G (TxDB tx) db1 f0)") auto
  qed
qed

lemma demo_missing_flag:
  "case gorm_Begin mem_gorm demo_db of (tx, db1) \<Rightarrow>
     (case First_Flag mem_gorm (TxDB tx) 9 db1 of Inl _ \<Rightarrow> True | Inr _ \<Rightarrow> False)"
  by code_simp

theorem snapshot_transaction_witness:
  "\<exists>tx. tx \<notin> mem_open demo_db \<and>
     mem_open (fst (SaveFlagSnapshot demo_crud_env 9 ''ann'' demo_db)) = insert tx (mem_open demo_db)"
proof -
  obtain tx db1 where B: "gorm_Begin mem_gorm demo_db = (tx, db1)" by (cases "gorm_Begin mem_gorm demo_db")
  show ?thesis
    using snapshot_transaction [OF mem.gorm_laws_axioms demo_crud_env_sel(1) B, of 9 "''ann''"]
      demo_missing_flag B by (auto split: sum.splits)
qed

section \<open>Replacing the distributions of a segment\<close>

text \<open>A created row has the content it was created from.\<close>

definition same_content :: "distribution \<Rightarrow> distribution \<Rightarrow> bool" where
  "same_content d d' \<longleftrightarrow> d' = d\<lparr>Distribution_Model := Distribution_Model d'\<rparr>"

lemma same_content_Model [simp]: "same_content d (d\<lparr>Distribution_Model := m\<rparr>)"
  by (simp add: same_content_def)

lemma accept_snapshot_not_rejected: "outcome (accept_snapshot env i p db) \<noteq> Inr (RespDefault code msg)"
  by (simp add: accept_snapshot_def panicked_def split: sum.split prod.split)

context gorm_laws
begin

lemma create_all_contents:
  assumes "create_all G h (map RDistribution ds) db = (None, db')"
  shows "\<exists>ds'. list_all2 same_content (filter (\<lambda>d. Distribution_SegmentID d = s) ds) ds' \<and>
    dists_of (rows db' h TDistribution) s = dists_of (rows db h TDistribution) s @ ds'"
  using assms
proof (induction ds arbitrary: db)
  case (Cons d ds)
  then obtain r1 db1 where c: "gorm_Create G h (RDistribution d) db = (Inr r1, db1)"
    and rest: "create_all G h (map RDistribution ds) db1 = (None, db')"
    by (auto split: prod.splits sum.splits)
  from Create_ok [OF c] obtain m where m: "DeletedAt m = None"
    "rows db1 h TDistribution = rows db h TDistribution @ [RDistribution (d\<lparr>Distribution_Model := m\<rparr>)]" by auto
  have one: "dists_of (rows db1 h TDistribution) s = dists_of (rows db h TDistribution) s @
      (if Distribution_SegmentID d = s then [d\<lparr>Distribution_Model := m\<rparr>] else [])"
    using m by (simp add: dists_of_Cons live_def)
  obtain ds' where ds': "list_all2 same_content (filter (\<lambda>d. Distribution_SegmentID d = s) ds) ds'"
    "dists_of (rows db' h TDistribution) s = dists_of (rows db1 h TDistribution) s @ ds'"
    using Cons.IH [OF rest] by blast
  show ?case
  proof (cases "Distribution_SegmentID d = s")
    case True
    then show ?thesis using one ds'
      by (intro exI [of _ "d\<lparr>Distribution_Model := m\<rparr> # ds'"]) simp
  next
    case False
    then show ?thesis using one ds' by (intro exI [of _ ds']) simp
  qed
qed simp

lemma create_all_tables:
  assumes "create_all G h (map RDistribution ds) db = (None, db')" "k \<noteq> TDistribution"
  shows "rows db' h k = rows db h k"
  using assms
proof (induction ds arbitrary: db)
  case (Cons d ds)
  then obtain r1 db1 where c: "gorm_Create G h (RDistribution d) db = (Inr r1, db1)"
    and rest: "create_all G h (map RDistribution ds) db1 = (None, db')"
    by (auto split: prod.splits sum.splits)
  then show ?case using Create_ok [OF c] Cons.IH [OF rest] Cons.prems(2) by auto
qed simp

lemma PutDistributions_ok:
  assumes "ce_gorm env = G" "outcome (PutDistributions env f s b db) = Inr (RespOK payload)"
  obtains tx db1 db2 es db3 db4 where "validatePutDistributions env f b db = Inr None"
    "gorm_Begin G db = (tx, db1)"
    "gorm_Delete G (TxDB tx) TDistribution
      (row_where as_distribution (\<lambda>d. Distribution_SegmentID d = uint_of_int64 s)) db1 = (None, db2)"
    "r2e_MapDistributions (ce_cast env) (body_distributions b) (uint_of_int64 s) = Inr es"
    "create_all G (TxDB tx) (map RDistribution es) db2 = (None, db3)"
    "gorm_Commit G tx db3 = (None, db4)" "payload = MapDistributions es"
    "db_after (PutDistributions env f s b db) = db_after (accept_snapshot env (SafeUint (ce_cast env) (VInt64 f)) payload db4)"
  using assms
  by (auto simp: PutDistributions_def Let_def db_exec_def reject_def panicked_def accept_snapshot_def
      split: sum.splits option.splits prod.splits)

lemma PutDistributions_rows:
  assumes "ce_gorm env = G" "outcome (PutDistributions env f s b db) = Inr (RespOK payload)"
  obtains es ds' where "r2e_MapDistributions (ce_cast env) (body_distributions b) (uint_of_int64 s) = Inr es"
    "payload = MapDistributions es" "list_all2 same_content es ds'"
    "\<And>k. k \<notin> {TDistribution, TFlag, TSnapshot} \<Longrightarrow>
      rows (db_after (PutDistributions env f s b db)) RootDB k = rows db RootDB k"
    "\<And>s'. dists_of (rows (db_after (PutDistributions env f s b db)) RootDB TDistribution) s' =
      (if s' = uint_of_int64 s then ds' else dists_of (rows db RootDB TDistribution) s')"
proof (rule PutDistributions_ok [OF assms])
  fix tx db1 db2 es db3 db4
  assume B: "gorm_Begin G db = (tx, db1)"
    and D: "gorm_Delete G (TxDB tx) TDistribution
      (row_where as_distribution (\<lambda>d. Distribution_SegmentID d = uint_of_int64 s)) db1 = (None, db2)"
    and es: "r2e_MapDistributions (ce_cast env) (body_distributions b) (uint_of_int64 s) = Inr es"
    and A: "create_all G (TxDB tx) (map RDistribution es) db2 = (None, db3)"
    and C: "gorm_Commit G tx db3 = (None, db4)" and payload: "payload = MapDistributions es"
    and after: "db_after (PutDistributions env f s b db) =
      db_after (accept_snapshot env (SafeUint (ce_cast env) (VInt64 f)) payload db4)"
  obtain t where d: "rows db2 (TxDB tx) = (rows db1 (TxDB tx))(TDistribution := delete_rows t
      (row_where as_distribution (\<lambda>d. Distribution_SegmentID d = uint_of_int64 s)) (rows db1 (TxDB tx) TDistribution))"
    using Delete_rows [OF D] by blast
  note b = Begin_ok [OF B]
  have four: "rows db4 RootDB = rows db3 (TxDB tx)"
    using Commit_ok [OF C] b tx_Delete [OF D] create_all_tx [OF A] by simp
  have seen: "rows (db_after (PutDistributions env f s b db)) RootDB k = rows db3 (TxDB tx) k"
    if "k \<noteq> TFlag" "k \<noteq> TSnapshot" for k
    by (simp add: after four accept_snapshot_rows [OF assms(1) that])
  have sid: "filter (\<lambda>d. Distribution_SegmentID d = s') es = (if s' = uint_of_int64 s then es else [])" for s'
    using mapped_percents(2) [OF es] by (auto simp: filter_id_conv filter_empty_conv)
  have new: "\<exists>ds'. list_all2 same_content (if s' = uint_of_int64 s then es else []) ds' \<and>
      dists_of (rows db3 (TxDB tx) TDistribution) s' =
        (if s' = uint_of_int64 s then [] else dists_of (rows db RootDB TDistribution) s') @ ds'" for s'
    using create_all_contents [OF A, of s'] b by (simp add: sid d dists_of_delete_segment split: if_splits)
  from new [of "uint_of_int64 s"] obtain ds' where ds': "list_all2 same_content es ds'"
    "dists_of (rows db3 (TxDB tx) TDistribution) (uint_of_int64 s) = ds'" by auto
  show ?thesis
  proof (rule that [OF es payload ds'(1)])
    show "rows (db_after (PutDistributions env f s b db)) RootDB k = rows db RootDB k"
      if "k \<notin> {TDistribution, TFlag, TSnapshot}" for k
      using that seen [of k] create_all_tables [OF A] b by (simp add: d)
    show "dists_of (rows (db_after (PutDistributions env f s b db)) RootDB TDistribution) s' =
        (if s' = uint_of_int64 s then ds' else dists_of (rows db RootDB TDistribution) s')" for s'
      using new [of s'] ds'(2) by (auto simp: seen)
  qed
qed

lemma PutDistributions_rejected:
  assumes "ce_gorm env = G" "outcome (PutDistributions env f s b db) = Inr (RespDefault code msg)"
    and "db' = db_after (PutDistributions env f s b db)"
  shows "rows db' RootDB = rows db RootDB \<and> open_txs db' = open_txs db"
proof (cases "validatePutDistributions env f b db = Inr None")
  case True
  let ?P = "row_where as_distribution (\<lambda>d. Distribution_SegmentID d = uint_of_int64 s)"
  obtain tx db1 where B: "gorm_Begin G db = (tx, db1)" by (cases "gorm_Begin G db")
  obtain er db2 where D: "gorm_Delete G (TxDB tx) TDistribution ?P db1 = (er, db2)"
    by (cases "gorm_Delete G (TxDB tx) TDistribution ?P db1")
  note b = Begin_ok [OF B] and d = tx_Delete [OF D]
  have rolled: "rows (gorm_Rollback G tx db2) RootDB = rows db RootDB \<and> open_txs (gorm_Rollback G tx db2) = open_txs db"
    if "rows db2 RootDB = rows db RootDB" "open_txs db2 = open_txs db1" for db2
    using that b by (simp add: Rollback_ok)
  show ?thesis
  proof (cases er)
    case (Some e)
    then show ?thesis using assms B D rolled [of db2] b d True by (simp add: PutDistributions_def Let_def db_exec_def)
  next
    case None
    show ?thesis
    proof (cases "r2e_MapDistributions (ce_cast env) (body_distributions b) (uint_of_int64 s)")
      case (Inl p)
      then show ?thesis using assms B D None True by (simp add: PutDistributions_def Let_def db_exec_def panicked_def)
    next
      case (Inr es)
      obtain cr db3 where A: "create_all G (TxDB tx) (map RDistribution es) db2 = (cr, db3)"
        by (cases "create_all G (TxDB tx) (map RDistribution es) db2")
      note a = create_all_tx [OF A]
      obtain mr db4 where M: "gorm_Commit G tx db3 = (mr, db4)" by (cases "gorm_Commit G tx db3")
      show ?thesis
        using assms B D None True Inr A M rolled [of db3] rolled [of db4] b d a Commit_error [of tx db3 _ db4]
        by (cases cr; cases mr) (simp_all add: PutDistributions_def Let_def db_exec_def accept_snapshot_not_rejected)
    qed
  qed
next
  case False
  then show ?thesis using assms by (auto simp: PutDistributions_def reject_def panicked_def split: sum.splits option.splits)
qed

end

lemma same_content_percents: "list_all2 same_content es ds' \<Longrightarrow> percents ds' = percents es"
  by (induction rule: list_all2_induct) (auto simp: same_content_def, metis distribution.select_convs(5) distribution.surjective distribution.update_convs(1))

section \<open>A flag with two variants\<close>

definition demo_off :: create_variant_request where
  "demo_off = \<lparr>VR_Attachment = VNil, VR_Key = Some ''off''\<rparr>"

definition demo_entry :: "i64 \<Rightarrow> string \<Rightarrow> i64 \<Rightarrow> m_distribution option" where
  "demo_entry v k p = Some \<lparr>MD_ID = 0, MD_Percent = Some p, MD_VariantID = Some v, MD_VariantKey = Some k\<rparr>"

definition demo_split :: put_distributions_request where
  "demo_split = \<lparr>PDR_Distributions = Some [demo_entry 1 ''on'' 40, demo_entry 2 ''off'' 60]\<rparr>"

definition demo_two :: "string mem_db" where
  "demo_two = db_after (CreateVariant demo_crud_env 1 demo_off demo_db)"

definition demo_put :: "(m_distribution option list, string mem_db) reply" where
  "demo_put = PutDistributions demo_crud_env 1 1 demo_split demo_two"

lemma demo_put_ok:
  "case outcome demo_put of Inr (RespOK ds) \<Rightarrow> length ds = 2 | _ \<Rightarrow> False"
  "map Distribution_VariantKey (dists_of (mem_rows (db_after demo_put) RootDB TDistribution) 1) = [''on'', ''off'']"
  by code_simp+

section \<open>Properties of the replacement\<close>

text \<open>C7: a successful replacement of distributions replaces exactly those of its segment: the live ones are
  then the ones of the request, in its order and with their content, and they add up to 100 percent;
  those of other segments and every table other than the flags and their snapshots stay as they were.\<close>

theorem PutDistributions_replaces:
  assumes "gorm_laws G rows open_txs" "ce_gorm env = G" "PutDistributionsRequest_Validate b = []"
    and "length (body_distributions b) < 2 ^ 45"
    and "outcome (PutDistributions env f s b db) = Inr (RespOK payload)"
    and "db' = db_after (PutDistributions env f s b db)"
  shows "\<exists>es ds'. r2e_MapDistributions (ce_cast env) (body_distributions b) (uint_of_int64 s) = Inr es \<and>
    payload = MapDistributions es \<and> list_all2 same_content es ds' \<and> sum_list (percents ds') = 100 \<and>
    (\<forall>s'. dists_of (rows db' RootDB TDistribution) s' =
      (if s' = uint_of_int64 s then ds' else dists_of (rows db RootDB TDistribution) s')) \<and>
    (\<forall>k. k = TDistribution \<or> k = TFlag \<or> k = TSnapshot \<or> rows db' RootDB k = rows db RootDB k)"
proof (rule gorm_laws.PutDistributions_rows [OF assms(1,2,5)])
  fix es ds'
  assume es: "r2e_MapDistributions (ce_cast env) (body_distributions b) (uint_of_int64 s) = Inr es"
    and rest: "payload = MapDistributions es" "list_all2 same_content es ds'"
    "\<And>k. k \<notin> {TDistribution, TFlag, TSnapshot} \<Longrightarrow>
      rows (db_after (PutDistributions env f s b db)) RootDB k = rows db RootDB k"
    "\<And>s'. dists_of (rows (db_after (PutDistributions env f s b db)) RootDB TDistribution) s' =
      (if s' = uint_of_int64 s then ds' else dists_of (rows db RootDB TDistribution) s')"
  have "validatePutDistributions env f b db = Inr None"
    using assms(5) by (auto simp: PutDistributions_def reject_def panicked_def split: sum.splits option.splits)
  from mapped_sound [OF validatePutDistributions_sum [OF this] body_valid [OF assms(3)] assms(4) es]
  have "sum_list (percents ds') = 100" by (simp add: same_content_percents [OF rest(2)])
  moreover have "k = TDistribution \<or> k = TFlag \<or> k = TSnapshot \<or> rows db' RootDB k = rows db RootDB k" for k
    using rest(3) [of k] assms(6) by blast
  ultimately show ?thesis using es rest(1,2,4) assms(6) by (intro exI [of _ es] exI [of _ ds']) simp
qed

theorem PutDistributions_replaces_witness:
  "sum_list (percents (dists_of (mem_rows (db_after demo_put) RootDB TDistribution) 1)) = 100 \<and>
   map Distribution_VariantKey (dists_of (mem_rows (db_after demo_put) RootDB TDistribution) 1) = [''on'', ''off'']"
proof -
  obtain payload where ok: "outcome (PutDistributions demo_crud_env 1 1 demo_split demo_two) = Inr (RespOK payload)"
    using demo_put_ok(1) by (auto simp: demo_put_def split: sum.splits response.splits)
  have v: "PutDistributionsRequest_Validate demo_split = []" by code_simp
  have l: "length (body_distributions demo_split) < 2 ^ 45" by (simp add: demo_split_def body_distributions_def)
  obtain ds' where "sum_list (percents ds') = 100"
    and ds': "\<forall>s'. dists_of (mem_rows (db_after demo_put) RootDB TDistribution) s' =
      (if s' = uint_of_int64 1 then ds' else dists_of (mem_rows demo_two RootDB TDistribution) s')"
    using PutDistributions_replaces [OF mem.gorm_laws_axioms demo_crud_env_sel(1) v l ok refl]
    unfolding demo_put_def by blast
  moreover have "dists_of (mem_rows (db_after demo_put) RootDB TDistribution) 1 = ds'"
    using ds' [rule_format, of 1] by (simp add: uint_of_int64_def)
  ultimately show ?thesis using demo_put_ok(2) by simp
qed

text \<open>C8: a replacement of distributions that is refused or fails at any statement leaves every committed row
  and the set of open transactions as they were.\<close>

theorem PutDistributions_atomic:
  assumes "gorm_laws G rows open_txs" "ce_gorm env = G"
    and "outcome (PutDistributions env f s b db) = Inr (RespDefault code msg)"
    and "db' = db_after (PutDistributions env f s b db)"
  shows "rows db' RootDB = rows db RootDB \<and> open_txs db' = open_txs db"
  using gorm_laws.PutDistributions_rejected [OF assms] .

definition demo_fault :: "(m_distribution option list, string mem_db) reply" where
  "demo_fault = PutDistributions demo_crud_env 1 1 demo_split (demo_two\<lparr>mem_faults := [SCreate TDistribution]\<rparr>)"

lemma demo_fault_rejected: "case outcome demo_fault of Inr (RespDefault c _) \<Rightarrow> c = 500 | _ \<Rightarrow> False"
  by code_simp

theorem PutDistributions_atomic_witness:
  "mem_rows (db_after demo_fault) RootDB = mem_rows (demo_two\<lparr>mem_faults := [SCreate TDistribution]\<rparr>) RootDB"
proof -
  obtain msg where "outcome demo_fault = Inr (RespDefault 500 msg)"
    using demo_fault_rejected by (auto split: sum.splits response.splits)
  from PutDistributions_atomic [OF mem.gorm_laws_axioms demo_crud_env_sel(1) this [unfolded demo_fault_def] refl]
  show ?thesis by (simp add: demo_fault_def)
qed

end
