(* ===== verification/Flagr_Reorder.thy ===== *)
theory Flagr_Reorder
  imports Flagr_Transactions
begin

text \<open>
  Reordering the segments of a flag: what the transaction of \<^verbatim>\<open>PutSegmentsReorder\<close> writes,
  and the order in which the segments of a flag are then loaded for evaluation.
\<close>

section \<open>The rows after the loop\<close>

fun set_rank :: "nat \<Rightarrow> 'e row \<Rightarrow> 'e row" where
  "set_rank i (RSegment s) = RSegment (s\<lparr>Segment_Rank := of_nat i\<rparr>)"
| "set_rank i r = r"

text \<open>A row that is listed has the rank of its last position in the list, counted from i; the other rows
  stay.\<close>

definition reranked :: "u64 list \<Rightarrow> nat \<Rightarrow> 'e row \<Rightarrow> 'e row \<Rightarrow> bool" where
  "reranked ids i x y \<longleftrightarrow>
     (\<exists>j t. j < length ids \<and> ids ! j = row_ID x \<and> row_ID x \<notin> set (drop (Suc j) ids) \<and>
       y = row_columns (touch t (set_rank (i + j) x))) \<or>
     (row_ID x \<notin> set ids \<and> y = x)"

lemma set_rank_simps [simp]:
  "row_model (set_rank i x) = row_model x" "row_kind (set_rank i x) = row_kind x"
  "row_columns (touch t (set_rank n (row_columns (touch t' (set_rank m x))))) = row_columns (touch t (set_rank n x))"
  by (cases x; simp add: touch_def)+

lemma reranked_ID: "reranked ids i x y \<Longrightarrow> row_ID y = row_ID x \<and> live y = live x \<and> row_kind y = row_kind x"
  by (auto simp: reranked_def live_def touch_def)

lemma reranked_Nil [simp]: "reranked [] i x y \<longleftrightarrow> y = x"
  by (auto simp: reranked_def)

lemma reranked_other: "n \<noteq> row_ID x \<Longrightarrow> reranked ids (Suc i) x z \<Longrightarrow> reranked (n # ids) i x z"
  unfolding reranked_def
proof (elim disjE exE conjE)
  fix j t
  assume "n \<noteq> row_ID x" "j < length ids" "ids ! j = row_ID x" "row_ID x \<notin> set (drop (Suc j) ids)"
    "z = row_columns (touch t (set_rank (Suc i + j) x))"
  then show "(\<exists>j t. j < length (n # ids) \<and> (n # ids) ! j = row_ID x \<and>
      row_ID x \<notin> set (drop (Suc j) (n # ids)) \<and> z = row_columns (touch t (set_rank (i + j) x))) \<or>
      (row_ID x \<notin> set (n # ids) \<and> z = x)"
    by (intro disjI1 exI [of _ "Suc j"] exI [of _ t]) simp
qed simp

lemma reranked_step:
  assumes "row_ID x = n" "reranked ids (Suc i) (row_columns (touch t (set_rank i x))) z"
  shows "reranked (n # ids) i x z"
proof -
  have id: "row_ID (row_columns (touch t (set_rank i x))) = n" using assms(1) by (simp add: touch_def)
  from assms(2) show ?thesis
    unfolding reranked_def id
  proof (elim disjE exE conjE)
    fix j t'
    assume "j < length ids" "ids ! j = n" "n \<notin> set (drop (Suc j) ids)"
      "z = row_columns (touch t' (set_rank (Suc i + j) (row_columns (touch t (set_rank i x)))))"
    then show "(\<exists>j t. j < length (n # ids) \<and> (n # ids) ! j = row_ID x \<and>
      row_ID x \<notin> set (drop (Suc j) (n # ids)) \<and> z = row_columns (touch t (set_rank (i + j) x))) \<or>
      (row_ID x \<notin> set (n # ids) \<and> z = x)"
      using assms(1) by (intro disjI1 exI [of _ "Suc j"] exI [of _ t']) simp
  next
    assume "n \<notin> set ids" "z = row_columns (touch t (set_rank i x))"
    then show "(\<exists>j t. j < length (n # ids) \<and> (n # ids) ! j = row_ID x \<and>
      row_ID x \<notin> set (drop (Suc j) (n # ids)) \<and> z = row_columns (touch t (set_rank (i + j) x))) \<or>
      (row_ID x \<notin> set (n # ids) \<and> z = x)"
      using assms(1) by (intro disjI1 exI [of _ 0] exI [of _ t]) simp
  qed
qed

text \<open>One round of the loop, on the whole table.\<close>

lemma reranked_save:
  assumes "distinct (map row_ID rs)" "x0 \<in> set rs" "as_segment (row_columns x0) = Some s"
    and "list_all2 (reranked ids (Suc i)) (map (\<lambda>x. if row_ID x = row_ID x0
      then row_columns (touch t (RSegment (s\<lparr>Segment_Rank := of_nat i\<rparr>))) else x) rs) rs'"
  shows "list_all2 (reranked (row_ID x0 # ids) i) rs rs'"
proof -
  have new: "row_columns (touch t (RSegment (s\<lparr>Segment_Rank := of_nat i\<rparr>))) = row_columns (touch t (set_rank i x0))"
    using assms(3) by (cases x0) (auto simp: touch_def)
  have "reranked (row_ID x0 # ids) i x z"
    if "x \<in> set rs" "reranked ids (Suc i) (if row_ID x = row_ID x0
      then row_columns (touch t (RSegment (s\<lparr>Segment_Rank := of_nat i\<rparr>))) else x) z" for x z
  proof (cases "row_ID x = row_ID x0")
    case True
    then have "x = x0" using assms(1,2) that(1) by (auto simp: distinct_map dest: inj_onD)
    then show ?thesis using that(2) new reranked_step [of x0 "row_ID x0" ids i t z] by simp
  next
    case False
    then show ?thesis using that(2) reranked_other [of "row_ID x0" x ids i z] by simp
  qed
  then show ?thesis using assms(4) by (simp add: list_all2_conv_all_nth)
qed

abbreviation reorder_ids :: "put_segment_reorder_request \<Rightarrow> i64 list" where
  "reorder_ids b \<equiv> (case PSR_SegmentIDs b of None \<Rightarrow> [] | Some ids \<Rightarrow> ids)"

context gorm_laws
begin

lemma reorder_loop_tx:
  assumes "reorder_loop G (TxDB tx) i ids db = (er, db')"
  shows "rows db' RootDB = rows db RootDB \<and> open_txs db' = open_txs db"
  using assms
proof (induction ids arbitrary: i db)
  case (Cons n ids)
  then show ?case
  proof (cases "typed as_segment (gorm_First G (TxDB tx) TSegment False (uint_of_int64 n) db)")
    case (Inr s)
    obtain res db1 where c: "gorm_Save G (TxDB tx) False (RSegment (s\<lparr>Segment_Rank := of_nat i\<rparr>)) db = (res, db1)"
      by (cases "gorm_Save G (TxDB tx) False (RSegment (s\<lparr>Segment_Rank := of_nat i\<rparr>)) db")
    show ?thesis using Cons.prems Cons.IH [of "Suc i" db1] tx_Save [OF c] c Inr
      by (cases res) (simp_all add: db_try_def)
  qed simp
qed simp

lemma reorder_loop_ranks:
  assumes "reorder_loop G h i ids db = (None, db')" "distinct (map row_ID (rows db h TSegment))"
  shows "list_all2 (reranked (map uint_of_int64 ids) i) (rows db h TSegment) (rows db' h TSegment) \<and>
    (\<forall>k. k \<noteq> TSegment \<longrightarrow> rows db' h k = rows db h k) \<and>
    set (map uint_of_int64 ids) \<subseteq> row_ID ` {x \<in> set (rows db h TSegment). live x}"
  using assms
proof (induction ids arbitrary: i db)
  case Nil
  then show ?case by (simp add: list_all2_refl)
next
  case (Cons n ids)
  then obtain s where s: "typed as_segment (gorm_First G h TSegment False (uint_of_int64 n) db) = Inr s"
    by (auto split: sum.splits)
  let ?s = "s\<lparr>Segment_Rank := of_nat i\<rparr>"
  obtain x where x: "x \<in> set (rows db h TSegment)" "as_segment (row_columns x) = Some s" "live x"
    "row_ID x = uint_of_int64 n"
    using First_typed [OF s] by auto
  obtain r1 db1 where c: "gorm_Save G h False (RSegment ?s) db = (Inr r1, db1)"
    and rest: "reorder_loop G h (Suc i) ids db1 = (None, db')"
    using Cons.prems(1) s by (auto simp: db_try_def split: prod.splits sum.splits)
  have id: "segment_ID s = row_ID x" using as_columns(2) [OF x(2)] by simp
  have row: "\<exists>x \<in> set (rows db h (row_kind (RSegment ?s))). row_ID x = row_ID (RSegment ?s) \<and> (False \<or> live x)"
    using x id by auto
  from Save_ok [OF c row] obtain t where r1: "rows db1 h = (rows db h)(TSegment :=
      map (\<lambda>y. if row_ID y = row_ID x then row_columns (touch t (RSegment ?s)) else y) (rows db h TSegment))"
    using id by auto
  have ids: "map row_ID (rows db1 h TSegment) = map row_ID (rows db h TSegment)"
    using id by (simp add: r1 touch_def)
  have lives: "row_ID ` {x \<in> set (rows db1 h TSegment). live x} \<subseteq> row_ID ` {x \<in> set (rows db h TSegment). live x}"
  proof
    fix j assume "j \<in> row_ID ` {x \<in> set (rows db1 h TSegment). live x}"
    then obtain y where "y \<in> set (rows db h TSegment)" "row_ID y = j" "row_ID y = row_ID x \<or> live y"
      using id by (auto simp: r1 touch_def split: if_splits)
    then show "j \<in> row_ID ` {x \<in> set (rows db h TSegment). live x}" using x(1,3) by auto
  qed
  have IH: "list_all2 (reranked (map uint_of_int64 ids) (Suc i)) (rows db1 h TSegment) (rows db' h TSegment)"
    "\<forall>k. k \<noteq> TSegment \<longrightarrow> rows db' h k = rows db1 h k"
    "set (map uint_of_int64 ids) \<subseteq> row_ID ` {x \<in> set (rows db1 h TSegment). live x}"
    using Cons.IH [OF rest] Cons.prems(2) ids by auto
  have "list_all2 (reranked (row_ID x # map uint_of_int64 ids) i) (rows db h TSegment) (rows db' h TSegment)"
    by (rule reranked_save [OF Cons.prems(2) x(1,2)]) (use IH(1) r1 in simp)
  moreover have "set (map uint_of_int64 (n # ids)) \<subseteq> row_ID ` {x \<in> set (rows db h TSegment). live x}"
    using subset_trans [OF IH(3) lives] x(1,3) by (auto simp: x(4) [symmetric])
  ultimately show ?case using IH(2) r1 x(4) by simp
qed

lemma PutSegmentsReorder_rows:
  assumes "ce_gorm env = G" "outcome (PutSegmentsReorder env f b db) = Inr (RespOK ())"
    and "distinct (map row_ID (rows db RootDB TSegment))" "db' = db_after (PutSegmentsReorder env f b db)"
  shows "list_all2 (reranked (map uint_of_int64 (reorder_ids b)) 0) (rows db RootDB TSegment) (rows db' RootDB TSegment) \<and>
    (\<forall>k. k = TSegment \<or> k = TFlag \<or> k = TSnapshot \<or> rows db' RootDB k = rows db RootDB k) \<and>
    set (map uint_of_int64 (reorder_ids b)) \<subseteq> row_ID ` {x \<in> set (rows db RootDB TSegment). live x}"
proof -
  obtain tx db1 where B: "gorm_Begin G db = (tx, db1)" by (cases "gorm_Begin G db")
  note b = Begin_ok [OF B]
  obtain er db2 where L: "reorder_loop G (TxDB tx) 0 (reorder_ids b) db1 = (er, db2)"
    by (cases "reorder_loop G (TxDB tx) 0 (reorder_ids b) db1")
  obtain cr db3 where C: "gorm_Commit G tx db2 = (cr, db3)" by (cases "gorm_Commit G tx db2")
  have ok: "er = None" "cr = None"
    using assms(2) by (auto simp: PutSegmentsReorder_def assms(1) Let_def B L C db_exec_def reject_def split: option.splits)
  then have after: "db' = db_after (accept_snapshot env (SafeUint (ce_cast env) (VInt64 f)) () db3)"
    by (simp add: assms(4) PutSegmentsReorder_def assms(1) Let_def B L C db_exec_def)
  have three: "rows db3 RootDB = rows db2 (TxDB tx)"
    using Commit_ok [OF C [unfolded ok]] b reorder_loop_tx [OF L] by simp
  have "distinct (map row_ID (rows db1 (TxDB tx) TSegment))" using assms(3) b by simp
  note ranks = reorder_loop_ranks [OF L [unfolded ok] this, unfolded b [THEN conjunct2, THEN conjunct2, THEN conjunct1]]
  have other: "rows db' RootDB k = rows db2 (TxDB tx) k" if "k \<noteq> TFlag" "k \<noteq> TSnapshot" for k
    by (simp add: after three accept_snapshot_rows [OF assms(1) that])
  have "k = TSegment \<or> k = TFlag \<or> k = TSnapshot \<or> rows db' RootDB k = rows db RootDB k" for k
    using ranks other [of k] by fastforce
  moreover have "rows db' RootDB TSegment = rows db2 (TxDB tx) TSegment" by (rule other) simp_all
  ultimately show ?thesis using ranks by (metis (no_types, lifting))
qed

lemma PutSegmentsReorder_rejected:
  assumes "ce_gorm env = G" "outcome (PutSegmentsReorder env f b db) = Inr (RespDefault code msg)"
    and "db' = db_after (PutSegmentsReorder env f b db)"
  shows "rows db' RootDB = rows db RootDB \<and> open_txs db' = open_txs db"
proof -
  obtain tx db1 where B: "gorm_Begin G db = (tx, db1)" by (cases "gorm_Begin G db")
  note b = Begin_ok [OF B]
  obtain er db2 where L: "reorder_loop G (TxDB tx) 0 (reorder_ids b) db1 = (er, db2)"
    by (cases "reorder_loop G (TxDB tx) 0 (reorder_ids b) db1")
  obtain cr db3 where C: "gorm_Commit G tx db2 = (cr, db3)" by (cases "gorm_Commit G tx db2")
  show ?thesis
    using assms(2,3) b reorder_loop_tx [OF L] Commit_error [of tx db2 _ db3]
    by (cases er; cases cr) (auto simp: PutSegmentsReorder_def assms(1) Let_def B L C db_exec_def Rollback_ok
        accept_snapshot_not_rejected)
qed

end

section \<open>The order of the segments at evaluation\<close>

text \<open>The position of an id in a list of ids.\<close>

definition position :: "'a list \<Rightarrow> 'a \<Rightarrow> nat" where
  "position xs x = length (takeWhile (\<lambda>y. y \<noteq> x) xs)"

lemma position_nth: "distinct xs \<Longrightarrow> j < length xs \<Longrightarrow> position xs (xs ! j) = j"
  by (subst position_def, subst takeWhile_eq_take_P_nth [of j]) (auto simp: nth_eq_iff_index_eq)

lemma nth_position: "x \<in> set xs \<Longrightarrow> position xs x < length xs \<and> xs ! position xs x = x"
  by (induction xs) (auto simp: position_def)

lemma sorted_positions: "distinct xs \<Longrightarrow> sorted (map (position xs) xs)"
  by (rule sorted_iff_nth_mono [THEN iffD2]) (simp add: position_nth)

lemma ordered_by_position:
  assumes "distinct xs" "distinct ys" "set xs = set ys" "sorted (map (position xs) ys)"
  shows "ys = xs"
proof (rule map_sorted_distinct_set_unique [of "position xs"])
  show inj: "inj_on (position xs) (set ys \<union> set xs)"
    using nth_position [of _ xs] assms(3) by (auto simp: inj_on_def) (metis)+
  show "distinct (map (position xs) ys)" "distinct (map (position xs) xs)"
    using inj assms by (auto simp: distinct_map dest: inj_on_subset)
qed (use assms sorted_positions in auto)

lemma live_segments_ids:
  "\<forall>r \<in> set rs. row_kind r = TSegment \<Longrightarrow> map segment_ID (live_segments rs) = map row_ID (filter live rs)"
proof (induction rs)
  case (Cons r rs)
  then show ?case by (cases r) (auto simp: live_segments_def)
qed (simp add: live_segments_def)

lemma sorted_first_column:
  assumes "sorted (map (\<lambda>s. [f s, g s :: int]) xs)"
  shows "sorted (map f xs)"
  using assms unfolding sorted_iff_nth_mono by (auto simp: order_le_less)

context gorm_laws
begin

lemma loaded_segments:
  assumes "PreloadSegmentsVariantsTags G h db f = Inr f'"
  obtains ss where
    "mset ss = mset (filter (\<lambda>s. Segment_FlagID s = flag_ID f) (live_segments (rows db h TSegment)))"
    "sorted (map (\<lambda>s. uint (Segment_Rank s)) ss)" "map segment_ID (Flag_Segments f') = map segment_ID ss"
proof -
  let ?ord = "by_columns (\<lambda>s :: 'e segment. [uint (Segment_Rank s), uint (segment_ID s)]) as_segment"
  obtain rs ss where rs: "gorm_Find G h TSegment (row_where as_segment (\<lambda>s. Segment_FlagID s = flag_ID f)) ?ord db = Inr rs"
    "ss = List.map_filter as_segment rs" "sum_mapM (PreloadConstraintsDistribution G h db) ss = Inr (Flag_Segments f')"
    using assms by (auto simp: PreloadSegmentsVariantsTags_def PreloadFlagTags_def sum_bind_eq_Inr_iff typed_list_Inr_iff)
  have m: "mset ss = mset (filter (\<lambda>s. Segment_FlagID s = flag_ID f) (live_segments (rows db h TSegment)))"
    unfolding live_segments_def by (rule Find_typed [of _ _ _ _ ?ord db]) (simp add: rs(1,2) typed_list_def)
  have "\<forall>r \<in> set rs. row_kind r = TSegment"
    using mset_eq_setD [OF Find_ok [OF rs(1)]] row_kinds by auto
  then have "map ?ord rs = map (\<lambda>s. [uint (Segment_Rank s), uint (segment_ID s)]) ss"
    unfolding rs(2)
  proof (induction rs)
    case (Cons r rs)
    then show ?case by (cases r) (auto simp: by_columns_def)
  qed simp
  then have "sorted (map (\<lambda>s. uint (Segment_Rank s)) ss)"
    using Find_sorted [OF rs(1)] sorted_first_column [of "\<lambda>s. uint (Segment_Rank s)" "\<lambda>s. uint (segment_ID s)" ss] by simp
  moreover have "list_all2 (\<lambda>s s'. segment_ID s' = segment_ID s) ss (Flag_Segments f')"
    using rs(3) by (auto simp: sum_mapM_Inr_iff PreloadConstraintsDistribution_def sum_bind_eq_Inr_iff
        elim: list_all2_mono)
  then have "map segment_ID (Flag_Segments f') = map segment_ID ss"
    by (induction rule: list_all2_induct) simp_all
  ultimately show ?thesis using that m by blast
qed

end

lemma reranked_segment:
  assumes "reranked ids i (RSegment s) y"
  obtains s' where "y = RSegment s'" "segment_ID s' = segment_ID s" "Segment_FlagID s' = Segment_FlagID s"
    "live (RSegment s' :: 'e row) = live (RSegment s :: 'e row)"
  using assms by (auto simp: reranked_def touch_def live_def)

lemma reranked_live_segments:
  assumes "list_all2 (reranked ids i) rs rs'" "\<forall>r \<in> set rs. row_kind r = TSegment"
  shows "list_all2 (\<lambda>s s'. segment_ID s' = segment_ID s \<and> Segment_FlagID s' = Segment_FlagID s \<and>
    reranked ids i (RSegment s) (RSegment s')) (live_segments rs) (live_segments rs')"
  using assms
proof (induction rule: list_all2_induct)
  case (Cons x rs y rs')
  then obtain s where x: "x = RSegment s" by (cases x) auto
  then obtain s' where "y = RSegment s'" "segment_ID s' = segment_ID s" "Segment_FlagID s' = Segment_FlagID s"
    "live y = live x"
    using reranked_segment [of ids i s y] Cons.hyps(1) by metis
  then show ?case using Cons x by (simp add: live_segments_def)
qed (simp add: live_segments_def)

lemma reranked_rank:
  assumes "reranked ids 0 (RSegment s) (RSegment s')" "distinct ids" "segment_ID s \<in> set ids" "length ids < 2 ^ 64"
  shows "uint (Segment_Rank s') = int (position ids (segment_ID s))"
proof -
  obtain j where j: "j < length ids" "ids ! j = segment_ID s" "Segment_Rank s' = of_nat j"
    using assms(1,3) by (auto simp: reranked_def touch_def)
  then have "position ids (segment_ID s) = j" using position_nth [OF assms(2) j(1)] by simp
  then show ?thesis using j(1,3) assms(4) by (simp add: unsigned_of_nat take_bit_nat_eq_self)
qed

lemma reordered_segments:
  assumes T: "list_all2 (reranked ids 0) rs rs'" and ids: "distinct ids" "length ids < 2 ^ 64"
    and k: "distinct (map row_ID rs)" "\<forall>r \<in> set rs. row_kind r = TSegment"
    and listed: "set ids = segment_ID ` {s \<in> set (live_segments rs). Segment_FlagID s = i}"
    and ss: "mset ss = mset (filter (\<lambda>s. Segment_FlagID s = i) (live_segments rs'))"
      "sorted (map (\<lambda>s. uint (Segment_Rank s)) ss)"
  shows "map segment_ID ss = ids"
proof (rule ordered_by_position [OF ids(1)])
  note A = reranked_live_segments [OF T k(2)]
  have m: "map (\<lambda>s. (segment_ID s, Segment_FlagID s)) (live_segments rs') =
      map (\<lambda>s. (segment_ID s, Segment_FlagID s)) (live_segments rs)"
    using A by (induction rule: list_all2_induct) auto
  have mem: "s \<in> set ss \<longleftrightarrow> s \<in> set (live_segments rs') \<and> Segment_FlagID s = i" for s
    using mset_eq_setD [OF ss(1)] by auto
  have img: "segment_ID ` {s \<in> set (live_segments rs). Segment_FlagID s = i} =
      {j. (j, i) \<in> set (map (\<lambda>s. (segment_ID s, Segment_FlagID s)) (live_segments rs))}" for rs :: "'a row list"
    by force
  have "set (map segment_ID ss) = segment_ID ` {s \<in> set (live_segments rs'). Segment_FlagID s = i}"
    using mem by auto
  also have "\<dots> = set ids" unfolding img m listed ..
  finally show s: "set ids = set (map segment_ID ss)" ..
  have "distinct (map segment_ID (live_segments rs))"
    using k distinct_filter by (simp add: live_segments_ids distinct_map_filter)
  moreover have "map segment_ID (live_segments rs') = map segment_ID (live_segments rs)"
    using A by (induction rule: list_all2_induct) auto
  ultimately have "distinct (map segment_ID (filter (\<lambda>s. Segment_FlagID s = i) (live_segments rs')))"
    by (simp add: distinct_map_filter)
  then show "distinct (map segment_ID ss)"
    using mset_eq_imp_distinct_iff [of "map segment_ID ss"] ss(1) by (metis mset_map)
  have "uint (Segment_Rank s') = int (position ids (segment_ID s'))" if "s' \<in> set ss" for s'
  proof -
    have "s' \<in> set (live_segments rs')" using mem that by simp
    from list_all2_in_right [OF A this]
    obtain s where "reranked ids 0 (RSegment s) (RSegment s')" "segment_ID s' = segment_ID s" by auto
    moreover have "segment_ID s' \<in> set ids" using s that by simp
    ultimately show ?thesis using reranked_rank [OF _ ids(1) _ ids(2)] by metis
  qed
  then have "map (\<lambda>s. uint (Segment_Rank s)) ss = map int (map (position ids) (map segment_ID ss))" by simp
  with ss(2) have "sorted (map int (map (position ids) (map segment_ID ss)))" by (simp only:)
  then show "sorted (map (position ids) (map segment_ID ss))" by (simp add: sorted_iff_nth_mono)
qed

section \<open>A flag with two segments\<close>

definition demo_segments :: "string mem_db" where
  "demo_segments = db_after (CreateSegment demo_crud_env 1 demo_segment_body demo_db)"

definition demo_reorder :: "(unit, string mem_db) reply" where
  "demo_reorder = PutSegmentsReorder demo_crud_env 1 \<lparr>PSR_SegmentIDs = Some [2, 1]\<rparr> demo_segments"

definition demo_loaded :: "string mem_db \<Rightarrow> string flag err" where
  "demo_loaded db = PreloadSegmentsVariantsTags mem_gorm RootDB db (zero_flag\<lparr>Flag_Model := zero_model\<lparr>Model_ID := 1\<rparr>\<rparr>)"

lemma demo_segments_rows:
  "map row_ID (mem_rows demo_segments RootDB TSegment) = [1, 2]"
  "map (\<lambda>s. (segment_ID s, Segment_FlagID s)) (live_segments (mem_rows demo_segments RootDB TSegment)) = [(1, 1), (2, 1)]"
  "case outcome demo_reorder of Inr (RespOK _) \<Rightarrow> True | _ \<Rightarrow> False"
  "case demo_loaded (db_after demo_reorder) of Inr _ \<Rightarrow> True | Inl _ \<Rightarrow> False"
  by code_simp+

section \<open>Properties\<close>

text \<open>C6: reordering works end to end: after a successful request that lists every live segment of the flag
  once, the segments that are loaded for evaluation are in exactly the order of the list.\<close>

theorem reordered_segments_load_in_order:
  assumes "gorm_laws G rows open_txs" "ce_gorm env = G" "distinct (map row_ID (rows db RootDB TSegment))"
    and "outcome (PutSegmentsReorder env f b db) = Inr (RespOK ())"
    and "db' = db_after (PutSegmentsReorder env f b db)"
    and "ids = map uint_of_int64 (reorder_ids b)" "distinct ids" "length ids < 2 ^ 64"
    and "set ids = segment_ID ` {s \<in> set (live_segments (rows db RootDB TSegment)). Segment_FlagID s = flag_ID g}"
    and "PreloadSegmentsVariantsTags G RootDB db' g = Inr g'"
  shows "map segment_ID (Flag_Segments g') = ids"
proof (rule gorm_laws.loaded_segments [OF assms(1,10)])
  fix ss
  assume ss: "mset ss = mset (filter (\<lambda>s. Segment_FlagID s = flag_ID g) (live_segments (rows db' RootDB TSegment)))"
    "sorted (map (\<lambda>s. uint (Segment_Rank s)) ss)" "map segment_ID (Flag_Segments g') = map segment_ID ss"
  have T: "list_all2 (reranked ids 0) (rows db RootDB TSegment) (rows db' RootDB TSegment)"
    using gorm_laws.PutSegmentsReorder_rows [OF assms(1,2,4,3,5)] assms(6) by simp
  have "\<forall>r \<in> set (rows db RootDB TSegment). row_kind r = TSegment" using gorm_laws.row_kinds [OF assms(1)] by blast
  from reordered_segments [OF T assms(7,8,3) this assms(9) ss(1,2)] ss(3) show ?thesis by simp
qed

theorem reordered_segments_load_in_order_witness:
  "\<exists>f. demo_loaded (db_after demo_reorder) = Inr f \<and> map segment_ID (Flag_Segments f) = [2, 1]"
proof -
  obtain f where f: "demo_loaded (db_after demo_reorder) = Inr f" using demo_segments_rows(4) by (auto split: sum.splits)
  have ok: "outcome (PutSegmentsReorder demo_crud_env 1 \<lparr>PSR_SegmentIDs = Some [2, 1]\<rparr> demo_segments) = Inr (RespOK ())"
    using demo_segments_rows(3) by (auto simp: demo_reorder_def split: sum.splits response.splits)
  have d: "distinct (map row_ID (mem_rows demo_segments RootDB TSegment))" by (simp add: demo_segments_rows(1))
  have ids: "[2, 1] = map uint_of_int64 (reorder_ids \<lparr>PSR_SegmentIDs = Some [2, 1]\<rparr>)" by (simp add: uint_of_int64_def)
  have "segment_ID ` {s \<in> set (live_segments (mem_rows demo_segments RootDB TSegment)). Segment_FlagID s = 1} =
      fst ` {p \<in> set (map (\<lambda>s. (segment_ID s, Segment_FlagID s)) (live_segments (mem_rows demo_segments RootDB TSegment))). snd p = 1}"
    by force
  also have "\<dots> = set [2, 1]" unfolding demo_segments_rows(2) by force
  finally have s: "set [2, 1] = segment_ID ` {s \<in> set (live_segments (mem_rows demo_segments RootDB TSegment)).
      Segment_FlagID s = flag_ID (zero_flag\<lparr>Flag_Model := zero_model\<lparr>Model_ID := 1\<rparr>\<rparr> :: string flag)}" by simp
  have l: "distinct [2 :: u64, 1]" "length [2 :: u64, 1] < 2 ^ 64" by simp_all
  from reordered_segments_load_in_order [OF mem.gorm_laws_axioms demo_crud_env_sel(1) d ok refl ids l s
      f [unfolded demo_loaded_def demo_reorder_def]]
  have "map segment_ID (Flag_Segments f) = [2, 1]" .
  with f show ?thesis by (intro exI [of _ f] conjI)
qed

text \<open>A reordering that is refused, because a segment does not exist or any statement fails, leaves every
  committed row and the set of open transactions as they were.\<close>

theorem PutSegmentsReorder_atomic:
  assumes "gorm_laws G rows open_txs" "ce_gorm env = G"
    and "outcome (PutSegmentsReorder env f b db) = Inr (RespDefault code msg)"
    and "db' = db_after (PutSegmentsReorder env f b db)"
  shows "rows db' RootDB = rows db RootDB \<and> open_txs db' = open_txs db"
  using gorm_laws.PutSegmentsReorder_rejected [OF assms] .

definition demo_reorder_missing :: "(unit, string mem_db) reply" where
  "demo_reorder_missing = PutSegmentsReorder demo_crud_env 1 \<lparr>PSR_SegmentIDs = Some [2, 9]\<rparr> demo_segments"

lemma demo_reorder_missing_404: "case outcome demo_reorder_missing of Inr (RespDefault c _) \<Rightarrow> c = 404 | _ \<Rightarrow> False"
  by code_simp

theorem PutSegmentsReorder_atomic_witness:
  "mem_rows (db_after demo_reorder_missing) RootDB = mem_rows demo_segments RootDB \<and>
   mem_open (db_after demo_reorder_missing) = mem_open demo_segments"
proof -
  obtain msg where "outcome demo_reorder_missing = Inr (RespDefault 404 msg)"
    using demo_reorder_missing_404 by (auto split: sum.splits response.splits)
  from PutSegmentsReorder_atomic [OF mem.gorm_laws_axioms demo_crud_env_sel(1) this [unfolded demo_reorder_missing_def] refl]
  show ?thesis by (simp add: demo_reorder_missing_def)
qed

end
