(* ===== verification/Flagr_Creation.thy ===== *)
theory Flagr_Creation
  imports Flagr_Transactions
begin

text \<open>
  The creation of a flag, statement by statement: what a refused creation leaves behind, and the
  rows of the template.
\<close>

section \<open>Creating a flag\<close>

text \<open>The parts of the creation: the end of its transaction, and what follows the begin.\<close>

definition commit_flag ::
  "('e, 'db) crud_env \<Rightarrow> nat \<Rightarrow> 'e flag \<Rightarrow> 'db \<Rightarrow> (m_flag, 'db) reply" where
  "commit_flag env tx f db = db_exec (gorm_Commit (ce_gorm env) tx db)
     (\<lambda>e db4. reject 500 e (gorm_Rollback (ce_gorm env) tx db4))
     (\<lambda>db4. accept_snapshot env (flag_ID f) (MapFlag f) db4)"

definition create_template ::
  "('e, 'db) crud_env \<Rightarrow> create_flag_request option \<Rightarrow> nat \<Rightarrow> 'e flag \<Rightarrow> 'db \<Rightarrow> (m_flag, 'db) reply" where
  "create_template env body tx f db =
     (case body of
        None \<Rightarrow> panicked NilDeref db
      | Some b \<Rightarrow>
          if CFR_Template b = ''simple_boolean_flag'' then
            db_try (LoadSimpleBooleanFlagTemplate (ce_gorm env) (TxDB tx) f db)
              (\<lambda>e db3. reject 500 (''cannot create flag. '' @ e) (gorm_Rollback (ce_gorm env) tx db3))
              (commit_flag env tx)
          else if CFR_Template b \<noteq> [] then
            reject 400 (''unknown value for template: '' @ CFR_Template b) db
          else commit_flag env tx f db)"

definition create_step ::
  "('e, 'db) crud_env \<Rightarrow> create_flag_request option \<Rightarrow> nat \<Rightarrow> 'e flag \<Rightarrow> 'db \<Rightarrow> (m_flag, 'db) reply" where
  "create_step env body tx f0 db =
     db_try (saved as_flag (gorm_Create (ce_gorm env) (TxDB tx) (RFlag f0) db))
       (\<lambda>e db2. reject 500 (''cannot create flag. '' @ e) (gorm_Rollback (ce_gorm env) tx db2))
       (create_template env body tx)"

definition new_flag :: "('e, 'db) crud_env \<Rightarrow> create_flag_request \<Rightarrow> string \<Rightarrow> string \<Rightarrow> 'e flag" where
  "new_flag env b subject key = zero_flag\<lparr>
     Flag_Description := SafeString (ce_cast env) (VPtrString (CFR_Description b)),
     Flag_CreatedBy := subject, Flag_Key := key\<rparr>"

lemma CreateFlag_steps:
  assumes "gorm_Begin (ce_gorm env) db = (tx, db1)"
  shows "CreateFlag env body db =
    (case body of
       None \<Rightarrow> create_step env None tx zero_flag db1
     | Some b \<Rightarrow>
         (case ce_subject env of
            Inl p \<Rightarrow> panicked p db
          | Inr u \<Rightarrow>
              (case CreateFlagKey (ce_random env) (CFR_Key b) of
                 Inl e \<Rightarrow> reject 400 (''cannot create flag. '' @ e) db
               | Inr key \<Rightarrow> create_step env (Some b) tx (new_flag env b u key) db1)))"
  unfolding CreateFlag_def create_step_def create_template_def commit_flag_def new_flag_def
  by (simp add: Let_def assms split: option.split sum.split)

context gorm_laws
begin

definition unchanged :: "'db \<Rightarrow> 'db \<Rightarrow> bool" where
  "unchanged db db' \<longleftrightarrow> rows db' RootDB = rows db RootDB \<and> open_txs db' = open_txs db"

lemma rolled_back:
  assumes "gorm_Begin G db = (tx, db1)" "rows db2 RootDB = rows db RootDB" "open_txs db2 = open_txs db1"
  shows "unchanged db (gorm_Rollback G tx db2)"
  using assms Begin_ok [OF assms(1)] by (simp add: unchanged_def Rollback_ok)

lemma commit_flag_rejected:
  assumes "gorm_Begin G db = (tx, db1)" "rows db3 RootDB = rows db RootDB" "open_txs db3 = open_txs db1"
    and "ce_gorm env = G" "outcome (commit_flag env tx f db3) = Inr (RespDefault code msg)"
  shows "unchanged db (db_after (commit_flag env tx f db3))"
proof -
  obtain er db4 where C: "gorm_Commit G tx db3 = (er, db4)" by (cases "gorm_Commit G tx db3")
  show ?thesis using assms(5) rolled_back [OF assms(1), of db4] Commit_error [of tx db3 _ db4] assms(2,3)
    by (cases er) (auto simp: commit_flag_def assms(4) C db_exec_def accept_snapshot_not_rejected)
qed

lemma template_tx:
  assumes "LoadSimpleBooleanFlagTemplate G (TxDB tx) f db = (res, db')"
  shows "rows db' RootDB = rows db RootDB \<and> open_txs db' = open_txs db"
proof -
  have created: "rows db2 RootDB = rows db1 RootDB \<and> open_txs db2 = open_txs db1"
    if "gorm_Create G (TxDB tx) r db1 = (res, db2)" for r res db1 db2
    using tx_Create [OF that] by simp
  show ?thesis using assms created
    by (fastforce simp: LoadSimpleBooleanFlagTemplate_def db_try_def saved_def split: prod.splits sum.splits)
qed

definition leaves_open :: "create_flag_request option \<Rightarrow> nat \<Rightarrow> 'db \<Rightarrow> 'db \<Rightarrow> bool" where
  "leaves_open body code db db' \<longleftrightarrow>
     (\<exists>b. body = Some b \<and> CFR_Template b \<notin> {[], ''simple_boolean_flag''} \<and> code = 400 \<and>
       rows db' RootDB = rows db RootDB \<and> open_txs db' = insert (fst (gorm_Begin G db)) (open_txs db))"

lemma create_template_rejected:
  assumes "ce_gorm env = G" "gorm_Begin G db = (tx, db1)" "rows db2 RootDB = rows db RootDB" "open_txs db2 = open_txs db1"
    and "outcome (create_template env body tx f db2) = Inr (RespDefault code msg)"
  shows "unchanged db (db_after (create_template env body tx f db2)) \<or>
    leaves_open body code db (db_after (create_template env body tx f db2))"
proof (cases body)
  case None
  then show ?thesis using assms(5) by (simp add: create_template_def panicked_def)
next
  case (Some b)
  note c = commit_flag_rejected [OF assms(2) _ _ assms(1)]
  consider "CFR_Template b = ''simple_boolean_flag''" | "CFR_Template b = []"
    | "CFR_Template b \<notin> {[], ''simple_boolean_flag''}" by auto
  then show ?thesis
  proof cases
    case 1
    obtain res db3 where L: "LoadSimpleBooleanFlagTemplate G (TxDB tx) f db2 = (res, db3)"
      by (cases "LoadSimpleBooleanFlagTemplate G (TxDB tx) f db2")
    note l = template_tx [OF L]
    show ?thesis
      using assms(3-5) l c [of db3] rolled_back [OF assms(2), of db3] 1 Some
      by (cases res) (simp_all add: create_template_def assms(1) L db_try_def)
  next
    case 2
    then show ?thesis using assms(3-5) c [of db2] Some by (simp add: create_template_def)
  next
    case 3
    then show ?thesis using assms(2-5) Begin_ok [OF assms(2)] Some
      by (simp add: create_template_def leaves_open_def reject_def)
  qed
qed

lemma create_step_rejected:
  assumes "ce_gorm env = G" "gorm_Begin G db = (tx, db1)"
    and "outcome (create_step env body tx f0 db1) = Inr (RespDefault code msg)"
  shows "unchanged db (db_after (create_step env body tx f0 db1)) \<or>
    leaves_open body code db (db_after (create_step env body tx f0 db1))"
proof -
  obtain res db2 where c: "gorm_Create G (TxDB tx) (RFlag f0) db1 = (res, db2)"
    by (cases "gorm_Create G (TxDB tx) (RFlag f0) db1")
  note c1 = tx_Create [OF c] and b = Begin_ok [OF assms(2)]
  show ?thesis
  proof (cases "saved as_flag (res, db2)")
    case (Pair r db3)
    then have "db3 = db2" by (simp add: saved_def)
    then show ?thesis
      using assms(3) c1 b Pair rolled_back [OF assms(2), of db2] create_template_rejected [OF assms(1,2), of db2 body _ code msg]
      by (cases r) (simp_all add: create_step_def assms(1) c db_try_def)
  qed
qed

lemma CreateFlag_refused:
  assumes "ce_gorm env = G" "outcome (CreateFlag env body db) = Inr (RespDefault code msg)"
    and "db' = db_after (CreateFlag env body db)"
  shows "unchanged db db' \<or> leaves_open body code db db'"
proof -
  obtain tx db1 where B: "gorm_Begin G db = (tx, db1)" by (cases "gorm_Begin G db")
  have u: "unchanged db db" by (simp add: unchanged_def)
  show ?thesis
    using assms(2,3) u create_step_rejected [OF assms(1) B] CreateFlag_steps [of env db tx db1 body] B assms(1)
    by (auto simp: panicked_def split: option.splits sum.splits)
qed

text \<open>Creations whose result is read back with its type.\<close>

lemma saved_Create:
  "saved as_segment (gorm_Create G h (RSegment s) db) = (Inr s', db') \<Longrightarrow>
    \<exists>m. s' = s\<lparr>Segment_Model := m\<rparr> \<and> DeletedAt m = None \<and>
      rows db' h = (rows db h)(TSegment := rows db h TSegment @ [row_columns (RSegment s')])"
  "saved as_variant (gorm_Create G h (RVariant v) db) = (Inr v', db') \<Longrightarrow>
    \<exists>m. v' = v\<lparr>Variant_Model := m\<rparr> \<and> DeletedAt m = None \<and>
      rows db' h = (rows db h)(TVariant := rows db h TVariant @ [RVariant v'])"
  "saved as_distribution (gorm_Create G h (RDistribution d) db) = (Inr d', db') \<Longrightarrow>
    \<exists>m. d' = d\<lparr>Distribution_Model := m\<rparr> \<and> DeletedAt m = None \<and>
      rows db' h = (rows db h)(TDistribution := rows db h TDistribution @ [RDistribution d'])"
  "saved as_flag (gorm_Create G h (RFlag f) db) = (Inr f', db') \<Longrightarrow>
    \<exists>m. f' = f\<lparr>Flag_Model := m\<rparr> \<and> DeletedAt m = None \<and>
      rows db' h = (rows db h)(TFlag := rows db h TFlag @ [row_columns (RFlag f')])"
  using Create_ok [of h _ db _ db'] by (fastforce simp: saved_def typed_Inr_iff split: prod.splits)+

lemma template_rows:
  assumes "LoadSimpleBooleanFlagTemplate G h f db = (Inr f', db')"
  obtains s v d where
    "rows db' h = (rows db h)(TSegment := rows db h TSegment @ [RSegment s],
      TVariant := rows db h TVariant @ [RVariant v], TDistribution := rows db h TDistribution @ [RDistribution d])"
    "Segment_FlagID s = flag_ID f" "Segment_RolloutPercent s = 100" "Segment_Rank s = SegmentDefaultRank"
    "Segment_Description s = []" "Variant_FlagID v = flag_ID f" "Variant_Key v = ''on''"
    "Distribution_SegmentID d = segment_ID s" "Distribution_VariantID d = variant_ID v"
    "Distribution_VariantKey d = ''on''" "Distribution_Percent d = 100" "Flag_Model f' = Flag_Model f"
    "live (RSegment s :: 'e row)" "live (RVariant v :: 'e row)" "live (RDistribution d :: 'e row)"
proof -
  obtain s db1 where s: "saved as_segment (gorm_Create G h (RSegment (zero_segment\<lparr>Segment_FlagID := flag_ID f,
      Segment_RolloutPercent := 100, Segment_Rank := SegmentDefaultRank\<rparr>)) db) = (Inr s, db1)"
    using assms by (auto simp: LoadSimpleBooleanFlagTemplate_def db_try_def split: prod.splits sum.splits)
  obtain v db2 where v: "saved as_variant (gorm_Create G h (RVariant (zero_variant\<lparr>Variant_FlagID := flag_ID f,
      Variant_Key := ''on''\<rparr>)) db1) = (Inr v, db2)"
    using assms s by (auto simp: LoadSimpleBooleanFlagTemplate_def db_try_def split: prod.splits sum.splits)
  obtain d where d: "saved as_distribution (gorm_Create G h (RDistribution (zero_distribution\<lparr>
      Distribution_SegmentID := segment_ID s, Distribution_VariantID := variant_ID v,
      Distribution_VariantKey := Variant_Key v, Distribution_Percent := 100\<rparr>)) db2) = (Inr d, db')"
    "Flag_Model f' = Flag_Model f"
    using assms s v by (auto simp: LoadSimpleBooleanFlagTemplate_def db_try_def split: prod.splits sum.splits)
  from saved_Create(1) [OF s] saved_Create(2) [OF v] saved_Create(3) [OF d(1)] obtain ms mv md where
    m: "s = zero_segment\<lparr>Segment_FlagID := flag_ID f, Segment_RolloutPercent := 100, Segment_Rank := SegmentDefaultRank,
        Segment_Model := ms\<rparr>" "v = zero_variant\<lparr>Variant_FlagID := flag_ID f, Variant_Key := ''on'', Variant_Model := mv\<rparr>"
    "d = zero_distribution\<lparr>Distribution_SegmentID := segment_ID s, Distribution_VariantID := variant_ID v,
      Distribution_VariantKey := Variant_Key v, Distribution_Percent := 100, Distribution_Model := md\<rparr>"
    "DeletedAt ms = None" "DeletedAt mv = None" "DeletedAt md = None"
    and r: "rows db1 h = (rows db h)(TSegment := rows db h TSegment @ [row_columns (RSegment s)])"
    "rows db2 h = (rows db1 h)(TVariant := rows db1 h TVariant @ [RVariant v])"
    "rows db' h = (rows db2 h)(TDistribution := rows db2 h TDistribution @ [RDistribution d])" by auto
  have c: "row_columns (RSegment s) = RSegment (s\<lparr>Segment_Constraints := [], Segment_Distributions := [],
     SegmentEvaluation := zero_segment_evaluation\<rparr>)" by simp
  show ?thesis
  proof (rule that [OF _ _ _ _ _ _ _ _ _ _ _ d(2)])
    show "rows db' h = (rows db h)(TSegment := rows db h TSegment @ [RSegment (s\<lparr>Segment_Constraints := [],
        Segment_Distributions := [], SegmentEvaluation := zero_segment_evaluation\<rparr>)],
      TVariant := rows db h TVariant @ [RVariant v], TDistribution := rows db h TDistribution @ [RDistribution d])"
      by (simp add: r(3), simp add: r(2), simp add: r(1))
  qed (use m in \<open>simp_all add: live_def zero_segment_def\<close>)
qed

lemma CreateFlag_template_ok:
  assumes "ce_gorm env = G" "CFR_Template b = ''simple_boolean_flag''"
    and "outcome (CreateFlag env (Some b) db) = Inr (RespOK p)" "db' = db_after (CreateFlag env (Some b) db)"
  obtains s v d where
    "rows db' RootDB TSegment = rows db RootDB TSegment @ [RSegment s]"
    "rows db' RootDB TVariant = rows db RootDB TVariant @ [RVariant v]"
    "rows db' RootDB TDistribution = rows db RootDB TDistribution @ [RDistribution d]"
    "int64_of_uint (Segment_FlagID s) = MF_ID p" "Segment_RolloutPercent s = 100" "Segment_Description s = []"
    "Variant_FlagID v = Segment_FlagID s" "Variant_Key v = ''on''"
    "Distribution_SegmentID d = segment_ID s" "Distribution_VariantID d = variant_ID v"
    "Distribution_VariantKey d = ''on''" "Distribution_Percent d = 100"
proof -
  obtain tx db1 where B: "gorm_Begin G db = (tx, db1)" by (cases "gorm_Begin G db")
  note bg = Begin_ok [OF B]
  obtain f0 where step: "CreateFlag env (Some b) db = create_step env (Some b) tx f0 db1"
    using assms(3) CreateFlag_steps [of env db tx db1 "Some b"] B assms(1)
    by (auto simp: panicked_def reject_def split: sum.splits)
  obtain f db2 where f: "saved as_flag (gorm_Create G (TxDB tx) (RFlag f0) db1) = (Inr f, db2)"
    and r: "CreateFlag env (Some b) db = create_template env (Some b) tx f db2"
    using assms(3) by (auto simp: step create_step_def assms(1) db_try_def reject_def split: prod.splits sum.splits)
  obtain f' db3 where t: "LoadSimpleBooleanFlagTemplate G (TxDB tx) f db2 = (Inr f', db3)"
    and r': "CreateFlag env (Some b) db = commit_flag env tx f' db3"
    using assms(3) by (auto simp: r create_template_def assms(1,2) db_try_def reject_def split: prod.splits sum.splits)
  obtain db4 where C: "gorm_Commit G tx db3 = (None, db4)"
    and a: "CreateFlag env (Some b) db = accept_snapshot env (flag_ID f') (MapFlag f') db4"
    using assms(3) by (auto simp: r' commit_flag_def assms(1) db_exec_def reject_def split: prod.splits option.splits)
  obtain m res0 where m: "rows db2 (TxDB tx) = (rows db1 (TxDB tx))(TFlag := rows db1 (TxDB tx) TFlag @ [row_columns (RFlag f)])"
    "gorm_Create G (TxDB tx) (RFlag f0) db1 = (res0, db2)"
    using saved_Create(4) [OF f] f by (auto simp: saved_def split: prod.splits)
  have four: "rows db4 RootDB = rows db3 (TxDB tx)"
    using Commit_ok [OF C] bg tx_Create [OF m(2)] template_tx [OF t] by simp
  have seen: "rows db' RootDB k = rows db3 (TxDB tx) k" if "k \<noteq> TFlag" "k \<noteq> TSnapshot" for k
    by (simp add: assms(4) a four accept_snapshot_rows [OF assms(1) that])
  have p: "MF_ID p = int64_of_uint (flag_ID f')" "ce_subject env \<noteq> Inl x" for x
    using assms(3) by (auto simp: a accept_snapshot_def panicked_def MapFlag_def split: sum.splits prod.splits)
  show ?thesis
  proof (rule template_rows [OF t])
    fix s v d
    assume R: "rows db3 (TxDB tx) = (rows db2 (TxDB tx))(TSegment := rows db2 (TxDB tx) TSegment @ [RSegment s],
      TVariant := rows db2 (TxDB tx) TVariant @ [RVariant v],
      TDistribution := rows db2 (TxDB tx) TDistribution @ [RDistribution d])"
      and fields: "Segment_FlagID s = flag_ID f" "Segment_RolloutPercent s = 100" "Segment_Description s = []" "Variant_FlagID v = flag_ID f"
      "Variant_Key v = ''on''" "Distribution_SegmentID d = segment_ID s" "Distribution_VariantID d = variant_ID v"
      "Distribution_VariantKey d = ''on''" "Distribution_Percent d = 100" "Flag_Model f' = Flag_Model f"
    show ?thesis
      by (rule that [of s v d]) (use R m(1) bg fields p in \<open>simp_all add: seen\<close>)
  qed
qed

end

section \<open>Properties of the creation\<close>

text \<open>C12: a creation of a flag that is refused leaves every committed row as it was; it also leaves no new
  transaction open, except for an unknown template, where the begun transaction is never ended.\<close>

theorem CreateFlag_rejected:
  assumes "gorm_laws G rows open_txs" "ce_gorm env = G"
    and "outcome (CreateFlag env body db) = Inr (RespDefault code msg)"
    and "db' = db_after (CreateFlag env body db)"
  shows "rows db' RootDB = rows db RootDB \<and> (open_txs db' = open_txs db \<or>
    (\<exists>b. body = Some b \<and> CFR_Template b \<noteq> [] \<and> CFR_Template b \<noteq> ''simple_boolean_flag'' \<and> code = 400 \<and>
       open_txs db' = insert (fst (gorm_Begin G db)) (open_txs db)))"
  using gorm_laws.CreateFlag_refused [OF assms]
  unfolding gorm_laws.unchanged_def [OF assms(1)] gorm_laws.leaves_open_def [OF assms(1)] by auto

definition demo_template :: create_flag_request where
  "demo_template = \<lparr>CFR_Description = Some ''d'', CFR_Key = ''k'', CFR_Template = ''ab''\<rparr>"

lemma demo_template_rejected:
  "case outcome (CreateFlag demo_crud_env (Some demo_template) mem_empty) of
     Inr (RespDefault c _) \<Rightarrow> c = 400 | _ \<Rightarrow> False"
  by code_simp

theorem CreateFlag_rejected_witness:
  "mem_rows (db_after (CreateFlag demo_crud_env (Some demo_template) mem_empty)) RootDB = mem_rows (mem_empty :: string mem_db) RootDB"
proof -
  obtain msg where "outcome (CreateFlag demo_crud_env (Some demo_template) mem_empty) = Inr (RespDefault 400 msg)"
    using demo_template_rejected by (auto split: sum.splits response.splits)
  from CreateFlag_rejected [OF mem.gorm_laws_axioms demo_crud_env_sel(1) this refl] show ?thesis by blast
qed

text \<open>That transaction is in fact left open: whenever the subject and the key are fine and the flag row could
  be written, a creation with an unknown template answers 400 and one more transaction stays open.\<close>

theorem CreateFlag_unknown_template:
  assumes "gorm_laws G rows open_txs" "ce_gorm env = G" "gorm_Begin G db = (tx, db1)"
    and "CFR_Template b \<noteq> []" "CFR_Template b \<noteq> ''simple_boolean_flag''" "ce_subject env = Inr u"
    and "CreateFlagKey (ce_random env) (CFR_Key b) = Inr key"
    and "gorm_Create G (TxDB tx) (RFlag (new_flag env b u key)) db1 = (Inr r, db2)"
  shows "outcome (CreateFlag env (Some b) db) = Inr (RespDefault 400 (''unknown value for template: '' @ CFR_Template b)) \<and>
    tx \<notin> open_txs db \<and> open_txs (db_after (CreateFlag env (Some b) db)) = insert tx (open_txs db)"
proof -
  obtain f where "saved as_flag (Inr r, db2) = (Inr f, db2)"
    using gorm_laws.Create_ok [OF assms(1,8)] by (auto simp: saved_def typed_def)
  then have "CreateFlag env (Some b) db = reject 400 (''unknown value for template: '' @ CFR_Template b) db2"
    using CreateFlag_steps [of env db tx db1 "Some b"] assms
    by (simp add: create_step_def create_template_def db_try_def)
  then show ?thesis
    using gorm_laws.Begin_ok [OF assms(1,3)] gorm_laws.tx_Create(2) [OF assms(1,8)] by (simp add: reject_def)
qed

lemma demo_template_steps:
  "CreateFlagKey (ce_random demo_crud_env) (CFR_Key demo_template) = Inr ''k''"
  "case gorm_Create mem_gorm (TxDB (fst (mem_Begin mem_empty))) (RFlag (new_flag demo_crud_env demo_template ''ann'' ''k''))
     (snd (mem_Begin mem_empty)) of (Inr _, _) \<Rightarrow> True | (Inl _, _) \<Rightarrow> False"
  by code_simp+

theorem CreateFlag_unknown_template_witness:
  "\<exists>tx. tx \<notin> mem_open (mem_empty :: string mem_db) \<and>
     mem_open (db_after (CreateFlag demo_crud_env (Some demo_template) mem_empty)) = insert tx (mem_open (mem_empty :: string mem_db))"
proof -
  have B: "gorm_Begin mem_gorm mem_empty =
      (fst (mem_Begin (mem_empty :: string mem_db)), snd (mem_Begin (mem_empty :: string mem_db)))" by simp
  obtain r db2 where c: "gorm_Create mem_gorm (TxDB (fst (mem_Begin (mem_empty :: string mem_db))))
      (RFlag (new_flag demo_crud_env demo_template ''ann'' ''k'')) (snd (mem_Begin mem_empty)) = (Inr r, db2)"
    using demo_template_steps(2) by (auto split: prod.splits sum.splits)
  have t: "CFR_Template demo_template \<noteq> []" "CFR_Template demo_template \<noteq> ''simple_boolean_flag''"
    and u: "ce_subject demo_crud_env = Inr ''ann''" by (simp_all add: demo_template_def demo_crud_env_def)
  from CreateFlag_unknown_template [OF mem.gorm_laws_axioms demo_crud_env_sel(1) B t u demo_template_steps(1) c]
  show ?thesis by blast
qed

text \<open>A flag created from the template gets exactly one segment, one variant and one distribution: everybody
  is rolled out and all of them get the variant on.\<close>

theorem CreateFlag_template:
  assumes "gorm_laws G rows open_txs" "ce_gorm env = G" "CFR_Template b = ''simple_boolean_flag''"
    and "outcome (CreateFlag env (Some b) db) = Inr (RespOK p)" "db' = db_after (CreateFlag env (Some b) db)"
  shows "\<exists>s v d. rows db' RootDB TSegment = rows db RootDB TSegment @ [RSegment s] \<and>
    rows db' RootDB TVariant = rows db RootDB TVariant @ [RVariant v] \<and>
    rows db' RootDB TDistribution = rows db RootDB TDistribution @ [RDistribution d] \<and>
    int64_of_uint (Segment_FlagID s) = MF_ID p \<and> Segment_RolloutPercent s = 100 \<and>
    Variant_FlagID v = Segment_FlagID s \<and> Variant_Key v = ''on'' \<and>
    Distribution_SegmentID d = segment_ID s \<and> Distribution_VariantID d = variant_ID v \<and>
    Distribution_VariantKey d = ''on'' \<and> Distribution_Percent d = 100"
  by (rule gorm_laws.CreateFlag_template_ok [OF assms(1-5)]) blast

lemma demo_create_ok:
  "case outcome (CreateFlag demo_crud_env (Some demo_create) mem_empty) of Inr (RespOK _) \<Rightarrow> True | _ \<Rightarrow> False"
  by code_simp

theorem CreateFlag_template_witness:
  "\<exists>d. mem_rows (db_after (CreateFlag demo_crud_env (Some demo_create) mem_empty)) RootDB TDistribution = [RDistribution d] \<and>
     Distribution_Percent d = 100"
proof -
  obtain p where ok: "outcome (CreateFlag demo_crud_env (Some demo_create) mem_empty) = Inr (RespOK p)"
    using demo_create_ok by (auto split: sum.splits response.splits)
  have t: "CFR_Template demo_create = ''simple_boolean_flag''" by (simp add: demo_create_def)
  have "mem_rows (mem_empty :: string mem_db) RootDB TDistribution = []" by (simp add: mem_empty_def mem_rows_def)
  with CreateFlag_template [OF mem.gorm_laws_axioms demo_crud_env_sel(1) t ok refl] show ?thesis by auto
qed

end
