(* ===== verification/Flagr_Refresh.thy ===== *)
theory Flagr_Refresh
  imports Flagr_Creation
begin

text \<open>
  The way from the stored configuration back into the evaluation: every stored constraint was
  accepted by the expression parser, so that only the conjunction of several constraints can keep a fetched
  flag from being prepared. On the way, which tables each handler leaves alone.
\<close>

section \<open>Transactions that leave tables alone\<close>

context gorm_laws
begin

definition agree :: "table_kind set \<Rightarrow> nat \<Rightarrow> 'db \<Rightarrow> 'db \<Rightarrow> bool" where
  "agree T tx db db' \<longleftrightarrow> tx \<in> open_txs db' \<and>
     (\<forall>k \<in> T. rows db' (TxDB tx) k = rows db RootDB k \<and> rows db' RootDB k = rows db RootDB k)"

lemma agree_Begin: "gorm_Begin G db = (tx, db1) \<Longrightarrow> agree T tx db db1"
  using Begin_ok [of db tx db1] by (simp add: agree_def)

lemma agree_Create:
  assumes "agree T tx db db1" "gorm_Create G (TxDB tx) r db1 = (res, db2)" "row_kind r \<notin> T"
  shows "agree T tx db db2"
proof -
  have "\<forall>k \<in> T. rows db2 (TxDB tx) k = rows db1 (TxDB tx) k"
    by (intro ballI frame_Create [OF assms(2)]) (use assms(3) in blast)
  then show ?thesis using assms(1) tx_Create [OF assms(2)] by (simp add: agree_def)
qed

lemma agree_Save:
  assumes "agree T tx db db1" "gorm_Save G (TxDB tx) False r db1 = (res, db2)" "row_kind r \<notin> T"
    and "\<exists>x \<in> set (rows db1 (TxDB tx) (row_kind r)). row_ID x = row_ID r \<and> live x"
  shows "agree T tx db db2"
proof -
  have "\<forall>k \<in> T. rows db2 (TxDB tx) k = rows db1 (TxDB tx) k"
    by (intro ballI frame_Save [OF assms(2)]) (use assms(3,4) in auto)
  then show ?thesis using assms(1) tx_Save [OF assms(2)] by (simp add: agree_def)
qed

lemma agree_Delete:
  assumes "agree T tx db db1" "gorm_Delete G (TxDB tx) k P db1 = (er, db2)" "k \<notin> T"
  shows "agree T tx db db2"
proof -
  have "\<forall>k \<in> T. rows db2 (TxDB tx) k = rows db1 (TxDB tx) k"
    by (intro ballI frame_Delete [OF assms(2)]) (use assms(3) in blast)
  then show ?thesis using assms(1) tx_Delete [OF assms(2)] by (simp add: agree_def)
qed

lemma agree_create_all:
  assumes "create_all G (TxDB tx) rs db1 = (er, db2)" "\<forall>r \<in> set rs. row_kind r \<notin> T" "agree T tx db db1"
  shows "agree T tx db db2"
  using assms
proof (induction rs arbitrary: db1)
  case (Cons r rs)
  obtain res db3 where c: "gorm_Create G (TxDB tx) r db1 = (res, db3)" by (cases "gorm_Create G (TxDB tx) r db1")
  have "agree T tx db db3" by (rule agree_Create [OF Cons.prems(3) c]) (use Cons.prems(2) in simp)
  then show ?case using Cons.prems(1,2) Cons.IH [of db3] c by (cases res) simp_all
qed simp

lemma agree_reorder:
  assumes "reorder_loop G (TxDB tx) i ids db1 = (er, db2)" "TSegment \<notin> T" "agree T tx db db1"
  shows "agree T tx db db2"
  using assms
proof (induction ids arbitrary: i db1)
  case (Cons n ids)
  show ?case
  proof (cases "typed as_segment (gorm_First G (TxDB tx) TSegment False (uint_of_int64 n) db1)")
    case (Inl e)
    then show ?thesis using Cons.prems by simp
  next
    case (Inr s)
    let ?r = "RSegment (s\<lparr>Segment_Rank := of_nat i\<rparr>)"
    obtain res db3 where c: "gorm_Save G (TxDB tx) False ?r db1 = (res, db3)"
      by (cases "gorm_Save G (TxDB tx) False ?r db1")
    have "\<exists>x \<in> set (rows db1 (TxDB tx) (row_kind ?r)). row_ID x = row_ID ?r \<and> live x"
      using First_typed [OF Inr] by (auto dest!: as_columns)
    then have "agree T tx db db3" using agree_Save [OF Cons.prems(3) c] Cons.prems(2) by simp
    then show ?thesis using Cons.prems(1,2) Cons.IH [of "Suc i" db3] c Inr
      by (cases res) (simp_all add: db_try_def)
  qed
qed simp

lemma agree_template:
  assumes "LoadSimpleBooleanFlagTemplate G (TxDB tx) f db1 = (res, db2)" "agree T tx db db1"
    and "TSegment \<notin> T" "TVariant \<notin> T" "TDistribution \<notin> T"
  shows "agree T tx db db2"
proof -
  have "agree T tx db db4" if "saved as (gorm_Create G (TxDB tx) r db3) = (x, db4)" "agree T tx db db3" "row_kind r \<notin> T"
    for as :: "'e row \<Rightarrow> 'b option" and r x db3 db4
    using that agree_Create [OF that(2) _ that(3)] by (auto simp: saved_def split: prod.splits)
  note c = this [of as_segment] this [of as_variant] this [of as_distribution]
  have "\<exists>db3 db4. agree T tx db db3 \<and> (db2 = db3 \<or> agree T tx db db4 \<and> (db2 = db4 \<or> agree T tx db db2))"
    using assms(1)
    by (auto simp: LoadSimpleBooleanFlagTemplate_def db_try_def split: prod.splits sum.splits
        dest!: c(1) [OF _ assms(2)] c(2) c(3)) (use assms in auto)
  then show ?thesis by blast
qed

text \<open>How such a transaction ends.\<close>

lemma agree_ends:
  assumes "agree T tx db db1"
  shows "keeps T rows db (reject c m (gorm_Rollback G tx db1))" "keeps T rows db (reject c m db1)"
    "keeps T rows db (panicked p db1)"
  using assms by (auto simp: keeps_def agree_def Rollback_ok)

lemma agree_commit:
  assumes "ce_gorm env = G" "agree T tx db db1" "TFlag \<notin> T" "TSnapshot \<notin> T"
  shows "keeps T rows db (db_exec (gorm_Commit G tx db1) (\<lambda>e db4. reject 500 e (gorm_Rollback G tx db4))
    (\<lambda>db4. accept_snapshot env i p db4))"
proof -
  obtain er db4 where C: "gorm_Commit G tx db1 = (er, db4)" by (cases "gorm_Commit G tx db1")
  have "\<forall>k \<in> T. rows db4 RootDB k = rows db RootDB k"
    using assms(2) Commit_ok [of tx db1 db4] Commit_error [of tx db1 _ db4] C
    by (cases er) (auto simp: agree_def)
  note k = keeps_trans [OF this]
  show ?thesis
  proof (cases er)
    case None
    then show ?thesis by (simp add: C db_exec_def k keeps_snapshot [OF assms(1,3,4)])
  next
    case (Some e)
    then show ?thesis using Commit_error [of tx db1 e db4] C assms(2)
      by (simp add: db_exec_def keeps_def agree_def Rollback_ok)
  qed
qed

section \<open>The other handlers\<close>

lemma keeps_CreateSegment:
  assumes "ce_gorm env = G" "TSegment \<notin> T" "TFlag \<notin> T" "TSnapshot \<notin> T"
  shows "keeps T rows db (CreateSegment env flagID body db)"
  by (auto simp: CreateSegment_def Let_def assms split: option.split intro!: keeps_Create keeps_snapshot [OF assms(1)])

lemma keeps_PutSegment:
  assumes "ce_gorm env = G" "TSegment \<notin> T" "TFlag \<notin> T" "TSnapshot \<notin> T"
  shows "keeps T rows db (PutSegment env flagID segmentID body db)"
proof (cases "sum_bind (typed as_segment (gorm_First G RootDB TSegment False (uint_of_int64 segmentID) db))
    (PreloadConstraintsDistribution G RootDB db)")
  case (Inr s)
  then obtain s0 where s0: "typed as_segment (gorm_First G RootDB TSegment False (uint_of_int64 segmentID) db) = Inr s0"
    "segment_ID s = segment_ID s0"
    by (auto simp: sum_bind_eq_Inr_iff PreloadConstraintsDistribution_def)
  have "\<exists>x \<in> set (rows db RootDB TSegment). row_ID x = segment_ID s \<and> live x"
    using First_typed [OF s0(1)] s0(2) by (auto dest!: as_columns)
  then show ?thesis
    by (auto simp: PutSegment_def Let_def Inr assms intro!: keeps_Save keeps_snapshot [OF assms(1)])
qed (simp add: PutSegment_def assms)

lemma keeps_DeleteSegment:
  assumes "ce_gorm env = G" "TSegment \<notin> T" "TFlag \<notin> T" "TSnapshot \<notin> T"
  shows "keeps T rows db (DeleteSegment env flagID segmentID db)"
  by (auto simp: DeleteSegment_def assms intro!: keeps_Delete keeps_snapshot [OF assms(1)])

lemma keeps_PutSegmentsReorder:
  assumes "ce_gorm env = G" "TSegment \<notin> T" "TFlag \<notin> T" "TSnapshot \<notin> T"
  shows "keeps T rows db (PutSegmentsReorder env flagID body db)"
proof -
  obtain tx db1 where B: "gorm_Begin G db = (tx, db1)" by (cases "gorm_Begin G db")
  let ?ids = "case PSR_SegmentIDs body of None \<Rightarrow> [] | Some ids \<Rightarrow> ids"
  obtain er db2 where L: "reorder_loop G (TxDB tx) 0 ?ids db1 = (er, db2)"
    by (cases "reorder_loop G (TxDB tx) 0 ?ids db1")
  have a: "agree T tx db db2" by (rule agree_reorder [OF L assms(2) agree_Begin [OF B]])
  show ?thesis
    using agree_ends(1) [OF a] agree_commit [OF assms(1) a assms(3,4)]
    by (cases er) (auto simp: PutSegmentsReorder_def assms(1) Let_def B L)
qed

lemma keeps_PutDistributions:
  assumes "ce_gorm env = G" "TDistribution \<notin> T" "TFlag \<notin> T" "TSnapshot \<notin> T"
  shows "keeps T rows db (PutDistributions env flagID segmentID body db)"
proof (cases "validatePutDistributions env flagID body db = Inr None")
  case True
  let ?P = "row_where as_distribution (\<lambda>d. Distribution_SegmentID d = uint_of_int64 segmentID)"
  obtain tx db1 where B: "gorm_Begin G db = (tx, db1)" by (cases "gorm_Begin G db")
  obtain er db2 where D: "gorm_Delete G (TxDB tx) TDistribution ?P db1 = (er, db2)"
    by (cases "gorm_Delete G (TxDB tx) TDistribution ?P db1")
  have a2: "agree T tx db db2" by (rule agree_Delete [OF agree_Begin [OF B] D assms(2)])
  have rest: "keeps T rows db (db_exec (create_all G (TxDB tx) (map RDistribution ds) db2)
      (\<lambda>e1 db3. reject 500 e1 (gorm_Rollback G tx db3))
      (\<lambda>db3. db_exec (gorm_Commit G tx db3) (\<lambda>e db4. reject 500 e (gorm_Rollback G tx db4))
         (\<lambda>db4. accept_snapshot env i p db4)))" for ds i and p :: "m_distribution option list"
  proof -
    obtain cr db3 where A: "create_all G (TxDB tx) (map RDistribution ds) db2 = (cr, db3)"
      by (cases "create_all G (TxDB tx) (map RDistribution ds) db2")
    have a3: "agree T tx db db3" by (rule agree_create_all [OF A _ a2]) (use assms(2) in auto)
    show ?thesis using agree_ends(1) [OF a3] agree_commit [OF assms(1) a3 assms(3,4)]
      by (cases cr) (simp_all add: A db_exec_def)
  qed
  show ?thesis
    by (cases er; cases "r2e_MapDistributions (ce_cast env) (body_distributions body) (uint_of_int64 segmentID)")
      (simp_all add: PutDistributions_def True assms(1) Let_def B D db_exec_def [of "(_, _)"] agree_ends [OF a2] rest)
next
  case False
  then show ?thesis by (auto simp: PutDistributions_def split: sum.split option.split)
qed

lemma keeps_PutVariant:
  assumes "ce_gorm env = G" "TVariant \<notin> T" "TDistribution \<notin> T" "TFlag \<notin> T" "TSnapshot \<notin> T"
  shows "keeps T rows db (PutVariant env flagID variantID body db)"
proof (cases "typed as_variant (gorm_First G RootDB TVariant False (uint_of_int64 variantID) db)")
  case (Inr v0)
  have row: "\<exists>x \<in> set (rows db RootDB TVariant). row_ID x = variant_ID v0 \<and> live x"
    using First_typed [OF Inr] by (auto dest!: as_columns)
  have sync: "keeps T rows db1 (case validatePutVariantForDistributions G v db1 of
      (Some e, db2) \<Rightarrow> reject (Error_StatusCode e) (Error_Error e) db2
    | (None, db2) \<Rightarrow> accept_snapshot env i (MapVariant v) db2)" for v db1 i
  proof -
    obtain er db2 where U: "validatePutVariantForDistributions G v db1 = (er, db2)"
      by (cases "validatePutVariantForDistributions G v db1")
    have "\<forall>k \<in> T. rows db2 RootDB k = rows db1 RootDB k"
      using U assms(3) by (auto simp: validatePutVariantForDistributions_def db_exec_def
          split: prod.splits option.splits dest!: Updates_ok write_error(4))
    note k = keeps_trans [OF this]
    show ?thesis by (auto simp: U split: option.split intro!: k keeps_snapshot [OF assms(1,4,5)])
  qed
  have save: "keeps T rows db (db_try (saved as_variant (gorm_Save G RootDB False (RVariant v2) db))
      (\<lambda>e db1. reject 500 e db1)
      (\<lambda>v db1. case validatePutVariantForDistributions G v db1 of
         (Some e, db2) \<Rightarrow> reject (Error_StatusCode e) (Error_Error e) db2
       | (None, db2) \<Rightarrow> accept_snapshot env i (MapVariant v) db2))"
    if "variant_ID v2 = variant_ID v0" for v2 i
    by (rule keeps_Save) (use assms(2) row that sync in auto)
  show ?thesis
    by (auto simp: PutVariant_def Let_def assms(1) Inr sum_bind_def save split: sum.split)
qed (simp add: PutVariant_def assms)

lemma keeps_DeleteVariant:
  assumes "ce_gorm env = G" "TVariant \<notin> T" "TDistribution \<notin> T" "TFlag \<notin> T" "TSnapshot \<notin> T"
  shows "keeps T rows db (DeleteVariant env flagID variantID db)"
proof -
  have z: "\<forall>k \<in> T. rows db' RootDB k = rows db RootDB k"
    if "delete_zero_distributions G vID n ds db = (er, db')" for vID n ds db er db'
    using that
  proof (induction ds arbitrary: db)
    case (Cons d ds)
    obtain de db1 where D: "gorm_Delete G RootDB TDistribution (\<lambda>r. row_ID r = distribution_ID d) db = (de, db1)"
      by (cases "gorm_Delete G RootDB TDistribution (\<lambda>r. row_ID r = distribution_ID d) db")
    have "\<forall>k \<in> T. rows db1 RootDB k = rows db RootDB k"
      by (intro ballI frame_Delete [OF D]) (use assms(3) in blast)
    then show ?case using Cons.prems Cons.IH [of db] Cons.IH [of db1] D
      by (auto simp: db_exec_def split: if_splits option.splits)
  qed simp
  obtain er db1 where V: "validateDeleteVariant env flagID variantID db = (er, db1)"
    by (cases "validateDeleteVariant env flagID variantID db")
  have "\<forall>k \<in> T. rows db1 RootDB k = rows db RootDB k"
    using V z by (auto simp: validateDeleteVariant_def Let_def assms(1) split: sum.splits)
  note k = keeps_trans [OF this]
  show ?thesis
    by (auto simp: DeleteVariant_def V assms split: option.split intro!: k keeps_Delete keeps_snapshot [OF assms(1)])
qed

lemma keeps_CreateFlag:
  assumes "ce_gorm env = G" "TFlag \<notin> T" "TSnapshot \<notin> T" "TSegment \<notin> T" "TVariant \<notin> T" "TDistribution \<notin> T"
  shows "keeps T rows db (CreateFlag env body db)"
proof -
  obtain tx db1 where B: "gorm_Begin G db = (tx, db1)" by (cases "gorm_Begin G db")
  have commit: "keeps T rows db (commit_flag env tx f db3)" if "agree T tx db db3" for f db3
    unfolding commit_flag_def assms(1) by (rule agree_commit [OF assms(1) that assms(2,3)])
  have template: "keeps T rows db (create_template env body tx f db2)" if a: "agree T tx db db2" for f db2
  proof -
    obtain res db3 where L: "LoadSimpleBooleanFlagTemplate G (TxDB tx) f db2 = (res, db3)"
      by (cases "LoadSimpleBooleanFlagTemplate G (TxDB tx) f db2")
    note a3 = agree_template [OF L a assms(4-6)]
    show ?thesis using commit [OF a] commit [OF a3]
      by (cases res) (simp_all add: create_template_def assms(1) L db_try_def agree_ends [OF a] agree_ends(1) [OF a3]
          split: option.split)
  qed
  have step: "keeps T rows db (create_step env body tx f0 db1)" for f0
  proof -
    obtain res db2 where c: "gorm_Create G (TxDB tx) (RFlag f0) db1 = (res, db2)"
      by (cases "gorm_Create G (TxDB tx) (RFlag f0) db1")
    have a2: "agree T tx db db2" by (rule agree_Create [OF agree_Begin [OF B] c]) (simp add: assms(2))
    show ?thesis using agree_ends(1) [OF a2] template [OF a2]
      by (auto simp: create_step_def assms(1) c saved_def db_try_def split: sum.split)
  qed
  show ?thesis
    using step CreateFlag_steps [of env db tx db1 body] B assms(1) by (auto split: option.split sum.split)
qed

end

section \<open>The stored constraints\<close>

definition accepted_constraints :: "'e cond_lib \<Rightarrow> 'e row list \<Rightarrow> bool" where
  "accepted_constraints L rs \<longleftrightarrow> (\<forall>x \<in> set rs. \<forall>c. as_constraint x = Some c \<longrightarrow> Constraint_Validate L c = Inr ())"

lemma accepted_simps [simp]:
  "accepted_constraints L []" "accepted_constraints L (rs @ rs') \<longleftrightarrow> accepted_constraints L rs \<and> accepted_constraints L rs'"
  "accepted_constraints L (x # rs) \<longleftrightarrow>
    (\<forall>c. as_constraint x = Some c \<longrightarrow> Constraint_Validate L c = Inr ()) \<and> accepted_constraints L rs"
  by (auto simp: accepted_constraints_def)

lemma Validate_Model [simp]:
  "Constraint_Validate L (c\<lparr>Constraint_Model := m\<rparr>) = Constraint_Validate L c"
proof -
  have "Constraint_toExprStr (c\<lparr>Constraint_Model := m\<rparr>) = Constraint_toExprStr c"
    by (simp add: Constraint_toExprStr_def split: option.split)
  then show ?thesis unfolding Constraint_Validate_def Constraint_ToExpr_def by (simp only:)
qed

lemma accepted_delete: "accepted_constraints L rs \<Longrightarrow> accepted_constraints L (delete_rows t P rs)"
proof (induction rs)
  case (Cons x rs)
  then show ?case by (cases x) (auto simp: delete_rows_def soft_delete_def)
qed (simp add: delete_rows_def)

lemma accepted_replace:
  assumes "accepted_constraints L rs" "Constraint_Validate L c = Inr ()"
  shows "accepted_constraints L (map (\<lambda>x. if P x then row_columns (touch t (RConstraint c)) else x) rs)"
  using assms by (induction rs) (auto simp: touch_def)

context gorm_laws
begin

lemma accepted_CreateConstraint:
  assumes "ce_gorm env = G" "accepted_constraints (ce_cond env) (rows db RootDB TConstraint)"
  shows "accepted_constraints (ce_cond env)
    (rows (db_after (CreateConstraint env flagID segmentID body db)) RootDB TConstraint)"
proof -
  let ?c = "constraint_with_body (ce_cast env) body (zero_constraint\<lparr>Constraint_SegmentID := uint_of_int64 segmentID\<rparr>)"
  obtain res db1 where c: "gorm_Create G RootDB (RConstraint ?c) db = (res, db1)"
    by (cases "gorm_Create G RootDB (RConstraint ?c) db")
  show ?thesis
  proof (cases "Constraint_Validate (ce_cond env) ?c")
    case (Inl e)
    then show ?thesis using assms by (simp add: CreateConstraint_def Let_def)
  next
    case (Inr u)
    have "accepted_constraints (ce_cond env) (rows db1 RootDB TConstraint)"
      using assms(2) Inr Create_ok [of RootDB "RConstraint ?c" db _ db1] write_error(1) [of RootDB "RConstraint ?c" db _ db1] c
      by (cases res) auto
    then show ?thesis
      by (simp add: CreateConstraint_def Let_def assms(1) Inr c db_try_def saved_def
          accept_snapshot_rows [OF assms(1)] split: sum.split)
  qed
qed

lemma accepted_PutConstraint:
  assumes "ce_gorm env = G" "accepted_constraints (ce_cond env) (rows db RootDB TConstraint)"
  shows "accepted_constraints (ce_cond env)
    (rows (db_after (PutConstraint env flagID constraintID body db)) RootDB TConstraint)"
proof (cases "typed as_constraint (gorm_First G RootDB TConstraint False (uint_of_int64 constraintID) db)")
  case (Inl e)
  then show ?thesis using assms by (simp add: PutConstraint_def)
next
  case first: (Inr c0)
  let ?c = "constraint_with_body (ce_cast env) body c0"
  have "constraint_ID ?c = constraint_ID c0" by (simp add: constraint_with_body_def split: option.split)
  then have row: "\<exists>x \<in> set (rows db RootDB (row_kind (RConstraint ?c))). row_ID x = row_ID (RConstraint ?c) \<and> (False \<or> live x)"
    using First_typed [OF first] by (auto dest!: as_columns)
  obtain res db1 where c: "gorm_Save G RootDB False (RConstraint ?c) db = (res, db1)"
    by (cases "gorm_Save G RootDB False (RConstraint ?c) db")
  show ?thesis
  proof (cases "Constraint_Validate (ce_cond env) ?c")
    case (Inl e)
    then show ?thesis using assms first by (simp add: PutConstraint_def Let_def)
  next
    case (Inr u)
    have "accepted_constraints (ce_cond env) (rows db1 RootDB TConstraint)"
      using assms(2) Inr Save_ok [OF _ row, of _ db1] write_error(2) [of RootDB False "RConstraint ?c" db _ db1] c accepted_replace
      by (cases res) fastforce+
    then show ?thesis
      by (simp add: PutConstraint_def Let_def assms(1) first Inr c db_try_def saved_def
          accept_snapshot_rows [OF assms(1)] split: sum.split)
  qed
qed

lemma accepted_DeleteConstraint:
  assumes "ce_gorm env = G" "accepted_constraints L (rows db RootDB TConstraint)"
  shows "accepted_constraints L (rows (db_after (DeleteConstraint env flagID constraintID db)) RootDB TConstraint)"
proof -
  obtain er db1 where D: "gorm_Delete G RootDB TConstraint (\<lambda>r. row_ID r = uint_of_int64 constraintID) db = (er, db1)"
    by (cases "gorm_Delete G RootDB TConstraint (\<lambda>r. row_ID r = uint_of_int64 constraintID) db")
  have "accepted_constraints L (rows db1 RootDB TConstraint)"
  proof (cases er)
    case None
    then show ?thesis using Delete_rows [OF D [unfolded None]] accepted_delete [OF assms(2)] by auto
  next
    case (Some e)
    then show ?thesis using write_error(3) [OF D [unfolded Some]] assms(2) by simp
  qed
  then show ?thesis
    by (simp add: DeleteConstraint_def assms(1) D db_exec_def accept_snapshot_rows [OF assms(1)] split: option.split)
qed

lemma keeps_table: "keeps T rows db r \<Longrightarrow> k \<in> T \<Longrightarrow> rows (db_after r) RootDB k = rows db RootDB k"
  by (simp add: keeps_def)

lemmas keeps_others = keeps_CreateFlag keeps_CreateSegment keeps_PutSegment keeps_DeleteSegment keeps_PutSegmentsReorder
  keeps_PutDistributions keeps_CreateVariant keeps_PutVariant keeps_DeleteVariant keeps_DeleteFlag
  keeps_SetFlagEnabledState keeps_RestoreFlag keeps_DeleteTag keeps_CreateTag keeps_PutFlag

lemmas keeps_constraints = keeps_others [where T = "{TConstraint}", simplified, THEN keeps_table, simplified]

lemma serve_accepted:
  assumes "ce_gorm env = G" "accepted_constraints (ce_cond env) (rows db RootDB TConstraint)"
  shows "accepted_constraints (ce_cond env) (rows (snd (serve env rq db)) RootDB TConstraint)"
  using assms(2) accepted_CreateConstraint [OF assms] accepted_PutConstraint [OF assms] accepted_DeleteConstraint [OF assms]
  by (cases rq) (simp_all add: with_body_def keeps_constraints [OF assms(1)] split: option.split)

lemma reachable_accepted:
  assumes "crud_reachable G L rows db"
  shows "accepted_constraints L (rows db RootDB TConstraint)"
  using assms
proof (induction rule: crud_run.induct)
  case (request db env S call rq)
  then show ?case using serve_accepted [of env db rq] by simp
qed simp

text \<open>What is fetched has only stored constraints, so it can be prepared.\<close>

lemma Preload_constraints:
  assumes "PreloadConstraintsDistribution G h db s = Inr s'" "accepted_constraints L (rows db h TConstraint)"
  shows "\<forall>c \<in> set (Segment_Constraints s'). Constraint_Validate L c = Inr ()"
proof
  fix c assume "c \<in> set (Segment_Constraints s')"
  moreover obtain rs where rs: "gorm_Find G h TConstraint (row_where as_constraint (\<lambda>c. Constraint_SegmentID c = segment_ID s))
      (by_columns (\<lambda>c. [CreatedAt (Constraint_Model c)]) as_constraint) db = Inr rs"
    "Segment_Constraints s' = List.map_filter as_constraint rs"
    using assms(1) by (auto simp: PreloadConstraintsDistribution_def sum_bind_eq_Inr_iff typed_list_Inr_iff)
  ultimately obtain x where "x \<in> set rs" "as_constraint x = Some c" by (auto simp: set_map_filter)
  then show "Constraint_Validate L c = Inr ()"
    using mset_eq_setD [OF Find_ok [OF rs(1)]] assms(2) by (auto simp: accepted_constraints_def)
qed

lemma fetched_constraints:
  assumes "dbFetcher_fetch G db = Inr fs" "accepted_constraints L (rows db RootDB TConstraint)"
    and "f \<in> set fs" "s \<in> set (Flag_Segments f)"
  shows "\<forall>c \<in> set (Segment_Constraints s). Constraint_Validate L c = Inr ()"
proof -
  obtain gs where "sum_mapM (PreloadSegmentsVariantsTags G RootDB db) gs = Inr fs"
    using assms(1) by (auto simp: dbFetcher_fetch_def sum_bind_eq_Inr_iff)
  from sum_mapM_source [OF this assms(3)] obtain g where "PreloadSegmentsVariantsTags G RootDB db g = Inr f" by blast
  then obtain ss where "sum_mapM (PreloadConstraintsDistribution G RootDB db) ss = Inr (Flag_Segments f)"
    by (auto simp: PreloadSegmentsVariantsTags_def PreloadFlagTags_def sum_bind_eq_Inr_iff)
  from sum_mapM_source [OF this assms(4)] Preload_constraints [OF _ assms(2)] show ?thesis by blast
qed

end

text \<open>What only the parser can tell about a segment with several conditions, each of them accepted on its own:
  whether it accepts the conjunction of their texts.\<close>

definition conjunction_accepted :: "'e cond_lib \<Rightarrow> constraint list \<Rightarrow> bool" where
  "conjunction_accepted L cs \<longleftrightarrow>
     (\<exists>strs e. list_all2 (\<lambda>c s. Constraint_toExprStr c = Inr s) cs strs \<and> cond_Parse L (join '' AND '' strs) = Inr e)"

definition flag_accepted :: "'e cond_lib \<Rightarrow> 'e flag \<Rightarrow> bool" where
  "flag_accepted L f \<longleftrightarrow> (\<forall>s \<in> set (Flag_Segments f).
     2 \<le> length (Segment_Constraints s) \<longrightarrow> conjunction_accepted L (Segment_Constraints s))"

lemma conjunction_accepted_iff: "conjunction_accepted L cs \<longleftrightarrow> (\<exists>e. ConstraintArray_ToExpr L cs = Inr e)"
  by (auto simp: conjunction_accepted_def ConstraintArray_ToExpr_Inr_iff)

lemma segment_prepares_iff:
  assumes "\<forall>c \<in> set (Segment_Constraints s). Constraint_Validate L c = Inr ()"
  shows "(\<exists>s'. Segment_PrepareEvaluation L s = Inr s') \<longleftrightarrow>
    (2 \<le> length (Segment_Constraints s) \<longrightarrow> conjunction_accepted L (Segment_Constraints s))"
proof -
  have "(\<exists>s'. Segment_PrepareEvaluation L s = Inr s') \<longleftrightarrow>
      Segment_Constraints s = [] \<or> conjunction_accepted L (Segment_Constraints s)"
    by (auto simp: Segment_PrepareEvaluation_def conjunction_accepted_iff sum_bind_eq_Inr_iff)
  moreover have "conjunction_accepted L (Segment_Constraints s)" if "length (Segment_Constraints s) = 1"
    using that assms by (auto simp: length_Suc_conv conjunction_accepted_iff ConstraintArray_ToExpr_single Constraint_Validate_iff)
  moreover have "Segment_Constraints s = [] \<or> length (Segment_Constraints s) = 1 \<or> 2 \<le> length (Segment_Constraints s)"
    by (cases "Segment_Constraints s" rule: remdups_adj.cases) auto
  ultimately show ?thesis by auto
qed

lemma sum_mapM_total: "(\<exists>ys. sum_mapM f xs = Inr ys) \<longleftrightarrow> (\<forall>x \<in> set xs. \<exists>y. f x = Inr y)"
  by (induction xs) (auto simp: sum_bind_eq_Inr_iff)

lemma flag_prepares_iff:
  assumes "\<forall>s \<in> set (Flag_Segments f). \<forall>c \<in> set (Segment_Constraints s). Constraint_Validate L c = Inr ()"
  shows "(\<exists>f'. Flag_PrepareEvaluation L f = Inr f') \<longleftrightarrow> flag_accepted L f"
proof -
  have "(\<exists>f'. Flag_PrepareEvaluation L f = Inr f') \<longleftrightarrow> (\<exists>ss. sum_mapM (Segment_PrepareEvaluation L) (Flag_Segments f) = Inr ss)"
    by (auto simp: Flag_PrepareEvaluation_def sum_bind_eq_Inr_iff)
  also have "\<dots> \<longleftrightarrow> flag_accepted L f"
    unfolding sum_mapM_total flag_accepted_def
    by (intro ball_cong refl segment_prepares_iff) (use assms in blast)
  finally show ?thesis .
qed

section \<open>Properties\<close>

text \<open>C4: in every database the management API leads to, each stored constraint, deleted ones included, is one
  that the expression parser accepts on its own.\<close>

theorem stored_constraints_parse:
  assumes "gorm_laws G rows open_txs" "crud_reachable G L rows db" "RConstraint c \<in> set (rows db RootDB TConstraint)"
  shows "\<exists>e. Constraint_ToExpr L c = Inr e"
  using gorm_laws.reachable_accepted [OF assms(1,2)] assms(3)
  by (auto simp: accepted_constraints_def Constraint_Validate_iff)

definition demo_constraint_body :: create_constraint_request where
  "demo_constraint_body = \<lparr>CCR_Operator = Some ''EQ'', CCR_Property = Some ''p'', CCR_Value = Some ''1''\<rparr>"

definition demo_constrained :: "string mem_db" where
  "demo_constrained = snd (serve demo_crud_env (CreateConstraintRq \<lparr>CreateConstraint_Body = Some demo_constraint_body,
     CreateConstraint_FlagID = 1, CreateConstraint_SegmentID = 7\<rparr>) demo_db)"

lemma demo_constrained_reachable: "crud_reachable mem_gorm text_cond mem_rows demo_constrained"
  unfolding demo_constrained_def
proof (rule crud_run.request [OF demo_db_reachable, where S = go_swag and
      call = "CreateConstraintCall demo_http (Decoded demo_constraint_body)"])
  show "bind_call go_swag (CreateConstraintCall demo_http (Decoded demo_constraint_body)) =
    Inr (CreateConstraintRq \<lparr>CreateConstraint_Body = Some demo_constraint_body,
      CreateConstraint_FlagID = 1, CreateConstraint_SegmentID = 7\<rparr>)"
    by (simp add: CreateConstraintParams_BindRequest_def bind_path_id_def bind_body_def demo_path last_raw_def go_swag_def
        demo_ids validate_MinimumInt_def demo_constraint_body_def CreateConstraintRequest_Validate_def required_string_def
        validate_MinLength_def check_all_def bound_def bind_done_def)
qed (simp_all add: go_cast.cast_laws_axioms)

lemma demo_constrained_rows:
  "length (mem_rows demo_constrained RootDB TConstraint) = 1 \<and>
   list_all (\<lambda>r. row_kind r = TConstraint) (mem_rows demo_constrained RootDB TConstraint)"
  by code_simp

theorem stored_constraints_parse_witness:
  "\<exists>c e. mem_rows demo_constrained RootDB TConstraint = [RConstraint c] \<and> Constraint_ToExpr text_cond c = Inr e"
proof -
  obtain r where r: "mem_rows demo_constrained RootDB TConstraint = [r]" "row_kind r = TConstraint"
    using demo_constrained_rows by (auto simp: length_Suc_conv)
  then obtain c where "mem_rows demo_constrained RootDB TConstraint = [RConstraint c]" by (cases r) auto
  with stored_constraints_parse [OF mem.gorm_laws_axioms demo_constrained_reachable, of c] show ?thesis by simp
qed

text \<open>C3: from any state of the cache and any database the management API leads to, a poll that fetches the flags
  in time installs exactly these flags, prepared, if the expression parser accepts the joined text of every
  segment with several conditions; a segment with at most one never stands in the way. Otherwise the poll
  returns an error and the cache keeps what it had.\<close>

theorem cache_catches_up:
  assumes "gorm_laws G rows open_txs" "crud_reachable G L rows db" "dbFetcher_fetch G db = Inr fs"
  shows "if \<forall>f \<in> set fs. flag_accepted L f
    then \<exists>fs'. prepared_from L fs fs' \<and>
      reloadMapCache C L (dbFetcher_fetch G db) False ec = (None, ec\<lparr>cache := container_of C fs'\<rparr>)
    else \<exists>e. reloadMapCache C L (dbFetcher_fetch G db) False ec = (Some e, ec)"
proof -
  note a = gorm_laws.fetched_constraints [OF assms(1,3) gorm_laws.reachable_accepted [OF assms(1,2)]]
  have iff: "(\<exists>fs'. prepared_from L fs fs') \<longleftrightarrow> (\<forall>f \<in> set fs. flag_accepted L f)"
    using flag_prepares_iff [of _ L] a sum_mapM_total [of "Flag_PrepareEvaluation L" fs]
    by (simp add: prepared_from_def sum_mapM_Inr_iff)
  show ?thesis
  proof (cases "EvalCache_fetchAllFlags C L (Inr fs)")
    case (Inl e)
    then have "\<not> (\<exists>fs'. prepared_from L fs fs')" using EvalCache_fetchAllFlags_Inr_iff [of C L "Inr fs"]
      by (auto simp: prepared_from_def)
    with iff Inl show ?thesis by (simp add: assms(3) reloadMapCache_def)
  next
    case (Inr c)
    then obtain fs' where "prepared_from L fs fs'" "c = container_of C fs'"
      by (auto simp: EvalCache_fetchAllFlags_Inr_iff prepared_from_def)
    with iff Inr show ?thesis by (auto simp: assms(3) reloadMapCache_def)
  qed
qed

theorem cache_catches_up_witness:
  "\<exists>fs fs'. dbFetcher_fetch mem_gorm demo_db = Inr fs \<and> prepared_from text_cond fs fs' \<and>
     reloadMapCache go_cast text_cond (dbFetcher_fetch mem_gorm demo_db) False new_EvalCache =
       (None, new_EvalCache\<lparr>cache := container_of go_cast fs'\<rparr>)"
proof -
  let ?ok = "\<exists>fs. dbFetcher_fetch mem_gorm demo_db = Inr fs \<and>
    fst (reloadMapCache go_cast text_cond (dbFetcher_fetch mem_gorm demo_db) False new_EvalCache) = None"
  have ?ok using demo_db_prepares
    by (cases "dbFetcher_fetch mem_gorm demo_db")
      (auto simp: EvalCache_Start_def reloadMapCache_def EvalCache_fetchAllFlags_def sum_bind_def split: sum.splits)
  then obtain fs where fs: "dbFetcher_fetch mem_gorm demo_db = Inr fs"
    "fst (reloadMapCache go_cast text_cond (dbFetcher_fetch mem_gorm demo_db) False new_EvalCache) = None" by blast
  show ?thesis
    using cache_catches_up [OF mem.gorm_laws_axioms demo_db_reachable fs(1), of go_cast new_EvalCache] fs
    by (auto split: if_splits)
qed

end
