(* ===== verification/Flagr_Variants.thy ===== *)
theory Flagr_Variants
  imports Flagr_Transactions
begin

text \<open>
  Variants and the distributions that name them: what the deletion of a variant checks and what it
  misses, how a new key reaches the distributions, and what becomes of distributions that were put
  on a segment that does not exist.
\<close>

section \<open>Deleting a variant\<close>

definition dead :: "'e row list \<Rightarrow> u64 \<Rightarrow> bool" where
  "dead rs i \<longleftrightarrow> (\<forall>x \<in> set rs. row_ID x = i \<longrightarrow> \<not> live x)"

lemma dead_simps [simp]: "dead [] i" "dead (x # rs) i \<longleftrightarrow> (row_ID x = i \<longrightarrow> \<not> live x) \<and> dead rs i"
  by (simp_all add: dead_def)

lemma dead_delete:
  "dead rs i \<Longrightarrow> dead (delete_rows t P rs) i"
  "dead (delete_rows t (\<lambda>r. row_ID r = i) rs) i"
  by (induction rs) (auto simp: delete_rows_def)

context gorm_laws
begin

lemma delete_zero_ok:
  assumes "delete_zero_distributions G vID n ds db = (None, db')"
  shows "\<forall>d \<in> set ds. Distribution_VariantID d = vID \<longrightarrow>
      Distribution_Percent d = 0 \<and> dead (rows db' RootDB TDistribution) (distribution_ID d)"
    "\<And>i. dead (rows db RootDB TDistribution) i \<Longrightarrow> dead (rows db' RootDB TDistribution) i"
  using assms
proof (induction ds arbitrary: db)
  case (Cons d ds)
  have split: "\<exists>db1. (Distribution_VariantID d = vID \<longrightarrow> Distribution_Percent d = 0 \<and>
        dead (rows db1 RootDB TDistribution) (distribution_ID d)) \<and>
      (\<forall>i. dead (rows db RootDB TDistribution) i \<longrightarrow> dead (rows db1 RootDB TDistribution) i) \<and>
      delete_zero_distributions G vID n ds db1 = (None, db')"
    if "delete_zero_distributions G vID n (d # ds) db = (None, db')" for db
  proof (cases "Distribution_VariantID d = vID")
    case False
    then show ?thesis using that by auto
  next
    case True
    obtain de db1 where D: "gorm_Delete G RootDB TDistribution (\<lambda>r. row_ID r = distribution_ID d) db = (de, db1)"
      by (cases "gorm_Delete G RootDB TDistribution (\<lambda>r. row_ID r = distribution_ID d) db")
    have de: "de = None" "Distribution_Percent d = 0" "delete_zero_distributions G vID n ds db1 = (None, db')"
      using that True D by (auto simp: db_exec_def split: if_splits option.splits)
    obtain t where "rows db1 RootDB TDistribution = delete_rows t (\<lambda>r. row_ID r = distribution_ID d) (rows db RootDB TDistribution)"
      using Delete_rows [OF D [unfolded de(1)]] by (metis fun_upd_same)
    then show ?thesis using de dead_delete by (metis)
  qed
  {
    case 1
    from split [OF 1] obtain db1 where db1: "Distribution_VariantID d = vID \<longrightarrow>
        Distribution_Percent d = 0 \<and> dead (rows db1 RootDB TDistribution) (distribution_ID d)"
      "delete_zero_distributions G vID n ds db1 = (None, db')" by (elim exE conjE) rule
    show ?case using db1(1) Cons.IH(1) [OF db1(2)] Cons.IH(2) [OF _ db1(2)] by simp
  next
    case 2
    then show ?case using split Cons.IH(2) by blast
  }
qed simp_all

lemma DeleteVariant_steps:
  assumes "ce_gorm env = G" "outcome (DeleteVariant env flagID variantID db) = Inr (RespOK ())"
    and "First_Flag_preloaded G RootDB (uint_of_int64 flagID) db = Inr f"
    and "db' = db_after (DeleteVariant env flagID variantID db)"
  shows "(\<forall>s \<in> set (Flag_Segments f). \<forall>d \<in> set (Segment_Distributions s).
      Distribution_VariantID d = SafeUint (ce_cast env) (VInt64 variantID) \<longrightarrow>
      Distribution_Percent d = 0 \<and> dead (rows db' RootDB TDistribution) (distribution_ID d)) \<and>
    dead (rows db' RootDB TVariant) (uint_of_int64 variantID)"
proof -
  obtain er db1 where V: "validateDeleteVariant env flagID variantID db = (er, db1)"
    by (cases "validateDeleteVariant env flagID variantID db")
  obtain de db2 where D: "gorm_Delete G RootDB TVariant (\<lambda>r. row_ID r = uint_of_int64 variantID) db1 = (de, db2)"
    by (cases "gorm_Delete G RootDB TVariant (\<lambda>r. row_ID r = uint_of_int64 variantID) db1")
  have ok: "er = None" "de = None"
    using assms(2) by (auto simp: DeleteVariant_def V D assms(1) db_exec_def reject_def split: option.splits)
  have after: "db' = db_after (accept_snapshot env (SafeUint (ce_cast env) (VInt64 flagID)) () db2)"
    using assms(4) by (simp add: DeleteVariant_def V D assms(1) db_exec_def ok)
  obtain f0 where f0: "First_Flag G RootDB (uint_of_int64 flagID) db = Inr f0"
    using assms(3) by (auto simp: First_Flag_preloaded_def sum_bind_eq_Inr_iff)
  have "Flag_Preload G RootDB db f0 = f" using assms(3) First_Flag_row(2) [OF f0] by (simp add: Flag_Preload_def)
  then have z: "delete_zero_distributions G (SafeUint (ce_cast env) (VInt64 variantID)) variantID
      (concat (map Segment_Distributions (Flag_Segments f))) db = (None, db1)"
    using V f0 ok assms(1) by (simp add: validateDeleteVariant_def Let_def)
  obtain t where t: "rows db2 RootDB = (rows db1 RootDB)(TVariant :=
      delete_rows t (\<lambda>r. row_ID r = uint_of_int64 variantID) (rows db1 RootDB TVariant))"
    using Delete_rows [OF D [unfolded ok]] by blast
  have seen: "rows db' RootDB k = rows db2 RootDB k" if "k \<noteq> TFlag" "k \<noteq> TSnapshot" for k
    by (simp add: after accept_snapshot_rows [OF assms(1) that])
  show ?thesis using delete_zero_ok(1) [OF z] dead_delete(2) by (auto simp: seen t)
qed

lemma DeleteVariant_unloaded:
  assumes "ce_gorm env = G" "First_Flag G RootDB (uint_of_int64 flagID) db = Inr f0"
    and "First_Flag_preloaded G RootDB (uint_of_int64 flagID) db = Inl e"
  shows "DeleteVariant env flagID variantID db =
    db_exec (gorm_Delete G RootDB TVariant (\<lambda>r. row_ID r = uint_of_int64 variantID) db)
      (\<lambda>e db2. reject 500 e db2) (\<lambda>db2. accept_snapshot env (SafeUint (ce_cast env) (VInt64 flagID)) () db2)"
proof -
  have "Flag_Preload G RootDB db f0 = f0" using assms(3) First_Flag_row(2) [OF assms(2)] by (simp add: Flag_Preload_def)
  moreover have "Flag_Segments f0 = []"
    using First_typed [OF assms(2) [unfolded First_Flag_def]] by (auto dest!: as_columns)
  ultimately have "validateDeleteVariant env flagID variantID db = (None, db)"
    using assms(1,2) by (simp add: validateDeleteVariant_def Let_def)
  then show ?thesis by (simp add: DeleteVariant_def assms(1))
qed

end

section \<open>Renaming a variant\<close>

definition renamed :: "u64 \<Rightarrow> string \<Rightarrow> int \<Rightarrow> distribution \<Rightarrow> distribution" where
  "renamed i k t d =
     (if DeletedAt (Distribution_Model d) = None \<and> Distribution_VariantID d = i
      then d\<lparr>Distribution_VariantKey := k, Distribution_Model := (Distribution_Model d)\<lparr>UpdatedAt := t\<rparr>\<rparr> else d)"

lemma renamed_rows:
  assumes "\<forall>r \<in> set rs. row_kind r = TDistribution" "k \<noteq> []"
  shows "\<exists>ds. rs = map RDistribution ds \<and>
    map (\<lambda>x. if live x \<and> row_where as_distribution (\<lambda>d. Distribution_VariantID d = i) x
      then touch t (set_variant_key k x) else x) rs = map (\<lambda>d. RDistribution (renamed i k t d)) ds"
proof -
  from assms(1) obtain ds where ds: "rs = map RDistribution ds"
  proof (induction rs arbitrary: thesis)
    case (Cons r rs)
    then obtain ds where "rs = map RDistribution ds" by auto
    moreover obtain d where "r = RDistribution d" using Cons.prems(2) by (cases r) auto
    ultimately show ?case using Cons.prems(1) [of "d # ds"] by simp
  qed simp
  show ?thesis
    by (rule exI [of _ ds]) (use assms(2) in \<open>auto simp: ds row_where_def touch_def live_def renamed_def\<close>)
qed

lemma dists_of_renamed:
  "dists_of (map (\<lambda>d. RDistribution (renamed i k t d)) ds :: 'e row list) s =
    map (renamed i k t) (dists_of (map RDistribution ds :: 'e row list) s)"
  by (induction ds) (auto simp: dists_of_Cons renamed_def live_def)

context gorm_laws
begin

lemma PutVariant_steps:
  assumes "ce_gorm env = G" "outcome (PutVariant env flagID variantID body db) = Inr (RespOK p)"
    and "uint_of_int64 variantID \<noteq> 0" "k = SafeString (ce_cast env) (VPtrString (VR_Key body))"
    and "db' = db_after (PutVariant env flagID variantID body db)"
  shows "safe_key k \<and> (\<exists>t. rows db' RootDB TDistribution = map (\<lambda>x. if live x \<and>
      row_where as_distribution (\<lambda>d. Distribution_VariantID d = uint_of_int64 variantID) x
    then touch t (set_variant_key k x) else x) (rows db RootDB TDistribution))"
proof -
  obtain v0 where v0: "typed as_variant (gorm_First G RootDB TVariant False (uint_of_int64 variantID) db) = Inr v0"
    using assms(2) by (auto simp: PutVariant_def assms(1) Let_def reject_def split: sum.splits)
  have row: "\<exists>x \<in> set (rows db RootDB TVariant). row_ID x = variant_ID v0 \<and> live x"
    and id: "variant_ID v0 = uint_of_int64 variantID"
    using First_typed [OF v0] by (auto dest!: as_columns)
  define att where "att = (if VR_Attachment body \<noteq> VNil
    then sum_bind (r2e_MapAttachment (spew_Sdump (ce_cond env)) (VR_Attachment body))
      (\<lambda>a. Inr (v0\<lparr>Variant_Key := k, Variant_Attachment := a\<rparr>))
    else Inr (v0\<lparr>Variant_Key := k\<rparr>))"
  have put: "PutVariant env flagID variantID body db = (case att of Inl e \<Rightarrow> reject 400 e db
    | Inr v2 \<Rightarrow> (case Variant_Validate v2 of Inl e \<Rightarrow> reject 400 e db | Inr _ \<Rightarrow>
        db_try (saved as_variant (gorm_Save G RootDB False (RVariant v2) db))
          (\<lambda>e db1. reject 500 e db1)
          (\<lambda>v db1. case validatePutVariantForDistributions G v db1 of
             (Some e, db2) \<Rightarrow> reject (Error_StatusCode e) (Error_Error e) db2
           | (None, db2) \<Rightarrow> accept_snapshot env (SafeUint (ce_cast env) (VInt64 flagID)) (MapVariant v) db2)))"
    by (simp add: PutVariant_def assms(1,4) v0 Let_def att_def)
  obtain v2 where att: "att = Inr v2" and valid: "Variant_Validate v2 = Inr ()"
    using assms(2) by (auto simp: put reject_def split: sum.splits)
  have v2: "variant_ID v2 = variant_ID v0" "Variant_Key v2 = k"
    using att by (auto simp: att_def sum_bind_eq_Inr_iff split: if_splits)
  obtain v db1 where S: "saved as_variant (gorm_Save G RootDB False (RVariant v2) db) = (Inr v, db1)"
    using assms(2) by (auto simp: put att valid reject_def db_try_def split: sum.splits prod.splits)
  obtain db2 where U: "validatePutVariantForDistributions G v db1 = (None, db2)"
    using assms(2) by (auto simp: put att valid S reject_def db_try_def split: prod.splits option.splits)
  have after: "db' = db_after (accept_snapshot env (SafeUint (ce_cast env) (VInt64 flagID)) (MapVariant v) db2)"
    by (simp add: assms(5) put att valid S U db_try_def)
  obtain r where s: "gorm_Save G RootDB False (RVariant v2) db = (Inr r, db1)" "as_variant r = Some v"
    using S by (auto simp: saved_def typed_Inr_iff split: prod.splits)
  have "\<exists>x \<in> set (rows db RootDB (row_kind (RVariant v2))). row_ID x = row_ID (RVariant v2) \<and> (False \<or> live x)"
    using row v2(1) by auto
  from Save_ok [OF s(1) this] s(2) have v: "variant_ID v = uint_of_int64 variantID" "Variant_Key v = k"
    and d1: "rows db1 RootDB TDistribution = rows db RootDB TDistribution"
    using v2 id by (auto simp: touch_def)
  have u: "gorm_Updates G RootDB TDistribution (row_where as_distribution
      (\<lambda>d. struct_where (variant_ID v) (Distribution_VariantID d))) (set_variant_key (Variant_Key v)) db1 = (None, db2)"
    using U by (auto simp: validatePutVariantForDistributions_def db_exec_def split: prod.splits option.splits)
  have "\<forall>x. row_kind (set_variant_key (Variant_Key v) x) = row_kind x" by simp
  from Updates_ok [OF u this] obtain t where "rows db2 RootDB = (rows db1 RootDB)(TDistribution := map (\<lambda>x. if live x \<and>
      row_where as_distribution (\<lambda>d. struct_where (variant_ID v) (Distribution_VariantID d)) x
    then touch t (set_variant_key (Variant_Key v) x) else x) (rows db1 RootDB TDistribution))" by blast
  then have "rows db2 RootDB TDistribution = map (\<lambda>x. if live x \<and>
      row_where as_distribution (\<lambda>d. Distribution_VariantID d = uint_of_int64 variantID) x
    then touch t (set_variant_key k x) else x) (rows db RootDB TDistribution)"
    using v d1 assms(3) by (simp add: struct_where_def)
  moreover have "rows db' RootDB TDistribution = rows db2 RootDB TDistribution"
    by (simp add: after accept_snapshot_rows [OF assms(1)])
  ultimately show ?thesis using valid v2(2) by (auto simp: Variant_Validate_iff)
qed

end

section \<open>Properties\<close>

text \<open>C10: a variant is only deleted where no distribution that the flag loads gives it a percentage: after a
  successful deletion every loaded distribution of the variant had zero percent, and neither its row
  nor the variant's is live any more.\<close>

theorem DeleteVariant_unused:
  assumes "gorm_laws G rows open_txs" "ce_gorm env = G"
    and "outcome (DeleteVariant env flagID variantID db) = Inr (RespOK ())"
    and "First_Flag_preloaded G RootDB (uint_of_int64 flagID) db = Inr f"
    and "db' = db_after (DeleteVariant env flagID variantID db)"
  shows "(\<forall>s \<in> set (Flag_Segments f). \<forall>d \<in> set (Segment_Distributions s).
      Distribution_VariantID d = SafeUint (ce_cast env) (VInt64 variantID) \<longrightarrow>
      Distribution_Percent d = 0 \<and> dead (rows db' RootDB TDistribution) (distribution_ID d)) \<and>
    dead (rows db' RootDB TVariant) (uint_of_int64 variantID)"
  using gorm_laws.DeleteVariant_steps [OF assms] .

definition demo_zero :: "string mem_db" where
  "demo_zero = db_after (PutDistributions demo_crud_env 1 1
     \<lparr>PDR_Distributions = Some [demo_entry 1 ''on'' 100, demo_entry 2 ''off'' 0]\<rparr> demo_two)"

lemma demo_zero_deleted:
  "case outcome (DeleteVariant demo_crud_env 1 2 demo_zero) of Inr (RespOK _) \<Rightarrow> True | _ \<Rightarrow> False"
  "case First_Flag_preloaded mem_gorm RootDB (uint_of_int64 1) demo_zero of
     Inr f \<Rightarrow> (case Flag_Segments f of [s] \<Rightarrow> map (\<lambda>d. (Distribution_VariantID d, distribution_ID d)) (Segment_Distributions s) = [(1, 2), (2, 3)] | _ \<Rightarrow> False)
   | Inl _ \<Rightarrow> False"
  by code_simp+

theorem DeleteVariant_unused_witness:
  "dead (mem_rows (db_after (DeleteVariant demo_crud_env 1 2 demo_zero)) RootDB TVariant) 2 \<and>
   dead (mem_rows (db_after (DeleteVariant demo_crud_env 1 2 demo_zero)) RootDB TDistribution) 3"
proof -
  have ok: "outcome (DeleteVariant demo_crud_env 1 2 demo_zero) = Inr (RespOK ())"
    using demo_zero_deleted(1) by (auto split: sum.splits response.splits)
  obtain f s where f: "First_Flag_preloaded mem_gorm RootDB (uint_of_int64 1) demo_zero = Inr f" "Flag_Segments f = [s]"
    "map (\<lambda>d. (Distribution_VariantID d, distribution_ID d)) (Segment_Distributions s) = [(1, 2), (2, 3)]"
    using demo_zero_deleted(2) by (auto split: sum.splits list.splits)
  then obtain d0 d where "Segment_Distributions s = [d0, d]" "Distribution_VariantID d = 2" "distribution_ID d = 3"
    by (auto simp: map_eq_Cons_conv)
  then have d: "d \<in> set (Segment_Distributions s)" "Distribution_VariantID d = 2" "distribution_ID d = 3" by simp_all
  have "SafeUint go_cast (VInt64 2) = 2" by (simp add: SafeUint_def go_cast.ToUint_int64)
  with DeleteVariant_unused [OF mem.gorm_laws_axioms demo_crud_env_sel(1) ok f(1) refl] f(2) d show ?thesis
    by (auto simp: uint_of_int64_def)
qed

text \<open>The check is skipped where the flag's segments cannot be loaded: the handler drops that error, so any
  variant is deleted, whatever its percentages.\<close>

theorem DeleteVariant_unchecked:
  assumes "gorm_laws G rows open_txs" "ce_gorm env = G" "First_Flag G RootDB (uint_of_int64 flagID) db = Inr f0"
    and "First_Flag_preloaded G RootDB (uint_of_int64 flagID) db = Inl e"
    and "gorm_Delete G RootDB TVariant (\<lambda>r. row_ID r = uint_of_int64 variantID) db = (None, db1)" "ce_subject env = Inr u"
  shows "outcome (DeleteVariant env flagID variantID db) = Inr (RespOK ()) \<and>
    rows (db_after (DeleteVariant env flagID variantID db)) RootDB TDistribution = rows db RootDB TDistribution"
proof -
  note step = gorm_laws.DeleteVariant_unloaded [OF assms(1-4), of variantID, unfolded assms(5)]
  have "rows db1 RootDB TDistribution = rows db RootDB TDistribution"
    using gorm_laws.Delete_ok [OF assms(1,5)] by auto
  then show ?thesis
    using gorm_laws.accept_snapshot_rows [OF assms(1,2), of TDistribution "SafeUint (ce_cast env) (VInt64 flagID)" "()" db1]
    by (simp add: step db_exec_def) (simp add: accept_snapshot_def assms(6) split: prod.split)
qed

definition demo_lost :: "string mem_db" where
  "demo_lost = (db_after demo_put)\<lparr>mem_faults := [SFind TConstraint]\<rparr>"

lemma demo_lost_steps:
  "case First_Flag mem_gorm RootDB (uint_of_int64 1) demo_lost of Inr _ \<Rightarrow> True | Inl _ \<Rightarrow> False"
  "case First_Flag_preloaded mem_gorm RootDB (uint_of_int64 1) demo_lost of Inr _ \<Rightarrow> False | Inl _ \<Rightarrow> True"
  "case gorm_Delete mem_gorm RootDB TVariant (\<lambda>r. row_ID r = uint_of_int64 2) demo_lost of (None, _) \<Rightarrow> True | (Some _, _) \<Rightarrow> False"
  "map (\<lambda>d. (Distribution_VariantID d, Distribution_Percent d)) (dists_of (mem_rows demo_lost RootDB TDistribution) 1) = [(1, 40), (2, 60)]"
  by code_simp+

theorem DeleteVariant_unchecked_witness:
  "outcome (DeleteVariant demo_crud_env 1 2 demo_lost) = Inr (RespOK ()) \<and>
   map (\<lambda>d. (Distribution_VariantID d, Distribution_Percent d))
     (dists_of (mem_rows (db_after (DeleteVariant demo_crud_env 1 2 demo_lost)) RootDB TDistribution) 1) = [(1, 40), (2, 60)]"
proof -
  obtain f0 where f0: "First_Flag mem_gorm RootDB (uint_of_int64 1) demo_lost = Inr f0"
    using demo_lost_steps(1) by (auto split: sum.splits)
  obtain e where e: "First_Flag_preloaded mem_gorm RootDB (uint_of_int64 1) demo_lost = Inl e"
    using demo_lost_steps(2) by (auto split: sum.splits)
  obtain db1 where d: "gorm_Delete mem_gorm RootDB TVariant (\<lambda>r. row_ID r = uint_of_int64 2) demo_lost = (None, db1)"
    using demo_lost_steps(3) by (auto split: prod.splits option.splits)
  have u: "ce_subject demo_crud_env = Inr ''ann''" by (simp add: demo_crud_env_def)
  from DeleteVariant_unchecked [OF mem.gorm_laws_axioms demo_crud_env_sel(1) f0 e d u] demo_lost_steps(4) show ?thesis
    by simp
qed

text \<open>C11: a successful PutVariant for an id other than zero, which no request can bind, writes the key of the request into every live distribution that names the variant, in all
  segments; of these it changes nothing but the key and the time of the update, and every other row of the table,
  deleted ones included, stays as it was.\<close>

theorem PutVariant_renames:
  assumes "gorm_laws G rows open_txs" "ce_gorm env = G"
    and "outcome (PutVariant env flagID variantID body db) = Inr (RespOK p)" "uint_of_int64 variantID \<noteq> 0"
    and "k = SafeString (ce_cast env) (VPtrString (VR_Key body))"
    and "db' = db_after (PutVariant env flagID variantID body db)"
  shows "\<exists>t ds. rows db RootDB TDistribution = map RDistribution ds \<and>
    rows db' RootDB TDistribution = map (\<lambda>d. RDistribution (renamed (uint_of_int64 variantID) k t d)) ds"
proof -
  from gorm_laws.PutVariant_steps [OF assms] obtain t where k: "safe_key k"
    and r: "rows db' RootDB TDistribution = map (\<lambda>x. if live x \<and>
      row_where as_distribution (\<lambda>d. Distribution_VariantID d = uint_of_int64 variantID) x
    then touch t (set_variant_key k x) else x) (rows db RootDB TDistribution)" by blast
  have "\<forall>r \<in> set (rows db RootDB TDistribution). row_kind r = TDistribution"
    using gorm_laws.row_kinds [OF assms(1)] by blast
  moreover have "k \<noteq> []" using k by (auto simp: safe_key_def)
  ultimately show ?thesis unfolding r by (intro exI [of _ t] renamed_rows)
qed

definition demo_rename :: "(m_variant, string mem_db) reply" where
  "demo_rename = PutVariant demo_crud_env 1 2 \<lparr>VR_Attachment = VNil, VR_Key = Some ''control''\<rparr> (db_after demo_put)"

lemma demo_rename_ok: "case outcome demo_rename of Inr (RespOK _) \<Rightarrow> True | _ \<Rightarrow> False"
  "map (\<lambda>d. (Distribution_VariantID d, Distribution_Percent d, Distribution_VariantKey d))
     (dists_of (mem_rows (db_after demo_put) RootDB TDistribution) 1) = [(1, 40, ''on''), (2, 60, ''off'')]"
  by code_simp+

lemma map_eq_two:
  assumes "map f xs = [a, b]"
  obtains x y where "xs = [x, y]" "f x = a" "f y = b"
  using assms by (auto simp: map_eq_Cons_conv)

theorem PutVariant_renames_witness:
  "map Distribution_VariantKey (dists_of (mem_rows (db_after demo_rename) RootDB TDistribution) 1) = [''on'', ''control'']"
proof -
  obtain p where ok: "outcome (PutVariant demo_crud_env 1 2 \<lparr>VR_Attachment = VNil, VR_Key = Some ''control''\<rparr>
      (db_after demo_put)) = Inr (RespOK p)"
    using demo_rename_ok(1) by (auto simp: demo_rename_def split: sum.splits response.splits)
  have n: "uint_of_int64 2 \<noteq> 0" by (simp add: uint_of_int64_def)
  have two: "uint_of_int64 2 = 2" "SafeString go_cast (VPtrString (Some ''control'')) = ''control''"
    by (simp_all add: uint_of_int64_def SafeString_def go_cast.ToString_ptr)
  from PutVariant_renames [OF mem.gorm_laws_axioms demo_crud_env_sel(1) ok n refl refl]
  obtain t ds where ds: "mem_rows (db_after demo_put) RootDB TDistribution = map RDistribution ds"
    "mem_rows (db_after demo_rename) RootDB TDistribution = map (\<lambda>d. RDistribution (renamed 2 ''control'' t d)) ds"
    unfolding demo_rename_def by (auto simp: two)
  have live: "\<forall>d \<in> set (dists_of (map RDistribution ds :: string row list) 1). DeletedAt (Distribution_Model d) = None"
    by (induction ds) (auto simp: dists_of_Cons live_def)
  obtain d0 d1 where d: "dists_of (map RDistribution ds :: string row list) 1 = [d0, d1]"
    "(Distribution_VariantID d0, Distribution_Percent d0, Distribution_VariantKey d0) = (1, 40, ''on'')"
    "(Distribution_VariantID d1, Distribution_Percent d1, Distribution_VariantKey d1) = (2, 60, ''off'')"
    by (rule map_eq_two [OF demo_rename_ok(2) [unfolded ds(1)]]) (rule that)
  then show ?thesis using live unfolding ds(2) dists_of_renamed by (simp add: renamed_def)
qed

definition demo_orphans :: "string mem_db" where
  "demo_orphans = db_after (CreateFlag demo_crud_env (Some (demo_create\<lparr>CFR_Key := ''k2''\<rparr>))
     (db_after (PutDistributions demo_crud_env 1 2 \<lparr>PDR_Distributions = Some [demo_entry 1 ''on'' 100]\<rparr> demo_db)))"

text \<open>Distributions put on a segment that does not exist are accepted and wait for it: the next flag
  created from the template gets the segment with that id, with 200 percent in it.\<close>

theorem orphan_distributions:
  "sum_list (percents (dists_of (mem_rows demo_orphans RootDB TDistribution) 2)) = 200 \<and>
   map segment_ID (live_segments (mem_rows demo_orphans RootDB TSegment)) = [1, 2] \<and>
   2 \<notin> segment_ID ` set (live_segments (mem_rows demo_db RootDB TSegment))"
  by code_simp

text \<open>It is a database the server reaches: both calls bind like any other.\<close>

definition demo_orphan_http :: http_request where
  "demo_orphan_http = \<lparr>rq_path = (\<lambda>name. [dec_int (if name = ''flagID'' then 1 else 2)]), rq_query = (\<lambda>_. [])\<rparr>"

lemma demo_orphan_bound:
  "bind_call go_swag (PutDistributionsCall demo_orphan_http (Decoded \<lparr>PDR_Distributions = Some [demo_entry 1 ''on'' 100]\<rparr>)) =
    Inr (PutDistributionsRq \<lparr>PutDistributions_Body = Some \<lparr>PDR_Distributions = Some [demo_entry 1 ''on'' 100]\<rparr>,
      PutDistributions_FlagID = 1, PutDistributions_SegmentID = 2\<rparr>)"
  "bind_call go_swag (CreateFlagCall (Decoded (demo_create\<lparr>CFR_Key := ''k2''\<rparr>))) =
    Inr (CreateFlagRq \<lparr>CreateFlag_Body = Some (demo_create\<lparr>CFR_Key := ''k2''\<rparr>)\<rparr>)"
proof -
  have "PutDistributionsRequest_Validate \<lparr>PDR_Distributions = Some [demo_entry 1 ''on'' 100]\<rparr> = []"
    "PutDistributionsRequest_ContextValidate True \<lparr>PDR_Distributions = Some [demo_entry 1 ''on'' 100]\<rparr> = []"
    by code_simp+
  then show "bind_call go_swag (PutDistributionsCall demo_orphan_http (Decoded \<lparr>PDR_Distributions = Some [demo_entry 1 ''on'' 100]\<rparr>)) =
    Inr (PutDistributionsRq \<lparr>PutDistributions_Body = Some \<lparr>PDR_Distributions = Some [demo_entry 1 ''on'' 100]\<rparr>,
      PutDistributions_FlagID = 1, PutDistributions_SegmentID = 2\<rparr>)"
    by (simp add: PutDistributionsParams_BindRequest_def bind_path_id_def bind_body_def demo_orphan_http_def last_raw_def
        go_swag_def ParseInt_dec_int validate_MinimumInt_def bound_def bind_done_def)
qed (simp add: CreateFlagParams_BindRequest_def bind_body_def demo_create_def
    CreateFlagRequest_Validate_def required_string_def validate_MinLength_def check_all_def)

lemma demo_orphans_reachable: "crud_reachable mem_gorm text_cond mem_rows demo_orphans"
proof -
  let ?put = "PutDistributionsRq \<lparr>PutDistributions_Body = Some \<lparr>PDR_Distributions = Some [demo_entry 1 ''on'' 100]\<rparr>,
      PutDistributions_FlagID = 1, PutDistributions_SegmentID = 2\<rparr>"
  have "crud_reachable mem_gorm text_cond mem_rows (snd (serve demo_crud_env ?put demo_db))"
    by (rule crud_run.request [OF demo_db_reachable demo_crud_env_sel(1,3) _ demo_orphan_bound(1)])
      (simp_all add: go_cast.cast_laws_axioms body_distributions_def)
  from crud_run.request [OF this demo_crud_env_sel(1,3) _ demo_orphan_bound(2)] show ?thesis
    by (simp add: go_cast.cast_laws_axioms demo_orphans_def with_body_def)
qed

end
