(* ===== verification/Flagr_Contracts.thy ===== *)
theory Flagr_Contracts
  imports Flagr_Variants Flagr_Creation
begin

text \<open>
  The contract of the API with its clients: what is printed into a path or answered in a body comes
  back as the same value, and which answers meet the schema of the generated models.
\<close>

section \<open>Answers and their schema\<close>

lemma m_distribution_Validate_ok:
  assumes "valid_distribution m" "MD_ID m = 0"
  shows "m_distribution_Validate m = []"
  using assms by (auto simp: m_distribution_Validate_def valid_distribution_def check_all_def optional_id_def
      required_percent_def required_min_def required_string_def validate_MinimumInt_def validate_MaximumInt_def
      validate_MinLength_def word_sless_alt)

lemma PutDistributions_payload:
  assumes "outcome (PutDistributions env f s b db) = Inr (RespOK payload)"
  obtains es where "r2e_MapDistributions (ce_cast env) (body_distributions b) (uint_of_int64 s) = Inr es"
    "payload = MapDistributions es"
  using assms
  by (auto simp: PutDistributions_def Let_def db_exec_def reject_def panicked_def accept_snapshot_def
      split: sum.splits option.splits prod.splits)

lemma mapped_valid:
  assumes "cast_laws C" "r2e_MapDistributions C ds s = Inr es" "\<forall>m. Some m \<in> set ds \<longrightarrow> valid_distribution m"
    and "e \<in> set es"
  shows "valid_distribution (MapDistribution e) \<and> MD_ID (MapDistribution e) = 0"
proof -
  obtain d where d: "d \<in> set ds" "r2e_MapDistribution C d s = Inr e"
    using assms(2) sum_mapM_source [of _ ds es e] assms(4) by (auto simp: r2e_MapDistributions_def)
  have "d \<noteq> None" using d(2) by (cases d) (simp_all add: r2e_MapDistribution_def)
  then obtain m where m: "d = Some m" by blast
  with d assms(3) obtain p v k where f: "MD_Percent m = Some p" "0 \<le> sint p" "sint p \<le> 100" "MD_VariantID m = Some v"
    "1 \<le> sint v" "MD_VariantKey m = Some k" "k \<noteq> []" by (auto simp: valid_distribution_def)
  then have e: "e = zero_distribution\<lparr>Distribution_SegmentID := s, Distribution_VariantID := uint_of_int64 v,
      Distribution_VariantKey := k, Distribution_Percent := uint_of_int64 p\<rparr>"
    using d(2) m r2e_MapDistribution_Inr [of m v p C s]
    by (simp add: SafeString_def cast_laws.ToString_ptr [OF assms(1)])
  show ?thesis using f
    by (simp add: e MapDistribution_def valid_distribution_def int64_of_uint_def uint_of_int64_def zero_distribution_def
        zero_model_def)
qed

section \<open>Properties\<close>

text \<open>The answer to a replacement of distributions meets the schema: every entry passes the validation of
  the generated model. None of them carries the id of its row, which is created from a copy.\<close>

theorem PutDistributions_response_valid:
  assumes "cast_laws (ce_cast env)" "PutDistributionsRequest_Validate b = []"
    and "outcome (PutDistributions env f s b db) = Inr (RespOK payload)"
  shows "\<forall>d \<in> set payload. \<exists>m. d = Some m \<and> m_distribution_Validate m = [] \<and> MD_ID m = 0"
proof (rule PutDistributions_payload [OF assms(3)])
  fix es
  assume es: "r2e_MapDistributions (ce_cast env) (body_distributions b) (uint_of_int64 s) = Inr es"
    and p: "payload = MapDistributions es"
  from mapped_valid [OF assms(1) es body_valid [OF assms(2)]] m_distribution_Validate_ok show ?thesis
    by (auto simp: p MapDistributions_def)
qed

theorem PutDistributions_response_valid_witness:
  "\<exists>payload. outcome demo_put = Inr (RespOK payload) \<and> length payload = 2 \<and>
     list_all (\<lambda>d. \<exists>m. d = Some m \<and> m_distribution_Validate m = []) payload"
proof -
  obtain payload where ok: "outcome (PutDistributions demo_crud_env 1 1 demo_split demo_two) = Inr (RespOK payload)"
    and l: "length payload = 2"
    using demo_put_ok(1) by (auto simp: demo_put_def split: sum.splits response.splits)
  have c: "cast_laws (ce_cast demo_crud_env)" by (simp add: go_cast.cast_laws_axioms)
  have v: "PutDistributionsRequest_Validate demo_split = []" by code_simp
  from PutDistributions_response_valid [OF c v ok] show ?thesis
    using ok l by (auto simp: demo_put_def list_all_iff)
qed

text \<open>The segment of the template does not meet the schema of the API: it has no description, which the
  generated model of a segment requires, so a client that validates answers refuses it.\<close>

theorem template_segment_invalid:
  assumes "gorm_laws G rows open_txs" "ce_gorm env = G" "CFR_Template b = ''simple_boolean_flag''"
    and "outcome (CreateFlag env (Some b) db) = Inr (RespOK p)" "db' = db_after (CreateFlag env (Some b) db)"
  shows "\<exists>s. rows db' RootDB TSegment = rows db RootDB TSegment @ [RSegment s] \<and>
    FieldTooShort ''description'' \<in> set (m_segment_Validate (MapSegment s))"
proof -
  have invalid: "FieldTooShort ''description'' \<in> set (m_segment_Validate (MapSegment s))"
    if "Segment_Description s = []" for s :: "'a segment"
    using that by (simp add: m_segment_Validate_def MapSegment_def check_all_def required_string_def validate_MinLength_def
        split: option.split)
  show ?thesis by (rule gorm_laws.CreateFlag_template_ok [OF assms(1-5)]) (use invalid in blast)
qed

theorem template_segment_invalid_witness:
  "\<exists>s. mem_rows (db_after (CreateFlag demo_crud_env (Some demo_create) mem_empty)) RootDB TSegment = [RSegment s] \<and>
     m_segment_Validate (MapSegment s) \<noteq> []"
proof -
  obtain p where ok: "outcome (CreateFlag demo_crud_env (Some demo_create) mem_empty) = Inr (RespOK p)"
    using demo_create_ok by (auto split: sum.splits response.splits)
  have t: "CFR_Template demo_create = ''simple_boolean_flag''" by (simp add: demo_create_def)
  have "mem_rows (mem_empty :: string mem_db) RootDB TSegment = []" by (simp add: mem_empty_def mem_rows_def)
  with template_segment_invalid [OF mem.gorm_laws_axioms demo_crud_env_sel(1) t ok refl] show ?thesis
    by (metis append_Nil empty_iff list.set(1))
qed

text \<open>Distributions that go out and come back in for their segment are the same distributions, apart from
  their row ids: the variants, the keys and the percentages survive the trip.\<close>

theorem distributions_survive:
  assumes "cast_laws C" "\<forall>d \<in> set ds. Distribution_SegmentID d = s"
  shows "r2e_MapDistributions C (MapDistributions ds) s =
    Inr (map (\<lambda>d. d\<lparr>Distribution_Model := zero_model, Distribution_Bitmap := []\<rparr>) ds)"
  by (rule cast_laws.distributions_round_trip [OF assms])

theorem distributions_survive_witness:
  "r2e_MapDistributions go_cast (MapDistributions [zero_distribution\<lparr>Distribution_SegmentID := 3, Distribution_Percent := 100\<rparr>]) 3 =
    Inr [zero_distribution\<lparr>Distribution_SegmentID := 3, Distribution_Percent := 100\<rparr>]"
  using distributions_survive [OF go_cast.cast_laws_axioms,
      of "[zero_distribution\<lparr>Distribution_SegmentID := 3, Distribution_Percent := 100\<rparr>]" 3]
  by (simp add: zero_distribution_def)

text \<open>An id that the server answers and a client puts into a path is bound to the same row id again; the
  binding accepts it exactly when it is not zero and below 2 to the 63.\<close>

theorem path_id_round_trip:
  assumes "rq_path r name = [dec_int (int64_of_uint i)]"
  shows "(fst (bind_path_id go_swag r name) = [] \<longleftrightarrow> i \<noteq> 0 \<and> unat i < 2 ^ 63) \<and>
    uint_of_int64 (snd (bind_path_id go_swag r name)) = i"
proof -
  have small: "1 \<le> sint (int64_of_uint i) \<longleftrightarrow> i \<noteq> 0 \<and> unat i < 2 ^ 63"
  proof (cases "unat i < 2 ^ 63")
    case True
    then have "sint i = int (unat i)" using sint_eq_unat_small [of i] by simp
    then have "1 \<le> sint i \<longleftrightarrow> unat i \<noteq> 0" by linarith
    then show ?thesis using True by (simp add: int64_of_uint_def unat_eq_zero)
  next
    case False
    have "sint i < 0"
    proof (rule ccontr)
      assume "\<not> sint i < 0"
      then have "unat i = nat (sint i)" using unat_of_percent [of i] by (simp add: uint_of_int64_def)
      then show False using False sint_lt [of i] by simp
    qed
    then show ?thesis using False by (simp add: int64_of_uint_def)
  qed
  show ?thesis
    using small by (auto simp: bind_path_id_def assms last_raw_def go_swag_def ParseInt_dec_int validate_MinimumInt_def
        uint_of_int64_def int64_of_uint_def split: option.split)
qed

theorem path_id_round_trip_witness:
  "fst (bind_path_id go_swag \<lparr>rq_path = (\<lambda>_. [dec_int (int64_of_uint 7)]), rq_query = (\<lambda>_. [])\<rparr> ''flagID'') = [] \<and>
   uint_of_int64 (snd (bind_path_id go_swag \<lparr>rq_path = (\<lambda>_. [dec_int (int64_of_uint 7)]), rq_query = (\<lambda>_. [])\<rparr> ''flagID'')) = 7"
  using path_id_round_trip [of "\<lparr>rq_path = (\<lambda>_. [dec_int (int64_of_uint 7)]), rq_query = (\<lambda>_. [])\<rparr>" "''flagID''" 7] by simp

end
