(* ===== verification/Flagr_Auth.thy ===== *)
theory Flagr_Auth
  imports Flagr_Config
begin

text \<open>
  \<^verbatim>\<open>pkg/config/middleware.go\<close> and \<^verbatim>\<open>pkg/handler/subject.go\<close>: the middlewares in front
  of the API, in their order, the two authentications with their lists of open paths, and the
  subject of a request. The middlewares of libraries, the check of a token and its parsing are
  parameters.
\<close>

section \<open>Requests and answers\<close>

text \<open>A request as the middlewares read it; the basic credentials are those of the standard library's parser.\<close>

record jwt_token =
  Token_Valid :: bool
  Token_Claims :: "(string \<times> goval) list option"

record web_request =
  wr_Path :: string
  wr_EscapedPath :: string
  wr_RequestURI :: string
  wr_Method :: string
  wr_Header :: "string \<Rightarrow> string"
  wr_Cookie :: "string \<Rightarrow> string option"
  wr_BasicAuth :: "(string \<times> string) option"
  wr_Context :: "string \<Rightarrow> jwt_token option"

datatype 'w web_answer =
    HttpError nat string "(string \<times> string) list"
  | Redirect string nat
  | Served nat 'w

fun answer_status :: "'w web_answer \<Rightarrow> nat" where
  "answer_status (HttpError code _ _) = code"
| "answer_status (Redirect _ code) = code"
| "answer_status (Served code _) = code"

text \<open>What a request adds to the metrics, besides its answer.\<close>

datatype metric =
    StatsdCount "string list"
  | StatsdDuration "string list"
  | RequestCount string string string
  | RequestLatency string string string

type_synonym 'w exchange = "'w web_answer \<times> metric list"
type_synonym 'w web_handler = "web_request \<Rightarrow> 'w exchange"
type_synonym 'w middleware = "web_request \<Rightarrow> 'w web_handler \<Rightarrow> 'w exchange"

section \<open>Tokens\<close>

datatype signing_method = HS256 | HS512 | RS256

record 'w web_lib =
  jwt_ParseRSAPublicKeyFromPEM :: "string \<Rightarrow> string err"
  jwt_FromAuthHeader :: "web_request \<Rightarrow> string err"
  jwt_FromFirst :: "(web_request \<Rightarrow> string err) list \<Rightarrow> web_request \<Rightarrow> string err"
  jwt_CheckJWT :: "signing_method \<Rightarrow> string err \<Rightarrow> (web_request \<Rightarrow> string err) \<Rightarrow> string \<Rightarrow> web_request \<Rightarrow> web_request err"
  jwt_Parse :: "string \<Rightarrow> jwt_token option"
  web_Gzip :: "'w middleware"
  web_VerboseLogger :: "string list \<Rightarrow> 'w middleware"
  web_NewRelic :: "'w middleware"
  web_Cors :: "cors_config \<Rightarrow> 'w middleware"
  web_Static :: "string \<Rightarrow> 'w middleware"
  web_Recovery :: "'w middleware"
  web_StripPrefix :: "string \<Rightarrow> 'w web_handler \<Rightarrow> 'w web_handler"
  web_PProf :: "'w web_handler \<Rightarrow> 'w web_handler"
  web_Metrics :: "'w web_handler"

record jwt_auth =
  ja_PrefixWhitelistPaths :: "string list"
  ja_ExactWhitelistPaths :: "string list"
  ja_SigningMethod :: signing_method
  ja_ValidationKey :: "string err"
  ja_Extractor :: "web_request \<Rightarrow> string err"
  ja_UserProperty :: string

text \<open>The token of the cookie; a request without it has the empty one.\<close>

definition cookie_token :: "jwt_config \<Rightarrow> web_request \<Rightarrow> string err" where
  "cookie_token cfg req =
     (case wr_Cookie req (JWTAuthCookieTokenName cfg) of None \<Rightarrow> Inr [] | Some c \<Rightarrow> Inr c)"

definition setupJWTAuthMiddleware :: "'w web_lib \<Rightarrow> jwt_config \<Rightarrow> jwt_auth" where
  "setupJWTAuthMiddleware W cfg =
     (let (signingMethod, key) =
        (if JWTAuthSigningMethod cfg = ''HS256'' then (HS256, Inr (JWTAuthSecret cfg))
         else if JWTAuthSigningMethod cfg = ''HS512'' then (HS512, Inr (JWTAuthSecret cfg))
         else if JWTAuthSigningMethod cfg = ''RS256'' then
           (RS256, jwt_ParseRSAPublicKeyFromPEM W (JWTAuthSecret cfg))
         else (HS256, Inr []))
      in \<lparr>ja_PrefixWhitelistPaths = JWTAuthPrefixWhitelistPaths cfg,
          ja_ExactWhitelistPaths = JWTAuthExactWhitelistPaths cfg,
          ja_SigningMethod = signingMethod, ja_ValidationKey = key,
          ja_Extractor = jwt_FromFirst W [cookie_token cfg, jwt_FromAuthHeader W],
          ja_UserProperty = JWTAuthUserProperty cfg\<rparr>)"

definition jwtErrorHandler :: "jwt_config \<Rightarrow> 'w web_answer" where
  "jwtErrorHandler cfg =
     (if JWTAuthNoTokenStatusCode cfg = 307 then Redirect (JWTAuthNoTokenRedirectURL cfg) 307
      else HttpError 401 ''Not authorized'' [(''WWW-Authenticate'',
        ''Bearer realm='' @ [CHR 0x22] @ JWTAuthNoTokenRedirectURL cfg @ [CHR 0x22])])"

definition prefix_listed :: "string list \<Rightarrow> string \<Rightarrow> bool" where
  "prefix_listed ps path = list_ex (\<lambda>p. p \<noteq> [] \<and> HasSafePrefix path p) ps"

definition jwtAuth_whitelist :: "jwt_config \<Rightarrow> jwt_auth \<Rightarrow> web_request \<Rightarrow> bool" where
  "jwtAuth_whitelist cfg a req =
     ((JWTAuthNoTokenStatusCode cfg = 401 \<and> List.member (ja_ExactWhitelistPaths a) (wr_Path req)) \<or>
      prefix_listed (ja_PrefixWhitelistPaths a) (wr_Path req))"

text \<open>
  The library extracts the token, checks it and puts it into the context of the request, or calls
  the error handler.
\<close>

definition jwtAuth_ServeHTTP :: "'w web_lib \<Rightarrow> jwt_config \<Rightarrow> jwt_auth \<Rightarrow> 'w middleware" where
  "jwtAuth_ServeHTTP W cfg a req next_handler =
     (if jwtAuth_whitelist cfg a req then next_handler req
      else case jwt_CheckJWT W (ja_SigningMethod a) (ja_ValidationKey a) (ja_Extractor a) (ja_UserProperty a) req of
        Inl _ \<Rightarrow> (jwtErrorHandler cfg, [])
      | Inr req' \<Rightarrow> next_handler req')"

section \<open>Basic authentication\<close>

record basic_auth =
  ba_Username :: string
  ba_Password :: string
  ba_PrefixWhitelistPaths :: "string list"
  ba_ExactWhitelistPaths :: "string list"

definition setupBasicAuthMiddleware :: "config \<Rightarrow> basic_auth" where
  "setupBasicAuthMiddleware cfg =
     \<lparr>ba_Username = BasicAuthUsername (the_basic cfg), ba_Password = BasicAuthPassword (the_basic cfg),
      ba_PrefixWhitelistPaths = BasicAuthPrefixWhitelistPaths (the_basic cfg),
      ba_ExactWhitelistPaths = BasicAuthExactWhitelistPaths (the_web cfg)\<rparr>"

definition basicAuth_whitelist :: "basic_auth \<Rightarrow> web_request \<Rightarrow> bool" where
  "basicAuth_whitelist a req =
     (List.member (ba_ExactWhitelistPaths a) (wr_Path req) \<or> prefix_listed (ba_PrefixWhitelistPaths a) (wr_Path req))"

definition basicAuth_ServeHTTP :: "basic_auth \<Rightarrow> 'w middleware" where
  "basicAuth_ServeHTTP a req next_handler =
     (if basicAuth_whitelist a req then next_handler req
      else case wr_BasicAuth req of
        None \<Rightarrow> (HttpError 401 ''Not authorized'' [(''WWW-Authenticate'',
          ''Basic realm='' @ [CHR 0x22] @ ''you shall not pass'' @ [CHR 0x22])], [])
      | Some (username, password) \<Rightarrow>
          if ba_Username a \<noteq> username \<or> ba_Password a \<noteq> password
          then (HttpError 401 ''Not authorized'' [(''WWW-Authenticate'',
            ''Basic realm='' @ [CHR 0x22] @ ''you shall not pass'' @ [CHR 0x22])], [])
          else next_handler req)"

section \<open>Metrics\<close>

text \<open>The durations are not kept.\<close>

definition statsdMiddleware_ServeHTTP :: "'w middleware" where
  "statsdMiddleware_ServeHTTP req next_handler =
     (case next_handler req of (answer, ms) \<Rightarrow>
        let tags = [''status:'' @ dec (answer_status answer), ''path:'' @ wr_RequestURI req,
              ''method:'' @ wr_Method req]
        in (answer, ms @ [StatsdCount tags, StatsdDuration tags]))"

definition prometheusMiddleware_ServeHTTP :: "'w web_lib \<Rightarrow> prometheusMetrics \<Rightarrow> 'w middleware" where
  "prometheusMiddleware_ServeHTTP W p req next_handler =
     (if wr_EscapedPath req = ScrapePath p then web_Metrics W req
      else case next_handler req of (answer, ms) \<Rightarrow>
        let status = dec (answer_status answer)
        in (answer, ms @ RequestCount status (wr_RequestURI req) (wr_Method req) #
             (if RequestHistogram p then [RequestLatency status (wr_RequestURI req) (wr_Method req)] else [])))"

section \<open>The chain\<close>

definition use :: "bool \<Rightarrow> 'w middleware \<Rightarrow> 'w middleware list" where
  "use enabled m = (if enabled then [m] else [])"

definition global_middlewares :: "'w web_lib \<Rightarrow> config \<Rightarrow> 'w middleware list" where
  "global_middlewares W cfg =
     use (MiddlewareGzipEnabled (the_server cfg)) (web_Gzip W) @
     use (MiddlewareVerboseLoggerEnabled (the_server cfg))
       (web_VerboseLogger W (MiddlewareVerboseLoggerExcludeURLs (the_server cfg))) @
     use (StatsdEnabled (the_monitor cfg)) statsdMiddleware_ServeHTTP @
     use (PrometheusEnabled (the_monitor cfg)) (prometheusMiddleware_ServeHTTP W (setupPrometheus cfg)) @
     use (NewRelicEnabled (the_monitor cfg)) (web_NewRelic W) @
     use (CORSEnabled (the_cors cfg)) (web_Cors W (the_cors cfg)) @
     use (JWTAuthEnabled (the_jwt cfg))
       (jwtAuth_ServeHTTP W (the_jwt cfg) (setupJWTAuthMiddleware W (the_jwt cfg))) @
     use (BasicAuthEnabled (the_basic cfg)) (basicAuth_ServeHTTP (setupBasicAuthMiddleware cfg)) @
     [web_Static W (WebPrefix (the_web cfg)), web_Recovery W]"

definition SetupGlobalMiddleware :: "'w web_lib \<Rightarrow> config \<Rightarrow> 'w web_handler \<Rightarrow> 'w web_handler" where
  "SetupGlobalMiddleware W cfg handler =
     (let handler' = (if WebPrefix (the_web cfg) \<noteq> [] then web_StripPrefix W (WebPrefix (the_web cfg)) handler
            else handler);
          handler'' = (if PProfEnabled (the_server cfg) then web_PProf W handler' else handler')
      in foldr (\<lambda>m next_handler req. m req next_handler) (global_middlewares W cfg) handler'')"

section \<open>The subject of a request\<close>

text \<open>
  A token whose parsing gave none is dereferenced. A claim that is missing is the nil interface.
\<close>

definition claim_text :: "cast_lib \<Rightarrow> (string \<times> goval) list \<Rightarrow> string \<Rightarrow> string" where
  "claim_text C claims k = SafeString C (case map_of claims k of None \<Rightarrow> VNil | Some v \<Rightarrow> v)"

definition getSubjectFromRequest ::
  "cast_lib \<Rightarrow> 'w web_lib \<Rightarrow> config \<Rightarrow> web_request option \<Rightarrow> string go" where
  "getSubjectFromRequest C W cfg r =
     (case r of
        None \<Rightarrow> Inr []
      | Some req \<Rightarrow>
          if JWTAuthEnabled (the_jwt cfg) then
            (case wr_Context req (JWTAuthUserProperty (the_jwt cfg)) of
               None \<Rightarrow> Inr []
             | Some token \<Rightarrow>
                 (case Token_Claims token of
                    Some claims \<Rightarrow>
                      if Token_Valid token then Inr (claim_text C claims (JWTAuthUserClaim (the_jwt cfg)))
                      else Inr []
                  | None \<Rightarrow> Inr []))
          else if HeaderAuthEnabled (the_user cfg) then Inr (wr_Header req (HeaderAuthUserField (the_user cfg)))
          else if CookieAuthEnabled (the_user cfg) then
            (case wr_Cookie req (CookieAuthUserField (the_user cfg)) of
               None \<Rightarrow> Inr []
             | Some c \<Rightarrow>
                 if CookieAuthUserFieldJWTClaim (the_basic cfg) \<noteq> [] then
                   (case jwt_Parse W c of
                      None \<Rightarrow> Inl NilDeref
                    | Some token \<Rightarrow>
                        (case Token_Claims token of
                           Some claims \<Rightarrow> Inr (claim_text C claims (CookieAuthUserFieldJWTClaim (the_basic cfg)))
                         | None \<Rightarrow> Inr c))
                 else Inr c)
          else Inr [])"

section \<open>What the middlewares of the libraries promise\<close>

text \<open>
  A middleware may answer on its own or hand the request on, once or not at all, with its path and
  its credentials; what the handler behind it does elsewhere cannot matter.
\<close>

definition same_credentials :: "web_request \<Rightarrow> web_request \<Rightarrow> bool" where
  "same_credentials req r \<longleftrightarrow> wr_Path r = wr_Path req \<and> wr_BasicAuth r = wr_BasicAuth req"

definition neutral :: "'w middleware \<Rightarrow> bool" where
  "neutral m \<longleftrightarrow> (\<forall>req n1 n2. (\<forall>r. same_credentials req r \<longrightarrow> n1 r = n2 r) \<longrightarrow> m req n1 = m req n2)"

locale web_laws =
  fixes W :: "'w web_lib"
  assumes neutral_Gzip: "neutral (web_Gzip W)"
    and neutral_VerboseLogger: "neutral (web_VerboseLogger W urls)"
    and neutral_NewRelic: "neutral (web_NewRelic W)"
    and neutral_Cors: "neutral (web_Cors W cors)"
    and CheckJWT_ok: "jwt_CheckJWT W sm key ex prop req = Inr req' \<Longrightarrow> same_credentials req req'"
begin

lemma same_credentials_refl [simp]: "same_credentials req req"
  by (simp add: same_credentials_def)

lemma same_credentials_trans: "same_credentials a b \<Longrightarrow> same_credentials b c \<Longrightarrow> same_credentials a c"
  by (simp add: same_credentials_def)

lemma neutral_statsd: "neutral statsdMiddleware_ServeHTTP"
  by (simp add: neutral_def statsdMiddleware_ServeHTTP_def)

lemma neutral_prometheus: "neutral (prometheusMiddleware_ServeHTTP W p)"
  by (simp add: neutral_def prometheusMiddleware_ServeHTTP_def)

lemma neutral_jwt: "neutral (jwtAuth_ServeHTTP W cfg a)"
  unfolding neutral_def jwtAuth_ServeHTTP_def using CheckJWT_ok by (auto split: sum.split)

lemmas neutral_middlewares = neutral_Gzip neutral_VerboseLogger neutral_NewRelic neutral_Cors neutral_statsd
  neutral_prometheus neutral_jwt

lemma neutral_chain:
  assumes "\<forall>m \<in> set ms. neutral m" "\<And>r. same_credentials req r \<Longrightarrow> n1 r = n2 r"
  shows "foldr (\<lambda>m next_handler req. m req next_handler) ms n1 req =
    foldr (\<lambda>m next_handler req. m req next_handler) ms n2 req"
  using assms
proof (induction ms arbitrary: req)
  case (Cons m ms)
  have "foldr (\<lambda>m next_handler req. m req next_handler) ms n1 r = foldr (\<lambda>m next_handler req. m req next_handler) ms n2 r"
    if "same_credentials req r" for r
    using Cons.IH [of r] Cons.prems same_credentials_trans [OF that] by simp
  then show ?case using Cons.prems(1) by (simp add: neutral_def)
qed simp

text \<open>The chain up to the basic authentication, and what comes behind it.\<close>

lemma basic_auth_blocks:
  assumes "BasicAuthEnabled (the_basic cfg)"
    and "\<not> basicAuth_whitelist (setupBasicAuthMiddleware cfg) req"
    and "wr_BasicAuth req \<noteq> Some (BasicAuthUsername (the_basic cfg), BasicAuthPassword (the_basic cfg))"
  shows "SetupGlobalMiddleware W cfg h1 req = SetupGlobalMiddleware W cfg h2 req"
proof -
  let ?run = "foldr (\<lambda>m next_handler req. m req next_handler)"
  obtain pre post where ms: "global_middlewares W cfg = pre @ basicAuth_ServeHTTP (setupBasicAuthMiddleware cfg) # post"
    and pre: "\<forall>m \<in> set pre. neutral m"
  proof
    show "global_middlewares W cfg = (use (MiddlewareGzipEnabled (the_server cfg)) (web_Gzip W) @
      use (MiddlewareVerboseLoggerEnabled (the_server cfg))
        (web_VerboseLogger W (MiddlewareVerboseLoggerExcludeURLs (the_server cfg))) @
      use (StatsdEnabled (the_monitor cfg)) statsdMiddleware_ServeHTTP @
      use (PrometheusEnabled (the_monitor cfg)) (prometheusMiddleware_ServeHTTP W (setupPrometheus cfg)) @
      use (NewRelicEnabled (the_monitor cfg)) (web_NewRelic W) @
      use (CORSEnabled (the_cors cfg)) (web_Cors W (the_cors cfg)) @
      use (JWTAuthEnabled (the_jwt cfg))
        (jwtAuth_ServeHTTP W (the_jwt cfg) (setupJWTAuthMiddleware W (the_jwt cfg)))) @
      basicAuth_ServeHTTP (setupBasicAuthMiddleware cfg) # [web_Static W (WebPrefix (the_web cfg)), web_Recovery W]"
      by (simp add: global_middlewares_def use_def assms(1))
  qed (auto simp: use_def neutral_middlewares)
  have gate: "basicAuth_ServeHTTP (setupBasicAuthMiddleware cfg) r n1 = basicAuth_ServeHTTP (setupBasicAuthMiddleware cfg) r n2"
    if "same_credentials req r" for r and n1 n2 :: "'w web_handler"
    using that assms(2,3)
    by (auto simp: basicAuth_ServeHTTP_def basicAuth_whitelist_def same_credentials_def setupBasicAuthMiddleware_def
        split: option.split)
  show ?thesis
    unfolding SetupGlobalMiddleware_def Let_def ms
    by (simp only: foldr_append, rule neutral_chain [OF pre]) (simp add: gate)
qed

end

section \<open>A library that hands every request on\<close>

definition plain_web_lib :: "unit web_lib" where
  "plain_web_lib =
     \<lparr>jwt_ParseRSAPublicKeyFromPEM = (\<lambda>_. Inl ''not a key''), jwt_FromAuthHeader = (\<lambda>_. Inr []),
      jwt_FromFirst = (\<lambda>es req. case es of [] \<Rightarrow> Inr [] | e # _ \<Rightarrow> e req),
      jwt_CheckJWT = (\<lambda>_ _ _ _ req. Inr req),
      jwt_Parse = (\<lambda>s. if length (filter (\<lambda>c. c = CHR ''.'') s) = 2
        then Some \<lparr>Token_Valid = False, Token_Claims = Some [(''email'', VString ''ann'')]\<rparr> else None),
      web_Gzip = (\<lambda>req next_handler. next_handler req), web_VerboseLogger = (\<lambda>_ req next_handler. next_handler req),
      web_NewRelic = (\<lambda>req next_handler. next_handler req), web_Cors = (\<lambda>_ req next_handler. next_handler req),
      web_Static = (\<lambda>_ req next_handler. next_handler req), web_Recovery = (\<lambda>req next_handler. next_handler req),
      web_StripPrefix = (\<lambda>_ h. h), web_PProf = (\<lambda>h. h), web_Metrics = (\<lambda>_. (Served 200 (), []))\<rparr>"

interpretation plain_web: web_laws plain_web_lib
  by unfold_locales (auto simp: plain_web_lib_def neutral_def same_credentials_def)

definition demo_web_request :: web_request where
  "demo_web_request = \<lparr>wr_Path = ''/static/app.js'', wr_EscapedPath = ''/static/app.js'', wr_RequestURI = ''/static/app.js'',
     wr_Method = ''GET'', wr_Header = (\<lambda>_. []), wr_Cookie = (\<lambda>_. Some ''abc''), wr_BasicAuth = Some (''ann'', ''secret''),
     wr_Context = (\<lambda>_. None)\<rparr>"

definition demo_web_config :: config where
  "demo_web_config = default_config\<lparr>the_basic := (default_basic_config\<lparr>BasicAuthEnabled := True,
     BasicAuthUsername := ''admin'', BasicAuthPassword := ''pw''\<rparr>),
     the_user := (default_user_config\<lparr>CookieAuthEnabled := True\<rparr>)\<rparr>"

section \<open>Properties\<close>

text \<open>C36: basic authentication protects what lies behind it: for a request that no list opens and whose
  credentials are not the configured ones, the whole chain answers the same whatever the handler
  would do, so that the handler is never reached.\<close>

theorem protected_handler_unreachable:
  assumes "web_laws W" "BasicAuthEnabled (the_basic cfg)"
    and "\<not> basicAuth_whitelist (setupBasicAuthMiddleware cfg) req"
    and "wr_BasicAuth req \<noteq> Some (BasicAuthUsername (the_basic cfg), BasicAuthPassword (the_basic cfg))"
  shows "SetupGlobalMiddleware W cfg h1 req = SetupGlobalMiddleware W cfg h2 req"
  by (rule web_laws.basic_auth_blocks [OF assms])

theorem protected_handler_unreachable_witness:
  "SetupGlobalMiddleware plain_web_lib demo_web_config (\<lambda>_. (Served 200 (), [])) demo_web_request =
   SetupGlobalMiddleware plain_web_lib demo_web_config (\<lambda>_. (HttpError 500 ''down'' [], [])) demo_web_request"
proof (rule protected_handler_unreachable [OF plain_web.web_laws_axioms])
  show "BasicAuthEnabled (the_basic demo_web_config)" by code_simp
  show "\<not> basicAuth_whitelist (setupBasicAuthMiddleware demo_web_config) demo_web_request" by code_simp
  show "wr_BasicAuth demo_web_request \<noteq>
    Some (BasicAuthUsername (the_basic demo_web_config), BasicAuthPassword (the_basic demo_web_config))" by code_simp
qed

text \<open>Reading the subject of a request panics exactly where the cookie is the identity, a claim of it is
  asked for, no other way of identification takes precedence, and the cookie is not even the shape
  of a token.\<close>

theorem subject_panics_iff:
  "(\<exists>p. getSubjectFromRequest C W cfg r = Inl p) \<longleftrightarrow>
    \<not> JWTAuthEnabled (the_jwt cfg) \<and> \<not> HeaderAuthEnabled (the_user cfg) \<and> CookieAuthEnabled (the_user cfg) \<and>
    CookieAuthUserFieldJWTClaim (the_basic cfg) \<noteq> [] \<and>
    (\<exists>req c. r = Some req \<and> wr_Cookie req (CookieAuthUserField (the_user cfg)) = Some c \<and> jwt_Parse W c = None)"
  by (auto simp: getSubjectFromRequest_def split: option.splits)

text \<open>A signing method that the code does not know leaves the configured secret unused: the middleware behaves
  as one that checks HS256 signatures under the empty key, so that anybody can sign a token.\<close>

theorem unknown_signing_method:
  assumes "JWTAuthSigningMethod cfg \<notin> {''HS256'', ''HS512'', ''RS256''}"
  shows "jwtAuth_ServeHTTP W cfg (setupJWTAuthMiddleware W cfg) req next_handler =
    (let weak = cfg\<lparr>JWTAuthSigningMethod := ''HS256'', JWTAuthSecret := []\<rparr>
     in jwtAuth_ServeHTTP W weak (setupJWTAuthMiddleware W weak) req next_handler)"
proof -
  have cookie: "cookie_token (cfg\<lparr>JWTAuthSigningMethod := ''HS256'', JWTAuthSecret := []\<rparr>) = cookie_token cfg"
    by (intro ext) (simp add: cookie_token_def)
  have handler: "\<And>p. jwtErrorHandler (cfg\<lparr>JWTAuthSigningMethod := ''HS256'', JWTAuthSecret := p\<rparr>) = jwtErrorHandler cfg"
    by (simp add: jwtErrorHandler_def)
  show ?thesis
    using assms by (simp add: jwtAuth_ServeHTTP_def setupJWTAuthMiddleware_def jwtAuth_whitelist_def Let_def cookie handler split: sum.split)
qed

theorem unknown_signing_method_witness:
  "jwtAuth_ServeHTTP plain_web_lib (default_jwt_config\<lparr>JWTAuthSigningMethod := ''ES256'', JWTAuthSecret := ''s''\<rparr>)
      (setupJWTAuthMiddleware plain_web_lib (default_jwt_config\<lparr>JWTAuthSigningMethod := ''ES256'', JWTAuthSecret := ''s''\<rparr>))
      demo_web_request (\<lambda>_. (Served 200 (), [])) =
   (let weak = (default_jwt_config\<lparr>JWTAuthSigningMethod := ''ES256'', JWTAuthSecret := ''s''\<rparr>)
      \<lparr>JWTAuthSigningMethod := ''HS256'', JWTAuthSecret := []\<rparr>
    in jwtAuth_ServeHTTP plain_web_lib weak (setupJWTAuthMiddleware plain_web_lib weak) demo_web_request
      (\<lambda>_. (Served 200 (), [])))"
  by (rule unknown_signing_method) simp

end
