(* ===== verification/Flagr_Export.thy ===== *)
theory Flagr_Export
  imports Flagr_Service
begin

text \<open>
  \<^verbatim>\<open>pkg/handler/export.go\<close>: the export of the evaluation cache as JSON, which a server in
  the eval-only mode reads back, and the export of the database as an SQLite file. The files and
  the SQLite database are a parameter.
\<close>

section \<open>The JSON form of a flag\<close>

text \<open>The fields with the tag \<^verbatim>\<open>json:"-"\<close> are not written, so they are zero after reading.\<close>

definition json_distribution :: "distribution \<Rightarrow> distribution" where
  "json_distribution d = d\<lparr>Distribution_Bitmap := []\<rparr>"

definition json_segment :: "'e segment \<Rightarrow> 'e segment" where
  "json_segment s = s\<lparr>Segment_Distributions := map json_distribution (Segment_Distributions s),
     SegmentEvaluation := zero_segment_evaluation\<rparr>"

definition json_flag :: "'e flag \<Rightarrow> 'e flag" where
  "json_flag f = f\<lparr>Flag_Segments := map json_segment (Flag_Segments f), FlagEvaluation := \<lparr>VariantsMap = []\<rparr>\<rparr>"

text \<open>The prepared flag without what its JSON form leaves out of the distributions.\<close>

definition plain_segment :: "'e segment \<Rightarrow> 'e segment" where
  "plain_segment s = s\<lparr>Segment_Distributions := map json_distribution (Segment_Distributions s)\<rparr>"

definition plain_flag :: "'e flag \<Rightarrow> 'e flag" where
  "plain_flag f = f\<lparr>Flag_Segments := map plain_segment (Flag_Segments f)\<rparr>"

lemma plain_flag_sel [simp]:
  "Flag_Model (plain_flag f) = Flag_Model f" "Flag_Key (plain_flag f) = Flag_Key f"
  by (simp_all add: plain_flag_def)

section \<open>Reading back what was written\<close>

lemma json_distribution_sel [simp]:
  "Distribution_VariantID (json_distribution d) = Distribution_VariantID d"
  "Distribution_Percent (json_distribution d) = Distribution_Percent d"
  by (simp_all add: json_distribution_def)

lemma prepare_loop_json: "prepare_loop i (map json_distribution ds) da = prepare_loop i ds da"
  by (induction ds arbitrary: i da) simp_all

lemma prepare_distributions_json: "prepare_distributions (map json_distribution ds) = prepare_distributions ds"
  by (simp add: prepare_distributions_def prepare_loop_json)

lemma Segment_PrepareEvaluation_json:
  assumes "Segment_PrepareEvaluation L s0 = Inr s"
  shows "Segment_PrepareEvaluation L (json_segment s) = Inr (plain_segment s)"
  using assms
  by (auto simp: Segment_PrepareEvaluation_def json_segment_def plain_segment_def prepare_distributions_json
      sum_bind_eq_Inr_iff split: if_splits)

lemma Flag_PrepareEvaluation_json:
  assumes "Flag_PrepareEvaluation L f0 = Inr f"
  shows "Flag_PrepareEvaluation L (json_flag f) = Inr (plain_flag f)"
proof -
  from assms obtain ss where ss: "list_all2 (\<lambda>s0 s. Segment_PrepareEvaluation L s0 = Inr s) (Flag_Segments f0) ss"
    and f: "f = f0\<lparr>Flag_Segments := ss, FlagEvaluation := \<lparr>VariantsMap =
      fold (\<lambda>v m. AList.update (variant_ID v) v m) (Flag_Variants f0) []\<rparr>\<rparr>"
    by (auto simp: Flag_PrepareEvaluation_def sum_bind_eq_Inr_iff sum_mapM_Inr_iff)
  have "sum_mapM (Segment_PrepareEvaluation L) (map json_segment ss) = Inr (map plain_segment ss)"
    using ss by (induction rule: list_all2_induct) (simp_all add: Segment_PrepareEvaluation_json)
  then show ?thesis
    by (simp add: Flag_PrepareEvaluation_def f json_flag_def plain_flag_def)
qed

section \<open>Evaluation does not see the difference\<close>

lemma evalSegment_plain: "evalSegment L i ctx (plain_segment s) = evalSegment L i ctx s"
proof -
  have sel: "Segment_Constraints (plain_segment s) = Segment_Constraints s"
    "SegmentEvaluation (plain_segment s) = SegmentEvaluation s" "segment_ID (plain_segment s) = segment_ID s"
    "Segment_RolloutPercent (plain_segment s) = Segment_RolloutPercent s"
    by (simp_all add: plain_segment_def)
  show ?thesis unfolding evalSegment_def sel ..
qed

lemma eval_segments_plain: "eval_segments L b i ctx (map plain_segment ss) acc = eval_segments L b i ctx ss acc"
proof (induction ss arbitrary: acc)
  case (Cons s ss)
  obtain vID sID logs where acc: "acc = (vID, sID, logs)" by (cases acc)
  have "segment_ID (plain_segment s) = segment_ID s" by (simp add: plain_segment_def)
  then show ?case
    by (simp add: acc evalSegment_plain Cons.IH cong: if_cong)
qed simp

lemma EvalFlagWithContext_plain:
  "EvalFlagWithContext env (map_option plain_flag f) ctx st = EvalFlagWithContext env f ctx st"
proof (cases f)
  case (Some g)
  have sel: "Flag_Enabled (plain_flag g) = Flag_Enabled g" "Flag_Segments (plain_flag g) = map plain_segment (Flag_Segments g)"
    "Flag_SnapshotID (plain_flag g) = Flag_SnapshotID g" "Flag_Tags (plain_flag g) = Flag_Tags g"
    "Flag_EntityType (plain_flag g) = Flag_EntityType g" "FlagEvaluation (plain_flag g) = FlagEvaluation g"
    "Flag_DataRecordsEnabled (plain_flag g) = Flag_DataRecordsEnabled g"
    by (simp_all add: plain_flag_def)
  have blank: "BlankResult env (Some (plain_flag g)) = BlankResult env (Some g)"
    by (intro ext) (simp add: BlankResult_def sel)
  have ctx: "effective_context env (plain_flag g) = effective_context env g"
    unfolding effective_context_def sel ..
  have res: "result_of env (plain_flag g) = result_of env g"
    unfolding result_of_def sel blank ..
  show ?thesis
    by (simp add: Some EvalFlagWithContext_def sel blank ctx res eval_segments_plain)
qed simp

text \<open>Two caches that answer every lookup by id or key up to that difference evaluate alike.\<close>

definition same_lookups :: "cast_lib \<Rightarrow> 'e cacheContainer \<Rightarrow> 'e cacheContainer \<Rightarrow> bool" where
  "same_lookups C c c' \<longleftrightarrow> (\<forall>v. GetByFlagKeyOrID C c' v = map_option plain_flag (GetByFlagKeyOrID C c v))"

lemma env_cache_irrelevant:
  "EvalFlagWithContext (env\<lparr>env_cache := c\<rparr>) = EvalFlagWithContext env"
proof -
  have sel: "env_Config (env\<lparr>env_cache := c\<rparr>) = env_Config env" "env_cast (env\<lparr>env_cache := c\<rparr>) = env_cast env"
    "env_cond (env\<lparr>env_cache := c\<rparr>) = env_cond env" "env_StatsdClient (env\<lparr>env_cache := c\<rparr>) = env_StatsdClient env"
    "env_Prometheus (env\<lparr>env_cache := c\<rparr>) = env_Prometheus env" "env_Int31 (env\<lparr>env_cache := c\<rparr>) = env_Int31 env"
    "env_TimeNow (env\<lparr>env_cache := c\<rparr>) = env_TimeNow env" "env_Limit (env\<lparr>env_cache := c\<rparr>) = env_Limit env"
    by simp_all
  have parts: "BlankResult (env\<lparr>env_cache := c\<rparr>) = BlankResult env"
    "effective_context (env\<lparr>env_cache := c\<rparr>) = effective_context env"
    "result_of (env\<lparr>env_cache := c\<rparr>) = result_of env"
    by (intro ext, simp only: BlankResult_def sel, intro ext,
        simp only: effective_context_def effective_entityID_def sel, intro ext,
        simp only: result_of_def BlankResult_def logEvalResult_def rateLimitPerFlagConsoleLogging_def
          logEvalResultToDatadog_def logEvalResultToPrometheus_def sel)
  show ?thesis by (intro ext) (simp only: EvalFlagWithContext_def sel parts)
qed

lemma EvalFlag_same_lookups:
  assumes "same_lookups (env_cast env) c c'"
  shows "EvalFlag (env\<lparr>env_cache := c'\<rparr>) = EvalFlag (env\<lparr>env_cache := c\<rparr>)"
proof (intro ext)
  fix ctx st
  have "LookupFlag (env\<lparr>env_cache := c'\<rparr>) ctx = map_option plain_flag (LookupFlag (env\<lparr>env_cache := c\<rparr>) ctx)"
    using assms by (simp add: LookupFlag_def same_lookups_def Let_def split: option.split)
  then show "EvalFlag (env\<lparr>env_cache := c'\<rparr>) ctx st = EvalFlag (env\<lparr>env_cache := c\<rparr>) ctx st"
    by (simp add: EvalFlag_def env_cache_irrelevant EvalFlagWithContext_plain)
qed

lemma eval_entities_same_lookups:
  assumes "EvalFlag env' = EvalFlag env" "EBR_FlagTags body = []"
  shows "eval_entities env' body es results st = eval_entities env body es results st"
proof (induction es arbitrary: results st)
  case (Cons e es)
  have "eval_entity env' body e st = eval_entity env body e st"
    by (simp add: eval_entity_def assms Let_def split: option.split)
  then show ?case
    by (cases "eval_entity env body e st") (auto simp: Cons.IH)
qed simp

lemma Post_same_lookups:
  assumes "same_lookups (env_cast env) c c'"
  shows "PostEvaluation (env\<lparr>env_cache := c'\<rparr>) body st = PostEvaluation (env\<lparr>env_cache := c\<rparr>) body st"
    "EBR_FlagTags req = [] \<Longrightarrow> PostEvaluationBatch (env\<lparr>env_cache := c'\<rparr>) (Some req) st =
      PostEvaluationBatch (env\<lparr>env_cache := c\<rparr>) (Some req) st"
  by (simp_all only: PostEvaluation_def EvalFlag_same_lookups [OF assms])
    (simp add: PostEvaluationBatch_def eval_entities_same_lookups [OF EvalFlag_same_lookups [OF assms]] Let_def)

section \<open>The exported cache\<close>

lemma distinct_idCache_container_of: "distinct (map fst (idCache (container_of C fs)))"
  by (induction fs rule: rev_induct)
    (simp_all add: container_of_snoc add_flag_def distinct_update, simp add: container_of_def empty_container_def)

context cast_laws
begin

lemma export_container_of:
  assumes "distinct (map flag_ID fs)" "\<forall>f \<in> set fs. flag_ID f \<noteq> 0"
  shows "set (EvalCache_export (container_of C fs)) = set fs"
    "distinct (map flag_ID (EvalCache_export (container_of C fs)))"
proof -
  let ?m = "idCache (container_of C fs)"
  have mem: "(s, f) \<in> set ?m \<longleftrightarrow> f \<in> set fs \<and> s = dec_uint (flag_ID f)" for s f
    using idCache_container_of [OF assms(1), of s f] assms(2) distinct_idCache_container_of [of C fs]
    by (auto simp: map_of_eq_Some_iff)
  have "f \<in> snd ` set ?m \<longleftrightarrow> (\<exists>s. (s, f) \<in> set ?m)" for f by force
  then show "set (EvalCache_export (container_of C fs)) = set fs"
    by (auto simp: EvalCache_export_def mem)
  have key: "\<forall>(s, f) \<in> set ?m. s = dec_uint (flag_ID f)" using mem by blast
  have "map fst ?m = map dec_uint (map flag_ID (map snd ?m))"
    using key by (simp add: case_prod_beta)
  then have "distinct (map dec_uint (map flag_ID (map snd ?m)))"
    using distinct_idCache_container_of [of C fs] by (simp only:)
  then show "distinct (map flag_ID (EvalCache_export (container_of C fs)))"
    unfolding EvalCache_export_def by (simp only: distinct_map)
qed

lemma same_lookups_export:
  assumes "list_all2 (\<lambda>f f'. Flag_PrepareEvaluation L f = Inr f') fs fs'"
    and "distinct (map flag_ID fs)" "distinct (map Flag_Key fs)" "\<forall>f \<in> set fs. flag_ID f \<noteq> 0"
    and "mset gs = mset (EvalCache_export (container_of C fs'))"
  shows "\<exists>c'. EvalCache_fetchAllFlags C L (Inr (map json_flag gs)) = Inr c' \<and>
    same_lookups C (container_of C fs') c'"
proof -
  have ids: "distinct (map flag_ID fs')" "distinct (map Flag_Key fs')" "\<forall>f \<in> set fs'. flag_ID f \<noteq> 0"
    using assms(2-4) prepared_ids(1,2) [OF assms(1)] prepared_ids_back [OF assms(1)] by (metis | simp)+
  have gs: "set gs = set fs'"
    using export_container_of(1) [OF ids(1,3)] assms(5) mset_eq_setD by metis
  have "distinct (map flag_ID gs)"
    using export_container_of(2) [OF ids(1,3)] assms(5) by (metis mset_map mset_eq_imp_distinct_iff)
  moreover have "distinct (map Flag_Key gs)"
  proof -
    have "distinct gs" using \<open>distinct (map flag_ID gs)\<close> by (simp only: distinct_map)
    then show ?thesis using ids(2) gs by (simp add: distinct_map)
  qed
  moreover have "map flag_ID (map plain_flag gs) = map flag_ID gs" "map Flag_Key (map plain_flag gs) = map Flag_Key gs"
    by simp_all
  ultimately have d: "distinct (map flag_ID (map plain_flag gs))" "distinct (map Flag_Key (map plain_flag gs))"
    by (simp_all only:)
  have "list_all2 (\<lambda>f f'. Flag_PrepareEvaluation L f = Inr f') (map json_flag gs) (map plain_flag gs)"
  proof -
    have "Flag_PrepareEvaluation L (json_flag g) = Inr (plain_flag g)" if "g \<in> set gs" for g
    proof -
      from that gs assms(1) have "\<exists>f. Flag_PrepareEvaluation L f = Inr g"
        by (auto dest: list_all2_in_right)
      then show ?thesis using Flag_PrepareEvaluation_json by blast
    qed
    then show ?thesis by (simp add: list_all2_map1 list_all2_map2 list_all2_same)
  qed
  then have c': "EvalCache_fetchAllFlags C L (Inr (map json_flag gs)) = Inr (container_of C (map plain_flag gs))"
    unfolding EvalCache_fetchAllFlags_Inr_iff by blast
  have iff: "GetByFlagKeyOrID C (container_of C (map plain_flag gs)) v = Some f \<longleftrightarrow>
    (\<exists>g. GetByFlagKeyOrID C (container_of C fs') v = Some g \<and> f = plain_flag g)" for v f
    unfolding GetByFlagKeyOrID_container_of [OF d] GetByFlagKeyOrID_container_of [OF ids(1,2)]
    using gs by auto
  have "same_lookups C (container_of C fs') (container_of C (map plain_flag gs))"
    unfolding same_lookups_def
  proof
    fix v
    show "GetByFlagKeyOrID C (container_of C (map plain_flag gs)) v =
      map_option plain_flag (GetByFlagKeyOrID C (container_of C fs') v)"
    proof (cases "GetByFlagKeyOrID C (container_of C fs') v")
      case None
      then have "\<forall>f. GetByFlagKeyOrID C (container_of C (map plain_flag gs)) v \<noteq> Some f"
        unfolding iff by simp
      then show ?thesis using None by (cases "GetByFlagKeyOrID C (container_of C (map plain_flag gs)) v") simp_all
    next
      case (Some g)
      then have "GetByFlagKeyOrID C (container_of C (map plain_flag gs)) v = Some (plain_flag g)"
        unfolding iff by blast
      then show ?thesis using Some by simp
    qed
  qed
  with c' show ?thesis by blast
qed

end

section \<open>The JSON export\<close>

definition exportEvalCacheJSONHandler :: "'e EvalCache \<Rightarrow> 'e flag list response" where
  "exportEvalCacheJSONHandler ec = RespOK (EvalCache_export (cache ec))"

section \<open>The SQLite export\<close>

text \<open>The state stands for the file system with the SQLite databases in its files.\<close>

record ('e, 'x) sqlite_lib =
  sqlite_Open :: "string \<Rightarrow> 'x \<Rightarrow> error option \<times> 'x"
  sqlite_AutoMigrate :: "string \<Rightarrow> 'x \<Rightarrow> 'x"
  sqlite_DB :: "string \<Rightarrow> 'x \<Rightarrow> error option"
  sqlite_Create :: "string \<Rightarrow> 'e row \<Rightarrow> 'x \<Rightarrow> error option \<times> 'x"
  sqlite_Close :: "string \<Rightarrow> 'x \<Rightarrow> 'x"
  sqlite_ReadFile :: "string \<Rightarrow> 'x \<Rightarrow> string err"
  sqlite_Remove :: "string \<Rightarrow> 'x \<Rightarrow> 'x"

definition NewSQLiteDB :: "('e, 'x) sqlite_lib \<Rightarrow> string \<Rightarrow> 'x \<Rightarrow> unit go \<times> 'x" where
  "NewSQLiteDB X filePath x =
     (case sqlite_Open X filePath (sqlite_Remove X filePath x) of
        (Some e, x1) \<Rightarrow> (Inl (PanicValue e), x1)
      | (None, x1) \<Rightarrow> (Inr (), sqlite_AutoMigrate X filePath x1))"

fun create_rows :: "('e, 'x) sqlite_lib \<Rightarrow> string \<Rightarrow> 'e row list \<Rightarrow> 'x \<Rightarrow> error option \<times> 'x" where
  "create_rows X fname [] x = (None, x)"
| "create_rows X fname (r # rs) x =
     (case sqlite_Create X fname r x of (Some e, x') \<Rightarrow> (Some e, x') | (None, x') \<Rightarrow> create_rows X fname rs x')"

definition export_list ::
  "('e, 'x) sqlite_lib \<Rightarrow> string \<Rightarrow> ('a \<Rightarrow> 'e row) \<Rightarrow> 'a list err \<Rightarrow> 'x \<Rightarrow> error option \<times> 'x" where
  "export_list X fname mk found x =
     (case found of Inl e \<Rightarrow> (Some e, x) | Inr as \<Rightarrow> create_rows X fname (map mk as) x)"

definition exportFlags ::
  "('e, 'x) sqlite_lib \<Rightarrow> config \<Rightarrow> 'e flag_source \<Rightarrow> string \<Rightarrow> 'x \<Rightarrow> error option \<times> 'x" where
  "exportFlags X cfg w fname = export_list X fname RFlag (fetchAllFlags cfg w)"

definition exportFlagSnapshots ::
  "('e, 'x) sqlite_lib \<Rightarrow> ('e, 'db) gorm \<Rightarrow> 'db \<Rightarrow> string \<Rightarrow> 'x \<Rightarrow> error option \<times> 'x" where
  "exportFlagSnapshots X G db fname =
     export_list X fname RSnapshot (typed_list as_snapshot (gorm_Find G RootDB TSnapshot (\<lambda>_. True) (\<lambda>_. []) db))"

definition exportFlagEntityTypes ::
  "('e, 'x) sqlite_lib \<Rightarrow> ('e, 'db) gorm \<Rightarrow> 'db \<Rightarrow> string \<Rightarrow> 'x \<Rightarrow> error option \<times> 'x" where
  "exportFlagEntityTypes X G db fname =
     export_list X fname REntityType (typed_list as_entity_type (gorm_Find G RootDB TEntityType (\<lambda>_. True) (\<lambda>_. []) db))"

text \<open>The name of the file comes from a random number; the database is closed when the function is left.\<close>

definition export_file_name :: "string \<Rightarrow> nat \<Rightarrow> string" where
  "export_file_name tempDir n =
     path_Clean (join ''/'' (filter (\<lambda>e. e \<noteq> []) [tempDir, ''flagr_'' @ dec n @ ''.sqlite'']))"

definition exportSQLiteFile ::
  "('e, 'x) sqlite_lib \<Rightarrow> config \<Rightarrow> 'e flag_source \<Rightarrow> ('e, 'db) gorm \<Rightarrow> 'db \<Rightarrow> string \<Rightarrow> bool option \<Rightarrow> 'x \<Rightarrow>
    string err go \<times> 'x" where
  "exportSQLiteFile X cfg w G db fname excludeSnapshots x0 =
     (case NewSQLiteDB X fname x0 of
        (Inl p, x) \<Rightarrow> (Inl p, x)
      | (Inr _, x) \<Rightarrow>
          (case sqlite_DB X fname x of
             Some e \<Rightarrow> (Inr (Inl e), x)
           | None \<Rightarrow>
               let close = (\<lambda>e x. (Inr (Inl e), sqlite_Close X fname x)) in
               db_exec (exportFlags X cfg w fname x) close (\<lambda>x1.
               db_exec (if excludeSnapshots = Some True then (None, x1) else exportFlagSnapshots X G db fname x1) close (\<lambda>x2.
               db_exec (exportFlagEntityTypes X G db fname x2) close (\<lambda>x3.
               (Inr (sqlite_ReadFile X fname x3), sqlite_Close X fname x3))))))"

definition exportSQLiteHandler ::
  "('e, 'x) sqlite_lib \<Rightarrow> config \<Rightarrow> 'e flag_source \<Rightarrow> ('e, 'db) gorm \<Rightarrow> 'db \<Rightarrow> string \<Rightarrow> bool option \<Rightarrow> 'x \<Rightarrow>
    string response go \<times> 'x" where
  "exportSQLiteHandler X cfg w G db fname excludeSnapshots x =
     (case exportSQLiteFile X cfg w G db fname excludeSnapshots x of
        (Inl p, x') \<Rightarrow> (Inl p, x')
      | (Inr (Inl e), x') \<Rightarrow> (Inr (RespDefault 500 e), sqlite_Remove X fname x')
      | (Inr (Inr f), x') \<Rightarrow> (Inr (RespOK f), sqlite_Remove X fname x'))"

lemma create_rows_append:
  "create_rows X fname (rs @ ss) x =
    (case create_rows X fname rs x of (Some e, x') \<Rightarrow> (Some e, x') | (None, x') \<Rightarrow> create_rows X fname ss x')"
  by (induction rs arbitrary: x) (auto split: prod.split option.split)

lemma export_list_None:
  "export_list X fname mk found x = (None, x') \<longleftrightarrow>
    (\<exists>as. found = Inr as \<and> create_rows X fname (map mk as) x = (None, x'))"
  by (cases found) (simp_all add: export_list_def)

lemma db_exec_Inr:
  "db_exec m onErr k = (Inr (Inr c), x') \<Longrightarrow> (\<And>e y. onErr e y \<noteq> (Inr (Inr c), x')) \<Longrightarrow>
    \<exists>y. m = (None, y) \<and> k y = (Inr (Inr c), x')"
  by (auto simp: db_exec_def split: prod.splits option.splits)

lemma exportSQLiteFile_Inr:
  assumes "exportSQLiteFile X cfg w G db fname ex x = (Inr (Inr content), x')"
  shows "\<exists>x0 x1 x2 x3. NewSQLiteDB X fname x = (Inr (), x0) \<and> exportFlags X cfg w fname x0 = (None, x1) \<and>
    (if ex = Some True then x2 = x1 else exportFlagSnapshots X G db fname x1 = (None, x2)) \<and>
    exportFlagEntityTypes X G db fname x2 = (None, x3) \<and>
    sqlite_ReadFile X fname x3 = Inr content \<and> x' = sqlite_Close X fname x3"
proof -
  have "exportSQLiteFile X cfg w G db fname ex x = (Inl p, y)" if "NewSQLiteDB X fname x = (Inl p, y)" for p y
    by (simp add: exportSQLiteFile_def that)
  then have "NewSQLiteDB X fname x \<noteq> (Inl p, y)" for p y
    using assms by auto
  then obtain x0 where x0: "NewSQLiteDB X fname x = (Inr (), x0)"
    by (metis (full_types) old.sum.exhaust old.unit.exhaust prod.exhaust)
  have "exportSQLiteFile X cfg w G db fname ex x = (Inr (Inl e), x0)" if "sqlite_DB X fname x0 = Some e" for e
    by (simp add: exportSQLiteFile_def x0 that)
  then have db: "sqlite_DB X fname x0 = None"
    using assms by (cases "sqlite_DB X fname x0") simp_all
  let ?close = "\<lambda>e x. (Inr (Inl e) :: string err go, sqlite_Close X fname x)"
  have "db_exec (exportFlags X cfg w fname x0) ?close (\<lambda>x1.
      db_exec (if ex = Some True then (None, x1) else exportFlagSnapshots X G db fname x1) ?close (\<lambda>x2.
      db_exec (exportFlagEntityTypes X G db fname x2) ?close (\<lambda>x3.
      (Inr (sqlite_ReadFile X fname x3), sqlite_Close X fname x3)))) = (Inr (Inr content), x')"
    using assms by (simp add: exportSQLiteFile_def x0 db Let_def)
  from db_exec_Inr [OF this] obtain x1 where x1: "exportFlags X cfg w fname x0 = (None, x1)"
    "db_exec (if ex = Some True then (None, x1) else exportFlagSnapshots X G db fname x1) ?close (\<lambda>x2.
      db_exec (exportFlagEntityTypes X G db fname x2) ?close (\<lambda>x3.
      (Inr (sqlite_ReadFile X fname x3), sqlite_Close X fname x3))) = (Inr (Inr content), x')"
    by auto
  from db_exec_Inr [OF x1(2)] obtain x2 where
    x2: "(if ex = Some True then (None, x1) else exportFlagSnapshots X G db fname x1) = (None, x2)"
    "db_exec (exportFlagEntityTypes X G db fname x2) ?close (\<lambda>x3.
      (Inr (sqlite_ReadFile X fname x3), sqlite_Close X fname x3)) = (Inr (Inr content), x')"
    by auto
  from db_exec_Inr [OF x2(2)] obtain x3 where x3: "exportFlagEntityTypes X G db fname x2 = (None, x3)"
    "sqlite_ReadFile X fname x3 = Inr content" "x' = sqlite_Close X fname x3"
    by auto
  show ?thesis using x0 x1(1) x2(1) x3 by (cases "ex = Some True") auto
qed

section \<open>Fixtures\<close>

text \<open>A source whose file holds the export of a cache, and SQLite files as lists of rows.\<close>

definition exported_source :: "string flag list \<Rightarrow> string flag_source" where
  "exported_source gs = \<lparr>os_ReadFile = (\<lambda>_. Inr ''exported''), http_Get = (\<lambda>_. Inl ''no route''),
     json_Unmarshal_Flags = (\<lambda>_. Inr (map json_flag gs)), db_Find_Flags = Inl ''no database''\<rparr>"

definition mem_sqlite :: "(string, (string \<times> string row list) list) sqlite_lib" where
  "mem_sqlite =
     \<lparr>sqlite_Open = (\<lambda>f x. (None, AList.update f [] x)), sqlite_AutoMigrate = (\<lambda>_ x. x), sqlite_DB = (\<lambda>_ _. None),
      sqlite_Create = (\<lambda>f r x. (None, AList.map_entry f (\<lambda>rs. rs @ [r]) x)), sqlite_Close = (\<lambda>_ x. x),
      sqlite_ReadFile = (\<lambda>f x. case map_of x f of None \<Rightarrow> Inl ''no such file'' | Some rs \<Rightarrow> Inr (dec (length rs))),
      sqlite_Remove = AList.delete\<rparr>"

definition demo_export_cfg :: config where
  "demo_export_cfg = default_config\<lparr>the_eval := default_eval_config\<lparr>EvalOnlyMode := True\<rparr>,
     the_db := default_db_config\<lparr>DBDriver := ''json_file''\<rparr>\<rparr>"

section \<open>Properties\<close>

text \<open>C34: what a cache exports as JSON, another server can evaluate from: in the eval-only mode, with a file that
  decodes to the exported flags in any order, the reload succeeds, and every evaluation of a flag by
  id or key, alone or in a batch, gives the same answer, events included, as on the cache that was
  exported.\<close>

theorem export_round_trip:
  assumes "cast_laws C" "EvalCache_fetchAllFlags C L (Inr fs) = Inr (cache ec)"
    and "distinct (map flag_ID fs)" "distinct (map Flag_Key fs)" "\<forall>f \<in> set fs. flag_ID f \<noteq> 0"
    and "exportEvalCacheJSONHandler ec = RespOK exported" "mset gs = mset exported"
    and "EvalOnlyMode (the_eval cfg)" "DBDriver (the_db cfg) = ''json_file''"
    and "os_ReadFile w (DBConnectionStr (the_db cfg)) = Inr txt" "json_Unmarshal_Flags w txt = Inr (map json_flag gs)"
    and "env_cast env = C"
  shows "\<exists>ec'. reloadMapCache C L (fetchAllFlags cfg w) False ec0 = (None, ec') \<and>
    PostEvaluation (env\<lparr>env_cache := cache ec'\<rparr>) body st = PostEvaluation (env\<lparr>env_cache := cache ec\<rparr>) body st \<and>
    (EBR_FlagTags req = [] \<longrightarrow> PostEvaluationBatch (env\<lparr>env_cache := cache ec'\<rparr>) (Some req) st =
      PostEvaluationBatch (env\<lparr>env_cache := cache ec\<rparr>) (Some req) st)"
proof -
  obtain fs' where fs': "list_all2 (\<lambda>f f'. Flag_PrepareEvaluation L f = Inr f') fs fs'"
    and ec: "cache ec = container_of C fs'"
    using EvalCache_fetchAllFlags_InrD [OF assms(2)] by blast
  have gs: "mset gs = mset (EvalCache_export (container_of C fs'))"
    using assms(6,7) ec by (simp add: exportEvalCacheJSONHandler_def)
  obtain c' where c': "EvalCache_fetchAllFlags C L (Inr (map json_flag gs)) = Inr c'"
    and same: "same_lookups C (cache ec) c'"
    using cast_laws.same_lookups_export [OF assms(1) fs' assms(3-5) gs] ec by auto
  have "fetchAllFlags cfg w = Inr (map json_flag gs)"
    using assms(8-11) by (simp add: fetchAllFlags_def newFetcher_def)
  then have "reloadMapCache C L (fetchAllFlags cfg w) False ec0 = (None, ec0\<lparr>cache := c'\<rparr>)"
    using c' by (simp add: reloadMapCache_def)
  moreover have "same_lookups (env_cast env) (cache ec) c'" using same assms(12) by simp
  note post = Post_same_lookups [OF this]
  have "PostEvaluation (env\<lparr>env_cache := c'\<rparr>) body st = PostEvaluation (env\<lparr>env_cache := cache ec\<rparr>) body st"
    "EBR_FlagTags req = [] \<longrightarrow> PostEvaluationBatch (env\<lparr>env_cache := c'\<rparr>) (Some req) st =
      PostEvaluationBatch (env\<lparr>env_cache := cache ec\<rparr>) (Some req) st"
    using post by blast+
  ultimately show ?thesis by (intro exI [of _ "ec0\<lparr>cache := c'\<rparr>"]) simp
qed


lemma EvalCache_fetch_demo:
  "EvalCache_fetchAllFlags go_cast text_cond (Inr [demo_flag0]) = Inr (container_of go_cast [demo_flag])"
  by (simp add: EvalCache_fetchAllFlags_def demo_prepared container_of_def)

lemma demo_export:
  "exportEvalCacheJSONHandler (new_EvalCache\<lparr>cache := container_of go_cast [demo_flag]\<rparr>) = RespOK [demo_flag]"
  by code_simp

theorem export_round_trip_witness:
  "\<exists>ec'. reloadMapCache go_cast text_cond (fetchAllFlags demo_export_cfg (exported_source [demo_flag])) False new_EvalCache =
      (None, ec') \<and>
    PostEvaluation ((demo_env empty_container default_config)\<lparr>env_cache := cache ec'\<rparr>) (Some demo_context) initial_eval_state =
    PostEvaluation ((demo_env empty_container default_config)\<lparr>env_cache := container_of go_cast [demo_flag]\<rparr>)
      (Some demo_context) initial_eval_state"
proof -
  let ?ec = "new_EvalCache\<lparr>cache := container_of go_cast [demo_flag]\<rparr>"
  have fs: "EvalCache_fetchAllFlags go_cast text_cond (Inr [demo_flag0]) = Inr (cache ?ec)"
    using EvalCache_fetch_demo by simp
  have cfg: "EvalOnlyMode (the_eval demo_export_cfg)" "DBDriver (the_db demo_export_cfg) = ''json_file''"
    by code_simp+
  have ids: "distinct (map flag_ID [demo_flag0])" "distinct (map Flag_Key [demo_flag0])"
    "\<forall>f \<in> set [demo_flag0]. flag_ID f \<noteq> 0"
    by code_simp+
  have src: "os_ReadFile (exported_source [demo_flag]) (DBConnectionStr (the_db demo_export_cfg)) = Inr ''exported''"
    "json_Unmarshal_Flags (exported_source [demo_flag]) ''exported'' = Inr (map json_flag [demo_flag])"
    by (simp_all add: exported_source_def)
  show ?thesis
    using export_round_trip [OF go_cast.cast_laws_axioms fs ids demo_export refl cfg src,
        of "demo_env empty_container default_config" new_EvalCache "Some demo_context" initial_eval_state]
    by auto
qed

text \<open>C35: an exported SQLite file holds all flags that the evaluation would fetch, then the snapshots unless they
  are excluded, then the entity types, in this order and nothing else; it is read before it is
  closed, and removed after.\<close>

theorem export_sqlite_contents:
  assumes "exportSQLiteHandler X cfg w G db fname ex x = (Inr (RespOK content), x')"
  shows "\<exists>flags snaps types x0 x1.
    fetchAllFlags cfg w = Inr flags \<and>
    (ex \<noteq> Some True \<longrightarrow> typed_list as_snapshot (gorm_Find G RootDB TSnapshot (\<lambda>_. True) (\<lambda>_. []) db) = Inr snaps) \<and>
    typed_list as_entity_type (gorm_Find G RootDB TEntityType (\<lambda>_. True) (\<lambda>_. []) db) = Inr types \<and>
    NewSQLiteDB X fname x = (Inr (), x0) \<and>
    create_rows X fname (map RFlag flags @ (if ex = Some True then [] else map RSnapshot snaps) @ map REntityType types) x0 =
      (None, x1) \<and>
    sqlite_ReadFile X fname x1 = Inr content \<and> x' = sqlite_Remove X fname (sqlite_Close X fname x1)"
proof -
  obtain y where y: "exportSQLiteFile X cfg w G db fname ex x = (Inr (Inr content), y)" "x' = sqlite_Remove X fname y"
    using assms by (auto simp: exportSQLiteHandler_def split: prod.splits sum.splits)
  from exportSQLiteFile_Inr [OF y(1)] obtain x0 x1 x2 x3 where
    steps: "NewSQLiteDB X fname x = (Inr (), x0)" "exportFlags X cfg w fname x0 = (None, x1)"
    "if ex = Some True then x2 = x1 else exportFlagSnapshots X G db fname x1 = (None, x2)"
    "exportFlagEntityTypes X G db fname x2 = (None, x3)"
    "sqlite_ReadFile X fname x3 = Inr content" "y = sqlite_Close X fname x3" by blast
  from steps(2) obtain flags where flags: "fetchAllFlags cfg w = Inr flags"
    "create_rows X fname (map RFlag flags) x0 = (None, x1)"
    by (auto simp: exportFlags_def export_list_None)
  from steps(4) obtain types where types:
    "typed_list as_entity_type (gorm_Find G RootDB TEntityType (\<lambda>_. True) (\<lambda>_. []) db) = Inr types"
    "create_rows X fname (map REntityType types) x2 = (None, x3)"
    by (auto simp: exportFlagEntityTypes_def export_list_None)
  obtain snaps where snaps: "ex \<noteq> Some True \<longrightarrow>
      typed_list as_snapshot (gorm_Find G RootDB TSnapshot (\<lambda>_. True) (\<lambda>_. []) db) = Inr snaps"
    "create_rows X fname (if ex = Some True then [] else map RSnapshot snaps) x1 = (None, x2)"
    using steps(3) by (auto simp: exportFlagSnapshots_def export_list_None split: if_splits)
  have "create_rows X fname (map RFlag flags @ (if ex = Some True then [] else map RSnapshot snaps) @ map REntityType types) x0 =
      (None, x3)"
    by (simp add: create_rows_append flags(2) snaps(2) types(2) del: create_rows.simps)
  then show ?thesis using steps(1,5,6) flags(1) types(1) snaps(1) y(2) by blast
qed

definition demo_exported :: "string response go \<times> (string \<times> string row list) list" where
  "demo_exported = exportSQLiteHandler mem_sqlite default_config ((exported_source [])\<lparr>db_Find_Flags := Inr [demo_flag0]\<rparr>)
     mem_gorm mem_empty (export_file_name ''/tmp'' 7) None []"

lemma demo_exported_value: "demo_exported = (Inr (RespOK ''1''), [])"
  by code_simp

theorem export_sqlite_contents_witness:
  "\<exists>flags. fetchAllFlags default_config ((exported_source [])\<lparr>db_Find_Flags := Inr [demo_flag0]\<rparr>) = Inr flags"
  using export_sqlite_contents [OF demo_exported_value [unfolded demo_exported_def]] by blast

end
