(* ===== verification/Flagr_Queries.thy ===== *)
theory Flagr_Queries
  imports Flagr_Params Flagr_Crud
begin

text \<open>
  The list queries of \<^verbatim>\<open>pkg/handler/crud.go\<close>: \<^verbatim>\<open>FindFlags\<close>, \<^verbatim>\<open>FindAllTags\<close>,
  \<^verbatim>\<open>GetFlagSnapshots\<close> and \<^verbatim>\<open>GetFlagEntityTypes\<close>, with their filters, orders and pages.
  What \<^verbatim>\<open>GORM\<close> and the database do with such a query is a parameter with laws; the order of
  strings and the \<^verbatim>\<open>lower\<close> and \<^verbatim>\<open>like\<close> of the database belong to it.
\<close>

section \<open>Queries\<close>

record 'e list_query =
  lq_Unscoped :: bool
  lq_Where :: "'e row \<Rightarrow> bool"
  lq_Order :: "'e row \<Rightarrow> int list"
  lq_Desc :: bool
  lq_Limit :: "i64 option"
  lq_Offset :: "i64 option"

definition new_query :: "'e list_query" where
  "new_query = \<lparr>lq_Unscoped = False, lq_Where = (\<lambda>_. True), lq_Order = (\<lambda>_. []), lq_Desc = False,
     lq_Limit = None, lq_Offset = None\<rparr>"

definition add_where :: "('e row \<Rightarrow> bool) \<Rightarrow> 'e list_query \<Rightarrow> 'e list_query" where
  "add_where P q = q\<lparr>lq_Where := (\<lambda>r. lq_Where q r \<and> P r)\<rparr>"

text \<open>A filter that a parameter of the request adds when it is there.\<close>

definition where_param :: "'p option \<Rightarrow> ('p \<Rightarrow> 'e row \<Rightarrow> bool) \<Rightarrow> 'e list_query \<Rightarrow> 'e list_query" where
  "where_param p P q = (case p of None \<Rightarrow> q | Some x \<Rightarrow> add_where (P x) q)"

record ('e, 'db) query_lib =
  q_Find :: "table_kind \<Rightarrow> 'e list_query \<Rightarrow> 'db \<Rightarrow> 'e row list err"
  q_FindByTags :: "tag list \<Rightarrow> 'e list_query \<Rightarrow> 'db \<Rightarrow> 'e row list err"
  q_Preload :: "bool \<Rightarrow> bool \<Rightarrow> 'db \<Rightarrow> 'e flag \<Rightarrow> 'e flag err"
  q_lower :: "string \<Rightarrow> string"
  q_like :: "string \<Rightarrow> string \<Rightarrow> bool"
  q_collate :: "string \<Rightarrow> int list"

text \<open>\<^verbatim>\<open>strings.ToLower\<close> on ASCII text; other bytes are left as they are here.\<close>

definition lower_char :: "char \<Rightarrow> char" where
  "lower_char c = (let n = of_char c :: nat in if 65 \<le> n \<and> n \<le> 90 then char_of (n + 32) else c)"

definition ToLower :: "string \<Rightarrow> string" where
  "ToLower s = map lower_char s"

definition like_pattern :: "string \<Rightarrow> string" where
  "like_pattern s = ''%'' @ ToLower s @ ''%''"

definition lower_like :: "('e, 'db) query_lib \<Rightarrow> string \<Rightarrow> string \<Rightarrow> bool" where
  "lower_like Q pattern text = q_like Q (q_lower Q text) (like_pattern pattern)"

section \<open>The handlers\<close>

text \<open>A struct condition skips the fields that are zero.\<close>

definition nonzero_eq :: "string \<Rightarrow> string \<Rightarrow> bool" where
  "nonzero_eq wanted actual \<longleftrightarrow> wanted = [] \<or> actual = wanted"

definition FindFlags_query :: "('e, 'db) query_lib \<Rightarrow> FindFlagsParams \<Rightarrow> 'e list_query" where
  "FindFlags_query Q p =
     (let tx0 = new_query\<lparr>lq_Unscoped := True\<rparr>;
          tx1 = where_param (FindFlags_Enabled p) (\<lambda>b. row_where as_flag (\<lambda>f. Flag_Enabled f = b)) tx0;
          q_Description = (case FindFlags_Description p of None \<Rightarrow> [] | Some d \<Rightarrow> d);
          q_Key = (case FindFlags_Key p of None \<Rightarrow> [] | Some k \<Rightarrow> k);
          tx2 = tx1\<lparr>lq_Offset := FindFlags_Offset p, lq_Limit := FindFlags_Limit p\<rparr>;
          tx3 = where_param (FindFlags_DescriptionLike p)
            (\<lambda>d. row_where as_flag (\<lambda>f. lower_like Q d (Flag_Description f))) tx2;
          tx4 = (if FindFlags_Deleted p = Some True
            then add_where (row_where as_flag (\<lambda>f. DeletedAt (Flag_Model f) \<noteq> None)) tx3
            else add_where (row_where as_flag (\<lambda>f. DeletedAt (Flag_Model f) = None)) tx3);
          tx5 = tx4\<lparr>lq_Order := by_columns (\<lambda>f. [uint (flag_ID f)]) as_flag\<rparr>
      in add_where (row_where as_flag (\<lambda>f. nonzero_eq q_Description (Flag_Description f) \<and> nonzero_eq q_Key (Flag_Key f))) tx5)"

text \<open>The error of the query for the tags is not looked at; without tags it finds none.\<close>

definition tags_named :: "('e, 'db) query_lib \<Rightarrow> string \<Rightarrow> 'db \<Rightarrow> tag list" where
  "tags_named Q names db =
     (case typed_list as_tag (q_Find Q TTag
         (add_where (row_where as_tag (\<lambda>t. Tag_Value t \<in> set (split_on (CHR '','') names))) new_query) db) of
        Inl _ \<Rightarrow> [] | Inr ts \<Rightarrow> ts)"

definition FindFlags :: "('e, 'db) query_lib \<Rightarrow> FindFlagsParams \<Rightarrow> 'db \<Rightarrow> (m_flag option list, 'db) reply" where
  "FindFlags Q p db =
     (let q = FindFlags_query Q p;
          found = (case FindFlags_Tags p of
              None \<Rightarrow> q_Find Q TFlag q db
            | Some names \<Rightarrow> q_FindByTags Q (tags_named Q names db) q db)
      in case sum_bind (typed_list as_flag found)
            (sum_mapM (q_Preload Q (FindFlags_Preload p = Some True) (lq_Unscoped q) db)) of
           Inl e \<Rightarrow> reject 500 (''cannot query all flags. '' @ e) db
         | Inr fs \<Rightarrow> accept (MapFlags fs) db)"

definition FindAllTags :: "('e, 'db) query_lib \<Rightarrow> FindAllTagsParams \<Rightarrow> 'db \<Rightarrow> (m_tag option list, 'db) reply" where
  "FindAllTags Q p db =
     (let tx1 = new_query\<lparr>lq_Limit := FindAllTags_Limit p, lq_Offset := FindAllTags_Offset p\<rparr>;
          tx2 = where_param (FindAllTags_ValueLike p)
            (\<lambda>v. row_where as_tag (\<lambda>t. lower_like Q v (Tag_Value t))) tx1
      in case typed_list as_tag (q_Find Q TTag tx2 db) of
           Inl e \<Rightarrow> reject 500 e db
         | Inr ts \<Rightarrow> accept (MapTags ts) db)"

definition GetFlagSnapshots ::
  "cast_lib \<Rightarrow> (string \<Rightarrow> 'e flag err) \<Rightarrow> ('e, 'db) query_lib \<Rightarrow> GetFlagSnapshotsParams \<Rightarrow> 'db \<Rightarrow>
    (m_flag_snapshot option list, 'db) reply" where
  "GetFlagSnapshots C unmarshal Q p db =
     (let flagID = SafeUint C (VInt64 (GetFlagSnapshots_FlagID p));
          tx = new_query\<lparr>lq_Limit := GetFlagSnapshots_Limit p, lq_Offset := GetFlagSnapshots_Offset p,
            lq_Order := by_columns (\<lambda>s. [CreatedAt (FlagSnapshot_Model s)]) as_snapshot,
            lq_Desc := (GetFlagSnapshots_Sort p = None \<or> GetFlagSnapshots_Sort p \<noteq> Some ''ASC'')\<rparr>
      in case typed_list as_snapshot (q_Find Q TSnapshot
             (add_where (row_where as_snapshot (\<lambda>s. struct_where flagID (FlagSnapshot_FlagID s))) tx) db) of
           Inl e \<Rightarrow> reject 500 (''cannot find flag snapshots for '' @ dec_int (GetFlagSnapshots_FlagID p) @ ''. '' @ e) db
         | Inr fs \<Rightarrow>
             (case MapFlagSnapshots unmarshal fs of
                Inl e \<Rightarrow> reject 500 (''cannot map flag snapshots for flagID '' @ dec_int (GetFlagSnapshots_FlagID p) @ ''. '' @ e) db
              | Inr payload \<Rightarrow> accept payload db))"

definition GetFlagEntityTypes :: "('e, 'db) query_lib \<Rightarrow> 'db \<Rightarrow> (string list, 'db) reply" where
  "GetFlagEntityTypes Q db =
     (case typed_list as_entity_type (q_Find Q TEntityType
         (new_query\<lparr>lq_Order := by_columns (\<lambda>t. q_collate Q (FlagEntityType_Key t)) as_entity_type\<rparr>) db) of
        Inl e \<Rightarrow> reject 500 (''cannot find flag entity types. err:'' @ e) db
      | Inr ts \<Rightarrow> accept (map FlagEntityType_Key ts) db)"

section \<open>What the database promises\<close>

text \<open>
  A successful query gives a page of its matching rows in its order. The laws only speak of limits
  above zero and offsets that are not negative, and of patterns between two percent signs without
  further wildcards; a preload only fills associations.
\<close>

definition page :: "i64 option \<Rightarrow> i64 option \<Rightarrow> 'a list \<Rightarrow> 'a list" where
  "page limit offset xs =
     (let ys = (case offset of None \<Rightarrow> xs | Some m \<Rightarrow> drop (unat m) xs)
      in case limit of None \<Rightarrow> ys | Some n \<Rightarrow> take (unat n) ys)"

definition proper_page :: "'e list_query \<Rightarrow> bool" where
  "proper_page q \<longleftrightarrow> (\<forall>n. lq_Limit q = Some n \<longrightarrow> 0 < sint n) \<and> (\<forall>m. lq_Offset q = Some m \<longrightarrow> 0 \<le> sint m)"

definition matching :: "'e list_query \<Rightarrow> 'e row \<Rightarrow> bool" where
  "matching q r \<longleftrightarrow> (lq_Unscoped q \<or> live r) \<and> lq_Where q r"

definition ordered :: "'e list_query \<Rightarrow> 'e row list \<Rightarrow> bool" where
  "ordered q rs \<longleftrightarrow> sorted (map (lq_Order q) (if lq_Desc q then rev rs else rs))"

definition plain_text :: "string \<Rightarrow> bool" where
  "plain_text s \<longleftrightarrow> set s \<inter> {CHR ''%'', CHR ''_'', CHR 0x5C} = {}"

locale query_laws =
  fixes Q :: "('e, 'db) query_lib"
    and rows :: "'db \<Rightarrow> db_handle \<Rightarrow> table_kind \<Rightarrow> 'e row list"
    and tagged :: "'db \<Rightarrow> u64 \<Rightarrow> u64 \<Rightarrow> bool"
  assumes row_kinds: "r \<in> set (rows db h k) \<Longrightarrow> row_kind r = k"
    and Find_page: "q_Find Q k q db = Inr rs \<Longrightarrow> proper_page q \<Longrightarrow>
      \<exists>all. mset all = mset (filter (matching q) (rows db RootDB k)) \<and> ordered q all \<and>
        rs = page (lq_Limit q) (lq_Offset q) all"
    and FindByTags_page: "q_FindByTags Q ts q db = Inr rs \<Longrightarrow> proper_page q \<Longrightarrow>
      \<exists>all. mset all = mset (filter (\<lambda>r. matching q r \<and> (\<exists>t \<in> set ts. tagged db (row_ID r) (Model_ID (Tag_Model t))))
          (rows db RootDB TFlag)) \<and> ordered q all \<and>
        rs = page (lq_Limit q) (lq_Offset q) all"
    and Preload_columns: "q_Preload Q full unscoped db f = Inr f' \<Longrightarrow>
      row_columns (RFlag f') = row_columns (RFlag f)"
    and like_contains: "plain_text s \<Longrightarrow> q_like Q t (''%'' @ s @ ''%'') = contains_sub t s"

section \<open>The filter of the flags\<close>

definition opt_all :: "('a \<Rightarrow> bool) \<Rightarrow> 'a option \<Rightarrow> bool" where
  "opt_all P o1 = (case o1 of None \<Rightarrow> True | Some x \<Rightarrow> P x)"

text \<open>What a listed flag satisfies; an empty key or description asks for nothing.\<close>

definition flag_matches :: "('e, 'db) query_lib \<Rightarrow> FindFlagsParams \<Rightarrow> 'e flag \<Rightarrow> bool" where
  "flag_matches Q p f \<longleftrightarrow>
     opt_all (\<lambda>b. Flag_Enabled f = b) (FindFlags_Enabled p) \<and>
     opt_all (\<lambda>d. d = [] \<or> Flag_Description f = d) (FindFlags_Description p) \<and>
     opt_all (\<lambda>k. k = [] \<or> Flag_Key f = k) (FindFlags_Key p) \<and>
     opt_all (\<lambda>d. contains_sub (q_lower Q (Flag_Description f)) (ToLower d)) (FindFlags_DescriptionLike p) \<and>
     (DeletedAt (Flag_Model f) \<noteq> None \<longleftrightarrow> FindFlags_Deleted p = Some True)"

text \<open>The texts between the commas of a list of names, said without splitting it.\<close>

definition listed :: "string \<Rightarrow> string \<Rightarrow> bool" where
  "listed names v \<longleftrightarrow> CHR '','' \<notin> set v \<and>
     (\<exists>before after. names = before @ v @ after \<and> (before = [] \<or> last before = CHR '','') \<and>
       (after = [] \<or> hd after = CHR '',''))"

text \<open>A flag has one of the tags asked for when a live row of the tags with a listed value is tagged to it.\<close>

definition tags_match_flag ::
  "('db \<Rightarrow> db_handle \<Rightarrow> table_kind \<Rightarrow> 'e row list) \<Rightarrow> ('db \<Rightarrow> u64 \<Rightarrow> u64 \<Rightarrow> bool) \<Rightarrow> FindFlagsParams \<Rightarrow> 'db \<Rightarrow> u64 \<Rightarrow> bool" where
  "tags_match_flag rows tagged p db i \<longleftrightarrow>
     opt_all (\<lambda>names. \<exists>t. RTag t \<in> set (rows db RootDB TTag) \<and> DeletedAt (Tag_Model t) = None \<and>
       listed names (Tag_Value t) \<and> tagged db i (Model_ID (Tag_Model t))) (FindFlags_Tags p)"

text \<open>The query for the tags that a search by tags starts with may fail; no tag is then found.\<close>

definition tag_lookup_fails :: "('e, 'db) query_lib \<Rightarrow> FindFlagsParams \<Rightarrow> 'db \<Rightarrow> bool" where
  "tag_lookup_fails Q p db \<longleftrightarrow> \<not> opt_all (\<lambda>names. \<exists>ts. q_Find Q TTag
     (add_where (row_where as_tag (\<lambda>t. Tag_Value t \<in> set (split_on (CHR '','') names))) new_query) db = Inr ts) (FindFlags_Tags p)"

lemma tags_of_rows: "t \<in> set (List.map_filter as_tag rs) \<longleftrightarrow> RTag t \<in> set rs"
proof (induction rs)
  case (Cons r rs)
  then show ?case by (cases r) (auto simp: List.map_filter_def)
qed (simp add: List.map_filter_def)

lemma split_on_listed: "v \<in> set (split_on (CHR '','') names) \<longleftrightarrow> listed names v"
proof
  let ?d = "CHR '',''"
  assume v: "v \<in> set (split_on ?d names)"
  then obtain vs ws where vs: "split_on ?d names = vs @ v # ws" by (meson split_list)
  let ?before = "if vs = [] then [] else join [?d] vs @ [?d]" and ?after = "if ws = [] then [] else ?d # join [?d] ws"
  have "names = join [?d] (vs @ v # ws)" by (simp only: vs [symmetric] join_split_on)
  also have "\<dots> = ?before @ v @ ?after" by (auto simp: join_append join_Cons)
  finally have "names = ?before @ v @ ?after" .
  then show "listed names v" using split_on_no_sep [OF v] unfolding listed_def
    by (intro conjI exI [of _ ?before] exI [of _ ?after]) auto
next
  let ?d = "CHR '',''"
  assume "listed names v"
  then obtain before after where l: "?d \<notin> set v" "names = before @ v @ after"
    "before = [] \<or> last before = ?d" "after = [] \<or> hd after = ?d" by (auto simp: listed_def)
  have v: "v \<in> set (split_on ?d (v @ after))"
  proof (cases after)
    case (Cons c after')
    then show ?thesis using l(1,4) split_on_sep [of ?d v after'] by (simp add: split_on_plain)
  qed (simp add: l(1) split_on_plain)
  show "v \<in> set (split_on ?d names)"
  proof (cases before rule: rev_cases)
    case (snoc before' c)
    then show ?thesis using l(2,3) v split_on_sep [of ?d before' "v @ after"] by simp
  qed (use v l(2) in simp)
qed

lemma lower_char_special: "lower_char c \<in> {CHR ''%'', CHR ''_'', CHR 0x5C} \<Longrightarrow> lower_char c = c"
proof (rule ccontr)
  assume special: "lower_char c \<in> {CHR ''%'', CHR ''_'', CHR 0x5C}" and "lower_char c \<noteq> c"
  then have c: "65 \<le> (of_char c :: nat)" "(of_char c :: nat) \<le> 90" "lower_char c = char_of (of_char c + 32 :: nat)"
    by (auto simp: lower_char_def Let_def split: if_splits)
  then have "(of_char (lower_char c) :: nat) = of_char c + 32" by simp
  with special c(1,2) show False by auto
qed

lemma plain_text_ToLower: "plain_text s \<Longrightarrow> plain_text (ToLower s)"
  unfolding plain_text_def ToLower_def using lower_char_special by fastforce

lemma where_param_sel:
  "lq_Where (where_param p P q) r \<longleftrightarrow> lq_Where q r \<and> opt_all (\<lambda>x. P x r) p"
  "lq_Unscoped (where_param p P q) = lq_Unscoped q" "lq_Order (where_param p P q) = lq_Order q"
  "lq_Desc (where_param p P q) = lq_Desc q" "lq_Limit (where_param p P q) = lq_Limit q"
  "lq_Offset (where_param p P q) = lq_Offset q"
  by (auto simp: where_param_def add_where_def opt_all_def split: option.split)

lemma FindFlags_query_sel:
  "lq_Unscoped (FindFlags_query Q p)" "\<not> lq_Desc (FindFlags_query Q p)"
  "lq_Order (FindFlags_query Q p) = by_columns (\<lambda>f. [uint (flag_ID f)]) as_flag"
  "lq_Limit (FindFlags_query Q p) = FindFlags_Limit p" "lq_Offset (FindFlags_query Q p) = FindFlags_Offset p"
  by (simp_all add: FindFlags_query_def Let_def add_where_def new_query_def where_param_sel split: if_split)

lemma map_page: "map f (page n m xs) = page n m (map f xs)"
  by (simp add: page_def Let_def take_map drop_map split: option.split)

lemma page_Nil [simp]: "page n m [] = []"
  by (simp add: page_def split: option.split)

lemma set_page: "set (page n m xs) \<subseteq> set xs"
  by (auto simp: page_def Let_def split: option.splits dest: in_set_takeD in_set_dropD)

lemma map_filter_kind:
  assumes "\<forall>r \<in> set rs. row_kind r = TFlag"
  shows "\<exists>fs. rs = map RFlag fs"
  using assms
proof (induction rs)
  case (Cons r rs)
  then obtain fs where "rs = map RFlag fs" by auto
  moreover obtain f where "r = RFlag f" using Cons.prems by (cases r) auto
  ultimately show ?case by (intro exI [of _ "f # fs"]) simp
qed simp

lemma map_filter_as_flag: "List.map_filter as_flag (map RFlag fs) = fs"
  by (induction fs) (simp_all add: List.map_filter_def)

lemma sorted_flag_ids:
  assumes "sorted (map (by_columns (\<lambda>f. [uint (flag_ID f)]) as_flag) (map RFlag fs))"
  shows "sorted (map flag_ID fs)"
proof -
  have "sorted (map (\<lambda>f. uint (flag_ID f)) fs)"
    using assms by (simp add: by_columns_def comp_def sorted_map sorted_wrt_map order_le_less)
  then show ?thesis by (simp add: sorted_map word_le_def)
qed

lemma sorted_list_of_set_eqI: "sorted xs \<Longrightarrow> distinct xs \<Longrightarrow> set xs = A \<Longrightarrow> xs = sorted_list_of_set A"
  using sorted_list_of_set.idem_if_sorted_distinct [of xs] by simp

lemma matching_FindFlags:
  assumes "opt_all plain_text (FindFlags_DescriptionLike p)"
    and like: "\<And>s t. plain_text s \<Longrightarrow> q_like Q t (''%'' @ s @ ''%'') = contains_sub t s"
  shows "matching (FindFlags_query Q p) (RFlag f) \<longleftrightarrow> flag_matches Q p f"
proof -
  have "opt_all (\<lambda>d. row_where as_flag (\<lambda>f. lower_like Q d (Flag_Description f)) (RFlag f)) (FindFlags_DescriptionLike p) \<longleftrightarrow>
    opt_all (\<lambda>d. contains_sub (q_lower Q (Flag_Description f)) (ToLower d)) (FindFlags_DescriptionLike p)"
    using assms(1) like [OF plain_text_ToLower]
    by (auto simp: opt_all_def row_where_def lower_like_def like_pattern_def split: option.splits)
  then show ?thesis
    by (auto simp: matching_def FindFlags_query_sel flag_matches_def)
      (auto simp: FindFlags_query_def Let_def add_where_def new_query_def where_param_sel row_where_def
        nonzero_eq_def opt_all_def split: option.splits if_splits)
qed

lemma same_columns:
  "row_columns (RFlag f) = row_columns (RFlag g) \<Longrightarrow>
    (Flag_Model f = Flag_Model g \<Longrightarrow> Flag_Key f = Flag_Key g \<Longrightarrow> Flag_Description f = Flag_Description g \<Longrightarrow>
      Flag_Enabled f = Flag_Enabled g \<Longrightarrow> R) \<Longrightarrow> R"
  by (cases f; cases g) simp

lemma same_columns_matches:
  "row_columns (RFlag f) = row_columns (RFlag g) \<Longrightarrow>
    flag_ID f = flag_ID g \<and> (flag_matches Q p f \<longleftrightarrow> flag_matches Q p g)"
  by (elim same_columns) (simp add: flag_matches_def)

context query_laws
begin

lemma tags_named_found:
  assumes "q_Find Q TTag
    (add_where (row_where as_tag (\<lambda>t. Tag_Value t \<in> set (split_on (CHR '','') names))) new_query) db = Inr rs"
  shows "t \<in> set (tags_named Q names db) \<longleftrightarrow>
    RTag t \<in> set (rows db RootDB TTag) \<and> DeletedAt (Tag_Model t) = None \<and> listed names (Tag_Value t)"
proof -
  let ?q = "add_where (row_where as_tag (\<lambda>t. Tag_Value t \<in> set (split_on (CHR '','') names))) new_query :: 'e list_query"
  have sel: "lq_Limit ?q = None" "lq_Offset ?q = None" by (simp_all add: add_where_def new_query_def)
  then have "proper_page ?q" by (simp add: proper_page_def)
  from Find_page [OF assms this] have "mset rs = mset (filter (matching ?q) (rows db RootDB TTag))"
    by (auto simp: sel page_def)
  from mset_eq_setD [OF this] have rs: "x \<in> set rs \<longleftrightarrow> x \<in> set (rows db RootDB TTag) \<and> matching ?q x" for x
    by simp
  have "t \<in> set (tags_named Q names db) \<longleftrightarrow> RTag t \<in> set rs"
    using assms by (simp add: tags_named_def typed_list_def sum_bind_def tags_of_rows)
  then show ?thesis
    by (auto simp: rs matching_def add_where_def new_query_def row_where_def live_def split_on_listed)
qed

lemma tags_named_lost:
  assumes "\<not> (\<exists>rs. q_Find Q TTag
    (add_where (row_where as_tag (\<lambda>t. Tag_Value t \<in> set (split_on (CHR '','') names))) new_query) db = Inr rs)"
  shows "tags_named Q names db = []"
  using assms by (auto simp: tags_named_def typed_list_def sum_bind_def split: sum.splits)

lemma found_flags:
  assumes "(case FindFlags_Tags p of None \<Rightarrow> q_Find Q TFlag q db
      | Some names \<Rightarrow> q_FindByTags Q (tags_named Q names db) q db) = Inr rs" "proper_page q"
  shows "\<exists>all. mset all = mset (filter (\<lambda>r. matching q r \<and> \<not> tag_lookup_fails Q p db \<and>
      tags_match_flag rows tagged p db (row_ID r)) (rows db RootDB TFlag)) \<and>
    ordered q all \<and> rs = page (lq_Limit q) (lq_Offset q) all"
proof (cases "FindFlags_Tags p")
  case None
  then show ?thesis
    using assms Find_page [of TFlag q db rs] by (auto simp: tags_match_flag_def tag_lookup_fails_def opt_all_def)
next
  case (Some names)
  have "(\<exists>t \<in> set (tags_named Q names db). tagged db i (Model_ID (Tag_Model t))) \<longleftrightarrow>
      \<not> tag_lookup_fails Q p db \<and> tags_match_flag rows tagged p db i" for i
  proof (cases "tag_lookup_fails Q p db")
    case True
    then have "tags_named Q names db = []"
      by (intro tags_named_lost) (simp add: tag_lookup_fails_def opt_all_def Some)
    then show ?thesis by (simp add: True)
  next
    case False
    then obtain ts where "q_Find Q TTag
      (add_where (row_where as_tag (\<lambda>t. Tag_Value t \<in> set (split_on (CHR '','') names))) new_query) db = Inr ts"
      by (auto simp: tag_lookup_fails_def opt_all_def Some)
    from tags_named_found [OF this] show ?thesis by (auto simp: False tags_match_flag_def opt_all_def Some)
  qed
  then show ?thesis
    using assms FindByTags_page [of "tags_named Q names db" q db rs] by (simp add: Some)
qed

text \<open>The flags that are found, before their associations are loaded.\<close>

lemma found_flag_ids:
  assumes "(case FindFlags_Tags p of None \<Rightarrow> q_Find Q TFlag (FindFlags_query Q p) db
      | Some names \<Rightarrow> q_FindByTags Q (tags_named Q names db) (FindFlags_query Q p) db) = Inr rs"
    and "proper_page (FindFlags_query Q p)" "opt_all plain_text (FindFlags_DescriptionLike p)"
    and "distinct (map row_ID (rows db RootDB TFlag))"
  shows "\<exists>fs. rs = map RFlag fs \<and> (\<forall>f \<in> set fs. flag_matches Q p f \<and> tags_match_flag rows tagged p db (flag_ID f)) \<and>
    map flag_ID fs = page (FindFlags_Limit p) (FindFlags_Offset p)
      (sorted_list_of_set {flag_ID f |f. RFlag f \<in> set (rows db RootDB TFlag) \<and> flag_matches Q p f \<and>
        \<not> tag_lookup_fails Q p db \<and> tags_match_flag rows tagged p db (flag_ID f)})"
proof -
  let ?q = "FindFlags_query Q p"
  let ?P = "\<lambda>r. matching ?q r \<and> \<not> tag_lookup_fails Q p db \<and> tags_match_flag rows tagged p db (row_ID r)"
  obtain all where all: "mset all = mset (filter ?P (rows db RootDB TFlag))" "ordered ?q all"
    "rs = page (FindFlags_Limit p) (FindFlags_Offset p) all"
    using found_flags [OF assms(1,2)] by (auto simp: FindFlags_query_sel)
  have set_all: "set all = {r \<in> set (rows db RootDB TFlag). ?P r}"
    using mset_eq_setD [OF all(1)] by auto
  then obtain as where as: "all = map RFlag as"
    using row_kinds map_filter_kind [of all] by blast
  have matches: "matching ?q (RFlag f) \<longleftrightarrow> flag_matches Q p f" for f
    by (rule matching_FindFlags [OF assms(3) like_contains])
  have mem: "f \<in> set as \<longleftrightarrow> RFlag f \<in> set (rows db RootDB TFlag) \<and> flag_matches Q p f \<and>
    \<not> tag_lookup_fails Q p db \<and> tags_match_flag rows tagged p db (flag_ID f)" for f
  proof -
    have "f \<in> set as \<longleftrightarrow> RFlag f \<in> set all" by (auto simp: as)
    then show ?thesis by (simp add: set_all matches)
  qed
  have "mset (map row_ID all) = mset (map row_ID (filter ?P (rows db RootDB TFlag)))"
    using all(1) by (metis mset_map)
  then have "distinct (map row_ID all)"
    using mset_eq_imp_distinct_iff distinct_map_filter [OF assms(4), of ?P] by blast
  then have "distinct (map flag_ID as)" by (simp add: as comp_def)
  moreover have "sorted (map flag_ID as)"
    using all(2) sorted_flag_ids [of as] by (simp only: ordered_def FindFlags_query_sel if_False as)
  moreover have "set (map flag_ID as) = {flag_ID f |f. RFlag f \<in> set (rows db RootDB TFlag) \<and> flag_matches Q p f \<and>
      \<not> tag_lookup_fails Q p db \<and> tags_match_flag rows tagged p db (flag_ID f)}"
    by (auto simp: mem)
  ultimately have ids: "map flag_ID as = sorted_list_of_set {flag_ID f |f. RFlag f \<in> set (rows db RootDB TFlag) \<and>
      flag_matches Q p f \<and> \<not> tag_lookup_fails Q p db \<and> tags_match_flag rows tagged p db (flag_ID f)}"
    by (intro sorted_list_of_set_eqI)
  let ?fs = "page (FindFlags_Limit p) (FindFlags_Offset p) as"
  have "\<forall>f \<in> set as. flag_matches Q p f \<and> tags_match_flag rows tagged p db (flag_ID f)" using mem by blast
  then have "\<forall>f \<in> set ?fs. flag_matches Q p f \<and> tags_match_flag rows tagged p db (flag_ID f)" using set_page [of "FindFlags_Limit p" "FindFlags_Offset p" as] by auto
  moreover have "rs = map RFlag ?fs" by (simp add: all(3) as map_page)
  moreover have "map flag_ID ?fs = page (FindFlags_Limit p) (FindFlags_Offset p) (map flag_ID as)" by (rule map_page)
  ultimately show ?thesis using ids by (intro exI [of _ ?fs]) simp
qed

lemma FindFlags_ok:
  assumes "outcome (FindFlags Q p db) = Inr (RespOK payload)"
    and "proper_page (FindFlags_query Q p)" "opt_all plain_text (FindFlags_DescriptionLike p)"
    and "distinct (map row_ID (rows db RootDB TFlag))"
  shows "\<exists>fs. payload = MapFlags fs \<and> (\<forall>f \<in> set fs. flag_matches Q p f \<and> tags_match_flag rows tagged p db (flag_ID f)) \<and>
    map flag_ID fs = page (FindFlags_Limit p) (FindFlags_Offset p)
      (sorted_list_of_set {flag_ID f |f. RFlag f \<in> set (rows db RootDB TFlag) \<and> flag_matches Q p f \<and>
        \<not> tag_lookup_fails Q p db \<and> tags_match_flag rows tagged p db (flag_ID f)})"
proof -
  obtain rs fs where rs: "(case FindFlags_Tags p of None \<Rightarrow> q_Find Q TFlag (FindFlags_query Q p) db
      | Some names \<Rightarrow> q_FindByTags Q (tags_named Q names db) (FindFlags_query Q p) db) = Inr rs"
    and fs: "sum_mapM (q_Preload Q (FindFlags_Preload p = Some True) (lq_Unscoped (FindFlags_query Q p)) db)
      (List.map_filter as_flag rs) = Inr fs"
    and payload: "payload = MapFlags fs"
    using assms(1) by (auto simp: FindFlags_def Let_def reject_def accept_def typed_list_def sum_bind_def
        split: sum.splits)
  obtain gs where gs: "rs = map RFlag gs"
    "\<forall>f \<in> set gs. flag_matches Q p f \<and> tags_match_flag rows tagged p db (flag_ID f)"
    "map flag_ID gs = page (FindFlags_Limit p) (FindFlags_Offset p)
      (sorted_list_of_set {flag_ID f |f. RFlag f \<in> set (rows db RootDB TFlag) \<and> flag_matches Q p f \<and>
        \<not> tag_lookup_fails Q p db \<and> tags_match_flag rows tagged p db (flag_ID f)})"
    using found_flag_ids [OF rs assms(2-4)] by blast
  have "list_all2 (\<lambda>g f. row_columns (RFlag f) = row_columns (RFlag g)) gs fs"
    using fs unfolding gs(1) map_filter_as_flag sum_mapM_Inr_iff
    by (rule list_all2_mono) (rule Preload_columns)
  then have same: "list_all2 (\<lambda>g f. flag_ID f = flag_ID g \<and> (flag_matches Q p f \<longleftrightarrow> flag_matches Q p g)) gs fs"
    by (rule list_all2_mono) (rule same_columns_matches)
  have "map flag_ID fs = map flag_ID gs" by (rule map_eq_list_all2 [OF same]) simp
  moreover have "\<forall>f \<in> set fs. flag_matches Q p f \<and> tags_match_flag rows tagged p db (flag_ID f)"
    using list_all2_in_right [OF same] gs(2) by metis
  ultimately show ?thesis using payload gs(3) by auto
qed

end

section \<open>Paging\<close>

lemma unat_page_offset:
  fixes n :: i64
  assumes "m * unat n < 2 ^ 63" "k < m"
  shows "unat (of_nat k * n) = k * unat n"
proof -
  have le: "k * unat n \<le> m * unat n" using assms(2) by simp
  have "k * unat n < 2 ^ 63" using le assms(1) by (rule le_less_trans)
  also have "(2 :: nat) ^ 63 < 2 ^ 64" by (rule power_strict_increasing) simp_all
  finally have lt: "k * unat n < 2 ^ LENGTH(64)" by simp
  have "of_nat k * n = (of_nat (k * unat n) :: i64)" by simp
  then show ?thesis using lt by (simp only: of_nat_inverse)
qed

lemma concat_pages:
  fixes n :: i64
  assumes "m * unat n < 2 ^ 63"
  shows "concat (map (\<lambda>k. page (Some n) (Some (of_nat k * n)) xs) [0..<m]) = take (m * unat n) xs"
  using assms
proof (induction m)
  case (Suc m)
  have "unat (of_nat m * n) = m * unat n" by (rule unat_page_offset [OF Suc.prems]) simp
  moreover have "m * unat n < 2 ^ 63" using Suc.prems by simp
  ultimately show ?case
    using Suc.IH by (simp add: page_def take_add add.commute [of "unat n" "m * unat n"])
qed simp

section \<open>The queries on the in-memory database\<close>

definition mem_page :: "'e list_query \<Rightarrow> 'e row list \<Rightarrow> 'e row list" where
  "mem_page q rs =
     (let xs = sort_key (lq_Order q) (filter (matching q) rs)
      in page (lq_Limit q) (lq_Offset q) (if lq_Desc q then rev xs else xs))"

definition mem_query :: "('e, 'e mem_db) query_lib" where
  "mem_query =
     \<lparr>q_Find = (\<lambda>k q db. if mem_ok (SFind k) RootDB db then Inr (mem_page q (mem_rows db RootDB k)) else Inl ''connection lost''),
      q_FindByTags = (\<lambda>ts q db. if mem_ok (SFind TFlag) RootDB db
        then Inr (mem_page q (filter (\<lambda>r. list_ex (\<lambda>t. (row_ID r, Model_ID (Tag_Model t)) \<in> set (mem_flag_tags db)) ts)
          (mem_rows db RootDB TFlag)))
        else Inl ''connection lost''),
      q_Preload = (\<lambda>full _ db f. if full then PreloadSegmentsVariantsTags mem_gorm RootDB db f
        else PreloadFlagTags mem_gorm RootDB db f),
      q_lower = ToLower,
      q_like = (\<lambda>t p. 2 \<le> length p \<and> hd p = CHR ''%'' \<and> last p = CHR ''%'' \<and> contains_sub t (butlast (tl p))),
      q_collate = map of_char\<rparr>"

lemma mem_page_ok:
  "\<exists>all. mset all = mset (filter (matching q) rs) \<and> ordered q all \<and> mem_page q rs = page (lq_Limit q) (lq_Offset q) all"
  by (rule exI [of _ "if lq_Desc q then rev (sort_key (lq_Order q) (filter (matching q) rs))
      else sort_key (lq_Order q) (filter (matching q) rs)"]) (simp add: mem_page_def ordered_def)

lemma PreloadFlagTags_columns:
  "PreloadFlagTags G h db f = Inr f' \<Longrightarrow> row_columns (RFlag f') = row_columns (RFlag f)"
  by (auto simp: PreloadFlagTags_def sum_bind_eq_Inr_iff)

lemma PreloadSegmentsVariantsTags_columns:
  "PreloadSegmentsVariantsTags G h db f = Inr f' \<Longrightarrow> row_columns (RFlag f') = row_columns (RFlag f)"
  unfolding PreloadSegmentsVariantsTags_def sum_bind_eq_Inr_iff
  by (elim exE conjE) (drule PreloadFlagTags_columns, simp)

interpretation mem_query: query_laws mem_query mem_rows "\<lambda>db i j. (i, j) \<in> set (mem_flag_tags db)"
proof (unfold_locales, goal_cases)
  case (1 r db h k)
  then show ?case by (simp add: mem_rows_def)
next
  case (2 k q db rs)
  then have "rs = mem_page q (mem_rows db RootDB k)" by (simp add: mem_query_def split: if_splits)
  then show ?case using mem_page_ok by simp
next
  case (3 ts q db rs)
  let ?T = "\<lambda>r. list_ex (\<lambda>t. (row_ID r, Model_ID (Tag_Model t)) \<in> set (mem_flag_tags db)) ts"
  from 3 have rs: "rs = mem_page q (filter ?T (mem_rows db RootDB TFlag))"
    by (simp add: mem_query_def split: if_splits)
  have "filter (matching q) (filter ?T (mem_rows db RootDB TFlag)) =
    filter (\<lambda>r. matching q r \<and> (\<exists>t \<in> set ts. (row_ID r, Model_ID (Tag_Model t)) \<in> set (mem_flag_tags db)))
      (mem_rows db RootDB TFlag)"
    by (simp add: list_ex_iff conj_commute)
  then show ?case using mem_page_ok [of q "filter ?T (mem_rows db RootDB TFlag)"] rs by simp
next
  case (4 full unscoped db f f')
  then show ?case
    by (auto simp: mem_query_def dest: PreloadFlagTags_columns PreloadSegmentsVariantsTags_columns
        simp del: row_columns.simps split: if_splits)
next
  case (5 s t)
  then show ?case by (simp add: mem_query_def)
qed

definition demo_flags_db :: "string mem_db" where
  "demo_flags_db = \<lparr>mem_committed = (\<lambda>k. if k = TFlag then map RFlag
      [zero_flag\<lparr>Flag_Model := zero_model\<lparr>Model_ID := 3\<rparr>, Flag_Key := ''c'', Flag_Description := ''Red Button''\<rparr>,
       zero_flag\<lparr>Flag_Model := zero_model\<lparr>Model_ID := 1\<rparr>, Flag_Key := ''a'', Flag_Description := ''a red one''\<rparr>,
       zero_flag\<lparr>Flag_Model := zero_model\<lparr>Model_ID := 2\<rparr>, Flag_Key := ''b'', Flag_Description := ''blue''\<rparr>] else []),
     mem_txs = [], mem_flag_tags = [], mem_faults = []\<rparr>"

definition demo_find :: FindFlagsParams where
  "demo_find = \<lparr>FindFlags_Deleted = None, FindFlags_Description = None, FindFlags_DescriptionLike = Some ''RED'',
     FindFlags_Enabled = None, FindFlags_Key = None, FindFlags_Limit = None, FindFlags_Offset = None,
     FindFlags_Preload = None, FindFlags_Tags = None\<rparr>"


definition payload_ids :: "m_flag option list \<Rightarrow> i64 list" where
  "payload_ids ms = List.map_filter (map_option MF_ID) ms"

lemma payload_ids_MapFlags [simp]: "payload_ids (MapFlags fs) = map int64_of_uint (map flag_ID fs)"
  by (induction fs) (simp_all add: payload_ids_def MapFlags_def MapFlag_def List.map_filter_def)

text \<open>The ids that a search finds in the database, all pages together.\<close>

definition matching_ids ::
  "('e, 'db) query_lib \<Rightarrow> ('db \<Rightarrow> db_handle \<Rightarrow> table_kind \<Rightarrow> 'e row list) \<Rightarrow> ('db \<Rightarrow> u64 \<Rightarrow> u64 \<Rightarrow> bool) \<Rightarrow>
    FindFlagsParams \<Rightarrow> 'db \<Rightarrow> i64 list" where
  "matching_ids Q rows tagged p db =
     (if tag_lookup_fails Q p db then []
      else map int64_of_uint (sorted_list_of_set {flag_ID f |f. RFlag f \<in> set (rows db RootDB TFlag) \<and>
        flag_matches Q p f \<and> tags_match_flag rows tagged p db (flag_ID f)}))"

lemma matching_ids_page_params:
  "matching_ids Q rows tagged (p\<lparr>FindFlags_Limit := l, FindFlags_Offset := o1\<rparr>) db = matching_ids Q rows tagged p db"
  by (simp add: matching_ids_def flag_matches_def tags_match_flag_def tag_lookup_fails_def)

context query_laws
begin

lemma FindFlags_ids:
  assumes "outcome (FindFlags Q p db) = Inr (RespOK payload)"
    and "proper_page (FindFlags_query Q p)" "opt_all plain_text (FindFlags_DescriptionLike p)"
    and "distinct (map row_ID (rows db RootDB TFlag))"
  shows "payload_ids payload = page (FindFlags_Limit p) (FindFlags_Offset p) (matching_ids Q rows tagged p db)"
    "\<exists>fs. payload = MapFlags fs \<and> (\<forall>f \<in> set fs. flag_matches Q p f \<and> tags_match_flag rows tagged p db (flag_ID f))"
  using FindFlags_ok [OF assms] by (auto simp: matching_ids_def simp flip: map_page)

lemma FindFlags_pages:
  fixes n :: i64
  assumes "\<And>k. k < m \<Longrightarrow> outcome (FindFlags Q (p\<lparr>FindFlags_Limit := Some n, FindFlags_Offset := Some (of_nat k * n)\<rparr>) db) =
      Inr (RespOK (payloads k))"
    and "0 < unat n" "m * unat n < 2 ^ 63" "opt_all plain_text (FindFlags_DescriptionLike p)"
    and "distinct (map row_ID (rows db RootDB TFlag))"
  shows "concat (map (\<lambda>k. payload_ids (payloads k)) [0..<m]) = take (m * unat n) (matching_ids Q rows tagged p db)"
proof -
  have one: "payload_ids (payloads k) = page (Some n) (Some (of_nat k * n)) (matching_ids Q rows tagged p db)" if "k < m" for k
  proof -
    let ?p = "p\<lparr>FindFlags_Limit := Some n, FindFlags_Offset := Some (of_nat k * n)\<rparr>"
    have un: "unat n < 2 ^ 63"
    proof -
      have "1 * unat n \<le> m * unat n" using that by (intro mult_le_mono1) simp
      then show ?thesis using assms(3) by linarith
    qed
    have "k * unat n \<le> m * unat n" using that by simp
    then have uk: "unat (of_nat k * n) < 2 ^ 63"
      unfolding unat_page_offset [OF assms(3) that] using assms(3) by linarith
    have "0 < sint n" "0 \<le> sint (of_nat k * n)"
      using assms(2) unfolding sint_eq_unat_small [OF un] sint_eq_unat_small [OF uk] by (simp_all only: of_nat_0_less_iff of_nat_0_le_iff)
    then have "proper_page (FindFlags_query Q ?p)"
      by (simp add: proper_page_def FindFlags_query_sel)
    from FindFlags_ids(1) [OF assms(1) [OF that] this] assms(4,5) show ?thesis
      by (simp add: matching_ids_page_params)
  qed
  have "concat (map (\<lambda>k. payload_ids (payloads k)) [0..<m]) =
    concat (map (\<lambda>k. page (Some n) (Some (of_nat k * n)) (matching_ids Q rows tagged p db)) [0..<m])"
    using one by (intro arg_cong [where f = concat] map_cong) simp_all
  then show ?thesis using concat_pages [OF assms(3)] by simp
qed

lemma lost_tags_empty:
  assumes "outcome (FindFlags Q p db) = Inr (RespOK payload)"
    and "proper_page (FindFlags_query Q p)" "opt_all plain_text (FindFlags_DescriptionLike p)"
    and "distinct (map row_ID (rows db RootDB TFlag))" "tag_lookup_fails Q p db"
  shows "payload = []"
proof -
  have "matching_ids Q rows tagged p db = []" by (simp add: matching_ids_def assms(5))
  then have "payload_ids payload = []"
    using FindFlags_ids(1) [OF assms(1-4)] by (simp add: page_def split: option.splits)
  moreover obtain fs :: "'e flag list" where "payload = MapFlags fs" using FindFlags_ids(2) [OF assms(1-4)] by auto
  ultimately have "map int64_of_uint (map flag_ID fs) = []" "payload = MapFlags fs"
    using payload_ids_MapFlags [of fs] by simp_all
  then show ?thesis by (simp add: MapFlags_def)
qed

end



lemma demo_find_ids:
  "(case outcome (FindFlags mem_query demo_find demo_flags_db) of Inr (RespOK ms) \<Rightarrow> payload_ids ms | _ \<Rightarrow> []) = [1, 3]"
  by code_simp

section \<open>Properties\<close>

text \<open>C29: a successful listing answers the flags it was asked for: for a positive limit, an offset that is not negative
  and a description pattern without wild cards, where ids are primary keys, the ids in the answer are the page of the ids, in
  increasing order, of exactly the stored flags that match every filter of the request: enabled, description, key,
  case-insensitive part of the description, deleted or not, and a live tag among the names between the commas;
  each answered flag matches them. If the query for the tags fails the answer is the empty list.\<close>

theorem FindFlags_lists_matches:
  assumes "query_laws Q rows tagged" "outcome (FindFlags Q p db) = Inr (RespOK payload)"
    and "proper_page (FindFlags_query Q p)" "opt_all plain_text (FindFlags_DescriptionLike p)"
    and "distinct (map row_ID (rows db RootDB TFlag))"
  shows "if tag_lookup_fails Q p db then payload = []
    else payload_ids payload = page (FindFlags_Limit p) (FindFlags_Offset p)
        (map int64_of_uint (sorted_list_of_set {flag_ID f |f. RFlag f \<in> set (rows db RootDB TFlag) \<and>
          flag_matches Q p f \<and> tags_match_flag rows tagged p db (flag_ID f)})) \<and>
      (\<exists>fs. payload = MapFlags fs \<and> (\<forall>f \<in> set fs. flag_matches Q p f \<and> tags_match_flag rows tagged p db (flag_ID f)))"
  using query_laws.FindFlags_ids [OF assms] query_laws.lost_tags_empty [OF assms] by (simp add: matching_ids_def)

definition demo_tagged_db :: "string mem_db" where
  "demo_tagged_db = demo_flags_db\<lparr>mem_committed := (mem_committed demo_flags_db)(TTag := map RTag
     [\<lparr>Tag_Model = zero_model\<lparr>Model_ID := 5\<rparr>, Tag_Value = ''x''\<rparr>,
      \<lparr>Tag_Model = zero_model\<lparr>Model_ID := 6\<rparr>, Tag_Value = ''y''\<rparr>]),
     mem_flag_tags := [(3, 6), (2, 5)]\<rparr>"

definition demo_find_tags :: FindFlagsParams where
  "demo_find_tags = demo_find\<lparr>FindFlags_Tags := Some ''z,y''\<rparr>"

lemma demo_find_tags_ids:
  "(case outcome (FindFlags mem_query demo_find_tags demo_tagged_db) of Inr (RespOK ms) \<Rightarrow> payload_ids ms | _ \<Rightarrow> []) = [3]"
  by code_simp

theorem FindFlags_lists_matches_witness:
  "\<exists>payload. outcome (FindFlags mem_query demo_find_tags demo_tagged_db) = Inr (RespOK payload) \<and>
    payload_ids payload = [3] \<and> (\<exists>fs :: string flag list. payload = MapFlags fs \<and>
      (\<forall>f \<in> set fs. flag_matches mem_query demo_find_tags f))"
proof -
  obtain payload where ok: "outcome (FindFlags mem_query demo_find_tags demo_tagged_db) = Inr (RespOK payload)"
    and ids: "payload_ids payload = [3]"
    using demo_find_tags_ids by (auto split: sum.splits response.splits)
  have "\<not> tag_lookup_fails mem_query demo_find_tags demo_tagged_db"
    by (simp add: tag_lookup_fails_def opt_all_def demo_find_tags_def demo_tagged_db_def demo_flags_db_def mem_query_def
        mem_ok_def mem_known_def)
  moreover have "proper_page (FindFlags_query mem_query demo_find_tags)"
    by (simp add: proper_page_def FindFlags_query_sel demo_find_tags_def demo_find_def)
  moreover have "opt_all plain_text (FindFlags_DescriptionLike demo_find_tags)" by code_simp
  moreover have "distinct (map row_ID (mem_rows demo_tagged_db RootDB TFlag))" by code_simp
  ultimately show ?thesis
    using FindFlags_lists_matches [OF mem_query.query_laws_axioms ok] ok ids by auto
qed



text \<open>A search by tags hides a failure: when the query for the named tags fails, its error is not looked at,
  and the search that goes on with no tags answers success with an empty list.\<close>

theorem FindFlags_lost_tags:
  assumes "query_laws Q rows tagged" "FindFlags_Tags p = Some names"
    and "q_Find Q TTag (add_where (row_where as_tag (\<lambda>t. Tag_Value t \<in> set (split_on (CHR '','') names))) new_query) db = Inl e"
    and "outcome (FindFlags Q p db) = Inr (RespOK payload)"
    and "proper_page (FindFlags_query Q p)" "opt_all plain_text (FindFlags_DescriptionLike p)"
    and "distinct (map row_ID (rows db RootDB TFlag))"
  shows "payload = []"
proof (rule query_laws.lost_tags_empty [OF assms(1,4-7)])
  show "tag_lookup_fails Q p db" using assms(2,3) by (simp add: tag_lookup_fails_def opt_all_def)
qed

theorem FindFlags_lost_tags_witness:
  "outcome (FindFlags mem_query (demo_find\<lparr>FindFlags_Tags := Some ''x''\<rparr>) (demo_flags_db\<lparr>mem_faults := [SFind TTag]\<rparr>)) =
    Inr (RespOK [])"
proof -
  let ?p = "demo_find\<lparr>FindFlags_Tags := Some ''x''\<rparr>"
  let ?db = "demo_flags_db\<lparr>mem_faults := [SFind TTag]\<rparr>"
  have "case outcome (FindFlags mem_query ?p ?db) of Inr (RespOK ms) \<Rightarrow> True | _ \<Rightarrow> False" by code_simp
  then obtain payload where ok: "outcome (FindFlags mem_query ?p ?db) = Inr (RespOK payload)"
    by (auto split: sum.splits response.splits)
  have "payload = []"
  proof (rule FindFlags_lost_tags [OF mem_query.query_laws_axioms _ _ ok])
    show "FindFlags_Tags ?p = Some ''x''" by simp
    show "q_Find mem_query TTag (add_where (row_where as_tag (\<lambda>t. Tag_Value t \<in> set (split_on (CHR '','') ''x''))) new_query) ?db =
      Inl ''connection lost''" by (simp add: mem_query_def mem_ok_def)
    show "proper_page (FindFlags_query mem_query ?p)"
      by (simp add: proper_page_def FindFlags_query_sel demo_find_def)
    show "opt_all plain_text (FindFlags_DescriptionLike ?p)" by code_simp
    show "distinct (map row_ID (mem_rows ?db RootDB TFlag))" by code_simp
  qed
  with ok show ?thesis by simp
qed

end
