(* ===== verification/Flagr_Record.thy ===== *)
theory Flagr_Record
  imports Flagr_Eval
begin

text \<open>
  The data recorders: \<^verbatim>\<open>pkg/handler/data_record_frame.go\<close>,
  \<^verbatim>\<open>data_recorder.go\<close>, \<^verbatim>\<open>data_recorder_kafka.go\<close>, \<^verbatim>\<open>data_recorder_kinesis.go\<close> and
  \<^verbatim>\<open>data_recorder_pubsub.go\<close>. How a recorder is set up, what it makes of an evaluation
  result and where it sends it. The clients of the message systems, the cipher, the certificate
  files and the JSON of a result are a parameter.
\<close>

section \<open>Encodings of the standard library\<close>

definition base64_alphabet :: string where
  "base64_alphabet = ''ABCDEFGHIJKLMNOPQRSTUVWXYZabcdefghijklmnopqrstuvwxyz0123456789+/''"

definition base64_char :: "nat \<Rightarrow> char" where
  "base64_char n = base64_alphabet ! n"

fun base64_bytes :: "nat list \<Rightarrow> string" where
  "base64_bytes [] = []"
| "base64_bytes [a] = [base64_char (a div 4), base64_char (a mod 4 * 16), CHR ''='', CHR ''='']"
| "base64_bytes [a, b] = [base64_char (a div 4), base64_char (a mod 4 * 16 + b div 16), base64_char (b mod 16 * 4), CHR ''='']"
| "base64_bytes (a # b # c # bs) =
     base64_char (a div 4) # base64_char (a mod 4 * 16 + b div 16) # base64_char (b mod 16 * 4 + c div 64) #
     base64_char (c mod 64) # base64_bytes bs"

definition base64_EncodeToString :: "string \<Rightarrow> string" where
  "base64_EncodeToString s = base64_bytes (map of_char s)"

text \<open>A JSON string as \<^verbatim>\<open>encoding/json\<close> writes it, for ASCII text.\<close>

definition hex_digit :: "nat \<Rightarrow> char" where
  "hex_digit n = ''0123456789abcdef'' ! n"

definition json_escape :: "char \<Rightarrow> string" where
  "json_escape c =
     (let n = of_char c :: nat in
      if c = CHR 0x22 \<or> c = CHR 0x5C then [CHR 0x5C, c]
      else if n = 10 then [CHR 0x5C, CHR ''n'']
      else if n = 13 then [CHR 0x5C, CHR ''r'']
      else if n = 9 then [CHR 0x5C, CHR ''t'']
      else if n = 8 then [CHR 0x5C, CHR ''b'']
      else if n = 12 then [CHR 0x5C, CHR ''f'']
      else if n < 32 \<or> c \<in> {CHR ''<'', CHR ''>'', CHR ''&''}
      then [CHR 0x5C, CHR ''u'', CHR ''0'', CHR ''0'', hex_digit (n div 16), hex_digit (n mod 16)]
      else [c])"

definition json_string :: "string \<Rightarrow> string" where
  "json_string s = [CHR 0x22] @ concat (map json_escape s) @ [CHR 0x22]"

section \<open>The libraries\<close>

datatype start_failure = StartPanic string | Fatal string

record tls_config =
  tls_Certificates :: "string list"
  tls_InsecureSkipVerify :: bool
  tls_RootCAs :: "string option"

record kafka_client =
  kc_TLS :: "tls_config option"
  kc_SASL :: "(string \<times> string) option"
  kc_MaxOpenRequests :: int
  kc_Compression :: int
  kc_RequiredAcks :: int
  kc_Idempotent :: bool
  kc_RetryMax :: int
  kc_FlushFrequency :: int
  kc_Version :: string

record kinesis_client =
  kin_StreamName :: string
  kin_BacklogCount :: int
  kin_MaxConnections :: int
  kin_FlushInterval :: int
  kin_BatchSize :: int
  kin_BatchCount :: int
  kin_AggregateBatchCount :: int
  kin_AggregateBatchSize :: int
  kin_Verbose :: bool

record record_lib =
  rl_MarshalBinary :: "eval_result \<Rightarrow> string err"
  rl_Compact :: "string \<Rightarrow> string err"
  rl_simplebox_Encrypt :: "string \<Rightarrow> string \<Rightarrow> string"
  rl_LoadX509KeyPair :: "string \<Rightarrow> string \<Rightarrow> string err"
  rl_ReadFile :: "string \<Rightarrow> string err"
  rl_ParseKafkaVersion :: "string \<Rightarrow> string err"
  rl_NewAsyncProducer :: "string list \<Rightarrow> kafka_client \<Rightarrow> error option"
  rl_LoadDefaultConfig :: "error option"
  rl_NewPubsubClient :: "string \<Rightarrow> string \<Rightarrow> error option"
  rl_KinesisPut :: "string \<Rightarrow> string \<Rightarrow> error option"
  rl_PubsubResult :: "string \<Rightarrow> error option"

section \<open>Frames\<close>

text \<open>The key has 32 bytes: a longer text is cut, a shorter one is filled up with zero bytes.\<close>

definition newSimpleboxEncryptor :: "string \<Rightarrow> string" where
  "newSimpleboxEncryptor k = take 32 (k @ replicate 32 (CHR 0x00))"

definition simplebox_Encrypt :: "record_lib \<Rightarrow> string \<Rightarrow> string \<Rightarrow> string" where
  "simplebox_Encrypt L key b = base64_EncodeToString (rl_simplebox_Encrypt L key b)"

record frame_options =
  Encrypted :: bool
  Encryptor :: "string option"
  FrameOutputMode :: string

record data_record_frame =
  drf_evalResult :: eval_result
  drf_options :: frame_options

definition frameOutputModePayloadRawJSON :: string where
  "frameOutputModePayloadRawJSON = ''payload_raw_json''"

definition raw_payload :: "record_lib \<Rightarrow> string \<Rightarrow> string err" where
  "raw_payload L payload = sum_bind (rl_Compact L payload) (\<lambda>p. Inr (''{'' @ json_string ''payload'' @ '':'' @ p @ ''}''))"

definition string_payload :: "string \<Rightarrow> bool \<Rightarrow> string" where
  "string_payload payload encrypted =
     ''{'' @ json_string ''payload'' @ '':'' @ json_string payload @ '','' @ json_string ''encrypted'' @ '':'' @
     (if encrypted then ''true'' else ''false'') @ ''}''"

definition MarshalJSON :: "record_lib \<Rightarrow> data_record_frame \<Rightarrow> string err" where
  "MarshalJSON L drf =
     sum_bind (rl_MarshalBinary L (drf_evalResult drf)) (\<lambda>payload.
       if FrameOutputMode (drf_options drf) = frameOutputModePayloadRawJSON then raw_payload L payload
       else case Encryptor (drf_options drf) of
           Some key \<Rightarrow>
             if Encrypted (drf_options drf) then Inr (string_payload (simplebox_Encrypt L key payload) True)
             else Inr (string_payload payload False)
         | None \<Rightarrow> Inr (string_payload payload False))"

text \<open>The context of a result is never nil here.\<close>

definition GetPartitionKey :: "cast_lib \<Rightarrow> data_record_frame \<Rightarrow> string" where
  "GetPartitionKey C drf = SafeString C (VString (EC_EntityID (ER_EvalContext (drf_evalResult drf))))"

definition Output :: "record_lib \<Rightarrow> data_record_frame \<Rightarrow> string err" where
  "Output L drf = sum_bind (MarshalJSON L drf) (rl_Compact L)"

section \<open>Setting a recorder up\<close>

definition mustParseKafkaVersion :: "record_lib \<Rightarrow> string \<Rightarrow> start_failure + string" where
  "mustParseKafkaVersion L version =
     (case rl_ParseKafkaVersion L version of Inl e \<Rightarrow> Inl (StartPanic e) | Inr v \<Rightarrow> Inr v)"

text \<open>The simple configuration replaces the one with the client certificate.\<close>

definition createTLSConfiguration ::
  "record_lib \<Rightarrow> string \<Rightarrow> string \<Rightarrow> string \<Rightarrow> bool \<Rightarrow> bool \<Rightarrow> start_failure + tls_config option" where
  "createTLSConfiguration L certFile keyFile caFile verifySSL simpleSSL =
     sum_bind
       (if certFile \<noteq> [] \<and> keyFile \<noteq> [] then
          (case rl_LoadX509KeyPair L certFile keyFile of
             Inl e \<Rightarrow> Inl (StartPanic e)
           | Inr cert \<Rightarrow> Inr (Some \<lparr>tls_Certificates = [cert], tls_InsecureSkipVerify = (\<not> verifySSL), tls_RootCAs = None\<rparr>))
        else Inr None) (\<lambda>t1.
     let t2 = (if simpleSSL
         then Some \<lparr>tls_Certificates = [], tls_InsecureSkipVerify = (\<not> verifySSL), tls_RootCAs = None\<rparr> else t1)
     in case t2 of
          None \<Rightarrow> Inr None
        | Some t \<Rightarrow>
            if caFile \<noteq> [] then
              (case rl_ReadFile L caFile of
                 Inl e \<Rightarrow> Inl (StartPanic e)
               | Inr caCert \<Rightarrow> Inr (Some (t\<lparr>tls_RootCAs := Some caCert\<rparr>)))
            else Inr (Some t))"

record kafka_recorder =
  kr_topic :: string
  kr_options :: frame_options
  kr_partitionKeyEnabled :: bool

definition NewKafkaRecorder :: "record_lib \<Rightarrow> config \<Rightarrow> start_failure + kafka_recorder" where
  "NewKafkaRecorder L cfg =
     (let k = the_kafka cfg in
      sum_bind (createTLSConfiguration L (RecorderKafkaCertFile k) (RecorderKafkaKeyFile k) (RecorderKafkaCAFile k)
          (RecorderKafkaVerifySSL k) (RecorderKafkaSimpleSSL k)) (\<lambda>tlscfg.
      sum_bind (mustParseKafkaVersion L (RecorderKafkaVersion k)) (\<lambda>version.
      let client =
        \<lparr>kc_TLS = tlscfg,
         kc_SASL = (if RecorderKafkaSASLUsername k \<noteq> [] \<and> RecorderKafkaSASLPassword k \<noteq> []
           then Some (RecorderKafkaSASLUsername k, RecorderKafkaSASLPassword k) else None),
         kc_MaxOpenRequests = RecorderKafkaMaxOpenReqs k, kc_Compression = RecorderKafkaCompressionCodec k,
         kc_RequiredAcks = RecorderKafkaRequiredAcks k, kc_Idempotent = RecorderKafkaIdempotent k,
         kc_RetryMax = RecorderKafkaRetryMax k, kc_FlushFrequency = RecorderKafkaFlushFrequency k,
         kc_Version = version\<rparr>
      in case rl_NewAsyncProducer L (split_on (CHR '','') (RecorderKafkaBrokers k)) client of
           Some e \<Rightarrow> Inl (Fatal e)
         | None \<Rightarrow>
             Inr \<lparr>kr_topic = RecorderKafkaTopic k,
               kr_options = \<lparr>Encrypted = RecorderKafkaEncrypted k,
                 Encryptor = (if RecorderKafkaEncrypted k \<and> RecorderKafkaEncryptionKey k \<noteq> []
                   then Some (newSimpleboxEncryptor (RecorderKafkaEncryptionKey k)) else None),
                 FrameOutputMode = RecorderFrameOutputMode (the_recorder cfg)\<rparr>,
               kr_partitionKeyEnabled = RecorderKafkaPartitionKeyEnabled k\<rparr>)))"

record kinesis_recorder =
  kin_client :: kinesis_client
  kin_options :: frame_options

definition NewKinesisRecorder :: "record_lib \<Rightarrow> config \<Rightarrow> start_failure + kinesis_recorder" where
  "NewKinesisRecorder L cfg =
     (case rl_LoadDefaultConfig L of
        Some e \<Rightarrow> Inl (Fatal e)
      | None \<Rightarrow>
          let k = the_kinesis cfg in
          Inr \<lparr>kin_client =
            \<lparr>kin_StreamName = RecorderKinesisStreamName k, kin_BacklogCount = RecorderKinesisBacklogCount k,
             kin_MaxConnections = RecorderKinesisMaxConnections k, kin_FlushInterval = RecorderKinesisFlushInterval k,
             kin_BatchSize = RecorderKinesisBatchSize k, kin_BatchCount = RecorderKinesisBatchCount k,
             kin_AggregateBatchCount = RecorderKinesisAggregateBatchCount k,
             kin_AggregateBatchSize = RecorderKinesisAggregateBatchSize k, kin_Verbose = RecorderKinesisVerbose k\<rparr>,
            kin_options = \<lparr>Encrypted = False, Encryptor = None,
              FrameOutputMode = RecorderFrameOutputMode (the_recorder cfg)\<rparr>\<rparr>)"

record pubsub_recorder =
  pr_topic :: string
  pr_options :: frame_options

definition NewPubsubRecorder :: "record_lib \<Rightarrow> config \<Rightarrow> start_failure + pubsub_recorder" where
  "NewPubsubRecorder L cfg =
     (case rl_NewPubsubClient L (RecorderPubsubProjectID (the_pubsub cfg)) (RecorderPubsubKeyFile (the_pubsub cfg)) of
        Some e \<Rightarrow> Inl (Fatal e)
      | None \<Rightarrow>
          Inr \<lparr>pr_topic = RecorderPubsubTopicName (the_pubsub cfg),
            pr_options = \<lparr>Encrypted = False, Encryptor = None,
              FrameOutputMode = RecorderFrameOutputMode (the_recorder cfg)\<rparr>\<rparr>)"

section \<open>Recording\<close>

datatype recorder = KafkaRec kafka_recorder | KinesisRec kinesis_recorder | PubsubRec pubsub_recorder

datatype record_effect =
    KafkaMessage string "string option" string
  | KinesisRecord string string
  | PubsubMessage string string
  | RecordCount string "string list"
  | RecordLog string error

definition logKafkaAsyncRecordToDatadog :: "cast_lib \<Rightarrow> bool \<Rightarrow> eval_result \<Rightarrow> record_effect list" where
  "logKafkaAsyncRecordToDatadog C statsd r =
     (if \<not> statsd then []
      else [RecordCount ''data_recorder.kafka'' [''FlagID:'' @ dec_uint (SafeUint C (VInt64 (ER_FlagID r)))]])"

definition kafka_AsyncRecord :: "record_lib \<Rightarrow> cast_lib \<Rightarrow> bool \<Rightarrow> kafka_recorder \<Rightarrow> eval_result \<Rightarrow> record_effect list" where
  "kafka_AsyncRecord L C statsd k r =
     (let frame = \<lparr>drf_evalResult = r, drf_options = kr_options k\<rparr> in
      case Output L frame of
        Inl e \<Rightarrow> [RecordLog ''failed to generate data record frame for kafka recorder'' e]
      | Inr output \<Rightarrow>
          KafkaMessage (kr_topic k) (if kr_partitionKeyEnabled k then Some (GetPartitionKey C frame) else None) output #
          logKafkaAsyncRecordToDatadog C statsd r)"

definition kinesis_AsyncRecord :: "record_lib \<Rightarrow> cast_lib \<Rightarrow> kinesis_recorder \<Rightarrow> eval_result \<Rightarrow> record_effect list" where
  "kinesis_AsyncRecord L C k r =
     (let frame = \<lparr>drf_evalResult = r, drf_options = kin_options k\<rparr> in
      case Output L frame of
        Inl e \<Rightarrow> [RecordLog ''failed to generate data record frame for kinesis recorder'' e]
      | Inr output \<Rightarrow>
          KinesisRecord output (GetPartitionKey C frame) #
          (case rl_KinesisPut L output (GetPartitionKey C frame) of
             None \<Rightarrow> [] | Some e \<Rightarrow> [RecordLog ''error pushing to kinesis'' e]))"

definition pubsub_AsyncRecord :: "record_lib \<Rightarrow> bool \<Rightarrow> pubsub_recorder \<Rightarrow> eval_result \<Rightarrow> record_effect list" where
  "pubsub_AsyncRecord L verbose p r =
     (let frame = \<lparr>drf_evalResult = r, drf_options = pr_options p\<rparr> in
      case Output L frame of
        Inl e \<Rightarrow> [RecordLog ''failed to generate data record frame for pubsub recorder'' e]
      | Inr output \<Rightarrow>
          PubsubMessage (pr_topic p) output #
          (if verbose then (case rl_PubsubResult L output of
             None \<Rightarrow> [] | Some e \<Rightarrow> [RecordLog ''error pushing to pubsub'' e]) else []))"

fun record_result :: "record_lib \<Rightarrow> cast_lib \<Rightarrow> config \<Rightarrow> bool \<Rightarrow> recorder \<Rightarrow> eval_result \<Rightarrow> record_effect list" where
  "record_result L C cfg statsd (KafkaRec k) r = kafka_AsyncRecord L C statsd k r"
| "record_result L C cfg statsd (KinesisRec k) r = kinesis_AsyncRecord L C k r"
| "record_result L C cfg statsd (PubsubRec p) r = pubsub_AsyncRecord L (RecorderPubsubVerbose (the_pubsub cfg)) p r"

text \<open>
  The recorder is made once. A failure leaves the once used up and the recorder nil, so that later
  calls get the nil recorder.
\<close>

record recorder_once =
  once_done :: bool
  singletonDataRecorder :: "recorder option"

definition new_DataRecorder :: "record_lib \<Rightarrow> config \<Rightarrow> start_failure + recorder" where
  "new_DataRecorder L cfg =
     (let recorderType = RecorderType (the_recorder cfg) in
      if recorderType = ''kafka'' then map_sum id KafkaRec (NewKafkaRecorder L cfg)
      else if recorderType = ''kinesis'' then map_sum id KinesisRec (NewKinesisRecorder L cfg)
      else if recorderType = ''pubsub'' then map_sum id PubsubRec (NewPubsubRecorder L cfg)
      else Inl (StartPanic ''recorderType not supported''))"

definition GetDataRecorder ::
  "record_lib \<Rightarrow> config \<Rightarrow> recorder_once \<Rightarrow> (start_failure + recorder option) \<times> recorder_once" where
  "GetDataRecorder L cfg st =
     (if once_done st then (Inr (singletonDataRecorder st), st)
      else case new_DataRecorder L cfg of
          Inl f \<Rightarrow> (Inl f, st\<lparr>once_done := True\<rparr>)
        | Inr r \<Rightarrow> (Inr (Some r), \<lparr>once_done = True, singletonDataRecorder = Some r\<rparr>))"

text \<open>What the events of evaluations send.\<close>

definition sent ::
  "record_lib \<Rightarrow> cast_lib \<Rightarrow> config \<Rightarrow> bool \<Rightarrow> recorder \<Rightarrow> eval_event list \<Rightarrow> record_effect list" where
  "sent L C cfg statsd rec evs =
     concat (map (\<lambda>e. case e of AsyncRecord r \<Rightarrow> record_result L C cfg statsd rec r | _ \<Rightarrow> []) evs)"

section \<open>What a recorder does\<close>

lemma sent_append: "sent L C cfg statsd rec (es @ es') = sent L C cfg statsd rec es @ sent L C cfg statsd rec es'"
  by (simp add: sent_def)

lemma sent_simps [simp]:
  "sent L C cfg statsd rec [] = []" "sent L C cfg statsd rec [AsyncRecord r] = record_result L C cfg statsd rec r"
  "sent L C cfg statsd rec [ConsoleLog r] = []" "sent L C cfg statsd rec [StatsdIncr n ts] = []"
  "sent L C cfg statsd rec [EvalCounterInc ts] = []"
  by (simp_all add: sent_def)

lemma result_of_context: "ER_EvalContext (fst (result_of env f ctx out st)) = ctx"
  by (simp add: result_of_def BlankResult_def Let_def case_prod_beta split: option.splits)

lemma EvalFlagWithContext_entity:
  assumes "Flag_Enabled f" "Flag_Segments f \<noteq> []"
    and "EvalFlagWithContext env (Some f) ctx st = Inr (r, st')"
  shows "EC_EntityID (ER_EvalContext r) = effective_entityID env ctx st"
proof -
  obtain out where "result_of env f (effective_context env f ctx st) out (draw_entityID ctx st) = (r, st')"
    using assms(3) unfolding EvalFlagWithContext_enabled [OF assms(1,2)] by (auto simp: sum_bind_eq_Inr_iff)
  then show ?thesis
    using result_of_context [of env f "effective_context env f ctx st" out "draw_entityID ctx st"] by simp
qed

lemma createTLSConfiguration_Inr:
  assumes "createTLSConfiguration L certFile keyFile caFile verifySSL simpleSSL = Inr t"
  shows "(t \<noteq> None \<longleftrightarrow> simpleSSL \<or> certFile \<noteq> [] \<and> keyFile \<noteq> []) \<and>
    (\<forall>c. t = Some c \<longrightarrow> tls_InsecureSkipVerify c = (\<not> verifySSL) \<and> (tls_RootCAs c \<noteq> None \<longleftrightarrow> caFile \<noteq> []) \<and>
      (tls_Certificates c = [] \<longleftrightarrow> simpleSSL))"
  using assms by (auto simp: createTLSConfiguration_def sum_bind_eq_Inr_iff Let_def split: if_splits sum.splits)

lemma NewKafkaRecorder_options:
  assumes "NewKafkaRecorder L cfg = Inr k"
  shows "kr_topic k = RecorderKafkaTopic (the_kafka cfg)"
    "kr_partitionKeyEnabled k = RecorderKafkaPartitionKeyEnabled (the_kafka cfg)"
    "kr_options k = \<lparr>Encrypted = RecorderKafkaEncrypted (the_kafka cfg),
      Encryptor = (if RecorderKafkaEncrypted (the_kafka cfg) \<and> RecorderKafkaEncryptionKey (the_kafka cfg) \<noteq> []
        then Some (newSimpleboxEncryptor (RecorderKafkaEncryptionKey (the_kafka cfg))) else None),
      FrameOutputMode = RecorderFrameOutputMode (the_recorder cfg)\<rparr>"
  using assms by (auto simp: NewKafkaRecorder_def sum_bind_eq_Inr_iff Let_def split: option.splits)

section \<open>Fixtures\<close>

definition demo_record_lib :: record_lib where
  "demo_record_lib =
     \<lparr>rl_MarshalBinary = (\<lambda>r. Inr (''{'' @ json_string ''flagKey'' @ '':'' @ json_string (ER_FlagKey r) @ ''}'')),
      rl_Compact = Inr, rl_simplebox_Encrypt = (\<lambda>key b. rev b), rl_LoadX509KeyPair = (\<lambda>c k. Inr (c @ k)),
      rl_ReadFile = Inr, rl_ParseKafkaVersion = Inr, rl_NewAsyncProducer = (\<lambda>_ _. None),
      rl_LoadDefaultConfig = None, rl_NewPubsubClient = (\<lambda>_ _. None), rl_KinesisPut = (\<lambda>_ _. None),
      rl_PubsubResult = (\<lambda>_. None)\<rparr>"

definition demo_record_cfg :: config where
  "demo_record_cfg = default_config\<lparr>the_recorder := (the_recorder default_config)\<lparr>RecorderEnabled := True\<rparr>,
     the_kafka := (the_kafka default_config)\<lparr>RecorderKafkaEncrypted := True, RecorderKafkaEncryptionKey := []\<rparr>\<rparr>"

definition demo_kafka :: kafka_recorder where
  "demo_kafka = (case NewKafkaRecorder demo_record_lib demo_record_cfg of Inr k \<Rightarrow> k | Inl _ \<Rightarrow>
     \<lparr>kr_topic = [], kr_options = \<lparr>Encrypted = False, Encryptor = None, FrameOutputMode = []\<rparr>, kr_partitionKeyEnabled = False\<rparr>)"

lemma base64_example: "base64_EncodeToString ''flagr'' = ''ZmxhZ3I=''"
  by code_simp

lemma demo_kafka_ok: "NewKafkaRecorder demo_record_lib demo_record_cfg = Inr demo_kafka"
proof -
  have "case NewKafkaRecorder demo_record_lib demo_record_cfg of Inr _ \<Rightarrow> True | Inl _ \<Rightarrow> False" by code_simp
  then show ?thesis by (simp add: demo_kafka_def split: sum.splits)
qed

definition demo_recorded_flag :: "string flag" where
  "demo_recorded_flag = demo_flag\<lparr>Flag_DataRecordsEnabled := True\<rparr>"

lemma demo_recorded_sel: "Flag_Enabled demo_recorded_flag" "Flag_Segments demo_recorded_flag \<noteq> []"
  "Flag_DataRecordsEnabled demo_recorded_flag"
  using demo_flag_sel by (simp_all add: demo_recorded_flag_def)

definition demo_recorded :: "(eval_result \<times> eval_state) go" where
  "demo_recorded = EvalFlagWithContext (demo_env empty_container demo_record_cfg) (Some demo_recorded_flag)
     demo_context initial_eval_state"

lemma demo_recorded_ok: "\<exists>r st'. demo_recorded = Inr (r, st')"
proof -
  have "case demo_recorded of Inr _ \<Rightarrow> True | Inl _ \<Rightarrow> False" by code_simp
  then show ?thesis by (auto split: sum.splits)
qed

section \<open>Properties\<close>

lemma unrecorded_events:
  assumes "EvalFlagWithContext env fo ctx st = Inr (r, st')" "\<nexists>f. fo = Some f \<and> Flag_Enabled f \<and> Flag_Segments f \<noteq> []"
  shows "events st' = events st"
  using assms by (auto simp: EvalFlagWithContext_def Let_def BlankResult_def case_prod_beta
      split: option.splits if_splits)

text \<open>C31: an evaluation is recorded once or not at all. With the Kafka recorder, what an evaluation emits makes
  exactly one message when recording is on for the server and for the flag, the flag is enabled and has segments, and
  the frame of the result can be written; the message goes to the configured topic, carries the frame of this very
  result, and its key, where keys are switched on, is the id the entity was evaluated under. A frame that cannot be
  written is logged and not sent, and in every other case, a flag that is not found, not enabled or without segments
  included, nothing is sent.\<close>

theorem evaluation_recorded_once:
  assumes "cast_laws (env_cast env)" "EvalFlagWithContext env fo ctx st = Inr (r, st')"
  shows "\<exists>evs. events st' = events st @ evs \<and>
    sent L (env_cast env) (env_Config env) statsd (KafkaRec k) evs =
      (if RecorderEnabled (the_recorder (env_Config env)) \<and>
          (\<exists>f. fo = Some f \<and> Flag_Enabled f \<and> Flag_Segments f \<noteq> [] \<and> Flag_DataRecordsEnabled f)
       then case Output L \<lparr>drf_evalResult = r, drf_options = kr_options k\<rparr> of
           Inl e \<Rightarrow> [RecordLog ''failed to generate data record frame for kafka recorder'' e]
         | Inr msg \<Rightarrow> KafkaMessage (kr_topic k)
             (if kr_partitionKeyEnabled k then Some (effective_entityID env ctx st) else None) msg #
           logKafkaAsyncRecordToDatadog (env_cast env) statsd r
       else [])"
proof (cases "\<exists>f. fo = Some f \<and> Flag_Enabled f \<and> Flag_Segments f \<noteq> []")
  case True
  then obtain f where f: "fo = Some f" "Flag_Enabled f" "Flag_Segments f \<noteq> []" by blast
  note eval = f(2,3) assms(2) [unfolded f(1)]
  have "record_result L (env_cast env) (env_Config env) statsd (KafkaRec k) r =
    (case Output L \<lparr>drf_evalResult = r, drf_options = kr_options k\<rparr> of
       Inl e \<Rightarrow> [RecordLog ''failed to generate data record frame for kafka recorder'' e]
     | Inr msg \<Rightarrow> KafkaMessage (kr_topic k) (if kr_partitionKeyEnabled k then Some (effective_entityID env ctx st) else None) msg #
         logKafkaAsyncRecordToDatadog (env_cast env) statsd r)"
    using EvalFlagWithContext_entity [OF eval] cast_laws.ToString_string [OF assms(1)]
    by (simp add: kafka_AsyncRecord_def GetPartitionKey_def SafeString_def Let_def split: sum.split)
  then show ?thesis
    using EvalFlagWithContext_events [OF eval] f by (auto simp: sent_append)
next
  case False
  then have "\<nexists>f. fo = Some f \<and> Flag_Enabled f \<and> Flag_Segments f \<noteq> [] \<and> Flag_DataRecordsEnabled f" by blast
  then show ?thesis using unrecorded_events [OF assms(2) False]
    by (intro exI [of _ "[]"]) (simp only: sent_simps if_False append_Nil2 conj_absorb simp_thms)
qed

theorem evaluation_recorded_once_witness:
  "\<exists>r st' msg. demo_recorded = Inr (r, st') \<and>
    sent demo_record_lib go_cast demo_record_cfg False (KafkaRec demo_kafka) (events st') =
      [KafkaMessage ''flagr-records'' (Some ''a'') msg]"
proof -
  let ?env = "demo_env empty_container demo_record_cfg"
  obtain r st' where ev: "demo_recorded = Inr (r, st')" using demo_recorded_ok by blast
  have opts: "Encryptor (kr_options demo_kafka) = None"
    "FrameOutputMode (kr_options demo_kafka) \<noteq> frameOutputModePayloadRawJSON" by code_simp+
  then obtain msg where out: "Output demo_record_lib \<lparr>drf_evalResult = r, drf_options = kr_options demo_kafka\<rparr> = Inr msg"
    by (auto simp: Output_def MarshalJSON_def demo_record_lib_def)
  have on: "RecorderEnabled (the_recorder demo_record_cfg)" "kr_partitionKeyEnabled demo_kafka"
    "kr_topic demo_kafka = ''flagr-records''" by code_simp+
  have id: "effective_entityID ?env demo_context initial_eval_state = ''a''" by code_simp
  have "\<exists>evs. events st' = events initial_eval_state @ evs \<and>
    sent demo_record_lib go_cast demo_record_cfg False (KafkaRec demo_kafka) evs =
      [KafkaMessage ''flagr-records'' (Some ''a'') msg]"
    using evaluation_recorded_once [of ?env "Some demo_recorded_flag" demo_context initial_eval_state r st' demo_record_lib
        False demo_kafka] ev out on id demo_recorded_sel go_cast.cast_laws_axioms
    by (simp add: demo_recorded_def logKafkaAsyncRecordToDatadog_def)
  then show ?thesis using ev by (auto simp: initial_eval_state_def)
qed

text \<open>C32: records are secret only by mode, switch and key together: the frame of the configured Kafka recorder
  carries the encrypted payload exactly when the frame is not the raw one, encryption is on and a key
  is set; with encryption on and no key the payload goes out readable, marked as not encrypted.\<close>

theorem kafka_payload_secrecy:
  assumes "NewKafkaRecorder L cfg = Inr k" "rl_MarshalBinary L r = Inr payload"
  shows "MarshalJSON L \<lparr>drf_evalResult = r, drf_options = kr_options k\<rparr> =
    (if RecorderFrameOutputMode (the_recorder cfg) = ''payload_raw_json'' then raw_payload L payload
     else if RecorderKafkaEncrypted (the_kafka cfg) \<and> RecorderKafkaEncryptionKey (the_kafka cfg) \<noteq> []
     then Inr (string_payload (simplebox_Encrypt L
       (take 32 (RecorderKafkaEncryptionKey (the_kafka cfg) @ replicate 32 (CHR 0x00))) payload) True)
     else Inr (string_payload payload False))"
  using assms(2) by (simp add: MarshalJSON_def NewKafkaRecorder_options(3) [OF assms(1)]
      frameOutputModePayloadRawJSON_def newSimpleboxEncryptor_def)

theorem kafka_payload_secrecy_witness:
  "RecorderKafkaEncrypted (the_kafka demo_record_cfg) \<and>
   (\<forall>r. MarshalJSON demo_record_lib \<lparr>drf_evalResult = r, drf_options = kr_options demo_kafka\<rparr> =
     Inr (string_payload (''{'' @ json_string ''flagKey'' @ '':'' @ json_string (ER_FlagKey r) @ ''}'') False))"
proof (intro conjI allI)
  show on: "RecorderKafkaEncrypted (the_kafka demo_record_cfg)" by code_simp
  have cfg: "RecorderKafkaEncryptionKey (the_kafka demo_record_cfg) = []"
    "RecorderFrameOutputMode (the_recorder demo_record_cfg) \<noteq> ''payload_raw_json''"
    by code_simp+
  fix r :: eval_result
  have r: "rl_MarshalBinary demo_record_lib r =
    Inr (''{'' @ json_string ''flagKey'' @ '':'' @ json_string (ER_FlagKey r) @ ''}'')"
    by (simp add: demo_record_lib_def)
  show "MarshalJSON demo_record_lib \<lparr>drf_evalResult = r, drf_options = kr_options demo_kafka\<rparr> =
     Inr (string_payload (''{'' @ json_string ''flagKey'' @ '':'' @ json_string (ER_FlagKey r) @ ''}'') False)"
    using kafka_payload_secrecy [OF demo_kafka_ok r] on cfg by simp
qed

text \<open>The TLS configuration of the Kafka client: it is on exactly with the simple switch or with both a
  certificate and a key file, a root is added exactly when a file for it is named, and the client
  certificate is in it exactly without the simple switch, which replaces the configuration that had
  loaded it.\<close>

theorem kafka_tls_configuration:
  assumes "createTLSConfiguration L certFile keyFile caFile verifySSL simpleSSL = Inr t"
  shows "(t \<noteq> None \<longleftrightarrow> simpleSSL \<or> certFile \<noteq> [] \<and> keyFile \<noteq> []) \<and>
    (\<forall>c. t = Some c \<longrightarrow> tls_InsecureSkipVerify c = (\<not> verifySSL) \<and> (tls_RootCAs c \<noteq> None \<longleftrightarrow> caFile \<noteq> []) \<and>
      (tls_Certificates c = [] \<longleftrightarrow> simpleSSL))"
  by (rule createTLSConfiguration_Inr [OF assms])

theorem kafka_tls_configuration_witness:
  "tls_Certificates (the (projr (createTLSConfiguration demo_record_lib ''c'' ''k'' [] True True))) = []"
proof -
  have "createTLSConfiguration demo_record_lib ''c'' ''k'' [] True True =
    Inr (Some \<lparr>tls_Certificates = [], tls_InsecureSkipVerify = False, tls_RootCAs = None\<rparr>)"
    by (simp add: createTLSConfiguration_def demo_record_lib_def)
  from kafka_tls_configuration [OF this] this show ?thesis by simp
qed

end
