(* ===== verification/Flagr_Url.thy ===== *)
theory Flagr_Url
  imports Flagr_Params "HOL-Library.List_Lexorder" "HOL-Library.Char_ord"
begin

text \<open>
  What the generated URL builders use of Go's standard library (\<^verbatim>\<open>net/url\<close>, \<^verbatim>\<open>path\<close>,
  \<^verbatim>\<open>strings\<close>) and of \<^verbatim>\<open>go-openapi/swag\<close>: the escaping and parsing of queries, the
  replacement of the place holders of a path, and the printing of a URL. The formatting functions of
  \<^verbatim>\<open>swag\<close> are a parameter, with their relation to its conversions as the locale \<open>swag_laws\<close>.
\<close>

section \<open>Queries\<close>

definition url_unreserved :: "char \<Rightarrow> bool" where
  "url_unreserved c \<longleftrightarrow> is_word_char c \<or> c \<in> {CHR ''-'', CHR ''.'', CHR ''~''}"

definition url_hex :: "nat \<Rightarrow> char" where
  "url_hex n = ''0123456789ABCDEF'' ! n"

definition percent_escape :: "char \<Rightarrow> string" where
  "percent_escape c = [CHR ''%'', url_hex (of_char c div 16), url_hex (of_char c mod 16)]"

definition QueryEscape :: "string \<Rightarrow> string" where
  "QueryEscape s = concat (map (\<lambda>c. if url_unreserved c then [c] else if c = CHR '' '' then ''+''
     else percent_escape c) s)"

definition unhex :: "char \<Rightarrow> nat option" where
  "unhex c = (let n = of_char c :: nat in
     if 48 \<le> n \<and> n \<le> 57 then Some (n - 48)
     else if 97 \<le> n \<and> n \<le> 102 then Some (n - 87)
     else if 65 \<le> n \<and> n \<le> 70 then Some (n - 55) else None)"

fun QueryUnescape :: "string \<Rightarrow> string option" where
  "QueryUnescape [] = Some []"
| "QueryUnescape (c # s) =
     (if c = CHR ''%'' then
        (case s of
           a # b # t \<Rightarrow>
             (case unhex a of None \<Rightarrow> None
              | Some x \<Rightarrow> (case unhex b of None \<Rightarrow> None
                  | Some y \<Rightarrow> map_option (\<lambda>r. char_of (16 * x + y) # r) (QueryUnescape t)))
         | _ \<Rightarrow> None)
      else map_option (\<lambda>r. (if c = CHR ''+'' then CHR '' '' else c) # r) (QueryUnescape s))"

text \<open>\<^verbatim>\<open>url.Values\<close> is a map from keys to lists of values; \<^verbatim>\<open>Encode\<close> visits the keys in
  the order of their bytes.\<close>

type_synonym url_values = "(string \<times> string list) list"

definition values_Set :: "string \<Rightarrow> string \<Rightarrow> url_values \<Rightarrow> url_values" where
  "values_Set k v vs = AList.update k [v] vs"

definition values_Encode :: "url_values \<Rightarrow> string" where
  "values_Encode vs = join ''&'' (concat (map (\<lambda>k. map (\<lambda>v. QueryEscape k @ ''='' @ QueryEscape v)
     (case map_of vs k of Some xs \<Rightarrow> xs | None \<Rightarrow> [])) (sort (map fst vs))))"

definition parse_pair :: "string \<Rightarrow> (string \<times> string) option" where
  "parse_pair kv =
     (if kv = [] \<or> CHR '';'' \<in> set kv then None
      else case (QueryUnescape (takeWhile (\<lambda>c. c \<noteq> CHR ''='') kv),
                 QueryUnescape (tl (dropWhile (\<lambda>c. c \<noteq> CHR ''='') kv))) of
             (Some k, Some v) \<Rightarrow> Some (k, v) | _ \<Rightarrow> None)"

text \<open>\<^verbatim>\<open>URL.Query\<close> drops the malformed pairs; the values of a key keep their order.\<close>

definition URL_Query :: "string \<Rightarrow> string \<Rightarrow> string list" where
  "URL_Query q name = map snd (filter (\<lambda>p. fst p = name) (List.map_filter parse_pair (split_on (CHR ''&'') q)))"

section \<open>Escaping is undone by unescaping\<close>

lemma of_char_nibbles: "of_char c div 16 < (16 :: nat)" "of_char c mod 16 < (16 :: nat)"
  using nat_of_char_less_256 [of c] by (simp_all add: less_mult_imp_div_less)

lemma unhex_url_hex:
  assumes "n < 16"
  shows "unhex (url_hex n) = Some n"
proof -
  have "n \<in> set [0..<16]" using assms by simp
  moreover have "list_all (\<lambda>n. unhex (url_hex n) = Some n) [0..<16]"
    by (simp add: unhex_def url_hex_def upt_rec Let_def)
  ultimately show ?thesis by (auto simp only: list_all_iff)
qed

lemma QueryUnescape_percent:
  "QueryUnescape (percent_escape c @ s) = map_option (\<lambda>r. c # r) (QueryUnescape s)"
proof -
  have "16 * (of_char c div 16) + of_char c mod 16 = (of_char c :: nat)" by simp
  then show ?thesis by (simp add: percent_escape_def unhex_url_hex of_char_nibbles)
qed

lemma url_unreserved_plain: "url_unreserved c \<Longrightarrow> c \<notin> {CHR ''%'', CHR ''+'', CHR ''&'', CHR ''='', CHR '';''}"
  by (auto simp: url_unreserved_def is_word_char_def)

theorem QueryUnescape_QueryEscape: "QueryUnescape (QueryEscape s) = Some s"
proof (induction s)
  case Nil
  then show ?case by (simp add: QueryEscape_def)
next
  case (Cons c s)
  let ?e = "if url_unreserved c then [c] else if c = CHR '' '' then ''+'' else percent_escape c"
  have "QueryEscape (c # s) = ?e @ QueryEscape s" by (simp add: QueryEscape_def)
  moreover have "QueryUnescape (?e @ QueryEscape s) = Some (c # s)"
    using Cons.IH url_unreserved_plain [of c] QueryUnescape_percent [of c] by auto
  ultimately show ?case by simp
qed

lemma url_hex_plain:
  assumes "n < 16"
  shows "url_hex n \<notin> {CHR ''&'', CHR ''='', CHR '';''}"
proof -
  have "n \<in> set [0..<16]" using assms by simp
  moreover have "list_all (\<lambda>n. url_hex n \<notin> {CHR ''&'', CHR ''='', CHR '';''}) [0..<16]"
    by (simp add: url_hex_def upt_rec)
  ultimately show ?thesis by (auto simp only: list_all_iff)
qed

lemma QueryEscape_plain:
  assumes "c \<in> {CHR ''&'', CHR ''='', CHR '';''}"
  shows "c \<notin> set (QueryEscape s)"
proof -
  have "c \<notin> set (if url_unreserved d then [d] else if d = CHR '' '' then ''+'' else percent_escape d)" for d
    using assms url_unreserved_plain [of d] url_hex_plain [of "of_char d div 16"] url_hex_plain [of "of_char d mod 16"]
      of_char_nibbles [of d] by (auto simp: percent_escape_def)
  then show ?thesis unfolding QueryEscape_def set_concat set_map by blast
qed

lemma parse_pair_escape: "parse_pair (QueryEscape k @ ''='' @ QueryEscape v) = Some (k, v)"
proof -
  have k: "\<forall>c \<in> set (QueryEscape k). c \<noteq> CHR ''=''" using QueryEscape_plain [of "CHR ''=''" k] by auto
  have "CHR '';'' \<notin> set (QueryEscape k @ ''='' @ QueryEscape v)"
    using QueryEscape_plain [of "CHR '';''"] by simp
  moreover have "takeWhile (\<lambda>c. c \<noteq> CHR ''='') (QueryEscape k @ ''='' @ QueryEscape v) = QueryEscape k"
    using k by (simp add: takeWhile_append2)
  moreover have "dropWhile (\<lambda>c. c \<noteq> CHR ''='') (QueryEscape k @ ''='' @ QueryEscape v) = ''='' @ QueryEscape v"
    using k by (simp add: dropWhile_append2)
  ultimately show ?thesis by (simp add: parse_pair_def QueryUnescape_QueryEscape)
qed

section \<open>Queries come back\<close>

lemma split_on_join:
  "ws \<noteq> [] \<Longrightarrow> \<forall>w \<in> set ws. d \<notin> set w \<Longrightarrow> split_on d (join [d] ws) = ws"
  by (induction "[d]" ws rule: join.induct) (simp_all add: split_on_plain split_on_append_sep)

lemma filter_keyed:
  assumes "distinct ks" "\<forall>k \<in> set ks. \<forall>p \<in> set (f k). fst p = k"
  shows "filter (\<lambda>p. fst p = name) (concat (map f ks)) = (if name \<in> set ks then f name else [])"
  using assms
proof (induction ks)
  case (Cons k ks)
  have "filter (\<lambda>p. fst p = name) (f k) = (if k = name then f k else [])"
    using Cons.prems(2) by (auto intro!: filter_True filter_False)
  then show ?case using Cons by auto
qed simp

theorem URL_Query_Encode:
  assumes "distinct (map fst vs)"
  shows "URL_Query (values_Encode vs) name = (case map_of vs name of Some xs \<Rightarrow> xs | None \<Rightarrow> [])"
proof -
  define vals where "vals k = (case map_of vs k of Some xs \<Rightarrow> xs | None \<Rightarrow> [])" for k
  define pairs where "pairs = concat (map (\<lambda>k. map (Pair k) (vals k)) (sort (map fst vs)))"
  define ws where "ws = map (\<lambda>(k, v). QueryEscape k @ ''='' @ QueryEscape v) pairs"
  have enc: "values_Encode vs = join ''&'' ws"
    by (simp add: values_Encode_def ws_def pairs_def vals_def map_concat comp_def)
  have "List.map_filter parse_pair (split_on (CHR ''&'') (join ''&'' ws)) = pairs"
  proof (cases "ws = []")
    case True
    then have "pairs = []" by (simp add: ws_def)
    then show ?thesis using True by (simp add: map_filter_def parse_pair_def)
  next
    case False
    have "\<forall>w \<in> set ws. CHR ''&'' \<notin> set w" using QueryEscape_plain [of "CHR ''&''"] by (auto simp: ws_def)
    then have "split_on (CHR ''&'') (join ''&'' ws) = ws" using split_on_join False by blast
    moreover have "List.map_filter parse_pair ws = pairs" unfolding ws_def
      by (induction pairs) (auto simp: map_filter_def parse_pair_escape simp del: append_Cons)
    ultimately show ?thesis by simp
  qed
  then have "URL_Query (values_Encode vs) name = map snd (filter (\<lambda>p. fst p = name) pairs)"
    by (simp add: URL_Query_def enc)
  also have "\<dots> = map snd (if name \<in> set (sort (map fst vs)) then map (Pair name) (vals name) else [])"
    unfolding pairs_def by (subst filter_keyed) (use assms in auto)
  also have "\<dots> = vals name"
    using map_of_eq_None_iff [of vs name] by (auto simp: vals_def comp_def)
  finally show ?thesis by (simp add: vals_def)
qed

section \<open>Paths\<close>

text \<open>\<^verbatim>\<open>strings.ReplaceAll\<close> for a non-empty old text; the counter passes over the
  characters of a match.\<close>

fun replace_from :: "nat \<Rightarrow> string \<Rightarrow> string \<Rightarrow> string \<Rightarrow> string" where
  "replace_from n old new [] = []"
| "replace_from (Suc n) old new (c # s) = replace_from n old new s"
| "replace_from 0 old new (c # s) =
     (if prefix old (c # s) then new @ replace_from (length old - 1) old new s else c # replace_from 0 old new s)"

definition ReplaceAll :: "string \<Rightarrow> string \<Rightarrow> string \<Rightarrow> string" where
  "ReplaceAll s old new = replace_from 0 old new s"

text \<open>\<^verbatim>\<open>path.Join\<close> of two elements.\<close>

definition path_Join :: "string \<Rightarrow> string \<Rightarrow> string" where
  "path_Join a b = (if a @ b = [] then [] else path_Clean (if a = [] then b else a @ ''/'' @ b))"

section \<open>URLs\<close>

record go_url =
  url_Scheme :: string
  url_Host :: string
  url_Path :: string
  url_RawQuery :: string

text \<open>The printing of a URL: which bytes of a path and of a host are escaped, and the separators.\<close>

definition path_plain :: "char \<Rightarrow> bool" where
  "path_plain c \<longleftrightarrow> url_unreserved c \<or> c \<in> set ''$&+,/:;=@''"

definition host_plain :: "char \<Rightarrow> bool" where
  "host_plain c \<longleftrightarrow> url_unreserved c \<or> c \<in> set (''!$&'' @ [CHR 0x27] @ ''()*+,;=:[]<>'' @ [CHR 0x22])"

definition EscapedPath :: "go_url \<Rightarrow> string" where
  "EscapedPath u = (if url_Path u = ''*'' then ''*''
     else concat (map (\<lambda>c. if path_plain c then [c] else percent_escape c) (url_Path u)))"

definition URL_String :: "go_url \<Rightarrow> string" where
  "URL_String u =
     (let path = EscapedPath u;
          front = (if url_Scheme u \<noteq> [] then url_Scheme u @ '':'' else []) @
            (if url_Scheme u \<noteq> [] \<or> url_Host u \<noteq> []
             then (if url_Host u \<noteq> [] \<or> url_Path u \<noteq> [] then ''//'' else []) @
               concat (map (\<lambda>c. if host_plain c then [c] else percent_escape c) (url_Host u))
             else []) @
            (if path \<noteq> [] \<and> hd path \<noteq> CHR ''/'' \<and> url_Host u \<noteq> [] then ''/'' else [])
      in front @ (if front = [] \<and> CHR '':'' \<in> set (takeWhile (\<lambda>c. c \<noteq> CHR ''/'') path) then ''./'' else []) @ path @
        (if url_RawQuery u \<noteq> [] then ''?'' @ url_RawQuery u else []))"

section \<open>What the builders share\<close>

record swag_format =
  swag_FormatInt64 :: "i64 \<Rightarrow> string"
  swag_FormatBool :: "bool \<Rightarrow> string"

text \<open>The text of an id is not empty and consists of digits and a sign, and the conversions read back what
  the formatting functions print.\<close>

definition id_text :: "string \<Rightarrow> bool" where
  "id_text t \<longleftrightarrow> t \<noteq> [] \<and> list_all (\<lambda>c. is_digit c \<or> c = CHR ''-'') t"

locale swag_laws =
  fixes S :: swag_lib and F :: swag_format
  assumes int_text: "id_text (swag_FormatInt64 F v)"
    and int_back: "swag_ConvertInt64 S (swag_FormatInt64 F v) = Some v"
    and bool_text: "swag_FormatBool F b \<noteq> []"
    and bool_back: "swag_ConvertBool S (swag_FormatBool F b) = Some b"

definition go_format :: swag_format where
  "go_format = \<lparr>swag_FormatInt64 = dec_int, swag_FormatBool = (\<lambda>b. if b then ''true'' else ''false'')\<rparr>"

lemma id_text_dec_int: "id_text (dec_int v)"
  using dec_digits by (auto simp: id_text_def dec_int_def list_all_iff)

interpretation go_swag: swag_laws go_swag go_format
  by unfold_locales (auto simp: go_swag_def go_format_def id_text_dec_int ParseInt_dec_int)

definition path_id :: "string \<Rightarrow> string \<Rightarrow> string \<Rightarrow> string \<Rightarrow> string \<Rightarrow> error + string" where
  "path_id builder label placeholder text path =
     (if text \<noteq> [] then Inr (ReplaceAll path placeholder text) else Inl (label @ '' is required on '' @ builder))"

definition set_param :: "string \<Rightarrow> string \<Rightarrow> url_values \<Rightarrow> url_values" where
  "set_param name text qs = (if text \<noteq> [] then values_Set name text qs else qs)"

definition opt_text :: "('a \<Rightarrow> string) \<Rightarrow> 'a option \<Rightarrow> string" where
  "opt_text f x = (case x of None \<Rightarrow> [] | Some v \<Rightarrow> f v)"

definition built_url :: "string \<Rightarrow> string \<Rightarrow> url_values \<Rightarrow> go_url" where
  "built_url basePath path qs =
     \<lparr>url_Scheme = [], url_Host = [], url_Path = path_Join (if basePath = [] then ''/api/v1'' else basePath) path,
      url_RawQuery = values_Encode qs\<rparr>"

definition build_full :: "string \<Rightarrow> error + go_url \<Rightarrow> string \<Rightarrow> string \<Rightarrow> error + go_url" where
  "build_full builder base scheme host =
     (if scheme = [] then Inl (''scheme is required for a full url on '' @ builder)
      else if host = [] then Inl (''host is required for a full url on '' @ builder)
      else sum_bind base (\<lambda>u. Inr (u\<lparr>url_Scheme := scheme, url_Host := host\<rparr>)))"

definition url_Must :: "go_url option \<Rightarrow> error option \<Rightarrow> go_url go" where
  "url_Must u err =
     (case err of
        Some e \<Rightarrow> Inl (PanicValue e)
      | None \<Rightarrow> (case u of None \<Rightarrow> Inl (PanicValue ''url can't be nil'') | Some u' \<Rightarrow> Inr u'))"

text \<open>A builder returns a URL or an error, never both and never neither.\<close>

definition url_text :: "(go_url option \<Rightarrow> error option \<Rightarrow> go_url go) \<Rightarrow> error + go_url \<Rightarrow> string go" where
  "url_text must b =
     sum_bind (case b of Inl e \<Rightarrow> must None (Some e) | Inr u \<Rightarrow> must (Some u) None) (\<lambda>u. Inr (URL_String u))"

section \<open>The elements of a built path\<close>

lemma replace_from_skip: "c \<notin> set u \<Longrightarrow> replace_from 0 (c # old) new (u @ s) = u @ replace_from 0 (c # old) new s"
  by (induction u) auto

lemma replace_from_plain: "c \<notin> set u \<Longrightarrow> replace_from 0 (c # old) new u = u"
  using replace_from_skip [of c u old new "[]"] by simp

lemma id_text_not_in: "id_text t \<Longrightarrow> \<not> is_digit c \<Longrightarrow> c \<noteq> CHR ''-'' \<Longrightarrow> c \<notin> set t"
  by (auto simp: id_text_def list_all_iff)

lemma id_text_not_word: "id_text t \<Longrightarrow> \<not> is_digit c \<Longrightarrow> c \<noteq> CHR ''-'' \<Longrightarrow> t \<noteq> c # s"
  using id_text_not_in [of t c] by auto

lemma no_dots: "CHR ''.'' \<notin> set s \<Longrightarrow> \<not> contains_sub s ''..''"
  using set_mono_sublist [of "''..''" s] by (auto simp: contains_sub_iff)

lemma split_on_no_dot: "CHR ''.'' \<notin> set s \<Longrightarrow> e \<in> set (split_on d s) \<Longrightarrow> CHR ''.'' \<notin> set e"
  using split_on_elem_sublist set_mono_sublist by (metis subsetD)

lemma path_Join_default:
  assumes "CHR ''.'' \<notin> set s" "[] \<notin> set (split_on (CHR ''/'') s)"
  shows "path_Join ''/api/v1'' (CHR ''/'' # s) = ''/api/v1/'' @ s"
proof -
  have "\<forall>e \<in> set (split_on (CHR ''/'') s). e \<noteq> [] \<and> e \<noteq> ''.''"
    using assms split_on_no_dot [of s] by fastforce
  then have "plain_elems (''/api/v1//'' @ s) = ''api'' # ''v1'' # split_on (CHR ''/'') s"
    by (simp add: plain_elems_def filter_True)
  moreover have "path_Clean (''/api/v1//'' @ s) = plain_path (''/api/v1//'' @ s)"
    using assms(1) by (intro path_Clean_plain no_dots) simp
  moreover have "join ''/'' (''api'' # ''v1'' # split_on (CHR ''/'') s) = ''api/v1/'' @ s"
    using join_split_on [of "CHR ''/''" s] by (cases "split_on (CHR ''/'') s") auto
  ultimately show ?thesis by (simp add: path_Join_def plain_path_def Let_def)
qed

end
