(* ===== verification/Flagr_Api.thy ===== *)
theory Flagr_Api
  imports Flagr_Config
begin

text \<open>
  The operations of the API and what serves them: \<^verbatim>\<open>swagger_gen/restapi/operations/flagr_api.go\<close>
  (the handlers of a new server, their validation and the table of the routes) and
  \<^verbatim>\<open>pkg/handler/handler.go\<close> (which functions are set as handlers, and which are not in the
  eval-only mode). Matching a concrete path against the table is the router of the runtime library.
\<close>

section \<open>Operations\<close>

datatype operation =
    Op_CreateConstraint
  | Op_CreateFlag
  | Op_CreateSegment
  | Op_CreateTag
  | Op_CreateVariant
  | Op_DeleteConstraint
  | Op_DeleteFlag
  | Op_DeleteSegment
  | Op_DeleteTag
  | Op_DeleteVariant
  | Op_FindAllTags
  | Op_FindConstraints
  | Op_FindDistributions
  | Op_FindFlags
  | Op_FindSegments
  | Op_FindTags
  | Op_FindVariants
  | Op_GetExportEvalCacheJSON
  | Op_GetExportSqlite
  | Op_GetFlag
  | Op_GetFlagEntityTypes
  | Op_GetFlagSnapshots
  | Op_GetHealth
  | Op_PostEvaluation
  | Op_PostEvaluationBatch
  | Op_PutConstraint
  | Op_PutDistributions
  | Op_PutFlag
  | Op_PutSegment
  | Op_PutSegmentsReorder
  | Op_PutVariant
  | Op_RestoreFlag
  | Op_SetFlagEnabled

text \<open>The functions of the package \<^verbatim>\<open>handler\<close> that serve them.\<close>

datatype handler_func =
    Crud_FindFlags
  | Crud_CreateFlag
  | Crud_GetFlag
  | Crud_PutFlag
  | Crud_DeleteFlag
  | Crud_RestoreFlag
  | Crud_SetFlagEnabledState
  | Crud_GetFlagSnapshots
  | Crud_GetFlagEntityTypes
  | Crud_CreateTag
  | Crud_DeleteTag
  | Crud_FindTags
  | Crud_FindAllTags
  | Crud_CreateSegment
  | Crud_FindSegments
  | Crud_PutSegment
  | Crud_DeleteSegment
  | Crud_PutSegmentsReorder
  | Crud_CreateConstraint
  | Crud_FindConstraints
  | Crud_PutConstraint
  | Crud_DeleteConstraint
  | Crud_FindDistributions
  | Crud_PutDistributions
  | Crud_CreateVariant
  | Crud_FindVariants
  | Crud_PutVariant
  | Crud_DeleteVariant
  | Eval_PostEvaluation
  | Eval_PostEvaluationBatch
  | Health_GetHealth
  | Export_SQLite
  | Export_EvalCacheJSON

text \<open>A handler field: the placeholder of a new server, or a function that was set.\<close>

datatype api_handler = NotImplemented string | HandlerFunc handler_func

record 'h flagr_api =
  api_handlers :: "(string \<times> (string \<times> 'h) list) list"
  api_defaultConsumes :: string
  api_defaultProduces :: string
  api_customConsumers :: "(string \<times> string) list"
  api_customProducers :: "(string \<times> string) list"
  api_useSwaggerUI :: bool
  api_JSONConsumer :: "string option"
  api_BinProducer :: "string option"
  api_JSONProducer :: "string option"
  api_handler_of :: "operation \<Rightarrow> api_handler option"

definition not_implemented :: "operation \<Rightarrow> string" where
  "not_implemented op =
     (case op of
        Op_CreateConstraint \<Rightarrow> ''operation constraint.CreateConstraint has not yet been implemented''
      | Op_CreateFlag \<Rightarrow> ''operation flag.CreateFlag has not yet been implemented''
      | Op_CreateSegment \<Rightarrow> ''operation segment.CreateSegment has not yet been implemented''
      | Op_CreateTag \<Rightarrow> ''operation tag.CreateTag has not yet been implemented''
      | Op_CreateVariant \<Rightarrow> ''operation variant.CreateVariant has not yet been implemented''
      | Op_DeleteConstraint \<Rightarrow> ''operation constraint.DeleteConstraint has not yet been implemented''
      | Op_DeleteFlag \<Rightarrow> ''operation flag.DeleteFlag has not yet been implemented''
      | Op_DeleteSegment \<Rightarrow> ''operation segment.DeleteSegment has not yet been implemented''
      | Op_DeleteTag \<Rightarrow> ''operation tag.DeleteTag has not yet been implemented''
      | Op_DeleteVariant \<Rightarrow> ''operation variant.DeleteVariant has not yet been implemented''
      | Op_FindAllTags \<Rightarrow> ''operation tag.FindAllTags has not yet been implemented''
      | Op_FindConstraints \<Rightarrow> ''operation constraint.FindConstraints has not yet been implemented''
      | Op_FindDistributions \<Rightarrow> ''operation distribution.FindDistributions has not yet been implemented''
      | Op_FindFlags \<Rightarrow> ''operation flag.FindFlags has not yet been implemented''
      | Op_FindSegments \<Rightarrow> ''operation segment.FindSegments has not yet been implemented''
      | Op_FindTags \<Rightarrow> ''operation tag.FindTags has not yet been implemented''
      | Op_FindVariants \<Rightarrow> ''operation variant.FindVariants has not yet been implemented''
      | Op_GetExportEvalCacheJSON \<Rightarrow> ''operation export.GetExportEvalCacheJSON has not yet been implemented''
      | Op_GetExportSqlite \<Rightarrow> ''operation export.GetExportSqlite has not yet been implemented''
      | Op_GetFlag \<Rightarrow> ''operation flag.GetFlag has not yet been implemented''
      | Op_GetFlagEntityTypes \<Rightarrow> ''operation flag.GetFlagEntityTypes has not yet been implemented''
      | Op_GetFlagSnapshots \<Rightarrow> ''operation flag.GetFlagSnapshots has not yet been implemented''
      | Op_GetHealth \<Rightarrow> ''operation health.GetHealth has not yet been implemented''
      | Op_PostEvaluation \<Rightarrow> ''operation evaluation.PostEvaluation has not yet been implemented''
      | Op_PostEvaluationBatch \<Rightarrow> ''operation evaluation.PostEvaluationBatch has not yet been implemented''
      | Op_PutConstraint \<Rightarrow> ''operation constraint.PutConstraint has not yet been implemented''
      | Op_PutDistributions \<Rightarrow> ''operation distribution.PutDistributions has not yet been implemented''
      | Op_PutFlag \<Rightarrow> ''operation flag.PutFlag has not yet been implemented''
      | Op_PutSegment \<Rightarrow> ''operation segment.PutSegment has not yet been implemented''
      | Op_PutSegmentsReorder \<Rightarrow> ''operation segment.PutSegmentsReorder has not yet been implemented''
      | Op_PutVariant \<Rightarrow> ''operation variant.PutVariant has not yet been implemented''
      | Op_RestoreFlag \<Rightarrow> ''operation flag.RestoreFlag has not yet been implemented''
      | Op_SetFlagEnabled \<Rightarrow> ''operation flag.SetFlagEnabled has not yet been implemented'')"

definition NewFlagrAPI :: "'h flagr_api" where
  "NewFlagrAPI =
     \<lparr>api_handlers = [], api_defaultConsumes = ''application/json'', api_defaultProduces = ''application/json'',
      api_customConsumers = [], api_customProducers = [], api_useSwaggerUI = False,
      api_JSONConsumer = Some ''runtime.JSONConsumer'', api_BinProducer = Some ''runtime.ByteStreamProducer'',
      api_JSONProducer = Some ''runtime.JSONProducer'',
      api_handler_of = (\<lambda>op. Some (NotImplemented (not_implemented op)))\<rparr>"

section \<open>Setting the handlers\<close>

definition set_handler :: "operation \<Rightarrow> handler_func \<Rightarrow> 'h flagr_api \<Rightarrow> 'h flagr_api" where
  "set_handler op f api = api\<lparr>api_handler_of := (api_handler_of api)(op := Some (HandlerFunc f))\<rparr>"

definition setupCRUD :: "'h flagr_api \<Rightarrow> 'h flagr_api" where
  "setupCRUD = fold (\<lambda>(op, f). set_handler op f) [
        (Op_FindFlags, Crud_FindFlags),
        (Op_CreateFlag, Crud_CreateFlag),
        (Op_GetFlag, Crud_GetFlag),
        (Op_PutFlag, Crud_PutFlag),
        (Op_DeleteFlag, Crud_DeleteFlag),
        (Op_RestoreFlag, Crud_RestoreFlag),
        (Op_SetFlagEnabled, Crud_SetFlagEnabledState),
        (Op_GetFlagSnapshots, Crud_GetFlagSnapshots),
        (Op_GetFlagEntityTypes, Crud_GetFlagEntityTypes),
        (Op_CreateTag, Crud_CreateTag),
        (Op_DeleteTag, Crud_DeleteTag),
        (Op_FindTags, Crud_FindTags),
        (Op_FindAllTags, Crud_FindAllTags),
        (Op_CreateSegment, Crud_CreateSegment),
        (Op_FindSegments, Crud_FindSegments),
        (Op_PutSegment, Crud_PutSegment),
        (Op_DeleteSegment, Crud_DeleteSegment),
        (Op_PutSegmentsReorder, Crud_PutSegmentsReorder),
        (Op_CreateConstraint, Crud_CreateConstraint),
        (Op_FindConstraints, Crud_FindConstraints),
        (Op_PutConstraint, Crud_PutConstraint),
        (Op_DeleteConstraint, Crud_DeleteConstraint),
        (Op_FindDistributions, Crud_FindDistributions),
        (Op_PutDistributions, Crud_PutDistributions),
        (Op_CreateVariant, Crud_CreateVariant),
        (Op_FindVariants, Crud_FindVariants),
        (Op_PutVariant, Crud_PutVariant),
        (Op_DeleteVariant, Crud_DeleteVariant)]"

definition setupEvaluation :: "'h flagr_api \<Rightarrow> 'h flagr_api" where
  "setupEvaluation = fold (\<lambda>(op, f). set_handler op f) [
        (Op_PostEvaluation, Eval_PostEvaluation),
        (Op_PostEvaluationBatch, Eval_PostEvaluationBatch)]"

definition setupHealth :: "'h flagr_api \<Rightarrow> 'h flagr_api" where
  "setupHealth = fold (\<lambda>(op, f). set_handler op f) [
        (Op_GetHealth, Health_GetHealth)]"

definition setupExport :: "'h flagr_api \<Rightarrow> 'h flagr_api" where
  "setupExport = fold (\<lambda>(op, f). set_handler op f) [
        (Op_GetExportSqlite, Export_SQLite),
        (Op_GetExportEvalCacheJSON, Export_EvalCacheJSON)]"

definition Setup :: "config \<Rightarrow> 'h flagr_api \<Rightarrow> 'h flagr_api" where
  "Setup cfg api =
     (if EvalOnlyMode (the_eval cfg) then setupEvaluation (setupHealth api)
      else setupExport (setupCRUD (setupEvaluation (setupHealth api))))"

section \<open>Validation\<close>

definition handler_names :: "(operation \<times> string) list" where
  "handler_names = [
     (Op_CreateConstraint, ''constraint.CreateConstraintHandler''),
     (Op_CreateFlag, ''flag.CreateFlagHandler''),
     (Op_CreateSegment, ''segment.CreateSegmentHandler''),
     (Op_CreateTag, ''tag.CreateTagHandler''),
     (Op_CreateVariant, ''variant.CreateVariantHandler''),
     (Op_DeleteConstraint, ''constraint.DeleteConstraintHandler''),
     (Op_DeleteFlag, ''flag.DeleteFlagHandler''),
     (Op_DeleteSegment, ''segment.DeleteSegmentHandler''),
     (Op_DeleteTag, ''tag.DeleteTagHandler''),
     (Op_DeleteVariant, ''variant.DeleteVariantHandler''),
     (Op_FindAllTags, ''tag.FindAllTagsHandler''),
     (Op_FindConstraints, ''constraint.FindConstraintsHandler''),
     (Op_FindDistributions, ''distribution.FindDistributionsHandler''),
     (Op_FindFlags, ''flag.FindFlagsHandler''),
     (Op_FindSegments, ''segment.FindSegmentsHandler''),
     (Op_FindTags, ''tag.FindTagsHandler''),
     (Op_FindVariants, ''variant.FindVariantsHandler''),
     (Op_GetExportEvalCacheJSON, ''export.GetExportEvalCacheJSONHandler''),
     (Op_GetExportSqlite, ''export.GetExportSqliteHandler''),
     (Op_GetFlag, ''flag.GetFlagHandler''),
     (Op_GetFlagEntityTypes, ''flag.GetFlagEntityTypesHandler''),
     (Op_GetFlagSnapshots, ''flag.GetFlagSnapshotsHandler''),
     (Op_GetHealth, ''health.GetHealthHandler''),
     (Op_PostEvaluation, ''evaluation.PostEvaluationHandler''),
     (Op_PostEvaluationBatch, ''evaluation.PostEvaluationBatchHandler''),
     (Op_PutConstraint, ''constraint.PutConstraintHandler''),
     (Op_PutDistributions, ''distribution.PutDistributionsHandler''),
     (Op_PutFlag, ''flag.PutFlagHandler''),
     (Op_PutSegment, ''segment.PutSegmentHandler''),
     (Op_PutSegmentsReorder, ''segment.PutSegmentsReorderHandler''),
     (Op_PutVariant, ''variant.PutVariantHandler''),
     (Op_RestoreFlag, ''flag.RestoreFlagHandler''),
     (Op_SetFlagEnabled, ''flag.SetFlagEnabledHandler'')]"

definition unregistered :: "'h flagr_api \<Rightarrow> string list" where
  "unregistered api =
     (if api_JSONConsumer api = None then [''JSONConsumer''] else []) @
     (if api_BinProducer api = None then [''BinProducer''] else []) @
     (if api_JSONProducer api = None then [''JSONProducer''] else []) @
     map snd (filter (\<lambda>(op, _). api_handler_of api op = None) handler_names)"

definition FlagrAPI_Validate :: "'h flagr_api \<Rightarrow> error option" where
  "FlagrAPI_Validate api =
     (if unregistered api \<noteq> [] then Some (''missing registration: '' @ join '', '' (unregistered api)) else None)"

section \<open>Media types\<close>

definition ConsumersFor :: "'h flagr_api \<Rightarrow> string list \<Rightarrow> (string \<times> string option) list" where
  "ConsumersFor api mediaTypes =
     fold (\<lambda>mt result.
       let r1 = (if mt = ''application/json'' then AList.update ''application/json'' (api_JSONConsumer api) result else result)
       in case map_of (api_customConsumers api) mt of None \<Rightarrow> r1 | Some c \<Rightarrow> AList.update mt (Some c) r1) mediaTypes []"

definition ProducersFor :: "'h flagr_api \<Rightarrow> string list \<Rightarrow> (string \<times> string option) list" where
  "ProducersFor api mediaTypes =
     fold (\<lambda>mt result.
       let r1 = (if mt = ''application/octet-stream'' then AList.update ''application/octet-stream'' (api_BinProducer api) result
           else if mt = ''application/json'' then AList.update ''application/json'' (api_JSONProducer api) result else result)
       in case map_of (api_customProducers api) mt of None \<Rightarrow> r1 | Some p \<Rightarrow> AList.update mt (Some p) r1) mediaTypes []"

definition RegisterConsumer :: "string \<Rightarrow> string \<Rightarrow> 'h flagr_api \<Rightarrow> 'h flagr_api" where
  "RegisterConsumer mediaType consumer api =
     api\<lparr>api_customConsumers := AList.update mediaType consumer (api_customConsumers api)\<rparr>"

definition RegisterProducer :: "string \<Rightarrow> string \<Rightarrow> 'h flagr_api \<Rightarrow> 'h flagr_api" where
  "RegisterProducer mediaType producer api =
     api\<lparr>api_customProducers := AList.update mediaType producer (api_customProducers api)\<rparr>"

section \<open>Routes\<close>

text \<open>\<^verbatim>\<open>strings.ToUpper\<close> on ASCII text.\<close>

definition upper_char :: "char \<Rightarrow> char" where
  "upper_char c = (let n = of_char c :: nat in if 97 \<le> n \<and> n \<le> 122 then char_of (n - 32) else c)"

definition ToUpper :: "string \<Rightarrow> string" where
  "ToUpper s = map upper_char s"

definition put_route :: "string \<Rightarrow> string \<Rightarrow> 'h \<Rightarrow> (string \<times> (string \<times> 'h) list) list \<Rightarrow> (string \<times> (string \<times> 'h) list) list" where
  "put_route method path h t =
     AList.update method (AList.update path h (case map_of t method of None \<Rightarrow> [] | Some m \<Rightarrow> m)) t"

text \<open>The third component of an entry is the operation whose handler field is wrapped.\<close>

definition handler_routes :: "(string \<times> string \<times> operation) list" where
  "handler_routes = [
     (''POST'', ''/flags/{flagID}/segments/{segmentID}/constraints'', Op_CreateConstraint),
     (''POST'', ''/flags'', Op_CreateFlag),
     (''POST'', ''/flags/{flagID}/segments'', Op_CreateSegment),
     (''POST'', ''/flags/{flagID}/tags'', Op_CreateTag),
     (''POST'', ''/flags/{flagID}/variants'', Op_CreateVariant),
     (''DELETE'', ''/flags/{flagID}/segments/{segmentID}/constraints/{constraintID}'', Op_DeleteConstraint),
     (''DELETE'', ''/flags/{flagID}'', Op_DeleteFlag),
     (''DELETE'', ''/flags/{flagID}/segments/{segmentID}'', Op_DeleteSegment),
     (''DELETE'', ''/flags/{flagID}/tags/{tagID}'', Op_DeleteTag),
     (''DELETE'', ''/flags/{flagID}/variants/{variantID}'', Op_DeleteVariant),
     (''GET'', ''/tags'', Op_FindAllTags),
     (''GET'', ''/flags/{flagID}/segments/{segmentID}/constraints'', Op_FindConstraints),
     (''GET'', ''/flags/{flagID}/segments/{segmentID}/distributions'', Op_FindDistributions),
     (''GET'', ''/flags'', Op_FindFlags),
     (''GET'', ''/flags/{flagID}/segments'', Op_FindSegments),
     (''GET'', ''/flags/{flagID}/tags'', Op_FindTags),
     (''GET'', ''/flags/{flagID}/variants'', Op_FindVariants),
     (''GET'', ''/export/eval_cache/json'', Op_GetExportEvalCacheJSON),
     (''GET'', ''/export/sqlite'', Op_GetExportSqlite),
     (''GET'', ''/flags/{flagID}'', Op_GetFlag),
     (''GET'', ''/flags/entity_types'', Op_GetFlagEntityTypes),
     (''GET'', ''/flags/{flagID}/snapshots'', Op_GetFlagSnapshots),
     (''GET'', ''/health'', Op_GetHealth),
     (''POST'', ''/evaluation'', Op_PostEvaluation),
     (''POST'', ''/evaluation/batch'', Op_PostEvaluationBatch),
     (''PUT'', ''/flags/{flagID}/segments/{segmentID}/constraints/{constraintID}'', Op_PutConstraint),
     (''PUT'', ''/flags/{flagID}/segments/{segmentID}/distributions'', Op_PutDistributions),
     (''PUT'', ''/flags/{flagID}'', Op_PutFlag),
     (''PUT'', ''/flags/{flagID}/segments/{segmentID}'', Op_PutSegment),
     (''PUT'', ''/flags/{flagID}/segments/reorder'', Op_PutSegmentsReorder),
     (''PUT'', ''/flags/{flagID}/variants/{variantID}'', Op_PutVariant),
     (''PUT'', ''/flags/{flagID}/restore'', Op_RestoreFlag),
     (''PUT'', ''/flags/{flagID}/enabled'', Op_SetFlagEnabled)]"

definition initHandlerCache :: "(operation \<Rightarrow> api_handler option \<Rightarrow> 'h) \<Rightarrow> 'h flagr_api \<Rightarrow> 'h flagr_api" where
  "initHandlerCache mk api =
     api\<lparr>api_handlers := fold (\<lambda>(method, path, op). put_route method path (mk op (api_handler_of api op)))
       handler_routes (api_handlers api)\<rparr>"

definition FlagrAPI_Init :: "(operation \<Rightarrow> api_handler option \<Rightarrow> 'h) \<Rightarrow> 'h flagr_api \<Rightarrow> 'h flagr_api" where
  "FlagrAPI_Init mk api = (if length (api_handlers api) = 0 then initHandlerCache mk api else api)"

definition HandlerFor :: "'h flagr_api \<Rightarrow> string \<Rightarrow> string \<Rightarrow> 'h option" where
  "HandlerFor api method path =
     (case map_of (api_handlers api) (ToUpper method) of
        None \<Rightarrow> None
      | Some m \<Rightarrow> map_of m (if path = ''/'' then [] else path))"

definition AddMiddlewareFor ::
  "(operation \<Rightarrow> api_handler option \<Rightarrow> 'h) \<Rightarrow> string \<Rightarrow> string \<Rightarrow> ('h \<Rightarrow> 'h) \<Rightarrow> 'h flagr_api \<Rightarrow> 'h flagr_api" where
  "AddMiddlewareFor mk method path builder api =
     (let um = ToUpper method; path' = (if path = ''/'' then [] else path); api' = FlagrAPI_Init mk api
      in case map_of (api_handlers api') um of
           None \<Rightarrow> api'
         | Some m \<Rightarrow>
             (case map_of m path' of
                None \<Rightarrow> api'
              | Some h \<Rightarrow> api'\<lparr>api_handlers := put_route um path' (builder h) (api_handlers api')\<rparr>))"

section \<open>The operations as a finite type\<close>

instantiation operation :: enum
begin

definition enum_operation :: "operation list" where
  "enum_operation = [
     Op_CreateConstraint,
     Op_CreateFlag,
     Op_CreateSegment,
     Op_CreateTag,
     Op_CreateVariant,
     Op_DeleteConstraint,
     Op_DeleteFlag,
     Op_DeleteSegment,
     Op_DeleteTag,
     Op_DeleteVariant,
     Op_FindAllTags,
     Op_FindConstraints,
     Op_FindDistributions,
     Op_FindFlags,
     Op_FindSegments,
     Op_FindTags,
     Op_FindVariants,
     Op_GetExportEvalCacheJSON,
     Op_GetExportSqlite,
     Op_GetFlag,
     Op_GetFlagEntityTypes,
     Op_GetFlagSnapshots,
     Op_GetHealth,
     Op_PostEvaluation,
     Op_PostEvaluationBatch,
     Op_PutConstraint,
     Op_PutDistributions,
     Op_PutFlag,
     Op_PutSegment,
     Op_PutSegmentsReorder,
     Op_PutVariant,
     Op_RestoreFlag,
     Op_SetFlagEnabled]"

definition enum_all_operation :: "(operation \<Rightarrow> bool) \<Rightarrow> bool" where
  "enum_all_operation P = list_all P enum_class.enum"

definition enum_ex_operation :: "(operation \<Rightarrow> bool) \<Rightarrow> bool" where
  "enum_ex_operation P = list_ex P enum_class.enum"

instance
proof
  show univ: "(UNIV :: operation set) = set enum_class.enum"
  proof
    show "(UNIV :: operation set) \<subseteq> set enum_class.enum"
    proof
      fix op :: operation
      show "op \<in> set enum_class.enum" by (cases op) (simp_all add: enum_operation_def)
    qed
  qed simp
  show "distinct (enum_class.enum :: operation list)" by (simp add: enum_operation_def)
  show "enum_class.enum_all P \<longleftrightarrow> Ball UNIV P" for P :: "operation \<Rightarrow> bool"
    unfolding enum_all_operation_def list_all_iff univ ..
  show "enum_class.enum_ex P \<longleftrightarrow> Bex UNIV P" for P :: "operation \<Rightarrow> bool"
    unfolding enum_ex_operation_def list_ex_iff univ ..
qed

end

text \<open>The operation whose parameters a handler function takes.\<close>

fun params_of :: "handler_func \<Rightarrow> operation" where
  "params_of Crud_FindFlags = Op_FindFlags"
| "params_of Crud_CreateFlag = Op_CreateFlag"
| "params_of Crud_GetFlag = Op_GetFlag"
| "params_of Crud_PutFlag = Op_PutFlag"
| "params_of Crud_DeleteFlag = Op_DeleteFlag"
| "params_of Crud_RestoreFlag = Op_RestoreFlag"
| "params_of Crud_SetFlagEnabledState = Op_SetFlagEnabled"
| "params_of Crud_GetFlagSnapshots = Op_GetFlagSnapshots"
| "params_of Crud_GetFlagEntityTypes = Op_GetFlagEntityTypes"
| "params_of Crud_CreateTag = Op_CreateTag"
| "params_of Crud_DeleteTag = Op_DeleteTag"
| "params_of Crud_FindTags = Op_FindTags"
| "params_of Crud_FindAllTags = Op_FindAllTags"
| "params_of Crud_CreateSegment = Op_CreateSegment"
| "params_of Crud_FindSegments = Op_FindSegments"
| "params_of Crud_PutSegment = Op_PutSegment"
| "params_of Crud_DeleteSegment = Op_DeleteSegment"
| "params_of Crud_PutSegmentsReorder = Op_PutSegmentsReorder"
| "params_of Crud_CreateConstraint = Op_CreateConstraint"
| "params_of Crud_FindConstraints = Op_FindConstraints"
| "params_of Crud_PutConstraint = Op_PutConstraint"
| "params_of Crud_DeleteConstraint = Op_DeleteConstraint"
| "params_of Crud_FindDistributions = Op_FindDistributions"
| "params_of Crud_PutDistributions = Op_PutDistributions"
| "params_of Crud_CreateVariant = Op_CreateVariant"
| "params_of Crud_FindVariants = Op_FindVariants"
| "params_of Crud_PutVariant = Op_PutVariant"
| "params_of Crud_DeleteVariant = Op_DeleteVariant"
| "params_of Eval_PostEvaluation = Op_PostEvaluation"
| "params_of Eval_PostEvaluationBatch = Op_PostEvaluationBatch"
| "params_of Health_GetHealth = Op_GetHealth"
| "params_of Export_SQLite = Op_GetExportSqlite"
| "params_of Export_EvalCacheJSON = Op_GetExportEvalCacheJSON"

definition evaluation_operations :: "operation set" where
  "evaluation_operations = {Op_PostEvaluation, Op_PostEvaluationBatch, Op_GetHealth}"

section \<open>Lookups in the table\<close>

definition lookup_route :: "(string \<times> (string \<times> 'h) list) list \<Rightarrow> string \<Rightarrow> string \<Rightarrow> 'h option" where
  "lookup_route t method path = (case map_of t method of None \<Rightarrow> None | Some m \<Rightarrow> map_of m path)"

lemma lookup_put_route:
  "lookup_route (put_route m p h t) m' p' = (if m' = m \<and> p' = p then Some h else lookup_route t m' p')"
  by (auto simp: lookup_route_def put_route_def update_conv' split: option.split)

lemma lookup_routes:
  assumes "distinct (map (\<lambda>(m, p, op). (m, p)) rs)"
  shows "lookup_route (fold (\<lambda>(m, p, op). put_route m p (mk op)) rs t) m' p' = Some h \<longleftrightarrow>
    (\<exists>op. (m', p', op) \<in> set rs \<and> h = mk op) \<or>
    (\<forall>op. (m', p', op) \<notin> set rs) \<and> lookup_route t m' p' = Some h"
  using assms
proof (induction rs arbitrary: t)
  case (Cons r rs)
  obtain m p op where r: "r = (m, p, op)" by (cases r)
  have new: "(m, p, op') \<notin> set rs" for op'
    using Cons.prems by (force simp: r)
  show ?case using Cons.IH [of "put_route m p (mk op) t"] Cons.prems new by (auto simp: r lookup_put_route)
qed simp

lemma routes_distinct: "distinct (map (\<lambda>(m, p, op). (m, p)) handler_routes)"
  by code_simp

lemma HandlerFor_Init:
  assumes "api_handlers api = []"
  shows "HandlerFor (FlagrAPI_Init mk api) method path = Some h \<longleftrightarrow>
    (\<exists>op. (ToUpper method, if path = ''/'' then [] else path, op) \<in> set handler_routes \<and> h = mk op (api_handler_of api op))"
proof -
  have "HandlerFor (FlagrAPI_Init mk api) method path =
    lookup_route (fold (\<lambda>(m, p, op). put_route m p (mk op (api_handler_of api op))) handler_routes [])
      (ToUpper method) (if path = ''/'' then [] else path)"
    by (simp add: HandlerFor_def FlagrAPI_Init_def initHandlerCache_def assms lookup_route_def)
  then show ?thesis
    using lookup_routes [OF routes_distinct, of "\<lambda>op. mk op (api_handler_of api op)" "[]"]
    by (simp add: lookup_route_def)
qed

section \<open>The handlers after the set-up\<close>

lemma set_handler_sel [simp]:
  "api_handler_of (set_handler op f api) = (api_handler_of api)(op := Some (HandlerFunc f))"
  "api_handlers (set_handler op f api) = api_handlers api"
  by (simp_all add: set_handler_def)

lemma fold_set_handler:
  "api_handlers (fold (\<lambda>(op, f). set_handler op f) ws api) = api_handlers api"
  by (induction ws arbitrary: api) auto

lemma Setup_handlers: "api_handlers (Setup cfg api) = api_handlers api"
  by (simp add: Setup_def setupEvaluation_def setupHealth_def setupCRUD_def setupExport_def fold_set_handler)

lemma NewFlagrAPI_sel [simp]:
  "api_handlers NewFlagrAPI = []" "api_handler_of NewFlagrAPI op = Some (NotImplemented (not_implemented op))"
  by (simp_all add: NewFlagrAPI_def)

lemma Setup_served:
  assumes "\<not> EvalOnlyMode (the_eval cfg) \<or> op \<in> evaluation_operations"
  shows "\<exists>f. api_handler_of (Setup cfg api) op = Some (HandlerFunc f) \<and> params_of f = op"
  using assms by (cases op)
    (auto simp: Setup_def setupEvaluation_def setupHealth_def setupCRUD_def setupExport_def evaluation_operations_def)

lemma Setup_not_served:
  assumes "EvalOnlyMode (the_eval cfg)" "op \<notin> evaluation_operations"
  shows "api_handler_of (Setup cfg api) op = api_handler_of api op"
  using assms by (simp add: Setup_def setupEvaluation_def setupHealth_def evaluation_operations_def)

lemma handler_names_all: "fst ` set handler_names = UNIV"
proof -
  have "\<forall>op. op \<in> fst ` set handler_names" by code_simp
  then show ?thesis by blast
qed

section \<open>Properties\<close>

text \<open>Every operation is served by the function that takes its parameters: after the set-up of a server
  that is not in the eval-only mode, and for the evaluations and the health check in both modes; in
  the eval-only mode every other operation answers that it is not implemented.\<close>

theorem operations_served:
  "if EvalOnlyMode (the_eval cfg) \<and> op \<notin> evaluation_operations
   then api_handler_of (Setup cfg (NewFlagrAPI :: 'h flagr_api)) op = Some (NotImplemented (not_implemented op))
   else \<exists>f. api_handler_of (Setup cfg (NewFlagrAPI :: 'h flagr_api)) op = Some (HandlerFunc f) \<and> params_of f = op"
  using Setup_served [of cfg op "NewFlagrAPI :: 'h flagr_api"] Setup_not_served [of cfg op "NewFlagrAPI :: 'h flagr_api"] by auto

text \<open>The table of the routes is sound and complete: a fresh server answers a method, in any case, and a path
  with a handler exactly when the pair is one of the routes, and the handler is the one of the
  operation of that route.\<close>

theorem routes_reach_operations:
  "HandlerFor (FlagrAPI_Init mk (Setup cfg (NewFlagrAPI :: 'h flagr_api))) method path = Some h \<longleftrightarrow>
    (\<exists>op. (ToUpper method, if path = ''/'' then [] else path, op) \<in> set handler_routes \<and>
      h = mk op (api_handler_of (Setup cfg (NewFlagrAPI :: 'h flagr_api)) op))"
  by (rule HandlerFor_Init) (simp add: Setup_handlers)

text \<open>The validation of a server passes exactly when no handler and none of the media functions is
  missing.\<close>

theorem Validate_complete:
  "FlagrAPI_Validate api = None \<longleftrightarrow> api_JSONConsumer api \<noteq> None \<and> api_BinProducer api \<noteq> None \<and>
    api_JSONProducer api \<noteq> None \<and> (\<forall>op. api_handler_of api op \<noteq> None)"
proof -
  have "filter (\<lambda>(op, _). api_handler_of api op = None) handler_names = [] \<longleftrightarrow> (\<forall>op. api_handler_of api op \<noteq> None)"
    using handler_names_all by (force simp: filter_empty_conv)
  then show ?thesis by (auto simp: FlagrAPI_Validate_def unregistered_def)
qed

end
