(* ===== verification/Flagr_Builders.thy ===== *)
theory Flagr_Builders
  imports Flagr_Url Flagr_Api
begin

text \<open>
  The generated URL builders of the operations, \<^verbatim>\<open>swagger_gen/restapi/operations/*/*_urlbuilder.go\<close>:
  one record and seven functions per operation, with the base path, the ids of the path and the parameters
  of the query as the code sets them; then all builders as one type, for what they have in common.
\<close>

section \<open>Flags\<close>

record CreateFlagURL =
  CreateFlagURL_basePath :: string

definition CreateFlagURL_SetBasePath :: "string \<Rightarrow> CreateFlagURL \<Rightarrow> CreateFlagURL" where
  "CreateFlagURL_SetBasePath bp b = b\<lparr>CreateFlagURL_basePath := bp\<rparr>"

definition CreateFlagURL_WithBasePath :: "string \<Rightarrow> CreateFlagURL \<Rightarrow> CreateFlagURL" where
  "CreateFlagURL_WithBasePath bp b = CreateFlagURL_SetBasePath bp b"

definition CreateFlagURL_Build :: "swag_format \<Rightarrow> CreateFlagURL \<Rightarrow> error + go_url" where
  "CreateFlagURL_Build F b =
     Inr (built_url (CreateFlagURL_basePath b) ''/flags'' [])"

definition CreateFlagURL_BuildFull :: "swag_format \<Rightarrow> CreateFlagURL \<Rightarrow> string \<Rightarrow> string \<Rightarrow> error + go_url" where
  "CreateFlagURL_BuildFull F b scheme host = build_full ''CreateFlagURL'' (CreateFlagURL_Build F b) scheme host"

definition CreateFlagURL_Must :: "go_url option \<Rightarrow> error option \<Rightarrow> go_url go" where
  "CreateFlagURL_Must u err = url_Must u err"

definition CreateFlagURL_String :: "swag_format \<Rightarrow> CreateFlagURL \<Rightarrow> string go" where
  "CreateFlagURL_String F b = url_text CreateFlagURL_Must (CreateFlagURL_Build F b)"

definition CreateFlagURL_StringFull :: "swag_format \<Rightarrow> CreateFlagURL \<Rightarrow> string \<Rightarrow> string \<Rightarrow> string go" where
  "CreateFlagURL_StringFull F b scheme host = url_text CreateFlagURL_Must (CreateFlagURL_BuildFull F b scheme host)"

record DeleteFlagURL =
  DeleteFlagURL_FlagID :: i64
  DeleteFlagURL_basePath :: string

definition DeleteFlagURL_SetBasePath :: "string \<Rightarrow> DeleteFlagURL \<Rightarrow> DeleteFlagURL" where
  "DeleteFlagURL_SetBasePath bp b = b\<lparr>DeleteFlagURL_basePath := bp\<rparr>"

definition DeleteFlagURL_WithBasePath :: "string \<Rightarrow> DeleteFlagURL \<Rightarrow> DeleteFlagURL" where
  "DeleteFlagURL_WithBasePath bp b = DeleteFlagURL_SetBasePath bp b"

definition DeleteFlagURL_Build :: "swag_format \<Rightarrow> DeleteFlagURL \<Rightarrow> error + go_url" where
  "DeleteFlagURL_Build F b =
     sum_bind (path_id ''DeleteFlagURL'' ''flagId'' ''{flagID}'' (swag_FormatInt64 F (DeleteFlagURL_FlagID b)) ''/flags/{flagID}'') (\<lambda>path.
     Inr (built_url (DeleteFlagURL_basePath b) path []))"

definition DeleteFlagURL_BuildFull :: "swag_format \<Rightarrow> DeleteFlagURL \<Rightarrow> string \<Rightarrow> string \<Rightarrow> error + go_url" where
  "DeleteFlagURL_BuildFull F b scheme host = build_full ''DeleteFlagURL'' (DeleteFlagURL_Build F b) scheme host"

definition DeleteFlagURL_Must :: "go_url option \<Rightarrow> error option \<Rightarrow> go_url go" where
  "DeleteFlagURL_Must u err = url_Must u err"

definition DeleteFlagURL_String :: "swag_format \<Rightarrow> DeleteFlagURL \<Rightarrow> string go" where
  "DeleteFlagURL_String F b = url_text DeleteFlagURL_Must (DeleteFlagURL_Build F b)"

definition DeleteFlagURL_StringFull :: "swag_format \<Rightarrow> DeleteFlagURL \<Rightarrow> string \<Rightarrow> string \<Rightarrow> string go" where
  "DeleteFlagURL_StringFull F b scheme host = url_text DeleteFlagURL_Must (DeleteFlagURL_BuildFull F b scheme host)"

record FindFlagsURL =
  FindFlagsURL_Deleted :: "bool option"
  FindFlagsURL_Description :: "string option"
  FindFlagsURL_DescriptionLike :: "string option"
  FindFlagsURL_Enabled :: "bool option"
  FindFlagsURL_Key :: "string option"
  FindFlagsURL_Limit :: "i64 option"
  FindFlagsURL_Offset :: "i64 option"
  FindFlagsURL_Preload :: "bool option"
  FindFlagsURL_Tags :: "string option"
  FindFlagsURL_basePath :: string

definition FindFlagsURL_SetBasePath :: "string \<Rightarrow> FindFlagsURL \<Rightarrow> FindFlagsURL" where
  "FindFlagsURL_SetBasePath bp b = b\<lparr>FindFlagsURL_basePath := bp\<rparr>"

definition FindFlagsURL_WithBasePath :: "string \<Rightarrow> FindFlagsURL \<Rightarrow> FindFlagsURL" where
  "FindFlagsURL_WithBasePath bp b = FindFlagsURL_SetBasePath bp b"

definition FindFlagsURL_Build :: "swag_format \<Rightarrow> FindFlagsURL \<Rightarrow> error + go_url" where
  "FindFlagsURL_Build F b =
     (let qs = [];
         qs = set_param ''deleted'' (opt_text (swag_FormatBool F) (FindFlagsURL_Deleted b)) qs;
         qs = set_param ''description'' (opt_text (\<lambda>s. s) (FindFlagsURL_Description b)) qs;
         qs = set_param ''description_like'' (opt_text (\<lambda>s. s) (FindFlagsURL_DescriptionLike b)) qs;
         qs = set_param ''enabled'' (opt_text (swag_FormatBool F) (FindFlagsURL_Enabled b)) qs;
         qs = set_param ''key'' (opt_text (\<lambda>s. s) (FindFlagsURL_Key b)) qs;
         qs = set_param ''limit'' (opt_text (swag_FormatInt64 F) (FindFlagsURL_Limit b)) qs;
         qs = set_param ''offset'' (opt_text (swag_FormatInt64 F) (FindFlagsURL_Offset b)) qs;
         qs = set_param ''preload'' (opt_text (swag_FormatBool F) (FindFlagsURL_Preload b)) qs;
         qs = set_param ''tags'' (opt_text (\<lambda>s. s) (FindFlagsURL_Tags b)) qs
     in Inr (built_url (FindFlagsURL_basePath b) ''/flags'' qs))"

definition FindFlagsURL_BuildFull :: "swag_format \<Rightarrow> FindFlagsURL \<Rightarrow> string \<Rightarrow> string \<Rightarrow> error + go_url" where
  "FindFlagsURL_BuildFull F b scheme host = build_full ''FindFlagsURL'' (FindFlagsURL_Build F b) scheme host"

definition FindFlagsURL_Must :: "go_url option \<Rightarrow> error option \<Rightarrow> go_url go" where
  "FindFlagsURL_Must u err = url_Must u err"

definition FindFlagsURL_String :: "swag_format \<Rightarrow> FindFlagsURL \<Rightarrow> string go" where
  "FindFlagsURL_String F b = url_text FindFlagsURL_Must (FindFlagsURL_Build F b)"

definition FindFlagsURL_StringFull :: "swag_format \<Rightarrow> FindFlagsURL \<Rightarrow> string \<Rightarrow> string \<Rightarrow> string go" where
  "FindFlagsURL_StringFull F b scheme host = url_text FindFlagsURL_Must (FindFlagsURL_BuildFull F b scheme host)"

record GetFlagEntityTypesURL =
  GetFlagEntityTypesURL_basePath :: string

definition GetFlagEntityTypesURL_SetBasePath :: "string \<Rightarrow> GetFlagEntityTypesURL \<Rightarrow> GetFlagEntityTypesURL" where
  "GetFlagEntityTypesURL_SetBasePath bp b = b\<lparr>GetFlagEntityTypesURL_basePath := bp\<rparr>"

definition GetFlagEntityTypesURL_WithBasePath :: "string \<Rightarrow> GetFlagEntityTypesURL \<Rightarrow> GetFlagEntityTypesURL" where
  "GetFlagEntityTypesURL_WithBasePath bp b = GetFlagEntityTypesURL_SetBasePath bp b"

definition GetFlagEntityTypesURL_Build :: "swag_format \<Rightarrow> GetFlagEntityTypesURL \<Rightarrow> error + go_url" where
  "GetFlagEntityTypesURL_Build F b =
     Inr (built_url (GetFlagEntityTypesURL_basePath b) ''/flags/entity_types'' [])"

definition GetFlagEntityTypesURL_BuildFull :: "swag_format \<Rightarrow> GetFlagEntityTypesURL \<Rightarrow> string \<Rightarrow> string \<Rightarrow> error + go_url" where
  "GetFlagEntityTypesURL_BuildFull F b scheme host = build_full ''GetFlagEntityTypesURL'' (GetFlagEntityTypesURL_Build F b) scheme host"

definition GetFlagEntityTypesURL_Must :: "go_url option \<Rightarrow> error option \<Rightarrow> go_url go" where
  "GetFlagEntityTypesURL_Must u err = url_Must u err"

definition GetFlagEntityTypesURL_String :: "swag_format \<Rightarrow> GetFlagEntityTypesURL \<Rightarrow> string go" where
  "GetFlagEntityTypesURL_String F b = url_text GetFlagEntityTypesURL_Must (GetFlagEntityTypesURL_Build F b)"

definition GetFlagEntityTypesURL_StringFull :: "swag_format \<Rightarrow> GetFlagEntityTypesURL \<Rightarrow> string \<Rightarrow> string \<Rightarrow> string go" where
  "GetFlagEntityTypesURL_StringFull F b scheme host = url_text GetFlagEntityTypesURL_Must (GetFlagEntityTypesURL_BuildFull F b scheme host)"

record GetFlagSnapshotsURL =
  GetFlagSnapshotsURL_FlagID :: i64
  GetFlagSnapshotsURL_Limit :: "i64 option"
  GetFlagSnapshotsURL_Offset :: "i64 option"
  GetFlagSnapshotsURL_Sort :: "string option"
  GetFlagSnapshotsURL_basePath :: string

definition GetFlagSnapshotsURL_SetBasePath :: "string \<Rightarrow> GetFlagSnapshotsURL \<Rightarrow> GetFlagSnapshotsURL" where
  "GetFlagSnapshotsURL_SetBasePath bp b = b\<lparr>GetFlagSnapshotsURL_basePath := bp\<rparr>"

definition GetFlagSnapshotsURL_WithBasePath :: "string \<Rightarrow> GetFlagSnapshotsURL \<Rightarrow> GetFlagSnapshotsURL" where
  "GetFlagSnapshotsURL_WithBasePath bp b = GetFlagSnapshotsURL_SetBasePath bp b"

definition GetFlagSnapshotsURL_Build :: "swag_format \<Rightarrow> GetFlagSnapshotsURL \<Rightarrow> error + go_url" where
  "GetFlagSnapshotsURL_Build F b =
     sum_bind (path_id ''GetFlagSnapshotsURL'' ''flagId'' ''{flagID}'' (swag_FormatInt64 F (GetFlagSnapshotsURL_FlagID b)) ''/flags/{flagID}/snapshots'') (\<lambda>path.
     (let qs = [];
         qs = set_param ''limit'' (opt_text (swag_FormatInt64 F) (GetFlagSnapshotsURL_Limit b)) qs;
         qs = set_param ''offset'' (opt_text (swag_FormatInt64 F) (GetFlagSnapshotsURL_Offset b)) qs;
         qs = set_param ''sort'' (opt_text (\<lambda>s. s) (GetFlagSnapshotsURL_Sort b)) qs
     in Inr (built_url (GetFlagSnapshotsURL_basePath b) path qs)))"

definition GetFlagSnapshotsURL_BuildFull :: "swag_format \<Rightarrow> GetFlagSnapshotsURL \<Rightarrow> string \<Rightarrow> string \<Rightarrow> error + go_url" where
  "GetFlagSnapshotsURL_BuildFull F b scheme host = build_full ''GetFlagSnapshotsURL'' (GetFlagSnapshotsURL_Build F b) scheme host"

definition GetFlagSnapshotsURL_Must :: "go_url option \<Rightarrow> error option \<Rightarrow> go_url go" where
  "GetFlagSnapshotsURL_Must u err = url_Must u err"

definition GetFlagSnapshotsURL_String :: "swag_format \<Rightarrow> GetFlagSnapshotsURL \<Rightarrow> string go" where
  "GetFlagSnapshotsURL_String F b = url_text GetFlagSnapshotsURL_Must (GetFlagSnapshotsURL_Build F b)"

definition GetFlagSnapshotsURL_StringFull :: "swag_format \<Rightarrow> GetFlagSnapshotsURL \<Rightarrow> string \<Rightarrow> string \<Rightarrow> string go" where
  "GetFlagSnapshotsURL_StringFull F b scheme host = url_text GetFlagSnapshotsURL_Must (GetFlagSnapshotsURL_BuildFull F b scheme host)"

record GetFlagURL =
  GetFlagURL_FlagID :: i64
  GetFlagURL_basePath :: string

definition GetFlagURL_SetBasePath :: "string \<Rightarrow> GetFlagURL \<Rightarrow> GetFlagURL" where
  "GetFlagURL_SetBasePath bp b = b\<lparr>GetFlagURL_basePath := bp\<rparr>"

definition GetFlagURL_WithBasePath :: "string \<Rightarrow> GetFlagURL \<Rightarrow> GetFlagURL" where
  "GetFlagURL_WithBasePath bp b = GetFlagURL_SetBasePath bp b"

definition GetFlagURL_Build :: "swag_format \<Rightarrow> GetFlagURL \<Rightarrow> error + go_url" where
  "GetFlagURL_Build F b =
     sum_bind (path_id ''GetFlagURL'' ''flagId'' ''{flagID}'' (swag_FormatInt64 F (GetFlagURL_FlagID b)) ''/flags/{flagID}'') (\<lambda>path.
     Inr (built_url (GetFlagURL_basePath b) path []))"

definition GetFlagURL_BuildFull :: "swag_format \<Rightarrow> GetFlagURL \<Rightarrow> string \<Rightarrow> string \<Rightarrow> error + go_url" where
  "GetFlagURL_BuildFull F b scheme host = build_full ''GetFlagURL'' (GetFlagURL_Build F b) scheme host"

definition GetFlagURL_Must :: "go_url option \<Rightarrow> error option \<Rightarrow> go_url go" where
  "GetFlagURL_Must u err = url_Must u err"

definition GetFlagURL_String :: "swag_format \<Rightarrow> GetFlagURL \<Rightarrow> string go" where
  "GetFlagURL_String F b = url_text GetFlagURL_Must (GetFlagURL_Build F b)"

definition GetFlagURL_StringFull :: "swag_format \<Rightarrow> GetFlagURL \<Rightarrow> string \<Rightarrow> string \<Rightarrow> string go" where
  "GetFlagURL_StringFull F b scheme host = url_text GetFlagURL_Must (GetFlagURL_BuildFull F b scheme host)"

record PutFlagURL =
  PutFlagURL_FlagID :: i64
  PutFlagURL_basePath :: string

definition PutFlagURL_SetBasePath :: "string \<Rightarrow> PutFlagURL \<Rightarrow> PutFlagURL" where
  "PutFlagURL_SetBasePath bp b = b\<lparr>PutFlagURL_basePath := bp\<rparr>"

definition PutFlagURL_WithBasePath :: "string \<Rightarrow> PutFlagURL \<Rightarrow> PutFlagURL" where
  "PutFlagURL_WithBasePath bp b = PutFlagURL_SetBasePath bp b"

definition PutFlagURL_Build :: "swag_format \<Rightarrow> PutFlagURL \<Rightarrow> error + go_url" where
  "PutFlagURL_Build F b =
     sum_bind (path_id ''PutFlagURL'' ''flagId'' ''{flagID}'' (swag_FormatInt64 F (PutFlagURL_FlagID b)) ''/flags/{flagID}'') (\<lambda>path.
     Inr (built_url (PutFlagURL_basePath b) path []))"

definition PutFlagURL_BuildFull :: "swag_format \<Rightarrow> PutFlagURL \<Rightarrow> string \<Rightarrow> string \<Rightarrow> error + go_url" where
  "PutFlagURL_BuildFull F b scheme host = build_full ''PutFlagURL'' (PutFlagURL_Build F b) scheme host"

definition PutFlagURL_Must :: "go_url option \<Rightarrow> error option \<Rightarrow> go_url go" where
  "PutFlagURL_Must u err = url_Must u err"

definition PutFlagURL_String :: "swag_format \<Rightarrow> PutFlagURL \<Rightarrow> string go" where
  "PutFlagURL_String F b = url_text PutFlagURL_Must (PutFlagURL_Build F b)"

definition PutFlagURL_StringFull :: "swag_format \<Rightarrow> PutFlagURL \<Rightarrow> string \<Rightarrow> string \<Rightarrow> string go" where
  "PutFlagURL_StringFull F b scheme host = url_text PutFlagURL_Must (PutFlagURL_BuildFull F b scheme host)"

record RestoreFlagURL =
  RestoreFlagURL_FlagID :: i64
  RestoreFlagURL_basePath :: string

definition RestoreFlagURL_SetBasePath :: "string \<Rightarrow> RestoreFlagURL \<Rightarrow> RestoreFlagURL" where
  "RestoreFlagURL_SetBasePath bp b = b\<lparr>RestoreFlagURL_basePath := bp\<rparr>"

definition RestoreFlagURL_WithBasePath :: "string \<Rightarrow> RestoreFlagURL \<Rightarrow> RestoreFlagURL" where
  "RestoreFlagURL_WithBasePath bp b = RestoreFlagURL_SetBasePath bp b"

definition RestoreFlagURL_Build :: "swag_format \<Rightarrow> RestoreFlagURL \<Rightarrow> error + go_url" where
  "RestoreFlagURL_Build F b =
     sum_bind (path_id ''RestoreFlagURL'' ''flagId'' ''{flagID}'' (swag_FormatInt64 F (RestoreFlagURL_FlagID b)) ''/flags/{flagID}/restore'') (\<lambda>path.
     Inr (built_url (RestoreFlagURL_basePath b) path []))"

definition RestoreFlagURL_BuildFull :: "swag_format \<Rightarrow> RestoreFlagURL \<Rightarrow> string \<Rightarrow> string \<Rightarrow> error + go_url" where
  "RestoreFlagURL_BuildFull F b scheme host = build_full ''RestoreFlagURL'' (RestoreFlagURL_Build F b) scheme host"

definition RestoreFlagURL_Must :: "go_url option \<Rightarrow> error option \<Rightarrow> go_url go" where
  "RestoreFlagURL_Must u err = url_Must u err"

definition RestoreFlagURL_String :: "swag_format \<Rightarrow> RestoreFlagURL \<Rightarrow> string go" where
  "RestoreFlagURL_String F b = url_text RestoreFlagURL_Must (RestoreFlagURL_Build F b)"

definition RestoreFlagURL_StringFull :: "swag_format \<Rightarrow> RestoreFlagURL \<Rightarrow> string \<Rightarrow> string \<Rightarrow> string go" where
  "RestoreFlagURL_StringFull F b scheme host = url_text RestoreFlagURL_Must (RestoreFlagURL_BuildFull F b scheme host)"

record SetFlagEnabledURL =
  SetFlagEnabledURL_FlagID :: i64
  SetFlagEnabledURL_basePath :: string

definition SetFlagEnabledURL_SetBasePath :: "string \<Rightarrow> SetFlagEnabledURL \<Rightarrow> SetFlagEnabledURL" where
  "SetFlagEnabledURL_SetBasePath bp b = b\<lparr>SetFlagEnabledURL_basePath := bp\<rparr>"

definition SetFlagEnabledURL_WithBasePath :: "string \<Rightarrow> SetFlagEnabledURL \<Rightarrow> SetFlagEnabledURL" where
  "SetFlagEnabledURL_WithBasePath bp b = SetFlagEnabledURL_SetBasePath bp b"

definition SetFlagEnabledURL_Build :: "swag_format \<Rightarrow> SetFlagEnabledURL \<Rightarrow> error + go_url" where
  "SetFlagEnabledURL_Build F b =
     sum_bind (path_id ''SetFlagEnabledURL'' ''flagId'' ''{flagID}'' (swag_FormatInt64 F (SetFlagEnabledURL_FlagID b)) ''/flags/{flagID}/enabled'') (\<lambda>path.
     Inr (built_url (SetFlagEnabledURL_basePath b) path []))"

definition SetFlagEnabledURL_BuildFull :: "swag_format \<Rightarrow> SetFlagEnabledURL \<Rightarrow> string \<Rightarrow> string \<Rightarrow> error + go_url" where
  "SetFlagEnabledURL_BuildFull F b scheme host = build_full ''SetFlagEnabledURL'' (SetFlagEnabledURL_Build F b) scheme host"

definition SetFlagEnabledURL_Must :: "go_url option \<Rightarrow> error option \<Rightarrow> go_url go" where
  "SetFlagEnabledURL_Must u err = url_Must u err"

definition SetFlagEnabledURL_String :: "swag_format \<Rightarrow> SetFlagEnabledURL \<Rightarrow> string go" where
  "SetFlagEnabledURL_String F b = url_text SetFlagEnabledURL_Must (SetFlagEnabledURL_Build F b)"

definition SetFlagEnabledURL_StringFull :: "swag_format \<Rightarrow> SetFlagEnabledURL \<Rightarrow> string \<Rightarrow> string \<Rightarrow> string go" where
  "SetFlagEnabledURL_StringFull F b scheme host = url_text SetFlagEnabledURL_Must (SetFlagEnabledURL_BuildFull F b scheme host)"

section \<open>Tags\<close>

record CreateTagURL =
  CreateTagURL_FlagID :: i64
  CreateTagURL_basePath :: string

definition CreateTagURL_SetBasePath :: "string \<Rightarrow> CreateTagURL \<Rightarrow> CreateTagURL" where
  "CreateTagURL_SetBasePath bp b = b\<lparr>CreateTagURL_basePath := bp\<rparr>"

definition CreateTagURL_WithBasePath :: "string \<Rightarrow> CreateTagURL \<Rightarrow> CreateTagURL" where
  "CreateTagURL_WithBasePath bp b = CreateTagURL_SetBasePath bp b"

definition CreateTagURL_Build :: "swag_format \<Rightarrow> CreateTagURL \<Rightarrow> error + go_url" where
  "CreateTagURL_Build F b =
     sum_bind (path_id ''CreateTagURL'' ''flagId'' ''{flagID}'' (swag_FormatInt64 F (CreateTagURL_FlagID b)) ''/flags/{flagID}/tags'') (\<lambda>path.
     Inr (built_url (CreateTagURL_basePath b) path []))"

definition CreateTagURL_BuildFull :: "swag_format \<Rightarrow> CreateTagURL \<Rightarrow> string \<Rightarrow> string \<Rightarrow> error + go_url" where
  "CreateTagURL_BuildFull F b scheme host = build_full ''CreateTagURL'' (CreateTagURL_Build F b) scheme host"

definition CreateTagURL_Must :: "go_url option \<Rightarrow> error option \<Rightarrow> go_url go" where
  "CreateTagURL_Must u err = url_Must u err"

definition CreateTagURL_String :: "swag_format \<Rightarrow> CreateTagURL \<Rightarrow> string go" where
  "CreateTagURL_String F b = url_text CreateTagURL_Must (CreateTagURL_Build F b)"

definition CreateTagURL_StringFull :: "swag_format \<Rightarrow> CreateTagURL \<Rightarrow> string \<Rightarrow> string \<Rightarrow> string go" where
  "CreateTagURL_StringFull F b scheme host = url_text CreateTagURL_Must (CreateTagURL_BuildFull F b scheme host)"

record DeleteTagURL =
  DeleteTagURL_FlagID :: i64
  DeleteTagURL_TagID :: i64
  DeleteTagURL_basePath :: string

definition DeleteTagURL_SetBasePath :: "string \<Rightarrow> DeleteTagURL \<Rightarrow> DeleteTagURL" where
  "DeleteTagURL_SetBasePath bp b = b\<lparr>DeleteTagURL_basePath := bp\<rparr>"

definition DeleteTagURL_WithBasePath :: "string \<Rightarrow> DeleteTagURL \<Rightarrow> DeleteTagURL" where
  "DeleteTagURL_WithBasePath bp b = DeleteTagURL_SetBasePath bp b"

definition DeleteTagURL_Build :: "swag_format \<Rightarrow> DeleteTagURL \<Rightarrow> error + go_url" where
  "DeleteTagURL_Build F b =
     sum_bind (path_id ''DeleteTagURL'' ''flagId'' ''{flagID}'' (swag_FormatInt64 F (DeleteTagURL_FlagID b)) ''/flags/{flagID}/tags/{tagID}'') (\<lambda>path.
     sum_bind (path_id ''DeleteTagURL'' ''tagId'' ''{tagID}'' (swag_FormatInt64 F (DeleteTagURL_TagID b)) path) (\<lambda>path.
     Inr (built_url (DeleteTagURL_basePath b) path [])))"

definition DeleteTagURL_BuildFull :: "swag_format \<Rightarrow> DeleteTagURL \<Rightarrow> string \<Rightarrow> string \<Rightarrow> error + go_url" where
  "DeleteTagURL_BuildFull F b scheme host = build_full ''DeleteTagURL'' (DeleteTagURL_Build F b) scheme host"

definition DeleteTagURL_Must :: "go_url option \<Rightarrow> error option \<Rightarrow> go_url go" where
  "DeleteTagURL_Must u err = url_Must u err"

definition DeleteTagURL_String :: "swag_format \<Rightarrow> DeleteTagURL \<Rightarrow> string go" where
  "DeleteTagURL_String F b = url_text DeleteTagURL_Must (DeleteTagURL_Build F b)"

definition DeleteTagURL_StringFull :: "swag_format \<Rightarrow> DeleteTagURL \<Rightarrow> string \<Rightarrow> string \<Rightarrow> string go" where
  "DeleteTagURL_StringFull F b scheme host = url_text DeleteTagURL_Must (DeleteTagURL_BuildFull F b scheme host)"

record FindAllTagsURL =
  FindAllTagsURL_Limit :: "i64 option"
  FindAllTagsURL_Offset :: "i64 option"
  FindAllTagsURL_ValueLike :: "string option"
  FindAllTagsURL_basePath :: string

definition FindAllTagsURL_SetBasePath :: "string \<Rightarrow> FindAllTagsURL \<Rightarrow> FindAllTagsURL" where
  "FindAllTagsURL_SetBasePath bp b = b\<lparr>FindAllTagsURL_basePath := bp\<rparr>"

definition FindAllTagsURL_WithBasePath :: "string \<Rightarrow> FindAllTagsURL \<Rightarrow> FindAllTagsURL" where
  "FindAllTagsURL_WithBasePath bp b = FindAllTagsURL_SetBasePath bp b"

definition FindAllTagsURL_Build :: "swag_format \<Rightarrow> FindAllTagsURL \<Rightarrow> error + go_url" where
  "FindAllTagsURL_Build F b =
     (let qs = [];
         qs = set_param ''limit'' (opt_text (swag_FormatInt64 F) (FindAllTagsURL_Limit b)) qs;
         qs = set_param ''offset'' (opt_text (swag_FormatInt64 F) (FindAllTagsURL_Offset b)) qs;
         qs = set_param ''value_like'' (opt_text (\<lambda>s. s) (FindAllTagsURL_ValueLike b)) qs
     in Inr (built_url (FindAllTagsURL_basePath b) ''/tags'' qs))"

definition FindAllTagsURL_BuildFull :: "swag_format \<Rightarrow> FindAllTagsURL \<Rightarrow> string \<Rightarrow> string \<Rightarrow> error + go_url" where
  "FindAllTagsURL_BuildFull F b scheme host = build_full ''FindAllTagsURL'' (FindAllTagsURL_Build F b) scheme host"

definition FindAllTagsURL_Must :: "go_url option \<Rightarrow> error option \<Rightarrow> go_url go" where
  "FindAllTagsURL_Must u err = url_Must u err"

definition FindAllTagsURL_String :: "swag_format \<Rightarrow> FindAllTagsURL \<Rightarrow> string go" where
  "FindAllTagsURL_String F b = url_text FindAllTagsURL_Must (FindAllTagsURL_Build F b)"

definition FindAllTagsURL_StringFull :: "swag_format \<Rightarrow> FindAllTagsURL \<Rightarrow> string \<Rightarrow> string \<Rightarrow> string go" where
  "FindAllTagsURL_StringFull F b scheme host = url_text FindAllTagsURL_Must (FindAllTagsURL_BuildFull F b scheme host)"

record FindTagsURL =
  FindTagsURL_FlagID :: i64
  FindTagsURL_basePath :: string

definition FindTagsURL_SetBasePath :: "string \<Rightarrow> FindTagsURL \<Rightarrow> FindTagsURL" where
  "FindTagsURL_SetBasePath bp b = b\<lparr>FindTagsURL_basePath := bp\<rparr>"

definition FindTagsURL_WithBasePath :: "string \<Rightarrow> FindTagsURL \<Rightarrow> FindTagsURL" where
  "FindTagsURL_WithBasePath bp b = FindTagsURL_SetBasePath bp b"

definition FindTagsURL_Build :: "swag_format \<Rightarrow> FindTagsURL \<Rightarrow> error + go_url" where
  "FindTagsURL_Build F b =
     sum_bind (path_id ''FindTagsURL'' ''flagId'' ''{flagID}'' (swag_FormatInt64 F (FindTagsURL_FlagID b)) ''/flags/{flagID}/tags'') (\<lambda>path.
     Inr (built_url (FindTagsURL_basePath b) path []))"

definition FindTagsURL_BuildFull :: "swag_format \<Rightarrow> FindTagsURL \<Rightarrow> string \<Rightarrow> string \<Rightarrow> error + go_url" where
  "FindTagsURL_BuildFull F b scheme host = build_full ''FindTagsURL'' (FindTagsURL_Build F b) scheme host"

definition FindTagsURL_Must :: "go_url option \<Rightarrow> error option \<Rightarrow> go_url go" where
  "FindTagsURL_Must u err = url_Must u err"

definition FindTagsURL_String :: "swag_format \<Rightarrow> FindTagsURL \<Rightarrow> string go" where
  "FindTagsURL_String F b = url_text FindTagsURL_Must (FindTagsURL_Build F b)"

definition FindTagsURL_StringFull :: "swag_format \<Rightarrow> FindTagsURL \<Rightarrow> string \<Rightarrow> string \<Rightarrow> string go" where
  "FindTagsURL_StringFull F b scheme host = url_text FindTagsURL_Must (FindTagsURL_BuildFull F b scheme host)"

section \<open>Segments\<close>

record CreateSegmentURL =
  CreateSegmentURL_FlagID :: i64
  CreateSegmentURL_basePath :: string

definition CreateSegmentURL_SetBasePath :: "string \<Rightarrow> CreateSegmentURL \<Rightarrow> CreateSegmentURL" where
  "CreateSegmentURL_SetBasePath bp b = b\<lparr>CreateSegmentURL_basePath := bp\<rparr>"

definition CreateSegmentURL_WithBasePath :: "string \<Rightarrow> CreateSegmentURL \<Rightarrow> CreateSegmentURL" where
  "CreateSegmentURL_WithBasePath bp b = CreateSegmentURL_SetBasePath bp b"

definition CreateSegmentURL_Build :: "swag_format \<Rightarrow> CreateSegmentURL \<Rightarrow> error + go_url" where
  "CreateSegmentURL_Build F b =
     sum_bind (path_id ''CreateSegmentURL'' ''flagId'' ''{flagID}'' (swag_FormatInt64 F (CreateSegmentURL_FlagID b)) ''/flags/{flagID}/segments'') (\<lambda>path.
     Inr (built_url (CreateSegmentURL_basePath b) path []))"

definition CreateSegmentURL_BuildFull :: "swag_format \<Rightarrow> CreateSegmentURL \<Rightarrow> string \<Rightarrow> string \<Rightarrow> error + go_url" where
  "CreateSegmentURL_BuildFull F b scheme host = build_full ''CreateSegmentURL'' (CreateSegmentURL_Build F b) scheme host"

definition CreateSegmentURL_Must :: "go_url option \<Rightarrow> error option \<Rightarrow> go_url go" where
  "CreateSegmentURL_Must u err = url_Must u err"

definition CreateSegmentURL_String :: "swag_format \<Rightarrow> CreateSegmentURL \<Rightarrow> string go" where
  "CreateSegmentURL_String F b = url_text CreateSegmentURL_Must (CreateSegmentURL_Build F b)"

definition CreateSegmentURL_StringFull :: "swag_format \<Rightarrow> CreateSegmentURL \<Rightarrow> string \<Rightarrow> string \<Rightarrow> string go" where
  "CreateSegmentURL_StringFull F b scheme host = url_text CreateSegmentURL_Must (CreateSegmentURL_BuildFull F b scheme host)"

record DeleteSegmentURL =
  DeleteSegmentURL_FlagID :: i64
  DeleteSegmentURL_SegmentID :: i64
  DeleteSegmentURL_basePath :: string

definition DeleteSegmentURL_SetBasePath :: "string \<Rightarrow> DeleteSegmentURL \<Rightarrow> DeleteSegmentURL" where
  "DeleteSegmentURL_SetBasePath bp b = b\<lparr>DeleteSegmentURL_basePath := bp\<rparr>"

definition DeleteSegmentURL_WithBasePath :: "string \<Rightarrow> DeleteSegmentURL \<Rightarrow> DeleteSegmentURL" where
  "DeleteSegmentURL_WithBasePath bp b = DeleteSegmentURL_SetBasePath bp b"

definition DeleteSegmentURL_Build :: "swag_format \<Rightarrow> DeleteSegmentURL \<Rightarrow> error + go_url" where
  "DeleteSegmentURL_Build F b =
     sum_bind (path_id ''DeleteSegmentURL'' ''flagId'' ''{flagID}'' (swag_FormatInt64 F (DeleteSegmentURL_FlagID b)) ''/flags/{flagID}/segments/{segmentID}'') (\<lambda>path.
     sum_bind (path_id ''DeleteSegmentURL'' ''segmentId'' ''{segmentID}'' (swag_FormatInt64 F (DeleteSegmentURL_SegmentID b)) path) (\<lambda>path.
     Inr (built_url (DeleteSegmentURL_basePath b) path [])))"

definition DeleteSegmentURL_BuildFull :: "swag_format \<Rightarrow> DeleteSegmentURL \<Rightarrow> string \<Rightarrow> string \<Rightarrow> error + go_url" where
  "DeleteSegmentURL_BuildFull F b scheme host = build_full ''DeleteSegmentURL'' (DeleteSegmentURL_Build F b) scheme host"

definition DeleteSegmentURL_Must :: "go_url option \<Rightarrow> error option \<Rightarrow> go_url go" where
  "DeleteSegmentURL_Must u err = url_Must u err"

definition DeleteSegmentURL_String :: "swag_format \<Rightarrow> DeleteSegmentURL \<Rightarrow> string go" where
  "DeleteSegmentURL_String F b = url_text DeleteSegmentURL_Must (DeleteSegmentURL_Build F b)"

definition DeleteSegmentURL_StringFull :: "swag_format \<Rightarrow> DeleteSegmentURL \<Rightarrow> string \<Rightarrow> string \<Rightarrow> string go" where
  "DeleteSegmentURL_StringFull F b scheme host = url_text DeleteSegmentURL_Must (DeleteSegmentURL_BuildFull F b scheme host)"

record FindSegmentsURL =
  FindSegmentsURL_FlagID :: i64
  FindSegmentsURL_basePath :: string

definition FindSegmentsURL_SetBasePath :: "string \<Rightarrow> FindSegmentsURL \<Rightarrow> FindSegmentsURL" where
  "FindSegmentsURL_SetBasePath bp b = b\<lparr>FindSegmentsURL_basePath := bp\<rparr>"

definition FindSegmentsURL_WithBasePath :: "string \<Rightarrow> FindSegmentsURL \<Rightarrow> FindSegmentsURL" where
  "FindSegmentsURL_WithBasePath bp b = FindSegmentsURL_SetBasePath bp b"

definition FindSegmentsURL_Build :: "swag_format \<Rightarrow> FindSegmentsURL \<Rightarrow> error + go_url" where
  "FindSegmentsURL_Build F b =
     sum_bind (path_id ''FindSegmentsURL'' ''flagId'' ''{flagID}'' (swag_FormatInt64 F (FindSegmentsURL_FlagID b)) ''/flags/{flagID}/segments'') (\<lambda>path.
     Inr (built_url (FindSegmentsURL_basePath b) path []))"

definition FindSegmentsURL_BuildFull :: "swag_format \<Rightarrow> FindSegmentsURL \<Rightarrow> string \<Rightarrow> string \<Rightarrow> error + go_url" where
  "FindSegmentsURL_BuildFull F b scheme host = build_full ''FindSegmentsURL'' (FindSegmentsURL_Build F b) scheme host"

definition FindSegmentsURL_Must :: "go_url option \<Rightarrow> error option \<Rightarrow> go_url go" where
  "FindSegmentsURL_Must u err = url_Must u err"

definition FindSegmentsURL_String :: "swag_format \<Rightarrow> FindSegmentsURL \<Rightarrow> string go" where
  "FindSegmentsURL_String F b = url_text FindSegmentsURL_Must (FindSegmentsURL_Build F b)"

definition FindSegmentsURL_StringFull :: "swag_format \<Rightarrow> FindSegmentsURL \<Rightarrow> string \<Rightarrow> string \<Rightarrow> string go" where
  "FindSegmentsURL_StringFull F b scheme host = url_text FindSegmentsURL_Must (FindSegmentsURL_BuildFull F b scheme host)"

record PutSegmentURL =
  PutSegmentURL_FlagID :: i64
  PutSegmentURL_SegmentID :: i64
  PutSegmentURL_basePath :: string

definition PutSegmentURL_SetBasePath :: "string \<Rightarrow> PutSegmentURL \<Rightarrow> PutSegmentURL" where
  "PutSegmentURL_SetBasePath bp b = b\<lparr>PutSegmentURL_basePath := bp\<rparr>"

definition PutSegmentURL_WithBasePath :: "string \<Rightarrow> PutSegmentURL \<Rightarrow> PutSegmentURL" where
  "PutSegmentURL_WithBasePath bp b = PutSegmentURL_SetBasePath bp b"

definition PutSegmentURL_Build :: "swag_format \<Rightarrow> PutSegmentURL \<Rightarrow> error + go_url" where
  "PutSegmentURL_Build F b =
     sum_bind (path_id ''PutSegmentURL'' ''flagId'' ''{flagID}'' (swag_FormatInt64 F (PutSegmentURL_FlagID b)) ''/flags/{flagID}/segments/{segmentID}'') (\<lambda>path.
     sum_bind (path_id ''PutSegmentURL'' ''segmentId'' ''{segmentID}'' (swag_FormatInt64 F (PutSegmentURL_SegmentID b)) path) (\<lambda>path.
     Inr (built_url (PutSegmentURL_basePath b) path [])))"

definition PutSegmentURL_BuildFull :: "swag_format \<Rightarrow> PutSegmentURL \<Rightarrow> string \<Rightarrow> string \<Rightarrow> error + go_url" where
  "PutSegmentURL_BuildFull F b scheme host = build_full ''PutSegmentURL'' (PutSegmentURL_Build F b) scheme host"

definition PutSegmentURL_Must :: "go_url option \<Rightarrow> error option \<Rightarrow> go_url go" where
  "PutSegmentURL_Must u err = url_Must u err"

definition PutSegmentURL_String :: "swag_format \<Rightarrow> PutSegmentURL \<Rightarrow> string go" where
  "PutSegmentURL_String F b = url_text PutSegmentURL_Must (PutSegmentURL_Build F b)"

definition PutSegmentURL_StringFull :: "swag_format \<Rightarrow> PutSegmentURL \<Rightarrow> string \<Rightarrow> string \<Rightarrow> string go" where
  "PutSegmentURL_StringFull F b scheme host = url_text PutSegmentURL_Must (PutSegmentURL_BuildFull F b scheme host)"

record PutSegmentsReorderURL =
  PutSegmentsReorderURL_FlagID :: i64
  PutSegmentsReorderURL_basePath :: string

definition PutSegmentsReorderURL_SetBasePath :: "string \<Rightarrow> PutSegmentsReorderURL \<Rightarrow> PutSegmentsReorderURL" where
  "PutSegmentsReorderURL_SetBasePath bp b = b\<lparr>PutSegmentsReorderURL_basePath := bp\<rparr>"

definition PutSegmentsReorderURL_WithBasePath :: "string \<Rightarrow> PutSegmentsReorderURL \<Rightarrow> PutSegmentsReorderURL" where
  "PutSegmentsReorderURL_WithBasePath bp b = PutSegmentsReorderURL_SetBasePath bp b"

definition PutSegmentsReorderURL_Build :: "swag_format \<Rightarrow> PutSegmentsReorderURL \<Rightarrow> error + go_url" where
  "PutSegmentsReorderURL_Build F b =
     sum_bind (path_id ''PutSegmentsReorderURL'' ''flagId'' ''{flagID}'' (swag_FormatInt64 F (PutSegmentsReorderURL_FlagID b)) ''/flags/{flagID}/segments/reorder'') (\<lambda>path.
     Inr (built_url (PutSegmentsReorderURL_basePath b) path []))"

definition PutSegmentsReorderURL_BuildFull :: "swag_format \<Rightarrow> PutSegmentsReorderURL \<Rightarrow> string \<Rightarrow> string \<Rightarrow> error + go_url" where
  "PutSegmentsReorderURL_BuildFull F b scheme host = build_full ''PutSegmentsReorderURL'' (PutSegmentsReorderURL_Build F b) scheme host"

definition PutSegmentsReorderURL_Must :: "go_url option \<Rightarrow> error option \<Rightarrow> go_url go" where
  "PutSegmentsReorderURL_Must u err = url_Must u err"

definition PutSegmentsReorderURL_String :: "swag_format \<Rightarrow> PutSegmentsReorderURL \<Rightarrow> string go" where
  "PutSegmentsReorderURL_String F b = url_text PutSegmentsReorderURL_Must (PutSegmentsReorderURL_Build F b)"

definition PutSegmentsReorderURL_StringFull :: "swag_format \<Rightarrow> PutSegmentsReorderURL \<Rightarrow> string \<Rightarrow> string \<Rightarrow> string go" where
  "PutSegmentsReorderURL_StringFull F b scheme host = url_text PutSegmentsReorderURL_Must (PutSegmentsReorderURL_BuildFull F b scheme host)"

section \<open>Constraints\<close>

record CreateConstraintURL =
  CreateConstraintURL_FlagID :: i64
  CreateConstraintURL_SegmentID :: i64
  CreateConstraintURL_basePath :: string

definition CreateConstraintURL_SetBasePath :: "string \<Rightarrow> CreateConstraintURL \<Rightarrow> CreateConstraintURL" where
  "CreateConstraintURL_SetBasePath bp b = b\<lparr>CreateConstraintURL_basePath := bp\<rparr>"

definition CreateConstraintURL_WithBasePath :: "string \<Rightarrow> CreateConstraintURL \<Rightarrow> CreateConstraintURL" where
  "CreateConstraintURL_WithBasePath bp b = CreateConstraintURL_SetBasePath bp b"

definition CreateConstraintURL_Build :: "swag_format \<Rightarrow> CreateConstraintURL \<Rightarrow> error + go_url" where
  "CreateConstraintURL_Build F b =
     sum_bind (path_id ''CreateConstraintURL'' ''flagId'' ''{flagID}'' (swag_FormatInt64 F (CreateConstraintURL_FlagID b)) ''/flags/{flagID}/segments/{segmentID}/constraints'') (\<lambda>path.
     sum_bind (path_id ''CreateConstraintURL'' ''segmentId'' ''{segmentID}'' (swag_FormatInt64 F (CreateConstraintURL_SegmentID b)) path) (\<lambda>path.
     Inr (built_url (CreateConstraintURL_basePath b) path [])))"

definition CreateConstraintURL_BuildFull :: "swag_format \<Rightarrow> CreateConstraintURL \<Rightarrow> string \<Rightarrow> string \<Rightarrow> error + go_url" where
  "CreateConstraintURL_BuildFull F b scheme host = build_full ''CreateConstraintURL'' (CreateConstraintURL_Build F b) scheme host"

definition CreateConstraintURL_Must :: "go_url option \<Rightarrow> error option \<Rightarrow> go_url go" where
  "CreateConstraintURL_Must u err = url_Must u err"

definition CreateConstraintURL_String :: "swag_format \<Rightarrow> CreateConstraintURL \<Rightarrow> string go" where
  "CreateConstraintURL_String F b = url_text CreateConstraintURL_Must (CreateConstraintURL_Build F b)"

definition CreateConstraintURL_StringFull :: "swag_format \<Rightarrow> CreateConstraintURL \<Rightarrow> string \<Rightarrow> string \<Rightarrow> string go" where
  "CreateConstraintURL_StringFull F b scheme host = url_text CreateConstraintURL_Must (CreateConstraintURL_BuildFull F b scheme host)"

record DeleteConstraintURL =
  DeleteConstraintURL_ConstraintID :: i64
  DeleteConstraintURL_FlagID :: i64
  DeleteConstraintURL_SegmentID :: i64
  DeleteConstraintURL_basePath :: string

definition DeleteConstraintURL_SetBasePath :: "string \<Rightarrow> DeleteConstraintURL \<Rightarrow> DeleteConstraintURL" where
  "DeleteConstraintURL_SetBasePath bp b = b\<lparr>DeleteConstraintURL_basePath := bp\<rparr>"

definition DeleteConstraintURL_WithBasePath :: "string \<Rightarrow> DeleteConstraintURL \<Rightarrow> DeleteConstraintURL" where
  "DeleteConstraintURL_WithBasePath bp b = DeleteConstraintURL_SetBasePath bp b"

definition DeleteConstraintURL_Build :: "swag_format \<Rightarrow> DeleteConstraintURL \<Rightarrow> error + go_url" where
  "DeleteConstraintURL_Build F b =
     sum_bind (path_id ''DeleteConstraintURL'' ''constraintId'' ''{constraintID}'' (swag_FormatInt64 F (DeleteConstraintURL_ConstraintID b)) ''/flags/{flagID}/segments/{segmentID}/constraints/{constraintID}'') (\<lambda>path.
     sum_bind (path_id ''DeleteConstraintURL'' ''flagId'' ''{flagID}'' (swag_FormatInt64 F (DeleteConstraintURL_FlagID b)) path) (\<lambda>path.
     sum_bind (path_id ''DeleteConstraintURL'' ''segmentId'' ''{segmentID}'' (swag_FormatInt64 F (DeleteConstraintURL_SegmentID b)) path) (\<lambda>path.
     Inr (built_url (DeleteConstraintURL_basePath b) path []))))"

definition DeleteConstraintURL_BuildFull :: "swag_format \<Rightarrow> DeleteConstraintURL \<Rightarrow> string \<Rightarrow> string \<Rightarrow> error + go_url" where
  "DeleteConstraintURL_BuildFull F b scheme host = build_full ''DeleteConstraintURL'' (DeleteConstraintURL_Build F b) scheme host"

definition DeleteConstraintURL_Must :: "go_url option \<Rightarrow> error option \<Rightarrow> go_url go" where
  "DeleteConstraintURL_Must u err = url_Must u err"

definition DeleteConstraintURL_String :: "swag_format \<Rightarrow> DeleteConstraintURL \<Rightarrow> string go" where
  "DeleteConstraintURL_String F b = url_text DeleteConstraintURL_Must (DeleteConstraintURL_Build F b)"

definition DeleteConstraintURL_StringFull :: "swag_format \<Rightarrow> DeleteConstraintURL \<Rightarrow> string \<Rightarrow> string \<Rightarrow> string go" where
  "DeleteConstraintURL_StringFull F b scheme host = url_text DeleteConstraintURL_Must (DeleteConstraintURL_BuildFull F b scheme host)"

record FindConstraintsURL =
  FindConstraintsURL_FlagID :: i64
  FindConstraintsURL_SegmentID :: i64
  FindConstraintsURL_basePath :: string

definition FindConstraintsURL_SetBasePath :: "string \<Rightarrow> FindConstraintsURL \<Rightarrow> FindConstraintsURL" where
  "FindConstraintsURL_SetBasePath bp b = b\<lparr>FindConstraintsURL_basePath := bp\<rparr>"

definition FindConstraintsURL_WithBasePath :: "string \<Rightarrow> FindConstraintsURL \<Rightarrow> FindConstraintsURL" where
  "FindConstraintsURL_WithBasePath bp b = FindConstraintsURL_SetBasePath bp b"

definition FindConstraintsURL_Build :: "swag_format \<Rightarrow> FindConstraintsURL \<Rightarrow> error + go_url" where
  "FindConstraintsURL_Build F b =
     sum_bind (path_id ''FindConstraintsURL'' ''flagId'' ''{flagID}'' (swag_FormatInt64 F (FindConstraintsURL_FlagID b)) ''/flags/{flagID}/segments/{segmentID}/constraints'') (\<lambda>path.
     sum_bind (path_id ''FindConstraintsURL'' ''segmentId'' ''{segmentID}'' (swag_FormatInt64 F (FindConstraintsURL_SegmentID b)) path) (\<lambda>path.
     Inr (built_url (FindConstraintsURL_basePath b) path [])))"

definition FindConstraintsURL_BuildFull :: "swag_format \<Rightarrow> FindConstraintsURL \<Rightarrow> string \<Rightarrow> string \<Rightarrow> error + go_url" where
  "FindConstraintsURL_BuildFull F b scheme host = build_full ''FindConstraintsURL'' (FindConstraintsURL_Build F b) scheme host"

definition FindConstraintsURL_Must :: "go_url option \<Rightarrow> error option \<Rightarrow> go_url go" where
  "FindConstraintsURL_Must u err = url_Must u err"

definition FindConstraintsURL_String :: "swag_format \<Rightarrow> FindConstraintsURL \<Rightarrow> string go" where
  "FindConstraintsURL_String F b = url_text FindConstraintsURL_Must (FindConstraintsURL_Build F b)"

definition FindConstraintsURL_StringFull :: "swag_format \<Rightarrow> FindConstraintsURL \<Rightarrow> string \<Rightarrow> string \<Rightarrow> string go" where
  "FindConstraintsURL_StringFull F b scheme host = url_text FindConstraintsURL_Must (FindConstraintsURL_BuildFull F b scheme host)"

record PutConstraintURL =
  PutConstraintURL_ConstraintID :: i64
  PutConstraintURL_FlagID :: i64
  PutConstraintURL_SegmentID :: i64
  PutConstraintURL_basePath :: string

definition PutConstraintURL_SetBasePath :: "string \<Rightarrow> PutConstraintURL \<Rightarrow> PutConstraintURL" where
  "PutConstraintURL_SetBasePath bp b = b\<lparr>PutConstraintURL_basePath := bp\<rparr>"

definition PutConstraintURL_WithBasePath :: "string \<Rightarrow> PutConstraintURL \<Rightarrow> PutConstraintURL" where
  "PutConstraintURL_WithBasePath bp b = PutConstraintURL_SetBasePath bp b"

definition PutConstraintURL_Build :: "swag_format \<Rightarrow> PutConstraintURL \<Rightarrow> error + go_url" where
  "PutConstraintURL_Build F b =
     sum_bind (path_id ''PutConstraintURL'' ''constraintId'' ''{constraintID}'' (swag_FormatInt64 F (PutConstraintURL_ConstraintID b)) ''/flags/{flagID}/segments/{segmentID}/constraints/{constraintID}'') (\<lambda>path.
     sum_bind (path_id ''PutConstraintURL'' ''flagId'' ''{flagID}'' (swag_FormatInt64 F (PutConstraintURL_FlagID b)) path) (\<lambda>path.
     sum_bind (path_id ''PutConstraintURL'' ''segmentId'' ''{segmentID}'' (swag_FormatInt64 F (PutConstraintURL_SegmentID b)) path) (\<lambda>path.
     Inr (built_url (PutConstraintURL_basePath b) path []))))"

definition PutConstraintURL_BuildFull :: "swag_format \<Rightarrow> PutConstraintURL \<Rightarrow> string \<Rightarrow> string \<Rightarrow> error + go_url" where
  "PutConstraintURL_BuildFull F b scheme host = build_full ''PutConstraintURL'' (PutConstraintURL_Build F b) scheme host"

definition PutConstraintURL_Must :: "go_url option \<Rightarrow> error option \<Rightarrow> go_url go" where
  "PutConstraintURL_Must u err = url_Must u err"

definition PutConstraintURL_String :: "swag_format \<Rightarrow> PutConstraintURL \<Rightarrow> string go" where
  "PutConstraintURL_String F b = url_text PutConstraintURL_Must (PutConstraintURL_Build F b)"

definition PutConstraintURL_StringFull :: "swag_format \<Rightarrow> PutConstraintURL \<Rightarrow> string \<Rightarrow> string \<Rightarrow> string go" where
  "PutConstraintURL_StringFull F b scheme host = url_text PutConstraintURL_Must (PutConstraintURL_BuildFull F b scheme host)"

section \<open>Distributions\<close>

record FindDistributionsURL =
  FindDistributionsURL_FlagID :: i64
  FindDistributionsURL_SegmentID :: i64
  FindDistributionsURL_basePath :: string

definition FindDistributionsURL_SetBasePath :: "string \<Rightarrow> FindDistributionsURL \<Rightarrow> FindDistributionsURL" where
  "FindDistributionsURL_SetBasePath bp b = b\<lparr>FindDistributionsURL_basePath := bp\<rparr>"

definition FindDistributionsURL_WithBasePath :: "string \<Rightarrow> FindDistributionsURL \<Rightarrow> FindDistributionsURL" where
  "FindDistributionsURL_WithBasePath bp b = FindDistributionsURL_SetBasePath bp b"

definition FindDistributionsURL_Build :: "swag_format \<Rightarrow> FindDistributionsURL \<Rightarrow> error + go_url" where
  "FindDistributionsURL_Build F b =
     sum_bind (path_id ''FindDistributionsURL'' ''flagId'' ''{flagID}'' (swag_FormatInt64 F (FindDistributionsURL_FlagID b)) ''/flags/{flagID}/segments/{segmentID}/distributions'') (\<lambda>path.
     sum_bind (path_id ''FindDistributionsURL'' ''segmentId'' ''{segmentID}'' (swag_FormatInt64 F (FindDistributionsURL_SegmentID b)) path) (\<lambda>path.
     Inr (built_url (FindDistributionsURL_basePath b) path [])))"

definition FindDistributionsURL_BuildFull :: "swag_format \<Rightarrow> FindDistributionsURL \<Rightarrow> string \<Rightarrow> string \<Rightarrow> error + go_url" where
  "FindDistributionsURL_BuildFull F b scheme host = build_full ''FindDistributionsURL'' (FindDistributionsURL_Build F b) scheme host"

definition FindDistributionsURL_Must :: "go_url option \<Rightarrow> error option \<Rightarrow> go_url go" where
  "FindDistributionsURL_Must u err = url_Must u err"

definition FindDistributionsURL_String :: "swag_format \<Rightarrow> FindDistributionsURL \<Rightarrow> string go" where
  "FindDistributionsURL_String F b = url_text FindDistributionsURL_Must (FindDistributionsURL_Build F b)"

definition FindDistributionsURL_StringFull :: "swag_format \<Rightarrow> FindDistributionsURL \<Rightarrow> string \<Rightarrow> string \<Rightarrow> string go" where
  "FindDistributionsURL_StringFull F b scheme host = url_text FindDistributionsURL_Must (FindDistributionsURL_BuildFull F b scheme host)"

record PutDistributionsURL =
  PutDistributionsURL_FlagID :: i64
  PutDistributionsURL_SegmentID :: i64
  PutDistributionsURL_basePath :: string

definition PutDistributionsURL_SetBasePath :: "string \<Rightarrow> PutDistributionsURL \<Rightarrow> PutDistributionsURL" where
  "PutDistributionsURL_SetBasePath bp b = b\<lparr>PutDistributionsURL_basePath := bp\<rparr>"

definition PutDistributionsURL_WithBasePath :: "string \<Rightarrow> PutDistributionsURL \<Rightarrow> PutDistributionsURL" where
  "PutDistributionsURL_WithBasePath bp b = PutDistributionsURL_SetBasePath bp b"

definition PutDistributionsURL_Build :: "swag_format \<Rightarrow> PutDistributionsURL \<Rightarrow> error + go_url" where
  "PutDistributionsURL_Build F b =
     sum_bind (path_id ''PutDistributionsURL'' ''flagId'' ''{flagID}'' (swag_FormatInt64 F (PutDistributionsURL_FlagID b)) ''/flags/{flagID}/segments/{segmentID}/distributions'') (\<lambda>path.
     sum_bind (path_id ''PutDistributionsURL'' ''segmentId'' ''{segmentID}'' (swag_FormatInt64 F (PutDistributionsURL_SegmentID b)) path) (\<lambda>path.
     Inr (built_url (PutDistributionsURL_basePath b) path [])))"

definition PutDistributionsURL_BuildFull :: "swag_format \<Rightarrow> PutDistributionsURL \<Rightarrow> string \<Rightarrow> string \<Rightarrow> error + go_url" where
  "PutDistributionsURL_BuildFull F b scheme host = build_full ''PutDistributionsURL'' (PutDistributionsURL_Build F b) scheme host"

definition PutDistributionsURL_Must :: "go_url option \<Rightarrow> error option \<Rightarrow> go_url go" where
  "PutDistributionsURL_Must u err = url_Must u err"

definition PutDistributionsURL_String :: "swag_format \<Rightarrow> PutDistributionsURL \<Rightarrow> string go" where
  "PutDistributionsURL_String F b = url_text PutDistributionsURL_Must (PutDistributionsURL_Build F b)"

definition PutDistributionsURL_StringFull :: "swag_format \<Rightarrow> PutDistributionsURL \<Rightarrow> string \<Rightarrow> string \<Rightarrow> string go" where
  "PutDistributionsURL_StringFull F b scheme host = url_text PutDistributionsURL_Must (PutDistributionsURL_BuildFull F b scheme host)"

section \<open>Variants\<close>

record CreateVariantURL =
  CreateVariantURL_FlagID :: i64
  CreateVariantURL_basePath :: string

definition CreateVariantURL_SetBasePath :: "string \<Rightarrow> CreateVariantURL \<Rightarrow> CreateVariantURL" where
  "CreateVariantURL_SetBasePath bp b = b\<lparr>CreateVariantURL_basePath := bp\<rparr>"

definition CreateVariantURL_WithBasePath :: "string \<Rightarrow> CreateVariantURL \<Rightarrow> CreateVariantURL" where
  "CreateVariantURL_WithBasePath bp b = CreateVariantURL_SetBasePath bp b"

definition CreateVariantURL_Build :: "swag_format \<Rightarrow> CreateVariantURL \<Rightarrow> error + go_url" where
  "CreateVariantURL_Build F b =
     sum_bind (path_id ''CreateVariantURL'' ''flagId'' ''{flagID}'' (swag_FormatInt64 F (CreateVariantURL_FlagID b)) ''/flags/{flagID}/variants'') (\<lambda>path.
     Inr (built_url (CreateVariantURL_basePath b) path []))"

definition CreateVariantURL_BuildFull :: "swag_format \<Rightarrow> CreateVariantURL \<Rightarrow> string \<Rightarrow> string \<Rightarrow> error + go_url" where
  "CreateVariantURL_BuildFull F b scheme host = build_full ''CreateVariantURL'' (CreateVariantURL_Build F b) scheme host"

definition CreateVariantURL_Must :: "go_url option \<Rightarrow> error option \<Rightarrow> go_url go" where
  "CreateVariantURL_Must u err = url_Must u err"

definition CreateVariantURL_String :: "swag_format \<Rightarrow> CreateVariantURL \<Rightarrow> string go" where
  "CreateVariantURL_String F b = url_text CreateVariantURL_Must (CreateVariantURL_Build F b)"

definition CreateVariantURL_StringFull :: "swag_format \<Rightarrow> CreateVariantURL \<Rightarrow> string \<Rightarrow> string \<Rightarrow> string go" where
  "CreateVariantURL_StringFull F b scheme host = url_text CreateVariantURL_Must (CreateVariantURL_BuildFull F b scheme host)"

record DeleteVariantURL =
  DeleteVariantURL_FlagID :: i64
  DeleteVariantURL_VariantID :: i64
  DeleteVariantURL_basePath :: string

definition DeleteVariantURL_SetBasePath :: "string \<Rightarrow> DeleteVariantURL \<Rightarrow> DeleteVariantURL" where
  "DeleteVariantURL_SetBasePath bp b = b\<lparr>DeleteVariantURL_basePath := bp\<rparr>"

definition DeleteVariantURL_WithBasePath :: "string \<Rightarrow> DeleteVariantURL \<Rightarrow> DeleteVariantURL" where
  "DeleteVariantURL_WithBasePath bp b = DeleteVariantURL_SetBasePath bp b"

definition DeleteVariantURL_Build :: "swag_format \<Rightarrow> DeleteVariantURL \<Rightarrow> error + go_url" where
  "DeleteVariantURL_Build F b =
     sum_bind (path_id ''DeleteVariantURL'' ''flagId'' ''{flagID}'' (swag_FormatInt64 F (DeleteVariantURL_FlagID b)) ''/flags/{flagID}/variants/{variantID}'') (\<lambda>path.
     sum_bind (path_id ''DeleteVariantURL'' ''variantId'' ''{variantID}'' (swag_FormatInt64 F (DeleteVariantURL_VariantID b)) path) (\<lambda>path.
     Inr (built_url (DeleteVariantURL_basePath b) path [])))"

definition DeleteVariantURL_BuildFull :: "swag_format \<Rightarrow> DeleteVariantURL \<Rightarrow> string \<Rightarrow> string \<Rightarrow> error + go_url" where
  "DeleteVariantURL_BuildFull F b scheme host = build_full ''DeleteVariantURL'' (DeleteVariantURL_Build F b) scheme host"

definition DeleteVariantURL_Must :: "go_url option \<Rightarrow> error option \<Rightarrow> go_url go" where
  "DeleteVariantURL_Must u err = url_Must u err"

definition DeleteVariantURL_String :: "swag_format \<Rightarrow> DeleteVariantURL \<Rightarrow> string go" where
  "DeleteVariantURL_String F b = url_text DeleteVariantURL_Must (DeleteVariantURL_Build F b)"

definition DeleteVariantURL_StringFull :: "swag_format \<Rightarrow> DeleteVariantURL \<Rightarrow> string \<Rightarrow> string \<Rightarrow> string go" where
  "DeleteVariantURL_StringFull F b scheme host = url_text DeleteVariantURL_Must (DeleteVariantURL_BuildFull F b scheme host)"

record FindVariantsURL =
  FindVariantsURL_FlagID :: i64
  FindVariantsURL_basePath :: string

definition FindVariantsURL_SetBasePath :: "string \<Rightarrow> FindVariantsURL \<Rightarrow> FindVariantsURL" where
  "FindVariantsURL_SetBasePath bp b = b\<lparr>FindVariantsURL_basePath := bp\<rparr>"

definition FindVariantsURL_WithBasePath :: "string \<Rightarrow> FindVariantsURL \<Rightarrow> FindVariantsURL" where
  "FindVariantsURL_WithBasePath bp b = FindVariantsURL_SetBasePath bp b"

definition FindVariantsURL_Build :: "swag_format \<Rightarrow> FindVariantsURL \<Rightarrow> error + go_url" where
  "FindVariantsURL_Build F b =
     sum_bind (path_id ''FindVariantsURL'' ''flagId'' ''{flagID}'' (swag_FormatInt64 F (FindVariantsURL_FlagID b)) ''/flags/{flagID}/variants'') (\<lambda>path.
     Inr (built_url (FindVariantsURL_basePath b) path []))"

definition FindVariantsURL_BuildFull :: "swag_format \<Rightarrow> FindVariantsURL \<Rightarrow> string \<Rightarrow> string \<Rightarrow> error + go_url" where
  "FindVariantsURL_BuildFull F b scheme host = build_full ''FindVariantsURL'' (FindVariantsURL_Build F b) scheme host"

definition FindVariantsURL_Must :: "go_url option \<Rightarrow> error option \<Rightarrow> go_url go" where
  "FindVariantsURL_Must u err = url_Must u err"

definition FindVariantsURL_String :: "swag_format \<Rightarrow> FindVariantsURL \<Rightarrow> string go" where
  "FindVariantsURL_String F b = url_text FindVariantsURL_Must (FindVariantsURL_Build F b)"

definition FindVariantsURL_StringFull :: "swag_format \<Rightarrow> FindVariantsURL \<Rightarrow> string \<Rightarrow> string \<Rightarrow> string go" where
  "FindVariantsURL_StringFull F b scheme host = url_text FindVariantsURL_Must (FindVariantsURL_BuildFull F b scheme host)"

record PutVariantURL =
  PutVariantURL_FlagID :: i64
  PutVariantURL_VariantID :: i64
  PutVariantURL_basePath :: string

definition PutVariantURL_SetBasePath :: "string \<Rightarrow> PutVariantURL \<Rightarrow> PutVariantURL" where
  "PutVariantURL_SetBasePath bp b = b\<lparr>PutVariantURL_basePath := bp\<rparr>"

definition PutVariantURL_WithBasePath :: "string \<Rightarrow> PutVariantURL \<Rightarrow> PutVariantURL" where
  "PutVariantURL_WithBasePath bp b = PutVariantURL_SetBasePath bp b"

definition PutVariantURL_Build :: "swag_format \<Rightarrow> PutVariantURL \<Rightarrow> error + go_url" where
  "PutVariantURL_Build F b =
     sum_bind (path_id ''PutVariantURL'' ''flagId'' ''{flagID}'' (swag_FormatInt64 F (PutVariantURL_FlagID b)) ''/flags/{flagID}/variants/{variantID}'') (\<lambda>path.
     sum_bind (path_id ''PutVariantURL'' ''variantId'' ''{variantID}'' (swag_FormatInt64 F (PutVariantURL_VariantID b)) path) (\<lambda>path.
     Inr (built_url (PutVariantURL_basePath b) path [])))"

definition PutVariantURL_BuildFull :: "swag_format \<Rightarrow> PutVariantURL \<Rightarrow> string \<Rightarrow> string \<Rightarrow> error + go_url" where
  "PutVariantURL_BuildFull F b scheme host = build_full ''PutVariantURL'' (PutVariantURL_Build F b) scheme host"

definition PutVariantURL_Must :: "go_url option \<Rightarrow> error option \<Rightarrow> go_url go" where
  "PutVariantURL_Must u err = url_Must u err"

definition PutVariantURL_String :: "swag_format \<Rightarrow> PutVariantURL \<Rightarrow> string go" where
  "PutVariantURL_String F b = url_text PutVariantURL_Must (PutVariantURL_Build F b)"

definition PutVariantURL_StringFull :: "swag_format \<Rightarrow> PutVariantURL \<Rightarrow> string \<Rightarrow> string \<Rightarrow> string go" where
  "PutVariantURL_StringFull F b scheme host = url_text PutVariantURL_Must (PutVariantURL_BuildFull F b scheme host)"

section \<open>Evaluation\<close>

record PostEvaluationBatchURL =
  PostEvaluationBatchURL_basePath :: string

definition PostEvaluationBatchURL_SetBasePath :: "string \<Rightarrow> PostEvaluationBatchURL \<Rightarrow> PostEvaluationBatchURL" where
  "PostEvaluationBatchURL_SetBasePath bp b = b\<lparr>PostEvaluationBatchURL_basePath := bp\<rparr>"

definition PostEvaluationBatchURL_WithBasePath :: "string \<Rightarrow> PostEvaluationBatchURL \<Rightarrow> PostEvaluationBatchURL" where
  "PostEvaluationBatchURL_WithBasePath bp b = PostEvaluationBatchURL_SetBasePath bp b"

definition PostEvaluationBatchURL_Build :: "swag_format \<Rightarrow> PostEvaluationBatchURL \<Rightarrow> error + go_url" where
  "PostEvaluationBatchURL_Build F b =
     Inr (built_url (PostEvaluationBatchURL_basePath b) ''/evaluation/batch'' [])"

definition PostEvaluationBatchURL_BuildFull :: "swag_format \<Rightarrow> PostEvaluationBatchURL \<Rightarrow> string \<Rightarrow> string \<Rightarrow> error + go_url" where
  "PostEvaluationBatchURL_BuildFull F b scheme host = build_full ''PostEvaluationBatchURL'' (PostEvaluationBatchURL_Build F b) scheme host"

definition PostEvaluationBatchURL_Must :: "go_url option \<Rightarrow> error option \<Rightarrow> go_url go" where
  "PostEvaluationBatchURL_Must u err = url_Must u err"

definition PostEvaluationBatchURL_String :: "swag_format \<Rightarrow> PostEvaluationBatchURL \<Rightarrow> string go" where
  "PostEvaluationBatchURL_String F b = url_text PostEvaluationBatchURL_Must (PostEvaluationBatchURL_Build F b)"

definition PostEvaluationBatchURL_StringFull :: "swag_format \<Rightarrow> PostEvaluationBatchURL \<Rightarrow> string \<Rightarrow> string \<Rightarrow> string go" where
  "PostEvaluationBatchURL_StringFull F b scheme host = url_text PostEvaluationBatchURL_Must (PostEvaluationBatchURL_BuildFull F b scheme host)"

record PostEvaluationURL =
  PostEvaluationURL_basePath :: string

definition PostEvaluationURL_SetBasePath :: "string \<Rightarrow> PostEvaluationURL \<Rightarrow> PostEvaluationURL" where
  "PostEvaluationURL_SetBasePath bp b = b\<lparr>PostEvaluationURL_basePath := bp\<rparr>"

definition PostEvaluationURL_WithBasePath :: "string \<Rightarrow> PostEvaluationURL \<Rightarrow> PostEvaluationURL" where
  "PostEvaluationURL_WithBasePath bp b = PostEvaluationURL_SetBasePath bp b"

definition PostEvaluationURL_Build :: "swag_format \<Rightarrow> PostEvaluationURL \<Rightarrow> error + go_url" where
  "PostEvaluationURL_Build F b =
     Inr (built_url (PostEvaluationURL_basePath b) ''/evaluation'' [])"

definition PostEvaluationURL_BuildFull :: "swag_format \<Rightarrow> PostEvaluationURL \<Rightarrow> string \<Rightarrow> string \<Rightarrow> error + go_url" where
  "PostEvaluationURL_BuildFull F b scheme host = build_full ''PostEvaluationURL'' (PostEvaluationURL_Build F b) scheme host"

definition PostEvaluationURL_Must :: "go_url option \<Rightarrow> error option \<Rightarrow> go_url go" where
  "PostEvaluationURL_Must u err = url_Must u err"

definition PostEvaluationURL_String :: "swag_format \<Rightarrow> PostEvaluationURL \<Rightarrow> string go" where
  "PostEvaluationURL_String F b = url_text PostEvaluationURL_Must (PostEvaluationURL_Build F b)"

definition PostEvaluationURL_StringFull :: "swag_format \<Rightarrow> PostEvaluationURL \<Rightarrow> string \<Rightarrow> string \<Rightarrow> string go" where
  "PostEvaluationURL_StringFull F b scheme host = url_text PostEvaluationURL_Must (PostEvaluationURL_BuildFull F b scheme host)"

section \<open>Export\<close>

record GetExportEvalCacheJSONURL =
  GetExportEvalCacheJSONURL_basePath :: string

definition GetExportEvalCacheJSONURL_SetBasePath :: "string \<Rightarrow> GetExportEvalCacheJSONURL \<Rightarrow> GetExportEvalCacheJSONURL" where
  "GetExportEvalCacheJSONURL_SetBasePath bp b = b\<lparr>GetExportEvalCacheJSONURL_basePath := bp\<rparr>"

definition GetExportEvalCacheJSONURL_WithBasePath :: "string \<Rightarrow> GetExportEvalCacheJSONURL \<Rightarrow> GetExportEvalCacheJSONURL" where
  "GetExportEvalCacheJSONURL_WithBasePath bp b = GetExportEvalCacheJSONURL_SetBasePath bp b"

definition GetExportEvalCacheJSONURL_Build :: "swag_format \<Rightarrow> GetExportEvalCacheJSONURL \<Rightarrow> error + go_url" where
  "GetExportEvalCacheJSONURL_Build F b =
     Inr (built_url (GetExportEvalCacheJSONURL_basePath b) ''/export/eval_cache/json'' [])"

definition GetExportEvalCacheJSONURL_BuildFull :: "swag_format \<Rightarrow> GetExportEvalCacheJSONURL \<Rightarrow> string \<Rightarrow> string \<Rightarrow> error + go_url" where
  "GetExportEvalCacheJSONURL_BuildFull F b scheme host = build_full ''GetExportEvalCacheJSONURL'' (GetExportEvalCacheJSONURL_Build F b) scheme host"

definition GetExportEvalCacheJSONURL_Must :: "go_url option \<Rightarrow> error option \<Rightarrow> go_url go" where
  "GetExportEvalCacheJSONURL_Must u err = url_Must u err"

definition GetExportEvalCacheJSONURL_String :: "swag_format \<Rightarrow> GetExportEvalCacheJSONURL \<Rightarrow> string go" where
  "GetExportEvalCacheJSONURL_String F b = url_text GetExportEvalCacheJSONURL_Must (GetExportEvalCacheJSONURL_Build F b)"

definition GetExportEvalCacheJSONURL_StringFull :: "swag_format \<Rightarrow> GetExportEvalCacheJSONURL \<Rightarrow> string \<Rightarrow> string \<Rightarrow> string go" where
  "GetExportEvalCacheJSONURL_StringFull F b scheme host = url_text GetExportEvalCacheJSONURL_Must (GetExportEvalCacheJSONURL_BuildFull F b scheme host)"

record GetExportSqliteURL =
  GetExportSqliteURL_ExcludeSnapshots :: "bool option"
  GetExportSqliteURL_basePath :: string

definition GetExportSqliteURL_SetBasePath :: "string \<Rightarrow> GetExportSqliteURL \<Rightarrow> GetExportSqliteURL" where
  "GetExportSqliteURL_SetBasePath bp b = b\<lparr>GetExportSqliteURL_basePath := bp\<rparr>"

definition GetExportSqliteURL_WithBasePath :: "string \<Rightarrow> GetExportSqliteURL \<Rightarrow> GetExportSqliteURL" where
  "GetExportSqliteURL_WithBasePath bp b = GetExportSqliteURL_SetBasePath bp b"

definition GetExportSqliteURL_Build :: "swag_format \<Rightarrow> GetExportSqliteURL \<Rightarrow> error + go_url" where
  "GetExportSqliteURL_Build F b =
     (let qs = [];
         qs = set_param ''exclude_snapshots'' (opt_text (swag_FormatBool F) (GetExportSqliteURL_ExcludeSnapshots b)) qs
     in Inr (built_url (GetExportSqliteURL_basePath b) ''/export/sqlite'' qs))"

definition GetExportSqliteURL_BuildFull :: "swag_format \<Rightarrow> GetExportSqliteURL \<Rightarrow> string \<Rightarrow> string \<Rightarrow> error + go_url" where
  "GetExportSqliteURL_BuildFull F b scheme host = build_full ''GetExportSqliteURL'' (GetExportSqliteURL_Build F b) scheme host"

definition GetExportSqliteURL_Must :: "go_url option \<Rightarrow> error option \<Rightarrow> go_url go" where
  "GetExportSqliteURL_Must u err = url_Must u err"

definition GetExportSqliteURL_String :: "swag_format \<Rightarrow> GetExportSqliteURL \<Rightarrow> string go" where
  "GetExportSqliteURL_String F b = url_text GetExportSqliteURL_Must (GetExportSqliteURL_Build F b)"

definition GetExportSqliteURL_StringFull :: "swag_format \<Rightarrow> GetExportSqliteURL \<Rightarrow> string \<Rightarrow> string \<Rightarrow> string go" where
  "GetExportSqliteURL_StringFull F b scheme host = url_text GetExportSqliteURL_Must (GetExportSqliteURL_BuildFull F b scheme host)"

section \<open>Health\<close>

record GetHealthURL =
  GetHealthURL_basePath :: string

definition GetHealthURL_SetBasePath :: "string \<Rightarrow> GetHealthURL \<Rightarrow> GetHealthURL" where
  "GetHealthURL_SetBasePath bp b = b\<lparr>GetHealthURL_basePath := bp\<rparr>"

definition GetHealthURL_WithBasePath :: "string \<Rightarrow> GetHealthURL \<Rightarrow> GetHealthURL" where
  "GetHealthURL_WithBasePath bp b = GetHealthURL_SetBasePath bp b"

definition GetHealthURL_Build :: "swag_format \<Rightarrow> GetHealthURL \<Rightarrow> error + go_url" where
  "GetHealthURL_Build F b =
     Inr (built_url (GetHealthURL_basePath b) ''/health'' [])"

definition GetHealthURL_BuildFull :: "swag_format \<Rightarrow> GetHealthURL \<Rightarrow> string \<Rightarrow> string \<Rightarrow> error + go_url" where
  "GetHealthURL_BuildFull F b scheme host = build_full ''GetHealthURL'' (GetHealthURL_Build F b) scheme host"

definition GetHealthURL_Must :: "go_url option \<Rightarrow> error option \<Rightarrow> go_url go" where
  "GetHealthURL_Must u err = url_Must u err"

definition GetHealthURL_String :: "swag_format \<Rightarrow> GetHealthURL \<Rightarrow> string go" where
  "GetHealthURL_String F b = url_text GetHealthURL_Must (GetHealthURL_Build F b)"

definition GetHealthURL_StringFull :: "swag_format \<Rightarrow> GetHealthURL \<Rightarrow> string \<Rightarrow> string \<Rightarrow> string go" where
  "GetHealthURL_StringFull F b scheme host = url_text GetHealthURL_Must (GetHealthURL_BuildFull F b scheme host)"

section \<open>All builders\<close>

datatype url_builder =
    U_CreateFlag CreateFlagURL
  | U_DeleteFlag DeleteFlagURL
  | U_FindFlags FindFlagsURL
  | U_GetFlagEntityTypes GetFlagEntityTypesURL
  | U_GetFlagSnapshots GetFlagSnapshotsURL
  | U_GetFlag GetFlagURL
  | U_PutFlag PutFlagURL
  | U_RestoreFlag RestoreFlagURL
  | U_SetFlagEnabled SetFlagEnabledURL
  | U_CreateTag CreateTagURL
  | U_DeleteTag DeleteTagURL
  | U_FindAllTags FindAllTagsURL
  | U_FindTags FindTagsURL
  | U_CreateSegment CreateSegmentURL
  | U_DeleteSegment DeleteSegmentURL
  | U_FindSegments FindSegmentsURL
  | U_PutSegment PutSegmentURL
  | U_PutSegmentsReorder PutSegmentsReorderURL
  | U_CreateConstraint CreateConstraintURL
  | U_DeleteConstraint DeleteConstraintURL
  | U_FindConstraints FindConstraintsURL
  | U_PutConstraint PutConstraintURL
  | U_FindDistributions FindDistributionsURL
  | U_PutDistributions PutDistributionsURL
  | U_CreateVariant CreateVariantURL
  | U_DeleteVariant DeleteVariantURL
  | U_FindVariants FindVariantsURL
  | U_PutVariant PutVariantURL
  | U_PostEvaluationBatch PostEvaluationBatchURL
  | U_PostEvaluation PostEvaluationURL
  | U_GetExportEvalCacheJSON GetExportEvalCacheJSONURL
  | U_GetExportSqlite GetExportSqliteURL
  | U_GetHealth GetHealthURL

primrec builder_Build :: "swag_format \<Rightarrow> url_builder \<Rightarrow> error + go_url" where
  "builder_Build F (U_CreateFlag b) = CreateFlagURL_Build F b"
| "builder_Build F (U_DeleteFlag b) = DeleteFlagURL_Build F b"
| "builder_Build F (U_FindFlags b) = FindFlagsURL_Build F b"
| "builder_Build F (U_GetFlagEntityTypes b) = GetFlagEntityTypesURL_Build F b"
| "builder_Build F (U_GetFlagSnapshots b) = GetFlagSnapshotsURL_Build F b"
| "builder_Build F (U_GetFlag b) = GetFlagURL_Build F b"
| "builder_Build F (U_PutFlag b) = PutFlagURL_Build F b"
| "builder_Build F (U_RestoreFlag b) = RestoreFlagURL_Build F b"
| "builder_Build F (U_SetFlagEnabled b) = SetFlagEnabledURL_Build F b"
| "builder_Build F (U_CreateTag b) = CreateTagURL_Build F b"
| "builder_Build F (U_DeleteTag b) = DeleteTagURL_Build F b"
| "builder_Build F (U_FindAllTags b) = FindAllTagsURL_Build F b"
| "builder_Build F (U_FindTags b) = FindTagsURL_Build F b"
| "builder_Build F (U_CreateSegment b) = CreateSegmentURL_Build F b"
| "builder_Build F (U_DeleteSegment b) = DeleteSegmentURL_Build F b"
| "builder_Build F (U_FindSegments b) = FindSegmentsURL_Build F b"
| "builder_Build F (U_PutSegment b) = PutSegmentURL_Build F b"
| "builder_Build F (U_PutSegmentsReorder b) = PutSegmentsReorderURL_Build F b"
| "builder_Build F (U_CreateConstraint b) = CreateConstraintURL_Build F b"
| "builder_Build F (U_DeleteConstraint b) = DeleteConstraintURL_Build F b"
| "builder_Build F (U_FindConstraints b) = FindConstraintsURL_Build F b"
| "builder_Build F (U_PutConstraint b) = PutConstraintURL_Build F b"
| "builder_Build F (U_FindDistributions b) = FindDistributionsURL_Build F b"
| "builder_Build F (U_PutDistributions b) = PutDistributionsURL_Build F b"
| "builder_Build F (U_CreateVariant b) = CreateVariantURL_Build F b"
| "builder_Build F (U_DeleteVariant b) = DeleteVariantURL_Build F b"
| "builder_Build F (U_FindVariants b) = FindVariantsURL_Build F b"
| "builder_Build F (U_PutVariant b) = PutVariantURL_Build F b"
| "builder_Build F (U_PostEvaluationBatch b) = PostEvaluationBatchURL_Build F b"
| "builder_Build F (U_PostEvaluation b) = PostEvaluationURL_Build F b"
| "builder_Build F (U_GetExportEvalCacheJSON b) = GetExportEvalCacheJSONURL_Build F b"
| "builder_Build F (U_GetExportSqlite b) = GetExportSqliteURL_Build F b"
| "builder_Build F (U_GetHealth b) = GetHealthURL_Build F b"

primrec builder_WithBasePath :: "string \<Rightarrow> url_builder \<Rightarrow> url_builder" where
  "builder_WithBasePath bp (U_CreateFlag b) = U_CreateFlag (CreateFlagURL_WithBasePath bp b)"
| "builder_WithBasePath bp (U_DeleteFlag b) = U_DeleteFlag (DeleteFlagURL_WithBasePath bp b)"
| "builder_WithBasePath bp (U_FindFlags b) = U_FindFlags (FindFlagsURL_WithBasePath bp b)"
| "builder_WithBasePath bp (U_GetFlagEntityTypes b) = U_GetFlagEntityTypes (GetFlagEntityTypesURL_WithBasePath bp b)"
| "builder_WithBasePath bp (U_GetFlagSnapshots b) = U_GetFlagSnapshots (GetFlagSnapshotsURL_WithBasePath bp b)"
| "builder_WithBasePath bp (U_GetFlag b) = U_GetFlag (GetFlagURL_WithBasePath bp b)"
| "builder_WithBasePath bp (U_PutFlag b) = U_PutFlag (PutFlagURL_WithBasePath bp b)"
| "builder_WithBasePath bp (U_RestoreFlag b) = U_RestoreFlag (RestoreFlagURL_WithBasePath bp b)"
| "builder_WithBasePath bp (U_SetFlagEnabled b) = U_SetFlagEnabled (SetFlagEnabledURL_WithBasePath bp b)"
| "builder_WithBasePath bp (U_CreateTag b) = U_CreateTag (CreateTagURL_WithBasePath bp b)"
| "builder_WithBasePath bp (U_DeleteTag b) = U_DeleteTag (DeleteTagURL_WithBasePath bp b)"
| "builder_WithBasePath bp (U_FindAllTags b) = U_FindAllTags (FindAllTagsURL_WithBasePath bp b)"
| "builder_WithBasePath bp (U_FindTags b) = U_FindTags (FindTagsURL_WithBasePath bp b)"
| "builder_WithBasePath bp (U_CreateSegment b) = U_CreateSegment (CreateSegmentURL_WithBasePath bp b)"
| "builder_WithBasePath bp (U_DeleteSegment b) = U_DeleteSegment (DeleteSegmentURL_WithBasePath bp b)"
| "builder_WithBasePath bp (U_FindSegments b) = U_FindSegments (FindSegmentsURL_WithBasePath bp b)"
| "builder_WithBasePath bp (U_PutSegment b) = U_PutSegment (PutSegmentURL_WithBasePath bp b)"
| "builder_WithBasePath bp (U_PutSegmentsReorder b) = U_PutSegmentsReorder (PutSegmentsReorderURL_WithBasePath bp b)"
| "builder_WithBasePath bp (U_CreateConstraint b) = U_CreateConstraint (CreateConstraintURL_WithBasePath bp b)"
| "builder_WithBasePath bp (U_DeleteConstraint b) = U_DeleteConstraint (DeleteConstraintURL_WithBasePath bp b)"
| "builder_WithBasePath bp (U_FindConstraints b) = U_FindConstraints (FindConstraintsURL_WithBasePath bp b)"
| "builder_WithBasePath bp (U_PutConstraint b) = U_PutConstraint (PutConstraintURL_WithBasePath bp b)"
| "builder_WithBasePath bp (U_FindDistributions b) = U_FindDistributions (FindDistributionsURL_WithBasePath bp b)"
| "builder_WithBasePath bp (U_PutDistributions b) = U_PutDistributions (PutDistributionsURL_WithBasePath bp b)"
| "builder_WithBasePath bp (U_CreateVariant b) = U_CreateVariant (CreateVariantURL_WithBasePath bp b)"
| "builder_WithBasePath bp (U_DeleteVariant b) = U_DeleteVariant (DeleteVariantURL_WithBasePath bp b)"
| "builder_WithBasePath bp (U_FindVariants b) = U_FindVariants (FindVariantsURL_WithBasePath bp b)"
| "builder_WithBasePath bp (U_PutVariant b) = U_PutVariant (PutVariantURL_WithBasePath bp b)"
| "builder_WithBasePath bp (U_PostEvaluationBatch b) = U_PostEvaluationBatch (PostEvaluationBatchURL_WithBasePath bp b)"
| "builder_WithBasePath bp (U_PostEvaluation b) = U_PostEvaluation (PostEvaluationURL_WithBasePath bp b)"
| "builder_WithBasePath bp (U_GetExportEvalCacheJSON b) = U_GetExportEvalCacheJSON (GetExportEvalCacheJSONURL_WithBasePath bp b)"
| "builder_WithBasePath bp (U_GetExportSqlite b) = U_GetExportSqlite (GetExportSqliteURL_WithBasePath bp b)"
| "builder_WithBasePath bp (U_GetHealth b) = U_GetHealth (GetHealthURL_WithBasePath bp b)"

primrec builder_String :: "swag_format \<Rightarrow> url_builder \<Rightarrow> string go" where
  "builder_String F (U_CreateFlag b) = CreateFlagURL_String F b"
| "builder_String F (U_DeleteFlag b) = DeleteFlagURL_String F b"
| "builder_String F (U_FindFlags b) = FindFlagsURL_String F b"
| "builder_String F (U_GetFlagEntityTypes b) = GetFlagEntityTypesURL_String F b"
| "builder_String F (U_GetFlagSnapshots b) = GetFlagSnapshotsURL_String F b"
| "builder_String F (U_GetFlag b) = GetFlagURL_String F b"
| "builder_String F (U_PutFlag b) = PutFlagURL_String F b"
| "builder_String F (U_RestoreFlag b) = RestoreFlagURL_String F b"
| "builder_String F (U_SetFlagEnabled b) = SetFlagEnabledURL_String F b"
| "builder_String F (U_CreateTag b) = CreateTagURL_String F b"
| "builder_String F (U_DeleteTag b) = DeleteTagURL_String F b"
| "builder_String F (U_FindAllTags b) = FindAllTagsURL_String F b"
| "builder_String F (U_FindTags b) = FindTagsURL_String F b"
| "builder_String F (U_CreateSegment b) = CreateSegmentURL_String F b"
| "builder_String F (U_DeleteSegment b) = DeleteSegmentURL_String F b"
| "builder_String F (U_FindSegments b) = FindSegmentsURL_String F b"
| "builder_String F (U_PutSegment b) = PutSegmentURL_String F b"
| "builder_String F (U_PutSegmentsReorder b) = PutSegmentsReorderURL_String F b"
| "builder_String F (U_CreateConstraint b) = CreateConstraintURL_String F b"
| "builder_String F (U_DeleteConstraint b) = DeleteConstraintURL_String F b"
| "builder_String F (U_FindConstraints b) = FindConstraintsURL_String F b"
| "builder_String F (U_PutConstraint b) = PutConstraintURL_String F b"
| "builder_String F (U_FindDistributions b) = FindDistributionsURL_String F b"
| "builder_String F (U_PutDistributions b) = PutDistributionsURL_String F b"
| "builder_String F (U_CreateVariant b) = CreateVariantURL_String F b"
| "builder_String F (U_DeleteVariant b) = DeleteVariantURL_String F b"
| "builder_String F (U_FindVariants b) = FindVariantsURL_String F b"
| "builder_String F (U_PutVariant b) = PutVariantURL_String F b"
| "builder_String F (U_PostEvaluationBatch b) = PostEvaluationBatchURL_String F b"
| "builder_String F (U_PostEvaluation b) = PostEvaluationURL_String F b"
| "builder_String F (U_GetExportEvalCacheJSON b) = GetExportEvalCacheJSONURL_String F b"
| "builder_String F (U_GetExportSqlite b) = GetExportSqliteURL_String F b"
| "builder_String F (U_GetHealth b) = GetHealthURL_String F b"

primrec builder_operation :: "url_builder \<Rightarrow> operation" where
  "builder_operation (U_CreateFlag b) = Op_CreateFlag"
| "builder_operation (U_DeleteFlag b) = Op_DeleteFlag"
| "builder_operation (U_FindFlags b) = Op_FindFlags"
| "builder_operation (U_GetFlagEntityTypes b) = Op_GetFlagEntityTypes"
| "builder_operation (U_GetFlagSnapshots b) = Op_GetFlagSnapshots"
| "builder_operation (U_GetFlag b) = Op_GetFlag"
| "builder_operation (U_PutFlag b) = Op_PutFlag"
| "builder_operation (U_RestoreFlag b) = Op_RestoreFlag"
| "builder_operation (U_SetFlagEnabled b) = Op_SetFlagEnabled"
| "builder_operation (U_CreateTag b) = Op_CreateTag"
| "builder_operation (U_DeleteTag b) = Op_DeleteTag"
| "builder_operation (U_FindAllTags b) = Op_FindAllTags"
| "builder_operation (U_FindTags b) = Op_FindTags"
| "builder_operation (U_CreateSegment b) = Op_CreateSegment"
| "builder_operation (U_DeleteSegment b) = Op_DeleteSegment"
| "builder_operation (U_FindSegments b) = Op_FindSegments"
| "builder_operation (U_PutSegment b) = Op_PutSegment"
| "builder_operation (U_PutSegmentsReorder b) = Op_PutSegmentsReorder"
| "builder_operation (U_CreateConstraint b) = Op_CreateConstraint"
| "builder_operation (U_DeleteConstraint b) = Op_DeleteConstraint"
| "builder_operation (U_FindConstraints b) = Op_FindConstraints"
| "builder_operation (U_PutConstraint b) = Op_PutConstraint"
| "builder_operation (U_FindDistributions b) = Op_FindDistributions"
| "builder_operation (U_PutDistributions b) = Op_PutDistributions"
| "builder_operation (U_CreateVariant b) = Op_CreateVariant"
| "builder_operation (U_DeleteVariant b) = Op_DeleteVariant"
| "builder_operation (U_FindVariants b) = Op_FindVariants"
| "builder_operation (U_PutVariant b) = Op_PutVariant"
| "builder_operation (U_PostEvaluationBatch b) = Op_PostEvaluationBatch"
| "builder_operation (U_PostEvaluation b) = Op_PostEvaluation"
| "builder_operation (U_GetExportEvalCacheJSON b) = Op_GetExportEvalCacheJSON"
| "builder_operation (U_GetExportSqlite b) = Op_GetExportSqlite"
| "builder_operation (U_GetHealth b) = Op_GetHealth"

primrec builder_base :: "url_builder \<Rightarrow> string" where
  "builder_base (U_CreateFlag b) = CreateFlagURL_basePath b"
| "builder_base (U_DeleteFlag b) = DeleteFlagURL_basePath b"
| "builder_base (U_FindFlags b) = FindFlagsURL_basePath b"
| "builder_base (U_GetFlagEntityTypes b) = GetFlagEntityTypesURL_basePath b"
| "builder_base (U_GetFlagSnapshots b) = GetFlagSnapshotsURL_basePath b"
| "builder_base (U_GetFlag b) = GetFlagURL_basePath b"
| "builder_base (U_PutFlag b) = PutFlagURL_basePath b"
| "builder_base (U_RestoreFlag b) = RestoreFlagURL_basePath b"
| "builder_base (U_SetFlagEnabled b) = SetFlagEnabledURL_basePath b"
| "builder_base (U_CreateTag b) = CreateTagURL_basePath b"
| "builder_base (U_DeleteTag b) = DeleteTagURL_basePath b"
| "builder_base (U_FindAllTags b) = FindAllTagsURL_basePath b"
| "builder_base (U_FindTags b) = FindTagsURL_basePath b"
| "builder_base (U_CreateSegment b) = CreateSegmentURL_basePath b"
| "builder_base (U_DeleteSegment b) = DeleteSegmentURL_basePath b"
| "builder_base (U_FindSegments b) = FindSegmentsURL_basePath b"
| "builder_base (U_PutSegment b) = PutSegmentURL_basePath b"
| "builder_base (U_PutSegmentsReorder b) = PutSegmentsReorderURL_basePath b"
| "builder_base (U_CreateConstraint b) = CreateConstraintURL_basePath b"
| "builder_base (U_DeleteConstraint b) = DeleteConstraintURL_basePath b"
| "builder_base (U_FindConstraints b) = FindConstraintsURL_basePath b"
| "builder_base (U_PutConstraint b) = PutConstraintURL_basePath b"
| "builder_base (U_FindDistributions b) = FindDistributionsURL_basePath b"
| "builder_base (U_PutDistributions b) = PutDistributionsURL_basePath b"
| "builder_base (U_CreateVariant b) = CreateVariantURL_basePath b"
| "builder_base (U_DeleteVariant b) = DeleteVariantURL_basePath b"
| "builder_base (U_FindVariants b) = FindVariantsURL_basePath b"
| "builder_base (U_PutVariant b) = PutVariantURL_basePath b"
| "builder_base (U_PostEvaluationBatch b) = PostEvaluationBatchURL_basePath b"
| "builder_base (U_PostEvaluation b) = PostEvaluationURL_basePath b"
| "builder_base (U_GetExportEvalCacheJSON b) = GetExportEvalCacheJSONURL_basePath b"
| "builder_base (U_GetExportSqlite b) = GetExportSqliteURL_basePath b"
| "builder_base (U_GetHealth b) = GetHealthURL_basePath b"

text \<open>The ids of a builder, by the names and in the order of its route.\<close>

primrec builder_ids :: "url_builder \<Rightarrow> (string \<times> i64) list" where
  "builder_ids (U_CreateFlag b) = []"
| "builder_ids (U_DeleteFlag b) = [(''flagID'', DeleteFlagURL_FlagID b)]"
| "builder_ids (U_FindFlags b) = []"
| "builder_ids (U_GetFlagEntityTypes b) = []"
| "builder_ids (U_GetFlagSnapshots b) = [(''flagID'', GetFlagSnapshotsURL_FlagID b)]"
| "builder_ids (U_GetFlag b) = [(''flagID'', GetFlagURL_FlagID b)]"
| "builder_ids (U_PutFlag b) = [(''flagID'', PutFlagURL_FlagID b)]"
| "builder_ids (U_RestoreFlag b) = [(''flagID'', RestoreFlagURL_FlagID b)]"
| "builder_ids (U_SetFlagEnabled b) = [(''flagID'', SetFlagEnabledURL_FlagID b)]"
| "builder_ids (U_CreateTag b) = [(''flagID'', CreateTagURL_FlagID b)]"
| "builder_ids (U_DeleteTag b) = [(''flagID'', DeleteTagURL_FlagID b), (''tagID'', DeleteTagURL_TagID b)]"
| "builder_ids (U_FindAllTags b) = []"
| "builder_ids (U_FindTags b) = [(''flagID'', FindTagsURL_FlagID b)]"
| "builder_ids (U_CreateSegment b) = [(''flagID'', CreateSegmentURL_FlagID b)]"
| "builder_ids (U_DeleteSegment b) = [(''flagID'', DeleteSegmentURL_FlagID b), (''segmentID'', DeleteSegmentURL_SegmentID b)]"
| "builder_ids (U_FindSegments b) = [(''flagID'', FindSegmentsURL_FlagID b)]"
| "builder_ids (U_PutSegment b) = [(''flagID'', PutSegmentURL_FlagID b), (''segmentID'', PutSegmentURL_SegmentID b)]"
| "builder_ids (U_PutSegmentsReorder b) = [(''flagID'', PutSegmentsReorderURL_FlagID b)]"
| "builder_ids (U_CreateConstraint b) = [(''flagID'', CreateConstraintURL_FlagID b), (''segmentID'', CreateConstraintURL_SegmentID b)]"
| "builder_ids (U_DeleteConstraint b) = [(''flagID'', DeleteConstraintURL_FlagID b), (''segmentID'', DeleteConstraintURL_SegmentID b), (''constraintID'', DeleteConstraintURL_ConstraintID b)]"
| "builder_ids (U_FindConstraints b) = [(''flagID'', FindConstraintsURL_FlagID b), (''segmentID'', FindConstraintsURL_SegmentID b)]"
| "builder_ids (U_PutConstraint b) = [(''flagID'', PutConstraintURL_FlagID b), (''segmentID'', PutConstraintURL_SegmentID b), (''constraintID'', PutConstraintURL_ConstraintID b)]"
| "builder_ids (U_FindDistributions b) = [(''flagID'', FindDistributionsURL_FlagID b), (''segmentID'', FindDistributionsURL_SegmentID b)]"
| "builder_ids (U_PutDistributions b) = [(''flagID'', PutDistributionsURL_FlagID b), (''segmentID'', PutDistributionsURL_SegmentID b)]"
| "builder_ids (U_CreateVariant b) = [(''flagID'', CreateVariantURL_FlagID b)]"
| "builder_ids (U_DeleteVariant b) = [(''flagID'', DeleteVariantURL_FlagID b), (''variantID'', DeleteVariantURL_VariantID b)]"
| "builder_ids (U_FindVariants b) = [(''flagID'', FindVariantsURL_FlagID b)]"
| "builder_ids (U_PutVariant b) = [(''flagID'', PutVariantURL_FlagID b), (''variantID'', PutVariantURL_VariantID b)]"
| "builder_ids (U_PostEvaluationBatch b) = []"
| "builder_ids (U_PostEvaluation b) = []"
| "builder_ids (U_GetExportEvalCacheJSON b) = []"
| "builder_ids (U_GetExportSqlite b) = []"
| "builder_ids (U_GetHealth b) = []"

lemmas builder_String_simps =
  CreateFlagURL_String_def CreateFlagURL_Must_def DeleteFlagURL_String_def DeleteFlagURL_Must_def
  FindFlagsURL_String_def FindFlagsURL_Must_def GetFlagEntityTypesURL_String_def GetFlagEntityTypesURL_Must_def
  GetFlagSnapshotsURL_String_def GetFlagSnapshotsURL_Must_def GetFlagURL_String_def GetFlagURL_Must_def
  PutFlagURL_String_def PutFlagURL_Must_def RestoreFlagURL_String_def RestoreFlagURL_Must_def
  SetFlagEnabledURL_String_def SetFlagEnabledURL_Must_def CreateTagURL_String_def CreateTagURL_Must_def
  DeleteTagURL_String_def DeleteTagURL_Must_def FindAllTagsURL_String_def FindAllTagsURL_Must_def
  FindTagsURL_String_def FindTagsURL_Must_def CreateSegmentURL_String_def CreateSegmentURL_Must_def
  DeleteSegmentURL_String_def DeleteSegmentURL_Must_def FindSegmentsURL_String_def FindSegmentsURL_Must_def
  PutSegmentURL_String_def PutSegmentURL_Must_def PutSegmentsReorderURL_String_def PutSegmentsReorderURL_Must_def
  CreateConstraintURL_String_def CreateConstraintURL_Must_def DeleteConstraintURL_String_def DeleteConstraintURL_Must_def
  FindConstraintsURL_String_def FindConstraintsURL_Must_def PutConstraintURL_String_def PutConstraintURL_Must_def
  FindDistributionsURL_String_def FindDistributionsURL_Must_def PutDistributionsURL_String_def PutDistributionsURL_Must_def
  CreateVariantURL_String_def CreateVariantURL_Must_def DeleteVariantURL_String_def DeleteVariantURL_Must_def
  FindVariantsURL_String_def FindVariantsURL_Must_def PutVariantURL_String_def PutVariantURL_Must_def
  PostEvaluationBatchURL_String_def PostEvaluationBatchURL_Must_def PostEvaluationURL_String_def PostEvaluationURL_Must_def
  GetExportEvalCacheJSONURL_String_def GetExportEvalCacheJSONURL_Must_def GetExportSqliteURL_String_def GetExportSqliteURL_Must_def
  GetHealthURL_String_def GetHealthURL_Must_def

end
