(* ===== verification/Flagr_Routing.thy ===== *)
theory Flagr_Routing
  imports Flagr_Builders
begin

text \<open>
  Where a built URL leads: its path against the route that is registered for its operation, and its ids and query
  parameters against the binding of the parameters of the operation. The router between the two, which finds a route
  for a path, is not part of the repository; what it hands to the binding of a path is a parameter.
\<close>

section \<open>Built paths\<close>

text \<open>A route with its place holders filled in, element by element.\<close>

definition fill_elem :: "(string \<times> string) list \<Rightarrow> string \<Rightarrow> string" where
  "fill_elem ids p = (if prefix ''{'' p then (case map_of ids (butlast (tl p)) of None \<Rightarrow> p | Some t \<Rightarrow> t) else p)"

definition filled_route :: "(string \<times> string) list \<Rightarrow> string \<Rightarrow> string" where
  "filled_route ids route = join ''/'' (map (fill_elem ids) (split_on (CHR ''/'') route))"

definition built_path :: "error + go_url \<Rightarrow> string option" where
  "built_path e = (case e of Inl _ \<Rightarrow> None | Inr u \<Rightarrow> Some (url_Path u))"

definition path_text :: "string \<Rightarrow> bool" where
  "path_text t \<longleftrightarrow> t \<noteq> [] \<and> CHR ''/'' \<notin> set t \<and> CHR ''{'' \<notin> set t \<and> CHR ''.'' \<notin> set t"

lemma path_text_simps:
  assumes "path_text t"
  shows "t \<noteq> []" "CHR ''/'' \<notin> set t" "CHR ''{'' \<notin> set t" "CHR ''.'' \<notin> set t"
  using assms by (auto simp: path_text_def)

lemma id_text_path: "id_text t \<Longrightarrow> path_text t"
  using id_text_not_in [of t] by (simp add: path_text_def id_text_def is_digit_def)

definition plain_route :: "string \<Rightarrow> bool" where
  "plain_route route = (case split_on (CHR ''/'') route of
     [] # es \<Rightarrow> es \<noteq> [] \<and> list_all (\<lambda>e. e \<noteq> [] \<and> CHR ''/'' \<notin> set e \<and> CHR ''.'' \<notin> set e) es | _ \<Rightarrow> False)"

context swag_laws
begin

lemma int_path [simp]: "path_text (swag_FormatInt64 F v)"
  by (rule id_text_path [OF int_text])

lemmas int_simps = path_text_simps [OF int_path]

lemmas built_simps = path_id_def ReplaceAll_def replace_from_skip replace_from_plain
  built_path_def built_url_def filled_route_def fill_elem_def int_simps int_simps(1) [symmetric] Let_def

lemma CreateFlagURL_path:
  "built_path (CreateFlagURL_Build F b) = Some (path_Join (if CreateFlagURL_basePath b = [] then ''/api/v1'' else CreateFlagURL_basePath b)
    (filled_route [] ''/flags''))"
  by (simp add: CreateFlagURL_Build_def built_simps)

lemma DeleteFlagURL_path:
  "built_path (DeleteFlagURL_Build F b) = Some (path_Join (if DeleteFlagURL_basePath b = [] then ''/api/v1'' else DeleteFlagURL_basePath b)
    (filled_route [(''flagID'', swag_FormatInt64 F (DeleteFlagURL_FlagID b))] ''/flags/{flagID}''))"
  by (simp add: DeleteFlagURL_Build_def built_simps)

lemma FindFlagsURL_path:
  "built_path (FindFlagsURL_Build F b) = Some (path_Join (if FindFlagsURL_basePath b = [] then ''/api/v1'' else FindFlagsURL_basePath b)
    (filled_route [] ''/flags''))"
  by (simp add: FindFlagsURL_Build_def built_simps)

lemma GetFlagEntityTypesURL_path:
  "built_path (GetFlagEntityTypesURL_Build F b) = Some (path_Join (if GetFlagEntityTypesURL_basePath b = [] then ''/api/v1'' else GetFlagEntityTypesURL_basePath b)
    (filled_route [] ''/flags/entity_types''))"
  by (simp add: GetFlagEntityTypesURL_Build_def built_simps)

lemma GetFlagSnapshotsURL_path:
  "built_path (GetFlagSnapshotsURL_Build F b) = Some (path_Join (if GetFlagSnapshotsURL_basePath b = [] then ''/api/v1'' else GetFlagSnapshotsURL_basePath b)
    (filled_route [(''flagID'', swag_FormatInt64 F (GetFlagSnapshotsURL_FlagID b))] ''/flags/{flagID}/snapshots''))"
  by (simp add: GetFlagSnapshotsURL_Build_def built_simps)

lemma GetFlagURL_path:
  "built_path (GetFlagURL_Build F b) = Some (path_Join (if GetFlagURL_basePath b = [] then ''/api/v1'' else GetFlagURL_basePath b)
    (filled_route [(''flagID'', swag_FormatInt64 F (GetFlagURL_FlagID b))] ''/flags/{flagID}''))"
  by (simp add: GetFlagURL_Build_def built_simps)

lemma PutFlagURL_path:
  "built_path (PutFlagURL_Build F b) = Some (path_Join (if PutFlagURL_basePath b = [] then ''/api/v1'' else PutFlagURL_basePath b)
    (filled_route [(''flagID'', swag_FormatInt64 F (PutFlagURL_FlagID b))] ''/flags/{flagID}''))"
  by (simp add: PutFlagURL_Build_def built_simps)

lemma RestoreFlagURL_path:
  "built_path (RestoreFlagURL_Build F b) = Some (path_Join (if RestoreFlagURL_basePath b = [] then ''/api/v1'' else RestoreFlagURL_basePath b)
    (filled_route [(''flagID'', swag_FormatInt64 F (RestoreFlagURL_FlagID b))] ''/flags/{flagID}/restore''))"
  by (simp add: RestoreFlagURL_Build_def built_simps)

lemma SetFlagEnabledURL_path:
  "built_path (SetFlagEnabledURL_Build F b) = Some (path_Join (if SetFlagEnabledURL_basePath b = [] then ''/api/v1'' else SetFlagEnabledURL_basePath b)
    (filled_route [(''flagID'', swag_FormatInt64 F (SetFlagEnabledURL_FlagID b))] ''/flags/{flagID}/enabled''))"
  by (simp add: SetFlagEnabledURL_Build_def built_simps)

lemma CreateTagURL_path:
  "built_path (CreateTagURL_Build F b) = Some (path_Join (if CreateTagURL_basePath b = [] then ''/api/v1'' else CreateTagURL_basePath b)
    (filled_route [(''flagID'', swag_FormatInt64 F (CreateTagURL_FlagID b))] ''/flags/{flagID}/tags''))"
  by (simp add: CreateTagURL_Build_def built_simps)

lemma DeleteTagURL_path:
  "built_path (DeleteTagURL_Build F b) = Some (path_Join (if DeleteTagURL_basePath b = [] then ''/api/v1'' else DeleteTagURL_basePath b)
    (filled_route [(''flagID'', swag_FormatInt64 F (DeleteTagURL_FlagID b)), (''tagID'', swag_FormatInt64 F (DeleteTagURL_TagID b))] ''/flags/{flagID}/tags/{tagID}''))"
  by (simp add: DeleteTagURL_Build_def built_simps)

lemma FindAllTagsURL_path:
  "built_path (FindAllTagsURL_Build F b) = Some (path_Join (if FindAllTagsURL_basePath b = [] then ''/api/v1'' else FindAllTagsURL_basePath b)
    (filled_route [] ''/tags''))"
  by (simp add: FindAllTagsURL_Build_def built_simps)

lemma FindTagsURL_path:
  "built_path (FindTagsURL_Build F b) = Some (path_Join (if FindTagsURL_basePath b = [] then ''/api/v1'' else FindTagsURL_basePath b)
    (filled_route [(''flagID'', swag_FormatInt64 F (FindTagsURL_FlagID b))] ''/flags/{flagID}/tags''))"
  by (simp add: FindTagsURL_Build_def built_simps)

lemma CreateSegmentURL_path:
  "built_path (CreateSegmentURL_Build F b) = Some (path_Join (if CreateSegmentURL_basePath b = [] then ''/api/v1'' else CreateSegmentURL_basePath b)
    (filled_route [(''flagID'', swag_FormatInt64 F (CreateSegmentURL_FlagID b))] ''/flags/{flagID}/segments''))"
  by (simp add: CreateSegmentURL_Build_def built_simps)

lemma DeleteSegmentURL_path:
  "built_path (DeleteSegmentURL_Build F b) = Some (path_Join (if DeleteSegmentURL_basePath b = [] then ''/api/v1'' else DeleteSegmentURL_basePath b)
    (filled_route [(''flagID'', swag_FormatInt64 F (DeleteSegmentURL_FlagID b)), (''segmentID'', swag_FormatInt64 F (DeleteSegmentURL_SegmentID b))] ''/flags/{flagID}/segments/{segmentID}''))"
  by (simp add: DeleteSegmentURL_Build_def built_simps)

lemma FindSegmentsURL_path:
  "built_path (FindSegmentsURL_Build F b) = Some (path_Join (if FindSegmentsURL_basePath b = [] then ''/api/v1'' else FindSegmentsURL_basePath b)
    (filled_route [(''flagID'', swag_FormatInt64 F (FindSegmentsURL_FlagID b))] ''/flags/{flagID}/segments''))"
  by (simp add: FindSegmentsURL_Build_def built_simps)

lemma PutSegmentURL_path:
  "built_path (PutSegmentURL_Build F b) = Some (path_Join (if PutSegmentURL_basePath b = [] then ''/api/v1'' else PutSegmentURL_basePath b)
    (filled_route [(''flagID'', swag_FormatInt64 F (PutSegmentURL_FlagID b)), (''segmentID'', swag_FormatInt64 F (PutSegmentURL_SegmentID b))] ''/flags/{flagID}/segments/{segmentID}''))"
  by (simp add: PutSegmentURL_Build_def built_simps)

lemma PutSegmentsReorderURL_path:
  "built_path (PutSegmentsReorderURL_Build F b) = Some (path_Join (if PutSegmentsReorderURL_basePath b = [] then ''/api/v1'' else PutSegmentsReorderURL_basePath b)
    (filled_route [(''flagID'', swag_FormatInt64 F (PutSegmentsReorderURL_FlagID b))] ''/flags/{flagID}/segments/reorder''))"
  by (simp add: PutSegmentsReorderURL_Build_def built_simps)

lemma CreateConstraintURL_path:
  "built_path (CreateConstraintURL_Build F b) = Some (path_Join (if CreateConstraintURL_basePath b = [] then ''/api/v1'' else CreateConstraintURL_basePath b)
    (filled_route [(''flagID'', swag_FormatInt64 F (CreateConstraintURL_FlagID b)), (''segmentID'', swag_FormatInt64 F (CreateConstraintURL_SegmentID b))] ''/flags/{flagID}/segments/{segmentID}/constraints''))"
  by (simp add: CreateConstraintURL_Build_def built_simps)

lemma DeleteConstraintURL_path:
  "built_path (DeleteConstraintURL_Build F b) = Some (path_Join (if DeleteConstraintURL_basePath b = [] then ''/api/v1'' else DeleteConstraintURL_basePath b)
    (filled_route [(''flagID'', swag_FormatInt64 F (DeleteConstraintURL_FlagID b)), (''segmentID'', swag_FormatInt64 F (DeleteConstraintURL_SegmentID b)), (''constraintID'', swag_FormatInt64 F (DeleteConstraintURL_ConstraintID b))] ''/flags/{flagID}/segments/{segmentID}/constraints/{constraintID}''))"
  by (simp add: DeleteConstraintURL_Build_def built_simps)

lemma FindConstraintsURL_path:
  "built_path (FindConstraintsURL_Build F b) = Some (path_Join (if FindConstraintsURL_basePath b = [] then ''/api/v1'' else FindConstraintsURL_basePath b)
    (filled_route [(''flagID'', swag_FormatInt64 F (FindConstraintsURL_FlagID b)), (''segmentID'', swag_FormatInt64 F (FindConstraintsURL_SegmentID b))] ''/flags/{flagID}/segments/{segmentID}/constraints''))"
  by (simp add: FindConstraintsURL_Build_def built_simps)

lemma PutConstraintURL_path:
  "built_path (PutConstraintURL_Build F b) = Some (path_Join (if PutConstraintURL_basePath b = [] then ''/api/v1'' else PutConstraintURL_basePath b)
    (filled_route [(''flagID'', swag_FormatInt64 F (PutConstraintURL_FlagID b)), (''segmentID'', swag_FormatInt64 F (PutConstraintURL_SegmentID b)), (''constraintID'', swag_FormatInt64 F (PutConstraintURL_ConstraintID b))] ''/flags/{flagID}/segments/{segmentID}/constraints/{constraintID}''))"
  by (simp add: PutConstraintURL_Build_def built_simps)

lemma FindDistributionsURL_path:
  "built_path (FindDistributionsURL_Build F b) = Some (path_Join (if FindDistributionsURL_basePath b = [] then ''/api/v1'' else FindDistributionsURL_basePath b)
    (filled_route [(''flagID'', swag_FormatInt64 F (FindDistributionsURL_FlagID b)), (''segmentID'', swag_FormatInt64 F (FindDistributionsURL_SegmentID b))] ''/flags/{flagID}/segments/{segmentID}/distributions''))"
  by (simp add: FindDistributionsURL_Build_def built_simps)

lemma PutDistributionsURL_path:
  "built_path (PutDistributionsURL_Build F b) = Some (path_Join (if PutDistributionsURL_basePath b = [] then ''/api/v1'' else PutDistributionsURL_basePath b)
    (filled_route [(''flagID'', swag_FormatInt64 F (PutDistributionsURL_FlagID b)), (''segmentID'', swag_FormatInt64 F (PutDistributionsURL_SegmentID b))] ''/flags/{flagID}/segments/{segmentID}/distributions''))"
  by (simp add: PutDistributionsURL_Build_def built_simps)

lemma CreateVariantURL_path:
  "built_path (CreateVariantURL_Build F b) = Some (path_Join (if CreateVariantURL_basePath b = [] then ''/api/v1'' else CreateVariantURL_basePath b)
    (filled_route [(''flagID'', swag_FormatInt64 F (CreateVariantURL_FlagID b))] ''/flags/{flagID}/variants''))"
  by (simp add: CreateVariantURL_Build_def built_simps)

lemma DeleteVariantURL_path:
  "built_path (DeleteVariantURL_Build F b) = Some (path_Join (if DeleteVariantURL_basePath b = [] then ''/api/v1'' else DeleteVariantURL_basePath b)
    (filled_route [(''flagID'', swag_FormatInt64 F (DeleteVariantURL_FlagID b)), (''variantID'', swag_FormatInt64 F (DeleteVariantURL_VariantID b))] ''/flags/{flagID}/variants/{variantID}''))"
  by (simp add: DeleteVariantURL_Build_def built_simps)

lemma FindVariantsURL_path:
  "built_path (FindVariantsURL_Build F b) = Some (path_Join (if FindVariantsURL_basePath b = [] then ''/api/v1'' else FindVariantsURL_basePath b)
    (filled_route [(''flagID'', swag_FormatInt64 F (FindVariantsURL_FlagID b))] ''/flags/{flagID}/variants''))"
  by (simp add: FindVariantsURL_Build_def built_simps)

lemma PutVariantURL_path:
  "built_path (PutVariantURL_Build F b) = Some (path_Join (if PutVariantURL_basePath b = [] then ''/api/v1'' else PutVariantURL_basePath b)
    (filled_route [(''flagID'', swag_FormatInt64 F (PutVariantURL_FlagID b)), (''variantID'', swag_FormatInt64 F (PutVariantURL_VariantID b))] ''/flags/{flagID}/variants/{variantID}''))"
  by (simp add: PutVariantURL_Build_def built_simps)

lemma PostEvaluationBatchURL_path:
  "built_path (PostEvaluationBatchURL_Build F b) = Some (path_Join (if PostEvaluationBatchURL_basePath b = [] then ''/api/v1'' else PostEvaluationBatchURL_basePath b)
    (filled_route [] ''/evaluation/batch''))"
  by (simp add: PostEvaluationBatchURL_Build_def built_simps)

lemma PostEvaluationURL_path:
  "built_path (PostEvaluationURL_Build F b) = Some (path_Join (if PostEvaluationURL_basePath b = [] then ''/api/v1'' else PostEvaluationURL_basePath b)
    (filled_route [] ''/evaluation''))"
  by (simp add: PostEvaluationURL_Build_def built_simps)

lemma GetExportEvalCacheJSONURL_path:
  "built_path (GetExportEvalCacheJSONURL_Build F b) = Some (path_Join (if GetExportEvalCacheJSONURL_basePath b = [] then ''/api/v1'' else GetExportEvalCacheJSONURL_basePath b)
    (filled_route [] ''/export/eval_cache/json''))"
  by (simp add: GetExportEvalCacheJSONURL_Build_def built_simps)

lemma GetExportSqliteURL_path:
  "built_path (GetExportSqliteURL_Build F b) = Some (path_Join (if GetExportSqliteURL_basePath b = [] then ''/api/v1'' else GetExportSqliteURL_basePath b)
    (filled_route [] ''/export/sqlite''))"
  by (simp add: GetExportSqliteURL_Build_def built_simps)

lemma GetHealthURL_path:
  "built_path (GetHealthURL_Build F b) = Some (path_Join (if GetHealthURL_basePath b = [] then ''/api/v1'' else GetHealthURL_basePath b)
    (filled_route [] ''/health''))"
  by (simp add: GetHealthURL_Build_def built_simps)

lemmas built_paths =
  CreateFlagURL_path DeleteFlagURL_path FindFlagsURL_path GetFlagEntityTypesURL_path GetFlagSnapshotsURL_path
  GetFlagURL_path PutFlagURL_path RestoreFlagURL_path SetFlagEnabledURL_path CreateTagURL_path
  DeleteTagURL_path FindAllTagsURL_path FindTagsURL_path CreateSegmentURL_path DeleteSegmentURL_path
  FindSegmentsURL_path PutSegmentURL_path PutSegmentsReorderURL_path CreateConstraintURL_path
  DeleteConstraintURL_path FindConstraintsURL_path PutConstraintURL_path FindDistributionsURL_path
  PutDistributionsURL_path CreateVariantURL_path DeleteVariantURL_path FindVariantsURL_path
  PutVariantURL_path PostEvaluationBatchURL_path PostEvaluationURL_path GetExportEvalCacheJSONURL_path
  GetExportSqliteURL_path GetHealthURL_path

lemma builder_path:
  "\<exists>meth route. (meth, route, builder_operation b) \<in> set handler_routes \<and>
    built_path (builder_Build F b) = Some (path_Join (if builder_base b = [] then ''/api/v1'' else builder_base b)
      (filled_route (map (apsnd (swag_FormatInt64 F)) (builder_ids b)) route))"
  by (induct b) (simp_all add: built_paths handler_routes_def)

lemma routes_plain: "list_all (\<lambda>(m, route, op). plain_route route) handler_routes"
  by code_simp

lemma set_join: "set (join sep ws) \<subseteq> set sep \<union> \<Union> (set ` set ws)"
  by (induction sep ws rule: join.induct) auto

lemma filled_route_default:
  assumes "(m, route, op) \<in> set handler_routes"
  shows "path_Join ''/api/v1'' (filled_route (map (apsnd (swag_FormatInt64 F)) ids) route) =
    ''/api/v1'' @ filled_route (map (apsnd (swag_FormatInt64 F)) ids) route"
proof -
  let ?fill = "fill_elem (map (apsnd (swag_FormatInt64 F)) ids)"
  obtain es where es: "split_on (CHR ''/'') route = [] # es" "es \<noteq> []"
    "\<forall>e \<in> set es. e \<noteq> [] \<and> CHR ''/'' \<notin> set e \<and> CHR ''.'' \<notin> set e"
    using bspec [OF routes_plain [unfolded list_all_iff] assms]
    by (auto simp: plain_route_def list_all_iff split: list.splits)
  define fs where "fs = map ?fill es"
  have fill: "?fill e = e \<or> (\<exists>v. ?fill e = swag_FormatInt64 F v)" for e
    by (auto simp: fill_elem_def map_of_map apsnd_def map_prod_def split: option.splits)
  have fs: "f \<noteq> [] \<and> CHR ''/'' \<notin> set f \<and> CHR ''.'' \<notin> set f" if "f \<in> set fs" for f
  proof -
    obtain e where e: "e \<in> set es" "f = ?fill e" using \<open>f \<in> set fs\<close> by (auto simp: fs_def)
    show ?thesis
    proof (cases "?fill e = e")
      case True
      then show ?thesis using e es(3) by simp
    next
      case False
      then obtain v where "f = swag_FormatInt64 F v" using fill [of e] e(2) by blast
      then show ?thesis by (simp add: int_simps)
    qed
  qed
  have "?fill [] = []" by (simp add: fill_elem_def)
  then have filled: "filled_route (map (apsnd (swag_FormatInt64 F)) ids) route = CHR ''/'' # join ''/'' fs"
    using es(2) by (simp add: filled_route_def es(1) fs_def join_Cons)
  have "split_on (CHR ''/'') (join ''/'' fs) = fs" using es(2) fs by (intro split_on_join) (auto simp: fs_def)
  then have "[] \<notin> set (split_on (CHR ''/'') (join ''/'' fs))" using fs by auto
  moreover have "CHR ''.'' \<notin> set (join ''/'' fs)" using set_join [of "''/''" fs] fs by fastforce
  ultimately show ?thesis unfolding filled using path_Join_default by simp
qed

text \<open>An id that arrives as it was printed is bound to its number, if the operation admits it.\<close>

lemma printed_id:
  assumes "rq_path r n = [swag_FormatInt64 F v]"
  shows "bind_path_id S r n = ([], v) \<longleftrightarrow> 1 \<le> sint v"
  by (simp add: bind_path_id_def last_raw_def assms int_back validate_MinimumInt_def word_sless_alt)

end

section \<open>Queries\<close>

text \<open>What reaches the binding of the parameters with a URL: what the router found in the path, and the query.\<close>

definition arrived :: "(string \<Rightarrow> string list) \<Rightarrow> go_url \<Rightarrow> http_request" where
  "arrived ids u = \<lparr>rq_path = ids, rq_query = URL_Query (url_RawQuery u)\<rparr>"

lemma map_of_set_param: "map_of (set_param n t qs) k = (if t \<noteq> [] \<and> k = n then Some [t] else map_of qs k)"
  by (simp add: set_param_def values_Set_def update_conv')

lemma distinct_set_param: "distinct (map fst qs) \<Longrightarrow> distinct (map fst (set_param n t qs))"
  by (simp add: set_param_def values_Set_def distinct_update)

lemma query_built:
  assumes "distinct (map fst qs)"
  shows "rq_query (arrived ids (built_url base path qs)) name = (case map_of qs name of Some xs \<Rightarrow> xs | None \<Rightarrow> [])"
  by (simp add: arrived_def built_url_def URL_Query_Encode [OF assms] Let_def)

lemma bind_query_text:
  assumes "rq_query r name = (if t \<noteq> [] then [t] else [])"
  shows "bind_query conv r name = (if t = [] then ([], None) else conv t)"
  by (simp add: bind_query_def last_raw_def assms)

context swag_laws
begin

lemma bind_query_bool_built:
  assumes "rq_query r n = (if opt_text (swag_FormatBool F) x \<noteq> [] then [opt_text (swag_FormatBool F) x] else [])"
  shows "bind_query_bool S r n = ([], x)"
  unfolding bind_query_bool_def bind_query_text [OF assms]
  by (cases x) (simp_all add: opt_text_def bool_text bool_back)

lemma bind_query_int64_built:
  assumes "rq_query r n = (if opt_text (swag_FormatInt64 F) x \<noteq> [] then [opt_text (swag_FormatInt64 F) x] else [])"
  shows "bind_query_int64 S r n = ([], x)"
  unfolding bind_query_int64_def bind_query_text [OF assms]
  by (cases x) (simp_all add: opt_text_def int_back int_simps)

lemma bind_query_string_built:
  assumes "rq_query r n = (if opt_text (\<lambda>s. s) x \<noteq> [] then [opt_text (\<lambda>s. s) x] else [])" "x \<noteq> Some []"
  shows "bind_query_string r n = ([], x)"
  unfolding bind_query_string_def bind_query_text [OF assms(1)]
  using assms(2) by (cases x) (simp_all add: opt_text_def)

lemmas bind_query_built = bind_query_bool_built bind_query_int64_built bind_query_string_built

lemma FindFlags_query_back:
  assumes "FindFlagsURL_Build F b = Inr u"
    and "FindFlagsURL_Description b \<noteq> Some []" "FindFlagsURL_DescriptionLike b \<noteq> Some []"
    and "FindFlagsURL_Key b \<noteq> Some []" "FindFlagsURL_Tags b \<noteq> Some []"
  shows "FindFlagsParams_BindRequest S (arrived ids u) = Inr
    \<lparr>FindFlags_Deleted = FindFlagsURL_Deleted b, FindFlags_Description = FindFlagsURL_Description b,
     FindFlags_DescriptionLike = FindFlagsURL_DescriptionLike b, FindFlags_Enabled = FindFlagsURL_Enabled b,
     FindFlags_Key = FindFlagsURL_Key b, FindFlags_Limit = FindFlagsURL_Limit b,
     FindFlags_Offset = FindFlagsURL_Offset b, FindFlags_Preload = FindFlagsURL_Preload b,
     FindFlags_Tags = FindFlagsURL_Tags b\<rparr>"
proof -
  let ?r = "arrived ids u"
  have q: "rq_query ?r n = (case map_of
      (set_param ''tags'' (opt_text (\<lambda>s. s) (FindFlagsURL_Tags b))
      (set_param ''preload'' (opt_text (swag_FormatBool F) (FindFlagsURL_Preload b))
      (set_param ''offset'' (opt_text (swag_FormatInt64 F) (FindFlagsURL_Offset b))
      (set_param ''limit'' (opt_text (swag_FormatInt64 F) (FindFlagsURL_Limit b))
      (set_param ''key'' (opt_text (\<lambda>s. s) (FindFlagsURL_Key b))
      (set_param ''enabled'' (opt_text (swag_FormatBool F) (FindFlagsURL_Enabled b))
      (set_param ''description_like'' (opt_text (\<lambda>s. s) (FindFlagsURL_DescriptionLike b))
      (set_param ''description'' (opt_text (\<lambda>s. s) (FindFlagsURL_Description b))
      (set_param ''deleted'' (opt_text (swag_FormatBool F) (FindFlagsURL_Deleted b)) []))))))))) n of
      Some xs \<Rightarrow> xs | None \<Rightarrow> [])" for n
    using assms(1) by (auto simp: FindFlagsURL_Build_def Let_def query_built distinct_set_param)
  note query = q [unfolded map_of_set_param]
  have "bind_query_bool S ?r ''deleted'' = ([], FindFlagsURL_Deleted b)"
    "bind_query_string ?r ''description'' = ([], FindFlagsURL_Description b)"
    "bind_query_string ?r ''description_like'' = ([], FindFlagsURL_DescriptionLike b)"
    "bind_query_bool S ?r ''enabled'' = ([], FindFlagsURL_Enabled b)"
    "bind_query_string ?r ''key'' = ([], FindFlagsURL_Key b)"
    "bind_query_int64 S ?r ''limit'' = ([], FindFlagsURL_Limit b)"
    "bind_query_int64 S ?r ''offset'' = ([], FindFlagsURL_Offset b)"
    "bind_query_bool S ?r ''preload'' = ([], FindFlagsURL_Preload b)"
    "bind_query_string ?r ''tags'' = ([], FindFlagsURL_Tags b)"
    by (rule bind_query_built; simp add: query assms)+
  then show ?thesis by (simp add: FindFlagsParams_BindRequest_def FindFlags_bind_defs Let_def)
qed

end

context swag_laws
begin

lemma built_url_query:
  assumes "url_RawQuery u = values_Encode qs" "distinct (map fst qs)"
  shows "rq_query (arrived ids u) name = (case map_of qs name of Some xs \<Rightarrow> xs | None \<Rightarrow> [])"
  by (simp add: arrived_def assms URL_Query_Encode Let_def)

lemma FindAllTags_query_back:
  assumes "FindAllTagsURL_Build F b = Inr u" "FindAllTagsURL_ValueLike b \<noteq> Some []"
  shows "FindAllTagsParams_BindRequest S (arrived ids u) = Inr
    \<lparr>FindAllTags_Limit = FindAllTagsURL_Limit b, FindAllTags_Offset = FindAllTagsURL_Offset b,
     FindAllTags_ValueLike = FindAllTagsURL_ValueLike b\<rparr>"
proof -
  let ?r = "arrived ids u"
  have q: "rq_query ?r n = (case map_of
      (set_param ''value_like'' (opt_text (\<lambda>s. s) (FindAllTagsURL_ValueLike b))
      (set_param ''offset'' (opt_text (swag_FormatInt64 F) (FindAllTagsURL_Offset b))
      (set_param ''limit'' (opt_text (swag_FormatInt64 F) (FindAllTagsURL_Limit b)) []))) n of
      Some xs \<Rightarrow> xs | None \<Rightarrow> [])" for n
    using assms(1) by (auto simp: FindAllTagsURL_Build_def Let_def query_built distinct_set_param)
  note query = q [unfolded map_of_set_param]
  have "bind_query_int64 S ?r ''limit'' = ([], FindAllTagsURL_Limit b)"
    "bind_query_int64 S ?r ''offset'' = ([], FindAllTagsURL_Offset b)"
    "bind_query_string ?r ''value_like'' = ([], FindAllTagsURL_ValueLike b)"
    by (rule bind_query_built; simp add: query assms)+
  then show ?thesis by (simp add: FindAllTagsParams_BindRequest_def Let_def)
qed

lemma GetExportSqlite_query_back:
  assumes "GetExportSqliteURL_Build F b = Inr u"
  shows "GetExportSqliteParams_BindRequest S (arrived ids u) =
    Inr \<lparr>GetExportSqlite_ExcludeSnapshots = GetExportSqliteURL_ExcludeSnapshots b\<rparr>"
proof -
  let ?r = "arrived ids u"
  have "rq_query ?r n = (case map_of
      (set_param ''exclude_snapshots'' (opt_text (swag_FormatBool F) (GetExportSqliteURL_ExcludeSnapshots b)) []) n of
      Some xs \<Rightarrow> xs | None \<Rightarrow> [])" for n
    using assms(1) by (auto simp: GetExportSqliteURL_Build_def Let_def query_built distinct_set_param)
  then have "bind_query_bool S ?r ''exclude_snapshots'' = ([], GetExportSqliteURL_ExcludeSnapshots b)"
    by (intro bind_query_bool_built) (simp add: map_of_set_param)
  then show ?thesis by (simp add: GetExportSqliteParams_BindRequest_def Let_def)
qed

end

text \<open>Printing a builder is the text of its URL; it panics exactly when the builder fails, which it never does.\<close>

lemma builder_String_url: "builder_Build F b = Inr u \<Longrightarrow> builder_String F b = Inr (URL_String u)"
  by (cases b) (simp_all add: builder_String_simps url_text_def url_Must_def)

section \<open>Properties\<close>

definition demo_put_segment :: PutSegmentURL where
  "demo_put_segment = \<lparr>PutSegmentURL_FlagID = 7, PutSegmentURL_SegmentID = 12, PutSegmentURL_basePath = ''/v2/''\<rparr>"

definition demo_find_url :: FindFlagsURL where
  "demo_find_url = \<lparr>FindFlagsURL_Deleted = None, FindFlagsURL_Description = Some ''a b&c=1%'',
     FindFlagsURL_DescriptionLike = None, FindFlagsURL_Enabled = Some False, FindFlagsURL_Key = None,
     FindFlagsURL_Limit = Some 20, FindFlagsURL_Offset = Some (- 1), FindFlagsURL_Preload = Some True,
     FindFlagsURL_Tags = Some ''x;y,z'', FindFlagsURL_basePath = []\<rparr>"

text \<open>C39: every URL builder builds the path of its own operation: whatever its ids and its base path are, it
  builds a URL, whose path is its base path, by default the one of the API, joined by Go's path.Join with the route
  registered for the operation in which each place holder is replaced by the printed id of its name; with the default
  base path this is that route behind /api/v1, as it stands. An id that arrives as it was printed
  is bound to the same number exactly if it is positive; and printing the builder gives the text of this URL and does
  not panic.\<close>

theorem built_urls_fill_their_route:
  assumes "swag_laws S F"
  shows "\<exists>u meth route. builder_Build F b = Inr u \<and> (meth, route, builder_operation b) \<in> set handler_routes \<and>
    url_Path u = path_Join (if builder_base b = [] then ''/api/v1'' else builder_base b)
      (filled_route (map (apsnd (swag_FormatInt64 F)) (builder_ids b)) route) \<and>
    (builder_base b = [] \<longrightarrow> url_Path u = ''/api/v1'' @ filled_route (map (apsnd (swag_FormatInt64 F)) (builder_ids b)) route) \<and>
    (\<forall>(n, v) \<in> set (builder_ids b). \<forall>r. rq_path r n = [swag_FormatInt64 F v] \<longrightarrow>
      (bind_path_id S r n = ([], v) \<longleftrightarrow> 1 \<le> sint v)) \<and>
    builder_String F b = Inr (URL_String u)"
proof -
  obtain meth route where r: "(meth, route, builder_operation b) \<in> set handler_routes"
    and p: "built_path (builder_Build F b) = Some (path_Join (if builder_base b = [] then ''/api/v1'' else builder_base b)
      (filled_route (map (apsnd (swag_FormatInt64 F)) (builder_ids b)) route))"
    using swag_laws.builder_path [OF assms] by blast
  obtain u where u: "builder_Build F b = Inr u" using p by (auto simp: built_path_def split: sum.splits)
  then show ?thesis using r p builder_String_url [OF u] swag_laws.printed_id [OF assms]
      swag_laws.filled_route_default [OF assms r]
    by (intro exI [of _ u] exI [of _ meth] exI [of _ route]) (simp add: built_path_def case_prod_beta)
qed

theorem built_urls_fill_their_route_witness:
  "\<exists>u. builder_Build go_format (U_PutSegment demo_put_segment) = Inr u \<and>
    url_Path u = ''/v2/flags/7/segments/12'' \<and> builder_String go_format (U_PutSegment demo_put_segment) = Inr (URL_String u)"
proof -
  have "list_all (\<lambda>(meth, route, op). op = Op_PutSegment \<longrightarrow>
      path_Join (if builder_base (U_PutSegment demo_put_segment) = [] then ''/api/v1'' else builder_base (U_PutSegment demo_put_segment))
        (filled_route (map (apsnd (swag_FormatInt64 go_format)) (builder_ids (U_PutSegment demo_put_segment))) route) =
      ''/v2/flags/7/segments/12'') handler_routes"
    by code_simp
  then have path: "(meth, route, Op_PutSegment) \<in> set handler_routes \<Longrightarrow>
      path_Join (if builder_base (U_PutSegment demo_put_segment) = [] then ''/api/v1'' else builder_base (U_PutSegment demo_put_segment))
        (filled_route (map (apsnd (swag_FormatInt64 go_format)) (builder_ids (U_PutSegment demo_put_segment))) route) =
      ''/v2/flags/7/segments/12''" for meth route
    by (auto simp: list_all_iff)
  have op: "builder_operation (U_PutSegment demo_put_segment) = Op_PutSegment" by simp
  from built_urls_fill_their_route [OF go_swag.swag_laws_axioms, of "U_PutSegment demo_put_segment"]
  obtain u meth route where u: "builder_Build go_format (U_PutSegment demo_put_segment) = Inr u"
    "(meth, route, Op_PutSegment) \<in> set handler_routes"
    "url_Path u = path_Join (if builder_base (U_PutSegment demo_put_segment) = [] then ''/api/v1''
      else builder_base (U_PutSegment demo_put_segment))
      (filled_route (map (apsnd (swag_FormatInt64 go_format)) (builder_ids (U_PutSegment demo_put_segment))) route)"
    "builder_String go_format (U_PutSegment demo_put_segment) = Inr (URL_String u)"
    unfolding op by (elim exE conjE)
  have "url_Path u = ''/v2/flags/7/segments/12''" unfolding u(3) by (rule path [OF u(2)])
  with u(1,4) show ?thesis by (intro exI [of _ u] conjI)
qed

text \<open>C33: the query of a built listing URL binds to the parameters it was built from, whatever bytes its texts
  contain, except that an empty text is not sent and is bound as no text.\<close>

theorem FindFlags_url_round_trip:
  assumes "swag_laws S F" "FindFlagsURL_Build F b = Inr u"
    and "FindFlagsURL_Description b \<noteq> Some []" "FindFlagsURL_DescriptionLike b \<noteq> Some []"
    and "FindFlagsURL_Key b \<noteq> Some []" "FindFlagsURL_Tags b \<noteq> Some []"
  shows "FindFlagsParams_BindRequest S (arrived ids u) = Inr
    \<lparr>FindFlags_Deleted = FindFlagsURL_Deleted b, FindFlags_Description = FindFlagsURL_Description b,
     FindFlags_DescriptionLike = FindFlagsURL_DescriptionLike b, FindFlags_Enabled = FindFlagsURL_Enabled b,
     FindFlags_Key = FindFlagsURL_Key b, FindFlags_Limit = FindFlagsURL_Limit b,
     FindFlags_Offset = FindFlagsURL_Offset b, FindFlags_Preload = FindFlagsURL_Preload b,
     FindFlags_Tags = FindFlagsURL_Tags b\<rparr>"
  by (rule swag_laws.FindFlags_query_back [OF assms])

theorem FindFlags_url_round_trip_witness:
  "\<exists>u p. FindFlagsURL_Build go_format demo_find_url = Inr u \<and>
    FindFlagsParams_BindRequest go_swag (arrived (\<lambda>_. []) u) = Inr p \<and>
    FindFlags_Description p = Some ''a b&c=1%'' \<and> FindFlags_Offset p = Some (- 1) \<and> FindFlags_Tags p = Some ''x;y,z''"
proof -
  obtain u where u: "FindFlagsURL_Build go_format demo_find_url = Inr u"
    by (simp add: FindFlagsURL_Build_def Let_def)
  from FindFlags_url_round_trip [OF go_swag.swag_laws_axioms u, of "\<lambda>_. []"] show ?thesis
    using u by (simp add: demo_find_url_def)
qed

end
