(* ===== verification/Flagr_Responses.thy ===== *)
theory Flagr_Responses
  imports Flagr_Service
begin

text \<open>
  The generated responses of the operations, \<^verbatim>\<open>swagger_gen/restapi/operations/*/*_responses.go\<close>:
  how each operation writes its successful and its default answer. The writer is that of
  \<^verbatim>\<open>net/http\<close>: the first status counts, and a status that is no number of three digits
  panics. The producer that turns a payload into bytes is a parameter.
\<close>

section \<open>Writing\<close>

record m_error =
  ME_Message :: "string option"

definition m_error_Validate :: "m_error \<Rightarrow> field_error list" where
  "m_error_Validate m = check_all [required_string ''message'' (ME_Message m)]"

definition ErrorMessage :: "string \<Rightarrow> m_error" where
  "ErrorMessage msg = \<lparr>ME_Message = Some msg\<rparr>"

record m_health =
  MH_Status :: string

record m_evaluation_batch_response =
  MEB_EvaluationResults :: "eval_result option list"

datatype 'e payload =
    P_Nil
  | P_Error m_error
  | P_Flag m_flag
  | P_Flags "m_flag option list"
  | P_FlagSnapshots "m_flag_snapshot option list"
  | P_Strings "string list"
  | P_Tag m_tag
  | P_Tags "m_tag option list"
  | P_Segment m_segment
  | P_Segments "m_segment option list"
  | P_Constraint m_constraint
  | P_Constraints "m_constraint option list"
  | P_Distributions "m_distribution option list"
  | P_Variant m_variant
  | P_Variants "m_variant option list"
  | P_EvalResult eval_result
  | P_EvaluationBatchResponse m_evaluation_batch_response
  | P_EvalCacheJSON "'e flag list"
  | P_File string
  | P_Health m_health

text \<open>A producer writes some bytes and may then fail.\<close>

type_synonym 'e producer = "'e payload \<Rightarrow> string \<times> error option"

record http_writer =
  hw_Header :: "(string \<times> string) list"
  hw_Status :: "int option"
  hw_Body :: string

text \<open>An informational status is sent at once and is not the final one.\<close>

definition WriteHeader :: "int \<Rightarrow> http_writer \<Rightarrow> http_writer go" where
  "WriteHeader code w =
     (if hw_Status w \<noteq> None then Inr w
      else if code < 100 \<or> 999 < code then Inl (PanicValue ''invalid WriteHeader code'')
      else if code \<le> 199 \<and> code \<noteq> 101 then Inr w
      else Inr (w\<lparr>hw_Status := Some code\<rparr>))"

definition Produce :: "'e producer \<Rightarrow> 'e payload \<Rightarrow> http_writer \<Rightarrow> http_writer go" where
  "Produce produce payload w =
     (case produce payload of (bytes, err) \<Rightarrow>
        (case err of None \<Rightarrow> Inr (w\<lparr>hw_Body := hw_Body w @ bytes\<rparr>) | Some e \<Rightarrow> Inl (PanicValue e)))"

text \<open>The setters of a response change the object they are called on; those named \<^verbatim>\<open>With\<close> also return it, so both are
  the changed record.\<close>

record 'p ok_response =
  ok_Payload :: 'p

record default_response =
  def_statusCode :: int
  def_Payload :: "m_error option"

text \<open>The four shapes of a generated \<^verbatim>\<open>WriteResponse\<close>: a pointer that may be nil, a slice whose nil is
  written as an empty array, a value of an interface, and nothing.\<close>

definition write_pointer ::
  "'e producer \<Rightarrow> ('p \<Rightarrow> 'e payload) \<Rightarrow> int \<Rightarrow> 'p option \<Rightarrow> http_writer \<Rightarrow> http_writer go" where
  "write_pointer produce wrap code payload w =
     sum_bind (WriteHeader code w) (\<lambda>w1. case payload of None \<Rightarrow> Inr w1 | Some p \<Rightarrow> Produce produce (wrap p) w1)"

definition write_slice ::
  "'e producer \<Rightarrow> ('p list \<Rightarrow> 'e payload) \<Rightarrow> int \<Rightarrow> 'p list option \<Rightarrow> http_writer \<Rightarrow> http_writer go" where
  "write_slice produce wrap code payload w =
     sum_bind (WriteHeader code w) (\<lambda>w1. Produce produce (wrap (case payload of None \<Rightarrow> [] | Some ps \<Rightarrow> ps)) w1)"

definition write_value :: "'e producer \<Rightarrow> int \<Rightarrow> 'e payload \<Rightarrow> http_writer \<Rightarrow> http_writer go" where
  "write_value produce code payload w = sum_bind (WriteHeader code w) (\<lambda>w1. Produce produce payload w1)"

definition write_empty :: "int \<Rightarrow> http_writer \<Rightarrow> http_writer go" where
  "write_empty code w = WriteHeader code (w\<lparr>hw_Header := AList.delete ''Content-Type'' (hw_Header w)\<rparr>)"

section \<open>Flags\<close>

type_synonym CreateFlagOK = "(m_flag option) ok_response"

definition NewCreateFlagOK :: "CreateFlagOK" where
  "NewCreateFlagOK = \<lparr>ok_Payload = None\<rparr>"

definition CreateFlagOK_WithPayload :: "m_flag option \<Rightarrow> CreateFlagOK \<Rightarrow> CreateFlagOK" where
  "CreateFlagOK_WithPayload payload r = r\<lparr>ok_Payload := payload\<rparr>"

definition CreateFlagOK_SetPayload :: "m_flag option \<Rightarrow> CreateFlagOK \<Rightarrow> CreateFlagOK" where
  "CreateFlagOK_SetPayload payload r = r\<lparr>ok_Payload := payload\<rparr>"

definition CreateFlagOK_WriteResponse ::
  "'e producer \<Rightarrow> CreateFlagOK \<Rightarrow> http_writer \<Rightarrow> http_writer go" where
  "CreateFlagOK_WriteResponse produce r w = write_pointer produce P_Flag 200 (ok_Payload r) w"

type_synonym CreateFlagDefault = default_response

definition NewCreateFlagDefault :: "int \<Rightarrow> CreateFlagDefault" where
  "NewCreateFlagDefault code = \<lparr>def_statusCode = (if code \<le> 0 then 500 else code), def_Payload = None\<rparr>"

definition CreateFlagDefault_WithStatusCode :: "int \<Rightarrow> CreateFlagDefault \<Rightarrow> CreateFlagDefault" where
  "CreateFlagDefault_WithStatusCode code r = r\<lparr>def_statusCode := code\<rparr>"

definition CreateFlagDefault_SetStatusCode :: "int \<Rightarrow> CreateFlagDefault \<Rightarrow> CreateFlagDefault" where
  "CreateFlagDefault_SetStatusCode code r = r\<lparr>def_statusCode := code\<rparr>"

definition CreateFlagDefault_WithPayload :: "m_error option \<Rightarrow> CreateFlagDefault \<Rightarrow> CreateFlagDefault" where
  "CreateFlagDefault_WithPayload payload r = r\<lparr>def_Payload := payload\<rparr>"

definition CreateFlagDefault_SetPayload :: "m_error option \<Rightarrow> CreateFlagDefault \<Rightarrow> CreateFlagDefault" where
  "CreateFlagDefault_SetPayload payload r = r\<lparr>def_Payload := payload\<rparr>"

definition CreateFlagDefault_WriteResponse ::
  "'e producer \<Rightarrow> CreateFlagDefault \<Rightarrow> http_writer \<Rightarrow> http_writer go" where
  "CreateFlagDefault_WriteResponse produce r w = write_pointer produce P_Error (def_statusCode r) (def_Payload r) w"

type_synonym DeleteFlagOK = "(unit) ok_response"

definition NewDeleteFlagOK :: "DeleteFlagOK" where
  "NewDeleteFlagOK = \<lparr>ok_Payload = ()\<rparr>"

definition DeleteFlagOK_WriteResponse ::
  "'e producer \<Rightarrow> DeleteFlagOK \<Rightarrow> http_writer \<Rightarrow> http_writer go" where
  "DeleteFlagOK_WriteResponse produce r w = write_empty 200 w"

type_synonym DeleteFlagDefault = default_response

definition NewDeleteFlagDefault :: "int \<Rightarrow> DeleteFlagDefault" where
  "NewDeleteFlagDefault code = \<lparr>def_statusCode = (if code \<le> 0 then 500 else code), def_Payload = None\<rparr>"

definition DeleteFlagDefault_WithStatusCode :: "int \<Rightarrow> DeleteFlagDefault \<Rightarrow> DeleteFlagDefault" where
  "DeleteFlagDefault_WithStatusCode code r = r\<lparr>def_statusCode := code\<rparr>"

definition DeleteFlagDefault_SetStatusCode :: "int \<Rightarrow> DeleteFlagDefault \<Rightarrow> DeleteFlagDefault" where
  "DeleteFlagDefault_SetStatusCode code r = r\<lparr>def_statusCode := code\<rparr>"

definition DeleteFlagDefault_WithPayload :: "m_error option \<Rightarrow> DeleteFlagDefault \<Rightarrow> DeleteFlagDefault" where
  "DeleteFlagDefault_WithPayload payload r = r\<lparr>def_Payload := payload\<rparr>"

definition DeleteFlagDefault_SetPayload :: "m_error option \<Rightarrow> DeleteFlagDefault \<Rightarrow> DeleteFlagDefault" where
  "DeleteFlagDefault_SetPayload payload r = r\<lparr>def_Payload := payload\<rparr>"

definition DeleteFlagDefault_WriteResponse ::
  "'e producer \<Rightarrow> DeleteFlagDefault \<Rightarrow> http_writer \<Rightarrow> http_writer go" where
  "DeleteFlagDefault_WriteResponse produce r w = write_pointer produce P_Error (def_statusCode r) (def_Payload r) w"

type_synonym FindFlagsOK = "(m_flag option list option) ok_response"

definition NewFindFlagsOK :: "FindFlagsOK" where
  "NewFindFlagsOK = \<lparr>ok_Payload = None\<rparr>"

definition FindFlagsOK_WithPayload :: "m_flag option list option \<Rightarrow> FindFlagsOK \<Rightarrow> FindFlagsOK" where
  "FindFlagsOK_WithPayload payload r = r\<lparr>ok_Payload := payload\<rparr>"

definition FindFlagsOK_SetPayload :: "m_flag option list option \<Rightarrow> FindFlagsOK \<Rightarrow> FindFlagsOK" where
  "FindFlagsOK_SetPayload payload r = r\<lparr>ok_Payload := payload\<rparr>"

definition FindFlagsOK_WriteResponse ::
  "'e producer \<Rightarrow> FindFlagsOK \<Rightarrow> http_writer \<Rightarrow> http_writer go" where
  "FindFlagsOK_WriteResponse produce r w = write_slice produce P_Flags 200 (ok_Payload r) w"

type_synonym FindFlagsDefault = default_response

definition NewFindFlagsDefault :: "int \<Rightarrow> FindFlagsDefault" where
  "NewFindFlagsDefault code = \<lparr>def_statusCode = (if code \<le> 0 then 500 else code), def_Payload = None\<rparr>"

definition FindFlagsDefault_WithStatusCode :: "int \<Rightarrow> FindFlagsDefault \<Rightarrow> FindFlagsDefault" where
  "FindFlagsDefault_WithStatusCode code r = r\<lparr>def_statusCode := code\<rparr>"

definition FindFlagsDefault_SetStatusCode :: "int \<Rightarrow> FindFlagsDefault \<Rightarrow> FindFlagsDefault" where
  "FindFlagsDefault_SetStatusCode code r = r\<lparr>def_statusCode := code\<rparr>"

definition FindFlagsDefault_WithPayload :: "m_error option \<Rightarrow> FindFlagsDefault \<Rightarrow> FindFlagsDefault" where
  "FindFlagsDefault_WithPayload payload r = r\<lparr>def_Payload := payload\<rparr>"

definition FindFlagsDefault_SetPayload :: "m_error option \<Rightarrow> FindFlagsDefault \<Rightarrow> FindFlagsDefault" where
  "FindFlagsDefault_SetPayload payload r = r\<lparr>def_Payload := payload\<rparr>"

definition FindFlagsDefault_WriteResponse ::
  "'e producer \<Rightarrow> FindFlagsDefault \<Rightarrow> http_writer \<Rightarrow> http_writer go" where
  "FindFlagsDefault_WriteResponse produce r w = write_pointer produce P_Error (def_statusCode r) (def_Payload r) w"

type_synonym GetFlagOK = "(m_flag option) ok_response"

definition NewGetFlagOK :: "GetFlagOK" where
  "NewGetFlagOK = \<lparr>ok_Payload = None\<rparr>"

definition GetFlagOK_WithPayload :: "m_flag option \<Rightarrow> GetFlagOK \<Rightarrow> GetFlagOK" where
  "GetFlagOK_WithPayload payload r = r\<lparr>ok_Payload := payload\<rparr>"

definition GetFlagOK_SetPayload :: "m_flag option \<Rightarrow> GetFlagOK \<Rightarrow> GetFlagOK" where
  "GetFlagOK_SetPayload payload r = r\<lparr>ok_Payload := payload\<rparr>"

definition GetFlagOK_WriteResponse ::
  "'e producer \<Rightarrow> GetFlagOK \<Rightarrow> http_writer \<Rightarrow> http_writer go" where
  "GetFlagOK_WriteResponse produce r w = write_pointer produce P_Flag 200 (ok_Payload r) w"

type_synonym GetFlagDefault = default_response

definition NewGetFlagDefault :: "int \<Rightarrow> GetFlagDefault" where
  "NewGetFlagDefault code = \<lparr>def_statusCode = (if code \<le> 0 then 500 else code), def_Payload = None\<rparr>"

definition GetFlagDefault_WithStatusCode :: "int \<Rightarrow> GetFlagDefault \<Rightarrow> GetFlagDefault" where
  "GetFlagDefault_WithStatusCode code r = r\<lparr>def_statusCode := code\<rparr>"

definition GetFlagDefault_SetStatusCode :: "int \<Rightarrow> GetFlagDefault \<Rightarrow> GetFlagDefault" where
  "GetFlagDefault_SetStatusCode code r = r\<lparr>def_statusCode := code\<rparr>"

definition GetFlagDefault_WithPayload :: "m_error option \<Rightarrow> GetFlagDefault \<Rightarrow> GetFlagDefault" where
  "GetFlagDefault_WithPayload payload r = r\<lparr>def_Payload := payload\<rparr>"

definition GetFlagDefault_SetPayload :: "m_error option \<Rightarrow> GetFlagDefault \<Rightarrow> GetFlagDefault" where
  "GetFlagDefault_SetPayload payload r = r\<lparr>def_Payload := payload\<rparr>"

definition GetFlagDefault_WriteResponse ::
  "'e producer \<Rightarrow> GetFlagDefault \<Rightarrow> http_writer \<Rightarrow> http_writer go" where
  "GetFlagDefault_WriteResponse produce r w = write_pointer produce P_Error (def_statusCode r) (def_Payload r) w"

type_synonym GetFlagEntityTypesOK = "(string list option) ok_response"

definition NewGetFlagEntityTypesOK :: "GetFlagEntityTypesOK" where
  "NewGetFlagEntityTypesOK = \<lparr>ok_Payload = None\<rparr>"

definition GetFlagEntityTypesOK_WithPayload :: "string list option \<Rightarrow> GetFlagEntityTypesOK \<Rightarrow> GetFlagEntityTypesOK" where
  "GetFlagEntityTypesOK_WithPayload payload r = r\<lparr>ok_Payload := payload\<rparr>"

definition GetFlagEntityTypesOK_SetPayload :: "string list option \<Rightarrow> GetFlagEntityTypesOK \<Rightarrow> GetFlagEntityTypesOK" where
  "GetFlagEntityTypesOK_SetPayload payload r = r\<lparr>ok_Payload := payload\<rparr>"

definition GetFlagEntityTypesOK_WriteResponse ::
  "'e producer \<Rightarrow> GetFlagEntityTypesOK \<Rightarrow> http_writer \<Rightarrow> http_writer go" where
  "GetFlagEntityTypesOK_WriteResponse produce r w = write_slice produce P_Strings 200 (ok_Payload r) w"

type_synonym GetFlagEntityTypesDefault = default_response

definition NewGetFlagEntityTypesDefault :: "int \<Rightarrow> GetFlagEntityTypesDefault" where
  "NewGetFlagEntityTypesDefault code = \<lparr>def_statusCode = (if code \<le> 0 then 500 else code), def_Payload = None\<rparr>"

definition GetFlagEntityTypesDefault_WithStatusCode :: "int \<Rightarrow> GetFlagEntityTypesDefault \<Rightarrow> GetFlagEntityTypesDefault" where
  "GetFlagEntityTypesDefault_WithStatusCode code r = r\<lparr>def_statusCode := code\<rparr>"

definition GetFlagEntityTypesDefault_SetStatusCode :: "int \<Rightarrow> GetFlagEntityTypesDefault \<Rightarrow> GetFlagEntityTypesDefault" where
  "GetFlagEntityTypesDefault_SetStatusCode code r = r\<lparr>def_statusCode := code\<rparr>"

definition GetFlagEntityTypesDefault_WithPayload :: "m_error option \<Rightarrow> GetFlagEntityTypesDefault \<Rightarrow> GetFlagEntityTypesDefault" where
  "GetFlagEntityTypesDefault_WithPayload payload r = r\<lparr>def_Payload := payload\<rparr>"

definition GetFlagEntityTypesDefault_SetPayload :: "m_error option \<Rightarrow> GetFlagEntityTypesDefault \<Rightarrow> GetFlagEntityTypesDefault" where
  "GetFlagEntityTypesDefault_SetPayload payload r = r\<lparr>def_Payload := payload\<rparr>"

definition GetFlagEntityTypesDefault_WriteResponse ::
  "'e producer \<Rightarrow> GetFlagEntityTypesDefault \<Rightarrow> http_writer \<Rightarrow> http_writer go" where
  "GetFlagEntityTypesDefault_WriteResponse produce r w = write_pointer produce P_Error (def_statusCode r) (def_Payload r) w"

type_synonym GetFlagSnapshotsOK = "(m_flag_snapshot option list option) ok_response"

definition NewGetFlagSnapshotsOK :: "GetFlagSnapshotsOK" where
  "NewGetFlagSnapshotsOK = \<lparr>ok_Payload = None\<rparr>"

definition GetFlagSnapshotsOK_WithPayload :: "m_flag_snapshot option list option \<Rightarrow> GetFlagSnapshotsOK \<Rightarrow> GetFlagSnapshotsOK" where
  "GetFlagSnapshotsOK_WithPayload payload r = r\<lparr>ok_Payload := payload\<rparr>"

definition GetFlagSnapshotsOK_SetPayload :: "m_flag_snapshot option list option \<Rightarrow> GetFlagSnapshotsOK \<Rightarrow> GetFlagSnapshotsOK" where
  "GetFlagSnapshotsOK_SetPayload payload r = r\<lparr>ok_Payload := payload\<rparr>"

definition GetFlagSnapshotsOK_WriteResponse ::
  "'e producer \<Rightarrow> GetFlagSnapshotsOK \<Rightarrow> http_writer \<Rightarrow> http_writer go" where
  "GetFlagSnapshotsOK_WriteResponse produce r w = write_slice produce P_FlagSnapshots 200 (ok_Payload r) w"

type_synonym GetFlagSnapshotsDefault = default_response

definition NewGetFlagSnapshotsDefault :: "int \<Rightarrow> GetFlagSnapshotsDefault" where
  "NewGetFlagSnapshotsDefault code = \<lparr>def_statusCode = (if code \<le> 0 then 500 else code), def_Payload = None\<rparr>"

definition GetFlagSnapshotsDefault_WithStatusCode :: "int \<Rightarrow> GetFlagSnapshotsDefault \<Rightarrow> GetFlagSnapshotsDefault" where
  "GetFlagSnapshotsDefault_WithStatusCode code r = r\<lparr>def_statusCode := code\<rparr>"

definition GetFlagSnapshotsDefault_SetStatusCode :: "int \<Rightarrow> GetFlagSnapshotsDefault \<Rightarrow> GetFlagSnapshotsDefault" where
  "GetFlagSnapshotsDefault_SetStatusCode code r = r\<lparr>def_statusCode := code\<rparr>"

definition GetFlagSnapshotsDefault_WithPayload :: "m_error option \<Rightarrow> GetFlagSnapshotsDefault \<Rightarrow> GetFlagSnapshotsDefault" where
  "GetFlagSnapshotsDefault_WithPayload payload r = r\<lparr>def_Payload := payload\<rparr>"

definition GetFlagSnapshotsDefault_SetPayload :: "m_error option \<Rightarrow> GetFlagSnapshotsDefault \<Rightarrow> GetFlagSnapshotsDefault" where
  "GetFlagSnapshotsDefault_SetPayload payload r = r\<lparr>def_Payload := payload\<rparr>"

definition GetFlagSnapshotsDefault_WriteResponse ::
  "'e producer \<Rightarrow> GetFlagSnapshotsDefault \<Rightarrow> http_writer \<Rightarrow> http_writer go" where
  "GetFlagSnapshotsDefault_WriteResponse produce r w = write_pointer produce P_Error (def_statusCode r) (def_Payload r) w"

type_synonym PutFlagOK = "(m_flag option) ok_response"

definition NewPutFlagOK :: "PutFlagOK" where
  "NewPutFlagOK = \<lparr>ok_Payload = None\<rparr>"

definition PutFlagOK_WithPayload :: "m_flag option \<Rightarrow> PutFlagOK \<Rightarrow> PutFlagOK" where
  "PutFlagOK_WithPayload payload r = r\<lparr>ok_Payload := payload\<rparr>"

definition PutFlagOK_SetPayload :: "m_flag option \<Rightarrow> PutFlagOK \<Rightarrow> PutFlagOK" where
  "PutFlagOK_SetPayload payload r = r\<lparr>ok_Payload := payload\<rparr>"

definition PutFlagOK_WriteResponse ::
  "'e producer \<Rightarrow> PutFlagOK \<Rightarrow> http_writer \<Rightarrow> http_writer go" where
  "PutFlagOK_WriteResponse produce r w = write_pointer produce P_Flag 200 (ok_Payload r) w"

type_synonym PutFlagDefault = default_response

definition NewPutFlagDefault :: "int \<Rightarrow> PutFlagDefault" where
  "NewPutFlagDefault code = \<lparr>def_statusCode = (if code \<le> 0 then 500 else code), def_Payload = None\<rparr>"

definition PutFlagDefault_WithStatusCode :: "int \<Rightarrow> PutFlagDefault \<Rightarrow> PutFlagDefault" where
  "PutFlagDefault_WithStatusCode code r = r\<lparr>def_statusCode := code\<rparr>"

definition PutFlagDefault_SetStatusCode :: "int \<Rightarrow> PutFlagDefault \<Rightarrow> PutFlagDefault" where
  "PutFlagDefault_SetStatusCode code r = r\<lparr>def_statusCode := code\<rparr>"

definition PutFlagDefault_WithPayload :: "m_error option \<Rightarrow> PutFlagDefault \<Rightarrow> PutFlagDefault" where
  "PutFlagDefault_WithPayload payload r = r\<lparr>def_Payload := payload\<rparr>"

definition PutFlagDefault_SetPayload :: "m_error option \<Rightarrow> PutFlagDefault \<Rightarrow> PutFlagDefault" where
  "PutFlagDefault_SetPayload payload r = r\<lparr>def_Payload := payload\<rparr>"

definition PutFlagDefault_WriteResponse ::
  "'e producer \<Rightarrow> PutFlagDefault \<Rightarrow> http_writer \<Rightarrow> http_writer go" where
  "PutFlagDefault_WriteResponse produce r w = write_pointer produce P_Error (def_statusCode r) (def_Payload r) w"

type_synonym RestoreFlagOK = "(m_flag option) ok_response"

definition NewRestoreFlagOK :: "RestoreFlagOK" where
  "NewRestoreFlagOK = \<lparr>ok_Payload = None\<rparr>"

definition RestoreFlagOK_WithPayload :: "m_flag option \<Rightarrow> RestoreFlagOK \<Rightarrow> RestoreFlagOK" where
  "RestoreFlagOK_WithPayload payload r = r\<lparr>ok_Payload := payload\<rparr>"

definition RestoreFlagOK_SetPayload :: "m_flag option \<Rightarrow> RestoreFlagOK \<Rightarrow> RestoreFlagOK" where
  "RestoreFlagOK_SetPayload payload r = r\<lparr>ok_Payload := payload\<rparr>"

definition RestoreFlagOK_WriteResponse ::
  "'e producer \<Rightarrow> RestoreFlagOK \<Rightarrow> http_writer \<Rightarrow> http_writer go" where
  "RestoreFlagOK_WriteResponse produce r w = write_pointer produce P_Flag 200 (ok_Payload r) w"

type_synonym RestoreFlagDefault = default_response

definition NewRestoreFlagDefault :: "int \<Rightarrow> RestoreFlagDefault" where
  "NewRestoreFlagDefault code = \<lparr>def_statusCode = (if code \<le> 0 then 500 else code), def_Payload = None\<rparr>"

definition RestoreFlagDefault_WithStatusCode :: "int \<Rightarrow> RestoreFlagDefault \<Rightarrow> RestoreFlagDefault" where
  "RestoreFlagDefault_WithStatusCode code r = r\<lparr>def_statusCode := code\<rparr>"

definition RestoreFlagDefault_SetStatusCode :: "int \<Rightarrow> RestoreFlagDefault \<Rightarrow> RestoreFlagDefault" where
  "RestoreFlagDefault_SetStatusCode code r = r\<lparr>def_statusCode := code\<rparr>"

definition RestoreFlagDefault_WithPayload :: "m_error option \<Rightarrow> RestoreFlagDefault \<Rightarrow> RestoreFlagDefault" where
  "RestoreFlagDefault_WithPayload payload r = r\<lparr>def_Payload := payload\<rparr>"

definition RestoreFlagDefault_SetPayload :: "m_error option \<Rightarrow> RestoreFlagDefault \<Rightarrow> RestoreFlagDefault" where
  "RestoreFlagDefault_SetPayload payload r = r\<lparr>def_Payload := payload\<rparr>"

definition RestoreFlagDefault_WriteResponse ::
  "'e producer \<Rightarrow> RestoreFlagDefault \<Rightarrow> http_writer \<Rightarrow> http_writer go" where
  "RestoreFlagDefault_WriteResponse produce r w = write_pointer produce P_Error (def_statusCode r) (def_Payload r) w"

type_synonym SetFlagEnabledOK = "(m_flag option) ok_response"

definition NewSetFlagEnabledOK :: "SetFlagEnabledOK" where
  "NewSetFlagEnabledOK = \<lparr>ok_Payload = None\<rparr>"

definition SetFlagEnabledOK_WithPayload :: "m_flag option \<Rightarrow> SetFlagEnabledOK \<Rightarrow> SetFlagEnabledOK" where
  "SetFlagEnabledOK_WithPayload payload r = r\<lparr>ok_Payload := payload\<rparr>"

definition SetFlagEnabledOK_SetPayload :: "m_flag option \<Rightarrow> SetFlagEnabledOK \<Rightarrow> SetFlagEnabledOK" where
  "SetFlagEnabledOK_SetPayload payload r = r\<lparr>ok_Payload := payload\<rparr>"

definition SetFlagEnabledOK_WriteResponse ::
  "'e producer \<Rightarrow> SetFlagEnabledOK \<Rightarrow> http_writer \<Rightarrow> http_writer go" where
  "SetFlagEnabledOK_WriteResponse produce r w = write_pointer produce P_Flag 200 (ok_Payload r) w"

type_synonym SetFlagEnabledDefault = default_response

definition NewSetFlagEnabledDefault :: "int \<Rightarrow> SetFlagEnabledDefault" where
  "NewSetFlagEnabledDefault code = \<lparr>def_statusCode = (if code \<le> 0 then 500 else code), def_Payload = None\<rparr>"

definition SetFlagEnabledDefault_WithStatusCode :: "int \<Rightarrow> SetFlagEnabledDefault \<Rightarrow> SetFlagEnabledDefault" where
  "SetFlagEnabledDefault_WithStatusCode code r = r\<lparr>def_statusCode := code\<rparr>"

definition SetFlagEnabledDefault_SetStatusCode :: "int \<Rightarrow> SetFlagEnabledDefault \<Rightarrow> SetFlagEnabledDefault" where
  "SetFlagEnabledDefault_SetStatusCode code r = r\<lparr>def_statusCode := code\<rparr>"

definition SetFlagEnabledDefault_WithPayload :: "m_error option \<Rightarrow> SetFlagEnabledDefault \<Rightarrow> SetFlagEnabledDefault" where
  "SetFlagEnabledDefault_WithPayload payload r = r\<lparr>def_Payload := payload\<rparr>"

definition SetFlagEnabledDefault_SetPayload :: "m_error option \<Rightarrow> SetFlagEnabledDefault \<Rightarrow> SetFlagEnabledDefault" where
  "SetFlagEnabledDefault_SetPayload payload r = r\<lparr>def_Payload := payload\<rparr>"

definition SetFlagEnabledDefault_WriteResponse ::
  "'e producer \<Rightarrow> SetFlagEnabledDefault \<Rightarrow> http_writer \<Rightarrow> http_writer go" where
  "SetFlagEnabledDefault_WriteResponse produce r w = write_pointer produce P_Error (def_statusCode r) (def_Payload r) w"

section \<open>Tags\<close>

type_synonym CreateTagOK = "(m_tag option) ok_response"

definition NewCreateTagOK :: "CreateTagOK" where
  "NewCreateTagOK = \<lparr>ok_Payload = None\<rparr>"

definition CreateTagOK_WithPayload :: "m_tag option \<Rightarrow> CreateTagOK \<Rightarrow> CreateTagOK" where
  "CreateTagOK_WithPayload payload r = r\<lparr>ok_Payload := payload\<rparr>"

definition CreateTagOK_SetPayload :: "m_tag option \<Rightarrow> CreateTagOK \<Rightarrow> CreateTagOK" where
  "CreateTagOK_SetPayload payload r = r\<lparr>ok_Payload := payload\<rparr>"

definition CreateTagOK_WriteResponse ::
  "'e producer \<Rightarrow> CreateTagOK \<Rightarrow> http_writer \<Rightarrow> http_writer go" where
  "CreateTagOK_WriteResponse produce r w = write_pointer produce P_Tag 200 (ok_Payload r) w"

type_synonym CreateTagDefault = default_response

definition NewCreateTagDefault :: "int \<Rightarrow> CreateTagDefault" where
  "NewCreateTagDefault code = \<lparr>def_statusCode = (if code \<le> 0 then 500 else code), def_Payload = None\<rparr>"

definition CreateTagDefault_WithStatusCode :: "int \<Rightarrow> CreateTagDefault \<Rightarrow> CreateTagDefault" where
  "CreateTagDefault_WithStatusCode code r = r\<lparr>def_statusCode := code\<rparr>"

definition CreateTagDefault_SetStatusCode :: "int \<Rightarrow> CreateTagDefault \<Rightarrow> CreateTagDefault" where
  "CreateTagDefault_SetStatusCode code r = r\<lparr>def_statusCode := code\<rparr>"

definition CreateTagDefault_WithPayload :: "m_error option \<Rightarrow> CreateTagDefault \<Rightarrow> CreateTagDefault" where
  "CreateTagDefault_WithPayload payload r = r\<lparr>def_Payload := payload\<rparr>"

definition CreateTagDefault_SetPayload :: "m_error option \<Rightarrow> CreateTagDefault \<Rightarrow> CreateTagDefault" where
  "CreateTagDefault_SetPayload payload r = r\<lparr>def_Payload := payload\<rparr>"

definition CreateTagDefault_WriteResponse ::
  "'e producer \<Rightarrow> CreateTagDefault \<Rightarrow> http_writer \<Rightarrow> http_writer go" where
  "CreateTagDefault_WriteResponse produce r w = write_pointer produce P_Error (def_statusCode r) (def_Payload r) w"

type_synonym DeleteTagOK = "(unit) ok_response"

definition NewDeleteTagOK :: "DeleteTagOK" where
  "NewDeleteTagOK = \<lparr>ok_Payload = ()\<rparr>"

definition DeleteTagOK_WriteResponse ::
  "'e producer \<Rightarrow> DeleteTagOK \<Rightarrow> http_writer \<Rightarrow> http_writer go" where
  "DeleteTagOK_WriteResponse produce r w = write_empty 200 w"

type_synonym DeleteTagDefault = default_response

definition NewDeleteTagDefault :: "int \<Rightarrow> DeleteTagDefault" where
  "NewDeleteTagDefault code = \<lparr>def_statusCode = (if code \<le> 0 then 500 else code), def_Payload = None\<rparr>"

definition DeleteTagDefault_WithStatusCode :: "int \<Rightarrow> DeleteTagDefault \<Rightarrow> DeleteTagDefault" where
  "DeleteTagDefault_WithStatusCode code r = r\<lparr>def_statusCode := code\<rparr>"

definition DeleteTagDefault_SetStatusCode :: "int \<Rightarrow> DeleteTagDefault \<Rightarrow> DeleteTagDefault" where
  "DeleteTagDefault_SetStatusCode code r = r\<lparr>def_statusCode := code\<rparr>"

definition DeleteTagDefault_WithPayload :: "m_error option \<Rightarrow> DeleteTagDefault \<Rightarrow> DeleteTagDefault" where
  "DeleteTagDefault_WithPayload payload r = r\<lparr>def_Payload := payload\<rparr>"

definition DeleteTagDefault_SetPayload :: "m_error option \<Rightarrow> DeleteTagDefault \<Rightarrow> DeleteTagDefault" where
  "DeleteTagDefault_SetPayload payload r = r\<lparr>def_Payload := payload\<rparr>"

definition DeleteTagDefault_WriteResponse ::
  "'e producer \<Rightarrow> DeleteTagDefault \<Rightarrow> http_writer \<Rightarrow> http_writer go" where
  "DeleteTagDefault_WriteResponse produce r w = write_pointer produce P_Error (def_statusCode r) (def_Payload r) w"

type_synonym FindAllTagsOK = "(m_tag option list option) ok_response"

definition NewFindAllTagsOK :: "FindAllTagsOK" where
  "NewFindAllTagsOK = \<lparr>ok_Payload = None\<rparr>"

definition FindAllTagsOK_WithPayload :: "m_tag option list option \<Rightarrow> FindAllTagsOK \<Rightarrow> FindAllTagsOK" where
  "FindAllTagsOK_WithPayload payload r = r\<lparr>ok_Payload := payload\<rparr>"

definition FindAllTagsOK_SetPayload :: "m_tag option list option \<Rightarrow> FindAllTagsOK \<Rightarrow> FindAllTagsOK" where
  "FindAllTagsOK_SetPayload payload r = r\<lparr>ok_Payload := payload\<rparr>"

definition FindAllTagsOK_WriteResponse ::
  "'e producer \<Rightarrow> FindAllTagsOK \<Rightarrow> http_writer \<Rightarrow> http_writer go" where
  "FindAllTagsOK_WriteResponse produce r w = write_slice produce P_Tags 200 (ok_Payload r) w"

type_synonym FindAllTagsDefault = default_response

definition NewFindAllTagsDefault :: "int \<Rightarrow> FindAllTagsDefault" where
  "NewFindAllTagsDefault code = \<lparr>def_statusCode = (if code \<le> 0 then 500 else code), def_Payload = None\<rparr>"

definition FindAllTagsDefault_WithStatusCode :: "int \<Rightarrow> FindAllTagsDefault \<Rightarrow> FindAllTagsDefault" where
  "FindAllTagsDefault_WithStatusCode code r = r\<lparr>def_statusCode := code\<rparr>"

definition FindAllTagsDefault_SetStatusCode :: "int \<Rightarrow> FindAllTagsDefault \<Rightarrow> FindAllTagsDefault" where
  "FindAllTagsDefault_SetStatusCode code r = r\<lparr>def_statusCode := code\<rparr>"

definition FindAllTagsDefault_WithPayload :: "m_error option \<Rightarrow> FindAllTagsDefault \<Rightarrow> FindAllTagsDefault" where
  "FindAllTagsDefault_WithPayload payload r = r\<lparr>def_Payload := payload\<rparr>"

definition FindAllTagsDefault_SetPayload :: "m_error option \<Rightarrow> FindAllTagsDefault \<Rightarrow> FindAllTagsDefault" where
  "FindAllTagsDefault_SetPayload payload r = r\<lparr>def_Payload := payload\<rparr>"

definition FindAllTagsDefault_WriteResponse ::
  "'e producer \<Rightarrow> FindAllTagsDefault \<Rightarrow> http_writer \<Rightarrow> http_writer go" where
  "FindAllTagsDefault_WriteResponse produce r w = write_pointer produce P_Error (def_statusCode r) (def_Payload r) w"

type_synonym FindTagsOK = "(m_tag option list option) ok_response"

definition NewFindTagsOK :: "FindTagsOK" where
  "NewFindTagsOK = \<lparr>ok_Payload = None\<rparr>"

definition FindTagsOK_WithPayload :: "m_tag option list option \<Rightarrow> FindTagsOK \<Rightarrow> FindTagsOK" where
  "FindTagsOK_WithPayload payload r = r\<lparr>ok_Payload := payload\<rparr>"

definition FindTagsOK_SetPayload :: "m_tag option list option \<Rightarrow> FindTagsOK \<Rightarrow> FindTagsOK" where
  "FindTagsOK_SetPayload payload r = r\<lparr>ok_Payload := payload\<rparr>"

definition FindTagsOK_WriteResponse ::
  "'e producer \<Rightarrow> FindTagsOK \<Rightarrow> http_writer \<Rightarrow> http_writer go" where
  "FindTagsOK_WriteResponse produce r w = write_slice produce P_Tags 200 (ok_Payload r) w"

type_synonym FindTagsDefault = default_response

definition NewFindTagsDefault :: "int \<Rightarrow> FindTagsDefault" where
  "NewFindTagsDefault code = \<lparr>def_statusCode = (if code \<le> 0 then 500 else code), def_Payload = None\<rparr>"

definition FindTagsDefault_WithStatusCode :: "int \<Rightarrow> FindTagsDefault \<Rightarrow> FindTagsDefault" where
  "FindTagsDefault_WithStatusCode code r = r\<lparr>def_statusCode := code\<rparr>"

definition FindTagsDefault_SetStatusCode :: "int \<Rightarrow> FindTagsDefault \<Rightarrow> FindTagsDefault" where
  "FindTagsDefault_SetStatusCode code r = r\<lparr>def_statusCode := code\<rparr>"

definition FindTagsDefault_WithPayload :: "m_error option \<Rightarrow> FindTagsDefault \<Rightarrow> FindTagsDefault" where
  "FindTagsDefault_WithPayload payload r = r\<lparr>def_Payload := payload\<rparr>"

definition FindTagsDefault_SetPayload :: "m_error option \<Rightarrow> FindTagsDefault \<Rightarrow> FindTagsDefault" where
  "FindTagsDefault_SetPayload payload r = r\<lparr>def_Payload := payload\<rparr>"

definition FindTagsDefault_WriteResponse ::
  "'e producer \<Rightarrow> FindTagsDefault \<Rightarrow> http_writer \<Rightarrow> http_writer go" where
  "FindTagsDefault_WriteResponse produce r w = write_pointer produce P_Error (def_statusCode r) (def_Payload r) w"

section \<open>Segments\<close>

type_synonym CreateSegmentOK = "(m_segment option) ok_response"

definition NewCreateSegmentOK :: "CreateSegmentOK" where
  "NewCreateSegmentOK = \<lparr>ok_Payload = None\<rparr>"

definition CreateSegmentOK_WithPayload :: "m_segment option \<Rightarrow> CreateSegmentOK \<Rightarrow> CreateSegmentOK" where
  "CreateSegmentOK_WithPayload payload r = r\<lparr>ok_Payload := payload\<rparr>"

definition CreateSegmentOK_SetPayload :: "m_segment option \<Rightarrow> CreateSegmentOK \<Rightarrow> CreateSegmentOK" where
  "CreateSegmentOK_SetPayload payload r = r\<lparr>ok_Payload := payload\<rparr>"

definition CreateSegmentOK_WriteResponse ::
  "'e producer \<Rightarrow> CreateSegmentOK \<Rightarrow> http_writer \<Rightarrow> http_writer go" where
  "CreateSegmentOK_WriteResponse produce r w = write_pointer produce P_Segment 200 (ok_Payload r) w"

type_synonym CreateSegmentDefault = default_response

definition NewCreateSegmentDefault :: "int \<Rightarrow> CreateSegmentDefault" where
  "NewCreateSegmentDefault code = \<lparr>def_statusCode = (if code \<le> 0 then 500 else code), def_Payload = None\<rparr>"

definition CreateSegmentDefault_WithStatusCode :: "int \<Rightarrow> CreateSegmentDefault \<Rightarrow> CreateSegmentDefault" where
  "CreateSegmentDefault_WithStatusCode code r = r\<lparr>def_statusCode := code\<rparr>"

definition CreateSegmentDefault_SetStatusCode :: "int \<Rightarrow> CreateSegmentDefault \<Rightarrow> CreateSegmentDefault" where
  "CreateSegmentDefault_SetStatusCode code r = r\<lparr>def_statusCode := code\<rparr>"

definition CreateSegmentDefault_WithPayload :: "m_error option \<Rightarrow> CreateSegmentDefault \<Rightarrow> CreateSegmentDefault" where
  "CreateSegmentDefault_WithPayload payload r = r\<lparr>def_Payload := payload\<rparr>"

definition CreateSegmentDefault_SetPayload :: "m_error option \<Rightarrow> CreateSegmentDefault \<Rightarrow> CreateSegmentDefault" where
  "CreateSegmentDefault_SetPayload payload r = r\<lparr>def_Payload := payload\<rparr>"

definition CreateSegmentDefault_WriteResponse ::
  "'e producer \<Rightarrow> CreateSegmentDefault \<Rightarrow> http_writer \<Rightarrow> http_writer go" where
  "CreateSegmentDefault_WriteResponse produce r w = write_pointer produce P_Error (def_statusCode r) (def_Payload r) w"

type_synonym DeleteSegmentOK = "(unit) ok_response"

definition NewDeleteSegmentOK :: "DeleteSegmentOK" where
  "NewDeleteSegmentOK = \<lparr>ok_Payload = ()\<rparr>"

definition DeleteSegmentOK_WriteResponse ::
  "'e producer \<Rightarrow> DeleteSegmentOK \<Rightarrow> http_writer \<Rightarrow> http_writer go" where
  "DeleteSegmentOK_WriteResponse produce r w = write_empty 200 w"

type_synonym DeleteSegmentDefault = default_response

definition NewDeleteSegmentDefault :: "int \<Rightarrow> DeleteSegmentDefault" where
  "NewDeleteSegmentDefault code = \<lparr>def_statusCode = (if code \<le> 0 then 500 else code), def_Payload = None\<rparr>"

definition DeleteSegmentDefault_WithStatusCode :: "int \<Rightarrow> DeleteSegmentDefault \<Rightarrow> DeleteSegmentDefault" where
  "DeleteSegmentDefault_WithStatusCode code r = r\<lparr>def_statusCode := code\<rparr>"

definition DeleteSegmentDefault_SetStatusCode :: "int \<Rightarrow> DeleteSegmentDefault \<Rightarrow> DeleteSegmentDefault" where
  "DeleteSegmentDefault_SetStatusCode code r = r\<lparr>def_statusCode := code\<rparr>"

definition DeleteSegmentDefault_WithPayload :: "m_error option \<Rightarrow> DeleteSegmentDefault \<Rightarrow> DeleteSegmentDefault" where
  "DeleteSegmentDefault_WithPayload payload r = r\<lparr>def_Payload := payload\<rparr>"

definition DeleteSegmentDefault_SetPayload :: "m_error option \<Rightarrow> DeleteSegmentDefault \<Rightarrow> DeleteSegmentDefault" where
  "DeleteSegmentDefault_SetPayload payload r = r\<lparr>def_Payload := payload\<rparr>"

definition DeleteSegmentDefault_WriteResponse ::
  "'e producer \<Rightarrow> DeleteSegmentDefault \<Rightarrow> http_writer \<Rightarrow> http_writer go" where
  "DeleteSegmentDefault_WriteResponse produce r w = write_pointer produce P_Error (def_statusCode r) (def_Payload r) w"

type_synonym FindSegmentsOK = "(m_segment option list option) ok_response"

definition NewFindSegmentsOK :: "FindSegmentsOK" where
  "NewFindSegmentsOK = \<lparr>ok_Payload = None\<rparr>"

definition FindSegmentsOK_WithPayload :: "m_segment option list option \<Rightarrow> FindSegmentsOK \<Rightarrow> FindSegmentsOK" where
  "FindSegmentsOK_WithPayload payload r = r\<lparr>ok_Payload := payload\<rparr>"

definition FindSegmentsOK_SetPayload :: "m_segment option list option \<Rightarrow> FindSegmentsOK \<Rightarrow> FindSegmentsOK" where
  "FindSegmentsOK_SetPayload payload r = r\<lparr>ok_Payload := payload\<rparr>"

definition FindSegmentsOK_WriteResponse ::
  "'e producer \<Rightarrow> FindSegmentsOK \<Rightarrow> http_writer \<Rightarrow> http_writer go" where
  "FindSegmentsOK_WriteResponse produce r w = write_slice produce P_Segments 200 (ok_Payload r) w"

type_synonym FindSegmentsDefault = default_response

definition NewFindSegmentsDefault :: "int \<Rightarrow> FindSegmentsDefault" where
  "NewFindSegmentsDefault code = \<lparr>def_statusCode = (if code \<le> 0 then 500 else code), def_Payload = None\<rparr>"

definition FindSegmentsDefault_WithStatusCode :: "int \<Rightarrow> FindSegmentsDefault \<Rightarrow> FindSegmentsDefault" where
  "FindSegmentsDefault_WithStatusCode code r = r\<lparr>def_statusCode := code\<rparr>"

definition FindSegmentsDefault_SetStatusCode :: "int \<Rightarrow> FindSegmentsDefault \<Rightarrow> FindSegmentsDefault" where
  "FindSegmentsDefault_SetStatusCode code r = r\<lparr>def_statusCode := code\<rparr>"

definition FindSegmentsDefault_WithPayload :: "m_error option \<Rightarrow> FindSegmentsDefault \<Rightarrow> FindSegmentsDefault" where
  "FindSegmentsDefault_WithPayload payload r = r\<lparr>def_Payload := payload\<rparr>"

definition FindSegmentsDefault_SetPayload :: "m_error option \<Rightarrow> FindSegmentsDefault \<Rightarrow> FindSegmentsDefault" where
  "FindSegmentsDefault_SetPayload payload r = r\<lparr>def_Payload := payload\<rparr>"

definition FindSegmentsDefault_WriteResponse ::
  "'e producer \<Rightarrow> FindSegmentsDefault \<Rightarrow> http_writer \<Rightarrow> http_writer go" where
  "FindSegmentsDefault_WriteResponse produce r w = write_pointer produce P_Error (def_statusCode r) (def_Payload r) w"

type_synonym PutSegmentOK = "(m_segment option) ok_response"

definition NewPutSegmentOK :: "PutSegmentOK" where
  "NewPutSegmentOK = \<lparr>ok_Payload = None\<rparr>"

definition PutSegmentOK_WithPayload :: "m_segment option \<Rightarrow> PutSegmentOK \<Rightarrow> PutSegmentOK" where
  "PutSegmentOK_WithPayload payload r = r\<lparr>ok_Payload := payload\<rparr>"

definition PutSegmentOK_SetPayload :: "m_segment option \<Rightarrow> PutSegmentOK \<Rightarrow> PutSegmentOK" where
  "PutSegmentOK_SetPayload payload r = r\<lparr>ok_Payload := payload\<rparr>"

definition PutSegmentOK_WriteResponse ::
  "'e producer \<Rightarrow> PutSegmentOK \<Rightarrow> http_writer \<Rightarrow> http_writer go" where
  "PutSegmentOK_WriteResponse produce r w = write_pointer produce P_Segment 200 (ok_Payload r) w"

type_synonym PutSegmentDefault = default_response

definition NewPutSegmentDefault :: "int \<Rightarrow> PutSegmentDefault" where
  "NewPutSegmentDefault code = \<lparr>def_statusCode = (if code \<le> 0 then 500 else code), def_Payload = None\<rparr>"

definition PutSegmentDefault_WithStatusCode :: "int \<Rightarrow> PutSegmentDefault \<Rightarrow> PutSegmentDefault" where
  "PutSegmentDefault_WithStatusCode code r = r\<lparr>def_statusCode := code\<rparr>"

definition PutSegmentDefault_SetStatusCode :: "int \<Rightarrow> PutSegmentDefault \<Rightarrow> PutSegmentDefault" where
  "PutSegmentDefault_SetStatusCode code r = r\<lparr>def_statusCode := code\<rparr>"

definition PutSegmentDefault_WithPayload :: "m_error option \<Rightarrow> PutSegmentDefault \<Rightarrow> PutSegmentDefault" where
  "PutSegmentDefault_WithPayload payload r = r\<lparr>def_Payload := payload\<rparr>"

definition PutSegmentDefault_SetPayload :: "m_error option \<Rightarrow> PutSegmentDefault \<Rightarrow> PutSegmentDefault" where
  "PutSegmentDefault_SetPayload payload r = r\<lparr>def_Payload := payload\<rparr>"

definition PutSegmentDefault_WriteResponse ::
  "'e producer \<Rightarrow> PutSegmentDefault \<Rightarrow> http_writer \<Rightarrow> http_writer go" where
  "PutSegmentDefault_WriteResponse produce r w = write_pointer produce P_Error (def_statusCode r) (def_Payload r) w"

type_synonym PutSegmentsReorderOK = "(unit) ok_response"

definition NewPutSegmentsReorderOK :: "PutSegmentsReorderOK" where
  "NewPutSegmentsReorderOK = \<lparr>ok_Payload = ()\<rparr>"

definition PutSegmentsReorderOK_WriteResponse ::
  "'e producer \<Rightarrow> PutSegmentsReorderOK \<Rightarrow> http_writer \<Rightarrow> http_writer go" where
  "PutSegmentsReorderOK_WriteResponse produce r w = write_empty 200 w"

type_synonym PutSegmentsReorderDefault = default_response

definition NewPutSegmentsReorderDefault :: "int \<Rightarrow> PutSegmentsReorderDefault" where
  "NewPutSegmentsReorderDefault code = \<lparr>def_statusCode = (if code \<le> 0 then 500 else code), def_Payload = None\<rparr>"

definition PutSegmentsReorderDefault_WithStatusCode :: "int \<Rightarrow> PutSegmentsReorderDefault \<Rightarrow> PutSegmentsReorderDefault" where
  "PutSegmentsReorderDefault_WithStatusCode code r = r\<lparr>def_statusCode := code\<rparr>"

definition PutSegmentsReorderDefault_SetStatusCode :: "int \<Rightarrow> PutSegmentsReorderDefault \<Rightarrow> PutSegmentsReorderDefault" where
  "PutSegmentsReorderDefault_SetStatusCode code r = r\<lparr>def_statusCode := code\<rparr>"

definition PutSegmentsReorderDefault_WithPayload :: "m_error option \<Rightarrow> PutSegmentsReorderDefault \<Rightarrow> PutSegmentsReorderDefault" where
  "PutSegmentsReorderDefault_WithPayload payload r = r\<lparr>def_Payload := payload\<rparr>"

definition PutSegmentsReorderDefault_SetPayload :: "m_error option \<Rightarrow> PutSegmentsReorderDefault \<Rightarrow> PutSegmentsReorderDefault" where
  "PutSegmentsReorderDefault_SetPayload payload r = r\<lparr>def_Payload := payload\<rparr>"

definition PutSegmentsReorderDefault_WriteResponse ::
  "'e producer \<Rightarrow> PutSegmentsReorderDefault \<Rightarrow> http_writer \<Rightarrow> http_writer go" where
  "PutSegmentsReorderDefault_WriteResponse produce r w = write_pointer produce P_Error (def_statusCode r) (def_Payload r) w"

section \<open>Constraints\<close>

type_synonym CreateConstraintOK = "(m_constraint option) ok_response"

definition NewCreateConstraintOK :: "CreateConstraintOK" where
  "NewCreateConstraintOK = \<lparr>ok_Payload = None\<rparr>"

definition CreateConstraintOK_WithPayload :: "m_constraint option \<Rightarrow> CreateConstraintOK \<Rightarrow> CreateConstraintOK" where
  "CreateConstraintOK_WithPayload payload r = r\<lparr>ok_Payload := payload\<rparr>"

definition CreateConstraintOK_SetPayload :: "m_constraint option \<Rightarrow> CreateConstraintOK \<Rightarrow> CreateConstraintOK" where
  "CreateConstraintOK_SetPayload payload r = r\<lparr>ok_Payload := payload\<rparr>"

definition CreateConstraintOK_WriteResponse ::
  "'e producer \<Rightarrow> CreateConstraintOK \<Rightarrow> http_writer \<Rightarrow> http_writer go" where
  "CreateConstraintOK_WriteResponse produce r w = write_pointer produce P_Constraint 200 (ok_Payload r) w"

type_synonym CreateConstraintDefault = default_response

definition NewCreateConstraintDefault :: "int \<Rightarrow> CreateConstraintDefault" where
  "NewCreateConstraintDefault code = \<lparr>def_statusCode = (if code \<le> 0 then 500 else code), def_Payload = None\<rparr>"

definition CreateConstraintDefault_WithStatusCode :: "int \<Rightarrow> CreateConstraintDefault \<Rightarrow> CreateConstraintDefault" where
  "CreateConstraintDefault_WithStatusCode code r = r\<lparr>def_statusCode := code\<rparr>"

definition CreateConstraintDefault_SetStatusCode :: "int \<Rightarrow> CreateConstraintDefault \<Rightarrow> CreateConstraintDefault" where
  "CreateConstraintDefault_SetStatusCode code r = r\<lparr>def_statusCode := code\<rparr>"

definition CreateConstraintDefault_WithPayload :: "m_error option \<Rightarrow> CreateConstraintDefault \<Rightarrow> CreateConstraintDefault" where
  "CreateConstraintDefault_WithPayload payload r = r\<lparr>def_Payload := payload\<rparr>"

definition CreateConstraintDefault_SetPayload :: "m_error option \<Rightarrow> CreateConstraintDefault \<Rightarrow> CreateConstraintDefault" where
  "CreateConstraintDefault_SetPayload payload r = r\<lparr>def_Payload := payload\<rparr>"

definition CreateConstraintDefault_WriteResponse ::
  "'e producer \<Rightarrow> CreateConstraintDefault \<Rightarrow> http_writer \<Rightarrow> http_writer go" where
  "CreateConstraintDefault_WriteResponse produce r w = write_pointer produce P_Error (def_statusCode r) (def_Payload r) w"

type_synonym DeleteConstraintOK = "(unit) ok_response"

definition NewDeleteConstraintOK :: "DeleteConstraintOK" where
  "NewDeleteConstraintOK = \<lparr>ok_Payload = ()\<rparr>"

definition DeleteConstraintOK_WriteResponse ::
  "'e producer \<Rightarrow> DeleteConstraintOK \<Rightarrow> http_writer \<Rightarrow> http_writer go" where
  "DeleteConstraintOK_WriteResponse produce r w = write_empty 200 w"

type_synonym DeleteConstraintDefault = default_response

definition NewDeleteConstraintDefault :: "int \<Rightarrow> DeleteConstraintDefault" where
  "NewDeleteConstraintDefault code = \<lparr>def_statusCode = (if code \<le> 0 then 500 else code), def_Payload = None\<rparr>"

definition DeleteConstraintDefault_WithStatusCode :: "int \<Rightarrow> DeleteConstraintDefault \<Rightarrow> DeleteConstraintDefault" where
  "DeleteConstraintDefault_WithStatusCode code r = r\<lparr>def_statusCode := code\<rparr>"

definition DeleteConstraintDefault_SetStatusCode :: "int \<Rightarrow> DeleteConstraintDefault \<Rightarrow> DeleteConstraintDefault" where
  "DeleteConstraintDefault_SetStatusCode code r = r\<lparr>def_statusCode := code\<rparr>"

definition DeleteConstraintDefault_WithPayload :: "m_error option \<Rightarrow> DeleteConstraintDefault \<Rightarrow> DeleteConstraintDefault" where
  "DeleteConstraintDefault_WithPayload payload r = r\<lparr>def_Payload := payload\<rparr>"

definition DeleteConstraintDefault_SetPayload :: "m_error option \<Rightarrow> DeleteConstraintDefault \<Rightarrow> DeleteConstraintDefault" where
  "DeleteConstraintDefault_SetPayload payload r = r\<lparr>def_Payload := payload\<rparr>"

definition DeleteConstraintDefault_WriteResponse ::
  "'e producer \<Rightarrow> DeleteConstraintDefault \<Rightarrow> http_writer \<Rightarrow> http_writer go" where
  "DeleteConstraintDefault_WriteResponse produce r w = write_pointer produce P_Error (def_statusCode r) (def_Payload r) w"

type_synonym FindConstraintsOK = "(m_constraint option list option) ok_response"

definition NewFindConstraintsOK :: "FindConstraintsOK" where
  "NewFindConstraintsOK = \<lparr>ok_Payload = None\<rparr>"

definition FindConstraintsOK_WithPayload :: "m_constraint option list option \<Rightarrow> FindConstraintsOK \<Rightarrow> FindConstraintsOK" where
  "FindConstraintsOK_WithPayload payload r = r\<lparr>ok_Payload := payload\<rparr>"

definition FindConstraintsOK_SetPayload :: "m_constraint option list option \<Rightarrow> FindConstraintsOK \<Rightarrow> FindConstraintsOK" where
  "FindConstraintsOK_SetPayload payload r = r\<lparr>ok_Payload := payload\<rparr>"

definition FindConstraintsOK_WriteResponse ::
  "'e producer \<Rightarrow> FindConstraintsOK \<Rightarrow> http_writer \<Rightarrow> http_writer go" where
  "FindConstraintsOK_WriteResponse produce r w = write_slice produce P_Constraints 200 (ok_Payload r) w"

type_synonym FindConstraintsDefault = default_response

definition NewFindConstraintsDefault :: "int \<Rightarrow> FindConstraintsDefault" where
  "NewFindConstraintsDefault code = \<lparr>def_statusCode = (if code \<le> 0 then 500 else code), def_Payload = None\<rparr>"

definition FindConstraintsDefault_WithStatusCode :: "int \<Rightarrow> FindConstraintsDefault \<Rightarrow> FindConstraintsDefault" where
  "FindConstraintsDefault_WithStatusCode code r = r\<lparr>def_statusCode := code\<rparr>"

definition FindConstraintsDefault_SetStatusCode :: "int \<Rightarrow> FindConstraintsDefault \<Rightarrow> FindConstraintsDefault" where
  "FindConstraintsDefault_SetStatusCode code r = r\<lparr>def_statusCode := code\<rparr>"

definition FindConstraintsDefault_WithPayload :: "m_error option \<Rightarrow> FindConstraintsDefault \<Rightarrow> FindConstraintsDefault" where
  "FindConstraintsDefault_WithPayload payload r = r\<lparr>def_Payload := payload\<rparr>"

definition FindConstraintsDefault_SetPayload :: "m_error option \<Rightarrow> FindConstraintsDefault \<Rightarrow> FindConstraintsDefault" where
  "FindConstraintsDefault_SetPayload payload r = r\<lparr>def_Payload := payload\<rparr>"

definition FindConstraintsDefault_WriteResponse ::
  "'e producer \<Rightarrow> FindConstraintsDefault \<Rightarrow> http_writer \<Rightarrow> http_writer go" where
  "FindConstraintsDefault_WriteResponse produce r w = write_pointer produce P_Error (def_statusCode r) (def_Payload r) w"

type_synonym PutConstraintOK = "(m_constraint option) ok_response"

definition NewPutConstraintOK :: "PutConstraintOK" where
  "NewPutConstraintOK = \<lparr>ok_Payload = None\<rparr>"

definition PutConstraintOK_WithPayload :: "m_constraint option \<Rightarrow> PutConstraintOK \<Rightarrow> PutConstraintOK" where
  "PutConstraintOK_WithPayload payload r = r\<lparr>ok_Payload := payload\<rparr>"

definition PutConstraintOK_SetPayload :: "m_constraint option \<Rightarrow> PutConstraintOK \<Rightarrow> PutConstraintOK" where
  "PutConstraintOK_SetPayload payload r = r\<lparr>ok_Payload := payload\<rparr>"

definition PutConstraintOK_WriteResponse ::
  "'e producer \<Rightarrow> PutConstraintOK \<Rightarrow> http_writer \<Rightarrow> http_writer go" where
  "PutConstraintOK_WriteResponse produce r w = write_pointer produce P_Constraint 200 (ok_Payload r) w"

type_synonym PutConstraintDefault = default_response

definition NewPutConstraintDefault :: "int \<Rightarrow> PutConstraintDefault" where
  "NewPutConstraintDefault code = \<lparr>def_statusCode = (if code \<le> 0 then 500 else code), def_Payload = None\<rparr>"

definition PutConstraintDefault_WithStatusCode :: "int \<Rightarrow> PutConstraintDefault \<Rightarrow> PutConstraintDefault" where
  "PutConstraintDefault_WithStatusCode code r = r\<lparr>def_statusCode := code\<rparr>"

definition PutConstraintDefault_SetStatusCode :: "int \<Rightarrow> PutConstraintDefault \<Rightarrow> PutConstraintDefault" where
  "PutConstraintDefault_SetStatusCode code r = r\<lparr>def_statusCode := code\<rparr>"

definition PutConstraintDefault_WithPayload :: "m_error option \<Rightarrow> PutConstraintDefault \<Rightarrow> PutConstraintDefault" where
  "PutConstraintDefault_WithPayload payload r = r\<lparr>def_Payload := payload\<rparr>"

definition PutConstraintDefault_SetPayload :: "m_error option \<Rightarrow> PutConstraintDefault \<Rightarrow> PutConstraintDefault" where
  "PutConstraintDefault_SetPayload payload r = r\<lparr>def_Payload := payload\<rparr>"

definition PutConstraintDefault_WriteResponse ::
  "'e producer \<Rightarrow> PutConstraintDefault \<Rightarrow> http_writer \<Rightarrow> http_writer go" where
  "PutConstraintDefault_WriteResponse produce r w = write_pointer produce P_Error (def_statusCode r) (def_Payload r) w"

section \<open>Distributions\<close>

type_synonym FindDistributionsOK = "(m_distribution option list option) ok_response"

definition NewFindDistributionsOK :: "FindDistributionsOK" where
  "NewFindDistributionsOK = \<lparr>ok_Payload = None\<rparr>"

definition FindDistributionsOK_WithPayload :: "m_distribution option list option \<Rightarrow> FindDistributionsOK \<Rightarrow> FindDistributionsOK" where
  "FindDistributionsOK_WithPayload payload r = r\<lparr>ok_Payload := payload\<rparr>"

definition FindDistributionsOK_SetPayload :: "m_distribution option list option \<Rightarrow> FindDistributionsOK \<Rightarrow> FindDistributionsOK" where
  "FindDistributionsOK_SetPayload payload r = r\<lparr>ok_Payload := payload\<rparr>"

definition FindDistributionsOK_WriteResponse ::
  "'e producer \<Rightarrow> FindDistributionsOK \<Rightarrow> http_writer \<Rightarrow> http_writer go" where
  "FindDistributionsOK_WriteResponse produce r w = write_slice produce P_Distributions 200 (ok_Payload r) w"

type_synonym FindDistributionsDefault = default_response

definition NewFindDistributionsDefault :: "int \<Rightarrow> FindDistributionsDefault" where
  "NewFindDistributionsDefault code = \<lparr>def_statusCode = (if code \<le> 0 then 500 else code), def_Payload = None\<rparr>"

definition FindDistributionsDefault_WithStatusCode :: "int \<Rightarrow> FindDistributionsDefault \<Rightarrow> FindDistributionsDefault" where
  "FindDistributionsDefault_WithStatusCode code r = r\<lparr>def_statusCode := code\<rparr>"

definition FindDistributionsDefault_SetStatusCode :: "int \<Rightarrow> FindDistributionsDefault \<Rightarrow> FindDistributionsDefault" where
  "FindDistributionsDefault_SetStatusCode code r = r\<lparr>def_statusCode := code\<rparr>"

definition FindDistributionsDefault_WithPayload :: "m_error option \<Rightarrow> FindDistributionsDefault \<Rightarrow> FindDistributionsDefault" where
  "FindDistributionsDefault_WithPayload payload r = r\<lparr>def_Payload := payload\<rparr>"

definition FindDistributionsDefault_SetPayload :: "m_error option \<Rightarrow> FindDistributionsDefault \<Rightarrow> FindDistributionsDefault" where
  "FindDistributionsDefault_SetPayload payload r = r\<lparr>def_Payload := payload\<rparr>"

definition FindDistributionsDefault_WriteResponse ::
  "'e producer \<Rightarrow> FindDistributionsDefault \<Rightarrow> http_writer \<Rightarrow> http_writer go" where
  "FindDistributionsDefault_WriteResponse produce r w = write_pointer produce P_Error (def_statusCode r) (def_Payload r) w"

type_synonym PutDistributionsOK = "(m_distribution option list option) ok_response"

definition NewPutDistributionsOK :: "PutDistributionsOK" where
  "NewPutDistributionsOK = \<lparr>ok_Payload = None\<rparr>"

definition PutDistributionsOK_WithPayload :: "m_distribution option list option \<Rightarrow> PutDistributionsOK \<Rightarrow> PutDistributionsOK" where
  "PutDistributionsOK_WithPayload payload r = r\<lparr>ok_Payload := payload\<rparr>"

definition PutDistributionsOK_SetPayload :: "m_distribution option list option \<Rightarrow> PutDistributionsOK \<Rightarrow> PutDistributionsOK" where
  "PutDistributionsOK_SetPayload payload r = r\<lparr>ok_Payload := payload\<rparr>"

definition PutDistributionsOK_WriteResponse ::
  "'e producer \<Rightarrow> PutDistributionsOK \<Rightarrow> http_writer \<Rightarrow> http_writer go" where
  "PutDistributionsOK_WriteResponse produce r w = write_slice produce P_Distributions 200 (ok_Payload r) w"

type_synonym PutDistributionsDefault = default_response

definition NewPutDistributionsDefault :: "int \<Rightarrow> PutDistributionsDefault" where
  "NewPutDistributionsDefault code = \<lparr>def_statusCode = (if code \<le> 0 then 500 else code), def_Payload = None\<rparr>"

definition PutDistributionsDefault_WithStatusCode :: "int \<Rightarrow> PutDistributionsDefault \<Rightarrow> PutDistributionsDefault" where
  "PutDistributionsDefault_WithStatusCode code r = r\<lparr>def_statusCode := code\<rparr>"

definition PutDistributionsDefault_SetStatusCode :: "int \<Rightarrow> PutDistributionsDefault \<Rightarrow> PutDistributionsDefault" where
  "PutDistributionsDefault_SetStatusCode code r = r\<lparr>def_statusCode := code\<rparr>"

definition PutDistributionsDefault_WithPayload :: "m_error option \<Rightarrow> PutDistributionsDefault \<Rightarrow> PutDistributionsDefault" where
  "PutDistributionsDefault_WithPayload payload r = r\<lparr>def_Payload := payload\<rparr>"

definition PutDistributionsDefault_SetPayload :: "m_error option \<Rightarrow> PutDistributionsDefault \<Rightarrow> PutDistributionsDefault" where
  "PutDistributionsDefault_SetPayload payload r = r\<lparr>def_Payload := payload\<rparr>"

definition PutDistributionsDefault_WriteResponse ::
  "'e producer \<Rightarrow> PutDistributionsDefault \<Rightarrow> http_writer \<Rightarrow> http_writer go" where
  "PutDistributionsDefault_WriteResponse produce r w = write_pointer produce P_Error (def_statusCode r) (def_Payload r) w"

section \<open>Variants\<close>

type_synonym CreateVariantOK = "(m_variant option) ok_response"

definition NewCreateVariantOK :: "CreateVariantOK" where
  "NewCreateVariantOK = \<lparr>ok_Payload = None\<rparr>"

definition CreateVariantOK_WithPayload :: "m_variant option \<Rightarrow> CreateVariantOK \<Rightarrow> CreateVariantOK" where
  "CreateVariantOK_WithPayload payload r = r\<lparr>ok_Payload := payload\<rparr>"

definition CreateVariantOK_SetPayload :: "m_variant option \<Rightarrow> CreateVariantOK \<Rightarrow> CreateVariantOK" where
  "CreateVariantOK_SetPayload payload r = r\<lparr>ok_Payload := payload\<rparr>"

definition CreateVariantOK_WriteResponse ::
  "'e producer \<Rightarrow> CreateVariantOK \<Rightarrow> http_writer \<Rightarrow> http_writer go" where
  "CreateVariantOK_WriteResponse produce r w = write_pointer produce P_Variant 200 (ok_Payload r) w"

type_synonym CreateVariantDefault = default_response

definition NewCreateVariantDefault :: "int \<Rightarrow> CreateVariantDefault" where
  "NewCreateVariantDefault code = \<lparr>def_statusCode = (if code \<le> 0 then 500 else code), def_Payload = None\<rparr>"

definition CreateVariantDefault_WithStatusCode :: "int \<Rightarrow> CreateVariantDefault \<Rightarrow> CreateVariantDefault" where
  "CreateVariantDefault_WithStatusCode code r = r\<lparr>def_statusCode := code\<rparr>"

definition CreateVariantDefault_SetStatusCode :: "int \<Rightarrow> CreateVariantDefault \<Rightarrow> CreateVariantDefault" where
  "CreateVariantDefault_SetStatusCode code r = r\<lparr>def_statusCode := code\<rparr>"

definition CreateVariantDefault_WithPayload :: "m_error option \<Rightarrow> CreateVariantDefault \<Rightarrow> CreateVariantDefault" where
  "CreateVariantDefault_WithPayload payload r = r\<lparr>def_Payload := payload\<rparr>"

definition CreateVariantDefault_SetPayload :: "m_error option \<Rightarrow> CreateVariantDefault \<Rightarrow> CreateVariantDefault" where
  "CreateVariantDefault_SetPayload payload r = r\<lparr>def_Payload := payload\<rparr>"

definition CreateVariantDefault_WriteResponse ::
  "'e producer \<Rightarrow> CreateVariantDefault \<Rightarrow> http_writer \<Rightarrow> http_writer go" where
  "CreateVariantDefault_WriteResponse produce r w = write_pointer produce P_Error (def_statusCode r) (def_Payload r) w"

type_synonym DeleteVariantOK = "(unit) ok_response"

definition NewDeleteVariantOK :: "DeleteVariantOK" where
  "NewDeleteVariantOK = \<lparr>ok_Payload = ()\<rparr>"

definition DeleteVariantOK_WriteResponse ::
  "'e producer \<Rightarrow> DeleteVariantOK \<Rightarrow> http_writer \<Rightarrow> http_writer go" where
  "DeleteVariantOK_WriteResponse produce r w = write_empty 200 w"

type_synonym DeleteVariantDefault = default_response

definition NewDeleteVariantDefault :: "int \<Rightarrow> DeleteVariantDefault" where
  "NewDeleteVariantDefault code = \<lparr>def_statusCode = (if code \<le> 0 then 500 else code), def_Payload = None\<rparr>"

definition DeleteVariantDefault_WithStatusCode :: "int \<Rightarrow> DeleteVariantDefault \<Rightarrow> DeleteVariantDefault" where
  "DeleteVariantDefault_WithStatusCode code r = r\<lparr>def_statusCode := code\<rparr>"

definition DeleteVariantDefault_SetStatusCode :: "int \<Rightarrow> DeleteVariantDefault \<Rightarrow> DeleteVariantDefault" where
  "DeleteVariantDefault_SetStatusCode code r = r\<lparr>def_statusCode := code\<rparr>"

definition DeleteVariantDefault_WithPayload :: "m_error option \<Rightarrow> DeleteVariantDefault \<Rightarrow> DeleteVariantDefault" where
  "DeleteVariantDefault_WithPayload payload r = r\<lparr>def_Payload := payload\<rparr>"

definition DeleteVariantDefault_SetPayload :: "m_error option \<Rightarrow> DeleteVariantDefault \<Rightarrow> DeleteVariantDefault" where
  "DeleteVariantDefault_SetPayload payload r = r\<lparr>def_Payload := payload\<rparr>"

definition DeleteVariantDefault_WriteResponse ::
  "'e producer \<Rightarrow> DeleteVariantDefault \<Rightarrow> http_writer \<Rightarrow> http_writer go" where
  "DeleteVariantDefault_WriteResponse produce r w = write_pointer produce P_Error (def_statusCode r) (def_Payload r) w"

type_synonym FindVariantsOK = "(m_variant option list option) ok_response"

definition NewFindVariantsOK :: "FindVariantsOK" where
  "NewFindVariantsOK = \<lparr>ok_Payload = None\<rparr>"

definition FindVariantsOK_WithPayload :: "m_variant option list option \<Rightarrow> FindVariantsOK \<Rightarrow> FindVariantsOK" where
  "FindVariantsOK_WithPayload payload r = r\<lparr>ok_Payload := payload\<rparr>"

definition FindVariantsOK_SetPayload :: "m_variant option list option \<Rightarrow> FindVariantsOK \<Rightarrow> FindVariantsOK" where
  "FindVariantsOK_SetPayload payload r = r\<lparr>ok_Payload := payload\<rparr>"

definition FindVariantsOK_WriteResponse ::
  "'e producer \<Rightarrow> FindVariantsOK \<Rightarrow> http_writer \<Rightarrow> http_writer go" where
  "FindVariantsOK_WriteResponse produce r w = write_slice produce P_Variants 200 (ok_Payload r) w"

type_synonym FindVariantsDefault = default_response

definition NewFindVariantsDefault :: "int \<Rightarrow> FindVariantsDefault" where
  "NewFindVariantsDefault code = \<lparr>def_statusCode = (if code \<le> 0 then 500 else code), def_Payload = None\<rparr>"

definition FindVariantsDefault_WithStatusCode :: "int \<Rightarrow> FindVariantsDefault \<Rightarrow> FindVariantsDefault" where
  "FindVariantsDefault_WithStatusCode code r = r\<lparr>def_statusCode := code\<rparr>"

definition FindVariantsDefault_SetStatusCode :: "int \<Rightarrow> FindVariantsDefault \<Rightarrow> FindVariantsDefault" where
  "FindVariantsDefault_SetStatusCode code r = r\<lparr>def_statusCode := code\<rparr>"

definition FindVariantsDefault_WithPayload :: "m_error option \<Rightarrow> FindVariantsDefault \<Rightarrow> FindVariantsDefault" where
  "FindVariantsDefault_WithPayload payload r = r\<lparr>def_Payload := payload\<rparr>"

definition FindVariantsDefault_SetPayload :: "m_error option \<Rightarrow> FindVariantsDefault \<Rightarrow> FindVariantsDefault" where
  "FindVariantsDefault_SetPayload payload r = r\<lparr>def_Payload := payload\<rparr>"

definition FindVariantsDefault_WriteResponse ::
  "'e producer \<Rightarrow> FindVariantsDefault \<Rightarrow> http_writer \<Rightarrow> http_writer go" where
  "FindVariantsDefault_WriteResponse produce r w = write_pointer produce P_Error (def_statusCode r) (def_Payload r) w"

type_synonym PutVariantOK = "(m_variant option) ok_response"

definition NewPutVariantOK :: "PutVariantOK" where
  "NewPutVariantOK = \<lparr>ok_Payload = None\<rparr>"

definition PutVariantOK_WithPayload :: "m_variant option \<Rightarrow> PutVariantOK \<Rightarrow> PutVariantOK" where
  "PutVariantOK_WithPayload payload r = r\<lparr>ok_Payload := payload\<rparr>"

definition PutVariantOK_SetPayload :: "m_variant option \<Rightarrow> PutVariantOK \<Rightarrow> PutVariantOK" where
  "PutVariantOK_SetPayload payload r = r\<lparr>ok_Payload := payload\<rparr>"

definition PutVariantOK_WriteResponse ::
  "'e producer \<Rightarrow> PutVariantOK \<Rightarrow> http_writer \<Rightarrow> http_writer go" where
  "PutVariantOK_WriteResponse produce r w = write_pointer produce P_Variant 200 (ok_Payload r) w"

type_synonym PutVariantDefault = default_response

definition NewPutVariantDefault :: "int \<Rightarrow> PutVariantDefault" where
  "NewPutVariantDefault code = \<lparr>def_statusCode = (if code \<le> 0 then 500 else code), def_Payload = None\<rparr>"

definition PutVariantDefault_WithStatusCode :: "int \<Rightarrow> PutVariantDefault \<Rightarrow> PutVariantDefault" where
  "PutVariantDefault_WithStatusCode code r = r\<lparr>def_statusCode := code\<rparr>"

definition PutVariantDefault_SetStatusCode :: "int \<Rightarrow> PutVariantDefault \<Rightarrow> PutVariantDefault" where
  "PutVariantDefault_SetStatusCode code r = r\<lparr>def_statusCode := code\<rparr>"

definition PutVariantDefault_WithPayload :: "m_error option \<Rightarrow> PutVariantDefault \<Rightarrow> PutVariantDefault" where
  "PutVariantDefault_WithPayload payload r = r\<lparr>def_Payload := payload\<rparr>"

definition PutVariantDefault_SetPayload :: "m_error option \<Rightarrow> PutVariantDefault \<Rightarrow> PutVariantDefault" where
  "PutVariantDefault_SetPayload payload r = r\<lparr>def_Payload := payload\<rparr>"

definition PutVariantDefault_WriteResponse ::
  "'e producer \<Rightarrow> PutVariantDefault \<Rightarrow> http_writer \<Rightarrow> http_writer go" where
  "PutVariantDefault_WriteResponse produce r w = write_pointer produce P_Error (def_statusCode r) (def_Payload r) w"

section \<open>Evaluation\<close>

type_synonym PostEvaluationOK = "(eval_result option) ok_response"

definition NewPostEvaluationOK :: "PostEvaluationOK" where
  "NewPostEvaluationOK = \<lparr>ok_Payload = None\<rparr>"

definition PostEvaluationOK_WithPayload :: "eval_result option \<Rightarrow> PostEvaluationOK \<Rightarrow> PostEvaluationOK" where
  "PostEvaluationOK_WithPayload payload r = r\<lparr>ok_Payload := payload\<rparr>"

definition PostEvaluationOK_SetPayload :: "eval_result option \<Rightarrow> PostEvaluationOK \<Rightarrow> PostEvaluationOK" where
  "PostEvaluationOK_SetPayload payload r = r\<lparr>ok_Payload := payload\<rparr>"

definition PostEvaluationOK_WriteResponse ::
  "'e producer \<Rightarrow> PostEvaluationOK \<Rightarrow> http_writer \<Rightarrow> http_writer go" where
  "PostEvaluationOK_WriteResponse produce r w = write_pointer produce P_EvalResult 200 (ok_Payload r) w"

type_synonym PostEvaluationDefault = default_response

definition NewPostEvaluationDefault :: "int \<Rightarrow> PostEvaluationDefault" where
  "NewPostEvaluationDefault code = \<lparr>def_statusCode = (if code \<le> 0 then 500 else code), def_Payload = None\<rparr>"

definition PostEvaluationDefault_WithStatusCode :: "int \<Rightarrow> PostEvaluationDefault \<Rightarrow> PostEvaluationDefault" where
  "PostEvaluationDefault_WithStatusCode code r = r\<lparr>def_statusCode := code\<rparr>"

definition PostEvaluationDefault_SetStatusCode :: "int \<Rightarrow> PostEvaluationDefault \<Rightarrow> PostEvaluationDefault" where
  "PostEvaluationDefault_SetStatusCode code r = r\<lparr>def_statusCode := code\<rparr>"

definition PostEvaluationDefault_WithPayload :: "m_error option \<Rightarrow> PostEvaluationDefault \<Rightarrow> PostEvaluationDefault" where
  "PostEvaluationDefault_WithPayload payload r = r\<lparr>def_Payload := payload\<rparr>"

definition PostEvaluationDefault_SetPayload :: "m_error option \<Rightarrow> PostEvaluationDefault \<Rightarrow> PostEvaluationDefault" where
  "PostEvaluationDefault_SetPayload payload r = r\<lparr>def_Payload := payload\<rparr>"

definition PostEvaluationDefault_WriteResponse ::
  "'e producer \<Rightarrow> PostEvaluationDefault \<Rightarrow> http_writer \<Rightarrow> http_writer go" where
  "PostEvaluationDefault_WriteResponse produce r w = write_pointer produce P_Error (def_statusCode r) (def_Payload r) w"

type_synonym PostEvaluationBatchOK = "(m_evaluation_batch_response option) ok_response"

definition NewPostEvaluationBatchOK :: "PostEvaluationBatchOK" where
  "NewPostEvaluationBatchOK = \<lparr>ok_Payload = None\<rparr>"

definition PostEvaluationBatchOK_WithPayload :: "m_evaluation_batch_response option \<Rightarrow> PostEvaluationBatchOK \<Rightarrow> PostEvaluationBatchOK" where
  "PostEvaluationBatchOK_WithPayload payload r = r\<lparr>ok_Payload := payload\<rparr>"

definition PostEvaluationBatchOK_SetPayload :: "m_evaluation_batch_response option \<Rightarrow> PostEvaluationBatchOK \<Rightarrow> PostEvaluationBatchOK" where
  "PostEvaluationBatchOK_SetPayload payload r = r\<lparr>ok_Payload := payload\<rparr>"

definition PostEvaluationBatchOK_WriteResponse ::
  "'e producer \<Rightarrow> PostEvaluationBatchOK \<Rightarrow> http_writer \<Rightarrow> http_writer go" where
  "PostEvaluationBatchOK_WriteResponse produce r w = write_pointer produce P_EvaluationBatchResponse 200 (ok_Payload r) w"

type_synonym PostEvaluationBatchDefault = default_response

definition NewPostEvaluationBatchDefault :: "int \<Rightarrow> PostEvaluationBatchDefault" where
  "NewPostEvaluationBatchDefault code = \<lparr>def_statusCode = (if code \<le> 0 then 500 else code), def_Payload = None\<rparr>"

definition PostEvaluationBatchDefault_WithStatusCode :: "int \<Rightarrow> PostEvaluationBatchDefault \<Rightarrow> PostEvaluationBatchDefault" where
  "PostEvaluationBatchDefault_WithStatusCode code r = r\<lparr>def_statusCode := code\<rparr>"

definition PostEvaluationBatchDefault_SetStatusCode :: "int \<Rightarrow> PostEvaluationBatchDefault \<Rightarrow> PostEvaluationBatchDefault" where
  "PostEvaluationBatchDefault_SetStatusCode code r = r\<lparr>def_statusCode := code\<rparr>"

definition PostEvaluationBatchDefault_WithPayload :: "m_error option \<Rightarrow> PostEvaluationBatchDefault \<Rightarrow> PostEvaluationBatchDefault" where
  "PostEvaluationBatchDefault_WithPayload payload r = r\<lparr>def_Payload := payload\<rparr>"

definition PostEvaluationBatchDefault_SetPayload :: "m_error option \<Rightarrow> PostEvaluationBatchDefault \<Rightarrow> PostEvaluationBatchDefault" where
  "PostEvaluationBatchDefault_SetPayload payload r = r\<lparr>def_Payload := payload\<rparr>"

definition PostEvaluationBatchDefault_WriteResponse ::
  "'e producer \<Rightarrow> PostEvaluationBatchDefault \<Rightarrow> http_writer \<Rightarrow> http_writer go" where
  "PostEvaluationBatchDefault_WriteResponse produce r w = write_pointer produce P_Error (def_statusCode r) (def_Payload r) w"

section \<open>Export\<close>

type_synonym 'e GetExportEvalCacheJSONOK = "('e payload) ok_response"

definition NewGetExportEvalCacheJSONOK :: "'e GetExportEvalCacheJSONOK" where
  "NewGetExportEvalCacheJSONOK = \<lparr>ok_Payload = P_Nil\<rparr>"

definition GetExportEvalCacheJSONOK_WithPayload :: "'e payload \<Rightarrow> 'e GetExportEvalCacheJSONOK \<Rightarrow> 'e GetExportEvalCacheJSONOK" where
  "GetExportEvalCacheJSONOK_WithPayload payload r = r\<lparr>ok_Payload := payload\<rparr>"

definition GetExportEvalCacheJSONOK_SetPayload :: "'e payload \<Rightarrow> 'e GetExportEvalCacheJSONOK \<Rightarrow> 'e GetExportEvalCacheJSONOK" where
  "GetExportEvalCacheJSONOK_SetPayload payload r = r\<lparr>ok_Payload := payload\<rparr>"

definition GetExportEvalCacheJSONOK_WriteResponse ::
  "'e producer \<Rightarrow> 'e GetExportEvalCacheJSONOK \<Rightarrow> http_writer \<Rightarrow> http_writer go" where
  "GetExportEvalCacheJSONOK_WriteResponse produce r w = write_value produce 200 (ok_Payload r) w"

type_synonym GetExportEvalCacheJSONDefault = default_response

definition NewGetExportEvalCacheJSONDefault :: "int \<Rightarrow> GetExportEvalCacheJSONDefault" where
  "NewGetExportEvalCacheJSONDefault code = \<lparr>def_statusCode = (if code \<le> 0 then 500 else code), def_Payload = None\<rparr>"

definition GetExportEvalCacheJSONDefault_WithStatusCode :: "int \<Rightarrow> GetExportEvalCacheJSONDefault \<Rightarrow> GetExportEvalCacheJSONDefault" where
  "GetExportEvalCacheJSONDefault_WithStatusCode code r = r\<lparr>def_statusCode := code\<rparr>"

definition GetExportEvalCacheJSONDefault_SetStatusCode :: "int \<Rightarrow> GetExportEvalCacheJSONDefault \<Rightarrow> GetExportEvalCacheJSONDefault" where
  "GetExportEvalCacheJSONDefault_SetStatusCode code r = r\<lparr>def_statusCode := code\<rparr>"

definition GetExportEvalCacheJSONDefault_WithPayload :: "m_error option \<Rightarrow> GetExportEvalCacheJSONDefault \<Rightarrow> GetExportEvalCacheJSONDefault" where
  "GetExportEvalCacheJSONDefault_WithPayload payload r = r\<lparr>def_Payload := payload\<rparr>"

definition GetExportEvalCacheJSONDefault_SetPayload :: "m_error option \<Rightarrow> GetExportEvalCacheJSONDefault \<Rightarrow> GetExportEvalCacheJSONDefault" where
  "GetExportEvalCacheJSONDefault_SetPayload payload r = r\<lparr>def_Payload := payload\<rparr>"

definition GetExportEvalCacheJSONDefault_WriteResponse ::
  "'e producer \<Rightarrow> GetExportEvalCacheJSONDefault \<Rightarrow> http_writer \<Rightarrow> http_writer go" where
  "GetExportEvalCacheJSONDefault_WriteResponse produce r w = write_pointer produce P_Error (def_statusCode r) (def_Payload r) w"

type_synonym 'e GetExportSqliteOK = "('e payload) ok_response"

definition NewGetExportSqliteOK :: "'e GetExportSqliteOK" where
  "NewGetExportSqliteOK = \<lparr>ok_Payload = P_Nil\<rparr>"

definition GetExportSqliteOK_WithPayload :: "'e payload \<Rightarrow> 'e GetExportSqliteOK \<Rightarrow> 'e GetExportSqliteOK" where
  "GetExportSqliteOK_WithPayload payload r = r\<lparr>ok_Payload := payload\<rparr>"

definition GetExportSqliteOK_SetPayload :: "'e payload \<Rightarrow> 'e GetExportSqliteOK \<Rightarrow> 'e GetExportSqliteOK" where
  "GetExportSqliteOK_SetPayload payload r = r\<lparr>ok_Payload := payload\<rparr>"

definition GetExportSqliteOK_WriteResponse ::
  "'e producer \<Rightarrow> 'e GetExportSqliteOK \<Rightarrow> http_writer \<Rightarrow> http_writer go" where
  "GetExportSqliteOK_WriteResponse produce r w = write_value produce 200 (ok_Payload r) w"

type_synonym GetExportSqliteDefault = default_response

definition NewGetExportSqliteDefault :: "int \<Rightarrow> GetExportSqliteDefault" where
  "NewGetExportSqliteDefault code = \<lparr>def_statusCode = (if code \<le> 0 then 500 else code), def_Payload = None\<rparr>"

definition GetExportSqliteDefault_WithStatusCode :: "int \<Rightarrow> GetExportSqliteDefault \<Rightarrow> GetExportSqliteDefault" where
  "GetExportSqliteDefault_WithStatusCode code r = r\<lparr>def_statusCode := code\<rparr>"

definition GetExportSqliteDefault_SetStatusCode :: "int \<Rightarrow> GetExportSqliteDefault \<Rightarrow> GetExportSqliteDefault" where
  "GetExportSqliteDefault_SetStatusCode code r = r\<lparr>def_statusCode := code\<rparr>"

definition GetExportSqliteDefault_WithPayload :: "m_error option \<Rightarrow> GetExportSqliteDefault \<Rightarrow> GetExportSqliteDefault" where
  "GetExportSqliteDefault_WithPayload payload r = r\<lparr>def_Payload := payload\<rparr>"

definition GetExportSqliteDefault_SetPayload :: "m_error option \<Rightarrow> GetExportSqliteDefault \<Rightarrow> GetExportSqliteDefault" where
  "GetExportSqliteDefault_SetPayload payload r = r\<lparr>def_Payload := payload\<rparr>"

definition GetExportSqliteDefault_WriteResponse ::
  "'e producer \<Rightarrow> GetExportSqliteDefault \<Rightarrow> http_writer \<Rightarrow> http_writer go" where
  "GetExportSqliteDefault_WriteResponse produce r w = write_pointer produce P_Error (def_statusCode r) (def_Payload r) w"

section \<open>Health\<close>

type_synonym GetHealthOK = "(m_health option) ok_response"

definition NewGetHealthOK :: "GetHealthOK" where
  "NewGetHealthOK = \<lparr>ok_Payload = None\<rparr>"

definition GetHealthOK_WithPayload :: "m_health option \<Rightarrow> GetHealthOK \<Rightarrow> GetHealthOK" where
  "GetHealthOK_WithPayload payload r = r\<lparr>ok_Payload := payload\<rparr>"

definition GetHealthOK_SetPayload :: "m_health option \<Rightarrow> GetHealthOK \<Rightarrow> GetHealthOK" where
  "GetHealthOK_SetPayload payload r = r\<lparr>ok_Payload := payload\<rparr>"

definition GetHealthOK_WriteResponse ::
  "'e producer \<Rightarrow> GetHealthOK \<Rightarrow> http_writer \<Rightarrow> http_writer go" where
  "GetHealthOK_WriteResponse produce r w = write_pointer produce P_Health 200 (ok_Payload r) w"

type_synonym GetHealthDefault = default_response

definition NewGetHealthDefault :: "int \<Rightarrow> GetHealthDefault" where
  "NewGetHealthDefault code = \<lparr>def_statusCode = (if code \<le> 0 then 500 else code), def_Payload = None\<rparr>"

definition GetHealthDefault_WithStatusCode :: "int \<Rightarrow> GetHealthDefault \<Rightarrow> GetHealthDefault" where
  "GetHealthDefault_WithStatusCode code r = r\<lparr>def_statusCode := code\<rparr>"

definition GetHealthDefault_SetStatusCode :: "int \<Rightarrow> GetHealthDefault \<Rightarrow> GetHealthDefault" where
  "GetHealthDefault_SetStatusCode code r = r\<lparr>def_statusCode := code\<rparr>"

definition GetHealthDefault_WithPayload :: "m_error option \<Rightarrow> GetHealthDefault \<Rightarrow> GetHealthDefault" where
  "GetHealthDefault_WithPayload payload r = r\<lparr>def_Payload := payload\<rparr>"

definition GetHealthDefault_SetPayload :: "m_error option \<Rightarrow> GetHealthDefault \<Rightarrow> GetHealthDefault" where
  "GetHealthDefault_SetPayload payload r = r\<lparr>def_Payload := payload\<rparr>"

definition GetHealthDefault_WriteResponse ::
  "'e producer \<Rightarrow> GetHealthDefault \<Rightarrow> http_writer \<Rightarrow> http_writer go" where
  "GetHealthDefault_WriteResponse produce r w = write_pointer produce P_Error (def_statusCode r) (def_Payload r) w"

end
