(* ===== verification/Flagr_Operations.thy ===== *)
theory Flagr_Operations
  imports Flagr_Responses
begin

text \<open>
  The generated HTTP handlers of the operations, \<^verbatim>\<open>swagger_gen/restapi/operations/*/<operation>.go\<close>:
  each binds the parameters of its operation, and either answers the error of the binding or calls the
  handler and answers what it returns. The context that finds the route and answers is the one of the
  runtime library, a parameter; its \<^verbatim>\<open>BindValidRequest\<close> first checks the media types of the
  request and calls the generated binding only when they are acceptable.
\<close>

section \<open>The shape of a handler\<close>

type_synonym 'e responder = "'e producer \<Rightarrow> http_writer \<Rightarrow> http_writer go"

record 'e web_context =
  ctx_MediaErrors :: "bind_error list"
  ctx_RespondError :: "bind_error list \<Rightarrow> http_writer \<Rightarrow> http_writer go"
  ctx_Respond :: "'e responder \<Rightarrow> http_writer \<Rightarrow> http_writer go"

definition serve_http ::
  "'e web_context \<Rightarrow> ('p \<Rightarrow> 'db \<Rightarrow> 'e responder go \<times> 'db) \<Rightarrow> bind_error list + 'p \<Rightarrow> 'db \<Rightarrow> http_writer \<Rightarrow>
    http_writer go \<times> 'db" where
  "serve_http ctx handle params db w =
     (case (if ctx_MediaErrors ctx = [] then params else Inl (ctx_MediaErrors ctx)) of
        Inl err \<Rightarrow> (ctx_RespondError ctx err w, db)
      | Inr p \<Rightarrow>
          (case handle p db of (res, db') \<Rightarrow> (sum_bind res (\<lambda>responder. ctx_Respond ctx responder w), db')))"

section \<open>Flags\<close>

definition CreateFlag_ServeHTTP ::
  "'e web_context \<Rightarrow> (CreateFlagParams \<Rightarrow> 'db \<Rightarrow> 'e responder go \<times> 'db) \<Rightarrow> create_flag_request body_source \<Rightarrow> 
    'db \<Rightarrow> http_writer \<Rightarrow> http_writer go \<times> 'db" where
  "CreateFlag_ServeHTTP ctx handle src db w = serve_http ctx handle (CreateFlagParams_BindRequest src) db w"

definition DeleteFlag_ServeHTTP ::
  "'e web_context \<Rightarrow> (DeleteFlagParams \<Rightarrow> 'db \<Rightarrow> 'e responder go \<times> 'db) \<Rightarrow> swag_lib \<Rightarrow> http_request \<Rightarrow> 
    'db \<Rightarrow> http_writer \<Rightarrow> http_writer go \<times> 'db" where
  "DeleteFlag_ServeHTTP ctx handle S r db w = serve_http ctx handle (DeleteFlagParams_BindRequest S r) db w"

definition FindFlags_ServeHTTP ::
  "'e web_context \<Rightarrow> (FindFlagsParams \<Rightarrow> 'db \<Rightarrow> 'e responder go \<times> 'db) \<Rightarrow> swag_lib \<Rightarrow> http_request \<Rightarrow> 
    'db \<Rightarrow> http_writer \<Rightarrow> http_writer go \<times> 'db" where
  "FindFlags_ServeHTTP ctx handle S r db w = serve_http ctx handle (FindFlagsParams_BindRequest S r) db w"

definition GetFlag_ServeHTTP ::
  "'e web_context \<Rightarrow> (GetFlagParams \<Rightarrow> 'db \<Rightarrow> 'e responder go \<times> 'db) \<Rightarrow> swag_lib \<Rightarrow> http_request \<Rightarrow> 
    'db \<Rightarrow> http_writer \<Rightarrow> http_writer go \<times> 'db" where
  "GetFlag_ServeHTTP ctx handle S r db w = serve_http ctx handle (GetFlagParams_BindRequest S r) db w"

definition GetFlagEntityTypes_ServeHTTP ::
  "'e web_context \<Rightarrow> (unit \<Rightarrow> 'db \<Rightarrow> 'e responder go \<times> 'db) \<Rightarrow> 
    'db \<Rightarrow> http_writer \<Rightarrow> http_writer go \<times> 'db" where
  "GetFlagEntityTypes_ServeHTTP ctx handle db w = serve_http ctx handle (Inr ()) db w"

definition GetFlagSnapshots_ServeHTTP ::
  "'e web_context \<Rightarrow> (GetFlagSnapshotsParams \<Rightarrow> 'db \<Rightarrow> 'e responder go \<times> 'db) \<Rightarrow> swag_lib \<Rightarrow> http_request \<Rightarrow> 
    'db \<Rightarrow> http_writer \<Rightarrow> http_writer go \<times> 'db" where
  "GetFlagSnapshots_ServeHTTP ctx handle S r db w = serve_http ctx handle (GetFlagSnapshotsParams_BindRequest S r) db w"

definition PutFlag_ServeHTTP ::
  "'e web_context \<Rightarrow> (PutFlagParams \<Rightarrow> 'db \<Rightarrow> 'e responder go \<times> 'db) \<Rightarrow> swag_lib \<Rightarrow> http_request \<Rightarrow> put_flag_request body_source \<Rightarrow> 
    'db \<Rightarrow> http_writer \<Rightarrow> http_writer go \<times> 'db" where
  "PutFlag_ServeHTTP ctx handle S r src db w = serve_http ctx handle (PutFlagParams_BindRequest S r src) db w"

definition RestoreFlag_ServeHTTP ::
  "'e web_context \<Rightarrow> (RestoreFlagParams \<Rightarrow> 'db \<Rightarrow> 'e responder go \<times> 'db) \<Rightarrow> swag_lib \<Rightarrow> http_request \<Rightarrow> 
    'db \<Rightarrow> http_writer \<Rightarrow> http_writer go \<times> 'db" where
  "RestoreFlag_ServeHTTP ctx handle S r db w = serve_http ctx handle (RestoreFlagParams_BindRequest S r) db w"

definition SetFlagEnabled_ServeHTTP ::
  "'e web_context \<Rightarrow> (SetFlagEnabledParams \<Rightarrow> 'db \<Rightarrow> 'e responder go \<times> 'db) \<Rightarrow> swag_lib \<Rightarrow> http_request \<Rightarrow> set_flag_enabled_request body_source \<Rightarrow> 
    'db \<Rightarrow> http_writer \<Rightarrow> http_writer go \<times> 'db" where
  "SetFlagEnabled_ServeHTTP ctx handle S r src db w = serve_http ctx handle (SetFlagEnabledParams_BindRequest S r src) db w"

section \<open>Tags\<close>

definition CreateTag_ServeHTTP ::
  "'e web_context \<Rightarrow> (CreateTagParams \<Rightarrow> 'db \<Rightarrow> 'e responder go \<times> 'db) \<Rightarrow> swag_lib \<Rightarrow> http_request \<Rightarrow> create_tag_request body_source \<Rightarrow> 
    'db \<Rightarrow> http_writer \<Rightarrow> http_writer go \<times> 'db" where
  "CreateTag_ServeHTTP ctx handle S r src db w = serve_http ctx handle (CreateTagParams_BindRequest S r src) db w"

definition DeleteTag_ServeHTTP ::
  "'e web_context \<Rightarrow> (DeleteTagParams \<Rightarrow> 'db \<Rightarrow> 'e responder go \<times> 'db) \<Rightarrow> swag_lib \<Rightarrow> http_request \<Rightarrow> 
    'db \<Rightarrow> http_writer \<Rightarrow> http_writer go \<times> 'db" where
  "DeleteTag_ServeHTTP ctx handle S r db w = serve_http ctx handle (DeleteTagParams_BindRequest S r) db w"

definition FindAllTags_ServeHTTP ::
  "'e web_context \<Rightarrow> (FindAllTagsParams \<Rightarrow> 'db \<Rightarrow> 'e responder go \<times> 'db) \<Rightarrow> swag_lib \<Rightarrow> http_request \<Rightarrow> 
    'db \<Rightarrow> http_writer \<Rightarrow> http_writer go \<times> 'db" where
  "FindAllTags_ServeHTTP ctx handle S r db w = serve_http ctx handle (FindAllTagsParams_BindRequest S r) db w"

definition FindTags_ServeHTTP ::
  "'e web_context \<Rightarrow> (FindTagsParams \<Rightarrow> 'db \<Rightarrow> 'e responder go \<times> 'db) \<Rightarrow> swag_lib \<Rightarrow> http_request \<Rightarrow> 
    'db \<Rightarrow> http_writer \<Rightarrow> http_writer go \<times> 'db" where
  "FindTags_ServeHTTP ctx handle S r db w = serve_http ctx handle (FindTagsParams_BindRequest S r) db w"

section \<open>Segments\<close>

definition CreateSegment_ServeHTTP ::
  "'e web_context \<Rightarrow> (CreateSegmentParams \<Rightarrow> 'db \<Rightarrow> 'e responder go \<times> 'db) \<Rightarrow> swag_lib \<Rightarrow> http_request \<Rightarrow> create_segment_request body_source \<Rightarrow> 
    'db \<Rightarrow> http_writer \<Rightarrow> http_writer go \<times> 'db" where
  "CreateSegment_ServeHTTP ctx handle S r src db w = serve_http ctx handle (CreateSegmentParams_BindRequest S r src) db w"

definition DeleteSegment_ServeHTTP ::
  "'e web_context \<Rightarrow> (DeleteSegmentParams \<Rightarrow> 'db \<Rightarrow> 'e responder go \<times> 'db) \<Rightarrow> swag_lib \<Rightarrow> http_request \<Rightarrow> 
    'db \<Rightarrow> http_writer \<Rightarrow> http_writer go \<times> 'db" where
  "DeleteSegment_ServeHTTP ctx handle S r db w = serve_http ctx handle (DeleteSegmentParams_BindRequest S r) db w"

definition FindSegments_ServeHTTP ::
  "'e web_context \<Rightarrow> (FindSegmentsParams \<Rightarrow> 'db \<Rightarrow> 'e responder go \<times> 'db) \<Rightarrow> swag_lib \<Rightarrow> http_request \<Rightarrow> 
    'db \<Rightarrow> http_writer \<Rightarrow> http_writer go \<times> 'db" where
  "FindSegments_ServeHTTP ctx handle S r db w = serve_http ctx handle (FindSegmentsParams_BindRequest S r) db w"

definition PutSegment_ServeHTTP ::
  "'e web_context \<Rightarrow> (PutSegmentParams \<Rightarrow> 'db \<Rightarrow> 'e responder go \<times> 'db) \<Rightarrow> swag_lib \<Rightarrow> http_request \<Rightarrow> put_segment_request body_source \<Rightarrow> 
    'db \<Rightarrow> http_writer \<Rightarrow> http_writer go \<times> 'db" where
  "PutSegment_ServeHTTP ctx handle S r src db w = serve_http ctx handle (PutSegmentParams_BindRequest S r src) db w"

definition PutSegmentsReorder_ServeHTTP ::
  "'e web_context \<Rightarrow> (PutSegmentsReorderParams \<Rightarrow> 'db \<Rightarrow> 'e responder go \<times> 'db) \<Rightarrow> swag_lib \<Rightarrow> http_request \<Rightarrow> put_segment_reorder_request body_source \<Rightarrow> 
    'db \<Rightarrow> http_writer \<Rightarrow> http_writer go \<times> 'db" where
  "PutSegmentsReorder_ServeHTTP ctx handle S r src db w = serve_http ctx handle (PutSegmentsReorderParams_BindRequest S r src) db w"

section \<open>Constraints\<close>

definition CreateConstraint_ServeHTTP ::
  "'e web_context \<Rightarrow> (CreateConstraintParams \<Rightarrow> 'db \<Rightarrow> 'e responder go \<times> 'db) \<Rightarrow> swag_lib \<Rightarrow> http_request \<Rightarrow> create_constraint_request body_source \<Rightarrow> 
    'db \<Rightarrow> http_writer \<Rightarrow> http_writer go \<times> 'db" where
  "CreateConstraint_ServeHTTP ctx handle S r src db w = serve_http ctx handle (CreateConstraintParams_BindRequest S r src) db w"

definition DeleteConstraint_ServeHTTP ::
  "'e web_context \<Rightarrow> (DeleteConstraintParams \<Rightarrow> 'db \<Rightarrow> 'e responder go \<times> 'db) \<Rightarrow> swag_lib \<Rightarrow> http_request \<Rightarrow> 
    'db \<Rightarrow> http_writer \<Rightarrow> http_writer go \<times> 'db" where
  "DeleteConstraint_ServeHTTP ctx handle S r db w = serve_http ctx handle (DeleteConstraintParams_BindRequest S r) db w"

definition FindConstraints_ServeHTTP ::
  "'e web_context \<Rightarrow> (FindConstraintsParams \<Rightarrow> 'db \<Rightarrow> 'e responder go \<times> 'db) \<Rightarrow> swag_lib \<Rightarrow> http_request \<Rightarrow> 
    'db \<Rightarrow> http_writer \<Rightarrow> http_writer go \<times> 'db" where
  "FindConstraints_ServeHTTP ctx handle S r db w = serve_http ctx handle (FindConstraintsParams_BindRequest S r) db w"

definition PutConstraint_ServeHTTP ::
  "'e web_context \<Rightarrow> (PutConstraintParams \<Rightarrow> 'db \<Rightarrow> 'e responder go \<times> 'db) \<Rightarrow> swag_lib \<Rightarrow> http_request \<Rightarrow> create_constraint_request body_source \<Rightarrow> 
    'db \<Rightarrow> http_writer \<Rightarrow> http_writer go \<times> 'db" where
  "PutConstraint_ServeHTTP ctx handle S r src db w = serve_http ctx handle (PutConstraintParams_BindRequest S r src) db w"

section \<open>Distributions\<close>

definition FindDistributions_ServeHTTP ::
  "'e web_context \<Rightarrow> (FindDistributionsParams \<Rightarrow> 'db \<Rightarrow> 'e responder go \<times> 'db) \<Rightarrow> swag_lib \<Rightarrow> http_request \<Rightarrow> 
    'db \<Rightarrow> http_writer \<Rightarrow> http_writer go \<times> 'db" where
  "FindDistributions_ServeHTTP ctx handle S r db w = serve_http ctx handle (FindDistributionsParams_BindRequest S r) db w"

definition PutDistributions_ServeHTTP ::
  "'e web_context \<Rightarrow> (PutDistributionsParams \<Rightarrow> 'db \<Rightarrow> 'e responder go \<times> 'db) \<Rightarrow> swag_lib \<Rightarrow> http_request \<Rightarrow> put_distributions_request body_source \<Rightarrow> 
    'db \<Rightarrow> http_writer \<Rightarrow> http_writer go \<times> 'db" where
  "PutDistributions_ServeHTTP ctx handle S r src db w = serve_http ctx handle (PutDistributionsParams_BindRequest S r src) db w"

section \<open>Variants\<close>

definition CreateVariant_ServeHTTP ::
  "'e web_context \<Rightarrow> (CreateVariantParams \<Rightarrow> 'db \<Rightarrow> 'e responder go \<times> 'db) \<Rightarrow> swag_lib \<Rightarrow> http_request \<Rightarrow> create_variant_request body_source \<Rightarrow> 
    'db \<Rightarrow> http_writer \<Rightarrow> http_writer go \<times> 'db" where
  "CreateVariant_ServeHTTP ctx handle S r src db w = serve_http ctx handle (CreateVariantParams_BindRequest S r src) db w"

definition DeleteVariant_ServeHTTP ::
  "'e web_context \<Rightarrow> (DeleteVariantParams \<Rightarrow> 'db \<Rightarrow> 'e responder go \<times> 'db) \<Rightarrow> swag_lib \<Rightarrow> http_request \<Rightarrow> 
    'db \<Rightarrow> http_writer \<Rightarrow> http_writer go \<times> 'db" where
  "DeleteVariant_ServeHTTP ctx handle S r db w = serve_http ctx handle (DeleteVariantParams_BindRequest S r) db w"

definition FindVariants_ServeHTTP ::
  "'e web_context \<Rightarrow> (FindVariantsParams \<Rightarrow> 'db \<Rightarrow> 'e responder go \<times> 'db) \<Rightarrow> swag_lib \<Rightarrow> http_request \<Rightarrow> 
    'db \<Rightarrow> http_writer \<Rightarrow> http_writer go \<times> 'db" where
  "FindVariants_ServeHTTP ctx handle S r db w = serve_http ctx handle (FindVariantsParams_BindRequest S r) db w"

definition PutVariant_ServeHTTP ::
  "'e web_context \<Rightarrow> (PutVariantParams \<Rightarrow> 'db \<Rightarrow> 'e responder go \<times> 'db) \<Rightarrow> swag_lib \<Rightarrow> http_request \<Rightarrow> put_variant_request body_source \<Rightarrow> 
    'db \<Rightarrow> http_writer \<Rightarrow> http_writer go \<times> 'db" where
  "PutVariant_ServeHTTP ctx handle S r src db w = serve_http ctx handle (PutVariantParams_BindRequest S r src) db w"

section \<open>Evaluation\<close>

definition PostEvaluation_ServeHTTP ::
  "'e web_context \<Rightarrow> (PostEvaluationParams \<Rightarrow> 'db \<Rightarrow> 'e responder go \<times> 'db) \<Rightarrow> m_eval_context body_source \<Rightarrow> 
    'db \<Rightarrow> http_writer \<Rightarrow> http_writer go \<times> 'db" where
  "PostEvaluation_ServeHTTP ctx handle src db w = serve_http ctx handle (PostEvaluationParams_BindRequest src) db w"

definition PostEvaluationBatch_ServeHTTP ::
  "'e web_context \<Rightarrow> (PostEvaluationBatchParams \<Rightarrow> 'db \<Rightarrow> 'e responder go \<times> 'db) \<Rightarrow> m_evaluation_batch_request body_source \<Rightarrow> 
    'db \<Rightarrow> http_writer \<Rightarrow> http_writer go \<times> 'db" where
  "PostEvaluationBatch_ServeHTTP ctx handle src db w = serve_http ctx handle (PostEvaluationBatchParams_BindRequest src) db w"

section \<open>Export\<close>

definition GetExportEvalCacheJSON_ServeHTTP ::
  "'e web_context \<Rightarrow> (unit \<Rightarrow> 'db \<Rightarrow> 'e responder go \<times> 'db) \<Rightarrow> 
    'db \<Rightarrow> http_writer \<Rightarrow> http_writer go \<times> 'db" where
  "GetExportEvalCacheJSON_ServeHTTP ctx handle db w = serve_http ctx handle (Inr ()) db w"

definition GetExportSqlite_ServeHTTP ::
  "'e web_context \<Rightarrow> (GetExportSqliteParams \<Rightarrow> 'db \<Rightarrow> 'e responder go \<times> 'db) \<Rightarrow> swag_lib \<Rightarrow> http_request \<Rightarrow> 
    'db \<Rightarrow> http_writer \<Rightarrow> http_writer go \<times> 'db" where
  "GetExportSqlite_ServeHTTP ctx handle S r db w = serve_http ctx handle (GetExportSqliteParams_BindRequest S r) db w"

section \<open>Health\<close>

definition GetHealth_ServeHTTP ::
  "'e web_context \<Rightarrow> (unit \<Rightarrow> 'db \<Rightarrow> 'e responder go \<times> 'db) \<Rightarrow> 
    'db \<Rightarrow> http_writer \<Rightarrow> http_writer go \<times> 'db" where
  "GetHealth_ServeHTTP ctx handle db w = serve_http ctx handle (Inr ()) db w"

end
