(* ===== verification/Flagr_Exchange.thy ===== *)
theory Flagr_Exchange
  imports Flagr_Operations Flagr_Answers
begin

text \<open>
  A call of the management API from its arrival to the written answer: the generated
  \<^verbatim>\<open>ServeHTTP\<close> of an operation binds the parameters, calls the handler and writes what it
  returns. Which statuses the handlers answer, and that they are the ones on the wire.
\<close>

section \<open>Statuses of the handlers\<close>

definition good :: "('p, 'db) reply \<Rightarrow> bool" where
  "good r \<longleftrightarrow> (\<exists>x. outcome r = Inr x \<and> (\<forall>c m. x = RespDefault c m \<longrightarrow> c \<in> {400, 404, 500}))"

lemma good_simps [simp]: "good (reject c m db) \<longleftrightarrow> c \<in> {400, 404, 500}" "good (accept x db)" "\<not> good (panicked p db)"
  by (auto simp: good_def reject_def accept_def panicked_def)



















section \<open>The exchange\<close>

text \<open>What a handler returns: the default response of the operation with the status and the message, or its
  successful response with the payload.\<close>

definition reply_as ::
  "(int \<Rightarrow> default_response) \<Rightarrow> (m_error option \<Rightarrow> default_response \<Rightarrow> default_response) \<Rightarrow>
    ('x producer \<Rightarrow> default_response \<Rightarrow> http_writer \<Rightarrow> http_writer go) \<Rightarrow>
    ('p \<Rightarrow> 'x responder) \<Rightarrow> ('p, 'db) reply \<Rightarrow> 'x responder go \<times> 'db" where
  "reply_as new with_payload write_default write_ok r =
     (sum_bind (outcome r) (\<lambda>a. Inr (case a of
        RespDefault code msg \<Rightarrow>
          (\<lambda>produce. write_default produce (with_payload (Some (ErrorMessage msg)) (new (int code))))
      | RespOK p \<Rightarrow> write_ok p)), db_after r)"

definition deref_body :: "'b option \<Rightarrow> 'db \<Rightarrow> ('b \<Rightarrow> 'x responder go \<times> 'db) \<Rightarrow> 'x responder go \<times> 'db" where
  "deref_body m db f = (case m of None \<Rightarrow> (Inl NilDeref, db) | Some b \<Rightarrow> f b)"

fun exchange ::
  "'x web_context \<Rightarrow> ('e, 'db) crud_env \<Rightarrow> swag_lib \<Rightarrow> http_call \<Rightarrow> 'db \<Rightarrow> http_writer \<Rightarrow> http_writer go \<times> 'db" where
  "exchange ctx env S (CreateFlagCall src) db w = CreateFlag_ServeHTTP ctx (\<lambda>p db.
      reply_as NewCreateFlagDefault CreateFlagDefault_WithPayload CreateFlagDefault_WriteResponse
        (\<lambda>m produce. CreateFlagOK_WriteResponse produce (CreateFlagOK_SetPayload (Some m) NewCreateFlagOK))
        (CreateFlag env (CreateFlag_Body p) db)) src db w"
| "exchange ctx env S (PutFlagCall r src) db w = PutFlag_ServeHTTP ctx (\<lambda>p db.
      deref_body (PutFlag_Body p) db (\<lambda>b. reply_as NewPutFlagDefault PutFlagDefault_WithPayload PutFlagDefault_WriteResponse
        (\<lambda>m produce. PutFlagOK_WriteResponse produce (PutFlagOK_SetPayload (Some m) NewPutFlagOK))
        (PutFlag env (PutFlag_FlagID p) b db))) S r src db w"
| "exchange ctx env S (SetFlagEnabledCall r src) db w = SetFlagEnabled_ServeHTTP ctx (\<lambda>p db.
      deref_body (SetFlagEnabled_Body p) db (\<lambda>b. reply_as NewSetFlagEnabledDefault SetFlagEnabledDefault_WithPayload SetFlagEnabledDefault_WriteResponse
        (\<lambda>m produce. SetFlagEnabledOK_WriteResponse produce (SetFlagEnabledOK_SetPayload (Some m) NewSetFlagEnabledOK))
        (SetFlagEnabledState env (SetFlagEnabled_FlagID p) b db))) S r src db w"
| "exchange ctx env S (RestoreFlagCall r) db w = RestoreFlag_ServeHTTP ctx (\<lambda>p db.
      reply_as NewRestoreFlagDefault RestoreFlagDefault_WithPayload RestoreFlagDefault_WriteResponse
        (\<lambda>m produce. RestoreFlagOK_WriteResponse produce (RestoreFlagOK_SetPayload (Some m) NewRestoreFlagOK))
        (RestoreFlag env (RestoreFlag_FlagID p) db)) S r db w"
| "exchange ctx env S (DeleteFlagCall r) db w = DeleteFlag_ServeHTTP ctx (\<lambda>p db.
      reply_as NewDeleteFlagDefault DeleteFlagDefault_WithPayload DeleteFlagDefault_WriteResponse
        (\<lambda>_ produce. DeleteFlagOK_WriteResponse produce NewDeleteFlagOK)
        (DeleteFlag env (DeleteFlag_FlagID p) db)) S r db w"
| "exchange ctx env S (CreateTagCall r src) db w = CreateTag_ServeHTTP ctx (\<lambda>p db.
      deref_body (CreateTag_Body p) db (\<lambda>b. reply_as NewCreateTagDefault CreateTagDefault_WithPayload CreateTagDefault_WriteResponse
        (\<lambda>m produce. CreateTagOK_WriteResponse produce (CreateTagOK_SetPayload (Some m) NewCreateTagOK))
        (CreateTag env (CreateTag_FlagID p) b db))) S r src db w"
| "exchange ctx env S (DeleteTagCall r) db w = DeleteTag_ServeHTTP ctx (\<lambda>p db.
      reply_as NewDeleteTagDefault DeleteTagDefault_WithPayload DeleteTagDefault_WriteResponse
        (\<lambda>_ produce. DeleteTagOK_WriteResponse produce NewDeleteTagOK)
        (DeleteTag env (DeleteTag_FlagID p) (DeleteTag_TagID p) db)) S r db w"
| "exchange ctx env S (CreateSegmentCall r src) db w = CreateSegment_ServeHTTP ctx (\<lambda>p db.
      deref_body (CreateSegment_Body p) db (\<lambda>b. reply_as NewCreateSegmentDefault CreateSegmentDefault_WithPayload CreateSegmentDefault_WriteResponse
        (\<lambda>m produce. CreateSegmentOK_WriteResponse produce (CreateSegmentOK_SetPayload (Some m) NewCreateSegmentOK))
        (CreateSegment env (CreateSegment_FlagID p) b db))) S r src db w"
| "exchange ctx env S (PutSegmentCall r src) db w = PutSegment_ServeHTTP ctx (\<lambda>p db.
      deref_body (PutSegment_Body p) db (\<lambda>b. reply_as NewPutSegmentDefault PutSegmentDefault_WithPayload PutSegmentDefault_WriteResponse
        (\<lambda>m produce. PutSegmentOK_WriteResponse produce (PutSegmentOK_SetPayload (Some m) NewPutSegmentOK))
        (PutSegment env (PutSegment_FlagID p) (PutSegment_SegmentID p) b db))) S r src db w"
| "exchange ctx env S (PutSegmentsReorderCall r src) db w = PutSegmentsReorder_ServeHTTP ctx (\<lambda>p db.
      deref_body (PutSegmentsReorder_Body p) db (\<lambda>b. reply_as NewPutSegmentsReorderDefault PutSegmentsReorderDefault_WithPayload PutSegmentsReorderDefault_WriteResponse
        (\<lambda>_ produce. PutSegmentsReorderOK_WriteResponse produce NewPutSegmentsReorderOK)
        (PutSegmentsReorder env (PutSegmentsReorder_FlagID p) b db))) S r src db w"
| "exchange ctx env S (DeleteSegmentCall r) db w = DeleteSegment_ServeHTTP ctx (\<lambda>p db.
      reply_as NewDeleteSegmentDefault DeleteSegmentDefault_WithPayload DeleteSegmentDefault_WriteResponse
        (\<lambda>_ produce. DeleteSegmentOK_WriteResponse produce NewDeleteSegmentOK)
        (DeleteSegment env (DeleteSegment_FlagID p) (DeleteSegment_SegmentID p) db)) S r db w"
| "exchange ctx env S (CreateConstraintCall r src) db w = CreateConstraint_ServeHTTP ctx (\<lambda>p db.
      reply_as NewCreateConstraintDefault CreateConstraintDefault_WithPayload CreateConstraintDefault_WriteResponse
        (\<lambda>m produce. CreateConstraintOK_WriteResponse produce (CreateConstraintOK_SetPayload (Some m) NewCreateConstraintOK))
        (CreateConstraint env (CreateConstraint_FlagID p) (CreateConstraint_SegmentID p) (CreateConstraint_Body p) db)) S r src db w"
| "exchange ctx env S (PutConstraintCall r src) db w = PutConstraint_ServeHTTP ctx (\<lambda>p db.
      reply_as NewPutConstraintDefault PutConstraintDefault_WithPayload PutConstraintDefault_WriteResponse
        (\<lambda>m produce. PutConstraintOK_WriteResponse produce (PutConstraintOK_SetPayload (Some m) NewPutConstraintOK))
        (PutConstraint env (PutConstraint_FlagID p) (PutConstraint_ConstraintID p) (PutConstraint_Body p) db)) S r src db w"
| "exchange ctx env S (DeleteConstraintCall r) db w = DeleteConstraint_ServeHTTP ctx (\<lambda>p db.
      reply_as NewDeleteConstraintDefault DeleteConstraintDefault_WithPayload DeleteConstraintDefault_WriteResponse
        (\<lambda>_ produce. DeleteConstraintOK_WriteResponse produce NewDeleteConstraintOK)
        (DeleteConstraint env (DeleteConstraint_FlagID p) (DeleteConstraint_ConstraintID p) db)) S r db w"
| "exchange ctx env S (PutDistributionsCall r src) db w = PutDistributions_ServeHTTP ctx (\<lambda>p db.
      deref_body (PutDistributions_Body p) db (\<lambda>b. reply_as NewPutDistributionsDefault PutDistributionsDefault_WithPayload PutDistributionsDefault_WriteResponse
        (\<lambda>m produce. PutDistributionsOK_WriteResponse produce (PutDistributionsOK_SetPayload (Some m) NewPutDistributionsOK))
        (PutDistributions env (PutDistributions_FlagID p) (PutDistributions_SegmentID p) b db))) S r src db w"
| "exchange ctx env S (CreateVariantCall r src) db w = CreateVariant_ServeHTTP ctx (\<lambda>p db.
      deref_body (CreateVariant_Body p) db (\<lambda>b. reply_as NewCreateVariantDefault CreateVariantDefault_WithPayload CreateVariantDefault_WriteResponse
        (\<lambda>m produce. CreateVariantOK_WriteResponse produce (CreateVariantOK_SetPayload (Some m) NewCreateVariantOK))
        (CreateVariant env (CreateVariant_FlagID p) b db))) S r src db w"
| "exchange ctx env S (PutVariantCall r src) db w = PutVariant_ServeHTTP ctx (\<lambda>p db.
      deref_body (PutVariant_Body p) db (\<lambda>b. reply_as NewPutVariantDefault PutVariantDefault_WithPayload PutVariantDefault_WriteResponse
        (\<lambda>m produce. PutVariantOK_WriteResponse produce (PutVariantOK_SetPayload (Some m) NewPutVariantOK))
        (PutVariant env (PutVariant_FlagID p) (PutVariant_VariantID p) b db))) S r src db w"
| "exchange ctx env S (DeleteVariantCall r) db w = DeleteVariant_ServeHTTP ctx (\<lambda>p db.
      reply_as NewDeleteVariantDefault DeleteVariantDefault_WithPayload DeleteVariantDefault_WriteResponse
        (\<lambda>_ produce. DeleteVariantOK_WriteResponse produce NewDeleteVariantOK)
        (DeleteVariant env (DeleteVariant_FlagID p) (DeleteVariant_VariantID p) db)) S r db w"






lemmas operation_defs =
  CreateFlag_ServeHTTP_def PutFlag_ServeHTTP_def SetFlagEnabled_ServeHTTP_def RestoreFlag_ServeHTTP_def
  DeleteFlag_ServeHTTP_def CreateTag_ServeHTTP_def DeleteTag_ServeHTTP_def CreateSegment_ServeHTTP_def
  PutSegment_ServeHTTP_def PutSegmentsReorder_ServeHTTP_def DeleteSegment_ServeHTTP_def CreateConstraint_ServeHTTP_def
  PutConstraint_ServeHTTP_def DeleteConstraint_ServeHTTP_def PutDistributions_ServeHTTP_def CreateVariant_ServeHTTP_def
  PutVariant_ServeHTTP_def DeleteVariant_ServeHTTP_def


section \<open>Properties\<close>







text \<open>A call whose media types or parameters are refused never reaches a handler: the error is answered and the
  database stays.\<close>

lemma refused_calls_change_nothing:
  "ctx_MediaErrors ctx \<noteq> [] \<Longrightarrow> exchange ctx env S call db w = (ctx_RespondError ctx (ctx_MediaErrors ctx) w, db)"
  "ctx_MediaErrors ctx = [] \<Longrightarrow> bind_call S call = Inl es \<Longrightarrow> exchange ctx env S call db w = (ctx_RespondError ctx es w, db)"
  by (cases call; simp add: operation_defs serve_http_def)
    (cases call; auto simp: operation_defs serve_http_def bound_def sum_bind_eq_Inl_iff)

end
