(* ===== verification/Flagr_Schema.thy ===== *)
theory Flagr_Schema
  imports Flagr_Requests Flagr_Responses
begin

text \<open>
  The schema of the evaluation answers and of the snapshots, \<^verbatim>\<open>swagger_gen/models\<close>
  (\<^verbatim>\<open>eval_result.go\<close>, \<^verbatim>\<open>eval_debug_log.go\<close>, \<^verbatim>\<open>segment_debug_log.go\<close>,
  \<^verbatim>\<open>evaluation_batch_response.go\<close>, \<^verbatim>\<open>flag_snapshot.go\<close>): what a client that validates
  accepts, and that the two evaluation endpoints answer nothing else to a bound request.
\<close>

section \<open>Validation of answers\<close>

text \<open>A nested object is reported under its name; it has no index, which is 0 here.\<close>

definition nested :: "string \<Rightarrow> field_error list \<Rightarrow> field_error option" where
  "nested name es = (if es = [] then None else Some (FieldNested name 0 es))"

definition SegmentDebugLog_Validate :: "segment_debug_log \<Rightarrow> field_error list" where
  "SegmentDebugLog_Validate m = check_all
     [(if SDL_SegmentID m = 0 then None else validate_MinimumInt ''segmentID'' (SDL_SegmentID m) 1)]"

definition EvalDebugLog_Validate :: "eval_debug_log \<Rightarrow> field_error list" where
  "EvalDebugLog_Validate m = check_all
     [optional_entries SegmentDebugLog_Validate ''segmentDebugLogs'' (map_option (map Some) (EDL_SegmentDebugLogs m))]"

definition EvalDebugLog_ContextValidate :: "eval_debug_log \<Rightarrow> field_error list" where
  "EvalDebugLog_ContextValidate m = check_all
     [optional_entries (\<lambda>_. []) ''segmentDebugLogs'' (map_option (map Some) (EDL_SegmentDebugLogs m))]"

text \<open>The context of a result is the body of the request with other ids; both have the same Go type.\<close>

definition context_model :: "eval_context \<Rightarrow> m_eval_context" where
  "context_model c = \<lparr>MEC_EnableDebug = EC_EnableDebug c, MEC_EntityContext = EC_EntityContext c,
     MEC_EntityID = EC_EntityID c, MEC_EntityType = EC_EntityType c, MEC_FlagID = EC_FlagID c,
     MEC_FlagKey = EC_FlagKey c, MEC_FlagTags = Some (EC_FlagTags c), MEC_FlagTagsOperator = EC_FlagTagsOperator c\<rparr>"

definition model_context :: "m_eval_context \<Rightarrow> eval_context" where
  "model_context m = \<lparr>EC_EnableDebug = MEC_EnableDebug m, EC_EntityContext = MEC_EntityContext m,
     EC_EntityID = MEC_EntityID m, EC_EntityType = MEC_EntityType m, EC_FlagID = MEC_FlagID m,
     EC_FlagKey = MEC_FlagKey m, EC_FlagTags = (case MEC_FlagTags m of None \<Rightarrow> [] | Some ts \<Rightarrow> ts),
     EC_FlagTagsOperator = MEC_FlagTagsOperator m\<rparr>"

definition items :: "'a list option \<Rightarrow> 'a list" where
  "items m = (case m of None \<Rightarrow> [] | Some xs \<Rightarrow> xs)"

definition model_batch :: "m_evaluation_batch_request \<Rightarrow> evaluation_batch_request" where
  "model_batch m = \<lparr>EBR_EnableDebug = MBR_EnableDebug m,
     EBR_Entities = map (map_option (\<lambda>e. \<lparr>EE_EntityContext = MEE_EntityContext e, EE_EntityID = MEE_EntityID e,
       EE_EntityType = MEE_EntityType e\<rparr>)) (items (MBR_Entities m)),
     EBR_FlagIDs = items (MBR_FlagIDs m), EBR_FlagKeys = items (MBR_FlagKeys m), EBR_FlagTags = items (MBR_FlagTags m),
     EBR_FlagTagsOperator = MBR_FlagTagsOperator m\<rparr>"

definition EvalResult_Validate :: "eval_result \<Rightarrow> field_error list" where
  "EvalResult_Validate m = check_all
     [nested ''evalContext'' (EvalContext_Validate (context_model (ER_EvalContext m))),
      nested ''evalDebugLog'' (EvalDebugLog_Validate (ER_EvalDebugLog m))]"

definition EvalResult_ContextValidate :: "eval_result \<Rightarrow> field_error list" where
  "EvalResult_ContextValidate m = check_all
     [nested ''evalContext'' [], nested ''evalDebugLog'' (EvalDebugLog_ContextValidate (ER_EvalDebugLog m))]"

definition EvaluationBatchResponse_Validate :: "m_evaluation_batch_response \<Rightarrow> field_error list" where
  "EvaluationBatchResponse_Validate m = check_all
     [validate_entries EvalResult_Validate ''evaluationResults'' 0 (MEB_EvaluationResults m)]"

definition EvaluationBatchResponse_ContextValidate :: "m_evaluation_batch_response \<Rightarrow> field_error list" where
  "EvaluationBatchResponse_ContextValidate m = check_all
     [validate_entries EvalResult_ContextValidate ''evaluationResults'' 0 (MEB_EvaluationResults m)]"

text \<open>A snapshot; how its time is printed is a parameter.\<close>

definition m_flag_snapshot_Validate :: "(int \<Rightarrow> bool) \<Rightarrow> (int \<Rightarrow> string) \<Rightarrow> m_flag_snapshot \<Rightarrow> field_error list" where
  "m_flag_snapshot_Validate is_date_time print_time m = check_all
     [(case MFS_Flag m of None \<Rightarrow> Some (FieldRequired ''flag'') | Some f \<Rightarrow> nested ''flag'' (m_flag_Validate is_date_time f)),
      (if MFS_ID m = 0 then Some (FieldRequired ''id'') else validate_MinimumInt ''id'' (MFS_ID m) 1),
      validate_MinLength ''updatedAt'' (print_time (MFS_UpdatedAt m)) 1]"

definition m_flag_snapshot_ContextValidate :: "bool \<Rightarrow> m_flag_snapshot \<Rightarrow> field_error list" where
  "m_flag_snapshot_ContextValidate rq m = check_all
     [(case MFS_Flag m of None \<Rightarrow> None | Some f \<Rightarrow> nested ''flag'' (m_flag_ContextValidate rq f)),
      validate_ReadOnly rq ''id'' (MFS_ID m)]"

section \<open>What the evaluation answers\<close>

definition valid_context :: "eval_context \<Rightarrow> bool" where
  "valid_context c \<longleftrightarrow> (EC_FlagID c = 0 \<or> 1 \<le> sint (EC_FlagID c)) \<and>
     (\<forall>s. EC_FlagTagsOperator c = Some s \<longrightarrow> s \<in> {''ANY'', ''ALL''})"

lemma valid_context_iff: "EvalContext_Validate (context_model c) = [] \<longleftrightarrow> valid_context c"
  by (auto simp: EvalContext_Validate_def context_model_def valid_context_def validate_MinimumInt_def
      validate_FlagTagsOperatorEnum_def split: option.splits)

lemma model_context_valid: "EvalContext_Validate m = [] \<Longrightarrow> valid_context (model_context m)"
  by (auto simp: EvalContext_Validate_def model_context_def valid_context_def validate_MinimumInt_def
      validate_FlagTagsOperatorEnum_def split: option.splits if_splits)

text \<open>Row ids below \<open>2 ^ 63\<close> are positive as signed numbers.\<close>

definition small_segments :: "'e flag \<Rightarrow> bool" where
  "small_segments f \<longleftrightarrow> (\<forall>s \<in> set (Flag_Segments f). 0 \<le> sint (int64_of_uint (segment_ID s)))"

definition valid_log :: "segment_debug_log \<Rightarrow> bool" where
  "valid_log l \<longleftrightarrow> 0 \<le> sint (SDL_SegmentID l)"

lemma valid_log_Validate: "valid_log l \<Longrightarrow> SegmentDebugLog_Validate l = []"
proof -
  assume "valid_log l"
  moreover have "sint (SDL_SegmentID l) = 0 \<longleftrightarrow> SDL_SegmentID l = 0" by (rule signed_eq_0_iff)
  ultimately show ?thesis
    by (auto simp: SegmentDebugLog_Validate_def valid_log_def validate_MinimumInt_def)
qed

lemma validate_entries_ok: "(\<And>x. Some x \<in> set xs \<Longrightarrow> V x = []) \<Longrightarrow> validate_entries V name i xs = None"
  by (induction xs arbitrary: i) (auto split: option.split)

lemma evalSegment_log: "evalSegment L i c s = Inr (v, l, n) \<Longrightarrow> SDL_SegmentID l = int64_of_uint (segment_ID s)"
  by (auto simp: evalSegment_def Let_def sum_bind_eq_Inr_iff split: if_splits goval.splits sum.splits)

lemma eval_segments_logs:
  assumes "eval_segments L debug i c ss (v, s, logs) = Inr (v', s', logs')"
    and "\<forall>l \<in> set logs. valid_log l" "\<forall>s \<in> set ss. 0 \<le> sint (int64_of_uint (segment_ID s))"
  shows "\<forall>l \<in> set logs'. valid_log l"
  using assms
proof (induction ss arbitrary: v s logs)
  case (Cons a ss)
  obtain va la na where e: "evalSegment L i c a = Inr (va, la, na)"
    using Cons.prems(1) by (auto simp: sum_bind_eq_Inr_iff)
  let ?logs = "if debug \<and> EC_EnableDebug c then logs @ [la] else logs"
  let ?v = "case va of None \<Rightarrow> v | Some w \<Rightarrow> int64_of_uint w"
  have "valid_log la" using evalSegment_log [OF e] Cons.prems(3) by (simp add: valid_log_def)
  then have logs: "\<forall>l \<in> set ?logs. valid_log l" using Cons.prems(2) by auto
  show ?case
  proof (cases na)
    case True
    then have "eval_segments L debug i c ss (?v, int64_of_uint (segment_ID a), ?logs) = Inr (v', s', logs')"
      using Cons.prems(1) e by (simp add: Let_def)
    then show ?thesis by (rule Cons.IH) (use logs Cons.prems(3) in auto)
  next
    case False
    then have "logs' = ?logs" using Cons.prems(1) e by (simp add: Let_def)
    then show ?thesis using logs by simp
  qed
qed simp

lemma EvalResult_ok:
  assumes "valid_context (ER_EvalContext r)"
    and "\<forall>ls. EDL_SegmentDebugLogs (ER_EvalDebugLog r) = Some ls \<longrightarrow> (\<forall>l \<in> set ls. valid_log l)"
  shows "EvalResult_Validate r = []"
proof -
  have "EvalDebugLog_Validate (ER_EvalDebugLog r) = []"
    using assms(2) by (auto simp: EvalDebugLog_Validate_def optional_entries_def valid_log_Validate
        intro!: validate_entries_ok split: option.split)
  then show ?thesis using assms(1) by (simp add: EvalResult_Validate_def nested_def valid_context_iff)
qed

lemma result_of_logs:
  "ER_EvalContext (fst (result_of env f c out st)) = c"
  "EDL_SegmentDebugLogs (ER_EvalDebugLog (fst (result_of env f c (v, s, logs) st))) = Some logs"
  by (simp_all add: result_of_def BlankResult_def Let_def case_prod_beta split: option.splits)

lemma effective_context_valid: "valid_context (effective_context env f c st) = valid_context c"
  by (simp add: valid_context_def effective_context_def Let_def)

lemma EvalFlagWithContext_valid:
  assumes "EvalFlagWithContext env f c st = Inr (r, st')" "valid_context c" "\<forall>g. f = Some g \<longrightarrow> small_segments g"
  shows "EvalResult_Validate r = []"
proof (cases "f = None \<or> (\<exists>g. f = Some g \<and> (\<not> Flag_Enabled g \<or> Flag_Segments g = []))")
  case True
  from EvalFlagWithContext_blank [OF this, of env c st] obtain g msg
    where "EvalFlagWithContext env f c st = Inr (BlankResult env (Some g) c msg st)" by blast
  then have "r = fst (BlankResult env (Some g) c msg st)"
    using assms(1) by (metis fst_conv sum.inject(2))
  then show ?thesis using assms(2) by (intro EvalResult_ok) (simp_all add: BlankResult_def)
next
  case False
  then obtain g where g: "f = Some g" "Flag_Enabled g" "Flag_Segments g \<noteq> []" by auto
  obtain v s logs where out: "eval_segments (env_cond env) (EvalDebugEnabled (the_eval (env_Config env))) (flag_ID g)
      (effective_context env g c st) (Flag_Segments g) (0, 0, []) = Inr (v, s, logs)"
    and r: "r = fst (result_of env g (effective_context env g c st) (v, s, logs) (draw_entityID c st))"
    using assms(1) by (auto simp: g(1) EvalFlagWithContext_enabled [OF g(2,3)] sum_bind_eq_Inr_iff)
  have "\<forall>l \<in> set logs. valid_log l"
    using eval_segments_logs [OF out] assms(3) g(1) by (simp add: small_segments_def)
  then show ?thesis unfolding r using assms(2)
    by (intro EvalResult_ok) (simp_all add: result_of_logs effective_context_valid)
qed

section \<open>The endpoints\<close>

lemma eval_each_all:
  assumes "eval_each ev xs st = Inr (rs, st')" "\<And>x st r st'. x \<in> set xs \<Longrightarrow> ev x st = Inr (r, st') \<Longrightarrow> P r"
  shows "\<forall>r \<in> set rs. P r"
  using assms
proof (induction xs arbitrary: st rs)
  case (Cons x xs)
  obtain r st1 rs' where 1: "ev x st = Inr (r, st1)" and 2: "eval_each ev xs st1 = Inr (rs', st')" and rs: "rs = r # rs'"
    using Cons.prems(1) by (auto simp: sum_bind_eq_Inr_iff)
  have "P r" using Cons.prems(2) [of x st r st1] 1 by simp
  moreover have "\<forall>r \<in> set rs'. P r" by (rule Cons.IH [OF 2]) (use Cons.prems(2) in auto)
  ultimately show ?case using rs by simp
qed simp

definition small_cache :: "'e eval_env \<Rightarrow> bool" where
  "small_cache env \<longleftrightarrow> (\<exists>fs. env_cache env = container_of (env_cast env) fs \<and> (\<forall>f \<in> set fs. small_segments f))"

lemma EvalFlag_valid:
  assumes "small_cache env" "valid_context c" "EvalFlag env c st = Inr (r, st')"
  shows "EvalResult_Validate r = []"
proof -
  have "small_segments g" if look: "LookupFlag env c = Some g" for g
  proof -
    from look obtain v where "GetByFlagKeyOrID (env_cast env) (env_cache env) v = Some g"
      by (auto simp: LookupFlag_def Let_def split: option.splits)
    with assms(1) show ?thesis unfolding small_cache_def using GetByFlagKeyOrID_values by metis
  qed
  with EvalFlagWithContext_valid [of env "LookupFlag env c" c st r st'] assms(2,3) show ?thesis
    by (auto simp: EvalFlag_def)
qed

lemma EvalFlagsByTags_valid:
  assumes "small_cache env" "valid_context c" "EvalFlagsByTags env c st = Inr (rs, st')"
  shows "\<forall>r \<in> set rs. EvalResult_Validate r = []"
  using assms(3) unfolding EvalFlagsByTags_def
proof (rule eval_each_all)
  fix g st r st'
  assume "g \<in> set (GetByTags (env_cache env) (EC_FlagTags c) (EC_FlagTagsOperator c))"
    and e: "EvalFlagWithContext env (Some g) c st = Inr (r, st')"
  with assms(1) have "small_segments g" unfolding small_cache_def using GetByTags_values by (metis subset_iff)
  then show "EvalResult_Validate r = []" using EvalFlagWithContext_valid [OF e assms(2)] by simp
qed

definition valid_batch :: "evaluation_batch_request \<Rightarrow> bool" where
  "valid_batch b \<longleftrightarrow> (\<forall>n \<in> set (EBR_FlagIDs b). 1 \<le> sint n) \<and>
     (\<forall>s. EBR_FlagTagsOperator b = Some s \<longrightarrow> s \<in> {''ANY'', ''ALL''})"

lemma validate_items_ok: "validate_items V name i xs = None \<Longrightarrow> x \<in> set xs \<Longrightarrow> \<exists>path. V x path = None"
  by (induction xs arbitrary: i) (auto split: option.splits)

lemma model_batch_valid:
  assumes "EvaluationBatchRequest_Validate m = []"
  shows "valid_batch (model_batch m)"
proof -
  have "1 \<le> sint n" if "n \<in> set (items (MBR_FlagIDs m))" for n
  proof (cases "MBR_FlagIDs m")
    case (Some ns)
    then have "validate_items (\<lambda>n path. validate_MinimumInt path n 1) ''flagIDs'' 0 ns = None"
      using assms by (auto simp: EvaluationBatchRequest_Validate_def optional_items_def split: option.splits)
    from validate_items_ok [OF this, of n] that Some show ?thesis
      by (auto simp: items_def validate_MinimumInt_def split: if_splits)
  qed (use that in \<open>simp add: items_def\<close>)
  moreover have "\<forall>s. MBR_FlagTagsOperator m = Some s \<longrightarrow> s \<in> {''ANY'', ''ALL''}"
    using assms by (auto simp: EvaluationBatchRequest_Validate_def validate_FlagTagsOperatorEnum_def split: if_splits)
  ultimately show ?thesis by (simp add: valid_batch_def model_batch_def)
qed

lemma eval_entity_valid:
  assumes c: "small_cache env" and b: "valid_batch body" and e: "eval_entity env body e st = Inr (rs, st')"
  shows "\<forall>r \<in> set rs. EvalResult_Validate r = []"
proof (cases e)
  case None
  then show ?thesis using e by (auto simp: eval_entity_def Let_def split: if_splits)
next
  case (Some en)
  let ?ctx = "batch_context body en"
  let ?tags = "?ctx\<lparr>EC_FlagTags := EBR_FlagTags body, EC_FlagTagsOperator := EBR_FlagTagsOperator body\<rparr>"
  obtain rs1 st1 rs2 st2 rs3 where
    1: "(if EBR_FlagTags body \<noteq> [] then EvalFlagsByTags env ?tags st else Inr ([], st)) = Inr (rs1, st1)"
    and 2: "eval_each (\<lambda>flagID. EvalFlag env (?ctx\<lparr>EC_FlagID := flagID\<rparr>)) (dedup (EBR_FlagIDs body)) st1 = Inr (rs2, st2)"
    and 3: "eval_each (\<lambda>flagKey. EvalFlag env (?ctx\<lparr>EC_FlagKey := flagKey\<rparr>)) (dedup (EBR_FlagKeys body)) st2 = Inr (rs3, st')"
    and rs: "rs = rs1 @ rs2 @ rs3"
    using e by (auto simp: Some eval_entity_def Let_def sum_bind_eq_Inr_iff)
  have v: "valid_context ?tags" "\<And>n. n \<in> set (EBR_FlagIDs body) \<Longrightarrow> valid_context (?ctx\<lparr>EC_FlagID := n\<rparr>)"
    "\<And>k. valid_context (?ctx\<lparr>EC_FlagKey := k\<rparr>)"
    using b by (auto simp: valid_context_def valid_batch_def batch_context_def)
  have "\<forall>r \<in> set rs1. EvalResult_Validate r = []"
    using 1 EvalFlagsByTags_valid [OF c v(1)] by (auto split: if_splits)
  moreover have "\<forall>r \<in> set rs2. EvalResult_Validate r = []"
  proof (rule eval_each_all [OF 2])
    fix n s r s'
    assume "n \<in> set (dedup (EBR_FlagIDs body))" and ev: "EvalFlag env (?ctx\<lparr>EC_FlagID := n\<rparr>) s = Inr (r, s')"
    then have "n \<in> set (EBR_FlagIDs body)" by (simp add: dedup_spec(2))
    then show "EvalResult_Validate r = []" by (rule EvalFlag_valid [OF c v(2) ev])
  qed
  moreover have "\<forall>r \<in> set rs3. EvalResult_Validate r = []"
  proof (rule eval_each_all [OF 3])
    fix k s r s'
    assume "EvalFlag env (?ctx\<lparr>EC_FlagKey := k\<rparr>) s = Inr (r, s')"
    then show "EvalResult_Validate r = []" by (rule EvalFlag_valid [OF c v(3)])
  qed
  ultimately show ?thesis by (auto simp: rs)
qed

lemma eval_entities_valid:
  assumes "small_cache env" "valid_batch body" "eval_entities env body es results st = Inr (rs, st')"
    and "\<forall>r \<in> set results. EvalResult_Validate r = []"
  shows "\<forall>r \<in> set rs. EvalResult_Validate r = []"
  using assms(3,4)
proof (induction es arbitrary: results st)
  case (Cons e es)
  obtain rs1 st1 where 1: "eval_entity env body e st = Inr (rs1, st1)"
    and 2: "eval_entities env body es (results @ rs1) st1 = Inr (rs, st')"
    using Cons.prems(1) by (auto simp: sum_bind_eq_Inr_iff)
  show ?case by (rule Cons.IH [OF 2]) (use eval_entity_valid [OF assms(1,2) 1] Cons.prems(2) in auto)
qed simp

section \<open>Properties\<close>

text \<open>C37: the answers of the evaluation meet their schema: a bound request for one evaluation is answered with a
  result, and a bound batch with results, that pass the validation of the generated models, as long as
  the ids of the cached segments are below two to the power of 63.\<close>

theorem evaluation_answers_valid:
  assumes "small_cache env"
  shows "(PostEvaluationParams_BindRequest src = Inr p \<longrightarrow>
      PostEvaluation env (map_option model_context (PostEvaluation_Body p)) st = Inr (PostEvaluationOK r, st') \<longrightarrow>
      EvalResult_Validate r = []) \<and>
    (PostEvaluationBatchParams_BindRequest bsrc = Inr bp \<longrightarrow>
      PostEvaluationBatch env (map_option model_batch (PostEvaluationBatch_Body bp)) st = Inr (PostEvaluationBatchOK rs, st') \<longrightarrow>
      EvaluationBatchResponse_Validate \<lparr>MEB_EvaluationResults = map Some rs\<rparr> = [])"
proof (intro conjI impI)
  assume b: "PostEvaluationParams_BindRequest src = Inr p"
    and e: "PostEvaluation env (map_option model_context (PostEvaluation_Body p)) st = Inr (PostEvaluationOK r, st')"
  obtain m where m: "PostEvaluation_Body p = Some m" "EvalContext_Validate m = []"
    using b by (auto simp: PostEvaluationParams_BindRequest_def split: prod.splits dest!: bind_body_ok)
  then have "EvalFlag env (model_context m) st = Inr (r, st')"
    using e by (auto simp: PostEvaluation_def sum_bind_eq_Inr_iff)
  then show "EvalResult_Validate r = []" by (rule EvalFlag_valid [OF assms model_context_valid [OF m(2)]])
next
  assume b: "PostEvaluationBatchParams_BindRequest bsrc = Inr bp"
    and e: "PostEvaluationBatch env (map_option model_batch (PostEvaluationBatch_Body bp)) st = Inr (PostEvaluationBatchOK rs, st')"
  obtain m where m: "PostEvaluationBatch_Body bp = Some m" "EvaluationBatchRequest_Validate m = []"
    using b by (auto simp: PostEvaluationBatchParams_BindRequest_def split: prod.splits dest!: bind_body_ok)
  then have "eval_entities env (model_batch m) (EBR_Entities (model_batch m)) [] st = Inr (rs, st')"
    using e by (auto simp: PostEvaluationBatch_def Let_def sum_bind_eq_Inr_iff split: if_splits)
  from eval_entities_valid [OF assms model_batch_valid [OF m(2)] this]
  show "EvaluationBatchResponse_Validate \<lparr>MEB_EvaluationResults = map Some rs\<rparr> = []"
    by (auto simp: EvaluationBatchResponse_Validate_def intro!: validate_entries_ok)
qed

definition demo_model :: m_eval_context where
  "demo_model = context_model (demo_context\<lparr>EC_EnableDebug := True\<rparr>)"

theorem evaluation_answers_valid_witness:
  "\<exists>r st'. PostEvaluation (demo_env (cache demo_cache) default_config) (Some (model_context demo_model)) initial_eval_state =
      Inr (PostEvaluationOK r, st') \<and> EvalResult_Validate r = []"
proof -
  let ?env = "demo_env (cache demo_cache) default_config"
  have small: "small_cache ?env"
    unfolding small_cache_def by (rule exI [of _ "[demo_flag]"])
      (simp add: demo_cache_def, code_simp)
  have "sound_cache (env_cond ?env) (env_cast ?env) (env_cache ?env)"
    using sound_cache_reachable [OF demo_cache_reachable] by simp
  then obtain r st' where "EvalFlag ?env (model_context demo_model) initial_eval_state = Inr (r, st')"
    using EvalFlag_sound by blast
  then have ok: "PostEvaluation ?env (Some (model_context demo_model)) initial_eval_state = Inr (PostEvaluationOK r, st')"
    by (simp add: PostEvaluation_def)
  have "EvalContext_Validate demo_model = []" by code_simp
  then have bound: "PostEvaluationParams_BindRequest (Decoded demo_model) = Inr \<lparr>PostEvaluation_Body = Some demo_model\<rparr>"
    by (simp add: PostEvaluationParams_BindRequest_def bind_body_def bind_done_def)
  from evaluation_answers_valid [OF small, of "Decoded demo_model"] bound ok show ?thesis by fastforce
qed

end
