(* ===== verification/Flagr_Reading.thy ===== *)
theory Flagr_Reading
  imports Flagr_Exchange Flagr_Queries Flagr_Schema Flagr_Export
begin

text \<open>
  The calls that do not write to the database, from their arrival to the written answer: the ten reading
  operations of the management API, the two evaluations, the health check and the two exports. What a call
  should answer is a reply with a payload; the written response is that reply, and nothing else happens.
\<close>

section \<open>Answers and their writing\<close>





definition proper_codes :: "('p, 'db) reply \<Rightarrow> bool" where
  "proper_codes r \<longleftrightarrow> (\<forall>c m. outcome r = Inr (RespDefault c m) \<longrightarrow> c \<in> {400, 404, 500})"





section \<open>Reading the configuration\<close>




text \<open>A reading handler leaves the database alone, and refuses with 404 or 500.\<close>

definition reads_only :: "'db \<Rightarrow> ('p, 'db) reply \<Rightarrow> bool" where
  "reads_only db r \<longleftrightarrow> db_after r = db \<and> counters r = [] \<and>
     (\<exists>a. outcome r = Inr a \<and> (\<forall>c m. a = RespDefault c m \<longrightarrow> c \<in> {404, 500}))"

lemma reads_only_simps [simp]:
  "reads_only db (reject c m db) \<longleftrightarrow> c \<in> {404, 500}" "reads_only db (accept p db)"
  by (auto simp: reads_only_def reject_def accept_def)






section \<open>Evaluations, the health check and the JSON export\<close>

text \<open>A panic abandons the request; the state after it is not observed by the answer.\<close>

definition evaluation_reply :: "eval_state \<Rightarrow> (evaluation_response \<times> eval_state) go \<Rightarrow> (eval_result, eval_state) reply" where
  "evaluation_reply st r =
     (case r of
        Inl p \<Rightarrow> panicked p st
      | Inr (PostEvaluationDefault c m, st') \<Rightarrow> reject c m st'
      | Inr (PostEvaluationOK x, st') \<Rightarrow> accept x st')"

definition batch_reply ::
  "eval_state \<Rightarrow> (evaluation_batch_response \<times> eval_state) go \<Rightarrow> (m_evaluation_batch_response, eval_state) reply" where
  "batch_reply st r =
     (case r of
        Inl p \<Rightarrow> panicked p st
      | Inr (PostEvaluationBatchDefault c m, st') \<Rightarrow> reject c m st'
      | Inr (PostEvaluationBatchOK rs, st') \<Rightarrow> accept \<lparr>MEB_EvaluationResults = map Some rs\<rparr> st')"

definition json_reply :: "'e EvalCache \<Rightarrow> 'db \<Rightarrow> ('e flag list, 'db) reply" where
  "json_reply ec db = \<lparr>outcome = Inr (exportEvalCacheJSONHandler ec), db_after = db, counters = []\<rparr>"

definition setupHealth_handler :: "'db \<Rightarrow> (m_health, 'db) reply" where
  "setupHealth_handler db = accept \<lparr>MH_Status = ''OK''\<rparr> db"


definition eval_post :: "'e eval_env \<Rightarrow> 'e EvalCache \<Rightarrow> PostEvaluationParams \<Rightarrow> eval_state \<Rightarrow> (eval_result, eval_state) reply" where
  "eval_post env ec p st =
     evaluation_reply st (PostEvaluation (env\<lparr>env_cache := cache ec\<rparr>) (map_option model_context (PostEvaluation_Body p)) st)"

definition batch_post ::
  "'e eval_env \<Rightarrow> 'e EvalCache \<Rightarrow> PostEvaluationBatchParams \<Rightarrow> eval_state \<Rightarrow> (m_evaluation_batch_response, eval_state) reply" where
  "batch_post env ec p st =
     batch_reply st (PostEvaluationBatch (env\<lparr>env_cache := cache ec\<rparr>) (map_option model_batch (PostEvaluationBatch_Body p)) st)"



lemma post_codes:
  "outcome (eval_post env ec p st) = Inr (RespDefault c m) \<Longrightarrow> c = 400"
  "outcome (batch_post env ec bp st) = Inr (RespDefault c m) \<Longrightarrow> c = 400"
  by (auto simp: eval_post_def batch_post_def evaluation_reply_def batch_reply_def PostEvaluation_def PostEvaluationBatch_def
      panicked_def accept_def reject_def sum_bind_eq_Inr_iff Let_def
      split: sum.splits prod.splits evaluation_response.splits evaluation_batch_response.splits option.splits if_splits)

lemma service_codes [simp]:
  "proper_codes (eval_post env ec p st)" "proper_codes (batch_post env ec bp st)" "proper_codes (json_reply ec st)"
  "proper_codes (setupHealth_handler st)"
  by (auto simp: proper_codes_def json_reply_def setupHealth_handler_def accept_def exportEvalCacheJSONHandler_def dest!: post_codes)


section \<open>The SQLite export\<close>






section \<open>Properties\<close>







end
