(* ===== verification/Flagr_Start.thy ===== *)
theory Flagr_Start
  imports Flagr_Record Flagr_Api
begin

text \<open>
  The start of the server: \<^verbatim>\<open>pkg/config/config.go\<close> (what is set up from the settings before
  anything else), \<^verbatim>\<open>pkg/entity/db.go\<close> (the connection to the database with its retries),
  \<^verbatim>\<open>pkg/entity/logger.go\<close> and \<^verbatim>\<open>swagger_gen/restapi/configure_flagr.go\<close>. The
  database drivers, the retries and the clients of the monitoring systems are parameters.
\<close>

section \<open>Settings\<close>

datatype start_effect =
    SetLevel string
  | SetFormatter string
  | LogWarn string
  | LogError string
  | RavenDSN string
  | SentryHook string
  | StatsdClient string string
  | NewrelicApp string string bool bool

text \<open>The clients: the parser of log levels, a hook with its error as Go returns them, the setting of its
  environment, and the two clients that may fail.\<close>

record start_lib =
  sl_ParseLevel :: "string \<Rightarrow> string err"
  sl_NewSentryHook :: "string \<Rightarrow> string option \<times> error option"
  sl_SetEnvironment :: "string option \<Rightarrow> string \<Rightarrow> string option go"
  sl_Statsd :: "string \<Rightarrow> error option"
  sl_Newrelic :: "string \<Rightarrow> string \<Rightarrow> error option"

definition nil_pointer :: string where
  "nil_pointer = ''invalid memory address or nil pointer dereference''"

definition setupLogrus :: "start_lib \<Rightarrow> config \<Rightarrow> start_failure + start_effect list" where
  "setupLogrus L cfg =
     (case sl_ParseLevel L (LogrusLevel (the_server cfg)) of
        Inl e \<Rightarrow> Inl (Fatal (''failed to set logrus level:'' @ LogrusLevel (the_server cfg)))
      | Inr l \<Rightarrow> Inr [SetLevel l,
          if LogrusFormat (the_server cfg) = ''text'' then SetFormatter ''TextFormatter''
          else if LogrusFormat (the_server cfg) = ''json'' then SetFormatter ''JSONFormatter''
          else LogWarn (''unexpected logrus format: '' @ LogrusFormat (the_server cfg) @
            '', should be one of: text, json'')])"

text \<open>The environment is set on the hook before the error of its creation is looked at.\<close>

definition setupSentry :: "start_lib \<Rightarrow> config \<Rightarrow> start_failure + start_effect list" where
  "setupSentry L cfg =
     (let m = the_monitor cfg in
      if \<not> SentryEnabled m then Inr []
      else
        let (hook, err) = sl_NewSentryHook L (SentryDSN m);
            named = (if SentryEnvironment m \<noteq> [] then sl_SetEnvironment L hook (SentryEnvironment m) else Inr hook)
        in case named of
             Inl _ \<Rightarrow> Inl (StartPanic nil_pointer)
           | Inr hook' \<Rightarrow>
               (case err of
                  Some e \<Rightarrow> Inr [RavenDSN (SentryDSN m), LogError ''failed to hook logurs to sentry'']
                | None \<Rightarrow> Inr [RavenDSN (SentryDSN m), SentryHook (case hook' of None \<Rightarrow> [] | Some h \<Rightarrow> h)]))"

definition setupStatsd :: "start_lib \<Rightarrow> config \<Rightarrow> start_failure + start_effect list" where
  "setupStatsd L cfg =
     (let m = the_monitor cfg; addr = StatsdHost m @ '':'' @ StatsdPort m in
      if \<not> StatsdEnabled m then Inr []
      else (case sl_Statsd L addr of
              Some e \<Rightarrow> Inl (StartPanic (''unable to initialize statsd. '' @ e))
            | None \<Rightarrow> Inr [StatsdClient addr (StatsdPrefix m)]))"

definition setupNewrelic :: "start_lib \<Rightarrow> config \<Rightarrow> start_failure + start_effect list" where
  "setupNewrelic L cfg =
     (let m = the_monitor cfg in
      if \<not> NewRelicEnabled m then Inr []
      else (case sl_Newrelic L (NewRelicAppName m) (NewRelicKey m) of
              Some e \<Rightarrow> Inl (StartPanic (''unable to initialize newrelic. '' @ e))
            | None \<Rightarrow> Inr [NewrelicApp (NewRelicAppName m) (NewRelicKey m)
                (NewRelicDistributedTracingEnabled m) (\<not> NewRelicDistributedTracingEnabled m)]))"

definition config_init :: "start_lib \<Rightarrow> config \<Rightarrow> start_failure + config \<times> start_effect list \<times> prometheusMetrics" where
  "config_init L parsed =
     (let cfg = setupEvalOnlyMode parsed in
      sum_bind (setupSentry L cfg) (\<lambda>sentry.
      sum_bind (setupLogrus L cfg) (\<lambda>logrus.
      sum_bind (setupStatsd L cfg) (\<lambda>statsd.
      sum_bind (setupNewrelic L cfg) (\<lambda>newrelic.
      Inr (cfg, sentry @ logrus @ statsd @ newrelic, setupPrometheus cfg))))))"

section \<open>The database\<close>

definition AutoMigrateTables :: "string list" where
  "AutoMigrateTables = [''Flag'', ''Constraint'', ''Distribution'', ''FlagSnapshot'', ''Segment'', ''User'',
     ''Variant'', ''Tag'', ''FlagEntityType'']"

text \<open>The drivers open a connection string, and may do so differently from attempt to attempt; the retries give
  the last error and the number of calls they made; the migration works on a connection, which may be
  nil, and gives its error beside the connection as it left it, which \<^verbatim>\<open>GetDB\<close> does not look at.\<close>

record 'd db_lib =
  dl_Open :: "string \<Rightarrow> string \<Rightarrow> nat \<Rightarrow> 'd err"
  dl_Do :: "nat \<Rightarrow> int \<Rightarrow> (nat \<Rightarrow> error option) \<Rightarrow> error option \<times> nat"
  dl_AutoMigrate :: "string list \<Rightarrow> 'd option \<Rightarrow> (error option \<times> 'd) go"

text \<open>One call of the function that is retried: a driver it does not know sets neither the connection nor the
  error.\<close>

definition open_attempt :: "'d db_lib \<Rightarrow> config \<Rightarrow> nat \<Rightarrow> 'd option err" where
  "open_attempt L cfg k =
     (let driver = DBDriver (the_db cfg) in
      if driver = ''postgres'' \<or> driver = ''sqlite3'' \<or> driver = ''mysql''
      then (case dl_Open L driver (DBConnectionStr (the_db cfg)) k of Inl e \<Rightarrow> Inl e | Inr d \<Rightarrow> Inr (Some d))
      else Inr None)"

definition attempt_error :: "'d db_lib \<Rightarrow> config \<Rightarrow> nat \<Rightarrow> error option" where
  "attempt_error L cfg k = (case open_attempt L cfg k of Inl e \<Rightarrow> Some e | Inr _ \<Rightarrow> None)"

definition connectDB :: "'d db_lib \<Rightarrow> config \<Rightarrow> 'd option err \<times> nat" where
  "connectDB L cfg =
     (let (err, calls) = dl_Do L (DBConnectionRetryAttempts (the_db cfg)) (DBConnectionRetryDelay (the_db cfg))
            (attempt_error L cfg)
      in (case err of
            Some e \<Rightarrow> Inl e
          | None \<Rightarrow> if calls = 0 then Inr None else open_attempt L cfg (calls - 1), calls))"

record 'd db_once =
  db_done :: bool
  singletonDB :: "'d option"

definition GetDB :: "'d db_lib \<Rightarrow> config \<Rightarrow> 'd db_once \<Rightarrow> (start_failure + 'd option) \<times> 'd db_once" where
  "GetDB L cfg st =
     (if db_done st then (Inr (singletonDB st), st)
      else
        let st' = st\<lparr>db_done := True\<rparr> in
        case fst (connectDB L cfg) of
          Inl e \<Rightarrow> (Inl (Fatal ''failed to connect to db''), st')
        | Inr db \<Rightarrow>
            (case dl_AutoMigrate L AutoMigrateTables db of
               Inl _ \<Rightarrow> (Inl (StartPanic nil_pointer), st')
             | Inr (_, d) \<Rightarrow> (Inr (Some d), st'\<lparr>singletonDB := Some d\<rparr>)))"

definition known_driver :: "config \<Rightarrow> bool" where
  "known_driver cfg \<longleftrightarrow> DBDriver (the_db cfg) \<in> {''postgres'', ''sqlite3'', ''mysql''}"

text \<open>The first attempt that succeeds, with the connection it opens.\<close>

definition first_open :: "'d db_lib \<Rightarrow> config \<Rightarrow> nat \<Rightarrow> 'd \<Rightarrow> bool" where
  "first_open L cfg k d \<longleftrightarrow> k < DBConnectionRetryAttempts (the_db cfg) \<and> open_attempt L cfg k = Inr (Some d) \<and>
     (\<forall>j < k. \<exists>e. open_attempt L cfg j = Inl e)"

text \<open>What the retries promise: they call the function until it succeeds, at most the given number of times, and
  fail when no call did; and the migration returns on a connection, with an error or without one, and panics on nil.\<close>

locale db_laws =
  fixes L :: "'d db_lib"
  assumes retried: "k < attempts \<Longrightarrow> f k = None \<Longrightarrow> (\<forall>j < k. f j \<noteq> None) \<Longrightarrow> dl_Do L attempts delay f = (None, Suc k)"
    and exhausted: "\<forall>k < attempts. f k \<noteq> None \<Longrightarrow> \<exists>e. dl_Do L attempts delay f = (Some e, attempts)"
    and migration_returns: "\<exists>e d'. dl_AutoMigrate L tables (Some d) = Inr (e, d')"
    and migrate_nil: "dl_AutoMigrate L tables None = Inl NilDeref"
begin

lemma Do_cases:
  obtains (ok) k where "k < n" "f k = None" "\<forall>j < k. f j \<noteq> None" "dl_Do L n delay f = (None, Suc k)"
  | (fail) e where "\<forall>k < n. f k \<noteq> None" "dl_Do L n delay f = (Some e, n)"
proof (cases "\<exists>k < n. f k = None")
  case True
  then obtain k where k: "k < n" "f k = None" "\<forall>j < k. f j \<noteq> None"
    using exists_least_iff [of "\<lambda>k. k < n \<and> f k = None"] by (metis order.strict_trans)
  then show ?thesis using retried ok by blast
next
  case False
  then have none: "\<forall>k < n. f k \<noteq> None" by simp
  from exhausted [OF none] obtain e where "dl_Do L n delay f = (Some e, n)" by blast
  with none show ?thesis by (rule fail)
qed

lemma connectDB_cases:
  defines "n cfg \<equiv> DBConnectionRetryAttempts (the_db cfg)"
  obtains (ok) k d where "k < n cfg" "open_attempt L cfg k = Inr d" "\<forall>j < k. \<exists>e. open_attempt L cfg j = Inl e"
    "connectDB L cfg = (Inr d, Suc k)"
  | (fail) e where "\<forall>j < n cfg. \<exists>e. open_attempt L cfg j = Inl e" "connectDB L cfg = (Inl e, n cfg)"
proof -
  have err: "attempt_error L cfg j \<noteq> None \<longleftrightarrow> (\<exists>e. open_attempt L cfg j = Inl e)" for j
    by (simp add: attempt_error_def split: sum.split)
  show ?thesis
  proof (rule Do_cases [of "n cfg" "attempt_error L cfg" "DBConnectionRetryDelay (the_db cfg)"])
    fix k
    assume k: "k < n cfg" "attempt_error L cfg k = None" "\<forall>j < k. attempt_error L cfg j \<noteq> None"
      and run: "dl_Do L (n cfg) (DBConnectionRetryDelay (the_db cfg)) (attempt_error L cfg) = (None, Suc k)"
    obtain d where d: "open_attempt L cfg k = Inr d"
      using k(2) by (auto simp: attempt_error_def split: sum.splits)
    then have "connectDB L cfg = (Inr d, Suc k)" using run by (simp add: connectDB_def n_def)
    with ok k(1,3) d err show ?thesis by blast
  next
    fix e
    assume "\<forall>k < n cfg. attempt_error L cfg k \<noteq> None"
      and run: "dl_Do L (n cfg) (DBConnectionRetryDelay (the_db cfg)) (attempt_error L cfg) = (Some e, n cfg)"
    moreover have "connectDB L cfg = (Inl e, n cfg)" using run by (simp add: connectDB_def n_def)
    ultimately show ?thesis using fail err by blast
  qed
qed

lemma open_known: "known_driver cfg \<Longrightarrow> open_attempt L cfg k = Inr d \<Longrightarrow> \<exists>d'. d = Some d'"
  by (auto simp: known_driver_def open_attempt_def Let_def split: sum.splits)

lemma open_unknown: "\<not> known_driver cfg \<Longrightarrow> open_attempt L cfg k = Inr None"
  by (simp add: known_driver_def open_attempt_def Let_def)

lemma GetDB_known:
  assumes "known_driver cfg" "\<not> db_done st"
  shows "snd (connectDB L cfg) \<le> DBConnectionRetryAttempts (the_db cfg) \<and>
    (if \<exists>k < DBConnectionRetryAttempts (the_db cfg). \<exists>d. open_attempt L cfg k = Inr d
     then \<exists>k d e d'. first_open L cfg k d \<and> dl_AutoMigrate L AutoMigrateTables (Some d) = Inr (e, d') \<and>
       GetDB L cfg st = (Inr (Some d'), \<lparr>db_done = True, singletonDB = Some d'\<rparr>)
     else fst (GetDB L cfg st) = Inl (Fatal ''failed to connect to db''))"
proof (rule connectDB_cases [of cfg])
  fix k d
  assume k: "k < DBConnectionRetryAttempts (the_db cfg)" "open_attempt L cfg k = Inr d"
    "\<forall>j < k. \<exists>e. open_attempt L cfg j = Inl e"
    and c: "connectDB L cfg = (Inr d, Suc k)"
  obtain d1 where d: "d = Some d1" using open_known [OF assms(1) k(2)] by blast
  obtain e d2 where m: "dl_AutoMigrate L AutoMigrateTables (Some d1) = Inr (e, d2)" using migration_returns by blast
  have "GetDB L cfg st = (Inr (Some d2), \<lparr>db_done = True, singletonDB = Some d2\<rparr>)"
    using assms(2) by (cases st) (simp add: GetDB_def Let_def c d m)
  then show ?thesis using k c m unfolding d first_open_def by auto
next
  fix e
  assume "\<forall>j < DBConnectionRetryAttempts (the_db cfg). \<exists>e. open_attempt L cfg j = Inl e"
    and c: "connectDB L cfg = (Inl e, DBConnectionRetryAttempts (the_db cfg))"
  then have "\<not> (\<exists>k < DBConnectionRetryAttempts (the_db cfg). \<exists>d. open_attempt L cfg k = Inr d)"
    by (metis Inl_Inr_False)
  then show ?thesis using c assms(2) by (simp add: GetDB_def Let_def)
qed

lemma GetDB_unknown:
  assumes "\<not> known_driver cfg" "\<not> db_done st" "0 < DBConnectionRetryAttempts (the_db cfg)"
  shows "fst (GetDB L cfg st) = Inl (StartPanic nil_pointer) \<and> db_done (snd (GetDB L cfg st))"
proof -
  have "attempt_error L cfg 0 = None" by (simp add: attempt_error_def open_unknown [OF assms(1)])
  then have "dl_Do L (DBConnectionRetryAttempts (the_db cfg)) (DBConnectionRetryDelay (the_db cfg)) (attempt_error L cfg) =
    (None, Suc 0)" using retried [OF assms(3)] by simp
  then have "connectDB L cfg = (Inr None, Suc 0)" by (simp add: connectDB_def open_unknown [OF assms(1)])
  then show ?thesis using assms(2) by (simp add: GetDB_def Let_def migrate_nil)
qed

end

section \<open>The log of the statements\<close>

record gorm_Logger =
  Logger_LogLevel :: nat
  Logger_SlowThreshold :: int
  Logger_IgnoreRecordNotFoundError :: bool

datatype log_line = LogInfo string | LogWarning string | LogFailure string | LogTrace string int

definition Logger_LogMode :: "gorm_Logger \<Rightarrow> nat \<Rightarrow> gorm_Logger" where
  "Logger_LogMode l level = l\<lparr>Logger_LogLevel := level\<rparr>"

definition Logger_Info :: "gorm_Logger \<Rightarrow> string \<Rightarrow> log_line list" where
  "Logger_Info l s = [LogInfo s]"

definition Logger_Warn :: "gorm_Logger \<Rightarrow> string \<Rightarrow> log_line list" where
  "Logger_Warn l s = [LogWarning s]"

definition Logger_Error :: "gorm_Logger \<Rightarrow> string \<Rightarrow> log_line list" where
  "Logger_Error l s = [LogFailure s]"

text \<open>The statement is only printed when the global level admits traces; logrus counts the levels from panic, 0, to
  trace, 6. The elapsed time is an argument.\<close>

definition Logger_Trace :: "nat \<Rightarrow> gorm_Logger \<Rightarrow> int \<Rightarrow> string \<Rightarrow> log_line list" where
  "Logger_Trace global_level l elapsed sql =
     (if 6 \<le> global_level then if Logger_SlowThreshold l < elapsed then [LogTrace sql elapsed] else [] else [])"

lemma Trace_ignores_mode: "Logger_Trace g (Logger_LogMode l level) elapsed sql = Logger_Trace g l elapsed sql"
  by (simp add: Logger_Trace_def Logger_LogMode_def)

section \<open>A database that answers at the third attempt\<close>

fun retry_from :: "nat \<Rightarrow> nat \<Rightarrow> (nat \<Rightarrow> error option) \<Rightarrow> error \<Rightarrow> error option \<times> nat" where
  "retry_from 0 i f e = (Some e, i)"
| "retry_from (Suc n) i f e = (case f i of None \<Rightarrow> (None, Suc i) | Some e' \<Rightarrow> retry_from n (Suc i) f e')"

lemma retry_from_succeeds:
  "i \<le> k \<Longrightarrow> k < i + n \<Longrightarrow> f k = None \<Longrightarrow> \<forall>j. i \<le> j \<and> j < k \<longrightarrow> f j \<noteq> None \<Longrightarrow> retry_from n i f e = (None, Suc k)"
proof (induction n i f e rule: retry_from.induct)
  case (2 n i f e)
  show ?case
  proof (cases "i = k")
    case False
    with "2.prems" have "f i \<noteq> None" "Suc i \<le> k" "k < Suc i + n" "\<forall>j. Suc i \<le> j \<and> j < k \<longrightarrow> f j \<noteq> None" by auto
    then show ?thesis using "2.IH" "2.prems"(3) by auto
  qed (use "2.prems" in simp)
qed simp

lemma retry_from_fails: "\<forall>k. i \<le> k \<and> k < i + n \<longrightarrow> f k \<noteq> None \<Longrightarrow> \<exists>e'. retry_from n i f e = (Some e', i + n)"
proof (induction n i f e rule: retry_from.induct)
  case (2 n i f e)
  then obtain e' where e': "f i = Some e'" by (metis le_refl less_add_Suc1 not_None_eq add_Suc_right)
  have "\<forall>k. Suc i \<le> k \<and> k < Suc i + n \<longrightarrow> f k \<noteq> None" using "2.prems" by auto
  from "2.IH" [OF e' this] e' show ?case by auto
qed simp

definition third_time_db :: "string db_lib" where
  "third_time_db = \<lparr>dl_Open = (\<lambda>driver dsn k. if k < 2 then Inl ''connection refused'' else Inr dsn),
     dl_Do = (\<lambda>attempts delay f. retry_from attempts 0 f ''All attempts fail''),
     dl_AutoMigrate = (\<lambda>tables d. case d of None \<Rightarrow> Inl NilDeref
       | Some c \<Rightarrow> Inr (Some ''disk is full'', c @ concat tables))\<rparr>"

interpretation third_time: db_laws third_time_db
proof
  fix k attempts :: nat and f :: "nat \<Rightarrow> error option" and delay
  assume "k < attempts" "f k = None" "\<forall>j < k. f j \<noteq> None"
  then show "dl_Do third_time_db attempts delay f = (None, Suc k)"
    using retry_from_succeeds [of 0 k attempts f] by (simp add: third_time_db_def)
next
  fix attempts and f :: "nat \<Rightarrow> error option" and delay
  assume "\<forall>k < attempts. f k \<noteq> None"
  then show "\<exists>e. dl_Do third_time_db attempts delay f = (Some e, attempts)"
    using retry_from_fails [of 0 attempts f] by (simp add: third_time_db_def)
qed (simp_all add: third_time_db_def)

section \<open>The API\<close>

definition configureAPI :: "config \<Rightarrow> 'h flagr_api \<Rightarrow> 'h flagr_api" where
  "configureAPI cfg api =
     Setup cfg (api\<lparr>api_JSONConsumer := Some ''json.Decoder.UseNumber'', api_JSONProducer := Some ''json.Encoder'',
       api_BinProducer := Some ''runtime.ByteStreamProducer''\<rparr>)"

lemma Setup_media [simp]:
  "api_JSONConsumer (Setup cfg api) = api_JSONConsumer api" "api_JSONProducer (Setup cfg api) = api_JSONProducer api"
  "api_BinProducer (Setup cfg api) = api_BinProducer api"
  by (simp_all add: Setup_def setupEvaluation_def setupHealth_def setupCRUD_def setupExport_def set_handler_def)

text \<open>A configured API passes its validation in both modes.\<close>

lemma configureAPI_valid: "FlagrAPI_Validate (configureAPI cfg (NewFlagrAPI :: 'h flagr_api)) = None"
proof -
  let ?api = "(NewFlagrAPI :: 'h flagr_api)\<lparr>api_JSONConsumer := Some ''json.Decoder.UseNumber'',
    api_JSONProducer := Some ''json.Encoder'', api_BinProducer := Some ''runtime.ByteStreamProducer''\<rparr>"
  have "api_handler_of (Setup cfg ?api) op \<noteq> None" for op
    using Setup_served [of cfg op ?api] Setup_not_served [of cfg op ?api] by fastforce
  then show ?thesis by (simp add: configureAPI_def Validate_complete)
qed

section \<open>Properties\<close>

text \<open>C38: connecting to the database, on the first call of GetDB, ends: configured with at least one attempt, it makes at most as many as
  configured. For the three drivers the connection of the first attempt that succeeds is given to the migration, once,
  and what the migration made of it is what the server uses from then on, whether or not the migration reports an
  error; without such an attempt the start is fatal. Any other driver opens nothing and ends in a nil dereference.\<close>

theorem database_connection_ends:
  assumes "db_laws L" "\<not> db_done st" "0 < DBConnectionRetryAttempts (the_db cfg)"
  shows "snd (connectDB L cfg) \<le> DBConnectionRetryAttempts (the_db cfg) \<and>
    (if \<not> known_driver cfg then fst (GetDB L cfg st) = Inl (StartPanic nil_pointer)
     else if \<exists>k < DBConnectionRetryAttempts (the_db cfg). \<exists>d. open_attempt L cfg k = Inr d
     then \<exists>k d e d'. first_open L cfg k d \<and> dl_AutoMigrate L AutoMigrateTables (Some d) = Inr (e, d') \<and>
       GetDB L cfg st = (Inr (Some d'), \<lparr>db_done = True, singletonDB = Some d'\<rparr>)
     else fst (GetDB L cfg st) = Inl (Fatal ''failed to connect to db''))"
proof (cases "known_driver cfg")
  case True
  then have "\<not> \<not> known_driver cfg" by simp
  show ?thesis unfolding if_not_P [OF \<open>\<not> \<not> known_driver cfg\<close>] by (rule db_laws.GetDB_known [OF assms(1) True assms(2)])
next
  case False
  have "snd (connectDB L cfg) \<le> DBConnectionRetryAttempts (the_db cfg)"
    by (rule db_laws.connectDB_cases [OF assms(1), of cfg]) auto
  then show ?thesis using db_laws.GetDB_unknown [OF assms(1) False assms(2,3)] False by simp
qed

definition typo_config :: config where
  "typo_config = default_config\<lparr>the_db := (the_db default_config)\<lparr>DBDriver := ''postgresql''\<rparr>\<rparr>"

theorem database_connection_ends_witness:
  "fst (GetDB third_time_db default_config \<lparr>db_done = False, singletonDB = None\<rparr>) =
     Inr (Some (DBConnectionStr (the_db default_config) @ concat AutoMigrateTables)) \<and>
   fst (GetDB third_time_db typo_config \<lparr>db_done = False, singletonDB = None\<rparr>) = Inl (StartPanic nil_pointer)"
proof -
  let ?st = "\<lparr>db_done = False, singletonDB = None :: string option\<rparr>"
  have st: "\<not> db_done ?st" by simp
  have cfg: "known_driver default_config" "DBConnectionRetryAttempts (the_db default_config) = 9"
    "\<not> known_driver typo_config" "DBConnectionRetryAttempts (the_db typo_config) = 9"
    by (simp_all add: known_driver_def typo_config_def default_config_def default_db_config_def)
  have "\<exists>d. open_attempt third_time_db default_config 2 = Inr d"
    using cfg(1) by (auto simp: open_attempt_def known_driver_def third_time_db_def Let_def)
  then have some: "\<exists>k < DBConnectionRetryAttempts (the_db default_config). \<exists>d. open_attempt third_time_db default_config k = Inr d"
    by (intro exI [of _ 2]) (simp add: cfg(2))
  have opened: "d = DBConnectionStr (the_db default_config)" if "first_open third_time_db default_config k d" for k d
    using that cfg(1) by (auto simp: first_open_def open_attempt_def known_driver_def third_time_db_def Let_def
        split: sum.splits if_splits)
  from database_connection_ends [OF third_time.db_laws_axioms st, of default_config] cfg(1,2) some
  obtain k d e d' where "first_open third_time_db default_config k d"
    "dl_AutoMigrate third_time_db AutoMigrateTables (Some d) = Inr (e, d')"
    "fst (GetDB third_time_db default_config ?st) = Inr (Some d')" by auto
  then show ?thesis
    using opened database_connection_ends [OF third_time.db_laws_axioms st, of typo_config] cfg(3,4)
    by (auto simp: third_time_db_def)
qed

text \<open>A Sentry hook that cannot be made brings the start down when an environment is set, although its error is
  meant to be logged: the environment is set on the nil hook before the error is looked at.\<close>

theorem sentry_failure_panics:
  assumes "SentryEnabled (the_monitor cfg)" "SentryEnvironment (the_monitor cfg) \<noteq> []"
    and "sl_NewSentryHook L (SentryDSN (the_monitor cfg)) = (None, Some e)"
    and "\<forall>name. sl_SetEnvironment L None name = Inl NilDeref"
  shows "setupSentry L cfg = Inl (StartPanic nil_pointer)"
  using assms by (simp add: setupSentry_def Let_def)

end
