(* ===== verification/Flagr_Spec.thy ===== *)
theory Flagr_Spec
  imports Flagr_Lib
begin

text \<open>
  The embedded specification of the API, \<^verbatim>\<open>swagger_gen/restapi/embedded_spec.go\<close>: \<open>SwaggerJSON\<close>,
  the document the server publishes. The value is the decoded JSON text with its members in the
  order of the text, one definition per path and per schema.
\<close>

definition doc_evaluation :: goval where
  "doc_evaluation =
    VMap [
      (''post'', VMap [
         (''tags'', VSlice [VString ''evaluation'']),
         (''operationId'', VString ''postEvaluation''),
         (''parameters'', VSlice [
            VMap [
              (''description'', VString ''evalution context''),
              (''name'', VString ''body''),
              (''in'', VString ''body''),
              (''required'', VBool True),
              (''schema'', VMap [(''$ref'', VString ''#/definitions/evalContext'')])]]),
         (''responses'', VMap [
            (''200'', VMap [
               (''description'', VString ''evaluation result''),
               (''schema'', VMap [(''$ref'', VString ''#/definitions/evalResult'')])]),
            (''default'', VMap [
               (''description'', VString ''generic error response''),
               (''schema'', VMap [(''$ref'', VString ''#/definitions/error'')])])])])]"

definition doc_evaluation_batch :: goval where
  "doc_evaluation_batch =
    VMap [
      (''post'', VMap [
         (''tags'', VSlice [VString ''evaluation'']),
         (''operationId'', VString ''postEvaluationBatch''),
         (''parameters'', VSlice [
            VMap [
              (''description'', VString ''evalution batch request''),
              (''name'', VString ''body''),
              (''in'', VString ''body''),
              (''required'', VBool True),
              (''schema'', VMap [(''$ref'', VString ''#/definitions/evaluationBatchRequest'')])]]),
         (''responses'', VMap [
            (''200'', VMap [
               (''description'', VString ''evaluation batch result''),
               (''schema'', VMap [(''$ref'', VString ''#/definitions/evaluationBatchResponse'')])]),
            (''default'', VMap [
               (''description'', VString ''generic error response''),
               (''schema'', VMap [(''$ref'', VString ''#/definitions/error'')])])])])]"

definition doc_export_eval_cache_json :: goval where
  "doc_export_eval_cache_json =
    VMap [
      (''get'', VMap [
         (''description'', VString ''Export JSON format of the eval cache dump''),
         (''produces'', VSlice [VString ''application/json'']),
         (''tags'', VSlice [VString ''export'']),
         (''operationId'', VString ''getExportEvalCacheJSON''),
         (''responses'', VMap [
            (''200'', VMap [(''description'', VString ''OK''), (''schema'', VMap [(''type'', VString ''object'')])]),
            (''default'', VMap [
               (''description'', VString ''generic error response''),
               (''schema'', VMap [(''$ref'', VString ''#/definitions/error'')])])])])]"

definition doc_export_sqlite :: goval where
  "doc_export_sqlite =
    VMap [
      (''get'', VMap [
         (''description'', VString ''Export sqlite3 format of the db dump, which is converted from the main database.''),
         (''produces'', VSlice [VString ''application/octet-stream'']),
         (''tags'', VSlice [VString ''export'']),
         (''operationId'', VString ''getExportSqlite''),
         (''parameters'', VSlice [
            VMap [
              (''type'', VString ''boolean''),
              (''description'', VString (''export without snapshots data - useful for smaller db without snapshots'' @ [CHR 0x0A])),
              (''name'', VString ''exclude_snapshots''),
              (''in'', VString ''query'')]]),
         (''responses'', VMap [
            (''200'', VMap [(''description'', VString ''OK''), (''schema'', VMap [(''type'', VString ''file'')])]),
            (''default'', VMap [
               (''description'', VString ''generic error response''),
               (''schema'', VMap [(''$ref'', VString ''#/definitions/error'')])])])])]"

definition doc_flags :: goval where
  "doc_flags =
    VMap [
      (''get'', VMap [
         (''tags'', VSlice [VString ''flag'']),
         (''operationId'', VString ''findFlags''),
         (''parameters'', VSlice [
            VMap [
              (''type'', VString ''integer''),
              (''format'', VString ''int64''),
              (''description'', VString ''the numbers of flags to return''),
              (''name'', VString ''limit''),
              (''in'', VString ''query'')],
            VMap [
              (''type'', VString ''boolean''),
              (''description'', VString ''return flags having given enabled status''),
              (''name'', VString ''enabled''),
              (''in'', VString ''query'')],
            VMap [
              (''type'', VString ''string''),
              (''description'', VString ''return flags exactly matching given description''),
              (''name'', VString ''description''),
              (''in'', VString ''query'')],
            VMap [
              (''type'', VString ''string''),
              (''description'', VString ''return flags with the given tags (comma separated)''),
              (''name'', VString ''tags''),
              (''in'', VString ''query'')],
            VMap [
              (''type'', VString ''string''),
              (''description'', VString ''return flags partially matching given description''),
              (''name'', VString ''description_like''),
              (''in'', VString ''query'')],
            VMap [
              (''type'', VString ''string''),
              (''description'', VString ''return flags matching given key''),
              (''name'', VString ''key''),
              (''in'', VString ''query'')],
            VMap [
              (''type'', VString ''integer''),
              (''format'', VString ''int64''),
              (''description'', VString ''return flags given the offset, it should usually set together with limit''),
              (''name'', VString ''offset''),
              (''in'', VString ''query'')],
            VMap [
              (''type'', VString ''boolean''),
              (''description'', VString ''return flags with preloaded segments and variants''),
              (''name'', VString ''preload''),
              (''in'', VString ''query'')],
            VMap [
              (''type'', VString ''boolean''),
              (''description'', VString ''return all deleted flags''),
              (''name'', VString ''deleted''),
              (''in'', VString ''query'')]]),
         (''responses'', VMap [
            (''200'', VMap [
               (''description'', VString ''list all the flags''),
               (''schema'', VMap [
                  (''type'', VString ''array''),
                  (''items'', VMap [(''$ref'', VString ''#/definitions/flag'')])])]),
            (''default'', VMap [
               (''description'', VString ''generic error response''),
               (''schema'', VMap [(''$ref'', VString ''#/definitions/error'')])])])]),
      (''post'', VMap [
         (''tags'', VSlice [VString ''flag'']),
         (''operationId'', VString ''createFlag''),
         (''parameters'', VSlice [
            VMap [
              (''description'', VString ''create a flag''),
              (''name'', VString ''body''),
              (''in'', VString ''body''),
              (''required'', VBool True),
              (''schema'', VMap [(''$ref'', VString ''#/definitions/createFlagRequest'')])]]),
         (''responses'', VMap [
            (''200'', VMap [
               (''description'', VString ''returns the created flag''),
               (''schema'', VMap [(''$ref'', VString ''#/definitions/flag'')])]),
            (''default'', VMap [
               (''description'', VString ''generic error response''),
               (''schema'', VMap [(''$ref'', VString ''#/definitions/error'')])])])])]"

definition doc_flags_entity_types :: goval where
  "doc_flags_entity_types =
    VMap [
      (''get'', VMap [
         (''tags'', VSlice [VString ''flag'']),
         (''operationId'', VString ''getFlagEntityTypes''),
         (''responses'', VMap [
            (''200'', VMap [
               (''description'', VString ''returns all the FlagEntityTypes''),
               (''schema'', VMap [
                  (''type'', VString ''array''),
                  (''items'', VMap [(''type'', VString ''string''), (''minLength'', VNumber ''1'')])])]),
            (''default'', VMap [
               (''description'', VString ''generic error response''),
               (''schema'', VMap [(''$ref'', VString ''#/definitions/error'')])])])])]"

definition doc_flags_flagID :: goval where
  "doc_flags_flagID =
    VMap [
      (''get'', VMap [
         (''tags'', VSlice [VString ''flag'']),
         (''operationId'', VString ''getFlag''),
         (''parameters'', VSlice [
            VMap [
              (''minimum'', VNumber ''1''),
              (''type'', VString ''integer''),
              (''format'', VString ''int64''),
              (''description'', VString ''numeric ID of the flag to get''),
              (''name'', VString ''flagID''),
              (''in'', VString ''path''),
              (''required'', VBool True)]]),
         (''responses'', VMap [
            (''200'', VMap [
               (''description'', VString ''returns the flag''),
               (''schema'', VMap [(''$ref'', VString ''#/definitions/flag'')])]),
            (''default'', VMap [
               (''description'', VString ''generic error response''),
               (''schema'', VMap [(''$ref'', VString ''#/definitions/error'')])])])]),
      (''put'', VMap [
         (''tags'', VSlice [VString ''flag'']),
         (''operationId'', VString ''putFlag''),
         (''parameters'', VSlice [
            VMap [
              (''minimum'', VNumber ''1''),
              (''type'', VString ''integer''),
              (''format'', VString ''int64''),
              (''description'', VString ''numeric ID of the flag to get''),
              (''name'', VString ''flagID''),
              (''in'', VString ''path''),
              (''required'', VBool True)],
            VMap [
              (''description'', VString ''update a flag''),
              (''name'', VString ''body''),
              (''in'', VString ''body''),
              (''required'', VBool True),
              (''schema'', VMap [(''$ref'', VString ''#/definitions/putFlagRequest'')])]]),
         (''responses'', VMap [
            (''200'', VMap [
               (''description'', VString ''returns the flag''),
               (''schema'', VMap [(''$ref'', VString ''#/definitions/flag'')])]),
            (''default'', VMap [
               (''description'', VString ''generic error response''),
               (''schema'', VMap [(''$ref'', VString ''#/definitions/error'')])])])]),
      (''delete'', VMap [
         (''tags'', VSlice [VString ''flag'']),
         (''operationId'', VString ''deleteFlag''),
         (''parameters'', VSlice [
            VMap [
              (''minimum'', VNumber ''1''),
              (''type'', VString ''integer''),
              (''format'', VString ''int64''),
              (''description'', VString ''numeric ID of the flag''),
              (''name'', VString ''flagID''),
              (''in'', VString ''path''),
              (''required'', VBool True)]]),
         (''responses'', VMap [
            (''200'', VMap [(''description'', VString ''OK deleted'')]),
            (''default'', VMap [
               (''description'', VString ''generic error response''),
               (''schema'', VMap [(''$ref'', VString ''#/definitions/error'')])])])])]"

definition doc_flags_flagID_enabled :: goval where
  "doc_flags_flagID_enabled =
    VMap [
      (''put'', VMap [
         (''tags'', VSlice [VString ''flag'']),
         (''operationId'', VString ''setFlagEnabled''),
         (''parameters'', VSlice [
            VMap [
              (''minimum'', VNumber ''1''),
              (''type'', VString ''integer''),
              (''format'', VString ''int64''),
              (''description'', VString ''numeric ID of the flag to get''),
              (''name'', VString ''flagID''),
              (''in'', VString ''path''),
              (''required'', VBool True)],
            VMap [
              (''description'', VString ''set flag enabled state''),
              (''name'', VString ''body''),
              (''in'', VString ''body''),
              (''required'', VBool True),
              (''schema'', VMap [(''$ref'', VString ''#/definitions/setFlagEnabledRequest'')])]]),
         (''responses'', VMap [
            (''200'', VMap [
               (''description'', VString ''returns the flag''),
               (''schema'', VMap [(''$ref'', VString ''#/definitions/flag'')])]),
            (''default'', VMap [
               (''description'', VString ''generic error response''),
               (''schema'', VMap [(''$ref'', VString ''#/definitions/error'')])])])])]"

definition doc_flags_flagID_restore :: goval where
  "doc_flags_flagID_restore =
    VMap [
      (''put'', VMap [
         (''tags'', VSlice [VString ''flag'']),
         (''operationId'', VString ''restoreFlag''),
         (''parameters'', VSlice [
            VMap [
              (''minimum'', VNumber ''1''),
              (''type'', VString ''integer''),
              (''format'', VString ''int64''),
              (''description'', VString ''numeric ID of the flag to get''),
              (''name'', VString ''flagID''),
              (''in'', VString ''path''),
              (''required'', VBool True)]]),
         (''responses'', VMap [
            (''200'', VMap [
               (''description'', VString ''returns the flag''),
               (''schema'', VMap [(''$ref'', VString ''#/definitions/flag'')])]),
            (''default'', VMap [
               (''description'', VString ''generic error response''),
               (''schema'', VMap [(''$ref'', VString ''#/definitions/error'')])])])])]"

definition doc_flags_flagID_segments :: goval where
  "doc_flags_flagID_segments =
    VMap [
      (''get'', VMap [
         (''tags'', VSlice [VString ''segment'']),
         (''operationId'', VString ''findSegments''),
         (''parameters'', VSlice [
            VMap [
              (''minimum'', VNumber ''1''),
              (''type'', VString ''integer''),
              (''format'', VString ''int64''),
              (''description'', VString ''numeric ID of the flag to get''),
              (''name'', VString ''flagID''),
              (''in'', VString ''path''),
              (''required'', VBool True)]]),
         (''responses'', VMap [
            (''200'', VMap [
               (''description'', VString ''segments ordered by rank of the flag''),
               (''schema'', VMap [
                  (''type'', VString ''array''),
                  (''items'', VMap [(''$ref'', VString ''#/definitions/segment'')])])]),
            (''default'', VMap [
               (''description'', VString ''generic error response''),
               (''schema'', VMap [(''$ref'', VString ''#/definitions/error'')])])])]),
      (''post'', VMap [
         (''tags'', VSlice [VString ''segment'']),
         (''operationId'', VString ''createSegment''),
         (''parameters'', VSlice [
            VMap [
              (''minimum'', VNumber ''1''),
              (''type'', VString ''integer''),
              (''format'', VString ''int64''),
              (''description'', VString ''numeric ID of the flag to get''),
              (''name'', VString ''flagID''),
              (''in'', VString ''path''),
              (''required'', VBool True)],
            VMap [
              (''description'', VString ''create a segment under a flag''),
              (''name'', VString ''body''),
              (''in'', VString ''body''),
              (''required'', VBool True),
              (''schema'', VMap [(''$ref'', VString ''#/definitions/createSegmentRequest'')])]]),
         (''responses'', VMap [
            (''200'', VMap [
               (''description'', VString ''segment created''),
               (''schema'', VMap [(''$ref'', VString ''#/definitions/segment'')])]),
            (''default'', VMap [
               (''description'', VString ''generic error response''),
               (''schema'', VMap [(''$ref'', VString ''#/definitions/error'')])])])])]"

definition doc_flags_flagID_segments_reorder :: goval where
  "doc_flags_flagID_segments_reorder =
    VMap [
      (''put'', VMap [
         (''tags'', VSlice [VString ''segment'']),
         (''operationId'', VString ''putSegmentsReorder''),
         (''parameters'', VSlice [
            VMap [
              (''minimum'', VNumber ''1''),
              (''type'', VString ''integer''),
              (''format'', VString ''int64''),
              (''description'', VString ''numeric ID of the flag''),
              (''name'', VString ''flagID''),
              (''in'', VString ''path''),
              (''required'', VBool True)],
            VMap [
              (''description'', VString ''reorder segments''),
              (''name'', VString ''body''),
              (''in'', VString ''body''),
              (''required'', VBool True),
              (''schema'', VMap [(''$ref'', VString ''#/definitions/putSegmentReorderRequest'')])]]),
         (''responses'', VMap [
            (''200'', VMap [(''description'', VString ''segments reordered'')]),
            (''default'', VMap [
               (''description'', VString ''generic error response''),
               (''schema'', VMap [(''$ref'', VString ''#/definitions/error'')])])])])]"

definition doc_flags_flagID_segments_segmentID :: goval where
  "doc_flags_flagID_segments_segmentID =
    VMap [
      (''put'', VMap [
         (''tags'', VSlice [VString ''segment'']),
         (''operationId'', VString ''putSegment''),
         (''parameters'', VSlice [
            VMap [
              (''minimum'', VNumber ''1''),
              (''type'', VString ''integer''),
              (''format'', VString ''int64''),
              (''description'', VString ''numeric ID of the flag''),
              (''name'', VString ''flagID''),
              (''in'', VString ''path''),
              (''required'', VBool True)],
            VMap [
              (''minimum'', VNumber ''1''),
              (''type'', VString ''integer''),
              (''format'', VString ''int64''),
              (''description'', VString ''numeric ID of the segment''),
              (''name'', VString ''segmentID''),
              (''in'', VString ''path''),
              (''required'', VBool True)],
            VMap [
              (''description'', VString ''update a segment''),
              (''name'', VString ''body''),
              (''in'', VString ''body''),
              (''required'', VBool True),
              (''schema'', VMap [(''$ref'', VString ''#/definitions/putSegmentRequest'')])]]),
         (''responses'', VMap [
            (''200'', VMap [
               (''description'', VString ''segment updated''),
               (''schema'', VMap [(''$ref'', VString ''#/definitions/segment'')])]),
            (''default'', VMap [
               (''description'', VString ''generic error response''),
               (''schema'', VMap [(''$ref'', VString ''#/definitions/error'')])])])]),
      (''delete'', VMap [
         (''tags'', VSlice [VString ''segment'']),
         (''operationId'', VString ''deleteSegment''),
         (''parameters'', VSlice [
            VMap [
              (''minimum'', VNumber ''1''),
              (''type'', VString ''integer''),
              (''format'', VString ''int64''),
              (''description'', VString ''numeric ID of the flag''),
              (''name'', VString ''flagID''),
              (''in'', VString ''path''),
              (''required'', VBool True)],
            VMap [
              (''minimum'', VNumber ''1''),
              (''type'', VString ''integer''),
              (''format'', VString ''int64''),
              (''description'', VString ''numeric ID of the segment''),
              (''name'', VString ''segmentID''),
              (''in'', VString ''path''),
              (''required'', VBool True)]]),
         (''responses'', VMap [
            (''200'', VMap [(''description'', VString ''deleted'')]),
            (''default'', VMap [
               (''description'', VString ''generic error response''),
               (''schema'', VMap [(''$ref'', VString ''#/definitions/error'')])])])])]"

definition doc_flags_flagID_segments_segmentID_constraints :: goval where
  "doc_flags_flagID_segments_segmentID_constraints =
    VMap [
      (''get'', VMap [
         (''tags'', VSlice [VString ''constraint'']),
         (''operationId'', VString ''findConstraints''),
         (''parameters'', VSlice [
            VMap [
              (''minimum'', VNumber ''1''),
              (''type'', VString ''integer''),
              (''format'', VString ''int64''),
              (''description'', VString ''numeric ID of the flag''),
              (''name'', VString ''flagID''),
              (''in'', VString ''path''),
              (''required'', VBool True)],
            VMap [
              (''minimum'', VNumber ''1''),
              (''type'', VString ''integer''),
              (''format'', VString ''int64''),
              (''description'', VString ''numeric ID of the segment''),
              (''name'', VString ''segmentID''),
              (''in'', VString ''path''),
              (''required'', VBool True)]]),
         (''responses'', VMap [
            (''200'', VMap [
               (''description'', VString ''constraints under the segment''),
               (''schema'', VMap [
                  (''type'', VString ''array''),
                  (''items'', VMap [(''$ref'', VString ''#/definitions/constraint'')])])]),
            (''default'', VMap [
               (''description'', VString ''generic error response''),
               (''schema'', VMap [(''$ref'', VString ''#/definitions/error'')])])])]),
      (''post'', VMap [
         (''tags'', VSlice [VString ''constraint'']),
         (''operationId'', VString ''createConstraint''),
         (''parameters'', VSlice [
            VMap [
              (''minimum'', VNumber ''1''),
              (''type'', VString ''integer''),
              (''format'', VString ''int64''),
              (''description'', VString ''numeric ID of the flag''),
              (''name'', VString ''flagID''),
              (''in'', VString ''path''),
              (''required'', VBool True)],
            VMap [
              (''minimum'', VNumber ''1''),
              (''type'', VString ''integer''),
              (''format'', VString ''int64''),
              (''description'', VString ''numeric ID of the segment''),
              (''name'', VString ''segmentID''),
              (''in'', VString ''path''),
              (''required'', VBool True)],
            VMap [
              (''description'', VString ''create a constraint''),
              (''name'', VString ''body''),
              (''in'', VString ''body''),
              (''required'', VBool True),
              (''schema'', VMap [(''$ref'', VString ''#/definitions/createConstraintRequest'')])]]),
         (''responses'', VMap [
            (''200'', VMap [
               (''description'', VString ''the constraint created''),
               (''schema'', VMap [(''$ref'', VString ''#/definitions/constraint'')])]),
            (''default'', VMap [
               (''description'', VString ''generic error response''),
               (''schema'', VMap [(''$ref'', VString ''#/definitions/error'')])])])])]"

definition doc_flags_flagID_segments_segmentID_constraints_constraintID :: goval where
  "doc_flags_flagID_segments_segmentID_constraints_constraintID =
    VMap [
      (''put'', VMap [
         (''tags'', VSlice [VString ''constraint'']),
         (''operationId'', VString ''putConstraint''),
         (''parameters'', VSlice [
            VMap [
              (''minimum'', VNumber ''1''),
              (''type'', VString ''integer''),
              (''format'', VString ''int64''),
              (''description'', VString ''numeric ID of the flag''),
              (''name'', VString ''flagID''),
              (''in'', VString ''path''),
              (''required'', VBool True)],
            VMap [
              (''minimum'', VNumber ''1''),
              (''type'', VString ''integer''),
              (''format'', VString ''int64''),
              (''description'', VString ''numeric ID of the segment''),
              (''name'', VString ''segmentID''),
              (''in'', VString ''path''),
              (''required'', VBool True)],
            VMap [
              (''minimum'', VNumber ''1''),
              (''type'', VString ''integer''),
              (''format'', VString ''int64''),
              (''description'', VString ''numeric ID of the constraint''),
              (''name'', VString ''constraintID''),
              (''in'', VString ''path''),
              (''required'', VBool True)],
            VMap [
              (''description'', VString ''create a constraint''),
              (''name'', VString ''body''),
              (''in'', VString ''body''),
              (''required'', VBool True),
              (''schema'', VMap [(''$ref'', VString ''#/definitions/createConstraintRequest'')])]]),
         (''responses'', VMap [
            (''200'', VMap [
               (''description'', VString ''constraint just updated''),
               (''schema'', VMap [(''$ref'', VString ''#/definitions/constraint'')])]),
            (''default'', VMap [
               (''description'', VString ''generic error response''),
               (''schema'', VMap [(''$ref'', VString ''#/definitions/error'')])])])]),
      (''delete'', VMap [
         (''tags'', VSlice [VString ''constraint'']),
         (''operationId'', VString ''deleteConstraint''),
         (''parameters'', VSlice [
            VMap [
              (''minimum'', VNumber ''1''),
              (''type'', VString ''integer''),
              (''format'', VString ''int64''),
              (''description'', VString ''numeric ID of the flag''),
              (''name'', VString ''flagID''),
              (''in'', VString ''path''),
              (''required'', VBool True)],
            VMap [
              (''minimum'', VNumber ''1''),
              (''type'', VString ''integer''),
              (''format'', VString ''int64''),
              (''description'', VString ''numeric ID of the segment''),
              (''name'', VString ''segmentID''),
              (''in'', VString ''path''),
              (''required'', VBool True)],
            VMap [
              (''minimum'', VNumber ''1''),
              (''type'', VString ''integer''),
              (''format'', VString ''int64''),
              (''description'', VString ''numeric ID of the constraint''),
              (''name'', VString ''constraintID''),
              (''in'', VString ''path''),
              (''required'', VBool True)]]),
         (''responses'', VMap [
            (''200'', VMap [(''description'', VString ''deleted'')]),
            (''default'', VMap [
               (''description'', VString ''generic error response''),
               (''schema'', VMap [(''$ref'', VString ''#/definitions/error'')])])])])]"

definition doc_flags_flagID_segments_segmentID_distributions :: goval where
  "doc_flags_flagID_segments_segmentID_distributions =
    VMap [
      (''get'', VMap [
         (''tags'', VSlice [VString ''distribution'']),
         (''operationId'', VString ''findDistributions''),
         (''parameters'', VSlice [
            VMap [
              (''minimum'', VNumber ''1''),
              (''type'', VString ''integer''),
              (''format'', VString ''int64''),
              (''description'', VString ''numeric ID of the flag''),
              (''name'', VString ''flagID''),
              (''in'', VString ''path''),
              (''required'', VBool True)],
            VMap [
              (''minimum'', VNumber ''1''),
              (''type'', VString ''integer''),
              (''format'', VString ''int64''),
              (''description'', VString ''numeric ID of the segment''),
              (''name'', VString ''segmentID''),
              (''in'', VString ''path''),
              (''required'', VBool True)]]),
         (''responses'', VMap [
            (''200'', VMap [
               (''description'', VString ''distribution under the segment''),
               (''schema'', VMap [
                  (''type'', VString ''array''),
                  (''items'', VMap [(''$ref'', VString ''#/definitions/distribution'')])])]),
            (''default'', VMap [
               (''description'', VString ''generic error response''),
               (''schema'', VMap [(''$ref'', VString ''#/definitions/error'')])])])]),
      (''put'', VMap [
         (''description'', VString ''replace the distribution with the new setting''),
         (''tags'', VSlice [VString ''distribution'']),
         (''operationId'', VString ''putDistributions''),
         (''parameters'', VSlice [
            VMap [
              (''minimum'', VNumber ''1''),
              (''type'', VString ''integer''),
              (''format'', VString ''int64''),
              (''description'', VString ''numeric ID of the flag''),
              (''name'', VString ''flagID''),
              (''in'', VString ''path''),
              (''required'', VBool True)],
            VMap [
              (''minimum'', VNumber ''1''),
              (''type'', VString ''integer''),
              (''format'', VString ''int64''),
              (''description'', VString ''numeric ID of the segment''),
              (''name'', VString ''segmentID''),
              (''in'', VString ''path''),
              (''required'', VBool True)],
            VMap [
              (''description'', VString ''array of distributions''),
              (''name'', VString ''body''),
              (''in'', VString ''body''),
              (''required'', VBool True),
              (''schema'', VMap [(''$ref'', VString ''#/definitions/putDistributionsRequest'')])]]),
         (''responses'', VMap [
            (''200'', VMap [
               (''description'', VString ''distribution under the segment''),
               (''schema'', VMap [
                  (''type'', VString ''array''),
                  (''items'', VMap [(''$ref'', VString ''#/definitions/distribution'')])])]),
            (''default'', VMap [
               (''description'', VString ''generic error response''),
               (''schema'', VMap [(''$ref'', VString ''#/definitions/error'')])])])])]"

definition doc_flags_flagID_snapshots :: goval where
  "doc_flags_flagID_snapshots =
    VMap [
      (''get'', VMap [
         (''tags'', VSlice [VString ''flag'']),
         (''operationId'', VString ''getFlagSnapshots''),
         (''parameters'', VSlice [
            VMap [
              (''minimum'', VNumber ''1''),
              (''type'', VString ''integer''),
              (''format'', VString ''int64''),
              (''description'', VString ''numeric ID of the flag to get''),
              (''name'', VString ''flagID''),
              (''in'', VString ''path''),
              (''required'', VBool True)],
            VMap [
              (''type'', VString ''integer''),
              (''format'', VString ''int64''),
              (''description'', VString ''the number of snapshots to return''),
              (''name'', VString ''limit''),
              (''in'', VString ''query'')],
            VMap [
              (''type'', VString ''integer''),
              (''format'', VString ''int64''),
              (''description'', VString ''return snapshots given the offset, it should usually set together with limit''),
              (''name'', VString ''offset''),
              (''in'', VString ''query'')],
            VMap [
              (''enum'', VSlice [VString ''ASC'', VString ''DESC'']),
              (''type'', VString ''string''),
              (''description'', VString ''sort order''),
              (''name'', VString ''sort''),
              (''in'', VString ''query'')]]),
         (''responses'', VMap [
            (''200'', VMap [
               (''description'', VString ''returns the flag snapshots''),
               (''schema'', VMap [
                  (''type'', VString ''array''),
                  (''items'', VMap [(''$ref'', VString ''#/definitions/flagSnapshot'')])])]),
            (''default'', VMap [
               (''description'', VString ''generic error response''),
               (''schema'', VMap [(''$ref'', VString ''#/definitions/error'')])])])])]"

definition doc_flags_flagID_tags :: goval where
  "doc_flags_flagID_tags =
    VMap [
      (''get'', VMap [
         (''tags'', VSlice [VString ''tag'']),
         (''operationId'', VString ''findTags''),
         (''parameters'', VSlice [
            VMap [
              (''minimum'', VNumber ''1''),
              (''type'', VString ''integer''),
              (''format'', VString ''int64''),
              (''description'', VString ''numeric ID of the flag''),
              (''name'', VString ''flagID''),
              (''in'', VString ''path''),
              (''required'', VBool True)]]),
         (''responses'', VMap [
            (''200'', VMap [
               (''description'', VString ''tag ordered by tagID''),
               (''schema'', VMap [
                  (''type'', VString ''array''),
                  (''items'', VMap [(''$ref'', VString ''#/definitions/tag'')])])]),
            (''default'', VMap [
               (''description'', VString ''generic error response''),
               (''schema'', VMap [(''$ref'', VString ''#/definitions/error'')])])])]),
      (''post'', VMap [
         (''tags'', VSlice [VString ''tag'']),
         (''operationId'', VString ''createTag''),
         (''parameters'', VSlice [
            VMap [
              (''minimum'', VNumber ''1''),
              (''type'', VString ''integer''),
              (''format'', VString ''int64''),
              (''description'', VString ''numeric ID of the flag''),
              (''name'', VString ''flagID''),
              (''in'', VString ''path''),
              (''required'', VBool True)],
            VMap [
              (''description'', VString ''create a tag''),
              (''name'', VString ''body''),
              (''in'', VString ''body''),
              (''required'', VBool True),
              (''schema'', VMap [(''$ref'', VString ''#/definitions/createTagRequest'')])]]),
         (''responses'', VMap [
            (''200'', VMap [
               (''description'', VString ''tag just created''),
               (''schema'', VMap [(''$ref'', VString ''#/definitions/tag'')])]),
            (''default'', VMap [
               (''description'', VString ''generic error response''),
               (''schema'', VMap [(''$ref'', VString ''#/definitions/error'')])])])])]"

definition doc_flags_flagID_tags_tagID :: goval where
  "doc_flags_flagID_tags_tagID =
    VMap [
      (''delete'', VMap [
         (''tags'', VSlice [VString ''tag'']),
         (''operationId'', VString ''deleteTag''),
         (''parameters'', VSlice [
            VMap [
              (''minimum'', VNumber ''1''),
              (''type'', VString ''integer''),
              (''format'', VString ''int64''),
              (''description'', VString ''numeric ID of the flag''),
              (''name'', VString ''flagID''),
              (''in'', VString ''path''),
              (''required'', VBool True)],
            VMap [
              (''minimum'', VNumber ''1''),
              (''type'', VString ''integer''),
              (''format'', VString ''int64''),
              (''description'', VString ''numeric ID of the tag''),
              (''name'', VString ''tagID''),
              (''in'', VString ''path''),
              (''required'', VBool True)]]),
         (''responses'', VMap [
            (''200'', VMap [(''description'', VString ''deleted'')]),
            (''default'', VMap [
               (''description'', VString ''generic error response''),
               (''schema'', VMap [(''$ref'', VString ''#/definitions/error'')])])])])]"

definition doc_flags_flagID_variants :: goval where
  "doc_flags_flagID_variants =
    VMap [
      (''get'', VMap [
         (''tags'', VSlice [VString ''variant'']),
         (''operationId'', VString ''findVariants''),
         (''parameters'', VSlice [
            VMap [
              (''minimum'', VNumber ''1''),
              (''type'', VString ''integer''),
              (''format'', VString ''int64''),
              (''description'', VString ''numeric ID of the flag''),
              (''name'', VString ''flagID''),
              (''in'', VString ''path''),
              (''required'', VBool True)]]),
         (''responses'', VMap [
            (''200'', VMap [
               (''description'', VString ''variant ordered by variantID''),
               (''schema'', VMap [
                  (''type'', VString ''array''),
                  (''items'', VMap [(''$ref'', VString ''#/definitions/variant'')])])]),
            (''default'', VMap [
               (''description'', VString ''generic error response''),
               (''schema'', VMap [(''$ref'', VString ''#/definitions/error'')])])])]),
      (''post'', VMap [
         (''tags'', VSlice [VString ''variant'']),
         (''operationId'', VString ''createVariant''),
         (''parameters'', VSlice [
            VMap [
              (''minimum'', VNumber ''1''),
              (''type'', VString ''integer''),
              (''format'', VString ''int64''),
              (''description'', VString ''numeric ID of the flag''),
              (''name'', VString ''flagID''),
              (''in'', VString ''path''),
              (''required'', VBool True)],
            VMap [
              (''description'', VString ''create a variant''),
              (''name'', VString ''body''),
              (''in'', VString ''body''),
              (''required'', VBool True),
              (''schema'', VMap [(''$ref'', VString ''#/definitions/createVariantRequest'')])]]),
         (''responses'', VMap [
            (''200'', VMap [
               (''description'', VString ''variant just created''),
               (''schema'', VMap [(''$ref'', VString ''#/definitions/variant'')])]),
            (''default'', VMap [
               (''description'', VString ''generic error response''),
               (''schema'', VMap [(''$ref'', VString ''#/definitions/error'')])])])])]"

definition doc_flags_flagID_variants_variantID :: goval where
  "doc_flags_flagID_variants_variantID =
    VMap [
      (''put'', VMap [
         (''tags'', VSlice [VString ''variant'']),
         (''operationId'', VString ''putVariant''),
         (''parameters'', VSlice [
            VMap [
              (''minimum'', VNumber ''1''),
              (''type'', VString ''integer''),
              (''format'', VString ''int64''),
              (''description'', VString ''numeric ID of the flag''),
              (''name'', VString ''flagID''),
              (''in'', VString ''path''),
              (''required'', VBool True)],
            VMap [
              (''minimum'', VNumber ''1''),
              (''type'', VString ''integer''),
              (''format'', VString ''int64''),
              (''description'', VString ''numeric ID of the variant''),
              (''name'', VString ''variantID''),
              (''in'', VString ''path''),
              (''required'', VBool True)],
            VMap [
              (''description'', VString ''update a variant''),
              (''name'', VString ''body''),
              (''in'', VString ''body''),
              (''required'', VBool True),
              (''schema'', VMap [(''$ref'', VString ''#/definitions/putVariantRequest'')])]]),
         (''responses'', VMap [
            (''200'', VMap [
               (''description'', VString ''variant just updated''),
               (''schema'', VMap [(''$ref'', VString ''#/definitions/variant'')])]),
            (''default'', VMap [
               (''description'', VString ''generic error response''),
               (''schema'', VMap [(''$ref'', VString ''#/definitions/error'')])])])]),
      (''delete'', VMap [
         (''tags'', VSlice [VString ''variant'']),
         (''operationId'', VString ''deleteVariant''),
         (''parameters'', VSlice [
            VMap [
              (''minimum'', VNumber ''1''),
              (''type'', VString ''integer''),
              (''format'', VString ''int64''),
              (''description'', VString ''numeric ID of the flag''),
              (''name'', VString ''flagID''),
              (''in'', VString ''path''),
              (''required'', VBool True)],
            VMap [
              (''minimum'', VNumber ''1''),
              (''type'', VString ''integer''),
              (''format'', VString ''int64''),
              (''description'', VString ''numeric ID of the variant''),
              (''name'', VString ''variantID''),
              (''in'', VString ''path''),
              (''required'', VBool True)]]),
         (''responses'', VMap [
            (''200'', VMap [(''description'', VString ''deleted'')]),
            (''default'', VMap [
               (''description'', VString ''generic error response''),
               (''schema'', VMap [(''$ref'', VString ''#/definitions/error'')])])])])]"

definition doc_health :: goval where
  "doc_health =
    VMap [
      (''get'', VMap [
         (''description'', VString ''Check if Flagr is healthy''),
         (''tags'', VSlice [VString ''health'']),
         (''operationId'', VString ''getHealth''),
         (''responses'', VMap [
            (''200'', VMap [
               (''description'', VString ''status of health check''),
               (''schema'', VMap [(''$ref'', VString ''#/definitions/health'')])]),
            (''default'', VMap [
               (''description'', VString ''generic error response''),
               (''schema'', VMap [(''$ref'', VString ''#/definitions/error'')])])])])]"

definition doc_tags :: goval where
  "doc_tags =
    VMap [
      (''get'', VMap [
         (''tags'', VSlice [VString ''tag'']),
         (''operationId'', VString ''findAllTags''),
         (''parameters'', VSlice [
            VMap [
              (''type'', VString ''integer''),
              (''format'', VString ''int64''),
              (''description'', VString ''the numbers of tags to return''),
              (''name'', VString ''limit''),
              (''in'', VString ''query'')],
            VMap [
              (''type'', VString ''integer''),
              (''format'', VString ''int64''),
              (''description'', VString ''return tags given the offset, it should usually set together with limit''),
              (''name'', VString ''offset''),
              (''in'', VString ''query'')],
            VMap [
              (''type'', VString ''string''),
              (''description'', VString ''return tags partially matching given value''),
              (''name'', VString ''value_like''),
              (''in'', VString ''query'')]]),
         (''responses'', VMap [
            (''200'', VMap [
               (''description'', VString ''list all the tags''),
               (''schema'', VMap [
                  (''type'', VString ''array''),
                  (''items'', VMap [(''$ref'', VString ''#/definitions/tag'')])])]),
            (''default'', VMap [
               (''description'', VString ''generic error response''),
               (''schema'', VMap [(''$ref'', VString ''#/definitions/error'')])])])])]"

definition doc_def_constraint :: goval where
  "doc_def_constraint =
    VMap [
      (''type'', VString ''object''),
      (''required'', VSlice [VString ''property'', VString ''operator'', VString ''value'']),
      (''properties'', VMap [
         (''id'', VMap [
            (''type'', VString ''integer''),
            (''format'', VString ''int64''),
            (''minimum'', VNumber ''1''),
            (''readOnly'', VBool True)]),
         (''operator'', VMap [
            (''type'', VString ''string''),
            (''minLength'', VNumber ''1''),
            (''enum'', VSlice [
               VString ''EQ'',
               VString ''NEQ'',
               VString ''LT'',
               VString ''LTE'',
               VString ''GT'',
               VString ''GTE'',
               VString ''EREG'',
               VString ''NEREG'',
               VString ''IN'',
               VString ''NOTIN'',
               VString ''CONTAINS'',
               VString ''NOTCONTAINS''])]),
         (''property'', VMap [(''type'', VString ''string''), (''minLength'', VNumber ''1'')]),
         (''value'', VMap [(''type'', VString ''string''), (''minLength'', VNumber ''1'')])])]"

definition doc_def_createConstraintRequest :: goval where
  "doc_def_createConstraintRequest =
    VMap [
      (''type'', VString ''object''),
      (''required'', VSlice [VString ''property'', VString ''operator'', VString ''value'']),
      (''properties'', VMap [
         (''operator'', VMap [(''type'', VString ''string''), (''minLength'', VNumber ''1'')]),
         (''property'', VMap [(''type'', VString ''string''), (''minLength'', VNumber ''1'')]),
         (''value'', VMap [(''type'', VString ''string''), (''minLength'', VNumber ''1'')])])]"

definition doc_def_createFlagRequest :: goval where
  "doc_def_createFlagRequest =
    VMap [
      (''type'', VString ''object''),
      (''required'', VSlice [VString ''description'']),
      (''properties'', VMap [
         (''description'', VMap [(''type'', VString ''string''), (''minLength'', VNumber ''1'')]),
         (''key'', VMap [
            (''description'', VString ''unique key representation of the flag''),
            (''type'', VString ''string'')]),
         (''template'', VMap [(''description'', VString ''template for flag creation''), (''type'', VString ''string'')])])]"

definition doc_def_createSegmentRequest :: goval where
  "doc_def_createSegmentRequest =
    VMap [
      (''type'', VString ''object''),
      (''required'', VSlice [VString ''description'', VString ''rolloutPercent'']),
      (''properties'', VMap [
         (''description'', VMap [(''type'', VString ''string''), (''minLength'', VNumber ''1'')]),
         (''rolloutPercent'', VMap [
            (''type'', VString ''integer''),
            (''format'', VString ''int64''),
            (''maximum'', VNumber ''100'')])])]"

definition doc_def_createTagRequest :: goval where
  "doc_def_createTagRequest =
    VMap [
      (''type'', VString ''object''),
      (''required'', VSlice [VString ''value'']),
      (''properties'', VMap [(''value'', VMap [(''type'', VString ''string''), (''minLength'', VNumber ''1'')])])]"

definition doc_def_createVariantRequest :: goval where
  "doc_def_createVariantRequest =
    VMap [
      (''type'', VString ''object''),
      (''required'', VSlice [VString ''key'']),
      (''properties'', VMap [
         (''attachment'', VMap [(''type'', VString ''object'')]),
         (''key'', VMap [(''type'', VString ''string''), (''minLength'', VNumber ''1'')])])]"

definition doc_def_distribution :: goval where
  "doc_def_distribution =
    VMap [
      (''type'', VString ''object''),
      (''required'', VSlice [VString ''percent'', VString ''variantID'', VString ''variantKey'']),
      (''properties'', VMap [
         (''id'', VMap [
            (''type'', VString ''integer''),
            (''format'', VString ''int64''),
            (''minimum'', VNumber ''1''),
            (''readOnly'', VBool True)]),
         (''percent'', VMap [
            (''type'', VString ''integer''),
            (''format'', VString ''int64''),
            (''maximum'', VNumber ''100'')]),
         (''variantID'', VMap [
            (''type'', VString ''integer''),
            (''format'', VString ''int64''),
            (''minimum'', VNumber ''1'')]),
         (''variantKey'', VMap [(''type'', VString ''string''), (''minLength'', VNumber ''1'')])])]"

definition doc_def_error :: goval where
  "doc_def_error =
    VMap [
      (''type'', VString ''object''),
      (''required'', VSlice [VString ''message'']),
      (''properties'', VMap [(''message'', VMap [(''type'', VString ''string''), (''minLength'', VNumber ''1'')])])]"

definition doc_def_evalContext :: goval where
  "doc_def_evalContext =
    VMap [
      (''type'', VString ''object''),
      (''properties'', VMap [
         (''enableDebug'', VMap [(''type'', VString ''boolean'')]),
         (''entityContext'', VMap [(''type'', VString ''object'')]),
         (''entityID'', VMap [
            (''description'', VString (''entityID is used to deterministically at random to evaluate the flag result. If '' @
                 ''it'' @ [CHR 0x27] @ ''s empty, flagr will randomly generate one.'')),
            (''type'', VString ''string'')]),
         (''entityType'', VMap [(''type'', VString ''string'')]),
         (''flagID'', VMap [
            (''description'', VString ''flagID''),
            (''type'', VString ''integer''),
            (''format'', VString ''int64''),
            (''minimum'', VNumber ''1'')]),
         (''flagKey'', VMap [
            (''description'', VString ''flagKey. flagID or flagKey will resolve to the same flag. Either works.''),
            (''type'', VString ''string'')]),
         (''flagTags'', VMap [
            (''description'', VString ''flagTags. flagTags looks up flags by tag. Either works.''),
            (''type'', VString ''array''),
            (''items'', VMap [(''type'', VString ''string'')]),
            (''x-omitempty'', VBool True)]),
         (''flagTagsOperator'', VMap [
            (''description'', VString (''determine how flagTags is used to filter flags to be evaluated. OR extends the '' @
                 ''evaluation to those which contains at least one of the provided flagTags or AND '' @
                 ''limit the evaluation to those which contains all the flagTags.'')),
            (''type'', VString ''string''),
            (''default'', VString ''ANY''),
            (''enum'', VSlice [VString ''ANY'', VString ''ALL''])])])]"

definition doc_def_evalDebugLog :: goval where
  "doc_def_evalDebugLog =
    VMap [
      (''type'', VString ''object''),
      (''properties'', VMap [
         (''msg'', VMap [(''type'', VString ''string'')]),
         (''segmentDebugLogs'', VMap [
            (''type'', VString ''array''),
            (''items'', VMap [(''$ref'', VString ''#/definitions/segmentDebugLog'')])])])]"

definition doc_def_evalResult :: goval where
  "doc_def_evalResult =
    VMap [
      (''type'', VString ''object''),
      (''properties'', VMap [
         (''evalContext'', VMap [(''$ref'', VString ''#/definitions/evalContext'')]),
         (''evalDebugLog'', VMap [(''$ref'', VString ''#/definitions/evalDebugLog'')]),
         (''flagID'', VMap [(''type'', VString ''integer''), (''format'', VString ''int64'')]),
         (''flagKey'', VMap [(''type'', VString ''string'')]),
         (''flagSnapshotID'', VMap [(''type'', VString ''integer''), (''format'', VString ''int64'')]),
         (''flagTags'', VMap [
            (''description'', VString ''flagTags. flagTags looks up flags by tag. Either works.''),
            (''type'', VString ''array''),
            (''items'', VMap [(''type'', VString ''string'')]),
            (''x-omitempty'', VBool True)]),
         (''segmentID'', VMap [(''type'', VString ''integer''), (''format'', VString ''int64'')]),
         (''timestamp'', VMap [(''type'', VString ''string'')]),
         (''variantAttachment'', VMap [(''type'', VString ''object'')]),
         (''variantID'', VMap [(''type'', VString ''integer''), (''format'', VString ''int64'')]),
         (''variantKey'', VMap [(''type'', VString ''string'')])])]"

definition doc_def_evaluationBatchRequest :: goval where
  "doc_def_evaluationBatchRequest =
    VMap [
      (''type'', VString ''object''),
      (''required'', VSlice [VString ''entities'']),
      (''properties'', VMap [
         (''enableDebug'', VMap [(''type'', VString ''boolean'')]),
         (''entities'', VMap [
            (''type'', VString ''array''),
            (''minItems'', VNumber ''1''),
            (''items'', VMap [(''$ref'', VString ''#/definitions/evaluationEntity'')])]),
         (''flagIDs'', VMap [
            (''description'', VString ''flagIDs''),
            (''type'', VString ''array''),
            (''minItems'', VNumber ''1''),
            (''items'', VMap [
               (''type'', VString ''integer''),
               (''format'', VString ''int64''),
               (''minimum'', VNumber ''1'')])]),
         (''flagKeys'', VMap [
            (''description'', VString (''flagKeys. Either flagIDs, flagKeys or flagTags works. If pass in multiples, '' @
                 ''Flagr may return duplicate results.'')),
            (''type'', VString ''array''),
            (''minItems'', VNumber ''1''),
            (''items'', VMap [(''type'', VString ''string''), (''minLength'', VNumber ''1'')])]),
         (''flagTags'', VMap [
            (''description'', VString (''flagTags. Either flagIDs, flagKeys or flagTags works. If pass in multiples, '' @
                 ''Flagr may return duplicate results.'')),
            (''type'', VString ''array''),
            (''minItems'', VNumber ''1''),
            (''items'', VMap [(''type'', VString ''string''), (''minLength'', VNumber ''1'')])]),
         (''flagTagsOperator'', VMap [
            (''description'', VString (''determine how flagTags is used to filter flags to be evaluated. OR extends the '' @
                 ''evaluation to those which contains at least one of the provided flagTags or AND '' @
                 ''limit the evaluation to those which contains all the flagTags.'')),
            (''type'', VString ''string''),
            (''default'', VString ''ANY''),
            (''enum'', VSlice [VString ''ANY'', VString ''ALL''])])])]"

definition doc_def_evaluationBatchResponse :: goval where
  "doc_def_evaluationBatchResponse =
    VMap [
      (''type'', VString ''object''),
      (''required'', VSlice [VString ''evaluationResults'']),
      (''properties'', VMap [
         (''evaluationResults'', VMap [
            (''type'', VString ''array''),
            (''items'', VMap [(''$ref'', VString ''#/definitions/evalResult'')])])])]"

definition doc_def_evaluationEntity :: goval where
  "doc_def_evaluationEntity =
    VMap [
      (''type'', VString ''object''),
      (''properties'', VMap [
         (''entityContext'', VMap [(''type'', VString ''object'')]),
         (''entityID'', VMap [(''type'', VString ''string'')]),
         (''entityType'', VMap [(''type'', VString ''string'')])])]"

definition doc_def_flag :: goval where
  "doc_def_flag =
    VMap [
      (''type'', VString ''object''),
      (''required'', VSlice [VString ''description'', VString ''enabled'', VString ''dataRecordsEnabled'']),
      (''properties'', VMap [
         (''createdBy'', VMap [(''type'', VString ''string'')]),
         (''dataRecordsEnabled'', VMap [
            (''description'', VString (''enabled data records will get data logging in the metrics pipeline, for example, '' @
                 ''kafka.'')),
            (''type'', VString ''boolean'')]),
         (''description'', VMap [(''type'', VString ''string''), (''minLength'', VNumber ''1'')]),
         (''enabled'', VMap [(''type'', VString ''boolean'')]),
         (''entityType'', VMap [
            (''description'', VString (''it will override the entityType in the evaluation logs if it'' @ [CHR 0x27] @ ''s not empty'')),
            (''type'', VString ''string'')]),
         (''id'', VMap [
            (''type'', VString ''integer''),
            (''format'', VString ''int64''),
            (''minimum'', VNumber ''1''),
            (''readOnly'', VBool True)]),
         (''key'', VMap [
            (''description'', VString ''unique key representation of the flag''),
            (''type'', VString ''string''),
            (''minLength'', VNumber ''1'')]),
         (''notes'', VMap [
            (''description'', VString ''flag usage details in markdown format''),
            (''type'', VString ''string'')]),
         (''segments'', VMap [
            (''type'', VString ''array''),
            (''items'', VMap [(''$ref'', VString ''#/definitions/segment'')])]),
         (''tags'', VMap [
            (''type'', VString ''array''),
            (''items'', VMap [(''$ref'', VString ''#/definitions/tag'')])]),
         (''updatedAt'', VMap [(''type'', VString ''string''), (''format'', VString ''date-time'')]),
         (''updatedBy'', VMap [(''type'', VString ''string'')]),
         (''variants'', VMap [
            (''type'', VString ''array''),
            (''items'', VMap [(''$ref'', VString ''#/definitions/variant'')])])])]"

definition doc_def_flagSnapshot :: goval where
  "doc_def_flagSnapshot =
    VMap [
      (''type'', VString ''object''),
      (''required'', VSlice [VString ''id'', VString ''flag'', VString ''updatedAt'']),
      (''properties'', VMap [
         (''flag'', VMap [(''$ref'', VString ''#/definitions/flag'')]),
         (''id'', VMap [
            (''type'', VString ''integer''),
            (''format'', VString ''int64''),
            (''minimum'', VNumber ''1''),
            (''readOnly'', VBool True)]),
         (''updatedAt'', VMap [(''type'', VString ''string''), (''minLength'', VNumber ''1'')]),
         (''updatedBy'', VMap [(''type'', VString ''string'')])])]"

definition doc_def_health :: goval where
  "doc_def_health =
    VMap [
      (''type'', VString ''object''),
      (''properties'', VMap [(''status'', VMap [(''type'', VString ''string'')])])]"

definition doc_def_putDistributionsRequest :: goval where
  "doc_def_putDistributionsRequest =
    VMap [
      (''type'', VString ''object''),
      (''required'', VSlice [VString ''distributions'']),
      (''properties'', VMap [
         (''distributions'', VMap [
            (''type'', VString ''array''),
            (''items'', VMap [(''$ref'', VString ''#/definitions/distribution'')])])])]"

definition doc_def_putFlagRequest :: goval where
  "doc_def_putFlagRequest =
    VMap [
      (''type'', VString ''object''),
      (''properties'', VMap [
         (''dataRecordsEnabled'', VMap [
            (''description'', VString (''enabled data records will get data logging in the metrics pipeline, for example, '' @
                 ''kafka.'')),
            (''type'', VString ''boolean''),
            (''x-nullable'', VBool True)]),
         (''description'', VMap [
            (''type'', VString ''string''),
            (''minLength'', VNumber ''1''),
            (''x-nullable'', VBool True)]),
         (''enabled'', VMap [(''type'', VString ''boolean''), (''x-nullable'', VBool True)]),
         (''entityType'', VMap [
            (''description'', VString (''it will overwrite entityType into evaluation logs if it'' @ [CHR 0x27] @ ''s not empty'')),
            (''type'', VString ''string''),
            (''x-nullable'', VBool True)]),
         (''key'', VMap [(''type'', VString ''string''), (''x-nullable'', VBool True)]),
         (''notes'', VMap [(''type'', VString ''string''), (''x-nullable'', VBool True)])])]"

definition doc_def_putSegmentReorderRequest :: goval where
  "doc_def_putSegmentReorderRequest =
    VMap [
      (''type'', VString ''object''),
      (''required'', VSlice [VString ''segmentIDs'']),
      (''properties'', VMap [
         (''segmentIDs'', VMap [
            (''type'', VString ''array''),
            (''minItems'', VNumber ''1''),
            (''items'', VMap [
               (''type'', VString ''integer''),
               (''format'', VString ''int64''),
               (''minimum'', VNumber ''1'')])])])]"

definition doc_def_putSegmentRequest :: goval where
  "doc_def_putSegmentRequest =
    VMap [
      (''type'', VString ''object''),
      (''required'', VSlice [VString ''description'', VString ''rolloutPercent'']),
      (''properties'', VMap [
         (''description'', VMap [(''type'', VString ''string''), (''minLength'', VNumber ''1'')]),
         (''rolloutPercent'', VMap [
            (''type'', VString ''integer''),
            (''format'', VString ''int64''),
            (''maximum'', VNumber ''100'')])])]"

definition doc_def_putVariantRequest :: goval where
  "doc_def_putVariantRequest =
    VMap [
      (''type'', VString ''object''),
      (''required'', VSlice [VString ''key'']),
      (''properties'', VMap [
         (''attachment'', VMap [(''type'', VString ''object'')]),
         (''key'', VMap [(''type'', VString ''string''), (''minLength'', VNumber ''1'')])])]"

definition doc_def_segment :: goval where
  "doc_def_segment =
    VMap [
      (''type'', VString ''object''),
      (''required'', VSlice [VString ''description'', VString ''rank'', VString ''rolloutPercent'']),
      (''properties'', VMap [
         (''constraints'', VMap [
            (''type'', VString ''array''),
            (''items'', VMap [(''$ref'', VString ''#/definitions/constraint'')])]),
         (''description'', VMap [(''type'', VString ''string''), (''minLength'', VNumber ''1'')]),
         (''distributions'', VMap [
            (''type'', VString ''array''),
            (''items'', VMap [(''$ref'', VString ''#/definitions/distribution'')])]),
         (''id'', VMap [
            (''type'', VString ''integer''),
            (''format'', VString ''int64''),
            (''minimum'', VNumber ''1''),
            (''readOnly'', VBool True)]),
         (''rank'', VMap [(''type'', VString ''integer''), (''format'', VString ''int64'')]),
         (''rolloutPercent'', VMap [
            (''type'', VString ''integer''),
            (''format'', VString ''int64''),
            (''maximum'', VNumber ''100'')])])]"

definition doc_def_segmentDebugLog :: goval where
  "doc_def_segmentDebugLog =
    VMap [
      (''type'', VString ''object''),
      (''properties'', VMap [
         (''msg'', VMap [(''type'', VString ''string'')]),
         (''segmentID'', VMap [
            (''type'', VString ''integer''),
            (''format'', VString ''int64''),
            (''minimum'', VNumber ''1'')])])]"

definition doc_def_setFlagEnabledRequest :: goval where
  "doc_def_setFlagEnabledRequest =
    VMap [
      (''type'', VString ''object''),
      (''required'', VSlice [VString ''enabled'']),
      (''properties'', VMap [(''enabled'', VMap [(''type'', VString ''boolean'')])])]"

definition doc_def_tag :: goval where
  "doc_def_tag =
    VMap [
      (''type'', VString ''object''),
      (''required'', VSlice [VString ''value'']),
      (''properties'', VMap [
         (''id'', VMap [
            (''type'', VString ''integer''),
            (''format'', VString ''int64''),
            (''minimum'', VNumber ''1''),
            (''readOnly'', VBool True)]),
         (''value'', VMap [(''type'', VString ''string''), (''minLength'', VNumber ''1'')])])]"

definition doc_def_variant :: goval where
  "doc_def_variant =
    VMap [
      (''type'', VString ''object''),
      (''required'', VSlice [VString ''key'']),
      (''properties'', VMap [
         (''attachment'', VMap [(''type'', VString ''object'')]),
         (''id'', VMap [
            (''type'', VString ''integer''),
            (''format'', VString ''int64''),
            (''minimum'', VNumber ''1''),
            (''readOnly'', VBool True)]),
         (''key'', VMap [(''type'', VString ''string''), (''minLength'', VNumber ''1'')])])]"

definition doc_top_tags :: goval where
  "doc_top_tags =
    VSlice [
      VMap [(''description'', VString ''Everything about the flag''), (''name'', VString ''flag'')],
      VMap [
        (''description'', VString (''Segment defines the audience of the flag, it'' @ [CHR 0x27] @ ''s the user segmentation'')),
        (''name'', VString ''segment'')],
      VMap [
        (''description'', VString ''Constraint is the unit of defining a small subset of users''),
        (''name'', VString ''constraint'')],
      VMap [
        (''description'', VString ''Distribution is the percent distribution of variants within that segment''),
        (''name'', VString ''distribution'')],
      VMap [
        (''description'', VString ''Variants are the possible outcomes of flag evaluation''),
        (''name'', VString ''variant'')],
      VMap [
        (''description'', VString ''Evaluation is the process of evaluating a flag given the entity context''),
        (''name'', VString ''evaluation'')],
      VMap [(''description'', VString ''Check if Flagr is healthy''), (''name'', VString ''health'')]]"

definition doc_top_x_tagGroups :: goval where
  "doc_top_x_tagGroups =
    VSlice [
      VMap [
        (''name'', VString ''Flag Management''),
        (''tags'', VSlice [
           VString ''flag'',
           VString ''segment'',
           VString ''constraint'',
           VString ''distribution'',
           VString ''variant'',
           VString ''tag''])],
      VMap [(''name'', VString ''Flag Evaluation''), (''tags'', VSlice [VString ''evaluation''])],
      VMap [(''name'', VString ''Health Check''), (''tags'', VSlice [VString ''health''])],
      VMap [(''name'', VString ''Export''), (''tags'', VSlice [VString ''export''])]]"

definition doc_paths :: "(string \<times> goval) list" where
  "doc_paths = [
     (''/evaluation'', doc_evaluation),
     (''/evaluation/batch'', doc_evaluation_batch),
     (''/export/eval_cache/json'', doc_export_eval_cache_json),
     (''/export/sqlite'', doc_export_sqlite),
     (''/flags'', doc_flags),
     (''/flags/entity_types'', doc_flags_entity_types),
     (''/flags/{flagID}'', doc_flags_flagID),
     (''/flags/{flagID}/enabled'', doc_flags_flagID_enabled),
     (''/flags/{flagID}/restore'', doc_flags_flagID_restore),
     (''/flags/{flagID}/segments'', doc_flags_flagID_segments),
     (''/flags/{flagID}/segments/reorder'', doc_flags_flagID_segments_reorder),
     (''/flags/{flagID}/segments/{segmentID}'', doc_flags_flagID_segments_segmentID),
     (''/flags/{flagID}/segments/{segmentID}/constraints'', doc_flags_flagID_segments_segmentID_constraints),
     (''/flags/{flagID}/segments/{segmentID}/constraints/{constraintID}'', doc_flags_flagID_segments_segmentID_constraints_constraintID),
     (''/flags/{flagID}/segments/{segmentID}/distributions'', doc_flags_flagID_segments_segmentID_distributions),
     (''/flags/{flagID}/snapshots'', doc_flags_flagID_snapshots),
     (''/flags/{flagID}/tags'', doc_flags_flagID_tags),
     (''/flags/{flagID}/tags/{tagID}'', doc_flags_flagID_tags_tagID),
     (''/flags/{flagID}/variants'', doc_flags_flagID_variants),
     (''/flags/{flagID}/variants/{variantID}'', doc_flags_flagID_variants_variantID),
     (''/health'', doc_health),
     (''/tags'', doc_tags)]"

definition doc_definitions :: "(string \<times> goval) list" where
  "doc_definitions = [
     (''constraint'', doc_def_constraint),
     (''createConstraintRequest'', doc_def_createConstraintRequest),
     (''createFlagRequest'', doc_def_createFlagRequest),
     (''createSegmentRequest'', doc_def_createSegmentRequest),
     (''createTagRequest'', doc_def_createTagRequest),
     (''createVariantRequest'', doc_def_createVariantRequest),
     (''distribution'', doc_def_distribution),
     (''error'', doc_def_error),
     (''evalContext'', doc_def_evalContext),
     (''evalDebugLog'', doc_def_evalDebugLog),
     (''evalResult'', doc_def_evalResult),
     (''evaluationBatchRequest'', doc_def_evaluationBatchRequest),
     (''evaluationBatchResponse'', doc_def_evaluationBatchResponse),
     (''evaluationEntity'', doc_def_evaluationEntity),
     (''flag'', doc_def_flag),
     (''flagSnapshot'', doc_def_flagSnapshot),
     (''health'', doc_def_health),
     (''putDistributionsRequest'', doc_def_putDistributionsRequest),
     (''putFlagRequest'', doc_def_putFlagRequest),
     (''putSegmentReorderRequest'', doc_def_putSegmentReorderRequest),
     (''putSegmentRequest'', doc_def_putSegmentRequest),
     (''putVariantRequest'', doc_def_putVariantRequest),
     (''segment'', doc_def_segment),
     (''segmentDebugLog'', doc_def_segmentDebugLog),
     (''setFlagEnabledRequest'', doc_def_setFlagEnabledRequest),
     (''tag'', doc_def_tag),
     (''variant'', doc_def_variant)]"

definition SwaggerJSON :: goval where
  "SwaggerJSON = VMap [
     (''consumes'', VSlice [VString ''application/json'']),
     (''produces'', VSlice [VString ''application/json'']),
     (''schemes'', VSlice [VString ''http'']),
     (''swagger'', VString ''2.0''),
     (''info'', VMap [
         (''description'', VString (''Flagr is a feature flagging, A/B testing and dynamic configuration microservice. '' @
              ''The base path for all the APIs is \"/api/v1\".'' @ [CHR 0x0A])),
         (''title'', VString ''Flagr''),
         (''version'', VString ''1.1.20'')]),
     (''basePath'', VString ''/api/v1''),
     (''paths'', VMap doc_paths),
     (''definitions'', VMap doc_definitions),
     (''tags'', doc_top_tags),
     (''x-tagGroups'', doc_top_x_tagGroups)]"

end
