(* ===== verification/Flagr_Conform.thy ===== *)
theory Flagr_Conform
  imports Flagr_Spec Flagr_FlatSpec Flagr_Api Flagr_Models
begin

text \<open>
  What the embedded specification (\<^verbatim>\<open>swagger_gen/restapi/embedded_spec.go\<close>) says, compared with
  the code generated from it: the operations it declares with the handlers of
  \<^verbatim>\<open>operations/flagr_api.go\<close>, the schemas of the request bodies with the \<^verbatim>\<open>Validate\<close>
  methods of \<^verbatim>\<open>swagger_gen/models\<close>, and the published document with the flattened one. A body
  meets a schema by way of the JSON text its \<^verbatim>\<open>MarshalBinary\<close> writes.
\<close>

section \<open>JSON objects\<close>

definition member :: "string \<Rightarrow> goval \<Rightarrow> goval option" where
  "member k v = (case v of VMap ms \<Rightarrow> map_of ms k | _ \<Rightarrow> None)"

definition object_members :: "goval \<Rightarrow> (string \<times> goval) list" where
  "object_members v = (case v of VMap ms \<Rightarrow> ms | _ \<Rightarrow> [])"

definition elements :: "goval \<Rightarrow> goval list" where
  "elements v = (case v of VSlice vs \<Rightarrow> vs | _ \<Rightarrow> [])"

definition text_of :: "goval option \<Rightarrow> string" where
  "text_of v = (case v of Some (VString s) \<Rightarrow> s | _ \<Rightarrow> [])"

text \<open>
  What \<^verbatim>\<open>encoding/json\<close> writes for the fields of a struct: a nil pointer or slice is null, and a
  field marked \<^verbatim>\<open>omitempty\<close> is left out when it is zero.
\<close>

definition json_ptr :: "('a \<Rightarrow> goval) \<Rightarrow> 'a option \<Rightarrow> goval" where
  "json_ptr f p = (case p of None \<Rightarrow> VNil | Some x \<Rightarrow> f x)"

definition json_int :: "i64 \<Rightarrow> goval" where
  "json_int n = VNumber (dec_int n)"

definition json_list :: "('a \<Rightarrow> goval) \<Rightarrow> 'a list \<Rightarrow> goval" where
  "json_list f xs = VSlice (map f xs)"

definition omit_ptr :: "string \<Rightarrow> ('a \<Rightarrow> goval) \<Rightarrow> 'a option \<Rightarrow> (string \<times> goval) list" where
  "omit_ptr k f p = (case p of None \<Rightarrow> [] | Some x \<Rightarrow> [(k, f x)])"

definition omit_string :: "string \<Rightarrow> string \<Rightarrow> (string \<times> goval) list" where
  "omit_string k s = (if s = [] then [] else [(k, VString s)])"

definition omit_int :: "string \<Rightarrow> i64 \<Rightarrow> (string \<times> goval) list" where
  "omit_int k n = (if n = 0 then [] else [(k, json_int n)])"

definition omit_bool :: "string \<Rightarrow> bool \<Rightarrow> (string \<times> goval) list" where
  "omit_bool k b = (if b then [(k, VBool True)] else [])"

definition omit_any :: "string \<Rightarrow> goval \<Rightarrow> (string \<times> goval) list" where
  "omit_any k v = (if v = VNil then [] else [(k, v)])"

definition omit_slice :: "string \<Rightarrow> ('a \<Rightarrow> goval) \<Rightarrow> 'a list option \<Rightarrow> (string \<times> goval) list" where
  "omit_slice k f p = (case p of None \<Rightarrow> [] | Some xs \<Rightarrow> if xs = [] then [] else [(k, json_list f xs)])"

section \<open>Schemas\<close>

text \<open>
  The part of JSON Schema that the specification uses: references into the definitions, types,
  bounds, lengths, enumerations, items, required members and properties. Formats are those of
  the types, and a member the schema does not name is free. The documents are bodies of requests, in which a
  property that is marked as read only must not be sent.
\<close>

definition resolve :: "goval \<Rightarrow> goval \<Rightarrow> goval" where
  "resolve doc s =
     (case member ''$ref'' s of
        Some (VString r) \<Rightarrow> (case member ''definitions'' doc of
            None \<Rightarrow> VNil
          | Some ds \<Rightarrow> (case member (drop (length ''#/definitions/'') r) ds of None \<Rightarrow> VNil | Some d \<Rightarrow> d))
      | _ \<Rightarrow> s)"

definition number_value :: "string \<Rightarrow> int" where
  "number_value n = (case n of [] \<Rightarrow> 0 | c # cs \<Rightarrow> if c = CHR ''-'' then - int (undec cs) else int (undec n))"

definition integral :: "string \<Rightarrow> bool" where
  "integral n = list_all (\<lambda>c. is_digit c \<or> c = CHR ''-'') n"

definition has_type :: "goval \<Rightarrow> string \<Rightarrow> bool" where
  "has_type v t =
     (case v of
        VBool _ \<Rightarrow> t = ''boolean''
      | VNumber n \<Rightarrow> t = ''number'' \<or> t = ''integer'' \<and> integral n
      | VString _ \<Rightarrow> t = ''string''
      | VSlice _ \<Rightarrow> t = ''array''
      | VMap _ \<Rightarrow> t = ''object''
      | _ \<Rightarrow> False)"

definition type_met :: "goval \<Rightarrow> goval \<Rightarrow> bool" where
  "type_met s v = (case member ''type'' s of Some (VString t) \<Rightarrow> has_type v t | _ \<Rightarrow> True)"

definition limit_met :: "string \<Rightarrow> goval \<Rightarrow> (int \<Rightarrow> bool) \<Rightarrow> bool" where
  "limit_met k s p = (case member k s of Some (VNumber n) \<Rightarrow> p (number_value n) | _ \<Rightarrow> True)"

definition enum_met :: "goval \<Rightarrow> goval \<Rightarrow> bool" where
  "enum_met s v = (case member ''enum'' s of Some e \<Rightarrow> v \<in> set (elements e) | None \<Rightarrow> True)"

definition required_met :: "goval \<Rightarrow> (string \<times> goval) list \<Rightarrow> bool" where
  "required_met s ms =
     (case member ''required'' s of
        Some r \<Rightarrow> list_all (\<lambda>k. case k of VString t \<Rightarrow> map_of ms t \<noteq> None | _ \<Rightarrow> True) (elements r)
      | None \<Rightarrow> True)"

definition property_schema :: "goval \<Rightarrow> string \<Rightarrow> goval option" where
  "property_schema s k = (case member ''properties'' s of Some p \<Rightarrow> member k p | None \<Rightarrow> None)"

definition read_only :: "goval \<Rightarrow> bool" where
  "read_only p = (case member ''readOnly'' p of Some (VBool b) \<Rightarrow> b | _ \<Rightarrow> False)"

fun conforms :: "goval \<Rightarrow> goval \<Rightarrow> goval \<Rightarrow> bool" where
  "conforms doc s (VMap ms) =
     (type_met (resolve doc s) (VMap ms) \<and> required_met (resolve doc s) ms \<and>
      list_all (\<lambda>(k, w). case property_schema (resolve doc s) k of
          None \<Rightarrow> True | Some p \<Rightarrow> \<not> read_only p \<and> conforms doc p w) ms)"
| "conforms doc s (VSlice vs) =
     (type_met (resolve doc s) (VSlice vs) \<and>
      limit_met ''minItems'' (resolve doc s) (\<lambda>n. n \<le> int (length vs)) \<and>
      list_all (\<lambda>w. case member ''items'' (resolve doc s) of None \<Rightarrow> True | Some i \<Rightarrow> conforms doc i w) vs)"
| "conforms doc s (VString t) =
     (type_met (resolve doc s) (VString t) \<and> enum_met (resolve doc s) (VString t) \<and>
      limit_met ''minLength'' (resolve doc s) (\<lambda>n. n \<le> int (length t)))"
| "conforms doc s (VNumber n) =
     (type_met (resolve doc s) (VNumber n) \<and> enum_met (resolve doc s) (VNumber n) \<and>
      limit_met ''minimum'' (resolve doc s) (\<lambda>m. m \<le> number_value n) \<and>
      limit_met ''maximum'' (resolve doc s) (\<lambda>m. number_value n \<le> m))"
| "conforms doc s v = type_met (resolve doc s) v"

text \<open>A document meets a named definition of the specification.\<close>

definition meets :: "goval \<Rightarrow> string \<Rightarrow> goval \<Rightarrow> bool" where
  "meets doc name v = conforms doc (VMap [(''$ref'', VString (''#/definitions/'' @ name))]) v"

section \<open>The JSON texts of the bodies\<close>

definition m_distribution_MarshalBinary :: "m_distribution \<Rightarrow> goval" where
  "m_distribution_MarshalBinary m = VMap (omit_int ''id'' (MD_ID m) @
     [(''percent'', json_ptr json_int (MD_Percent m)), (''variantID'', json_ptr json_int (MD_VariantID m)),
      (''variantKey'', json_ptr VString (MD_VariantKey m))])"

definition CreateFlagRequest_MarshalBinary :: "create_flag_request \<Rightarrow> goval" where
  "CreateFlagRequest_MarshalBinary m = VMap ((''description'', json_ptr VString (CFR_Description m)) #
     omit_string ''key'' (CFR_Key m) @ omit_string ''template'' (CFR_Template m))"

definition PutFlagRequest_MarshalBinary :: "put_flag_request \<Rightarrow> goval" where
  "PutFlagRequest_MarshalBinary m = VMap
     (omit_ptr ''dataRecordsEnabled'' VBool (PFR_DataRecordsEnabled m) @
      omit_ptr ''description'' VString (PFR_Description m) @ omit_ptr ''enabled'' VBool (PFR_Enabled m) @
      omit_ptr ''entityType'' VString (PFR_EntityType m) @ omit_ptr ''key'' VString (PFR_Key m) @
      omit_ptr ''notes'' VString (PFR_Notes m))"

definition SetFlagEnabledRequest_MarshalBinary :: "set_flag_enabled_request \<Rightarrow> goval" where
  "SetFlagEnabledRequest_MarshalBinary m = VMap [(''enabled'', json_ptr VBool (SFR_Enabled m))]"

definition CreateSegmentRequest_MarshalBinary :: "create_segment_request \<Rightarrow> goval" where
  "CreateSegmentRequest_MarshalBinary m = VMap
     [(''description'', json_ptr VString (SR_Description m)),
      (''rolloutPercent'', json_ptr json_int (SR_RolloutPercent m))]"

definition PutSegmentRequest_MarshalBinary :: "put_segment_request \<Rightarrow> goval" where
  "PutSegmentRequest_MarshalBinary m = VMap
     [(''description'', json_ptr VString (SR_Description m)),
      (''rolloutPercent'', json_ptr json_int (SR_RolloutPercent m))]"

definition PutSegmentReorderRequest_MarshalBinary :: "put_segment_reorder_request \<Rightarrow> goval" where
  "PutSegmentReorderRequest_MarshalBinary m = VMap
     [(''segmentIDs'', json_ptr (json_list json_int) (PSR_SegmentIDs m))]"

definition CreateConstraintRequest_MarshalBinary :: "create_constraint_request \<Rightarrow> goval" where
  "CreateConstraintRequest_MarshalBinary m = VMap
     [(''operator'', json_ptr VString (CCR_Operator m)), (''property'', json_ptr VString (CCR_Property m)),
      (''value'', json_ptr VString (CCR_Value m))]"

definition PutDistributionsRequest_MarshalBinary :: "put_distributions_request \<Rightarrow> goval" where
  "PutDistributionsRequest_MarshalBinary m = VMap
     [(''distributions'', json_ptr (json_list (json_ptr m_distribution_MarshalBinary)) (PDR_Distributions m))]"

definition CreateVariantRequest_MarshalBinary :: "create_variant_request \<Rightarrow> goval" where
  "CreateVariantRequest_MarshalBinary m = VMap
     (omit_any ''attachment'' (VR_Attachment m) @ [(''key'', json_ptr VString (VR_Key m))])"

definition PutVariantRequest_MarshalBinary :: "put_variant_request \<Rightarrow> goval" where
  "PutVariantRequest_MarshalBinary m = VMap
     (omit_any ''attachment'' (VR_Attachment m) @ [(''key'', json_ptr VString (VR_Key m))])"

definition CreateTagRequest_MarshalBinary :: "create_tag_request \<Rightarrow> goval" where
  "CreateTagRequest_MarshalBinary m = VMap [(''value'', json_ptr VString (CTR_Value m))]"

definition EvalContext_MarshalBinary :: "m_eval_context \<Rightarrow> goval" where
  "EvalContext_MarshalBinary m = VMap
     (omit_bool ''enableDebug'' (MEC_EnableDebug m) @ omit_any ''entityContext'' (MEC_EntityContext m) @
      omit_string ''entityID'' (MEC_EntityID m) @ omit_string ''entityType'' (MEC_EntityType m) @
      omit_int ''flagID'' (MEC_FlagID m) @ omit_string ''flagKey'' (MEC_FlagKey m) @
      omit_slice ''flagTags'' VString (MEC_FlagTags m) @
      omit_ptr ''flagTagsOperator'' VString (MEC_FlagTagsOperator m))"

definition EvaluationEntity_MarshalBinary :: "m_evaluation_entity \<Rightarrow> goval" where
  "EvaluationEntity_MarshalBinary m = VMap
     (omit_any ''entityContext'' (MEE_EntityContext m) @ omit_string ''entityID'' (MEE_EntityID m) @
      omit_string ''entityType'' (MEE_EntityType m))"

definition EvaluationBatchRequest_MarshalBinary :: "m_evaluation_batch_request \<Rightarrow> goval" where
  "EvaluationBatchRequest_MarshalBinary m = VMap
     (omit_bool ''enableDebug'' (MBR_EnableDebug m) @
      [(''entities'', json_ptr (json_list (json_ptr EvaluationEntity_MarshalBinary)) (MBR_Entities m)),
       (''flagIDs'', json_ptr (json_list json_int) (MBR_FlagIDs m)),
       (''flagKeys'', json_ptr (json_list VString) (MBR_FlagKeys m)),
       (''flagTags'', json_ptr (json_list VString) (MBR_FlagTags m))] @
      omit_ptr ''flagTagsOperator'' VString (MBR_FlagTagsOperator m))"

section \<open>Validation is conformance\<close>

lemma number_value_dec_int [simp]: "number_value (dec_int n) = sint n"
proof -
  have "number_value (dec k) = int k" for k
  proof (cases "dec k")
    case Nil
    then show ?thesis by simp
  next
    case (Cons c cs)
    then have "c \<noteq> CHR ''-''" using dec_digits [of c k] by (auto simp: is_digit_def)
    then show ?thesis using undec_dec [of k] by (simp add: number_value_def Cons)
  qed
  moreover have "number_value (CHR ''-'' # dec k) = - int k" for k
    by (simp add: number_value_def undec_dec)
  ultimately show ?thesis by (simp add: dec_int_def)
qed

lemma integral_dec_int [simp]: "integral (dec_int n)"
  using dec_digits by (auto simp: integral_def dec_int_def list_all_iff)

lemma number_value_small:
  "number_value ''0'' = 0" "number_value ''1'' = 1" "number_value ''100'' = 100"
  by (simp_all add: number_value_def undec_def)

lemma map_of_omit [simp]:
  "map_of (omit_ptr k f p) j = (if j = k then map_option f p else None)"
  "map_of (omit_string k s) j = (if j = k \<and> s \<noteq> [] then Some (VString s) else None)"
  "map_of (omit_int k n) j = (if j = k \<and> n \<noteq> 0 then Some (json_int n) else None)"
  "map_of (omit_bool k b) j = (if j = k \<and> b then Some (VBool True) else None)"
  "map_of (omit_any k v) j = (if j = k \<and> v \<noteq> VNil then Some v else None)"
  "map_of (omit_slice k g q) j = (if j = k \<and> q \<noteq> None \<and> q \<noteq> Some [] then map_option (json_list g) q else None)"
  by (auto simp: omit_ptr_def omit_string_def omit_int_def omit_bool_def omit_any_def omit_slice_def
      split: option.split)

lemma list_all_omit [simp]:
  "list_all P (omit_ptr k f p) \<longleftrightarrow> (\<forall>x. p = Some x \<longrightarrow> P (k, f x))"
  "list_all P (omit_string k s) \<longleftrightarrow> s = [] \<or> P (k, VString s)"
  "list_all P (omit_int k n) \<longleftrightarrow> n = 0 \<or> P (k, json_int n)"
  "list_all P (omit_bool k b) \<longleftrightarrow> \<not> b \<or> P (k, VBool True)"
  "list_all P (omit_any k v) \<longleftrightarrow> v = VNil \<or> P (k, v)"
  "list_all P (omit_slice k g q) \<longleftrightarrow> (\<forall>xs. q = Some xs \<longrightarrow> xs = [] \<or> P (k, json_list g xs))"
  by (auto simp: omit_ptr_def omit_string_def omit_int_def omit_bool_def omit_any_def omit_slice_def
      split: option.split)

lemmas schema_simps = resolve_def member_def object_members_def elements_def type_met_def has_type_def limit_met_def enum_met_def
  required_met_def property_schema_def number_value_small read_only_def

lemma check_all_empty: "check_all es = [] \<longleftrightarrow> list_all (\<lambda>e. e = None) es"
  by (induction es) (auto simp: check_all_def map_filter_simps split: option.split)

lemma check_first_none: "check_first es = None \<longleftrightarrow> list_all (\<lambda>e. e = None) es"
  by (induction es) (auto split: option.split)

lemma definitions_of:
  "member ''definitions'' FlatSwaggerJSON = Some (VMap flat_definitions)"
  "member ''definitions'' SwaggerJSON = Some (VMap doc_definitions)"
  by (simp_all add: FlatSwaggerJSON_def SwaggerJSON_def member_def)

lemma meets_definition:
  assumes "member ''definitions'' doc = Some (VMap ds)" "map_of ds name = Some s" "member ''$ref'' s = None"
  shows "meets doc name v = conforms doc s v"
proof -
  have "member ''$ref'' (VMap [(''$ref'', VString r)]) = Some (VString r)" for r
    by (simp add: member_def)
  moreover have "member name (VMap ds) = Some s"
    using assms(2) by (simp add: member_def)
  ultimately have "resolve doc (VMap [(''$ref'', VString (''#/definitions/'' @ name))]) = s"
    by (simp add: resolve_def assms(1))
  moreover have "resolve doc s = s"
    using assms(3) by (simp add: resolve_def)
  ultimately show ?thesis by (cases v) (simp_all add: meets_def)
qed

lemma meets_flat:
  "meets FlatSwaggerJSON ''distribution'' v = conforms FlatSwaggerJSON flat_def_distribution v"
  "meets FlatSwaggerJSON ''createFlagRequest'' v = conforms FlatSwaggerJSON flat_def_createFlagRequest v"
  "meets FlatSwaggerJSON ''putFlagRequest'' v = conforms FlatSwaggerJSON flat_def_putFlagRequest v"
  "meets FlatSwaggerJSON ''setFlagEnabledRequest'' v = conforms FlatSwaggerJSON flat_def_setFlagEnabledRequest v"
  "meets FlatSwaggerJSON ''createSegmentRequest'' v = conforms FlatSwaggerJSON flat_def_createSegmentRequest v"
  "meets FlatSwaggerJSON ''putSegmentRequest'' v = conforms FlatSwaggerJSON flat_def_putSegmentRequest v"
  "meets FlatSwaggerJSON ''putSegmentReorderRequest'' v = conforms FlatSwaggerJSON flat_def_putSegmentReorderRequest v"
  "meets FlatSwaggerJSON ''createConstraintRequest'' v = conforms FlatSwaggerJSON flat_def_createConstraintRequest v"
  "meets FlatSwaggerJSON ''putDistributionsRequest'' v = conforms FlatSwaggerJSON flat_def_putDistributionsRequest v"
  "meets FlatSwaggerJSON ''createVariantRequest'' v = conforms FlatSwaggerJSON flat_def_createVariantRequest v"
  "meets FlatSwaggerJSON ''putVariantRequest'' v = conforms FlatSwaggerJSON flat_def_putVariantRequest v"
  "meets FlatSwaggerJSON ''createTagRequest'' v = conforms FlatSwaggerJSON flat_def_createTagRequest v"
  "meets FlatSwaggerJSON ''evalContext'' v = conforms FlatSwaggerJSON flat_def_evalContext v"
  "meets FlatSwaggerJSON ''evaluationEntity'' v = conforms FlatSwaggerJSON flat_def_evaluationEntity v"
  "meets FlatSwaggerJSON ''evaluationBatchRequest'' v = conforms FlatSwaggerJSON flat_def_evaluationBatchRequest v"
  subgoal by (rule meets_definition [OF definitions_of(1)]) (simp_all add: flat_definitions_def flat_def_distribution_def member_def)
  subgoal by (rule meets_definition [OF definitions_of(1)]) (simp_all add: flat_definitions_def flat_def_createFlagRequest_def member_def)
  subgoal by (rule meets_definition [OF definitions_of(1)]) (simp_all add: flat_definitions_def flat_def_putFlagRequest_def member_def)
  subgoal by (rule meets_definition [OF definitions_of(1)]) (simp_all add: flat_definitions_def flat_def_setFlagEnabledRequest_def member_def)
  subgoal by (rule meets_definition [OF definitions_of(1)]) (simp_all add: flat_definitions_def flat_def_createSegmentRequest_def member_def)
  subgoal by (rule meets_definition [OF definitions_of(1)]) (simp_all add: flat_definitions_def flat_def_putSegmentRequest_def member_def)
  subgoal by (rule meets_definition [OF definitions_of(1)]) (simp_all add: flat_definitions_def flat_def_putSegmentReorderRequest_def member_def)
  subgoal by (rule meets_definition [OF definitions_of(1)]) (simp_all add: flat_definitions_def flat_def_createConstraintRequest_def member_def)
  subgoal by (rule meets_definition [OF definitions_of(1)]) (simp_all add: flat_definitions_def flat_def_putDistributionsRequest_def member_def)
  subgoal by (rule meets_definition [OF definitions_of(1)]) (simp_all add: flat_definitions_def flat_def_createVariantRequest_def member_def)
  subgoal by (rule meets_definition [OF definitions_of(1)]) (simp_all add: flat_definitions_def flat_def_putVariantRequest_def member_def)
  subgoal by (rule meets_definition [OF definitions_of(1)]) (simp_all add: flat_definitions_def flat_def_createTagRequest_def member_def)
  subgoal by (rule meets_definition [OF definitions_of(1)]) (simp_all add: flat_definitions_def flat_def_evalContext_def member_def)
  subgoal by (rule meets_definition [OF definitions_of(1)]) (simp_all add: flat_definitions_def flat_def_evaluationEntity_def member_def)
  subgoal by (rule meets_definition [OF definitions_of(1)]) (simp_all add: flat_definitions_def flat_def_evaluationBatchRequest_def member_def)
  done

lemmas check_simps = check_all_empty required_string_def required_percent_def required_min_def optional_id_def
  validate_MinLength_def validate_MinimumInt_def validate_MaximumInt_def validate_MinItems_def
  validate_FlagTagsOperatorEnum_def json_ptr_def json_int_def json_list_def Suc_le_eq

lemma CreateFlag_meets:
  "meets FlatSwaggerJSON ''createFlagRequest'' (CreateFlagRequest_MarshalBinary m) \<longleftrightarrow> CreateFlagRequest_Validate m = []"
  unfolding meets_flat flat_def_createFlagRequest_def CreateFlagRequest_MarshalBinary_def CreateFlagRequest_Validate_def
  by (auto simp: schema_simps check_simps split: option.split)

lemma PutFlag_meets:
  "meets FlatSwaggerJSON ''putFlagRequest'' (PutFlagRequest_MarshalBinary m) \<longleftrightarrow> PutFlagRequest_Validate m = []"
  unfolding meets_flat flat_def_putFlagRequest_def PutFlagRequest_MarshalBinary_def PutFlagRequest_Validate_def
  by (auto simp: schema_simps check_simps split: option.split)

lemma SetFlagEnabled_meets:
  "meets FlatSwaggerJSON ''setFlagEnabledRequest'' (SetFlagEnabledRequest_MarshalBinary m) \<longleftrightarrow>
   SetFlagEnabledRequest_Validate m = []"
  unfolding meets_flat flat_def_setFlagEnabledRequest_def SetFlagEnabledRequest_MarshalBinary_def
    SetFlagEnabledRequest_Validate_def
  by (auto simp: schema_simps check_simps split: option.split)

lemma CreateSegment_meets:
  "meets FlatSwaggerJSON ''createSegmentRequest'' (CreateSegmentRequest_MarshalBinary m) \<longleftrightarrow>
   CreateSegmentRequest_Validate m = []"
  unfolding meets_flat flat_def_createSegmentRequest_def CreateSegmentRequest_MarshalBinary_def
    CreateSegmentRequest_Validate_def
  by (auto simp: schema_simps check_simps split: option.split)

lemma PutSegment_meets:
  "meets FlatSwaggerJSON ''putSegmentRequest'' (PutSegmentRequest_MarshalBinary m) \<longleftrightarrow>
   PutSegmentRequest_Validate m = []"
  unfolding meets_flat flat_def_putSegmentRequest_def PutSegmentRequest_MarshalBinary_def
    PutSegmentRequest_Validate_def
  by (auto simp: schema_simps check_simps split: option.split)

lemma CreateConstraint_meets:
  "meets FlatSwaggerJSON ''createConstraintRequest'' (CreateConstraintRequest_MarshalBinary m) \<longleftrightarrow>
   CreateConstraintRequest_Validate m = []"
  unfolding meets_flat flat_def_createConstraintRequest_def CreateConstraintRequest_MarshalBinary_def
    CreateConstraintRequest_Validate_def
  by (auto simp: schema_simps check_simps split: option.split)

lemma CreateTag_meets:
  "meets FlatSwaggerJSON ''createTagRequest'' (CreateTagRequest_MarshalBinary m) \<longleftrightarrow>
   CreateTagRequest_Validate m = []"
  unfolding meets_flat flat_def_createTagRequest_def CreateTagRequest_MarshalBinary_def
    CreateTagRequest_Validate_def
  by (auto simp: schema_simps check_simps split: option.split)

text \<open>The attachment is of any type in the Go struct, and an object in the schema.\<close>

definition object_or_nil :: "goval \<Rightarrow> bool" where
  "object_or_nil v = (case v of VNil \<Rightarrow> True | VMap _ \<Rightarrow> True | _ \<Rightarrow> False)"

lemma conforms_any_object:
  "(v = VNil \<or> conforms doc (VMap [(''type'', VString ''object'')]) v) \<longleftrightarrow> object_or_nil v"
  by (cases v) (auto simp: schema_simps object_or_nil_def list_all_iff split: option.split)

lemma CreateVariant_meets:
  "meets FlatSwaggerJSON ''createVariantRequest'' (CreateVariantRequest_MarshalBinary m) \<longleftrightarrow>
   CreateVariantRequest_Validate m = [] \<and> object_or_nil (VR_Attachment m)"
  unfolding meets_flat flat_def_createVariantRequest_def CreateVariantRequest_MarshalBinary_def
    CreateVariantRequest_Validate_def
  by (auto simp: schema_simps check_simps conforms_any_object split: option.split)

lemma PutVariant_meets:
  "meets FlatSwaggerJSON ''putVariantRequest'' (PutVariantRequest_MarshalBinary m) \<longleftrightarrow>
   PutVariantRequest_Validate m = [] \<and> object_or_nil (VR_Attachment m)"
  unfolding meets_flat flat_def_putVariantRequest_def PutVariantRequest_MarshalBinary_def
    PutVariantRequest_Validate_def
  by (auto simp: schema_simps check_simps conforms_any_object split: option.split)

lemma distribution_meets:
  "conforms FlatSwaggerJSON flat_def_distribution (m_distribution_MarshalBinary m) \<longleftrightarrow>
   m_distribution_Validate m = [] \<and> m_distribution_ContextValidate True m = []"
  unfolding flat_def_distribution_def m_distribution_MarshalBinary_def m_distribution_Validate_def
    m_distribution_ContextValidate_def
  by (auto simp: schema_simps check_simps validate_ReadOnly_def split: option.split)

text \<open>The references of the bodies into the definitions.\<close>

lemma conforms_reference:
  "conforms FlatSwaggerJSON (VMap [(''$ref'', VString ''#/definitions/distribution'')]) v =
     conforms FlatSwaggerJSON flat_def_distribution v"
  "conforms FlatSwaggerJSON (VMap [(''$ref'', VString ''#/definitions/evaluationEntity'')]) v =
     conforms FlatSwaggerJSON flat_def_evaluationEntity v"
  using meets_flat by (simp_all add: meets_def)

lemma conforms_nil: "resolve doc s = s \<Longrightarrow> member ''type'' s = Some (VString t) \<Longrightarrow> \<not> conforms doc s VNil"
  by (simp add: type_met_def has_type_def)

lemma nil_not_distribution: "\<not> conforms FlatSwaggerJSON flat_def_distribution VNil"
  by (simp add: flat_def_distribution_def schema_simps)

lemma nil_not_entity: "\<not> conforms FlatSwaggerJSON flat_def_evaluationEntity VNil"
  by (simp add: flat_def_evaluationEntity_def schema_simps)

lemma validate_entries_none:
  "validate_entries V name i xs = None \<longleftrightarrow> (\<forall>m. Some m \<in> set xs \<longrightarrow> V m = [])"
  by (induction xs arbitrary: i) (auto split: option.split list.split)

lemma validate_ids_none: "validate_ids i ns = None \<longleftrightarrow> (\<forall>n \<in> set ns. 1 \<le> sint n)"
  by (induction ns arbitrary: i) (auto simp: validate_MinimumInt_def split: option.split)

lemma validate_items_none:
  assumes "\<And>x path. V x path = None \<longleftrightarrow> P x"
  shows "validate_items V name i xs = None \<longleftrightarrow> (\<forall>x \<in> set xs. P x)"
proof (induction xs arbitrary: i)
  case (Cons x xs)
  then show ?case using assms [of x] by (cases "V x (name @ ''.'' @ dec i)") auto
qed simp

lemma all_entries:
  "(\<forall>x \<in> set xs. case x of None \<Rightarrow> False | Some m \<Rightarrow> P m) \<longleftrightarrow> None \<notin> set xs \<and> (\<forall>m. Some m \<in> set xs \<longrightarrow> P m)"
  by (induction xs) (auto split: option.splits)

text \<open>What only the schema refuses: null entries, and contexts that are not objects.\<close>

definition no_nulls :: "'a option list option \<Rightarrow> bool" where
  "no_nulls q = (case q of None \<Rightarrow> True | Some xs \<Rightarrow> None \<notin> set xs)"

definition contexts_are_objects :: "m_evaluation_entity option list option \<Rightarrow> bool" where
  "contexts_are_objects q =
     (case q of
        None \<Rightarrow> True
      | Some es \<Rightarrow> list_all (\<lambda>e. case e of None \<Rightarrow> True | Some m \<Rightarrow> object_or_nil (MEE_EntityContext m)) es)"

lemma contexts_are_objects_iff:
  "contexts_are_objects (Some es) \<longleftrightarrow> (\<forall>e. Some e \<in> set es \<longrightarrow> object_or_nil (MEE_EntityContext e))"
  by (auto simp: contexts_are_objects_def list_all_iff split: option.split)

lemma conforms_entries:
  assumes "\<And>m. conforms doc s (f m) \<longleftrightarrow> P m" "\<not> conforms doc s VNil"
  shows "list_all (conforms doc s) (map (json_ptr f) xs) \<longleftrightarrow> None \<notin> set xs \<and> (\<forall>m. Some m \<in> set xs \<longrightarrow> P m)"
proof -
  have "conforms doc s (json_ptr f x) \<longleftrightarrow> (case x of None \<Rightarrow> False | Some m \<Rightarrow> P m)" for x
    using assms by (cases x) (simp_all add: json_ptr_def)
  then show ?thesis using all_entries [of xs P] by (simp add: list_all_iff)
qed

lemma PutSegmentReorder_meets:
  "meets FlatSwaggerJSON ''putSegmentReorderRequest'' (PutSegmentReorderRequest_MarshalBinary m) \<longleftrightarrow>
   PutSegmentReorderRequest_Validate m = []"
  unfolding meets_flat flat_def_putSegmentReorderRequest_def PutSegmentReorderRequest_MarshalBinary_def
    PutSegmentReorderRequest_Validate_def
  by (auto simp: schema_simps check_simps validate_ids_none list_all_iff split: option.split)

lemma PutDistributions_meets:
  "meets FlatSwaggerJSON ''putDistributionsRequest'' (PutDistributionsRequest_MarshalBinary m) \<longleftrightarrow>
   PutDistributionsRequest_Validate m = [] \<and> PutDistributionsRequest_ContextValidate True m = [] \<and>
   no_nulls (PDR_Distributions m)"
  unfolding meets_flat flat_def_putDistributionsRequest_def PutDistributionsRequest_MarshalBinary_def
    PutDistributionsRequest_Validate_def PutDistributionsRequest_ContextValidate_def
  by (auto simp: schema_simps check_all_empty no_nulls_def optional_entries_def json_list_def json_ptr_def [where f = "json_list f" for f]
    validate_entries_none conforms_reference conforms_entries [OF distribution_meets nil_not_distribution] split: option.split)

text \<open>For the larger schemas, one fact per member.\<close>

definition member_met :: "goval \<Rightarrow> goval \<Rightarrow> string \<times> goval \<Rightarrow> bool" where
  "member_met doc s = (\<lambda>(k, w). case property_schema s k of None \<Rightarrow> True | Some p \<Rightarrow> \<not> read_only p \<and> conforms doc p w)"

lemma conforms_object:
  assumes "resolve doc s = s"
  shows "conforms doc s (VMap ms) \<longleftrightarrow> type_met s (VMap ms) \<and> required_met s ms \<and> list_all (member_met doc s) ms"
  by (simp add: assms member_met_def)

lemma evalContext_schema:
  "resolve doc flat_def_evalContext = flat_def_evalContext"
  "type_met flat_def_evalContext (VMap ms)"
  "required_met flat_def_evalContext ms"
  "member_met doc flat_def_evalContext (''enableDebug'', VBool b)"
  "member_met doc flat_def_evalContext (''entityID'', VString t)"
  "member_met doc flat_def_evalContext (''entityType'', VString t)"
  "member_met doc flat_def_evalContext (''flagKey'', VString t)"
  "member_met doc flat_def_evalContext (''flagTags'', json_list VString ts)"
  "(v = VNil \<or> member_met doc flat_def_evalContext (''entityContext'', v)) \<longleftrightarrow> object_or_nil v"
  "member_met doc flat_def_evalContext (''flagID'', json_int n) \<longleftrightarrow> 1 \<le> sint n"
  "member_met doc flat_def_evalContext (''flagTagsOperator'', VString t) \<longleftrightarrow> t = ''ANY'' \<or> t = ''ALL''"
  by (simp_all add: flat_def_evalContext_def member_met_def schema_simps json_int_def json_list_def list_all_iff
    conforms_any_object)

lemma EvalContext_meets:
  "meets FlatSwaggerJSON ''evalContext'' (EvalContext_MarshalBinary m) \<longleftrightarrow>
   EvalContext_Validate m = [] \<and> object_or_nil (MEC_EntityContext m)"
  unfolding meets_flat EvalContext_MarshalBinary_def EvalContext_Validate_def
    conforms_object [OF evalContext_schema(1)]
  by (auto simp: evalContext_schema check_all_empty validate_MinimumInt_def
    validate_FlagTagsOperatorEnum_def split: option.split)

lemma EvaluationEntity_meets:
  "conforms FlatSwaggerJSON flat_def_evaluationEntity (EvaluationEntity_MarshalBinary m) \<longleftrightarrow>
   object_or_nil (MEE_EntityContext m)"
  unfolding flat_def_evaluationEntity_def EvaluationEntity_MarshalBinary_def
  by (auto simp: schema_simps check_simps conforms_any_object split: option.split)

lemma batch_schema:
  "resolve doc flat_def_evaluationBatchRequest = flat_def_evaluationBatchRequest"
  "type_met flat_def_evaluationBatchRequest (VMap ms)"
  "required_met flat_def_evaluationBatchRequest ms \<longleftrightarrow> map_of ms ''entities'' \<noteq> None"
  "member_met doc flat_def_evaluationBatchRequest (''enableDebug'', VBool b)"
  "member_met FlatSwaggerJSON flat_def_evaluationBatchRequest (''entities'', VNil) \<longleftrightarrow> False"
  "member_met FlatSwaggerJSON flat_def_evaluationBatchRequest (''entities'', VSlice es) \<longleftrightarrow>
     es \<noteq> [] \<and> list_all (conforms FlatSwaggerJSON flat_def_evaluationEntity) es"
  "member_met doc flat_def_evaluationBatchRequest (''flagIDs'', VNil) \<longleftrightarrow> False"
  "member_met doc flat_def_evaluationBatchRequest (''flagIDs'', VSlice (map json_int ns)) \<longleftrightarrow>
     ns \<noteq> [] \<and> (\<forall>n \<in> set ns. 1 \<le> sint n)"
  "member_met doc flat_def_evaluationBatchRequest (''flagKeys'', VNil) \<longleftrightarrow> False"
  "member_met doc flat_def_evaluationBatchRequest (''flagKeys'', VSlice (map VString ts)) \<longleftrightarrow>
     ts \<noteq> [] \<and> (\<forall>t \<in> set ts. t \<noteq> [])"
  "member_met doc flat_def_evaluationBatchRequest (''flagTags'', VNil) \<longleftrightarrow> False"
  "member_met doc flat_def_evaluationBatchRequest (''flagTags'', VSlice (map VString ts)) \<longleftrightarrow>
     ts \<noteq> [] \<and> (\<forall>t \<in> set ts. t \<noteq> [])"
  "member_met doc flat_def_evaluationBatchRequest (''flagTagsOperator'', VString t) \<longleftrightarrow> t = ''ANY'' \<or> t = ''ALL''"
  by (simp_all add: flat_def_evaluationBatchRequest_def member_met_def schema_simps json_int_def list_all_iff
    conforms_reference Suc_le_eq)

definition filled :: "('a \<Rightarrow> bool) \<Rightarrow> 'a list \<Rightarrow> bool" where
  "filled P xs \<longleftrightarrow> xs \<noteq> [] \<and> list_all P xs"

lemma optional_items_none:
  assumes "\<And>x path. V x path = None \<longleftrightarrow> P x"
  shows "optional_items V name q = None \<longleftrightarrow> (case q of None \<Rightarrow> True | Some xs \<Rightarrow> filled P xs)"
  using validate_items_none [of V P name 0, OF assms]
  by (cases q) (simp_all add: optional_items_def validate_MinItems_def check_first_none filled_def list_all_iff
    del: check_first.simps)

lemma batch_valid:
  "EvaluationBatchRequest_Validate m = [] \<longleftrightarrow>
    (case MBR_Entities m of None \<Rightarrow> False | Some es \<Rightarrow> es \<noteq> []) \<and>
    (case MBR_FlagIDs m of None \<Rightarrow> True | Some ns \<Rightarrow> filled (\<lambda>n. 1 \<le> sint n) ns) \<and>
    (case MBR_FlagKeys m of None \<Rightarrow> True | Some ts \<Rightarrow> filled (\<lambda>t. t \<noteq> []) ts) \<and>
    (case MBR_FlagTags m of None \<Rightarrow> True | Some ts \<Rightarrow> filled (\<lambda>t. t \<noteq> []) ts) \<and>
    (case MBR_FlagTagsOperator m of None \<Rightarrow> True | Some t \<Rightarrow> t = ''ANY'' \<or> t = ''ALL'')"
proof -
  have "optional_items (\<lambda>n path. validate_MinimumInt path n 1) name q = None \<longleftrightarrow>
      (case q of None \<Rightarrow> True | Some ns \<Rightarrow> filled (\<lambda>n. 1 \<le> sint n) ns)" for name q
    by (rule optional_items_none) (simp add: validate_MinimumInt_def)
  moreover have "optional_items (\<lambda>s path. validate_MinLength path s 1) name q = None \<longleftrightarrow>
      (case q of None \<Rightarrow> True | Some ts \<Rightarrow> filled (\<lambda>t. t \<noteq> []) ts)" for name q
    by (rule optional_items_none) (simp add: validate_MinLength_def)
  moreover have "(case q of None \<Rightarrow> Some (FieldRequired ''entities'')
       | Some es \<Rightarrow> check_first [validate_MinItems ''entities'' es 1,
           validate_entries EvaluationEntity_Validate ''entities'' 0 es]) = None \<longleftrightarrow>
      (case q of None \<Rightarrow> False | Some es \<Rightarrow> es \<noteq> [])" for q
    by (cases q) (simp_all add: validate_MinItems_def check_first_none validate_entries_none
      EvaluationEntity_Validate_def del: check_first.simps)
  moreover have "validate_FlagTagsOperatorEnum q = None \<longleftrightarrow>
      (case q of None \<Rightarrow> True | Some t \<Rightarrow> t = ''ANY'' \<or> t = ''ALL'')" for q
    by (cases q) (simp_all add: validate_FlagTagsOperatorEnum_def)
  ultimately show ?thesis
    by (simp only: EvaluationBatchRequest_Validate_def check_all_empty list.pred_inject simp_thms)
qed

lemma batch_context_valid: "EvaluationBatchRequest_ContextValidate m = []"
  by (simp add: EvaluationBatchRequest_ContextValidate_def optional_entries_def validate_entries_none
      split: option.split)

lemma json_ptr_list: "json_ptr (json_list f) q = (case q of None \<Rightarrow> VNil | Some xs \<Rightarrow> VSlice (map f xs))"
  by (simp add: json_ptr_def json_list_def [abs_def])

lemma EvaluationBatch_meets:
  "meets FlatSwaggerJSON ''evaluationBatchRequest'' (EvaluationBatchRequest_MarshalBinary m) \<longleftrightarrow>
   EvaluationBatchRequest_Validate m = [] \<and>
   MBR_FlagIDs m \<noteq> None \<and> MBR_FlagKeys m \<noteq> None \<and> MBR_FlagTags m \<noteq> None \<and>
   no_nulls (MBR_Entities m) \<and> contexts_are_objects (MBR_Entities m)"
  unfolding meets_flat EvaluationBatchRequest_MarshalBinary_def batch_valid conforms_object [OF batch_schema(1)]
  by (cases "MBR_Entities m"; cases "MBR_FlagIDs m"; cases "MBR_FlagKeys m"; cases "MBR_FlagTags m")
    (auto simp: batch_schema no_nulls_def contexts_are_objects_iff json_ptr_list filled_def list_all_iff [where P = "\<lambda>n. 1 \<le> sint n"]
      list_all_iff [where P = "\<lambda>t. t \<noteq> []"] conforms_entries [OF EvaluationEntity_meets nil_not_entity] split: option.split)

section \<open>The declared operations\<close>

text \<open>The operations of the paths of a document: its HTTP verb, path, and first tag with the operation's id.\<close>

definition capitalised :: "string \<Rightarrow> string" where
  "capitalised s = (case s of [] \<Rightarrow> [] | c # cs \<Rightarrow> upper_char c # cs)"

definition operation_name :: "goval \<Rightarrow> string" where
  "operation_name op =
     (case member ''tags'' op of
        Some (VSlice (VString t # _)) \<Rightarrow> t @ ''.'' @ capitalised (text_of (member ''operationId'' op)) @ ''Handler''
      | _ \<Rightarrow> [])"

definition declared_operations :: "goval \<Rightarrow> (string \<times> string \<times> goval) list" where
  "declared_operations doc =
     (case member ''paths'' doc of
        None \<Rightarrow> []
      | Some ps \<Rightarrow> concat (map (\<lambda>(path, item). map (\<lambda>(verb, op). (ToUpper verb, path, op)) (object_members item))
          (object_members ps)))"

definition declared_names :: "goval \<Rightarrow> (string \<times> string \<times> string) list" where
  "declared_names doc = map (\<lambda>(verb, path, op). (verb, path, operation_name op)) (declared_operations doc)"

definition handler_name :: "operation \<Rightarrow> string" where
  "handler_name op = (case map_of handler_names op of None \<Rightarrow> [] | Some n \<Rightarrow> n)"

definition registered_names :: "(string \<times> string \<times> string) list" where
  "registered_names = map (\<lambda>(verb, path, op). (verb, path, handler_name op)) handler_routes"

text \<open>The order of the declared operations in the list of the registered ones.\<close>

definition declaration_order :: "nat list" where
  "declaration_order = [23, 24, 17, 18, 13, 1, 20, 19, 27, 6, 32, 31, 14, 2, 29, 28, 7, 11, 0, 25, 5, 12, 26, 21, 15, 3, 8, 16, 4, 30, 9, 22, 10]"

lemma declared_in_order: "declared_names FlatSwaggerJSON = map (\<lambda>i. registered_names ! i) declaration_order"
  by code_simp

lemma declaration_order_permutes: "distinct declaration_order \<and> set declaration_order = {..<length registered_names}"
  by code_simp

lemma declared_are_registered: "set (declared_names FlatSwaggerJSON) = set registered_names"
proof -
  have "set (declared_names FlatSwaggerJSON) = (\<lambda>i. registered_names ! i) ` {..<length registered_names}"
    by (simp add: declared_in_order declaration_order_permutes)
  then show ?thesis by (simp add: lessThan_atLeast0 nth_image)
qed

lemma distinct_map_nth: "distinct xs \<Longrightarrow> distinct is \<Longrightarrow> set is \<subseteq> {..<length xs} \<Longrightarrow> distinct (map (\<lambda>i. xs ! i) is)"
  by (auto simp: distinct_map inj_on_def) (metis lessThan_iff nth_eq_iff_index_eq subsetD)

lemma declared_distinct: "distinct (map (\<lambda>(verb, path, op). (verb, path)) (declared_operations FlatSwaggerJSON))"
proof -
  let ?vp = "\<lambda>(verb, path, _). (verb, path)"
  have "map ?vp registered_names = map ?vp handler_routes"
    by (auto simp: registered_names_def)
  then have "distinct (map ?vp registered_names)" using routes_distinct by simp
  then have "distinct (map (\<lambda>i. map ?vp registered_names ! i) declaration_order)"
    using declaration_order_permutes by (intro distinct_map_nth) simp_all
  moreover have "map (\<lambda>i. map ?vp registered_names ! i) declaration_order = map ?vp (declared_names FlatSwaggerJSON)"
    using declaration_order_permutes by (auto simp: declared_in_order)
  moreover have "map ?vp (declared_names FlatSwaggerJSON) = map ?vp (declared_operations FlatSwaggerJSON)"
    by (auto simp: declared_names_def)
  ultimately show ?thesis by simp
qed

section \<open>The published document\<close>

text \<open>Dropping every lower bound that is zero.\<close>

fun erase_zero_minimum :: "goval \<Rightarrow> goval" where
  "erase_zero_minimum (VMap ms) = VMap (map (\<lambda>(k, v). (k, erase_zero_minimum v))
     (filter (\<lambda>(k, v). \<not> (k = ''minimum'' \<and> map_of ms ''minimum'' = Some (VNumber ''0''))) ms))"
| "erase_zero_minimum (VSlice vs) = VSlice (map erase_zero_minimum vs)"
| "erase_zero_minimum v = v"

lemma published_is_erased: "erase_zero_minimum FlatSwaggerJSON = SwaggerJSON"
  by code_simp

lemma same_paths: "doc_paths = flat_paths"
  unfolding doc_paths_def flat_paths_def
    doc_evaluation_def doc_evaluation_batch_def doc_export_eval_cache_json_def doc_export_sqlite_def
    doc_flags_def doc_flags_entity_types_def doc_flags_flagID_def doc_flags_flagID_enabled_def
    doc_flags_flagID_restore_def doc_flags_flagID_segments_def doc_flags_flagID_segments_reorder_def
    doc_flags_flagID_segments_segmentID_def doc_flags_flagID_segments_segmentID_constraints_def
    doc_flags_flagID_segments_segmentID_constraints_constraintID_def
    doc_flags_flagID_segments_segmentID_distributions_def doc_flags_flagID_snapshots_def
    doc_flags_flagID_tags_def doc_flags_flagID_tags_tagID_def doc_flags_flagID_variants_def
    doc_flags_flagID_variants_variantID_def doc_health_def doc_tags_def flat_evaluation_def
    flat_evaluation_batch_def flat_export_eval_cache_json_def flat_export_sqlite_def flat_flags_def
    flat_flags_entity_types_def flat_flags_flagID_def flat_flags_flagID_enabled_def
    flat_flags_flagID_restore_def flat_flags_flagID_segments_def flat_flags_flagID_segments_reorder_def
    flat_flags_flagID_segments_segmentID_def flat_flags_flagID_segments_segmentID_constraints_def
    flat_flags_flagID_segments_segmentID_constraints_constraintID_def
    flat_flags_flagID_segments_segmentID_distributions_def flat_flags_flagID_snapshots_def
    flat_flags_flagID_tags_def flat_flags_flagID_tags_tagID_def flat_flags_flagID_variants_def
    flat_flags_flagID_variants_variantID_def flat_health_def flat_tags_def
  by (rule refl)

lemma published_names: "declared_names SwaggerJSON = declared_names FlatSwaggerJSON"
proof -
  have "member ''paths'' SwaggerJSON = member ''paths'' FlatSwaggerJSON"
    by (simp add: SwaggerJSON_def FlatSwaggerJSON_def member_def same_paths)
  then show ?thesis by (simp add: declared_names_def declared_operations_def)
qed

lemma map_of_map_filter:
  "(\<And>v. P (k, v)) \<Longrightarrow> map_of (map (\<lambda>(k, v). (k, f v)) (filter P ms)) k = map_option f (map_of ms k)"
  by (induction ms) auto

lemma map_of_map_filter_none: "(\<And>v. \<not> P (k, v)) \<Longrightarrow> map_of (map (\<lambda>(k, v). (k, f v)) (filter P ms)) k = None"
  by (induction ms) auto

lemma member_erase:
  "member k (erase_zero_minimum s) =
    (if k = ''minimum'' \<and> member k s = Some (VNumber ''0'') then None else map_option erase_zero_minimum (member k s))"
proof (cases s)
  case (VMap ms)
  show ?thesis
  proof (cases "k = ''minimum'' \<and> map_of ms k = Some (VNumber ''0'')")
    case True
    then show ?thesis by (auto simp: VMap member_def map_of_map_filter_none)
  next
    case False
    then show ?thesis by (subst VMap) (auto simp: VMap member_def map_of_map_filter)
  qed
qed (simp_all add: member_def)

lemma member_erase_other [simp]:
  "k \<noteq> ''minimum'' \<Longrightarrow> member k (erase_zero_minimum s) = map_option erase_zero_minimum (member k s)"
  by (simp add: member_erase)

lemma erase_scalar [simp]:
  "erase_zero_minimum v = VString t \<longleftrightarrow> v = VString t"
  "erase_zero_minimum v = VNumber n \<longleftrightarrow> v = VNumber n"
  "erase_zero_minimum v = VBool b \<longleftrightarrow> v = VBool b"
  by (cases v; simp)+

lemma erase_scalar_image:
  "VString t \<in> set vs \<Longrightarrow> VString t \<in> erase_zero_minimum ` set vs"
  "VNumber n \<in> set vs \<Longrightarrow> VNumber n \<in> erase_zero_minimum ` set vs"
  using image_eqI [of "VString t" erase_zero_minimum "VString t" "set vs"]
    image_eqI [of "VNumber n" erase_zero_minimum "VNumber n" "set vs"] by simp_all

lemma erase_case:
  "(case erase_zero_minimum v of VString t \<Rightarrow> P t | _ \<Rightarrow> True) = (case v of VString t \<Rightarrow> P t | _ \<Rightarrow> True)"
  by (cases v) simp_all

lemma read_only_erase [simp]: "read_only (erase_zero_minimum p) = read_only p"
proof (cases "member ''readOnly'' p")
  case (Some v)
  then show ?thesis by (cases v) (simp_all add: read_only_def)
qed (simp add: read_only_def)

lemma elements_erase: "elements (erase_zero_minimum v) = map erase_zero_minimum (elements v)"
  by (cases v) (simp_all add: elements_def)

lemma no_member: "member k VNil = None" "member k (VNumber n) = None"
  by (simp_all add: member_def)

lemma member_resolve_erase:
  "member k (resolve (erase_zero_minimum doc) (erase_zero_minimum s)) = member k (erase_zero_minimum (resolve doc s))"
proof (cases "\<exists>r. member ''$ref'' s = Some (VString r)")
  case True
  then obtain r where r: "member ''$ref'' s = Some (VString r)" by blast
  show ?thesis
  proof (cases "member ''definitions'' doc")
    case None
    then show ?thesis by (simp add: resolve_def r)
  next
    case (Some ds)
    then show ?thesis
      by (cases "member (drop (length ''#/definitions/'') r) ds")
        (auto simp: resolve_def r no_member member_erase [of _ ds] simp del: length_Cons list.size)
  qed
next
  case False
  then have "resolve doc s = s" "resolve (erase_zero_minimum doc) (erase_zero_minimum s) = erase_zero_minimum s"
    by (auto simp: resolve_def split: option.splits goval.splits)
  then show ?thesis by simp
qed

lemma erase_met:
  assumes same: "\<And>k. member k t = member k (erase_zero_minimum s)"
  shows "type_met s v \<Longrightarrow> type_met t v"
    and "k \<noteq> ''minimum'' \<Longrightarrow> limit_met k t p = limit_met k s p"
    and "limit_met k s p \<Longrightarrow> limit_met k t p"
    and "enum_met s (VString x) \<Longrightarrow> enum_met t (VString x)"
    and "enum_met s (VNumber x) \<Longrightarrow> enum_met t (VNumber x)"
    and "required_met s ms \<Longrightarrow> required_met t ms"
    and "property_schema t k = Some q \<Longrightarrow> \<exists>q'. property_schema s k = Some q' \<and> q = erase_zero_minimum q'"
  subgoal by (auto simp: type_met_def same split: option.splits goval.splits)
  subgoal by (auto simp: limit_met_def same split: option.splits goval.splits)
  subgoal by (auto simp: limit_met_def same member_erase split: option.splits goval.splits if_splits)
  subgoal by (auto simp: enum_met_def same elements_erase intro: erase_scalar_image split: option.splits)
  subgoal by (auto simp: enum_met_def same elements_erase intro: erase_scalar_image split: option.splits)
  subgoal by (auto simp: required_met_def same elements_erase list_all_iff erase_case simp del: not_None_eq split: option.splits)
  subgoal by (auto simp: property_schema_def same member_erase split: option.splits if_splits)
  done

lemma conforms_erase:
  "conforms doc s v \<Longrightarrow> conforms (erase_zero_minimum doc) (erase_zero_minimum s) v"
proof (induction doc s v rule: conforms.induct)
  case (1 doc s ms)
  note met = erase_met [OF member_resolve_erase [of _ doc s]]
  have "case property_schema (resolve (erase_zero_minimum doc) (erase_zero_minimum s)) k of
      None \<Rightarrow> True | Some p \<Rightarrow> \<not> read_only p \<and> conforms (erase_zero_minimum doc) p w" if "(k, w) \<in> set ms" for k w
    using 1 that met(7) by (fastforce simp: list_all_iff split: option.splits)
  then show ?case using 1(2) met(1,6) by (auto simp: list_all_iff)
next
  case (2 doc s vs)
  note met = erase_met [OF member_resolve_erase [of _ doc s]]
  have "case member ''items'' (resolve (erase_zero_minimum doc) (erase_zero_minimum s)) of
      None \<Rightarrow> True | Some i \<Rightarrow> conforms (erase_zero_minimum doc) i w" if "w \<in> set vs" for w
    using 2 that by (auto simp: member_resolve_erase list_all_iff split: option.splits)
  then show ?case using 2(2) met(1) met(2) [of "''minItems''"] by (auto simp: list_all_iff)
next
  case (3 doc s t)
  note met = erase_met [OF member_resolve_erase [of _ doc s]]
  show ?case using 3 met(1,4) met(2) [of "''minLength''"] by simp
next
  case (4 doc s n)
  note met = erase_met [OF member_resolve_erase [of _ doc s]]
  show ?case using 4 met(1,3,5) by simp
qed (use erase_met [OF member_resolve_erase] in auto)

lemma published_accepts:
  assumes "meets FlatSwaggerJSON name v"
  shows "meets SwaggerJSON name v"
  using conforms_erase [OF assms [unfolded meets_def]]
  by (simp add: meets_def published_is_erased)

section \<open>The operations are served\<close>

lemma handler_name_in: "(op, handler_name op) \<in> set handler_names"
proof -
  have "op \<in> fst ` set handler_names" using handler_names_all by simp
  then have "map_of handler_names op \<noteq> None" by (simp only: map_of_eq_None_iff not_not)
  then obtain n where "map_of handler_names op = Some n" by blast
  then show ?thesis by (simp add: handler_name_def map_of_SomeD)
qed

lemma handler_names_distinct: "distinct (map snd handler_names)"
  by code_simp

lemma handler_name_inj: "handler_name op = handler_name op' \<Longrightarrow> op = op'"
  using handler_names_distinct handler_name_in [of op] handler_name_in [of op']
    inj_onD [of snd "set handler_names" "(op, handler_name op)" "(op', handler_name op')"]
  by (simp add: distinct_map)

lemma declared_route:
  "(verb, path, handler_name op) \<in> set (declared_names FlatSwaggerJSON) \<longleftrightarrow> (verb, path, op) \<in> set handler_routes"
proof -
  have "(verb, path, handler_name op) \<in> set registered_names \<longleftrightarrow>
      (\<exists>op'. (verb, path, op') \<in> set handler_routes \<and> handler_name op = handler_name op')"
    by (force simp: registered_names_def)
  then show ?thesis using handler_name_inj by (auto simp: declared_are_registered)
qed

section \<open>Properties\<close>

text \<open>C20: the generated server and the embedded specification agree on the operations: a fresh server that was set up
  has a handler for a verb, in any case, and a path exactly when the specification declares an operation
  there; that handler is the one whose name is made of the tag and the id of the declared operation, and
  it is set to the function that takes the parameters of this operation, except that in the eval-only mode
  the operations other than the evaluations and the health check answer that they are not
  implemented. No verb and path are declared twice.\<close>

theorem declared_operations_served:
  "(HandlerFor (FlagrAPI_Init mk (Setup cfg (NewFlagrAPI :: 'h flagr_api))) verb path = Some h \<longleftrightarrow>
     (\<exists>op. (ToUpper verb, if path = ''/'' then [] else path, handler_name op) \<in> set (declared_names FlatSwaggerJSON) \<and>
       h = mk op (api_handler_of (Setup cfg (NewFlagrAPI :: 'h flagr_api)) op))) \<and>
   (if EvalOnlyMode (the_eval cfg) \<and> op \<notin> evaluation_operations
    then api_handler_of (Setup cfg (NewFlagrAPI :: 'h flagr_api)) op = Some (NotImplemented (not_implemented op))
    else \<exists>f. api_handler_of (Setup cfg (NewFlagrAPI :: 'h flagr_api)) op = Some (HandlerFunc f) \<and> params_of f = op) \<and>
   distinct (map (\<lambda>(verb, path, op). (verb, path)) (declared_operations FlatSwaggerJSON))"
  using Setup_served [of cfg op "NewFlagrAPI :: 'h flagr_api"] Setup_not_served [of cfg op "NewFlagrAPI :: 'h flagr_api"]
    declared_distinct
  by (auto simp: HandlerFor_Init Setup_handlers declared_route)

text \<open>C16: what the generated code checks of a body when it binds it, its validation and, where it is more than empty,
  the validation of what a request may contain, is the schema that the specification declares for it: a body passes
  exactly when the JSON text written from it conforms to its definition in the document the server
  routes by, in which a read-only member must not be sent. Where the two differ, the schema is stricter: it refuses
  null entries of a list, attachments and entity contexts that are not objects, and absent lists that are written as
  null.\<close>

theorem body_validation_is_schema:
  "(meets FlatSwaggerJSON ''createFlagRequest'' (CreateFlagRequest_MarshalBinary cf) \<longleftrightarrow> CreateFlagRequest_Validate cf = []) \<and>
   (meets FlatSwaggerJSON ''putFlagRequest'' (PutFlagRequest_MarshalBinary pf) \<longleftrightarrow> PutFlagRequest_Validate pf = []) \<and>
   (meets FlatSwaggerJSON ''setFlagEnabledRequest'' (SetFlagEnabledRequest_MarshalBinary sf) \<longleftrightarrow>
      SetFlagEnabledRequest_Validate sf = []) \<and>
   (meets FlatSwaggerJSON ''createSegmentRequest'' (CreateSegmentRequest_MarshalBinary cs) \<longleftrightarrow>
      CreateSegmentRequest_Validate cs = []) \<and>
   (meets FlatSwaggerJSON ''putSegmentRequest'' (PutSegmentRequest_MarshalBinary ps) \<longleftrightarrow> PutSegmentRequest_Validate ps = []) \<and>
   (meets FlatSwaggerJSON ''putSegmentReorderRequest'' (PutSegmentReorderRequest_MarshalBinary pr) \<longleftrightarrow>
      PutSegmentReorderRequest_Validate pr = []) \<and>
   (meets FlatSwaggerJSON ''createConstraintRequest'' (CreateConstraintRequest_MarshalBinary cc) \<longleftrightarrow>
      CreateConstraintRequest_Validate cc = []) \<and>
   (meets FlatSwaggerJSON ''createTagRequest'' (CreateTagRequest_MarshalBinary ct) \<longleftrightarrow> CreateTagRequest_Validate ct = []) \<and>
   (meets FlatSwaggerJSON ''createVariantRequest'' (CreateVariantRequest_MarshalBinary cv) \<longleftrightarrow>
      CreateVariantRequest_Validate cv = [] \<and> object_or_nil (VR_Attachment cv)) \<and>
   (meets FlatSwaggerJSON ''putVariantRequest'' (PutVariantRequest_MarshalBinary pv) \<longleftrightarrow>
      PutVariantRequest_Validate pv = [] \<and> object_or_nil (VR_Attachment pv)) \<and>
   (meets FlatSwaggerJSON ''putDistributionsRequest'' (PutDistributionsRequest_MarshalBinary pd) \<longleftrightarrow>
      PutDistributionsRequest_Validate pd = [] \<and> PutDistributionsRequest_ContextValidate True pd = [] \<and>
      no_nulls (PDR_Distributions pd)) \<and>
   (meets FlatSwaggerJSON ''evalContext'' (EvalContext_MarshalBinary ec) \<longleftrightarrow>
      EvalContext_Validate ec = [] \<and> object_or_nil (MEC_EntityContext ec)) \<and>
   (meets FlatSwaggerJSON ''evaluationBatchRequest'' (EvaluationBatchRequest_MarshalBinary eb) \<longleftrightarrow>
      EvaluationBatchRequest_Validate eb = [] \<and> EvaluationBatchRequest_ContextValidate eb = [] \<and>
      MBR_FlagIDs eb \<noteq> None \<and> MBR_FlagKeys eb \<noteq> None \<and> MBR_FlagTags eb \<noteq> None \<and>
      no_nulls (MBR_Entities eb) \<and> contexts_are_objects (MBR_Entities eb))"
  by (simp only: CreateFlag_meets PutFlag_meets SetFlagEnabled_meets CreateSegment_meets PutSegment_meets
    PutSegmentReorder_meets CreateConstraint_meets CreateTag_meets CreateVariant_meets PutVariant_meets
    PutDistributions_meets EvalContext_meets EvaluationBatch_meets batch_context_valid simp_thms)

text \<open>The published document declares the same operations and is the document the server routes by
  without the lower bounds of zero; so it admits every body the server's document admits, and more: a
  segment with a negative rollout percentage conforms to the published document while the server
  rejects it.\<close>

theorem published_document_is_weaker:
  "declared_names SwaggerJSON = declared_names FlatSwaggerJSON \<and> erase_zero_minimum FlatSwaggerJSON = SwaggerJSON \<and>
   (meets FlatSwaggerJSON name v \<longrightarrow> meets SwaggerJSON name v) \<and>
   (\<exists>m. meets SwaggerJSON ''createSegmentRequest'' (CreateSegmentRequest_MarshalBinary m) \<and>
     CreateSegmentRequest_Validate m \<noteq> [])"
proof -
  let ?m = "\<lparr>SR_Description = Some ''d'', SR_RolloutPercent = Some (- 1)\<rparr>"
  have "meets SwaggerJSON ''createSegmentRequest'' v = conforms SwaggerJSON doc_def_createSegmentRequest v" for v
    by (rule meets_definition [OF definitions_of(2)])
      (simp_all add: doc_definitions_def doc_def_createSegmentRequest_def member_def)
  then have "meets SwaggerJSON ''createSegmentRequest'' (CreateSegmentRequest_MarshalBinary ?m)"
    by (simp add: CreateSegmentRequest_MarshalBinary_def doc_def_createSegmentRequest_def schema_simps check_simps)
  moreover have "CreateSegmentRequest_Validate ?m \<noteq> []" by code_simp
  ultimately show ?thesis using published_names published_is_erased published_accepts by blast
qed

theorem published_document_is_weaker_witness:
  "meets SwaggerJSON ''createTagRequest'' (CreateTagRequest_MarshalBinary \<lparr>CTR_Value = Some ''beta''\<rparr>)"
proof -
  have "meets FlatSwaggerJSON ''createTagRequest'' (CreateTagRequest_MarshalBinary \<lparr>CTR_Value = Some ''beta''\<rparr>)"
    unfolding CreateTag_meets by code_simp
  then show ?thesis
    using published_document_is_weaker [of "''createTagRequest''" "CreateTagRequest_MarshalBinary \<lparr>CTR_Value = Some ''beta''\<rparr>"]
    by simp
qed

end
