(* ===== verification/Flagr_Server.thy ===== *)
theory Flagr_Server
  imports Flagr_Prelude
begin

text \<open>
  The generated server up to the point where it serves: \<^verbatim>\<open>swagger_gen/restapi/server.go\<close>
  (the listeners and the HTTP servers made from the flags), the empty hooks of
  \<^verbatim>\<open>configure_flagr.go\<close> and \<^verbatim>\<open>cmd/flagr-server/main.go\<close>. Sockets, the files of the
  certificates and the parser of the flags are parameters; log lines are left out.
\<close>

section \<open>The server\<close>

record ('a, 'h, 'l) server =
  EnabledListeners :: "string list"
  CleanupTimeout :: i64
  GracefulTimeout :: i64
  MaxHeaderSize :: i64
  SocketPath :: string
  domainSocketL :: "'l option"
  Host :: string
  Port :: i64
  ListenLimit :: i64
  KeepAlive :: i64
  ReadTimeout :: i64
  WriteTimeout :: i64
  httpServerL :: "'l option"
  TLSHost :: string
  TLSPort :: i64
  TLSCertificate :: string
  TLSCertificateKey :: string
  TLSCACertificate :: string
  TLSListenLimit :: i64
  TLSKeepAlive :: i64
  TLSReadTimeout :: i64
  TLSWriteTimeout :: i64
  httpsServerL :: "'l option"
  srv_api :: "'a option"
  srv_handler :: "'h option"
  hasListeners :: bool

definition schemeHTTP :: string where
  "schemeHTTP = ''http''"

definition schemeHTTPS :: string where
  "schemeHTTPS = ''https''"

definition schemeUnix :: string where
  "schemeUnix = ''unix''"

definition defaultSchemes :: "string list" where
  "defaultSchemes = [schemeHTTP]"

definition NewServer :: "'a option \<Rightarrow> ('a, 'h, 'l) server" where
  "NewServer api =
     \<lparr>EnabledListeners = [], CleanupTimeout = 0, GracefulTimeout = 0, MaxHeaderSize = 0, SocketPath = [],
      domainSocketL = None, Host = [], Port = 0, ListenLimit = 0, KeepAlive = 0, ReadTimeout = 0, WriteTimeout = 0,
      httpServerL = None, TLSHost = [], TLSPort = 0, TLSCertificate = [], TLSCertificateKey = [],
      TLSCACertificate = [], TLSListenLimit = 0, TLSKeepAlive = 0, TLSReadTimeout = 0, TLSWriteTimeout = 0,
      httpsServerL = None, srv_api = api, srv_handler = None, hasListeners = False\<rparr>"

definition ConfigureAPI :: "('a \<Rightarrow> 'h) \<Rightarrow> ('a, 'h, 'l) server \<Rightarrow> ('a, 'h, 'l) server" where
  "ConfigureAPI configure s =
     (case srv_api s of None \<Rightarrow> s | Some api \<Rightarrow> s\<lparr>srv_handler := Some (configure api)\<rparr>)"

definition SetAPI :: "('a \<Rightarrow> 'h) \<Rightarrow> 'a option \<Rightarrow> ('a, 'h, 'l) server \<Rightarrow> ('a, 'h, 'l) server" where
  "SetAPI configure api s =
     (case api of
        None \<Rightarrow> s\<lparr>srv_api := None, srv_handler := None\<rparr>
      | Some a \<Rightarrow> s\<lparr>srv_api := Some a, srv_handler := Some (configure a)\<rparr>)"

definition GetHandler :: "('a, 'h, 'l) server \<Rightarrow> 'h option" where
  "GetHandler s = srv_handler s"

definition SetHandler :: "'h option \<Rightarrow> ('a, 'h, 'l) server \<Rightarrow> ('a, 'h, 'l) server" where
  "SetHandler h s = s\<lparr>srv_handler := h\<rparr>"

definition hasScheme :: "string \<Rightarrow> ('a, 'h, 'l) server \<Rightarrow> bool" where
  "hasScheme scheme s =
     list_ex (\<lambda>v. v = scheme) (if EnabledListeners s = [] then defaultSchemes else EnabledListeners s)"

section \<open>Listeners\<close>

text \<open>
  \<^verbatim>\<open>net.Listen\<close>, the address of a listener as text, \<^verbatim>\<open>swag.SplitHostPort\<close> and
  \<^verbatim>\<open>netutil.LimitListener\<close>; the state \<open>'w\<close> is the operating system's.
\<close>

record ('l, 'w) net_lib =
  net_Listen :: "string \<Rightarrow> string \<Rightarrow> 'w \<Rightarrow> 'l err \<times> 'w"
  net_Addr :: "'l \<Rightarrow> string"
  net_SplitHostPort :: "string \<Rightarrow> (string \<times> i64) err"
  net_LimitListener :: "'l \<Rightarrow> i64 \<Rightarrow> 'l"

definition net_JoinHostPort :: "string \<Rightarrow> string \<Rightarrow> string" where
  "net_JoinHostPort host port =
     (if CHR '':'' \<in> set host then ''['' @ host @ '']:'' @ port else host @ '':'' @ port)"

text \<open>The settings of HTTPS that fall back on those of HTTP.\<close>

definition tls_defaults :: "('a, 'h, 'l) server \<Rightarrow> ('a, 'h, 'l) server" where
  "tls_defaults s =
     (let s = (if TLSHost s = [] then s\<lparr>TLSHost := Host s\<rparr> else s);
          s = (if TLSListenLimit s = 0 then s\<lparr>TLSListenLimit := ListenLimit s\<rparr> else s);
          s = (if TLSKeepAlive s = 0 then s\<lparr>TLSKeepAlive := KeepAlive s\<rparr> else s);
          s = (if TLSReadTimeout s = 0 then s\<lparr>TLSReadTimeout := ReadTimeout s\<rparr> else s)
      in if TLSWriteTimeout s = 0 then s\<lparr>TLSWriteTimeout := WriteTimeout s\<rparr> else s)"

definition listen_unix :: "('l, 'w) net_lib \<Rightarrow> ('a, 'h, 'l) server \<Rightarrow> 'w \<Rightarrow> error option \<times> ('a, 'h, 'l) server \<times> 'w" where
  "listen_unix N s w =
     (if \<not> hasScheme schemeUnix s then (None, s, w)
      else case net_Listen N ''unix'' (SocketPath s) w of
        (Inl e, w1) \<Rightarrow> (Some e, s, w1)
      | (Inr l, w1) \<Rightarrow> (None, s\<lparr>domainSocketL := Some l\<rparr>, w1))"

definition listen_http :: "('l, 'w) net_lib \<Rightarrow> ('a, 'h, 'l) server \<Rightarrow> 'w \<Rightarrow> error option \<times> ('a, 'h, 'l) server \<times> 'w" where
  "listen_http N s w =
     (if \<not> hasScheme schemeHTTP s then (None, s, w)
      else case net_Listen N ''tcp'' (net_JoinHostPort (Host s) (dec_int (Port s))) w of
        (Inl e, w1) \<Rightarrow> (Some e, s, w1)
      | (Inr l, w1) \<Rightarrow> (case net_SplitHostPort N (net_Addr N l) of
          Inl e \<Rightarrow> (Some e, s, w1)
        | Inr (h, p) \<Rightarrow> (None, s\<lparr>Host := h, Port := p, httpServerL := Some l\<rparr>, w1)))"

definition listen_https :: "('l, 'w) net_lib \<Rightarrow> ('a, 'h, 'l) server \<Rightarrow> 'w \<Rightarrow> error option \<times> ('a, 'h, 'l) server \<times> 'w" where
  "listen_https N s w =
     (if \<not> hasScheme schemeHTTPS s then (None, s, w)
      else case net_Listen N ''tcp'' (net_JoinHostPort (TLSHost s) (dec_int (TLSPort s))) w of
        (Inl e, w1) \<Rightarrow> (Some e, s, w1)
      | (Inr l, w1) \<Rightarrow> (case net_SplitHostPort N (net_Addr N l) of
          Inl e \<Rightarrow> (Some e, s, w1)
        | Inr (h, p) \<Rightarrow> (None, s\<lparr>TLSHost := h, TLSPort := p, httpsServerL := Some l\<rparr>, w1)))"

definition Server_Listen :: "('l, 'w) net_lib \<Rightarrow> ('a, 'h, 'l) server \<Rightarrow> 'w \<Rightarrow> error option \<times> ('a, 'h, 'l) server \<times> 'w" where
  "Server_Listen N s w =
     (if hasListeners s then (None, s, w)
      else let s0 = (if hasScheme schemeHTTPS s then tls_defaults s else s) in
        case listen_unix N s0 w of
          (Some e, s1, w1) \<Rightarrow> (Some e, s1, w1)
        | (None, s1, w1) \<Rightarrow> (case listen_http N s1 w1 of
            (Some e, s2, w2) \<Rightarrow> (Some e, s2, w2)
          | (None, s2, w2) \<Rightarrow> (case listen_https N s2 w2 of
              (Some e, s3, w3) \<Rightarrow> (Some e, s3, w3)
            | (None, s3, w3) \<Rightarrow> (None, s3\<lparr>hasListeners := True\<rparr>, w3))))"

definition the_listener ::
  "(('a, 'h, 'l) server \<Rightarrow> 'l option) \<Rightarrow> ('l, 'w) net_lib \<Rightarrow> ('a, 'h, 'l) server \<Rightarrow> 'w \<Rightarrow>
   'l option err \<times> ('a, 'h, 'l) server \<times> 'w" where
  "the_listener sel N s w =
     (case (if hasListeners s then (None, s, w) else Server_Listen N s w) of
        (Some e, s1, w1) \<Rightarrow> (Inl e, s1, w1)
      | (None, s1, w1) \<Rightarrow> (Inr (sel s1), s1, w1))"

definition UnixListener :: "('l, 'w) net_lib \<Rightarrow> ('a, 'h, 'l) server \<Rightarrow> 'w \<Rightarrow> 'l option err \<times> ('a, 'h, 'l) server \<times> 'w" where
  "UnixListener = the_listener domainSocketL"

definition HTTPListener :: "('l, 'w) net_lib \<Rightarrow> ('a, 'h, 'l) server \<Rightarrow> 'w \<Rightarrow> 'l option err \<times> ('a, 'h, 'l) server \<times> 'w" where
  "HTTPListener = the_listener httpServerL"

definition TLSListener :: "('l, 'w) net_lib \<Rightarrow> ('a, 'h, 'l) server \<Rightarrow> 'w \<Rightarrow> 'l option err \<times> ('a, 'h, 'l) server \<times> 'w" where
  "TLSListener = the_listener httpsServerL"

section \<open>HTTP servers\<close>

datatype client_auth = NoClientCert | RequireAndVerifyClientCert

record ('c, 'p) tls_settings =
  PreferServerCipherSuites :: bool
  CurvePreferences :: "string list"
  NextProtos :: "string list"
  MinVersion :: string
  CipherSuites :: "string list"
  Certificates :: "'c list"
  ClientCAs :: "'p option"
  ClientAuth :: client_auth

record ('h, 'c, 'p) http_server =
  MaxHeaderBytes :: i64
  Srv_ReadTimeout :: i64
  Srv_WriteTimeout :: i64
  Srv_IdleTimeout :: i64
  KeepAlivesEnabled :: bool
  Srv_Handler :: "'h option"
  TLSConfig :: "('c, 'p) tls_settings option"

text \<open>\<^verbatim>\<open>tls.LoadX509KeyPair\<close>, \<^verbatim>\<open>os.ReadFile\<close> and a pool of the certificates of a PEM text.\<close>

record ('c, 'p) tls_lib =
  tls_LoadX509KeyPair :: "string \<Rightarrow> string \<Rightarrow> 'c err"
  os_ReadFile :: "string \<Rightarrow> string err"
  x509_PoolFromPEM :: "string \<Rightarrow> 'p option"

definition new_http_server :: "('h, 'c, 'p) http_server" where
  "new_http_server = \<lparr>MaxHeaderBytes = 0, Srv_ReadTimeout = 0, Srv_WriteTimeout = 0, Srv_IdleTimeout = 0,
     KeepAlivesEnabled = True, Srv_Handler = None, TLSConfig = None\<rparr>"

text \<open>How serving ends before it has begun: an error is returned, the process exits with a message, or panics.\<close>

datatype serve_stop = ServeError error | ServeFatal string | ServePanic go_panic

definition configureServer :: "('h, 'c, 'p) http_server \<Rightarrow> string \<Rightarrow> string \<Rightarrow> ('h, 'c, 'p) http_server" where
  "configureServer srv scheme addr = srv"

definition configureTLS :: "('c, 'p) tls_settings \<Rightarrow> ('c, 'p) tls_settings" where
  "configureTLS t = t"

definition idle_timeout :: "('a, 'h, 'l) server \<Rightarrow> i64" where
  "idle_timeout s = (if 0 < sint (CleanupTimeout s) then CleanupTimeout s else 0)"

definition unix_server :: "('a, 'h, 'l) server \<Rightarrow> ('h, 'c, 'p) http_server" where
  "unix_server s = configureServer
     (new_http_server\<lparr>MaxHeaderBytes := MaxHeaderSize s, Srv_Handler := srv_handler s,
        Srv_IdleTimeout := idle_timeout s\<rparr>) ''unix'' (SocketPath s)"

definition limit_http :: "('l, 'w) net_lib \<Rightarrow> ('a, 'h, 'l) server \<Rightarrow> ('a, 'h, 'l) server" where
  "limit_http N s =
     (if 0 < sint (ListenLimit s)
      then s\<lparr>httpServerL := map_option (\<lambda>l. net_LimitListener N l (ListenLimit s)) (httpServerL s)\<rparr> else s)"

definition limit_https :: "('l, 'w) net_lib \<Rightarrow> ('a, 'h, 'l) server \<Rightarrow> ('a, 'h, 'l) server" where
  "limit_https N s =
     (if 0 < sint (TLSListenLimit s)
      then s\<lparr>httpsServerL := map_option (\<lambda>l. net_LimitListener N l (TLSListenLimit s)) (httpsServerL s)\<rparr> else s)"

definition plain_http_server :: "('l, 'w) net_lib \<Rightarrow> ('a, 'h, 'l) server \<Rightarrow> serve_stop + ('h, 'c, 'p) http_server" where
  "plain_http_server N s =
     (case httpServerL s of
        None \<Rightarrow> Inl (ServePanic NilDeref)
      | Some l \<Rightarrow> Inr (configureServer
          (new_http_server\<lparr>MaxHeaderBytes := MaxHeaderSize s, Srv_ReadTimeout := ReadTimeout s,
             Srv_WriteTimeout := WriteTimeout s, KeepAlivesEnabled := 0 < sint (KeepAlive s),
             Srv_IdleTimeout := idle_timeout s, Srv_Handler := srv_handler s\<rparr>) ''http'' (net_Addr N l)))"

definition tls_base :: "('c, 'p) tls_settings" where
  "tls_base =
     \<lparr>PreferServerCipherSuites = True, CurvePreferences = [''CurveP256''], NextProtos = [''h2'', ''http/1.1''],
      MinVersion = ''VersionTLS12'',
      CipherSuites = [''TLS_ECDHE_ECDSA_WITH_AES_256_GCM_SHA384'', ''TLS_ECDHE_RSA_WITH_AES_256_GCM_SHA384'',
        ''TLS_ECDHE_ECDSA_WITH_AES_128_GCM_SHA256'', ''TLS_ECDHE_RSA_WITH_AES_128_GCM_SHA256'',
        ''TLS_ECDHE_ECDSA_WITH_CHACHA20_POLY1305'', ''TLS_ECDHE_RSA_WITH_CHACHA20_POLY1305''],
      Certificates = [], ClientCAs = None, ClientAuth = NoClientCert\<rparr>"

definition with_certificate :: "('c, 'p) tls_lib \<Rightarrow> ('a, 'h, 'l) server \<Rightarrow> ('c, 'p) tls_settings \<Rightarrow> serve_stop + ('c, 'p) tls_settings" where
  "with_certificate L s t =
     (if TLSCertificate s \<noteq> [] \<and> TLSCertificateKey s \<noteq> []
      then case tls_LoadX509KeyPair L (TLSCertificate s) (TLSCertificateKey s) of
             Inl e \<Rightarrow> Inl (ServeError e) | Inr c \<Rightarrow> Inr (t\<lparr>Certificates := [c]\<rparr>)
      else Inr t)"

definition with_client_authority :: "('c, 'p) tls_lib \<Rightarrow> ('a, 'h, 'l) server \<Rightarrow> ('c, 'p) tls_settings \<Rightarrow> serve_stop + ('c, 'p) tls_settings" where
  "with_client_authority L s t =
     (if TLSCACertificate s = [] then Inr t
      else case os_ReadFile L (TLSCACertificate s) of
        Inl e \<Rightarrow> Inl (ServeError e)
      | Inr pem \<Rightarrow> (case x509_PoolFromPEM L pem of
          None \<Rightarrow> Inl (ServeError ''cannot parse CA certificate'')
        | Some pool \<Rightarrow> Inr (t\<lparr>ClientCAs := Some pool, ClientAuth := RequireAndVerifyClientCert\<rparr>)))"

definition require_certificate :: "('a, 'h, 'l) server \<Rightarrow> ('c, 'p) tls_settings \<Rightarrow> serve_stop + ('c, 'p) tls_settings" where
  "require_certificate s t =
     (if Certificates t \<noteq> [] then Inr t
      else if TLSCertificate s = [] then
        Inl (ServeFatal (if TLSCertificateKey s = []
          then ''the required flags `--tls-certificate` and `--tls-key` were not specified''
          else ''the required flag `--tls-certificate` was not specified''))
      else if TLSCertificateKey s = [] then Inl (ServeFatal ''the required flag `--tls-key` was not specified'')
      else Inl (ServeFatal ''no certificate was configured for TLS''))"

definition https_server :: "('l, 'w) net_lib \<Rightarrow> ('c, 'p) tls_lib \<Rightarrow> ('a, 'h, 'l) server \<Rightarrow> serve_stop + ('h, 'c, 'p) http_server" where
  "https_server N L s =
     sum_bind (with_certificate L s tls_base) (\<lambda>t1.
     sum_bind (with_client_authority L s t1) (\<lambda>t2.
     sum_bind (require_certificate s (configureTLS t2)) (\<lambda>t3.
       case httpsServerL s of
         None \<Rightarrow> Inl (ServePanic NilDeref)
       | Some l \<Rightarrow> Inr (configureServer
           (new_http_server\<lparr>MaxHeaderBytes := MaxHeaderSize s, Srv_ReadTimeout := TLSReadTimeout s,
              Srv_WriteTimeout := TLSWriteTimeout s, KeepAlivesEnabled := 0 < sint (TLSKeepAlive s),
              Srv_IdleTimeout := idle_timeout s, Srv_Handler := srv_handler s, TLSConfig := Some t3\<rparr>)
           ''https'' (net_Addr N l)))))"

section \<open>Serving\<close>

text \<open>
  The servers that \<^verbatim>\<open>Serve\<close> starts, in order, and what stopped it before all were started; the
  handler of \<^verbatim>\<open>api.Serve(nil)\<close> is a parameter. A scheme that is not enabled starts nothing.
\<close>

definition default_handler :: "('a \<Rightarrow> 'h) \<Rightarrow> ('a, 'h, 'l) server \<Rightarrow> serve_stop + ('a, 'h, 'l) server" where
  "default_handler serve s =
     (case srv_handler s of
        Some h \<Rightarrow> Inr s
      | None \<Rightarrow> (case srv_api s of
          None \<Rightarrow> Inl (ServeError ''can't create the default handler, as no api is set'')
        | Some api \<Rightarrow> Inr (SetHandler (Some (serve api)) s)))"

definition serve_unix :: "('a, 'h, 'l) server \<Rightarrow> ('h, 'c, 'p) http_server list" where
  "serve_unix s = (if hasScheme schemeUnix s then [unix_server s] else [])"

definition serve_http ::
  "('l, 'w) net_lib \<Rightarrow> ('a, 'h, 'l) server \<Rightarrow> serve_stop option \<times> ('h, 'c, 'p) http_server list \<times> ('a, 'h, 'l) server" where
  "serve_http N s =
     (if \<not> hasScheme schemeHTTP s then (None, [], s)
      else let s1 = limit_http N s in
        case plain_http_server N s1 of Inl stop \<Rightarrow> (Some stop, [], s1) | Inr srv \<Rightarrow> (None, [srv], s1))"

definition serve_https ::
  "('l, 'w) net_lib \<Rightarrow> ('c, 'p) tls_lib \<Rightarrow> ('a, 'h, 'l) server \<Rightarrow>
   serve_stop option \<times> ('h, 'c, 'p) http_server list \<times> ('a, 'h, 'l) server" where
  "serve_https N L s =
     (if \<not> hasScheme schemeHTTPS s then (None, [], s)
      else let s1 = limit_https N s in
        case https_server N L s1 of Inl stop \<Rightarrow> (Some stop, [], s1) | Inr srv \<Rightarrow> (None, [srv], s1))"

definition start_servers ::
  "('l, 'w) net_lib \<Rightarrow> ('c, 'p) tls_lib \<Rightarrow> ('a, 'h, 'l) server \<Rightarrow>
   serve_stop option \<times> ('h, 'c, 'p) http_server list \<times> ('a, 'h, 'l) server" where
  "start_servers N L s =
     (case serve_http N s of
        (Some stop, hs, s1) \<Rightarrow> (Some stop, serve_unix s @ hs, s1)
      | (None, hs, s1) \<Rightarrow> (case serve_https N L s1 of (stop, ts, s2) \<Rightarrow> (stop, serve_unix s @ hs @ ts, s2)))"

definition Server_Serve ::
  "('a \<Rightarrow> 'h) \<Rightarrow> ('l, 'w) net_lib \<Rightarrow> ('c, 'p) tls_lib \<Rightarrow> ('a, 'h, 'l) server \<Rightarrow> 'w \<Rightarrow>
   serve_stop option \<times> ('h, 'c, 'p) http_server list \<times> ('a, 'h, 'l) server \<times> 'w" where
  "Server_Serve serve N L s w =
     (case (if hasListeners s then (None, s, w) else Server_Listen N s w) of
        (Some e, s1, w1) \<Rightarrow> (Some (ServeError e), [], s1, w1)
      | (None, s1, w1) \<Rightarrow> (case default_handler serve s1 of
          Inl stop \<Rightarrow> (Some stop, [], s1, w1)
        | Inr s2 \<Rightarrow> (case start_servers N L s2 of (stop, servers, s3) \<Rightarrow> (stop, servers, s3, w1))))"

section \<open>The program\<close>

text \<open>
  \<^verbatim>\<open>main\<close>: the exit code of the process. The embedded documents are loaded, the flags parsed (an
  error that is a request for help ends with 0) and the API served; \<open>served\<close> is the error that serving
  ends with. A server that ends without an error lets the process end with 0.
\<close>

datatype flag_error = ErrHelp | ErrFlags

definition main ::
  "'d err \<Rightarrow> ('d \<Rightarrow> 'a) \<Rightarrow> (('a, 'h, 'l) server \<Rightarrow> flag_error + ('a, 'h, 'l) server) \<Rightarrow> ('a \<Rightarrow> 'h) \<Rightarrow>
   (('a, 'h, 'l) server \<Rightarrow> error option) \<Rightarrow> int" where
  "main spec new_api parse configure served =
     (case spec of
        Inl e \<Rightarrow> 1
      | Inr doc \<Rightarrow> (case parse (NewServer (Some (new_api doc))) of
          Inl ErrHelp \<Rightarrow> 0
        | Inl ErrFlags \<Rightarrow> 1
        | Inr server \<Rightarrow> (case served (ConfigureAPI configure server) of None \<Rightarrow> 0 | Some e \<Rightarrow> 1)))"

section \<open>What listening keeps\<close>

text \<open>What the documentation of \<^verbatim>\<open>net\<close> promises: a listener is open from the moment it is returned, a
  failed call opens none, and an address with an open listener cannot be listened on.\<close>

locale net_laws =
  fixes N :: "('l, 'w) net_lib" and is_open :: "'l \<Rightarrow> 'w \<Rightarrow> bool"
  assumes listen_opens: "net_Listen N nw a w = (Inr l, w') \<Longrightarrow> is_open l w'"
    and listen_keeps: "net_Listen N nw a w = (r, w') \<Longrightarrow> is_open l w \<Longrightarrow> is_open l w'"
    and address_in_use: "is_open l w \<Longrightarrow> net_SplitHostPort N (net_Addr N l) = Inr (h, p) \<Longrightarrow>
      \<exists>e. net_Listen N ''tcp'' (net_JoinHostPort h (dec_int p)) w = (Inl e, w)"
begin

lemma http_listener_open:
  assumes "listen_http N s w = (None, s', w')" "hasScheme schemeHTTP s"
  shows "\<exists>l. httpServerL s' = Some l \<and> is_open l w' \<and> net_SplitHostPort N (net_Addr N l) = Inr (Host s', Port s')"
  using assms by (auto simp: listen_http_def split: prod.splits sum.splits dest: listen_opens)

lemma unix_keeps:
  assumes "listen_unix N s w = (r, s', w')"
  shows "is_open l w \<Longrightarrow> is_open l w'"
    and "httpServerL s' = httpServerL s \<and> Host s' = Host s \<and> Port s' = Port s \<and> EnabledListeners s' = EnabledListeners s"
  using assms by (auto simp: listen_unix_def split: prod.splits sum.splits if_splits dest: listen_keeps)

lemma https_keeps:
  assumes "listen_https N s w = (r, s', w')"
  shows "is_open l w \<Longrightarrow> is_open l w'"
    and "httpServerL s' = httpServerL s \<and> Host s' = Host s \<and> Port s' = Port s \<and> EnabledListeners s' = EnabledListeners s \<and>
      hasListeners s' = hasListeners s"
  using assms by (auto simp: listen_https_def split: prod.splits sum.splits if_splits dest: listen_keeps)

lemma listen_again_fails:
  assumes "hasScheme schemeHTTP s" "\<not> hasListeners s" "is_open l w"
    "net_SplitHostPort N (net_Addr N l) = Inr (Host s, Port s)"
  shows "fst (Server_Listen N s w) \<noteq> None"
proof -
  let ?s = "if hasScheme schemeHTTPS s then tls_defaults s else s"
  obtain r s1 w1 where unix: "listen_unix N ?s w = (r, s1, w1)" by (cases "listen_unix N ?s w") auto
  have keep: "is_open l w1" "Host s1 = Host s" "Port s1 = Port s" "EnabledListeners s1 = EnabledListeners s"
    using unix_keeps [OF unix] assms(3) by (auto simp: tls_defaults_def Let_def)
  then have "fst (listen_http N s1 w1) \<noteq> None"
    using address_in_use [OF keep(1) assms(4)] assms(1) by (auto simp: listen_http_def hasScheme_def)
  then show ?thesis
    using assms(2) unix by (cases r; cases "listen_http N s1 w1") (auto simp: Server_Listen_def Let_def)
qed

end

lemma hasScheme_tls_defaults [simp]: "hasScheme scheme (tls_defaults s) = hasScheme scheme s"
  by (simp add: hasScheme_def tls_defaults_def Let_def)

lemma listen_sel:
  "listen_unix N s w = (r, s', w') \<Longrightarrow> hasListeners s' = hasListeners s \<and> httpServerL s' = httpServerL s \<and>
     EnabledListeners s' = EnabledListeners s"
  "listen_http N s w = (r, s', w') \<Longrightarrow> hasListeners s' = hasListeners s \<and> EnabledListeners s' = EnabledListeners s \<and>
     domainSocketL s' = domainSocketL s"
  "listen_https N s w = (r, s', w') \<Longrightarrow> hasListeners s' = hasListeners s \<and> EnabledListeners s' = EnabledListeners s \<and>
     domainSocketL s' = domainSocketL s \<and> httpServerL s' = httpServerL s \<and> Host s' = Host s \<and> Port s' = Port s"
  by (auto simp: listen_unix_def listen_http_def listen_https_def split: prod.splits sum.splits if_splits)

section \<open>A network for examples\<close>

text \<open>A listener is its address; the state lists the open ones. Port 0 is not chosen but taken as it is.\<close>

definition plain_split :: "string \<Rightarrow> (string \<times> i64) err" where
  "plain_split a =
     (let port = rev (takeWhile (\<lambda>c. c \<noteq> CHR '':'') (rev a));
          host = rev (drop (Suc (length port)) (rev a))
      in if net_JoinHostPort host (dec_int (of_nat (undec port))) = a then Inr (host, of_nat (undec port))
         else Inl ''missing port in address'')"

definition plain_net :: "(string, string list) net_lib" where
  "plain_net =
     \<lparr>net_Listen = (\<lambda>nw a w. if a \<in> set w then (Inl ''address already in use'', w) else (Inr a, a # w)),
      net_Addr = id, net_SplitHostPort = plain_split, net_LimitListener = (\<lambda>l n. l)\<rparr>"

interpretation plain_net: net_laws plain_net "\<lambda>l w. l \<in> set w"
proof unfold_locales
  fix l h p and w :: "string list"
  assume "l \<in> set w" "net_SplitHostPort plain_net (net_Addr plain_net l) = Inr (h, p)"
  then show "\<exists>e. net_Listen plain_net ''tcp'' (net_JoinHostPort h (dec_int p)) w = (Inl e, w)"
    by (auto simp: plain_net_def plain_split_def Let_def split: if_splits)
qed (auto simp: plain_net_def split: if_splits)

definition demo_server :: "(unit, string, string) server" where
  "demo_server = (NewServer (Some ()))\<lparr>EnabledListeners := [schemeHTTP, schemeHTTPS], Host := ''localhost'', Port := 80,
     TLSHost := ''localhost'', TLSPort := 80, TLSCertificate := ''c.pem'', TLSCertificateKey := ''k.pem'',
     TLSCACertificate := ''ca.pem''\<rparr>"

definition demo_tls :: "(string, string) tls_lib" where
  "demo_tls = \<lparr>tls_LoadX509KeyPair = (\<lambda>c k. Inr (c @ k)), os_ReadFile = Inr, x509_PoolFromPEM = Some\<rparr>"

lemma Listen_fails_cases:
  assumes "Server_Listen N s w = (Some e, s', w')" "httpServerL s = None" "httpServerL s' = Some l"
  obtains s1 w1 s2 w2 where "listen_http N s1 w1 = (None, s2, w2)" "listen_https N s2 w2 = (Some e, s', w')"
    "hasScheme schemeHTTP s1" "hasListeners s1 = hasListeners s" "EnabledListeners s1 = EnabledListeners s"
proof -
  let ?s = "if hasScheme schemeHTTPS s then tls_defaults s else s"
  have tls: "httpServerL ?s = None" "hasListeners ?s = hasListeners s" "EnabledListeners ?s = EnabledListeners s"
    using assms(2) by (simp_all add: tls_defaults_def Let_def)
  obtain r1 s1 w1 where unix: "listen_unix N ?s w = (r1, s1, w1)" by (cases "listen_unix N ?s w") auto
  obtain r2 s2 w2 where http: "listen_http N s1 w1 = (r2, s2, w2)" by (cases "listen_http N s1 w1") auto
  obtain r3 s3 w3 where https: "listen_https N s2 w2 = (r3, s3, w3)" by (cases "listen_https N s2 w2") auto
  have none: "httpServerL s1 = None" using listen_sel(1) [OF unix] tls by simp
  have not_http: "httpServerL s2 = None" if "r2 \<noteq> None \<or> \<not> hasScheme schemeHTTP s1"
    using http that none by (auto simp: listen_http_def split: prod.splits sum.splits if_splits)
  have r: "r1 = None" "r2 = None" "r3 = Some e" "s3 = s'" "w3 = w'"
    using assms unix http https none not_http listen_sel(3) [OF https]
    by (auto simp: Server_Listen_def Let_def split: if_splits option.splits)
  moreover have "hasScheme schemeHTTP s1"
    using not_http listen_sel(3) [OF https] r assms(3) by (cases "hasScheme schemeHTTP s1") simp_all
  ultimately show ?thesis using that http https listen_sel(1) [OF unix] tls by simp
qed

lemma limit_sel [simp]:
  "EnabledListeners (limit_http N s) = EnabledListeners s" "EnabledListeners (limit_https N s) = EnabledListeners s"
  "TLSCertificate (limit_http N s) = TLSCertificate s" "TLSCertificate (limit_https N s) = TLSCertificate s"
  "TLSCertificateKey (limit_http N s) = TLSCertificateKey s" "TLSCertificateKey (limit_https N s) = TLSCertificateKey s"
  "TLSCACertificate (limit_http N s) = TLSCACertificate s" "TLSCACertificate (limit_https N s) = TLSCACertificate s"
  by (simp_all add: limit_http_def limit_https_def)

lemma serve_unix_plain: "srv \<in> set (serve_unix s) \<Longrightarrow> TLSConfig srv = None"
  by (auto simp: serve_unix_def unix_server_def configureServer_def new_http_server_def split: if_splits)

lemma serve_http_plain:
  assumes "serve_http N s = (stop, hs, s')"
  shows "srv \<in> set hs \<Longrightarrow> TLSConfig srv = None"
    and "EnabledListeners s' = EnabledListeners s \<and> TLSCertificate s' = TLSCertificate s \<and>
      TLSCertificateKey s' = TLSCertificateKey s \<and> TLSCACertificate s' = TLSCACertificate s"
  using assms
  by (auto simp: serve_http_def Let_def plain_http_server_def configureServer_def new_http_server_def
    split: if_splits sum.splits option.splits)

lemma serve_https_cases:
  assumes "serve_https N L s = (stop, ts, s')"
  shows "srv \<in> set ts \<Longrightarrow> hasScheme schemeHTTPS s \<and> https_server N L (limit_https N s) = Inr srv"
    and "stop = None \<Longrightarrow> hasScheme schemeHTTPS s \<Longrightarrow> \<exists>srv \<in> set ts. https_server N L (limit_https N s) = Inr srv"
  using assms by (auto simp: serve_https_def Let_def split: if_splits sum.splits)

lemma hasScheme_cong: "EnabledListeners s = EnabledListeners t \<Longrightarrow> hasScheme scheme s = hasScheme scheme t"
  by (simp add: hasScheme_def)

text \<open>The flags that decide about TLS are never changed.\<close>

definition tls_flags :: "('a, 'h, 'l) server \<Rightarrow> string list \<times> string \<times> string \<times> string" where
  "tls_flags s = (EnabledListeners s, TLSCertificate s, TLSCertificateKey s, TLSCACertificate s)"

lemma flags_kept:
  "listen_unix N s w = (r, s', w') \<Longrightarrow> tls_flags s' = tls_flags s"
  "listen_http N s w = (r, s', w') \<Longrightarrow> tls_flags s' = tls_flags s"
  "listen_https N s w = (r, s', w') \<Longrightarrow> tls_flags s' = tls_flags s"
  "tls_flags (tls_defaults s) = tls_flags s"
  "tls_flags (s\<lparr>hasListeners := b\<rparr>) = tls_flags s"
  by (auto simp: tls_flags_def listen_unix_def listen_http_def listen_https_def tls_defaults_def Let_def
    split: prod.splits sum.splits if_splits)

lemma Listen_keeps_flags: "Server_Listen N s w = (r, s', w') \<Longrightarrow> tls_flags s' = tls_flags s"
  by (auto simp: Server_Listen_def Let_def flags_kept(4,5) split: if_splits prod.splits option.splits
    dest!: flags_kept(1,2,3))

lemma default_handler_flags: "default_handler serve s = Inr s' \<Longrightarrow> tls_flags s' = tls_flags s"
  by (auto simp: default_handler_def SetHandler_def tls_flags_def split: option.splits)

lemma Server_Serve_cases:
  fixes servers :: "('h, 'c, 'p) http_server list" and s :: "('a, 'h, 'l) server"
  assumes "Server_Serve serve N L s w = (stop, servers, s', w')"
  shows "servers = [] \<and> stop \<noteq> None \<or> (\<exists>(s1 :: ('a, 'h, 'l) server) s2. tls_flags s1 = tls_flags s \<and> start_servers N L s1 = (stop, servers, s2))"
proof -
  obtain r s1 w1 where listen: "(if hasListeners s then (None, s, w) else Server_Listen N s w) = (r, s1, w1)"
    by (cases "if hasListeners s then (None, s, w) else Server_Listen N s w") auto
  then have s1: "tls_flags s1 = tls_flags s" using Listen_keeps_flags by (auto split: if_splits)
  show ?thesis
  proof (cases "\<exists>s2. r = None \<and> default_handler serve s1 = Inr s2")
    case True
    then obtain s2 where s2: "r = None" "default_handler serve s1 = Inr s2" by blast
    obtain p and hs :: "('h, 'c, 'p) http_server list" and s3 where "start_servers N L s2 = (p, hs, s3)" by (rule prod_cases3)
    then have "start_servers N L s2 = (stop, servers, s3)"
      using assms s2 unfolding Server_Serve_def listen by simp
    then show ?thesis using default_handler_flags [OF s2(2)] s1 by metis
  next
    case False
    then show ?thesis using assms unfolding Server_Serve_def listen
      by (cases r; cases "default_handler serve s1") auto
  qed
qed

lemma https_server_settings:
  assumes "https_server N L s = Inr srv" "TLSConfig srv = Some t"
  shows "MinVersion t = ''VersionTLS12'' \<and>
    (\<exists>c. Certificates t = [c] \<and> tls_LoadX509KeyPair L (TLSCertificate s) (TLSCertificateKey s) = Inr c) \<and>
    (TLSCACertificate s \<noteq> [] \<longrightarrow> ClientAuth t = RequireAndVerifyClientCert \<and>
      (\<exists>pem pool. os_ReadFile L (TLSCACertificate s) = Inr pem \<and> x509_PoolFromPEM L pem = Some pool \<and>
        ClientCAs t = Some pool))"
proof -
  obtain t1 t2 t3 where t1: "with_certificate L s tls_base = Inr t1" and t2: "with_client_authority L s t1 = Inr t2"
    and t3: "require_certificate s (configureTLS t2) = Inr t3" and srv: "TLSConfig srv = Some t3"
    using assms(1) by (auto simp: https_server_def sum_bind_eq_Inr_iff configureServer_def split: option.splits)
  have t: "t = t2" "Certificates t2 \<noteq> []"
    using t3 srv assms(2) by (auto simp: require_certificate_def configureTLS_def split: if_splits)
  have base: "Certificates tls_base = []" "MinVersion tls_base = ''VersionTLS12''"
    by (simp_all add: tls_base_def)
  have c2: "Certificates t2 = Certificates t1 \<and> MinVersion t2 = MinVersion t1 \<and>
     (TLSCACertificate s \<noteq> [] \<longrightarrow> ClientAuth t2 = RequireAndVerifyClientCert \<and>
      (\<exists>pem pool. os_ReadFile L (TLSCACertificate s) = Inr pem \<and> x509_PoolFromPEM L pem = Some pool \<and>
        ClientCAs t2 = Some pool))"
    using t2 by (auto simp: with_client_authority_def split: if_splits sum.splits option.splits)
  have "MinVersion t1 = ''VersionTLS12'' \<and> (Certificates t1 \<noteq> [] \<longrightarrow>
      (\<exists>c. Certificates t1 = [c] \<and> tls_LoadX509KeyPair L (TLSCertificate s) (TLSCertificateKey s) = Inr c))"
    using t1 base by (auto simp: with_certificate_def split: if_splits sum.splits)
  then show ?thesis using t c2 by simp
qed

lemma https_server_has_tls: "https_server N L s = Inr srv \<Longrightarrow> TLSConfig srv \<noteq> None"
  by (auto simp: https_server_def sum_bind_eq_Inr_iff configureServer_def split: option.splits)

section \<open>Properties\<close>

text \<open>A failed call of Listen keeps what it has opened: when the HTTP listener was opened and the HTTPS listener
  was not, the server holds the open listener and its port, and no later call of Listen succeeds on it.\<close>

theorem failed_listen_keeps_listener:
  assumes net: "net_laws N is_open" and new: "\<not> hasListeners s" "httpServerL s = None"
    and listen: "Server_Listen N s w = (Some e, s', w')" "httpServerL s' = Some l"
  shows "is_open l w' \<and> \<not> hasListeners s' \<and> fst (Server_Listen N s' w') \<noteq> None"
proof -
  obtain s1 w1 s2 w2 where
    http: "listen_http N s1 w1 = (None, s2, w2)" "hasScheme schemeHTTP s1" and
    https: "listen_https N s2 w2 = (Some e, s', w')" and same: "hasListeners s1 = hasListeners s"
    "EnabledListeners s1 = EnabledListeners s"
    using Listen_fails_cases [OF listen(1) new(2) listen(2)] by metis
  note keeps = net_laws.https_keeps [OF net https] listen_sel(2) [OF http(1)] listen_sel(3) [OF https]
  have l: "is_open l w2" "net_SplitHostPort N (net_Addr N l) = Inr (Host s2, Port s2)"
    using net_laws.http_listener_open [OF net http] keeps listen(2) by auto
  then have "fst (Server_Listen N s' w') \<noteq> None"
    using net_laws.listen_again_fails [OF net, of s' l w'] keeps http(2) new(1) same
      hasScheme_cong [of s1 s' schemeHTTP] by simp
  then show ?thesis using keeps l(1) new(1) same by simp
qed

text \<open>C40: whatever Serve starts with TLS is secured: HTTPS was enabled, the server has the one
  certificate loaded from the two files of the flags, speaks TLS 1.2 or later, and with a certificate
  authority it requires and verifies client certificates against that authority. And a call of
  Serve that is not stopped starts such a server if HTTPS is enabled.\<close>

theorem Serve_secures_https:
  fixes servers :: "('h, 'c, 'p) http_server list" and s :: "('a, 'h, 'l) server"
  assumes serve: "Server_Serve serve N L s w = (stop, servers, s', w')"
  shows "(\<forall>srv \<in> set servers. \<forall>t. TLSConfig srv = Some t \<longrightarrow>
      hasScheme schemeHTTPS s \<and> MinVersion t = ''VersionTLS12'' \<and>
      (\<exists>c. Certificates t = [c] \<and> tls_LoadX509KeyPair L (TLSCertificate s) (TLSCertificateKey s) = Inr c) \<and>
      (TLSCACertificate s \<noteq> [] \<longrightarrow> ClientAuth t = RequireAndVerifyClientCert \<and>
        (\<exists>pem pool. os_ReadFile L (TLSCACertificate s) = Inr pem \<and> x509_PoolFromPEM L pem = Some pool \<and>
          ClientCAs t = Some pool))) \<and>
    (stop = None \<and> hasScheme schemeHTTPS s \<longrightarrow> (\<exists>srv \<in> set servers. TLSConfig srv \<noteq> None))"
proof -
  have "servers = [] \<and> stop \<noteq> None \<or> (\<exists>(s1 :: ('a, 'h, 'l) server) s2. tls_flags s1 = tls_flags s \<and> start_servers N L s1 = (stop, servers, s2))"
    by (rule Server_Serve_cases [OF serve])
  then show ?thesis
  proof (elim disjE exE conjE)
    fix s1 s2 :: "('a, 'h, 'l) server"
    assume flags: "tls_flags s1 = tls_flags s" and start: "start_servers N L s1 = (stop, servers, s2)"
    obtain p and hs :: "('h, 'c, 'p) http_server list" and s3 where http: "serve_http N s1 = (p, hs, s3)" by (rule prod_cases3)
    obtain q and ts :: "('h, 'c, 'p) http_server list" and s4 where https: "serve_https N L s3 = (q, ts, s4)" by (rule prod_cases3)
    have eq: "hasScheme schemeHTTPS s3 = hasScheme schemeHTTPS s" "TLSCertificate s3 = TLSCertificate s"
      "TLSCertificateKey s3 = TLSCertificateKey s" "TLSCACertificate s3 = TLSCACertificate s"
      using flags serve_http_plain(2) [OF http] by (simp_all add: tls_flags_def hasScheme_def)
    have tls: "srv \<in> set ts \<and> p = None" if "srv \<in> set servers" "TLSConfig srv = Some t" for srv t
      using start that http https serve_unix_plain serve_http_plain(1) [OF http]
      by (fastforce simp: start_servers_def split: option.splits)
    have "\<exists>srv \<in> set servers. TLSConfig srv \<noteq> None" if "stop = None" "hasScheme schemeHTTPS s"
    proof -
      have "p = None" "q = None" "set ts \<subseteq> set servers"
        using start http https that(1) by (auto simp: start_servers_def split: option.splits)
      then show ?thesis using serve_https_cases(2) [OF https] that(2) eq(1) https_server_has_tls by blast
    qed
    moreover have "hasScheme schemeHTTPS s \<and> MinVersion t = ''VersionTLS12'' \<and>
      (\<exists>c. Certificates t = [c] \<and> tls_LoadX509KeyPair L (TLSCertificate s) (TLSCertificateKey s) = Inr c) \<and>
      (TLSCACertificate s \<noteq> [] \<longrightarrow> ClientAuth t = RequireAndVerifyClientCert \<and>
        (\<exists>pem pool. os_ReadFile L (TLSCACertificate s) = Inr pem \<and> x509_PoolFromPEM L pem = Some pool \<and>
          ClientCAs t = Some pool))" if "srv \<in> set servers" "TLSConfig srv = Some t" for srv t
      using serve_https_cases(1) [OF https] https_server_settings [OF _ that(2)] tls [OF that] eq by fastforce
    ultimately show ?thesis by blast
  qed simp
qed

theorem Serve_secures_https_witness:
  "case Server_Serve (\<lambda>_. ''api'') plain_net demo_tls (demo_server\<lparr>TLSPort := 443\<rparr>) [] of (stop, servers, s', w') \<Rightarrow>
     stop = None \<and> length servers = 2 \<and> (\<exists>srv \<in> set servers. TLSConfig srv \<noteq> None)"
proof -
  let ?r = "Server_Serve (\<lambda>_. ''api'') plain_net demo_tls (demo_server\<lparr>TLSPort := 443\<rparr>) []"
  have "fst ?r = None" "length (fst (snd ?r)) = 2" "hasScheme schemeHTTPS (demo_server\<lparr>TLSPort := 443\<rparr>)"
    by code_simp+
  moreover obtain stop servers s' w' where r: "?r = (stop, servers, s', w')" by (cases ?r) auto
  ultimately show ?thesis using Serve_secures_https [OF r] by simp
qed

text \<open>The HTTPS listener of the example has the address of the HTTP listener.\<close>

theorem failed_listen_keeps_listener_witness:
  "fst (Server_Listen plain_net demo_server []) \<noteq> None \<and>
   (case Server_Listen plain_net demo_server [] of (r, s', w') \<Rightarrow> fst (Server_Listen plain_net s' w') \<noteq> None)"
proof -
  let ?r = "Server_Listen plain_net demo_server []"
  have init: "\<not> hasListeners demo_server" "httpServerL demo_server = None"
    by (simp_all add: demo_server_def NewServer_def)
  have "fst ?r \<noteq> None" "httpServerL (fst (snd ?r)) \<noteq> None" by code_simp+
  moreover obtain r s' w' where r: "?r = (r, s', w')" by (cases ?r) auto
  ultimately obtain e l where "?r = (Some e, s', w')" "httpServerL s' = Some l" by auto
  note failed = this
  from failed_listen_keeps_listener [OF plain_net.net_laws_axioms init failed] failed(1) show ?thesis by simp
qed

end
