(* ===== verification/Flagr_Shutdown.thy ===== *)
theory Flagr_Shutdown
  imports Flagr_Prelude
begin

text \<open>
  The goroutines of a serving server, \<^verbatim>\<open>swagger_gen/restapi/server.go\<close>: the end of
  \<^verbatim>\<open>Serve\<close> that starts the listeners and waits for them, \<^verbatim>\<open>handleInterrupt\<close>,
  \<^verbatim>\<open>handleShutdown\<close> with a goroutine per server, and callers of \<^verbatim>\<open>Shutdown\<close>. A
  step is what one goroutine does between two points where another can interfere: an atomic operation, a
  send or receive on a channel, or an operation on the wait group. When a listener fails and when
  the graceful shutdown of a server ends is decided outside, so these are steps as well.
\<close>

section \<open>State\<close>

text \<open>Where the goroutines are. A sender on the unbuffered channel waits with its value until it is received.\<close>

datatype interrupt_pc = IWait | ICall | IClose

datatype main_pc = MStart nat | MWait | MDone

datatype server_pc = SServing | SStopped

datatype shutter_pc = ShRunning | ShSend bool | ShDone bool

datatype shutdown_pc = HNone | HWait | HCollect nat bool | HDone

datatype hook = PreServerShutdown | ServerShutdown

record serving =
  shuttingDown :: bool
  shutdown_closed :: bool
  interrupted :: bool
  interrupt_pending :: nat
  interrupt_at :: interrupt_pc
  closers :: nat
  main_at :: main_pc
  servers_at :: "server_pc list"
  shutters_at :: "shutter_pc list"
  shutdown_at :: shutdown_pc
  wg :: int
  hooks :: "hook list"
  panicked :: bool
  exited :: bool

text \<open>\<^verbatim>\<open>Serve\<close> with \<open>n\<close> servers to start, right after \<^verbatim>\<open>go handleInterrupt(once, s)\<close>.\<close>

definition serving_init :: "nat \<Rightarrow> serving" where
  "serving_init n =
     \<lparr>shuttingDown = False, shutdown_closed = False, interrupted = False, interrupt_pending = 0, interrupt_at = IWait,
      closers = 0, main_at = MStart n, servers_at = [], shutters_at = [], shutdown_at = HNone, wg = 0, hooks = [],
      panicked = False, exited = False\<rparr>"

section \<open>Steps\<close>

text \<open>Closing a closed channel and a negative counter of a wait group are panics.\<close>

definition close_shutdown :: "serving \<Rightarrow> serving" where
  "close_shutdown s = (if shutdown_closed s then s\<lparr>panicked := True\<rparr> else s\<lparr>shutdown_closed := True\<rparr>)"

definition wg_Add :: "int \<Rightarrow> serving \<Rightarrow> serving" where
  "wg_Add d s = (let s' = s\<lparr>wg := wg s + d\<rparr> in if wg s' < 0 then s'\<lparr>panicked := True\<rparr> else s')"

definition wg_Done :: "serving \<Rightarrow> serving" where
  "wg_Done s = wg_Add (- 1) s"

datatype serving_event =
    EvSignal
  | EvTakeSignal
  | EvInterruptCAS
  | EvInterruptClose
  | EvCallShutdown
  | EvCallerClose
  | EvStartServer
  | EvStartHandler
  | EvWake
  | EvFinish nat bool
  | EvReceive nat
  | EvSkip
  | EvHandled
  | EvServeReturns nat
  | EvServeFails nat
  | EvServeDone

text \<open>A signal is dropped when the channel of capacity 1 is full.\<close>

definition signal_arrives :: "serving \<Rightarrow> serving option" where
  "signal_arrives s = Some (s\<lparr>interrupt_pending := 1\<rparr>)"

definition handleInterrupt_take :: "serving \<Rightarrow> serving option" where
  "handleInterrupt_take s =
     (if interrupt_at s = IWait \<and> interrupt_pending s > 0
      then let s' = s\<lparr>interrupt_pending := interrupt_pending s - 1\<rparr> in
        Some (if interrupted s' then s' else s'\<lparr>interrupted := True, interrupt_at := ICall\<rparr>)
      else None)"

text \<open>The compare-and-swap of \<^verbatim>\<open>Shutdown\<close>, and the close of the winner.\<close>

definition handleInterrupt_cas :: "serving \<Rightarrow> serving option" where
  "handleInterrupt_cas s =
     (if interrupt_at s = ICall
      then Some (if shuttingDown s then s\<lparr>interrupt_at := IWait\<rparr> else s\<lparr>shuttingDown := True, interrupt_at := IClose\<rparr>)
      else None)"

definition handleInterrupt_close :: "serving \<Rightarrow> serving option" where
  "handleInterrupt_close s =
     (if interrupt_at s = IClose then Some (close_shutdown (s\<lparr>interrupt_at := IWait\<rparr>)) else None)"

definition Shutdown_cas :: "serving \<Rightarrow> serving option" where
  "Shutdown_cas s =
     Some (if shuttingDown s then s else s\<lparr>shuttingDown := True, closers := closers s + 1\<rparr>)"

definition Shutdown_close :: "serving \<Rightarrow> serving option" where
  "Shutdown_close s =
     (if closers s > 0 then Some (close_shutdown (s\<lparr>closers := closers s - 1\<rparr>)) else None)"

definition Serve_starts_server :: "serving \<Rightarrow> serving option" where
  "Serve_starts_server s =
     (case main_at s of
        MStart (Suc n) \<Rightarrow> Some ((wg_Add 1 s)\<lparr>main_at := MStart n, servers_at := servers_at s @ [SServing]\<rparr>)
      | _ \<Rightarrow> None)"

definition Serve_starts_handler :: "serving \<Rightarrow> serving option" where
  "Serve_starts_handler s =
     (if main_at s = MStart 0 then Some ((wg_Add 1 s)\<lparr>main_at := MWait, shutdown_at := HWait\<rparr>) else None)"

definition handleShutdown_wake :: "serving \<Rightarrow> serving option" where
  "handleShutdown_wake s =
     (if shutdown_at s = HWait \<and> shutdown_closed s
      then Some (s\<lparr>hooks := hooks s @ [PreServerShutdown],
        shutters_at := replicate (length (servers_at s)) ShRunning,
        shutdown_at := HCollect (length (servers_at s)) True\<rparr>)
      else None)"

definition shutter_finishes :: "nat \<Rightarrow> bool \<Rightarrow> serving \<Rightarrow> serving option" where
  "shutter_finishes i ok s =
     (if i < length (shutters_at s) \<and> shutters_at s ! i = ShRunning
      then Some (s\<lparr>shutters_at := (shutters_at s)[i := ShSend ok]\<rparr>) else None)"

text \<open>The loop over the servers: after one failure \<^verbatim>\<open>success && <-shutdownChan\<close> receives nothing.\<close>

definition handleShutdown_receive :: "nat \<Rightarrow> serving \<Rightarrow> serving option" where
  "handleShutdown_receive i s =
     (case shutdown_at s of
        HCollect (Suc k) True \<Rightarrow>
          (if i < length (shutters_at s)
           then (case shutters_at s ! i of
               ShSend ok \<Rightarrow> Some (s\<lparr>shutters_at := (shutters_at s)[i := ShDone ok], shutdown_at := HCollect k ok\<rparr>)
             | _ \<Rightarrow> None)
           else None)
      | _ \<Rightarrow> None)"

definition handleShutdown_skip :: "serving \<Rightarrow> serving option" where
  "handleShutdown_skip s =
     (case shutdown_at s of HCollect (Suc k) False \<Rightarrow> Some (s\<lparr>shutdown_at := HCollect k False\<rparr>) | _ \<Rightarrow> None)"

definition handleShutdown_ends :: "serving \<Rightarrow> serving option" where
  "handleShutdown_ends s =
     (case shutdown_at s of
        HCollect 0 ok \<Rightarrow>
          Some (wg_Done (s\<lparr>hooks := (if ok then hooks s @ [ServerShutdown] else hooks s), shutdown_at := HDone\<rparr>))
      | _ \<Rightarrow> None)"

text \<open>A call of \<^verbatim>\<open>http.Server.Serve\<close> returns \<^verbatim>\<open>ErrServerClosed\<close> once the shutdown of
  its server has begun; any other error ends the process.\<close>

definition server_returns :: "nat \<Rightarrow> serving \<Rightarrow> serving option" where
  "server_returns i s =
     (if i < length (servers_at s) \<and> servers_at s ! i = SServing \<and> i < length (shutters_at s)
      then Some (wg_Done (s\<lparr>servers_at := (servers_at s)[i := SStopped]\<rparr>)) else None)"

definition server_fails :: "nat \<Rightarrow> serving \<Rightarrow> serving option" where
  "server_fails i s =
     (if i < length (servers_at s) \<and> servers_at s ! i = SServing then Some (s\<lparr>exited := True\<rparr>) else None)"

definition Serve_returns :: "serving \<Rightarrow> serving option" where
  "Serve_returns s = (if main_at s = MWait \<and> wg s = 0 then Some (s\<lparr>main_at := MDone\<rparr>) else None)"

definition serving_step :: "serving_event \<Rightarrow> serving \<Rightarrow> serving option" where
  "serving_step e s =
     (if panicked s \<or> exited s then None
      else case e of
        EvSignal \<Rightarrow> signal_arrives s
      | EvTakeSignal \<Rightarrow> handleInterrupt_take s
      | EvInterruptCAS \<Rightarrow> handleInterrupt_cas s
      | EvInterruptClose \<Rightarrow> handleInterrupt_close s
      | EvCallShutdown \<Rightarrow> Shutdown_cas s
      | EvCallerClose \<Rightarrow> Shutdown_close s
      | EvStartServer \<Rightarrow> Serve_starts_server s
      | EvStartHandler \<Rightarrow> Serve_starts_handler s
      | EvWake \<Rightarrow> handleShutdown_wake s
      | EvFinish i ok \<Rightarrow> shutter_finishes i ok s
      | EvReceive i \<Rightarrow> handleShutdown_receive i s
      | EvSkip \<Rightarrow> handleShutdown_skip s
      | EvHandled \<Rightarrow> handleShutdown_ends s
      | EvServeReturns i \<Rightarrow> server_returns i s
      | EvServeFails i \<Rightarrow> server_fails i s
      | EvServeDone \<Rightarrow> Serve_returns s)"

inductive serving_reachable :: "nat \<Rightarrow> serving \<Rightarrow> bool" for n where
  start: "serving_reachable n (serving_init n)"
| step: "serving_reachable n s \<Longrightarrow> serving_step e s = Some s' \<Longrightarrow> serving_reachable n s'"

fun run_serving :: "serving_event list \<Rightarrow> serving \<Rightarrow> serving option" where
  "run_serving [] s = Some s"
| "run_serving (e # es) s = (case serving_step e s of None \<Rightarrow> None | Some s' \<Rightarrow> run_serving es s')"

lemma run_reachable: "serving_reachable n s \<Longrightarrow> run_serving es s = Some s' \<Longrightarrow> serving_reachable n s'"
  by (induction es arbitrary: s) (auto split: option.splits intro: serving_reachable.step)

section \<open>The invariant\<close>

definition to_start :: "serving \<Rightarrow> nat" where
  "to_start s = (case main_at s of MStart k \<Rightarrow> k | _ \<Rightarrow> 0)"

definition closing :: "serving \<Rightarrow> nat" where
  "closing s = closers s + of_bool (interrupt_at s = IClose) + of_bool (shutdown_closed s)"

definition live_servers :: "serving \<Rightarrow> nat" where
  "live_servers s = length (filter (\<lambda>p. p = SServing) (servers_at s))"

definition received :: "shutter_pc \<Rightarrow> bool" where
  "received p = (case p of ShDone _ \<Rightarrow> True | _ \<Rightarrow> False)"

text \<open>What has been started, received and called at each point of \<^verbatim>\<open>handleShutdown\<close>.\<close>

definition shutdown_inv :: "serving \<Rightarrow> bool" where
  "shutdown_inv s =
     (case shutdown_at s of
        HNone \<Rightarrow> shutters_at s = [] \<and> hooks s = []
      | HWait \<Rightarrow> shutters_at s = [] \<and> hooks s = []
      | HCollect k ok \<Rightarrow> shutdown_closed s \<and> length (shutters_at s) = length (servers_at s) \<and> hooks s = [PreServerShutdown] \<and>
          k \<le> length (servers_at s) \<and>
          (ok \<longrightarrow> ShDone False \<notin> set (shutters_at s) \<and> k + length (filter received (shutters_at s)) = length (servers_at s))
      | HDone \<Rightarrow> shutdown_closed s \<and> length (shutters_at s) = length (servers_at s) \<and>
          (hooks s = [PreServerShutdown] \<or>
           hooks s = [PreServerShutdown, ServerShutdown] \<and> set (shutters_at s) \<subseteq> {ShDone True}))"

text \<open>Whoever won the compare-and-swap closes the channel, and nobody else does.\<close>

definition close_inv :: "serving \<Rightarrow> bool" where
  "close_inv s \<longleftrightarrow> closing s = of_bool (shuttingDown s) \<and>
     (interrupted s \<longrightarrow> shuttingDown s \<or> interrupt_at s = ICall) \<and> (interrupt_at s = ICall \<longrightarrow> interrupted s)"

text \<open>The counter of the wait group is the number of goroutines it waits for.\<close>

definition start_inv :: "nat \<Rightarrow> serving \<Rightarrow> bool" where
  "start_inv n s \<longleftrightarrow> length (servers_at s) + to_start s = n \<and>
     (shutdown_at s = HNone \<longleftrightarrow> (\<exists>k. main_at s = MStart k)) \<and>
     wg s = int (live_servers s) + of_bool (shutdown_at s \<noteq> HNone \<and> shutdown_at s \<noteq> HDone) \<and>
     (main_at s = MDone \<longrightarrow> wg s = 0)"

definition serving_inv :: "nat \<Rightarrow> serving \<Rightarrow> bool" where
  "serving_inv n s \<longleftrightarrow> \<not> panicked s \<and> close_inv s \<and> start_inv n s \<and> shutdown_inv s"

lemma inv_frame [simp]:
  "start_inv n (s\<lparr>shuttingDown := a\<rparr>) = start_inv n s" "start_inv n (s\<lparr>shutdown_closed := a\<rparr>) = start_inv n s"
  "start_inv n (s\<lparr>interrupted := a\<rparr>) = start_inv n s" "start_inv n (s\<lparr>interrupt_pending := k\<rparr>) = start_inv n s"
  "start_inv n (s\<lparr>interrupt_at := p\<rparr>) = start_inv n s" "start_inv n (s\<lparr>closers := k\<rparr>) = start_inv n s"
  "start_inv n (s\<lparr>hooks := hs\<rparr>) = start_inv n s" "start_inv n (s\<lparr>shutters_at := qs\<rparr>) = start_inv n s"
  "start_inv n (s\<lparr>exited := a\<rparr>) = start_inv n s"
  "shutdown_inv (s\<lparr>shuttingDown := a\<rparr>) = shutdown_inv s" "shutdown_inv (s\<lparr>interrupted := a\<rparr>) = shutdown_inv s"
  "shutdown_inv (s\<lparr>interrupt_pending := k\<rparr>) = shutdown_inv s" "shutdown_inv (s\<lparr>interrupt_at := p\<rparr>) = shutdown_inv s"
  "shutdown_inv (s\<lparr>closers := k\<rparr>) = shutdown_inv s" "shutdown_inv (s\<lparr>main_at := m\<rparr>) = shutdown_inv s"
  "shutdown_inv (s\<lparr>wg := w\<rparr>) = shutdown_inv s" "shutdown_inv (s\<lparr>exited := a\<rparr>) = shutdown_inv s"
  "close_inv (s\<lparr>main_at := m\<rparr>) = close_inv s" "close_inv (s\<lparr>wg := w\<rparr>) = close_inv s"
  "close_inv (s\<lparr>servers_at := ps\<rparr>) = close_inv s" "close_inv (s\<lparr>shutters_at := qs\<rparr>) = close_inv s"
  "close_inv (s\<lparr>shutdown_at := h\<rparr>) = close_inv s" "close_inv (s\<lparr>hooks := hs\<rparr>) = close_inv s"
  "close_inv (s\<lparr>exited := a\<rparr>) = close_inv s" "close_inv (s\<lparr>interrupt_pending := k\<rparr>) = close_inv s"
  by (simp_all add: start_inv_def shutdown_inv_def close_inv_def closing_def to_start_def live_servers_def
    cong: shutdown_pc.case_cong)

lemma shutdown_inv_close: "shutdown_inv s \<Longrightarrow> shutdown_inv (s\<lparr>shutdown_closed := True\<rparr>)"
  by (auto simp: shutdown_inv_def split: shutdown_pc.splits)

lemma serving_inv_init: "serving_inv n (serving_init n)"
  by (simp add: serving_inv_def close_inv_def start_inv_def serving_init_def closing_def to_start_def live_servers_def
    shutdown_inv_def)

lemma filter_update_out:
  "i < length xs \<Longrightarrow> P (xs ! i) \<Longrightarrow> \<not> P y \<Longrightarrow> Suc (length (filter P (xs[i := y]))) = length (filter P xs)"
proof (induction xs arbitrary: i)
  case (Cons x xs)
  then show ?case by (cases i) auto
qed simp

lemma filter_update_in:
  "i < length xs \<Longrightarrow> \<not> P (xs ! i) \<Longrightarrow> P y \<Longrightarrow> length (filter P (xs[i := y])) = Suc (length (filter P xs))"
proof (induction xs arbitrary: i)
  case (Cons x xs)
  then show ?case by (cases i) auto
qed simp

lemma filter_update_same:
  "i < length xs \<Longrightarrow> P (xs ! i) = P y \<Longrightarrow> length (filter P (xs[i := y])) = length (filter P xs)"
proof (induction xs arbitrary: i)
  case (Cons x xs)
  then show ?case by (cases i) auto
qed simp

lemma inv_interrupts:
  assumes "serving_inv n s"
  shows "signal_arrives s = Some s' \<Longrightarrow> serving_inv n s'"
    and "handleInterrupt_take s = Some s' \<Longrightarrow> serving_inv n s'"
    and "handleInterrupt_cas s = Some s' \<Longrightarrow> serving_inv n s'"
    and "handleInterrupt_close s = Some s' \<Longrightarrow> serving_inv n s'"
    and "Shutdown_cas s = Some s' \<Longrightarrow> serving_inv n s'"
    and "Shutdown_close s = Some s' \<Longrightarrow> serving_inv n s'"
  subgoal using assms by (auto simp: signal_arrives_def serving_inv_def)
  subgoal using assms
    by (auto simp: handleInterrupt_take_def serving_inv_def close_inv_def closing_def of_bool_def Let_def split: if_splits)
  subgoal using assms
    by (auto simp: handleInterrupt_cas_def serving_inv_def close_inv_def closing_def of_bool_def split: if_splits)
  subgoal using assms
    by (auto simp: handleInterrupt_close_def close_shutdown_def serving_inv_def close_inv_def closing_def of_bool_def shutdown_inv_close
      split: if_splits)
  subgoal using assms
    by (auto simp: Shutdown_cas_def serving_inv_def close_inv_def closing_def of_bool_def split: if_splits)
  subgoal using assms
    by (auto simp: Shutdown_close_def close_shutdown_def serving_inv_def close_inv_def closing_def of_bool_def shutdown_inv_close
      split: if_splits)
  done

lemma panicked_frame: "close_inv (s\<lparr>panicked := a\<rparr>) = close_inv s"
  by (simp add: close_inv_def closing_def)

lemma inv_starts:
  assumes "serving_inv n s"
  shows "Serve_starts_server s = Some s' \<Longrightarrow> serving_inv n s'"
    and "Serve_starts_handler s = Some s' \<Longrightarrow> serving_inv n s'"
    and "Serve_returns s = Some s' \<Longrightarrow> serving_inv n s'"
proof -
  have parts: "\<not> panicked s" "close_inv s" "start_inv n s" "shutdown_inv s"
    using assms by (simp_all add: serving_inv_def)
  show "serving_inv n s'" if "Serve_starts_server s = Some s'"
    using that parts
    by (auto simp: Serve_starts_server_def wg_Add_def serving_inv_def start_inv_def shutdown_inv_def to_start_def live_servers_def
      split: main_pc.splits nat.splits)
  show "serving_inv n s'" if "Serve_starts_handler s = Some s'"
    using that parts
    by (auto simp: Serve_starts_handler_def wg_Add_def serving_inv_def start_inv_def shutdown_inv_def to_start_def live_servers_def
      split: if_splits)
  show "serving_inv n s'" if "Serve_returns s = Some s'"
    using that parts
    by (auto simp: Serve_returns_def serving_inv_def start_inv_def to_start_def live_servers_def split: if_splits)
qed

lemma wg_Done_ok: "0 < wg s \<Longrightarrow> wg_Done s = s\<lparr>wg := wg s - 1\<rparr>"
  by (simp add: wg_Done_def wg_Add_def Let_def)

lemma inv_shutdown:
  assumes "serving_inv n s"
  shows "handleShutdown_wake s = Some s' \<Longrightarrow> serving_inv n s'"
    and "shutter_finishes i ok s = Some s' \<Longrightarrow> serving_inv n s'"
    and "handleShutdown_receive i s = Some s' \<Longrightarrow> serving_inv n s'"
    and "handleShutdown_skip s = Some s' \<Longrightarrow> serving_inv n s'"
    and "handleShutdown_ends s = Some s' \<Longrightarrow> serving_inv n s'"
    and "server_returns i s = Some s' \<Longrightarrow> serving_inv n s'"
proof -
  have parts: "\<not> panicked s" "close_inv s" "start_inv n s" "shutdown_inv s"
    using assms by (simp_all add: serving_inv_def)
  show "serving_inv n s'" if "handleShutdown_wake s = Some s'"
    using that parts
    by (auto simp: handleShutdown_wake_def serving_inv_def start_inv_def shutdown_inv_def to_start_def live_servers_def
      received_def split: if_splits)
  show "serving_inv n s'" if "handleShutdown_skip s = Some s'"
    using that parts
    by (auto simp: handleShutdown_skip_def serving_inv_def start_inv_def shutdown_inv_def to_start_def live_servers_def
      split: shutdown_pc.splits nat.splits bool.splits)
  show "serving_inv n s'" if fin: "shutter_finishes i ok s = Some s'"
  proof -
    have i: "i < length (shutters_at s)" "shutters_at s ! i = ShRunning" and s': "s' = s\<lparr>shutters_at := (shutters_at s)[i := ShSend ok]\<rparr>"
      using fin by (auto simp: shutter_finishes_def split: if_splits)
    have "length (filter received ((shutters_at s)[i := ShSend ok])) = length (filter received (shutters_at s))"
      by (rule filter_update_same) (use i in \<open>simp_all add: received_def\<close>)
    moreover have "set ((shutters_at s)[i := ShSend ok]) \<subseteq> insert (ShSend ok) (set (shutters_at s))"
      by (rule set_update_subset_insert)
    moreover have "ShRunning \<in> set (shutters_at s)" using i by (metis nth_mem)
    ultimately have "shutdown_inv s'"
      using parts(4) by (auto simp: s' shutdown_inv_def split: shutdown_pc.splits)
    then show ?thesis using parts by (simp add: s' serving_inv_def)
  qed
  show "serving_inv n s'" if rec: "handleShutdown_receive i s = Some s'"
  proof -
    obtain k ok where at: "shutdown_at s = HCollect (Suc k) True" and i: "i < length (shutters_at s)" "shutters_at s ! i = ShSend ok"
      and s': "s' = s\<lparr>shutters_at := (shutters_at s)[i := ShDone ok], shutdown_at := HCollect k ok\<rparr>"
      using rec by (auto simp: handleShutdown_receive_def split: shutdown_pc.splits nat.splits bool.splits if_splits shutter_pc.splits)
    have "length (filter received ((shutters_at s)[i := ShDone ok])) = Suc (length (filter received (shutters_at s)))"
      by (rule filter_update_in) (use i in \<open>simp_all add: received_def\<close>)
    moreover have "set ((shutters_at s)[i := ShDone ok]) \<subseteq> insert (ShDone ok) (set (shutters_at s))"
      by (rule set_update_subset_insert)
    ultimately have "shutdown_inv s'"
      using parts(4) at by (auto simp: s' shutdown_inv_def)
    then show ?thesis using parts at by (auto simp: s' serving_inv_def start_inv_def to_start_def live_servers_def)
  qed
  show "serving_inv n s'" if ends: "handleShutdown_ends s = Some s'"
  proof -
    obtain ok where at: "shutdown_at s = HCollect 0 ok" using ends
      by (auto simp: handleShutdown_ends_def split: shutdown_pc.splits nat.splits)
    have wg: "0 < wg s" using parts(3) at by (simp add: start_inv_def)
    have all: "set (shutters_at s) \<subseteq> {ShDone True}" if ok
    proof
      fix q assume q: "q \<in> set (shutters_at s)"
      have "length (filter received (shutters_at s)) = length (shutters_at s)" "ShDone False \<notin> set (shutters_at s)"
        using parts(4) at that by (auto simp: shutdown_inv_def)
      then have "received q" using q by (metis filter_id_conv length_filter_less less_irrefl)
      then show "q \<in> {ShDone True}" using q \<open>ShDone False \<notin> set (shutters_at s)\<close>
        by (cases q) (auto simp: received_def split: bool.splits intro: bool.exhaust)
    qed
    have s': "s' = s\<lparr>hooks := (if ok then hooks s @ [ServerShutdown] else hooks s), shutdown_at := HDone, wg := wg s - 1\<rparr>"
      using ends at wg by (simp add: handleShutdown_ends_def wg_Done_ok)
    have "shutdown_inv s'" using parts(4) at all by (auto simp: s' shutdown_inv_def)
    then show ?thesis using parts at
      by (auto simp: s' serving_inv_def start_inv_def to_start_def live_servers_def)
  qed
  show "serving_inv n s'" if ret: "server_returns i s = Some s'"
  proof -
    have i: "i < length (servers_at s)" "servers_at s ! i = SServing" "i < length (shutters_at s)"
      using ret by (auto simp: server_returns_def split: if_splits)
    have live: "Suc (length (filter (\<lambda>p. p = SServing) ((servers_at s)[i := SStopped]))) = live_servers s"
      unfolding live_servers_def by (rule filter_update_out) (use i in simp_all)
    then have wg: "0 < wg s" using parts(3) by (simp add: start_inv_def)
    have s': "s' = s\<lparr>servers_at := (servers_at s)[i := SStopped], wg := wg s - 1\<rparr>"
      using ret i wg by (simp add: server_returns_def wg_Done_ok)
    have "shutdown_inv s'" using parts(4) i(3) by (auto simp: s' shutdown_inv_def split: shutdown_pc.splits)
    moreover have "main_at s \<noteq> MDone" using parts(3) wg by (auto simp: start_inv_def)
    ultimately show ?thesis using parts live
      by (auto simp: s' serving_inv_def start_inv_def to_start_def live_servers_def)
  qed
qed

lemma inv_fails: "serving_inv n s \<Longrightarrow> server_fails i s = Some s' \<Longrightarrow> serving_inv n s'"
  by (auto simp: server_fails_def serving_inv_def split: if_splits)

lemma serving_inv_step: "serving_inv n s \<Longrightarrow> serving_step e s = Some s' \<Longrightarrow> serving_inv n s'"
  by (cases e) (auto simp: serving_step_def split: if_splits dest: inv_interrupts inv_starts inv_shutdown inv_fails)

lemma reachable_inv: "serving_reachable n s \<Longrightarrow> serving_inv n s"
  by (induction rule: serving_reachable.induct) (auto intro: serving_inv_init serving_inv_step)

section \<open>Progress\<close>

text \<open>What the goroutines do by themselves: everything but signals, new calls of Shutdown and failing listeners.\<close>

definition internal :: "serving_event \<Rightarrow> bool" where
  "internal e = (case e of EvSignal \<Rightarrow> False | EvCallShutdown \<Rightarrow> False | EvServeFails _ \<Rightarrow> False | _ \<Rightarrow> True)"

definition shutdown_requested :: "serving \<Rightarrow> bool" where
  "shutdown_requested s \<longleftrightarrow> interrupt_pending s > 0 \<or> interrupted s \<or> shuttingDown s"

text \<open>A state satisfies \<open>P\<close> on every run of internal steps from here, and before the run stops.\<close>

inductive inevitably :: "(serving \<Rightarrow> bool) \<Rightarrow> serving \<Rightarrow> bool" for P where
  now: "P s \<Longrightarrow> inevitably P s"
| later: "internal e \<Longrightarrow> serving_step e s = Some t \<Longrightarrow>
    (\<And>e' s'. internal e' \<Longrightarrow> serving_step e' s = Some s' \<Longrightarrow> inevitably P s') \<Longrightarrow> inevitably P s"

definition shutter_work :: "shutter_pc \<Rightarrow> nat" where
  "shutter_work p = (case p of ShRunning \<Rightarrow> 2 | ShSend _ \<Rightarrow> 1 | ShDone _ \<Rightarrow> 0)"

definition shutdown_work :: "nat \<Rightarrow> shutdown_pc \<Rightarrow> nat" where
  "shutdown_work n p = (case p of HNone \<Rightarrow> 3 * n + 5 | HWait \<Rightarrow> 3 * n + 4 | HCollect k _ \<Rightarrow> k + 2 | HDone \<Rightarrow> 0)"

definition main_work :: "main_pc \<Rightarrow> nat" where
  "main_work p = (case p of MStart k \<Rightarrow> 2 * k + 2 | MWait \<Rightarrow> 1 | MDone \<Rightarrow> 0)"

definition interrupt_work :: "interrupt_pc \<Rightarrow> nat" where
  "interrupt_work p = (case p of IWait \<Rightarrow> 0 | ICall \<Rightarrow> 2 | IClose \<Rightarrow> 1)"

definition work :: "nat \<Rightarrow> serving \<Rightarrow> nat" where
  "work n s = 3 * interrupt_pending s + interrupt_work (interrupt_at s) + closers s + main_work (main_at s) +
     live_servers s + shutdown_work n (shutdown_at s) + sum_list (map shutter_work (shutters_at s))"

lemma sum_list_update_less:
  "i < length xs \<Longrightarrow> f y < f (xs ! i) \<Longrightarrow> sum_list (map f (xs[i := y])) < sum_list (map (f :: 'a \<Rightarrow> nat) xs)"
proof (induction xs arbitrary: i)
  case (Cons x xs)
  then show ?case by (cases i) auto
qed simp

lemma work_decreases:
  assumes inv: "serving_inv n s" and int: "internal e" and step: "serving_step e s = Some s'"
  shows "work n s' < work n s"
proof -
  have parts: "start_inv n s" "shutdown_inv s" using inv by (simp_all add: serving_inv_def)
  have live: "\<not> panicked s" "\<not> exited s" using step by (auto simp: serving_step_def split: if_splits)
  note defs = work_def live_servers_def main_work_def interrupt_work_def shutdown_work_def wg_Done_def wg_Add_def close_shutdown_def
  show ?thesis
  proof (cases e)
    case (EvFinish i ok)
    then have i: "i < length (shutters_at s)" "shutters_at s ! i = ShRunning"
      "s' = s\<lparr>shutters_at := (shutters_at s)[i := ShSend ok]\<rparr>"
      using step live by (auto simp: serving_step_def shutter_finishes_def split: if_splits)
    then show ?thesis using sum_list_update_less [of i "shutters_at s" shutter_work "ShSend ok"]
      by (simp add: defs shutter_work_def)
  next
    case (EvReceive i)
    then obtain k ok where i: "i < length (shutters_at s)" "shutters_at s ! i = ShSend ok" "shutdown_at s = HCollect (Suc k) True"
      "s' = s\<lparr>shutters_at := (shutters_at s)[i := ShDone ok], shutdown_at := HCollect k ok\<rparr>"
      using step live by (auto simp: serving_step_def handleShutdown_receive_def
        split: shutdown_pc.splits nat.splits bool.splits if_splits shutter_pc.splits)
    then show ?thesis using sum_list_update_less [of i "shutters_at s" shutter_work "ShDone ok"]
      by (simp add: defs shutter_work_def)
  next
    case (EvServeReturns i)
    then have i: "i < length (servers_at s)" "servers_at s ! i = SServing"
      "s' = wg_Done (s\<lparr>servers_at := (servers_at s)[i := SStopped]\<rparr>)"
      using step live by (auto simp: serving_step_def server_returns_def split: if_splits)
    then show ?thesis using filter_update_out [of i "servers_at s" "\<lambda>p. p = SServing" SStopped]
      by (simp add: defs Let_def)
  next
    case EvWake
    then have "shutdown_at s = HWait" "s' = s\<lparr>hooks := hooks s @ [PreServerShutdown],
        shutters_at := replicate (length (servers_at s)) ShRunning, shutdown_at := HCollect (length (servers_at s)) True\<rparr>"
      using step live by (auto simp: serving_step_def handleShutdown_wake_def split: if_splits)
    moreover have "length (servers_at s) \<le> n" "shutters_at s = []"
      using parts calculation(1) by (auto simp: start_inv_def shutdown_inv_def)
    ultimately show ?thesis by (simp add: defs shutter_work_def sum_list_replicate)
  next
    case EvTakeSignal
    then show ?thesis using step live
      by (auto simp: serving_step_def handleInterrupt_take_def defs Let_def split: if_splits)
  next
    case EvInterruptCAS
    then show ?thesis using step live
      by (auto simp: serving_step_def handleInterrupt_cas_def defs Let_def split: if_splits)
  next
    case EvInterruptClose
    then show ?thesis using step live
      by (auto simp: serving_step_def handleInterrupt_close_def defs Let_def split: if_splits)
  next
    case EvCallerClose
    then show ?thesis using step live
      by (auto simp: serving_step_def Shutdown_close_def defs Let_def split: if_splits)
  next
    case EvStartServer
    then show ?thesis using step live
      by (auto simp: serving_step_def Serve_starts_server_def defs Let_def split: if_splits main_pc.splits nat.splits)
  next
    case EvStartHandler
    then show ?thesis using step live parts(1)
      by (auto simp: serving_step_def Serve_starts_handler_def start_inv_def defs Let_def split: if_splits)
  next
    case EvSkip
    then show ?thesis using step live
      by (auto simp: serving_step_def handleShutdown_skip_def defs Let_def split: if_splits shutdown_pc.splits nat.splits bool.splits)
  next
    case EvHandled
    then show ?thesis using step live
      by (auto simp: serving_step_def handleShutdown_ends_def defs Let_def split: if_splits shutdown_pc.splits nat.splits)
  next
    case EvServeDone
    then show ?thesis using step live
      by (auto simp: serving_step_def Serve_returns_def defs Let_def split: if_splits)
  qed (use int in \<open>simp_all add: internal_def\<close>)
qed

lemma requested_stable:
  "serving_step e s = Some s' \<Longrightarrow> serving_inv n s \<Longrightarrow> shutdown_requested s \<Longrightarrow> shutdown_requested s'"
  by (cases e)
    (auto simp: serving_step_def shutdown_requested_def signal_arrives_def handleInterrupt_take_def handleInterrupt_cas_def
      handleInterrupt_close_def Shutdown_cas_def Shutdown_close_def Serve_starts_server_def Serve_starts_handler_def
      handleShutdown_wake_def shutter_finishes_def handleShutdown_receive_def handleShutdown_skip_def
      handleShutdown_ends_def server_returns_def server_fails_def Serve_returns_def
      wg_Done_def wg_Add_def close_shutdown_def Let_def
      split: if_splits main_pc.splits nat.splits shutdown_pc.splits bool.splits shutter_pc.splits)

text \<open>An enabled internal step, by the goroutine that makes it.\<close>

definition can_step :: "serving \<Rightarrow> bool" where
  "can_step s \<longleftrightarrow> (\<exists>e t. internal e \<and> serving_step e s = Some t)"

lemma can_stepI: "internal e \<Longrightarrow> serving_step e s \<noteq> None \<Longrightarrow> can_step s"
  by (auto simp: can_step_def)

lemma interrupt_can_step:
  assumes "\<not> panicked s" "\<not> exited s"
    and "interrupt_at s \<noteq> IWait \<or> interrupt_pending s > 0 \<or> closers s > 0 \<or> (\<exists>k. main_at s = MStart k)"
  shows "can_step s"
proof -
  have "can_step s" if "interrupt_at s = ICall"
    by (rule can_stepI [of EvInterruptCAS])
      (use assms that in \<open>simp_all add: internal_def serving_step_def handleInterrupt_cas_def\<close>)
  moreover have "can_step s" if "interrupt_at s = IClose"
    by (rule can_stepI [of EvInterruptClose])
      (use assms that in \<open>simp_all add: internal_def serving_step_def handleInterrupt_close_def\<close>)
  moreover have "can_step s" if "interrupt_at s = IWait" "interrupt_pending s > 0"
    by (rule can_stepI [of EvTakeSignal])
      (use assms that in \<open>simp_all add: internal_def serving_step_def handleInterrupt_take_def Let_def\<close>)
  moreover have "can_step s" if "closers s > 0"
    by (rule can_stepI [of EvCallerClose])
      (use assms that in \<open>simp_all add: internal_def serving_step_def Shutdown_close_def\<close>)
  moreover have "can_step s" if "main_at s = MStart k" for k
    by (cases k; rule can_stepI [of "if k = 0 then EvStartHandler else EvStartServer"])
      (use assms that in \<open>auto simp: internal_def serving_step_def Serve_starts_server_def Serve_starts_handler_def\<close>)
  ultimately show ?thesis using assms(3) by (cases "interrupt_at s") auto
qed

lemma collect_can_step:
  assumes inv: "serving_inv n s" "\<not> exited s" and at: "shutdown_at s = HCollect k ok"
  shows "can_step s"
proof -
  have live: "\<not> panicked s" and sh: "shutdown_inv s" using inv(1) by (simp_all add: serving_inv_def)
  show ?thesis
  proof (cases k)
    case 0
    then show ?thesis
      by (intro can_stepI [of EvHandled]) (use at live inv(2) in \<open>simp_all add: internal_def serving_step_def handleShutdown_ends_def\<close>)
  next
    case (Suc j)
    show ?thesis
    proof (cases ok)
      case False
      then show ?thesis
        by (intro can_stepI [of EvSkip])
          (use Suc at live inv(2) in \<open>simp_all add: internal_def serving_step_def handleShutdown_skip_def\<close>)
    next
      case True
      then have "length (filter received (shutters_at s)) < length (shutters_at s)"
        using sh at Suc by (auto simp: shutdown_inv_def)
      then obtain i where i: "i < length (shutters_at s)" "\<not> received (shutters_at s ! i)"
        by (metis filter_True in_set_conv_nth less_irrefl)
      show ?thesis
      proof (cases "shutters_at s ! i")
        case ShRunning
        then show ?thesis
          by (intro can_stepI [of "EvFinish i True"])
            (use i live inv(2) in \<open>simp_all add: internal_def serving_step_def shutter_finishes_def\<close>)
      next
        case (ShSend b)
        then show ?thesis
          by (intro can_stepI [of "EvReceive i"])
            (use Suc True at i live inv(2) in \<open>simp_all add: internal_def serving_step_def handleShutdown_receive_def\<close>)
      qed (use i in \<open>simp add: received_def\<close>)
    qed
  qed
qed

lemma done_can_step:
  assumes inv: "serving_inv n s" "\<not> exited s" and at: "shutdown_at s = HDone" "main_at s = MWait"
  shows "can_step s"
proof -
  have live: "\<not> panicked s" and sh: "shutdown_inv s" and st: "start_inv n s" using inv(1) by (simp_all add: serving_inv_def)
  show ?thesis
  proof (cases "SServing \<in> set (servers_at s)")
    case True
    then obtain i where "i < length (servers_at s)" "servers_at s ! i = SServing" by (auto simp: in_set_conv_nth)
    moreover have "length (shutters_at s) = length (servers_at s)" using sh at by (simp add: shutdown_inv_def)
    ultimately show ?thesis
      by (intro can_stepI [of "EvServeReturns i"])
        (use live inv(2) in \<open>simp_all add: internal_def serving_step_def server_returns_def\<close>)
  next
    case False
    then have "wg s = 0" using st at by (auto simp: start_inv_def live_servers_def filter_empty_conv)
    then show ?thesis
      by (intro can_stepI [of EvServeDone]) (use live inv(2) at in \<open>simp_all add: internal_def serving_step_def Serve_returns_def\<close>)
  qed
qed

lemma progress:
  assumes inv: "serving_inv n s" "\<not> exited s" and req: "shutdown_requested s" and main: "main_at s \<noteq> MDone"
  shows "can_step s"
proof (cases "interrupt_at s \<noteq> IWait \<or> interrupt_pending s > 0 \<or> closers s > 0 \<or> (\<exists>k. main_at s = MStart k)")
  case True
  then show ?thesis using interrupt_can_step inv by (simp add: serving_inv_def)
next
  case False
  then have wait: "main_at s = MWait" using main by (cases "main_at s") auto
  have "shutdown_closed s"
    using inv(1) req False by (auto simp: serving_inv_def close_inv_def closing_def shutdown_requested_def of_bool_def split: if_splits)
  moreover have "shutdown_at s \<noteq> HNone" using inv(1) wait by (simp add: serving_inv_def start_inv_def)
  ultimately consider "shutdown_at s = HWait" "shutdown_closed s" | k ok where "shutdown_at s = HCollect k ok" | "shutdown_at s = HDone"
    by (cases "shutdown_at s") auto
  then show ?thesis
  proof cases
    case 1
    then show ?thesis
      by (intro can_stepI [of EvWake])
        (use inv in \<open>simp_all add: internal_def serving_step_def handleShutdown_wake_def serving_inv_def\<close>)
  qed (use collect_can_step done_can_step inv wait in blast)+
qed

lemma exited_internal: "serving_step e s = Some s' \<Longrightarrow> internal e \<Longrightarrow> \<not> exited s'"
  by (cases e)
    (auto simp: serving_step_def internal_def handleInterrupt_take_def handleInterrupt_cas_def
      handleInterrupt_close_def Shutdown_close_def Serve_starts_server_def Serve_starts_handler_def
      handleShutdown_wake_def shutter_finishes_def handleShutdown_receive_def handleShutdown_skip_def
      handleShutdown_ends_def server_returns_def Serve_returns_def
      wg_Done_def wg_Add_def close_shutdown_def Let_def
      split: if_splits main_pc.splits nat.splits shutdown_pc.splits bool.splits shutter_pc.splits)

lemma completes:
  assumes "serving_inv n s" "\<not> exited s" "shutdown_requested s"
  shows "inevitably (\<lambda>t. main_at t = MDone) s"
  using assms
proof (induction "work n s" arbitrary: s rule: less_induct)
  case less
  show ?case
  proof (cases "main_at s = MDone")
    case False
    from progress [OF less.prems False] obtain e t where e: "internal e" "serving_step e s = Some t"
      by (auto simp: can_step_def)
    moreover have "inevitably (\<lambda>t. main_at t = MDone) s'" if "internal e'" "serving_step e' s = Some s'" for e' s'
      using that less.hyps [OF work_decreases [OF less.prems(1) that]] less.prems serving_inv_step [OF less.prems(1) that(2)]
        exited_internal [OF that(2,1)] requested_stable [OF that(2) less.prems(1,3)] by blast
    ultimately show ?thesis by (rule inevitably.later)
  qed (simp add: inevitably.now)
qed

section \<open>Properties\<close>


text \<open>C18: the hooks run in order and at most once: before the shutdown begins none; PreServerShutdown after the
  channel was closed; ServerShutdown only after it, and only when the graceful shutdown of every server
  has succeeded.\<close>

theorem shutdown_hooks_in_order:
  assumes "serving_reachable n s"
  shows "hooks s \<in> {[], [PreServerShutdown], [PreServerShutdown, ServerShutdown]} \<and>
    (hooks s \<noteq> [] \<longrightarrow> shutdown_closed s) \<and>
    (ServerShutdown \<in> set (hooks s) \<longrightarrow> length (shutters_at s) = n \<and> set (shutters_at s) \<subseteq> {ShDone True})"
proof -
  have inv: "shutdown_inv s" "start_inv n s"
    using reachable_inv [OF assms] by (simp_all add: serving_inv_def)
  then have "to_start s = 0" if "shutdown_at s = HDone" using that by (auto simp: start_inv_def to_start_def split: main_pc.split)
  then show ?thesis using inv by (auto simp: shutdown_inv_def start_inv_def split: shutdown_pc.splits)
qed

text \<open>C17: a requested shutdown completes: from every reachable state in which a signal is pending, was taken, or
  Shutdown was called, whatever order the goroutines run in, Serve returns, provided that they run and
  the process has not ended. The shutdown of a single server may succeed or fail.\<close>

theorem shutdown_completes:
  assumes "serving_reachable n s" "shutdown_requested s" "\<not> exited s"
  shows "inevitably (\<lambda>t. main_at t = MDone) s"
  by (rule completes [OF reachable_inv [OF assms(1)] assms(3,2)])

section \<open>Examples\<close>

text \<open>Two servers; a signal arrives while they start.\<close>

definition signalled_run :: "serving_event list" where
  "signalled_run = [EvStartServer, EvSignal, EvTakeSignal, EvInterruptCAS, EvStartServer, EvStartHandler, EvInterruptClose]"

definition shutdown_run :: "serving_event list" where
  "shutdown_run = signalled_run @ [EvWake, EvServeReturns 1, EvFinish 0 True, EvReceive 0, EvFinish 1 True, EvReceive 1,
     EvHandled, EvServeReturns 0, EvServeDone]"

text \<open>The shutdown of the first server fails; the handler does not wait for the other one.\<close>

definition abandoning_run :: "serving_event list" where
  "abandoning_run = signalled_run @ [EvWake, EvFinish 0 False, EvReceive 0, EvSkip, EvHandled, EvServeReturns 0,
     EvServeReturns 1, EvServeDone]"

lemma init_run: "run_serving es (serving_init n) = Some s \<Longrightarrow> serving_reachable n s"
  by (rule run_reachable [OF serving_reachable.start])


theorem shutdown_hooks_in_order_witness:
  "case run_serving shutdown_run (serving_init 2) of
     None \<Rightarrow> False
   | Some s \<Rightarrow> hooks s = [PreServerShutdown, ServerShutdown] \<and> shutdown_closed s \<and> set (shutters_at s) \<subseteq> {ShDone True}"
proof -
  have "case run_serving shutdown_run (serving_init 2) of
      None \<Rightarrow> False | Some s \<Rightarrow> hooks s = [PreServerShutdown, ServerShutdown]" by code_simp
  then obtain s where s: "run_serving shutdown_run (serving_init 2) = Some s" "hooks s = [PreServerShutdown, ServerShutdown]"
    by (auto split: option.splits)
  then show ?thesis using shutdown_hooks_in_order [OF init_run [OF s(1)]] by simp
qed

theorem shutdown_completes_witness:
  "case run_serving signalled_run (serving_init 2) of
     None \<Rightarrow> False | Some s \<Rightarrow> main_at s = MWait \<and> inevitably (\<lambda>t. main_at t = MDone) s"
proof -
  have "case run_serving signalled_run (serving_init 2) of
      None \<Rightarrow> False | Some s \<Rightarrow> main_at s = MWait \<and> shutdown_requested s \<and> \<not> exited s" by code_simp
  then obtain s where s: "run_serving signalled_run (serving_init 2) = Some s" "main_at s = MWait"
      "shutdown_requested s" "\<not> exited s"
    by (auto split: option.splits)
  then show ?thesis using shutdown_completes [OF init_run [OF s(1)] s(3,4)] by simp
qed

text \<open>When the graceful shutdown of one server fails, Serve returns while that of another server is still
  running, and with it the process ends: the requests the other server was draining are cut off.\<close>

theorem failed_shutdown_abandons_others:
  "\<exists>s. serving_reachable 2 s \<and> main_at s = MDone \<and> shutters_at s = [ShDone False, ShRunning]"
proof -
  have "case run_serving abandoning_run (serving_init 2) of
      None \<Rightarrow> False | Some s \<Rightarrow> main_at s = MDone \<and> shutters_at s = [ShDone False, ShRunning]" by code_simp
  then show ?thesis using init_run by (auto split: option.splits)
qed

end
