(* ===== verification/Spec2Isabelle.thy ===== *)
theory Spec2Isabelle
  imports Flagr_Reorder Flagr_Refresh Flagr_Variants Flagr_Contracts Flagr_Auth Flagr_Export Flagr_Queries Flagr_Record
    Flagr_Routing Flagr_Exchange Flagr_Reading Flagr_Schema Flagr_Start
    Flagr_Conform Flagr_Server Flagr_Shutdown
begin

text \<open>
  A verification library for Flagr, a feature flag service written in Go: what its server computes,
  as executable definitions translated from the source, and the theorems that make it correct. Paths
  are relative to \<^verbatim>\<open>src/\<close>.

  \<^bold>\<open>The program.\<close> A flag has segments in an order; a segment has constraints on the entity that asks, a
  rollout percentage, and distributions of percentages over the variants of the flag. The management API
  edits these rows in a database; a cache polls all flags, prepares them (hash buckets, parsed
  constraints) and answers evaluations; every evaluation may be logged, counted and sent to a recorder.
  In front of all handlers stand generated code that binds and validates requests and global middlewares
  that authenticate them; the cache and the database can be exported. In the eval-only mode the server
  has no database and reads such an export.

  \<^bold>\<open>Foundations.\<close> \<open>Flagr_Prelude\<close>: 64-bit words, panics and errors as sums, decimal printing, Go maps as
  association lists. \<open>Flagr_Lib\<close>: the conversions and the constraint language of libraries, as records of
  functions with the locale \<open>cast_laws\<close>. \<open>Flagr_Util\<close>: \<^verbatim>\<open>pkg/util\<close>. \<open>Flagr_Config\<close>:
  \<^verbatim>\<open>pkg/config/env.go\<close> and part of \<^verbatim>\<open>config.go\<close>. \<open>Flagr_Start\<close>: the start of the server, the set-up of the
  clients and the connection to the database (\<^verbatim>\<open>config.go\<close>, \<^verbatim>\<open>pkg/entity/db.go\<close>, \<^verbatim>\<open>logger.go\<close>,
  \<^verbatim>\<open>configure_flagr.go\<close>).

  \<^bold>\<open>Evaluation.\<close> \<open>Flagr_Entity\<close>: the stored objects of \<^verbatim>\<open>pkg/entity\<close> as records of the same names.
  \<open>Flagr_Rollout\<close>: \<^verbatim>\<open>distribution.go\<close> and the preparation of \<^verbatim>\<open>segment.go\<close>; the lemmas relate
  the code on words to arithmetic on naturals (bucket shares, rollout shares, stickiness, totality for sums
  of 100 percent and the exact condition of the panic otherwise). \<open>Flagr_Cache\<close>: \<^verbatim>\<open>eval_cache.go\<close>
  and \<^verbatim>\<open>eval_cache_fetcher.go\<close>, the reload as steps on a state that holds the cache and the late reloads; the
  invariant is that the cache is always the image of one fetch. \<open>Flagr_Eval\<close> and \<open>Flagr_Requests\<close>:
  \<^verbatim>\<open>eval.go\<close>, single and batch, with random numbers, clock and rate limiter as streams and logs and records as
  events; refinement of the first-match reference, determinism, no panic while the fetched flags are sound.
  \<open>Flagr_Record\<close>: the recorders. \<open>Flagr_Schema\<close>: the answers meet the schema of
  \<^verbatim>\<open>swagger_gen/models\<close>.

  \<^bold>\<open>Management.\<close> \<open>Flagr_Models\<close>, \<open>Flagr_Params\<close>: bodies, their validation and the binding of
  parameters. \<open>Flagr_Mapper\<close>: \<^verbatim>\<open>pkg/mapper\<close>. \<open>Flagr_DB\<close>: \<^verbatim>\<open>GORM\<close> as a record of operations over
  an abstract database state with the locale \<open>gorm_laws\<close> and its in-memory model \<open>mem_gorm\<close>. \<open>Flagr_Crud\<close>: every
  handler of \<^verbatim>\<open>crud.go\<close>, \<^verbatim>\<open>crud_flag_creation.go\<close>, \<^verbatim>\<open>validate.go\<close> and \<^verbatim>\<open>flag_snapshot.go\<close>, from
  database state to reply and database state, statement by statement with its error branches. \<open>Flagr_Queries\<close>: the
  list queries. \<open>Flagr_Consistency\<close>, \<open>Flagr_Reach\<close>, \<open>Flagr_Service\<close>: the invariant of the stored
  configuration, the inductive set of databases the API reaches, and the server made of the API and the
  cache. \<open>Flagr_Refresh\<close>: which of what the API stored can be fetched and prepared. \<open>Flagr_Transactions\<close>,
  \<open>Flagr_Reorder\<close>, \<open>Flagr_Creation\<close>, \<open>Flagr_Variants\<close>: what single handlers do as a whole, atomicity,
  and the paths that leave a transaction open. \<open>Flagr_Answers\<close>, \<open>Flagr_Contracts\<close>: which calls panic, and what comes back
  to the client. \<open>Flagr_Export\<close>: \<^verbatim>\<open>export.go\<close>, with the round trip into the eval-only mode.

  \<^bold>\<open>HTTP.\<close> \<open>Flagr_Auth\<close>: \<^verbatim>\<open>pkg/config/middleware.go\<close> and \<^verbatim>\<open>subject.go\<close>. \<open>Flagr_Api\<close>:
  \<^verbatim>\<open>flagr_api.go\<close> and \<^verbatim>\<open>handler.go\<close>, the operations, their handlers and routes. \<open>Flagr_Url\<close>,
  \<open>Flagr_Builders\<close>, \<open>Flagr_Routing\<close>: the generated URL builders; the path of a built URL is the route of its
  operation with the ids filled in, and its ids and queries bind to what it was built from. \<open>Flagr_Responses\<close>, \<open>Flagr_Operations\<close>,
  \<open>Flagr_Exchange\<close>: the generated responses and handlers; a bound call is written with the status its handler answered.
  \<open>Flagr_Reading\<close>: the calls that do not write to the database (listings, evaluations, health check, exports) up to
  the written response, which is the answer of the handler with its payload.

  \<^bold>\<open>Specification and server.\<close> \<open>Flagr_Spec\<close>, \<open>Flagr_FlatSpec\<close>: the two documents of
  \<^verbatim>\<open>swagger_gen/restapi/embedded_spec.go\<close> as JSON values, one definition per path and schema.
  \<open>Flagr_Conform\<close>: what a JSON schema of such a document demands, and the JSON texts of the request bodies
  (their \<^verbatim>\<open>MarshalBinary\<close>); the declared operations are those the API serves, and the generated
  validation of a body accepts it when its text meets the schema. \<open>Flagr_Server\<close>: \<^verbatim>\<open>server.go\<close> and
  \<^verbatim>\<open>cmd/flagr-server/main.go\<close> up to the point where the listeners serve, over a network with the
  locale \<open>net_laws\<close>; an encrypted listener never serves without a certificate. \<open>Flagr_Shutdown\<close>: the
  goroutines from there on (serving, the signal, the orderly shutdown) as an inductive step relation, with invariants of
  the reachable states and, as the liveness property, that after a signal every schedule ends the server.
\<close>

text \<open>
  \<^bold>\<open>Conventions.\<close> \<^verbatim>\<open>uint\<close> and \<^verbatim>\<open>int64\<close> are 64-bit words; conversions keep the bits, and arithmetic wraps. A
  pointer is an option; a nil dereference or an index out of range is a value on the left of a sum.
  Strings are lists of bytes; \<^verbatim>\<open>strings.ToLower\<close>, \<^verbatim>\<open>strings.ToUpper\<close> and JSON strings are modelled for
  ASCII text. Maps are association lists whose order stands for the unspecified order of \<^verbatim>\<open>range\<close>. Requests to the management
  API are serial; what timed-out reloads of the cache do in between is a step of its own.

  \<^bold>\<open>Hypotheses.\<close> Code that is not in the repository is an argument: \<open>cast_laws\<close>, \<open>gorm_laws\<close>,
  \<open>query_laws\<close>, \<open>swag_laws\<close>, \<open>web_laws\<close>, \<open>db_laws\<close> and \<open>net_laws\<close> state what its documentation promises, and each has a
  concrete interpretation on which the witnesses compute (\<open>go_cast\<close>, \<open>mem_gorm\<close>, \<open>mem_query\<close>,
  \<open>go_swag\<close>, \<open>plain_context\<close>, \<open>third_time_db\<close>, \<open>plain_net\<close>; \<open>mem_sqlite\<close>, \<open>plain_web_lib\<close> and \<open>demo_record_lib\<close> are instances of
  the parameters without laws). Other hypotheses are facts the code does not establish: that a body has fewer than \<open>2 ^ 45\<close> distributions,
  the pointers that an address space of \<open>2 ^ 48\<close> bytes holds (\<open>fits_memory\<close>), which keeps
  the sum of their percentages from wrapping; that a page has a positive limit (\<open>proper_page\<close>) and a pattern no wild cards
  (\<open>plain_text\<close>); that no list of distributions or entities has a null entry, which the handlers dereference; that the
  subject of a request can be read; that cached segments have ids below \<open>2 ^ 63\<close> (\<open>small_cache\<close>).

  \<^bold>\<open>Termination.\<close> All loops of the source are structural recursions over the list they range over, the
  binary search is a recursion with a measure on the width of its interval, and the retries of the database
  connection are bounded by the configured number of attempts; no definition has fuel. The polling of the cache and the goroutines of the running server are relations
  between states; that a signalled server stops is shown with the measure \<open>work\<close>, which every step of its goroutines
  decreases.

  \<^bold>\<open>Not modelled.\<close> The text of validation messages; durations and latencies; the tracer and the logger of panics;
  goroutines that only log asynchronous failures; matching a path against the routes, which is the router of the
  runtime library; the log lines of the server and the parser of its
  command line; the registry of formats; \<^verbatim>\<open>UnmarshalBinary\<close> of the generated models, which only calls the
  decoder of the library; the accessors of the generated API object for its documentation pages; unused types
  (\<^verbatim>\<open>evaluator.go\<close>, \<^verbatim>\<open>user.go\<close>); the browser client.
\<close>

end
